(* ===== verification/Prelude.thy ===== *)
theory Prelude
  imports Complex_Main "HOL-Library.Monad_Syntax"
begin

text \<open>
  Shared vocabulary of the development: the conventions for C values and the small generic
  lemmas that the component theories use.

  \<^item> A C \<^verbatim>\<open>int\<close> is an \<^typ>\<open>int\<close> in the range of 32 bits. Signed overflow is undefined in C, so
    every addition, subtraction and multiplication of the source whose operands are not
    bounded by its own checks goes through \<open>ck\<close>, which is \<^const>\<open>None\<close> out of range.
  \<^item> A C function that may meet undefined behaviour (overflow, a read out of bounds, a
    dangling pointer, a conversion of a float that does not fit) returns an option;
    \<^const>\<open>None\<close> stands for the undefined behaviour. The negative error codes of the source
    are ordinary values.
  \<^item> An array read is \<open>rd\<close>, which is \<^const>\<open>None\<close> out of bounds.
\<close>

named_theorems fp_eval \<open>rules that evaluate floating-point terms on numerals\<close>

named_theorems ez_defs \<open>definitions of the handle's operations, for whole-program evaluation\<close>

subsection \<open>C integers\<close>

definition INT_MAX :: int where
  "INT_MAX = 2147483647"

definition INT_MIN :: int where
  "INT_MIN = - 2147483648"

definition in_int :: "int \<Rightarrow> bool" where
  "in_int n \<longleftrightarrow> INT_MIN \<le> n \<and> n \<le> INT_MAX"

definition ck :: "int \<Rightarrow> int option" where
  "ck n = (if in_int n then Some n else None)"

lemma in_int_iff: "in_int n \<longleftrightarrow> - 2147483648 \<le> n \<and> n \<le> 2147483647"
  by (simp add: in_int_def INT_MIN_def INT_MAX_def)

lemma ck_Some_iff [simp]: "ck n = Some m \<longleftrightarrow> in_int n \<and> m = n"
  by (auto simp: ck_def)

lemma ck_in_int [simp]: "in_int n \<Longrightarrow> ck n = Some n"
  by simp

lemma ck_None_iff [simp]: "ck n = None \<longleftrightarrow> \<not> in_int n"
  by (simp add: ck_def)

text \<open>Integer division and remainder of C truncate towards zero.\<close>

definition cdiv :: "int \<Rightarrow> int \<Rightarrow> int" where
  "cdiv a b = sgn a * sgn b * (\<bar>a\<bar> div \<bar>b\<bar>)"

definition cmod :: "int \<Rightarrow> int \<Rightarrow> int" where
  "cmod a b = a - b * cdiv a b"

lemma cmod_nonneg_eq: "0 \<le> a \<Longrightarrow> 0 < b \<Longrightarrow> cmod a b = a mod b"
  by (cases "a = 0") (simp_all add: cmod_def cdiv_def minus_mult_div_eq_mod)

subsection \<open>Checked reads\<close>

definition rd :: "'a list \<Rightarrow> nat \<Rightarrow> 'a option" where
  "rd xs i = (if i < length xs then Some (xs ! i) else None)"

lemma rd_Some_iff [simp]: "rd xs i = Some x \<longleftrightarrow> i < length xs \<and> x = xs ! i"
  by (auto simp: rd_def)

lemma rd_None_iff [simp]: "rd xs i = None \<longleftrightarrow> length xs \<le> i"
  by (simp add: rd_def)

lemma rd_in [simp]: "i < length xs \<Longrightarrow> rd xs i = Some (xs ! i)"
  by simp

lemma rd_append: "rd (xs @ ys) i = (if i < length xs then rd xs i else rd ys (i - length xs))"
  by (auto simp: rd_def nth_append)

text \<open>A read through a C \<^verbatim>\<open>int\<close> index, which may be negative.\<close>

definition rdi :: "'a list \<Rightarrow> int \<Rightarrow> 'a option" where
  "rdi xs i = (if i < 0 then None else rd xs (nat i))"

lemma rdi_Some_iff [simp]:
  "rdi xs i = Some x \<longleftrightarrow> 0 \<le> i \<and> i < int (length xs) \<and> x = xs ! nat i"
  by (auto simp: rdi_def nat_less_iff)

subsection \<open>Binding\<close>

lemmas bind_Some_iff = Option.bind_eq_Some_conv

lemma bind_SomeE: "Option.bind m f = Some y \<Longrightarrow> (\<And>x. m = Some x \<Longrightarrow> f x = Some y \<Longrightarrow> P) \<Longrightarrow> P"
  by (auto simp: bind_Some_iff)

lemma bind_ck [simp]: "Option.bind (ck n) f = Some y \<longleftrightarrow> in_int n \<and> f n = Some y"
  by (auto simp: bind_Some_iff)

lemma bind_rd [simp]: "Option.bind (rd xs i) f = Some y \<longleftrightarrow> i < length xs \<and> f (xs ! i) = Some y"
  by (auto simp: bind_Some_iff)

lemma bind_cong_Some [fundef_cong]:
  "m = m' \<Longrightarrow> (\<And>x. m' = Some x \<Longrightarrow> f x = g x) \<Longrightarrow> Option.bind m f = Option.bind m' g"
  by (cases m') auto

end
