(* ===== verification/Slices.thy ===== *)
theory Slices
  imports Prelude
begin

text \<open>
  The string utilities of oppai.c: \<^verbatim>\<open>slice_t\<close> and the functions that walk it, and
  \<^verbatim>\<open>p_consume_til\<close>, on which the parser rests.
  A buffer is the list of bytes of one allocated object; a slice is a pair of indices into
  it, as the two pointers of the source are. Every byte the source reads is a checked read.

  Beside the walking functions stand their specifications on lists (\<open>trim_spec\<close>,
  \<open>split_on\<close>, \<open>takeWhile\<close>), and the lemmas that the functions implement them: no read is
  out of bounds, and the text of the result is the specification of the text of the input.
\<close>

type_synonym buf = "char list"

definition NUL :: char where
  "NUL = CHR 0x00"

record slice =
  s_start :: nat
  s_end :: nat

definition mk_slice :: "nat \<Rightarrow> nat \<Rightarrow> slice" where
  "mk_slice a e = \<lparr>s_start = a, s_end = e\<rparr>"

lemma mk_slice_sel [simp]: "s_start (mk_slice a e) = a" "s_end (mk_slice a e) = e"
  by (simp_all add: mk_slice_def)

text \<open>The bytes from index \<open>p\<close> up to \<open>e\<close>; the text of a slice.\<close>

definition sub :: "buf \<Rightarrow> nat \<Rightarrow> nat \<Rightarrow> string" where
  "sub b p e = take (e - p) (drop p b)"

definition slice_str :: "buf \<Rightarrow> slice \<Rightarrow> string" where
  "slice_str b s = sub b (s_start s) (s_end s)"

definition slice_ok :: "buf \<Rightarrow> slice \<Rightarrow> bool" where
  "slice_ok b s \<longleftrightarrow> s_start s \<le> s_end s \<and> s_end s \<le> length b"

definition whitespace :: "char \<Rightarrow> bool" where
  "whitespace c \<longleftrightarrow> c = CHR 0x0D \<or> c = CHR 0x0A \<or> c = CHR 0x09 \<or> c = CHR '' ''"

function ws_loop :: "buf \<Rightarrow> nat \<Rightarrow> nat \<Rightarrow> bool option" where
  "ws_loop b p e =
     (if p < e then do {
        c \<leftarrow> rd b p;
        if \<not> whitespace c then Some False else ws_loop b (p + 1) e
      } else Some True)"
  by pat_completeness auto
termination
  by (relation "measure (\<lambda>(b, p, e). e - p)") auto

definition slice_whitespace :: "buf \<Rightarrow> slice \<Rightarrow> bool option" where
  "slice_whitespace b s = ws_loop b (s_start s) (s_end s)"

text \<open>\<^verbatim>\<open>slice_trim\<close>: first the start moves forward, then the end moves back.\<close>

function trim_front :: "buf \<Rightarrow> nat \<Rightarrow> nat \<Rightarrow> nat option" where
  "trim_front b p e =
     (if p < e then do {
        c \<leftarrow> rd b p;
        if whitespace c then trim_front b (p + 1) e else Some p
      } else Some p)"
  by pat_completeness auto
termination
  by (relation "measure (\<lambda>(b, p, e). e - p)") auto

fun trim_back :: "buf \<Rightarrow> nat \<Rightarrow> nat \<Rightarrow> nat option" where
  "trim_back b p 0 = Some 0"
| "trim_back b p (Suc e) =
     (if p < Suc e then do {
        c \<leftarrow> rd b e;
        if whitespace c then trim_back b p e else Some (Suc e)
      } else Some (Suc e))"

definition slice_trim :: "buf \<Rightarrow> slice \<Rightarrow> slice option" where
  "slice_trim b s = do {
     a \<leftarrow> trim_front b (s_start s) (s_end s);
     e \<leftarrow> trim_back b a (s_end s);
     Some (mk_slice a e)
   }"

text \<open>
  \<^verbatim>\<open>strncmp\<close> of the bytes at \<open>p\<close> with a literal: the first difference decides, a common
  NUL ends the comparison, and nothing is read past either.
\<close>

fun strncmp_at :: "buf \<Rightarrow> nat \<Rightarrow> string \<Rightarrow> nat \<Rightarrow> int option" where
  "strncmp_at b p str 0 = Some 0"
| "strncmp_at b p str (Suc n) = do {
     c \<leftarrow> rd b p;
     let d = (case str of [] \<Rightarrow> NUL | x # _ \<Rightarrow> x);
     if c \<noteq> d then Some (of_char c - of_char d)
     else if c = NUL then Some 0
     else strncmp_at b (p + 1) (tl str) n
   }"

definition slice_cmp :: "buf \<Rightarrow> slice \<Rightarrow> string \<Rightarrow> int option" where
  "slice_cmp b s str =
     (let len = length str; s_len = s_end s - s_start s in
      if len < s_len then Some (- 1)
      else if len > s_len then Some 1
      else strncmp_at b (s_start s) str len)"

definition slice_len :: "slice \<Rightarrow> int" where
  "slice_len s = int (s_end s) - int (s_start s)"

definition ERR_TRUNCATED :: int where
  "ERR_TRUNCATED = - 3"

text \<open>
  \<^verbatim>\<open>slice_split\<close>: the pieces found so far, the start of the current one, and the error
  flag. The end of the slice closes the last piece without being read.
\<close>

function split_loop ::
  "buf \<Rightarrow> nat \<Rightarrow> string \<Rightarrow> nat \<Rightarrow> nat \<Rightarrow> nat \<Rightarrow> slice list \<Rightarrow> (slice list \<times> int) option" where
  "split_loop b e seps nmax p pprev acc =
     (if p \<le> e then do {
        hit \<leftarrow> (if p \<ge> e then Some True else do { c \<leftarrow> rd b p; Some (c \<in> set seps) });
        if hit then
          if nmax \<le> length acc then Some (acc, ERR_TRUNCATED)
          else split_loop b e seps nmax (p + 1) (p + 1) (acc @ [mk_slice pprev p])
        else split_loop b e seps nmax (p + 1) pprev acc
      } else Some (acc, 0))"
  by pat_completeness auto
termination
  by (relation "measure (\<lambda>(b, e, seps, nmax, p, pprev, acc). Suc e - p)") auto

definition slice_split :: "buf \<Rightarrow> slice \<Rightarrow> string \<Rightarrow> nat \<Rightarrow> (slice list \<times> int) option" where
  "slice_split b s seps nmax =
     (if nmax = 0 then Some ([], 0)
      else if seps = [] then Some ([s], 0)
      else split_loop b (s_end s) seps nmax (s_start s) (s_start s) [])"

definition ERR_MORE :: int where
  "ERR_MORE = - 1"

function til_loop :: "buf \<Rightarrow> nat \<Rightarrow> nat \<Rightarrow> string \<Rightarrow> (nat \<times> bool) option" where
  "til_loop b p e seps =
     (if p < e then do {
        c \<leftarrow> rd b p;
        if c \<in> set seps then Some (p, True) else til_loop b (p + 1) e seps
      } else Some (p, False))"
  by pat_completeness auto
termination
  by (relation "measure (\<lambda>(b, p, e, seps). e - p)") auto

text \<open>Returns the number of bytes consumed, or \<open>ERR_MORE\<close>, and the slice before the separator.\<close>

definition p_consume_til :: "buf \<Rightarrow> slice \<Rightarrow> string \<Rightarrow> (int \<times> slice) option" where
  "p_consume_til b s seps = do {
     (p, found) \<leftarrow> til_loop b (s_start s) (s_end s) seps;
     Some (if found then int p - int (s_start s) else ERR_MORE, mk_slice (s_start s) p)
   }"

declare ws_loop.simps [simp del] trim_front.simps [simp del] split_loop.simps [simp del]
  til_loop.simps [simp del]

text \<open>Unfolding of the loops at and before their end.\<close>

lemma walk_stop [simp]:
  "e \<le> p \<Longrightarrow> ws_loop b p e = Some True"
  "e \<le> p \<Longrightarrow> trim_front b p e = Some p"
  "e < p \<Longrightarrow> split_loop b e seps nmax p pprev acc = Some (acc, 0)"
  "e \<le> p \<Longrightarrow> til_loop b p e seps = Some (p, False)"
  by (simp_all add: ws_loop.simps [of b p e] trim_front.simps [of b p e]
      split_loop.simps [of b e seps nmax p pprev acc] til_loop.simps [of b p e seps])

lemma walk_step:
  "p < e \<Longrightarrow> e \<le> length b \<Longrightarrow>
     ws_loop b p e = (if \<not> whitespace (b ! p) then Some False else ws_loop b (p + 1) e)"
  "p < e \<Longrightarrow> e \<le> length b \<Longrightarrow>
     trim_front b p e = (if whitespace (b ! p) then trim_front b (p + 1) e else Some p)"
  "p < e \<Longrightarrow> e \<le> length b \<Longrightarrow>
     til_loop b p e seps = (if b ! p \<in> set seps then Some (p, True) else til_loop b (p + 1) e seps)"
  "p \<le> e \<Longrightarrow> e \<le> length b \<Longrightarrow> split_loop b e seps nmax p pprev acc =
     (if p = e \<or> b ! p \<in> set seps then
        if nmax \<le> length acc then Some (acc, ERR_TRUNCATED)
        else split_loop b e seps nmax (p + 1) (p + 1) (acc @ [mk_slice pprev p])
      else split_loop b e seps nmax (p + 1) pprev acc)"
  by (simp_all add: ws_loop.simps [of b p e] trim_front.simps [of b p e]
      split_loop.simps [of b e seps nmax p pprev acc] til_loop.simps [of b p e seps])


subsection \<open>Text of a range\<close>

lemma sub_empty [simp]: "e \<le> p \<Longrightarrow> sub b p e = []"
  by (simp add: sub_def)

lemma sub_step: "p < e \<Longrightarrow> e \<le> length b \<Longrightarrow> sub b p e = b ! p # sub b (p + 1) e"
  by (simp add: sub_def Cons_nth_drop_Suc [symmetric] take_Cons' Suc_diff_Suc)

lemma sub_snoc: "p \<le> e \<Longrightarrow> e < length b \<Longrightarrow> sub b p (Suc e) = sub b p e @ [b ! e]"
  by (simp add: sub_def Suc_diff_le take_Suc_conv_app_nth)

lemma length_sub [simp]: "e \<le> length b \<Longrightarrow> length (sub b p e) = e - p"
  by (simp add: sub_def)

lemma sub_append:
  assumes "p \<le> q" "q \<le> e"
  shows "sub b p e = sub b p q @ sub b q e"
proof -
  have "e - p = (q - p) + (e - q)" "drop (q - p) (drop p b) = drop q b" using assms by auto
  then show ?thesis by (simp only: sub_def take_add)
qed

subsection \<open>Whitespace and trimming\<close>

lemma ws_loop_spec:
  "e \<le> length b \<Longrightarrow> ws_loop b p e = Some (list_all whitespace (sub b p e))"
proof (induction b p e rule: ws_loop.induct)
  case (1 b p e)
  then show ?case by (cases "p < e") (auto simp: walk_step sub_step)
qed

definition trim_spec :: "string \<Rightarrow> string" where
  "trim_spec xs = rev (dropWhile whitespace (rev (dropWhile whitespace xs)))"

lemma trim_front_spec:
  assumes "p \<le> e" "e \<le> length b"
  shows "\<exists>a. trim_front b p e = Some a \<and> p \<le> a \<and> a \<le> e
    \<and> sub b a e = dropWhile whitespace (sub b p e)"
  using assms
proof (induction b p e rule: trim_front.induct)
  case (1 b p e)
  show ?case
  proof (cases "p < e \<and> whitespace (b ! p)")
    case True
    then have "rd b p = Some (b ! p)" using "1.prems" by simp
    with 1 True obtain a where "trim_front b (p + 1) e = Some a" "p + 1 \<le> a" "a \<le> e"
      "sub b a e = dropWhile whitespace (sub b (p + 1) e)" by force
    with True "1.prems" show ?thesis by (simp add: walk_step sub_step)
  next
    case False
    with "1.prems" show ?thesis
      by (cases "p < e") (simp_all add: walk_step sub_step)
  qed
qed

lemma trim_back_spec:
  assumes "p \<le> e" "e \<le> length b"
  shows "\<exists>e'. trim_back b p e = Some e' \<and> p \<le> e' \<and> e' \<le> e
    \<and> sub b p e' = rev (dropWhile whitespace (rev (sub b p e)))"
  using assms
proof (induction b p e rule: trim_back.induct)
  case (2 b p e)
  show ?case
  proof (cases "p < Suc e \<and> whitespace (b ! e)")
    case True
    then have "rd b e = Some (b ! e)" using "2.prems" by simp
    with 2 True obtain e' where "trim_back b p e = Some e'" "p \<le> e'" "e' \<le> e"
      "sub b p e' = rev (dropWhile whitespace (rev (sub b p e)))" by force
    with True "2.prems" show ?thesis by (simp add: sub_snoc)
  next
    case False
    with "2.prems" show ?thesis by (cases "p < Suc e") (simp_all add: sub_snoc le_Suc_eq)
  qed
qed simp

theorem slice_trim_spec:
  assumes "slice_ok b s"
  obtains t where "slice_trim b s = Some t" "s_start s \<le> s_start t" "s_end t \<le> s_end s"
    "slice_ok b t" "slice_str b t = trim_spec (slice_str b s)"
proof -
  from assms have s: "s_start s \<le> s_end s" "s_end s \<le> length b" by (auto simp: slice_ok_def)
  from trim_front_spec [OF s] obtain a where a: "trim_front b (s_start s) (s_end s) = Some a"
    "s_start s \<le> a" "a \<le> s_end s"
    "sub b a (s_end s) = dropWhile whitespace (sub b (s_start s) (s_end s))" by blast
  from trim_back_spec [OF a(3) s(2)] obtain e where e: "trim_back b a (s_end s) = Some e"
    "a \<le> e" "e \<le> s_end s" "sub b a e = rev (dropWhile whitespace (rev (sub b a (s_end s))))"
    by blast
  show thesis
    by (rule that [of "mk_slice a e"])
      (use a e s in \<open>auto simp: slice_trim_def slice_ok_def slice_str_def trim_spec_def\<close>)
qed

lemma slice_whitespace_spec:
  "slice_ok b s \<Longrightarrow> slice_whitespace b s = Some (list_all whitespace (slice_str b s))"
  by (simp add: slice_ok_def slice_whitespace_def slice_str_def ws_loop_spec)

subsection \<open>Comparison with a literal\<close>

lemma strncmp_at_eq:
  assumes "p + length str \<le> length b" "NUL \<notin> set str"
  shows "\<exists>r. strncmp_at b p str (length str) = Some r \<and> (r = 0 \<longleftrightarrow> sub b p (p + length str) = str)"
  using assms
proof (induction str arbitrary: p)
  case (Cons c cs)
  show ?case
  proof (cases "b ! p = c")
    case True
    with Cons.prems Cons.IH [of "p + 1"] show ?thesis by (auto simp: sub_step)
  next
    case False
    moreover have "(of_char (b ! p) :: int) - of_char c \<noteq> 0" using False by simp
    ultimately show ?thesis using Cons.prems by (auto simp: sub_step)
  qed
qed simp

theorem slice_cmp_eq:
  assumes "slice_ok b s" "NUL \<notin> set str"
  shows "\<exists>r. slice_cmp b s str = Some r \<and> (r = 0 \<longleftrightarrow> slice_str b s = str)"
proof (cases "length str = s_end s - s_start s")
  case True
  then have "s_end s = s_start s + length str" using assms(1) by (simp add: slice_ok_def)
  with assms strncmp_at_eq [of "s_start s" str b] show ?thesis
    by (auto simp: slice_cmp_def slice_str_def slice_ok_def)
next
  case False
  then have "slice_str b s \<noteq> str" using assms(1)
    by (auto simp: slice_str_def slice_ok_def)
  moreover have "slice_cmp b s str = Some (- 1) \<or> slice_cmp b s str = Some 1"
    using False by (auto simp: slice_cmp_def Let_def)
  ultimately show ?thesis by auto
qed

subsection \<open>Splitting\<close>

fun split_on :: "string \<Rightarrow> string \<Rightarrow> string list" where
  "split_on seps [] = [[]]"
| "split_on seps (c # cs) =
     (if c \<in> set seps then [] # split_on seps cs
      else (c # hd (split_on seps cs)) # tl (split_on seps cs))"

lemma split_on_nonempty [simp]: "split_on seps xs \<noteq> []"
  by (induction xs) auto

lemma length_split_on: "length (split_on seps xs) = Suc (length (filter (\<lambda>c. c \<in> set seps) xs))"
  by (induction xs) auto

lemma split_on_intercalate: "concat (map (\<lambda>w. w @ [x]) (split_on [x] xs)) = xs @ [x]"
proof (induction xs)
  case (Cons c cs)
  then show ?case by (cases "split_on [x] cs") auto
qed simp

lemma split_loop_spec:
  assumes "length acc \<le> nmax" "pprev \<le> p" "p \<le> e" "e \<le> length b"
  shows "\<exists>res. split_loop b e seps nmax p pprev acc = Some (acc @ res,
        if length acc + length (split_on seps (sub b p e)) \<le> nmax then 0 else ERR_TRUNCATED)
    \<and> map (slice_str b) res = take (nmax - length acc)
        ((sub b pprev p @ hd (split_on seps (sub b p e))) # tl (split_on seps (sub b p e)))
    \<and> list_all (slice_ok b) res \<and> list_all (\<lambda>t. pprev \<le> s_start t \<and> s_end t \<le> e) res"
  using assms
proof (induction "Suc e - p" arbitrary: p pprev acc)
  case 0
  then show ?case by simp
next
  case (Suc n)
  note prems = Suc.prems
  have "n = Suc e - (p + 1)" using Suc.hyps(2) prems by simp
  note IH = Suc.hyps(1) [OF this]
  let ?t = "mk_slice pprev p"
  have t: "slice_str b ?t = sub b pprev p" "slice_ok b ?t"
    using prems by (auto simp: slice_str_def slice_ok_def)
  consider (full) "p = e \<or> b ! p \<in> set seps" "length acc = nmax"
    | (at_end) "p = e" "length acc < nmax"
    | (hit) "p < e" "b ! p \<in> set seps" "length acc < nmax"
    | (miss) "p < e" "b ! p \<notin> set seps"
    using prems by linarith
  then show ?case
  proof cases
    case full
    then show ?thesis using prems by (simp add: walk_step not_less_eq_eq Suc_le_eq)
  next
    case at_end
    then show ?thesis using prems t by (intro exI [of _ "[?t]"]) (simp add: walk_step)
  next
    case hit
    let ?ws = "split_on seps (sub b (p + 1) e)"
    from hit prems obtain res where
      "split_loop b e seps nmax (p + 1) (p + 1) (acc @ [?t]) = Some ((acc @ [?t]) @ res,
         if length (acc @ [?t]) + length ?ws \<le> nmax then 0 else ERR_TRUNCATED)"
      "map (slice_str b) res = take (nmax - length (acc @ [?t]))
         ((sub b (p + 1) (p + 1) @ hd ?ws) # tl ?ws)"
      "list_all (slice_ok b) res" "list_all (\<lambda>t. p + 1 \<le> s_start t \<and> s_end t \<le> e) res"
      using IH [of "acc @ [?t]" "p + 1"] by auto
    moreover have "nmax - length acc = Suc (nmax - length (acc @ [?t]))" using hit by simp
    ultimately show ?thesis using hit prems t
      by (intro exI [of _ "?t # res"]) (auto simp: walk_step sub_step list_all_iff)
  next
    case miss
    let ?ws = "split_on seps (sub b (p + 1) e)"
    have pre: "sub b pprev (p + 1) = sub b pprev p @ [b ! p]"
      using prems miss sub_snoc [of pprev p b] by simp
    from miss prems obtain res where
      "split_loop b e seps nmax (p + 1) pprev acc = Some (acc @ res,
         if length acc + length ?ws \<le> nmax then 0 else ERR_TRUNCATED)"
      "map (slice_str b) res = take (nmax - length acc) ((sub b pprev (p + 1) @ hd ?ws) # tl ?ws)"
      "list_all (slice_ok b) res" "list_all (\<lambda>t. pprev \<le> s_start t \<and> s_end t \<le> e) res"
      using IH [of acc pprev] by auto
    moreover have "split_loop b e seps nmax p pprev acc = split_loop b e seps nmax (p + 1) pprev acc"
      using miss prems by (subst walk_step(4)) auto
    moreover have "split_on seps (sub b p e) = (b ! p # hd ?ws) # tl ?ws"
      using miss prems by (simp add: sub_step)
    ultimately show ?thesis
      by (intro exI [of _ res]) (simp add: pre del: One_nat_def)
  qed
qed

lemma slice_split_spec:
  assumes "slice_ok b s" "seps \<noteq> []" "0 < nmax"
  defines "ws \<equiv> split_on seps (slice_str b s)"
  obtains res where
    "slice_split b s seps nmax = Some (res, if length ws \<le> nmax then 0 else ERR_TRUNCATED)"
    "map (slice_str b) res = take nmax ws" "list_all (slice_ok b) res"
    "list_all (\<lambda>t. s_start s \<le> s_start t \<and> s_end t \<le> s_end s) res"
proof -
  from split_loop_spec [of "[]" nmax "s_start s" "s_start s" "s_end s" b seps] assms
  obtain res where "split_loop b (s_end s) seps nmax (s_start s) (s_start s) [] =
      Some (res, if length ws \<le> nmax then 0 else ERR_TRUNCATED)"
    "map (slice_str b) res = take nmax ws" "list_all (slice_ok b) res"
    "list_all (\<lambda>t. s_start s \<le> s_start t \<and> s_end t \<le> s_end s) res"
    by (auto simp: slice_ok_def slice_str_def)
  with assms(2,3) show thesis by (intro that [of res]) (auto simp: slice_split_def)
qed

subsection \<open>Consuming up to a separator\<close>

lemma til_loop_spec:
  assumes "p \<le> e" "e \<le> length b"
  shows "til_loop b p e seps =
      Some (p + length (takeWhile (\<lambda>c. c \<notin> set seps) (sub b p e)),
            p + length (takeWhile (\<lambda>c. c \<notin> set seps) (sub b p e)) < e)"
  using assms
proof (induction "e - p" arbitrary: p)
  case (Suc n)
  then have "p < e" by simp
  with Suc show ?case using Suc.hyps(1) [of "p + 1"] by (simp add: walk_step sub_step)
qed simp

lemma sub_takeWhile:
  assumes "e \<le> length b"
  shows "sub b p (p + length (takeWhile P (sub b p e))) = takeWhile P (sub b p e)"
proof -
  let ?n = "length (takeWhile P (sub b p e))"
  have "?n \<le> length (sub b p e)" by (rule length_takeWhile_le)
  then have n: "?n \<le> e - p" using assms by simp
  have "takeWhile P (sub b p e) = take ?n (sub b p e)" by (rule takeWhile_eq_take)
  also have "\<dots> = sub b p (p + ?n)" using n by (simp add: sub_def min_absorb1)
  finally show ?thesis by simp
qed

theorem p_consume_til_spec:
  fixes seps :: string
  assumes "slice_ok b s"
  defines "w \<equiv> takeWhile (\<lambda>c. c \<notin> set seps) (slice_str b s)"
  shows "p_consume_til b s seps =
      Some (if length w < length (slice_str b s) then int (length w) else ERR_MORE,
            mk_slice (s_start s) (s_start s + length w))"
    and "slice_str b (mk_slice (s_start s) (s_start s + length w)) = w"
  using til_loop_spec [of "s_start s" "s_end s" b seps] assms
  by (auto simp: p_consume_til_def slice_ok_def slice_str_def sub_takeWhile)

end
