(* ===== verification/Arena.thy ===== *)
theory Arena
  imports Slices
begin

text \<open>
  Memory: the growable arrays (\<^verbatim>\<open>array_t\<close> and its macros) and the arena that owns the parser's
  strings and sound types (\<^verbatim>\<open>m_reserve\<close>, \<^verbatim>\<open>m_alloc\<close>, \<^verbatim>\<open>m_strndup\<close>, \<^verbatim>\<open>m_free\<close>).

  A pointer is \<open>None\<close> (NULL) or a block number with a byte offset. The heap knows the live
  blocks with their sizes, the objects the program has stored, and whether the next
  requests for memory succeed (\<open>h_ok\<close>, the environment's choice). Freed blocks disappear
  with everything stored in them, so a read through a dangling pointer is \<open>None\<close>.

  The interface \<open>bump_allocator\<close> states what the parser relies on: the regions handed out
  stay owned and never overlap. \<open>ma\<close> interprets it on \<open>m_alloc\<close>.
\<close>

unbundle bit_operations_syntax

subsection \<open>The heap\<close>

type_synonym ptr = "(nat \<times> int) option"

datatype cell = CStr string | CInts "int list"

record heap =
  h_next :: nat
  h_ok :: "nat \<Rightarrow> bool"
  h_size :: "nat \<Rightarrow> int option"
  h_cell :: "nat \<times> int \<Rightarrow> cell option"

definition malloc :: "int \<Rightarrow> heap \<Rightarrow> nat option \<times> heap" where
  "malloc sz h =
     (if h_ok h (h_next h)
      then (Some (h_next h), h\<lparr>h_size := (h_size h)(h_next h := Some sz), h_next := h_next h + 1\<rparr>)
      else (None, h\<lparr>h_next := h_next h + 1\<rparr>))"

definition free :: "ptr \<Rightarrow> heap \<Rightarrow> heap option" where
  "free p h = (case p of None \<Rightarrow> Some h
     | Some (b, off) \<Rightarrow>
         if off = 0 \<and> h_size h b \<noteq> None
         then Some (h\<lparr>h_size := (h_size h)(b := None),
                      h_cell := (\<lambda>a. if fst a = b then None else h_cell h a)\<rparr>)
         else None)"

definition load :: "ptr \<Rightarrow> heap \<Rightarrow> cell option" where
  "load p h = (case p of None \<Rightarrow> None | Some a \<Rightarrow> h_cell h a)"

definition store :: "ptr \<Rightarrow> cell \<Rightarrow> heap \<Rightarrow> heap option" where
  "store p c h = (case p of None \<Rightarrow> None
     | Some (b, off) \<Rightarrow>
         if h_size h b \<noteq> None then Some (h\<lparr>h_cell := (h_cell h)((b, off) := Some c)\<rparr>) else None)"

fun ptr_diff :: "ptr \<Rightarrow> ptr \<Rightarrow> int option" where
  "ptr_diff None None = Some 0"
| "ptr_diff (Some (i, a)) (Some (j, b)) = (if i = j then Some (a - b) else None)"
| "ptr_diff _ _ = None"

fun ptr_add :: "ptr \<Rightarrow> int \<Rightarrow> ptr option" where
  "ptr_add None n = (if n = 0 then Some None else None)"
| "ptr_add (Some (i, a)) n = Some (Some (i, a + n))"

subsection \<open>Growable arrays\<close>

record 'a arr =
  arr_cap :: int
  arr_items :: "'a list"

definition arr_len :: "'a arr \<Rightarrow> int" where
  "arr_len a = int (length (arr_items a))"

definition empty_arr :: "'a arr" where
  "empty_arr = \<lparr>arr_cap = 0, arr_items = []\<rparr>"

text \<open>\<^verbatim>\<open>realloc\<close> succeeds or not as the next request of the environment does.\<close>

definition array_reserve_i :: "int \<Rightarrow> int \<Rightarrow> 'a arr \<Rightarrow> heap \<Rightarrow> ('a arr \<times> heap \<times> bool) option" where
  "array_reserve_i n esize a h =
     (if arr_cap a \<le> n then do {
        newcap \<leftarrow> (if arr_cap a \<noteq> 0 then ck (arr_cap a * 2) else Some 16);
        bytes \<leftarrow> ck (esize * newcap);
        let ok = h_ok h (h_next h);
        let h' = h\<lparr>h_next := h_next h + 1\<rparr>;
        if \<not> ok then Some (a, h', False) else Some (a\<lparr>arr_cap := newcap\<rparr>, h', True)
      } else Some (a, h, True))"

definition array_append :: "int \<Rightarrow> 'a arr \<Rightarrow> 'a \<Rightarrow> heap \<Rightarrow> ('a arr \<times> heap \<times> bool) option" where
  "array_append esize a x h = do {
     n \<leftarrow> ck (arr_len a + 1);
     (a', h', ok) \<leftarrow> array_reserve_i n esize a h;
     if ok then Some (a'\<lparr>arr_items := arr_items a' @ [x]\<rparr>, h', True) else Some (a', h', False)
   }"

definition array_free :: "'a arr \<Rightarrow> 'a arr" where
  "array_free a = \<lparr>arr_cap = 0, arr_items = []\<rparr>"

definition arr_ok :: "int \<Rightarrow> 'a arr \<Rightarrow> bool" where
  "arr_ok esize a \<longleftrightarrow> 0 < esize \<and> 0 \<le> arr_cap a \<and> arr_cap a * esize \<le> INT_MAX
     \<and> (arr_items a = [] \<or> arr_len a < arr_cap a)"

subsection \<open>The arena\<close>

definition bit_align_down :: "int \<Rightarrow> int \<Rightarrow> int" where
  "bit_align_down x a = x AND NOT (a - 1)"

definition bit_align_up :: "int \<Rightarrow> int \<Rightarrow> int" where
  "bit_align_up x a = bit_align_down (x + a - 1) a"

definition M_ALIGN :: int where
  "M_ALIGN = 8"

definition M_BLOCK_SIZE :: int where
  "M_BLOCK_SIZE = 4096"

record arena =
  a_block :: ptr
  a_end :: ptr
  a_blocks :: "ptr arr"
  a_heap :: heap

definition m_reserve :: "arena \<Rightarrow> int \<Rightarrow> (arena \<times> bool) option" where
  "m_reserve A min_size = do {
     d \<leftarrow> ptr_diff (a_end A) (a_block A);
     if d \<ge> min_size then Some (A, True)
     else do {
       sz \<leftarrow> ck (bit_align_up (if min_size > M_BLOCK_SIZE then min_size else M_BLOCK_SIZE) M_ALIGN);
       case malloc sz (a_heap A) of
         (None, h) \<Rightarrow> Some (A\<lparr>a_heap := h\<rparr>, False)
       | (Some b, h) \<Rightarrow> do {
           (blocks, h', _) \<leftarrow> array_append 8 (a_blocks A) (Some (b, 0)) h;
           Some (A\<lparr>a_block := Some (b, 0), a_end := Some (b, sz),
                   a_blocks := blocks, a_heap := h'\<rparr>, True)
         }
     }
   }"

definition m_alloc :: "arena \<Rightarrow> int \<Rightarrow> (arena \<times> ptr) option" where
  "m_alloc A sz = do {
     (A', ok) \<leftarrow> m_reserve A sz;
     if \<not> ok then Some (A', None)
     else do {
       sz' \<leftarrow> ck (bit_align_up sz M_ALIGN);
       p \<leftarrow> ptr_add (a_block A') sz';
       Some (A'\<lparr>a_block := p\<rparr>, a_block A')
     }
   }"

text \<open>The bytes copied are those of the buffer between \<open>s\<close> and \<open>s + n\<close>.\<close>

definition m_strndup :: "arena \<Rightarrow> buf \<Rightarrow> nat \<Rightarrow> nat \<Rightarrow> (arena \<times> ptr) option" where
  "m_strndup A b s n = do {
     sz \<leftarrow> ck (int n + 1);
     (A', res) \<leftarrow> m_alloc A sz;
     if res = None then Some (A', None)
     else if s + n \<le> length b then do {
       h \<leftarrow> store res (CStr (sub b s (s + n))) (a_heap A');
       Some (A'\<lparr>a_heap := h\<rparr>, res)
     } else None
   }"

fun free_all :: "ptr list \<Rightarrow> heap \<Rightarrow> heap option" where
  "free_all [] h = Some h"
| "free_all (p # ps) h = do { h' \<leftarrow> free p h; free_all ps h' }"

definition m_free :: "arena \<Rightarrow> arena option" where
  "m_free A = do {
     h \<leftarrow> free_all (arr_items (a_blocks A)) (a_heap A);
     Some (A\<lparr>a_blocks := array_free (a_blocks A), a_block := None, a_end := None, a_heap := h\<rparr>)
   }"


subsection \<open>Alignment\<close>

lemma bit_align_down_8: "bit_align_down x M_ALIGN = x - x mod 8"
proof -
  have "x - take_bit 3 x = x AND NOT (take_bit 3 x)"
    by (rule disjunctive_diff_eq_and_not) (simp add: take_bit_eq_mask bit_eq_iff bit_simps)
  moreover have "x AND NOT (take_bit 3 x) = x AND NOT 7"
  proof -
    have "(7::int) = mask 3" by (simp add: mask_eq_exp_minus_1)
    then show ?thesis by (simp add: take_bit_eq_mask bit_eq_iff bit_simps) blast
  qed
  ultimately show ?thesis by (simp add: bit_align_down_def M_ALIGN_def take_bit_eq_mod)
qed

lemma bit_align_up_8:
  "8 dvd bit_align_up x M_ALIGN" "x \<le> bit_align_up x M_ALIGN" "bit_align_up x M_ALIGN < x + 8"
proof -
  have e: "bit_align_up x M_ALIGN = (x + 7) - (x + 7) mod 8"
    using bit_align_down_8 [of "x + 7"] by (simp add: bit_align_up_def M_ALIGN_def add.commute)
  show "8 dvd bit_align_up x M_ALIGN" unfolding e by (rule dvd_minus_mod)
  have "0 \<le> (x + 7) mod 8" "(x + 7) mod 8 < 8" by simp_all
  then show "x \<le> bit_align_up x M_ALIGN" "bit_align_up x M_ALIGN < x + 8"
    unfolding e by linarith+
qed

lemma bit_align_up_least: "8 dvd r \<Longrightarrow> x \<le> r \<Longrightarrow> bit_align_up x M_ALIGN \<le> r"
  using bit_align_up_8 [of x] by (auto elim!: dvdE)

subsection \<open>Growable arrays\<close>

lemma arr_ok_empty [simp]: "0 < esize \<Longrightarrow> arr_ok esize empty_arr"
  by (simp add: arr_ok_def empty_arr_def INT_MAX_def)

lemma arr_ok_free [simp]: "0 < esize \<Longrightarrow> arr_ok esize (array_free a)"
  by (simp add: arr_ok_def array_free_def INT_MAX_def)

lemma arr_ok_truncate: "arr_ok esize a \<Longrightarrow> arr_ok esize (a\<lparr>arr_items := []\<rparr>)"
  by (simp add: arr_ok_def)

lemma array_reserve_frame:
  assumes "array_reserve_i n esize a h = Some (a', h', ok)"
  shows "arr_items a' = arr_items a" "h_size h' = h_size h" "h_cell h' = h_cell h"
    "h_next h \<le> h_next h'" "h_ok h' = h_ok h"
  using assms by (auto simp: array_reserve_i_def bind_Some_iff Let_def split: if_splits)

lemma array_reserve_cap:
  assumes "arr_ok esize a" "array_reserve_i n esize a h = Some (a', h', ok)"
  shows "arr_ok esize a'" "ok \<Longrightarrow> n \<le> arr_cap a \<or> arr_cap a = 0 \<and> n < 16 \<Longrightarrow> n < arr_cap a'"
  using assms
  by (auto simp: array_reserve_i_def bind_Some_iff Let_def arr_ok_def in_int_def mult.commute arr_len_def
      split: if_splits)

lemma array_append_frame:
  assumes "array_append esize a x h = Some (a', h', ok)"
  shows "arr_items a' = arr_items a @ (if ok then [x] else [])" "h_size h' = h_size h"
    "h_cell h' = h_cell h" "h_next h \<le> h_next h'" "h_ok h' = h_ok h"
proof -
  from assms obtain n a1 h1 ok1 where 1: "array_reserve_i n esize a h = Some (a1, h1, ok1)"
    "ok = ok1" "h' = h1" "a' = (if ok1 then a1\<lparr>arr_items := arr_items a1 @ [x]\<rparr> else a1)"
    by (auto simp: array_append_def bind_Some_iff split: if_splits)
  note F = array_reserve_frame [OF 1(1)]
  show "arr_items a' = arr_items a @ (if ok then [x] else [])" "h_size h' = h_size h"
    "h_cell h' = h_cell h" "h_next h \<le> h_next h'" "h_ok h' = h_ok h"
    using 1 F by auto
qed

lemma array_append_ok:
  assumes "arr_ok esize a" "array_append esize a x h = Some (a', h', ok)"
  shows "arr_ok esize a'" "ok \<Longrightarrow> arr_len a' < arr_cap a'"
proof -
  from assms(2) obtain a1 h1 ok1 where 1:
    "array_reserve_i (arr_len a + 1) esize a h = Some (a1, h1, ok1)"
    "ok = ok1" "h' = h1" "a' = (if ok1 then a1\<lparr>arr_items := arr_items a1 @ [x]\<rparr> else a1)"
    by (auto simp: array_append_def bind_Some_iff split: if_splits)
  have "arr_len a + 1 \<le> arr_cap a \<or> arr_cap a = 0 \<and> arr_len a + 1 < 16"
    using assms(1) by (auto simp: arr_ok_def arr_len_def)
  with array_reserve_cap [OF assms(1) 1(1)] array_reserve_frame(1) [OF 1(1)] 1
  show "arr_ok esize a'" "ok \<Longrightarrow> arr_len a' < arr_cap a'"
    by (auto simp: arr_ok_def arr_len_def)
qed


subsection \<open>The invariant of the arena\<close>

text \<open>
  The current block is live, its free part is the range from \<open>a_block\<close> to \<open>a_end\<close>, and both
  ends are aligned. Blocks on the list are distinct live blocks, and only blocks that have
  been requested are live.
\<close>

definition cur_ok :: "ptr \<Rightarrow> ptr \<Rightarrow> heap \<Rightarrow> bool" where
  "cur_ok p e h \<longleftrightarrow> (case (p, e) of
     (None, None) \<Rightarrow> True
   | (Some (i, a), Some (j, b)) \<Rightarrow> i = j \<and> 0 \<le> a \<and> a \<le> b \<and> 8 dvd a \<and> 8 dvd b \<and> h_size h i = Some b
   | _ \<Rightarrow> False)"

definition blocks_ok :: "ptr list \<Rightarrow> heap \<Rightarrow> bool" where
  "blocks_ok bs h \<longleftrightarrow> distinct bs \<and> (\<forall>p \<in> set bs. \<exists>i. p = Some (i, 0) \<and> h_size h i \<noteq> None)"

definition fresh_ok :: "heap \<Rightarrow> bool" where
  "fresh_ok h \<longleftrightarrow> (\<forall>i. h_size h i \<noteq> None \<longrightarrow> i < h_next h)"

definition arena_ok :: "arena \<Rightarrow> bool" where
  "arena_ok A \<longleftrightarrow> cur_ok (a_block A) (a_end A) (a_heap A) \<and> fresh_ok (a_heap A)
     \<and> arr_ok 8 (a_blocks A) \<and> blocks_ok (arr_items (a_blocks A)) (a_heap A)"

lemma blocks_ok_mono:
  "blocks_ok bs h \<Longrightarrow> (\<And>i. h_size h i \<noteq> None \<Longrightarrow> h_size h' i \<noteq> None) \<Longrightarrow> blocks_ok bs h'"
  unfolding blocks_ok_def by blast

lemma blocks_ok_fresh: "blocks_ok bs h \<Longrightarrow> h_size h i = None \<Longrightarrow> Some (i, 0) \<notin> set bs"
  unfolding blocks_ok_def by auto

lemma blocks_ok_snoc:
  "blocks_ok bs h \<Longrightarrow> Some (i, 0) \<notin> set bs \<Longrightarrow> h_size h i \<noteq> None \<Longrightarrow> blocks_ok (bs @ [Some (i, 0)]) h"
  unfolding blocks_ok_def by auto

lemma a_block_update_same [simp]: "a_block A = p \<Longrightarrow> A\<lparr>a_block := p\<rparr> = A"
  by (cases A) simp

text \<open>A region: block, offset, length. Owned: inside a live block and not in the free part.\<close>

type_synonym region = "nat \<times> int \<times> int"

definition owned :: "arena \<Rightarrow> region \<Rightarrow> bool" where
  "owned A r \<longleftrightarrow> (case r of (i, o', n) \<Rightarrow> 0 \<le> o' \<and> 0 \<le> n
     \<and> (\<exists>s. h_size (a_heap A) i = Some s \<and> o' + n \<le> s)
     \<and> (\<forall>a. a_block A = Some (i, a) \<longrightarrow> o' + n \<le> a))"

definition disjoint_regions :: "region \<Rightarrow> region \<Rightarrow> bool" where
  "disjoint_regions r r' \<longleftrightarrow> (case (r, r') of ((i, a, n), (j, b, m)) \<Rightarrow>
     i \<noteq> j \<or> a + n \<le> b \<or> b + m \<le> a)"

definition region_of :: "nat \<times> int \<Rightarrow> int \<Rightarrow> region" where
  "region_of p n = (fst p, snd p, n)"

lemma cur_okE:
  assumes "cur_ok p e h"
  obtains "p = None" "e = None"
  | i a b where "p = Some (i, a)" "e = Some (i, b)" "0 \<le> a" "a \<le> b" "8 dvd a" "8 dvd b" "h_size h i = Some b"
  using assms by (auto simp: cur_ok_def split: option.splits)

lemma malloc_cases:
  assumes "malloc n h = (r, h')"
  obtains "r = None" "h' = h\<lparr>h_next := h_next h + 1\<rparr>"
  | "r = Some (h_next h)" "h' = h\<lparr>h_size := (h_size h)(h_next h := Some n), h_next := h_next h + 1\<rparr>"
  using assms by (auto simp: malloc_def split: if_splits)

text \<open>
  Reserving: nothing happens when there is room; a failed request leaves the block alone;
  otherwise the current block is a fresh one of an aligned size that fits the request.
\<close>

lemma m_reserve_cases:
  assumes "m_reserve A n = Some (A', ok)" "arena_ok A"
  obtains "ok" "A' = A" "a_block A = None \<longrightarrow> n \<le> 0"
      "\<And>i a b. a_block A = Some (i, a) \<Longrightarrow> a_end A = Some (i, b) \<Longrightarrow> n \<le> b - a"
  | h where "\<not> ok" "A' = A\<lparr>a_heap := h\<rparr>" "h_size h = h_size (a_heap A)" "h_cell h = h_cell (a_heap A)"
      "h_next (a_heap A) \<le> h_next h"
  | sz where "ok" "a_block A' = Some (h_next (a_heap A), 0)" "a_end A' = Some (h_next (a_heap A), sz)"
      "n \<le> sz" "0 \<le> sz" "8 dvd sz"
      "h_size (a_heap A') = (h_size (a_heap A))(h_next (a_heap A) := Some sz)"
      "h_cell (a_heap A') = h_cell (a_heap A)" "h_next (a_heap A) < h_next (a_heap A')"
      "arr_ok 8 (a_blocks A')"
      "arr_items (a_blocks A') = arr_items (a_blocks A) \<or>
       arr_items (a_blocks A') = arr_items (a_blocks A) @ [Some (h_next (a_heap A), 0)]"
proof -
  from assms(2) have cur: "cur_ok (a_block A) (a_end A) (a_heap A)" and blocks: "arr_ok 8 (a_blocks A)"
    by (simp_all add: arena_ok_def)
  from assms(1) obtain d where d: "ptr_diff (a_end A) (a_block A) = Some d"
    by (auto simp: m_reserve_def bind_Some_iff)
  show thesis
  proof (cases "n \<le> d")
    case True
    with assms(1) d have "ok" "A' = A" by (auto simp: m_reserve_def)
    with cur d True show thesis by (intro that(1)) (auto elim: cur_okE)
  next
    case False
    let ?sz = "bit_align_up (if n > M_BLOCK_SIZE then n else M_BLOCK_SIZE) M_ALIGN"
    obtain r h where m: "malloc ?sz (a_heap A) = (r, h)" by force
    show thesis
    proof (cases r)
      case None
      with m assms(1) d False show thesis
        by (intro that(2) [of h]) (auto simp: m_reserve_def bind_Some_iff elim!: malloc_cases)
    next
      case (Some i)
      with m have i: "i = h_next (a_heap A)" and
        h: "h = (a_heap A)\<lparr>h_size := (h_size (a_heap A))(i := Some ?sz), h_next := i + 1\<rparr>"
        by (auto elim!: malloc_cases)
      from assms(1) d False m Some obtain bl h' k where app:
        "array_append 8 (a_blocks A) (Some (i, 0)) h = Some (bl, h', k)"
        "A' = A\<lparr>a_block := Some (i, 0), a_end := Some (i, ?sz), a_blocks := bl, a_heap := h'\<rparr>" "ok"
        by (auto simp: m_reserve_def bind_Some_iff)
      note F = array_append_frame [OF app(1)]
      have sz: "n \<le> ?sz" "0 \<le> ?sz" "8 dvd ?sz"
        using bit_align_up_8 [of "if n > M_BLOCK_SIZE then n else M_BLOCK_SIZE"]
        by (auto simp: M_BLOCK_SIZE_def split: if_splits)
      show thesis
        by (rule that(3) [of ?sz])
          (use app F sz array_append_ok(1) [OF blocks app(1)] in \<open>auto simp: i h split: if_splits\<close>)
    qed
  qed
qed

lemma m_reserve_ok:
  assumes "m_reserve A n = Some (A', ok)" "arena_ok A"
  shows "arena_ok A'" "ok \<Longrightarrow> a_block A' = None \<longrightarrow> n \<le> 0"
    "ok \<Longrightarrow> a_block A' = Some (i, a) \<Longrightarrow> a_end A' = Some (i, b) \<Longrightarrow> n \<le> b - a"
    "owned A r \<Longrightarrow> owned A' r"
proof -
  have fresh: "h_size (a_heap A) (h_next (a_heap A)) = None"
    using assms(2) by (auto simp: arena_ok_def fresh_ok_def)
  show "arena_ok A'" using assms
  proof (cases rule: m_reserve_cases)
    case (3 sz)
    let ?i = "h_next (a_heap A)"
    from assms(2) have old: "fresh_ok (a_heap A)" "blocks_ok (arr_items (a_blocks A)) (a_heap A)"
      by (simp_all add: arena_ok_def)
    have "blocks_ok (arr_items (a_blocks A)) (a_heap A')"
      using 3(7) by (intro blocks_ok_mono [OF old(2)]) auto
    with blocks_ok_snoc [of _ "a_heap A'" ?i] blocks_ok_fresh [OF old(2) fresh] 3(7,11)
    have "blocks_ok (arr_items (a_blocks A')) (a_heap A')" by auto
    moreover have "fresh_ok (a_heap A')"
      using old(1) 3(7,9) by (auto simp: fresh_ok_def dest: order.strict_trans)
    moreover have "cur_ok (a_block A') (a_end A') (a_heap A')" using 3 by (simp add: cur_ok_def)
    ultimately show ?thesis using 3(10) by (simp add: arena_ok_def)
  next
    case (2 h)
    then show ?thesis using assms(2)
      by (auto simp: arena_ok_def cur_ok_def fresh_ok_def blocks_ok_def split: option.splits
          dest: order.strict_trans2)
  qed (use assms(2) in simp)
  show "ok \<Longrightarrow> a_block A' = None \<longrightarrow> n \<le> 0"
    using assms by (cases rule: m_reserve_cases) auto
  show "ok \<Longrightarrow> a_block A' = Some (i, a) \<Longrightarrow> a_end A' = Some (i, b) \<Longrightarrow> n \<le> b - a"
    using assms by (cases rule: m_reserve_cases) auto
  show "owned A r \<Longrightarrow> owned A' r" using assms
    by (cases rule: m_reserve_cases) (auto simp: owned_def fresh split: prod.splits)
qed

lemma m_alloc_cases:
  assumes "m_alloc A n = Some (A', p)" "arena_ok A" "0 \<le> n"
  obtains (no_mem) A1 where "m_reserve A n = Some (A1, False)" "A' = A1" "p = None"
  | (empty) "m_reserve A n = Some (A', True)" "p = None" "n = 0"
  | (room) A1 i a b where "m_reserve A n = Some (A1, True)" "p = Some (i, a)"
      "a_block A1 = Some (i, a)" "a_end A1 = Some (i, b)"
      "a + bit_align_up n M_ALIGN \<le> b" "A' = A1\<lparr>a_block := Some (i, a + bit_align_up n M_ALIGN)\<rparr>"
proof -
  from assms(1) obtain A1 ok where r: "m_reserve A n = Some (A1, ok)"
    by (auto simp: m_alloc_def bind_Some_iff)
  note R = m_reserve_ok [OF r assms(2)]
  show thesis
  proof (cases ok)
    case False
    with assms(1) r show thesis by (intro no_mem) (auto simp: m_alloc_def)
  next
    case True
    from R(1) have "cur_ok (a_block A1) (a_end A1) (a_heap A1)" by (simp add: arena_ok_def)
    then show thesis
    proof (cases rule: cur_okE)
      case 1
      with R(2) True assms(3) have "n = 0" by simp
      with 1 r True assms(1) show thesis
        by (intro empty) (auto simp: m_alloc_def bit_align_up_def bit_align_down_def M_ALIGN_def in_int_iff)
    next
      case (2 i a b)
      then have "n \<le> b - a" using R(3) True by blast
      then have "bit_align_up n M_ALIGN \<le> b - a" using 2 by (intro bit_align_up_least) auto
      with 2 r True assms(1) show thesis
        by (intro room [of A1 i a b]) (auto simp: m_alloc_def)
    qed
  qed
qed

theorem m_alloc_ok:
  assumes "m_alloc A n = Some (A', p)" "arena_ok A" "0 \<le> n"
  shows "arena_ok A'" "owned A r \<Longrightarrow> owned A' r"
    "p = Some q \<Longrightarrow> owned A' (region_of q n)" "p = Some q \<Longrightarrow> 8 dvd snd q"
    "p = Some q \<Longrightarrow> owned A r \<Longrightarrow> disjoint_regions r (region_of q n)"
proof -
  note C = m_alloc_cases [OF assms]
  note al = bit_align_up_8 [of n]
  show "arena_ok A'"
  proof (rule C)
    fix A1 i a b
    assume *: "m_reserve A n = Some (A1, True)" "a_block A1 = Some (i, a)" "a_end A1 = Some (i, b)"
      "a + bit_align_up n M_ALIGN \<le> b" "A' = A1\<lparr>a_block := Some (i, a + bit_align_up n M_ALIGN)\<rparr>"
    show "arena_ok A'"
      using m_reserve_ok(1) [OF *(1) assms(2)] * al assms(3) by (auto simp: arena_ok_def cur_ok_def)
  qed (use m_reserve_ok(1) [OF _ assms(2)] in auto)
  show "owned A r \<Longrightarrow> owned A' r"
  proof (rule C)
    fix A1 i a b
    assume o: "owned A r" and *: "m_reserve A n = Some (A1, True)" "a_block A1 = Some (i, a)"
      "A' = A1\<lparr>a_block := Some (i, a + bit_align_up n M_ALIGN)\<rparr>"
    from m_reserve_ok(4) [OF *(1) assms(2) o] * al assms(3) show "owned A' r"
      by (auto simp: owned_def split: prod.splits)
  qed (use m_reserve_ok(4) [OF _ assms(2)] in auto)
  show "p = Some q \<Longrightarrow> owned A' (region_of q n)"
  proof (rule C)
    fix A1 i a b
    assume p: "p = Some q" and *: "m_reserve A n = Some (A1, True)" "p = Some (i, a)"
      "a_block A1 = Some (i, a)" "a_end A1 = Some (i, b)" "a + bit_align_up n M_ALIGN \<le> b"
      "A' = A1\<lparr>a_block := Some (i, a + bit_align_up n M_ALIGN)\<rparr>"
    from m_reserve_ok(1) [OF *(1) assms(2)] * p al assms(3) show "owned A' (region_of q n)"
      by (auto simp: owned_def region_of_def arena_ok_def cur_ok_def)
  qed auto
  show "p = Some q \<Longrightarrow> 8 dvd snd q"
  proof (rule C)
    fix A1 i a b
    assume p: "p = Some q" and *: "m_reserve A n = Some (A1, True)" "p = Some (i, a)"
      "a_block A1 = Some (i, a)" "a_end A1 = Some (i, b)"
    from m_reserve_ok(1) [OF *(1) assms(2)] * p show "8 dvd snd q"
      by (auto simp: arena_ok_def cur_ok_def)
  qed auto
  show "p = Some q \<Longrightarrow> owned A r \<Longrightarrow> disjoint_regions r (region_of q n)"
  proof (rule C)
    fix A1 i a b
    assume p: "p = Some q" and o: "owned A r" and *: "m_reserve A n = Some (A1, True)"
      "p = Some (i, a)" "a_block A1 = Some (i, a)"
    from m_reserve_ok(4) [OF *(1) assms(2) o] * p show "disjoint_regions r (region_of q n)"
      by (auto simp: owned_def region_of_def disjoint_regions_def split: prod.splits)
  qed auto
qed


subsection \<open>Releasing the arena\<close>

lemma free_Some:
  assumes "h_size h i \<noteq> None"
  shows "\<exists>h'. free (Some (i, 0)) h = Some h' \<and> h_size h' = (h_size h)(i := None)
    \<and> h_next h' = h_next h \<and> h_ok h' = h_ok h
    \<and> h_cell h' = (\<lambda>a. if fst a = i then None else h_cell h a)"
  using assms by (auto simp: free_def)

lemma free_all_blocks:
  assumes "blocks_ok bs h"
  shows "\<exists>h'. free_all bs h = Some h' \<and> h_next h' = h_next h \<and> h_ok h' = h_ok h
    \<and> h_size h' = (\<lambda>i. if Some (i, 0) \<in> set bs then None else h_size h i)
    \<and> h_cell h' = (\<lambda>a. if Some (fst a, 0) \<in> set bs then None else h_cell h a)"
  using assms
proof (induction bs arbitrary: h)
  case (Cons p ps)
  then obtain i where p: "p = Some (i, 0)" "h_size h i \<noteq> None" "Some (i, 0) \<notin> set ps"
    by (auto simp: blocks_ok_def)
  from free_Some [OF p(2)] obtain h1 where h1: "free p h = Some h1"
    "h_size h1 = (h_size h)(i := None)" "h_next h1 = h_next h" "h_ok h1 = h_ok h"
    "h_cell h1 = (\<lambda>a. if fst a = i then None else h_cell h a)" using p(1) by auto
  have "h_size h1 j \<noteq> None" if "Some (j, 0) \<in> set ps" "h_size h j \<noteq> None" for j
    using that p(3) h1(2) by auto
  then have "blocks_ok ps h1" using Cons.prems unfolding blocks_ok_def by fastforce
  from Cons.IH [OF this] h1 p show ?case by (auto simp: fun_eq_iff)
qed simp

theorem m_free_ok:
  assumes "arena_ok A"
  obtains A' where "m_free A = Some A'" "arena_ok A'" "a_block A' = None" "a_end A' = None"
    "arr_items (a_blocks A') = []"
    "h_size (a_heap A') = (\<lambda>i. if Some (i, 0) \<in> set (arr_items (a_blocks A)) then None else h_size (a_heap A) i)"
    "h_cell (a_heap A') =
      (\<lambda>a. if Some (fst a, 0) \<in> set (arr_items (a_blocks A)) then None else h_cell (a_heap A) a)"
proof -
  from assms have b: "blocks_ok (arr_items (a_blocks A)) (a_heap A)" and f: "fresh_ok (a_heap A)"
    by (simp_all add: arena_ok_def)
  from free_all_blocks [OF b] obtain h' where h': "free_all (arr_items (a_blocks A)) (a_heap A) = Some h'"
    "h_next h' = h_next (a_heap A)"
    "h_size h' = (\<lambda>i. if Some (i, 0) \<in> set (arr_items (a_blocks A)) then None else h_size (a_heap A) i)"
    "h_cell h' = (\<lambda>a. if Some (fst a, 0) \<in> set (arr_items (a_blocks A)) then None else h_cell (a_heap A) a)"
    by blast
  show thesis
    by (rule that [of "A\<lparr>a_blocks := array_free (a_blocks A), a_block := None, a_end := None, a_heap := h'\<rparr>"])
      (use h' f in \<open>auto simp: m_free_def arena_ok_def cur_ok_def fresh_ok_def blocks_ok_def array_free_def arr_ok_def INT_MAX_def\<close>)
qed

subsection \<open>The allocator's contract\<close>

text \<open>
  A client that allocates a sequence of objects, as the parser does for the strings and the
  sound types of one map. The regions it obtained, most recent first, are collected; a
  failed request contributes nothing.
\<close>

fun alloc_all ::
  "('s \<Rightarrow> int \<Rightarrow> ('s \<times> 'p option) option) \<Rightarrow> ('p \<Rightarrow> int \<Rightarrow> 'r) \<Rightarrow> int list \<Rightarrow> 's \<Rightarrow> 'r list \<Rightarrow> ('s \<times> 'r list) option" where
  "alloc_all alloc reg [] s rs = Some (s, rs)"
| "alloc_all alloc reg (n # ns) s rs = do {
     (s', p) \<leftarrow> alloc s n;
     alloc_all alloc reg ns s' (case p of None \<Rightarrow> rs | Some q \<Rightarrow> reg q n # rs)
   }"

locale bump_allocator =
  fixes alloc :: "'s \<Rightarrow> int \<Rightarrow> ('s \<times> 'p option) option"
    and reg :: "'p \<Rightarrow> int \<Rightarrow> 'r"
    and inv :: "'s \<Rightarrow> bool"
    and own :: "'s \<Rightarrow> 'r \<Rightarrow> bool"
    and disj :: "'r \<Rightarrow> 'r \<Rightarrow> bool"
  assumes inv_alloc: "alloc s n = Some (s', p) \<Longrightarrow> inv s \<Longrightarrow> 0 \<le> n \<Longrightarrow> inv s'"
    and own_new: "alloc s n = Some (s', Some q) \<Longrightarrow> inv s \<Longrightarrow> 0 \<le> n \<Longrightarrow> own s' (reg q n)"
    and own_old: "alloc s n = Some (s', p) \<Longrightarrow> inv s \<Longrightarrow> 0 \<le> n \<Longrightarrow> own s r \<Longrightarrow> own s' r"
    and disj_new: "alloc s n = Some (s', Some q) \<Longrightarrow> inv s \<Longrightarrow> 0 \<le> n \<Longrightarrow> own s r \<Longrightarrow> disj r (reg q n)"
    and disj_sym: "disj r r' \<Longrightarrow> disj r' r"
begin

lemma alloc_all_ok:
  assumes "alloc_all alloc reg ns s rs = Some (s', rs')" "inv s" "\<forall>n \<in> set ns. 0 \<le> n"
    and "\<forall>r \<in> set rs. own s r" "sorted_wrt disj rs"
  shows "inv s'" "\<forall>r \<in> set rs'. own s' r" "sorted_wrt disj rs'"
proof -
  have "inv s' \<and> (\<forall>r \<in> set rs'. own s' r) \<and> sorted_wrt disj rs'"
    using assms
  proof (induction ns arbitrary: s rs)
    case (Cons n ns)
    from Cons.prems(1) obtain s1 p where a: "alloc s n = Some (s1, p)"
      and rest: "alloc_all alloc reg ns s1 (case p of None \<Rightarrow> rs | Some q \<Rightarrow> reg q n # rs) = Some (s', rs')"
      by (auto simp: bind_Some_iff)
    have n: "0 \<le> n" using Cons.prems(3) by simp
    note A = inv_alloc [OF a Cons.prems(2) n] own_old [OF a Cons.prems(2) n]
    show ?case
    proof (cases p)
      case None
      with Cons.IH [OF rest A(1)] Cons.prems A(2) show ?thesis by simp
    next
      case (Some q)
      note B = own_new [OF a [unfolded Some] Cons.prems(2) n] disj_new [OF a [unfolded Some] Cons.prems(2) n]
      from Cons.IH [OF rest A(1)] Cons.prems A(2) B Some show ?thesis
        by (auto intro: disj_sym)
    qed
  qed simp
  then show "inv s'" "\<forall>r \<in> set rs'. own s' r" "sorted_wrt disj rs'" by auto
qed

end

interpretation ma: bump_allocator m_alloc region_of arena_ok owned disjoint_regions
proof
  show "disjoint_regions r' r" if "disjoint_regions r r'" for r r'
    using that by (auto simp: disjoint_regions_def split: prod.splits)
qed (use m_alloc_ok in \<open>blast intro: m_alloc_ok(5)\<close>)+

end
