(* ===== verification/CFloat.thy ===== *)
theory CFloat
  imports Prelude "HOL-Library.Log_Nat"
begin

text \<open>
  IEEE 754 binary32 and binary64 arithmetic, the meaning of C's \<^verbatim>\<open>float\<close> and \<^verbatim>\<open>double\<close> in the
  sources. A finite datum is its exact rational value (with a separate negative zero), an
  operation is the exact rational result rounded to nearest, ties to even, once. The
  quantum of a result is \<open>2 powi qexp f x\<close>, which covers normal and subnormal numbers.

  The first part is the rounding function on rationals: monotone, odd, idempotent, exact on
  the representable grid and with the usual error bound. The interface \<open>rounding\<close> collects the
  laws the component proofs use; \<open>rd\<close> interprets it on both formats.
  The second part is the data type \<open>fp\<close> and its operations, with the special values.
  NaN payloads and signs are not modelled (the C standard leaves them open), nor are the
  exception flags. \<open>fp_eval\<close> evaluates closed terms with the simplifier.
\<close>

subsection \<open>The binary exponent of a positive rational\<close>

definition log_adj :: "rat \<Rightarrow> int \<Rightarrow> int" where
  "log_adj x k = (if 2 powi k \<le> x then k else k - 1)"

definition ilog2 :: "rat \<Rightarrow> int" where
  "ilog2 x = (case quotient_of x of (a, b) \<Rightarrow> log_adj x (bitlen a - bitlen b))"

lemma bitlen_pos_bounds:
  assumes "0 < (a::int)"
  shows "2 powi (bitlen a - 1) \<le> (of_int a :: rat)" "(of_int a :: rat) < 2 powi (bitlen a)"
    and "1 \<le> bitlen a"
proof -
  have b: "2 ^ nat (bitlen a - 1) \<le> a \<and> a < 2 ^ nat (bitlen a)"
    using assms by (rule bitlen_bounds)
  show l: "1 \<le> bitlen a"
    using assms bitlen_eq_zero_iff [of a] bitlen_nonneg [of a] by linarith
  have "(2::rat) powi (bitlen a - 1) = of_int (2 ^ nat (bitlen a - 1))"
    using l by (simp add: power_int_def)
  also have "\<dots> \<le> of_int a" using b by (simp only: of_int_le_iff)
  finally show "2 powi (bitlen a - 1) \<le> (of_int a :: rat)" .
  have "(of_int a :: rat) < of_int (2 ^ nat (bitlen a))"
    using b by (simp only: of_int_less_iff)
  also have "\<dots> = 2 powi (bitlen a)" using l by (simp add: power_int_def)
  finally show "(of_int a :: rat) < 2 powi (bitlen a)" .
qed

lemma frac_bitlen_bounds:
  assumes "0 < a" "0 < b"
  defines "k \<equiv> bitlen a - bitlen b"
  shows "2 powi (k - 1) < (of_int a / of_int b :: rat)" "(of_int a / of_int b :: rat) < 2 powi (k + 1)"
proof -
  note A = bitlen_pos_bounds [OF assms(1)] and B = bitlen_pos_bounds [OF assms(2)]
  have "(2::rat) powi (k - 1) = 2 powi (bitlen a - 1) / 2 powi (bitlen b)"
    by (simp add: k_def power_int_diff flip: power_int_add)
  also have "\<dots> < of_int a / of_int b"
    using A B assms by (intro frac_less2) auto
  finally show "2 powi (k - 1) < (of_int a / of_int b :: rat)" .
  have "(of_int a / of_int b :: rat) < 2 powi (bitlen a) / 2 powi (bitlen b - 1)"
    using A B assms by (intro frac_less) auto
  also have "\<dots> = (2::rat) powi (k + 1)"
    by (simp add: k_def power_int_diff power_int_add field_simps)
  finally show "(of_int a / of_int b :: rat) < 2 powi (k + 1)" .
qed

lemma powi2_less_iff [simp]: "(2::rat) powi a < 2 powi b \<longleftrightarrow> a < b"
  using power_int_strict_increasing [of a b "2::rat"] power_int_increasing [of b a "2::rat"] by (meson linorder_not_less one_le_numeral order_le_less_trans order_less_irrefl one_less_numeral_iff semiring_norm(76))

lemma powi2_le_iff [simp]: "(2::rat) powi a \<le> 2 powi b \<longleftrightarrow> a \<le> b"
  using powi2_less_iff [of b a] by linarith

lemma powi2_pos [simp]: "0 < (2::rat) powi a"
  by simp

lemma ilog2_bounds:
  assumes "0 < x"
  shows "2 powi ilog2 x \<le> x" "x < 2 powi (ilog2 x + 1)"
proof -
  obtain a b where q: "quotient_of x = (a, b)" by force
  have b: "0 < b" using quotient_of_denom_pos [OF q] .
  have x: "x = of_int a / of_int b" using quotient_of_div [OF q] .
  have a: "0 < a" using assms b by (simp add: x zero_less_divide_iff)
  note F = frac_bitlen_bounds [OF a b]
  show "2 powi ilog2 x \<le> x"
    using F by (auto simp: ilog2_def log_adj_def q simp flip: x)
  show "x < 2 powi (ilog2 x + 1)"
    using F by (auto simp: ilog2_def log_adj_def q simp flip: x)
qed

lemma ilog2_unique:
  assumes "2 powi k \<le> x" "x < 2 powi (k + 1)"
  shows "ilog2 x = k"
proof -
  have "0 < x" using assms(1) powi2_pos [of k] by linarith
  note B = ilog2_bounds [OF this]
  have "(2::rat) powi k < 2 powi (ilog2 x + 1)" "(2::rat) powi (ilog2 x) < 2 powi (k + 1)"
    using B assms by linarith+
  then show ?thesis by simp
qed

lemma ilog2_mono: "0 < x \<Longrightarrow> x \<le> y \<Longrightarrow> ilog2 x \<le> ilog2 y"
proof -
  assume x: "0 < x" "x \<le> y"
  then have "(2::rat) powi (ilog2 x) < 2 powi (ilog2 y + 1)"
    using ilog2_bounds [of x] ilog2_bounds [of y] by linarith
  then show ?thesis by simp
qed

text \<open>Evaluation of \<open>ilog2\<close> on numerals.\<close>
lemma ilog2_frac:
  assumes "0 < a" "0 < b"
  shows "ilog2 (of_int a / of_int b) =
     log_adj (of_int a / of_int b) (bitlen a - bitlen b)"
  using frac_bitlen_bounds [OF assms] by (auto simp: log_adj_def intro!: ilog2_unique)

primrec num_len :: "num \<Rightarrow> int" where
  "num_len num.One = 1"
| "num_len (num.Bit0 n) = num_len n + 1"
| "num_len (num.Bit1 n) = num_len n + 1"


lemma powi2_Suc: "(2::rat) powi (k + 1) = 2 * 2 powi k"
  by (simp add: power_int_add)

lemma numeral_lt_powi2:
  assumes "(numeral n :: rat) < 2 powi k" "0 \<le> k"
  shows "(numeral n :: rat) + 1 \<le> 2 powi k"
proof -
  have k: "(2::rat) powi k = of_int (2 ^ nat k)"
    using assms(2) by (simp add: power_int_def)
  with assms(1) have "(of_int (numeral n) :: rat) < of_int (2 ^ nat k)" by simp
  then have "(numeral n :: int) < 2 ^ nat k" by (simp only: of_int_less_iff)
  then have "(of_int (numeral n + 1) :: rat) \<le> of_int (2 ^ nat k)"
    by (simp only: of_int_le_iff)
  with k show ?thesis by simp
qed

lemma num_len_bounds:
  "1 \<le> num_len n \<and> 2 powi (num_len n - 1) \<le> (numeral n :: rat) \<and> (numeral n :: rat) < 2 powi (num_len n)"
proof (induction n)
  case One
  then show ?case by simp
next
  case (Bit0 n)
  have "(numeral (num.Bit0 n) :: rat) = 2 * numeral n"
    using numeral_Bit0 [of n, where ?'a = rat] mult_2 [of "numeral n :: rat"] by metis
  moreover have "(2::rat) powi num_len n = 2 * 2 powi (num_len n - 1)"
    using powi2_Suc [of "num_len n - 1"] by simp
  ultimately show ?case
    using Bit0 powi2_Suc [of "num_len n"]
    by (simp only: num_len.simps add_diff_cancel_right') linarith
next
  case (Bit1 n)
  have "(numeral (num.Bit1 n) :: rat) = 2 * numeral n + 1"
    using numeral_Bit1 [of n, where ?'a = rat] mult_2 [of "numeral n :: rat"] by metis
  moreover have "(numeral n :: rat) + 1 \<le> 2 powi num_len n"
    using Bit1 by (intro numeral_lt_powi2) auto
  moreover have "(2::rat) powi num_len n = 2 * 2 powi (num_len n - 1)"
    using powi2_Suc [of "num_len n - 1"] by simp
  ultimately show ?case
    using Bit1 powi2_Suc [of "num_len n"]
    by (simp only: num_len.simps add_diff_cancel_right') linarith
qed

lemma bitlen_numeral: "bitlen (numeral n :: int) = num_len n"
proof -
  have "(0::int) < numeral n" by simp
  note A = bitlen_pos_bounds [OF this, unfolded of_int_numeral] and B = num_len_bounds [of n]
  have "(2::rat) powi (bitlen (numeral n) - 1) < 2 powi (num_len n)"
    using A(1) B by (rule_tac order_le_less_trans) auto
  moreover have "(2::rat) powi (num_len n - 1) < 2 powi (bitlen (numeral n))"
    using A(2) B by (rule_tac order_le_less_trans) auto
  ultimately show ?thesis by simp
qed

lemma ilog2_numeral:
  "ilog2 (numeral n) = num_len n - 1"
  "ilog2 (numeral n / numeral m) =
     log_adj (numeral n / numeral m) (num_len n - num_len m)"
  "ilog2 (1 / numeral m) =
     log_adj (1 / numeral m) (1 - num_len m)"
  "ilog2 1 = 0"
proof -
  show "ilog2 (numeral n) = num_len n - 1"
    using num_len_bounds [of n] by (intro ilog2_unique) auto
  show "ilog2 (numeral n / numeral m) =
     log_adj (numeral n / numeral m) (num_len n - num_len m)"
    using ilog2_frac [of "numeral n" "numeral m"] by (simp add: bitlen_numeral)
  show "ilog2 (1 / numeral m) =
     log_adj (1 / numeral m) (1 - num_len m)"
    using ilog2_frac [of 1 "numeral m"] bitlen_numeral [of num.One] by (simp add: bitlen_numeral)
  show "ilog2 1 = 0" by (rule ilog2_unique) auto
qed

subsection \<open>Rounding an exact value\<close>

definition tie_even :: "int \<Rightarrow> rat \<Rightarrow> int" where
  "tie_even n d = (if d < 1/2 then n else if 1/2 < d then n + 1 else if even n then n else n + 1)"

definition rne :: "rat \<Rightarrow> int" where
  "rne x = tie_even \<lfloor>x\<rfloor> (x - of_int \<lfloor>x\<rfloor>)"

lemma rne_of_int [simp]: "rne (of_int n) = n"
  by (simp add: rne_def tie_even_def)

lemma rne_error: "\<bar>of_int (rne x) - x\<bar> \<le> 1 / 2"
proof -
  have "of_int \<lfloor>x\<rfloor> \<le> x" "x < of_int \<lfloor>x\<rfloor> + 1" by linarith+
  then show ?thesis unfolding rne_def tie_even_def by (auto simp: abs_if, linarith?)
qed

lemma rne_mono: "x \<le> y \<Longrightarrow> rne x \<le> rne y"
proof -
  assume xy: "x \<le> y"
  then have f: "\<lfloor>x\<rfloor> \<le> \<lfloor>y\<rfloor>" by (rule floor_mono)
  show ?thesis
  proof (cases "\<lfloor>x\<rfloor> = \<lfloor>y\<rfloor>")
    case True
    with xy show ?thesis by (auto simp: rne_def tie_even_def)
  next
    case False
    with f have "\<lfloor>x\<rfloor> + 1 \<le> \<lfloor>y\<rfloor>" by simp
    moreover have "rne x \<le> \<lfloor>x\<rfloor> + 1" "\<lfloor>y\<rfloor> \<le> rne y" by (auto simp: rne_def tie_even_def)
    ultimately show ?thesis by linarith
  qed
qed

lemma rne_le_int: "x \<le> of_int n \<Longrightarrow> rne x \<le> n"
  using rne_mono [of x "of_int n"] by simp

lemma rne_ge_int: "of_int n \<le> x \<Longrightarrow> n \<le> rne x"
  using rne_mono [of "of_int n" x] by simp

datatype fmt = Single | Double

fun prec :: "fmt \<Rightarrow> int" where
  "prec Single = 24"
| "prec Double = 53"

fun emin :: "fmt \<Rightarrow> int" where
  "emin Single = - 149"
| "emin Double = - 1074"

fun etop :: "fmt \<Rightarrow> int" where
  "etop Single = 128"
| "etop Double = 1024"

definition qexp :: "fmt \<Rightarrow> rat \<Rightarrow> int" where
  "qexp f x = max (emin f) (ilog2 x - (prec f - 1))"

definition rnd_at :: "int \<Rightarrow> rat \<Rightarrow> rat" where
  "rnd_at e x = of_int (rne (x / 2 powi e)) * 2 powi e"

definition rndp :: "fmt \<Rightarrow> rat \<Rightarrow> rat" where
  "rndp f x = rnd_at (qexp f x) x"

definition rnd :: "fmt \<Rightarrow> rat \<Rightarrow> rat" where
  "rnd f x = (if x = 0 then 0 else if 0 < x then rndp f x else - rndp f (- x))"


lemma qexp_mono: "0 < x \<Longrightarrow> x \<le> y \<Longrightarrow> qexp f x \<le> qexp f y"
  using ilog2_mono [of x y] by (simp add: qexp_def max_def)

lemma rndp_nonneg: "0 \<le> x \<Longrightarrow> 0 \<le> rndp f x"
  using rne_ge_int [of 0 "x / 2 powi qexp f x"] by (simp add: rndp_def rnd_at_def)

lemma grid_div:
  assumes "q \<le> e"
  shows "of_int m * 2 powi e / 2 powi q = (of_int (m * 2 ^ nat (e - q)) :: rat)"
proof -
  have "(2::rat) powi e = 2 powi (e - q) * 2 powi q"
    by (simp flip: power_int_add)
  moreover have "(2::rat) powi (e - q) = of_int (2 ^ nat (e - q))"
    using assms by (simp add: power_int_def)
  ultimately show ?thesis by simp
qed

lemma rndp_le_grid:
  assumes "x \<le> of_int m * 2 powi e" "qexp f x \<le> e"
  shows "rndp f x \<le> of_int m * 2 powi e"
proof -
  let ?q = "qexp f x"
  have "x / 2 powi ?q \<le> of_int m * 2 powi e / 2 powi ?q"
    using assms(1) by (intro divide_right_mono) auto
  then have "rne (x / 2 powi ?q) \<le> m * 2 ^ nat (e - ?q)"
    unfolding grid_div [OF assms(2)] by (rule rne_le_int)
  then have "(of_int (rne (x / 2 powi ?q)) :: rat) \<le> of_int (m * 2 ^ nat (e - ?q))"
    by (simp only: of_int_le_iff)
  then show ?thesis
    unfolding grid_div [OF assms(2), symmetric] rndp_def rnd_at_def by (simp add: pos_le_divide_eq)
qed

lemma rndp_ge_grid:
  assumes "of_int m * 2 powi e \<le> x" "qexp f x \<le> e"
  shows "of_int m * 2 powi e \<le> rndp f x"
proof -
  let ?q = "qexp f x"
  have "of_int m * 2 powi e / 2 powi ?q \<le> x / 2 powi ?q"
    using assms(1) by (intro divide_right_mono) auto
  then have "m * 2 ^ nat (e - ?q) \<le> rne (x / 2 powi ?q)"
    unfolding grid_div [OF assms(2)] by (rule rne_ge_int)
  then have "(of_int (m * 2 ^ nat (e - ?q)) :: rat) \<le> of_int (rne (x / 2 powi ?q))"
    by (simp only: of_int_le_iff)
  then show ?thesis
    unfolding grid_div [OF assms(2), symmetric] rndp_def rnd_at_def by (simp add: pos_divide_le_eq)
qed

lemma prec_pos [simp]: "1 < prec f" "0 < prec f" "0 \<le> prec f" "1 \<le> prec f"
  by (cases f; simp)+

lemma qexp_le_ilog2:
  assumes "emin f < qexp f x"
  shows "qexp f x = ilog2 x - (prec f - 1)" "qexp f x \<le> ilog2 x"
  using assms prec_pos(1) [of f] by (auto simp: qexp_def)

lemma rndp_mono:
  assumes "0 < x" "x \<le> y"
  shows "rndp f x \<le> rndp f y"
proof (cases "qexp f x = qexp f y")
  case True
  have "rne (x / 2 powi qexp f y) \<le> rne (y / 2 powi qexp f y)"
    using assms by (intro rne_mono divide_right_mono) auto
  then show ?thesis using True by (simp add: rndp_def rnd_at_def)
next
  case False
  with qexp_mono [OF assms, of f] have lt: "qexp f x < qexp f y" by simp
  moreover have "emin f \<le> qexp f x" by (simp add: qexp_def)
  ultimately have qy: "qexp f y = ilog2 y - (prec f - 1)" "qexp f y \<le> ilog2 y"
    using qexp_le_ilog2 [of f y] by auto
  have "ilog2 x - (prec f - 1) \<le> qexp f x" by (simp add: qexp_def)
  with lt qy have "ilog2 x + 1 \<le> ilog2 y" by simp
  then have "(2::rat) powi (ilog2 x + 1) \<le> 2 powi ilog2 y" by simp
  then have "x \<le> 2 powi ilog2 y" using ilog2_bounds(2) [OF assms(1)] by linarith
  then have "rndp f x \<le> of_int 1 * 2 powi ilog2 y"
    using lt qy prec_pos(4) [of f] by (intro rndp_le_grid) (simp, linarith)
  moreover have "of_int 1 * 2 powi ilog2 y \<le> rndp f y"
    using qy ilog2_bounds(1) [of y] assms by (intro rndp_ge_grid) auto
  ultimately show ?thesis by linarith
qed

lemma rnd_zero [simp]: "rnd f 0 = 0"
  by (simp add: rnd_def)

lemma rnd_minus [simp]: "rnd f (- x) = - rnd f x"
  by (auto simp: rnd_def)

lemma rnd_mono: "x \<le> y \<Longrightarrow> rnd f x \<le> rnd f y"
proof -
  assume "x \<le> y"
  then consider "0 < x" | "x \<le> 0" "0 \<le> y" | "y < 0" by linarith
  then show ?thesis
  proof cases
    case 1
    with \<open>x \<le> y\<close> show ?thesis using rndp_mono [of x y f] by (simp add: rnd_def)
  next
    case 2
    with rndp_nonneg [of "- x" f] rndp_nonneg [of y f] show ?thesis
      by (auto simp: rnd_def)
  next
    case 3
    with \<open>x \<le> y\<close> show ?thesis using rndp_mono [of "- y" "- x" f] by (simp add: rnd_def)
  qed
qed

lemma rndp_exact_grid:
  assumes "qexp f x \<le> e" "x = of_int m * 2 powi e"
  shows "rndp f x = x"
  using rndp_le_grid [of x m e f] rndp_ge_grid [of m e x f] assms by simp

lemma rndp_grid:
  assumes "0 < m" "m \<le> 2 ^ nat (prec f)" "emin f \<le> e"
  defines "x \<equiv> of_int m * 2 powi e :: rat"
  shows "rndp f x = x"
proof (cases "m = 2 ^ nat (prec f)")
  case True
  then have x: "x = 2 powi (e + prec f)"
    by (simp add: x_def power_int_add) (simp add: power_int_def)
  then have "ilog2 x = e + prec f"
    by (auto intro!: ilog2_unique)
  then have "qexp f x \<le> e + prec f" using assms(3) prec_pos(1) [of f] by (simp add: qexp_def)
  then show ?thesis using x by (intro rndp_exact_grid [of _ _ "e + prec f" 1]) auto
next
  case False
  with assms(2) have "m < 2 ^ nat (prec f)" by simp
  then have "(of_int m :: rat) < of_int (2 ^ nat (prec f))" by (simp only: of_int_less_iff)
  then have "(of_int m :: rat) < 2 powi prec f" by (simp add: power_int_def)
  then have "x < 2 powi (e + prec f)" by (simp add: x_def power_int_add)
  moreover have "0 < x" using assms(1) by (simp add: x_def)
  ultimately have "(2::rat) powi ilog2 x < 2 powi (e + prec f)"
    using ilog2_bounds(1) [of x] by linarith
  then have "qexp f x \<le> e" using assms(3) by (simp add: qexp_def)
  then show ?thesis by (intro rndp_exact_grid [of _ _ e m]) (auto simp: x_def)
qed

theorem rnd_grid:
  assumes "\<bar>m\<bar> \<le> 2 ^ nat (prec f)" "emin f \<le> e"
  shows "rnd f (of_int m * 2 powi e) = of_int m * 2 powi e"
proof -
  consider "m = 0" | "0 < m" | "m < 0" by linarith
  then show ?thesis
  proof cases
    case 2
    then show ?thesis using rndp_grid [of m f e] assms by (simp add: rnd_def)
  next
    case 3
    then have "rnd f (of_int (- m) * 2 powi e) = of_int (- m) * 2 powi e"
      using rndp_grid [of "- m" f e] assms by (simp add: rnd_def mult_less_0_iff)
    then show ?thesis using rnd_minus [of f "of_int m * 2 powi e"] by simp
  qed simp
qed

lemma rndp_grid_form:
  assumes "0 < x"
  shows "\<exists>m e. 0 \<le> m \<and> m \<le> 2 ^ nat (prec f) \<and> emin f \<le> e \<and> rndp f x = of_int m * 2 powi e"
proof -
  let ?q = "qexp f x"
  have q: "emin f \<le> ?q" "ilog2 x + 1 \<le> ?q + prec f" by (auto simp: qexp_def)
  then have "(2::rat) powi (ilog2 x + 1) \<le> 2 powi (?q + prec f)" by simp
  then have "x \<le> 2 powi ?q * 2 powi prec f"
    using ilog2_bounds(2) [OF assms] by (simp add: power_int_add)
  then have "x / 2 powi ?q \<le> of_int (2 ^ nat (prec f))"
    by (simp add: pos_divide_le_eq power_int_def mult.commute)
  then have "rne (x / 2 powi ?q) \<le> 2 ^ nat (prec f)" by (rule rne_le_int)
  moreover have "0 \<le> rne (x / 2 powi ?q)"
    using assms by (intro rne_ge_int) simp
  ultimately show ?thesis using q by (auto simp: rndp_def rnd_at_def)
qed

lemma rnd_idem [simp]: "rnd f (rnd f x) = rnd f x"
proof -
  have *: "rnd f (rndp f y) = rndp f y" if "0 < y" for y
    using rndp_grid_form [OF that, of f] rnd_grid [of _ f] by auto
  show ?thesis using * [of x] * [of "- x"] by (auto simp: rnd_def)
qed

lemma rndp_error:
  assumes "0 < x"
  shows "\<bar>rndp f x - x\<bar> \<le> 2 powi (qexp f x - 1)"
proof -
  let ?q = "qexp f x"
  let ?d = "of_int (rne (x / 2 powi ?q)) - x / 2 powi ?q"
  have "rndp f x - x = ?d * 2 powi ?q"
    by (simp add: rndp_def rnd_at_def left_diff_distrib)
  then have "\<bar>rndp f x - x\<bar> = \<bar>?d\<bar> * 2 powi ?q"
    by (simp add: abs_mult)
  also have "\<dots> \<le> 1 / 2 * 2 powi ?q"
    by (intro mult_right_mono rne_error) simp
  also have "\<dots> = 2 powi (?q - 1)" by (simp add: power_int_diff)
  finally show ?thesis .
qed

lemma rnd_error:
  assumes "\<bar>x\<bar> \<le> 2 powi k" "emin f + prec f \<le> k"
  shows "\<bar>rnd f x - x\<bar> \<le> 2 powi (k - prec f)"
proof -
  have *: "\<bar>rndp f y - y\<bar> \<le> 2 powi (k - prec f)" if y: "0 < y" "y \<le> 2 powi k" for y
  proof (cases "y = 2 powi k")
    case True
    then show ?thesis using rnd_grid [of 1 f k] assms y prec_pos(3) [of f]
      by (simp add: rnd_def)
  next
    case False
    with y have "(2::rat) powi ilog2 y < 2 powi k" using ilog2_bounds(1) [of y] by linarith
    then have "qexp f y - 1 \<le> k - prec f" using assms(2) by (simp add: qexp_def)
    then have "(2::rat) powi (qexp f y - 1) \<le> 2 powi (k - prec f)" by simp
    then show ?thesis using rndp_error [OF y(1), of f] by linarith
  qed
  show ?thesis using * [of x] * [of "- x"] assms(1) by (auto simp: rnd_def)
qed

lemma rnd_of_int:
  assumes "\<bar>n\<bar> \<le> 2 ^ nat (prec f)"
  shows "rnd f (of_int n) = of_int n"
  using rnd_grid [of n f 0] assms by (cases f) auto

locale rounding =
  fixes r :: "rat \<Rightarrow> rat"
  assumes mono: "x \<le> y \<Longrightarrow> r x \<le> r y"
    and idem: "r (r x) = r x"
    and minus: "r (- x) = - r x"
begin

lemma zero: "r 0 = 0"
  using minus [of 0] by simp

lemma le_repr: "x \<le> c \<Longrightarrow> r c = c \<Longrightarrow> r x \<le> c"
  using mono [of x c] by simp

lemma ge_repr: "c \<le> x \<Longrightarrow> r c = c \<Longrightarrow> c \<le> r x"
  using mono [of c x] by simp

lemma nonneg: "0 \<le> x \<Longrightarrow> 0 \<le> r x"
  using ge_repr [of 0 x] zero by simp

lemma nonpos: "x \<le> 0 \<Longrightarrow> r x \<le> 0"
  using le_repr [of x 0] zero by simp

lemma abs_le_repr: "\<bar>x\<bar> \<le> c \<Longrightarrow> r c = c \<Longrightarrow> \<bar>r x\<bar> \<le> c"
  using le_repr [of x c] ge_repr [of "- c" x] minus [of c] by (simp add: abs_le_iff)

end

interpretation rd: rounding "rnd f" for f
  by unfold_locales (auto intro: rnd_mono)

subsection \<open>Floating-point data\<close>

datatype fp = NaN | Inf bool | NegZero | Num rat

fun fval :: "fp \<Rightarrow> rat" where
  "fval (Num r) = r"
| "fval _ = 0"

fun fsign :: "fp \<Rightarrow> bool" where
  "fsign (Num r) \<longleftrightarrow> r < 0"
| "fsign NegZero \<longleftrightarrow> True"
| "fsign (Inf s) \<longleftrightarrow> s"
| "fsign NaN \<longleftrightarrow> False"

fun finite_fp :: "fp \<Rightarrow> bool" where
  "finite_fp (Num _) \<longleftrightarrow> True"
| "finite_fp NegZero \<longleftrightarrow> True"
| "finite_fp _ \<longleftrightarrow> False"

definition pack :: "fmt \<Rightarrow> bool \<Rightarrow> rat \<Rightarrow> fp" where
  "pack f s r = (if 2 powi etop f \<le> \<bar>r\<bar> then Inf s
     else if r = 0 then (if s then NegZero else Num 0)
     else Num r)"

definition fround :: "fmt \<Rightarrow> bool \<Rightarrow> rat \<Rightarrow> fp" where
  "fround f s x = pack f (x < 0 \<or> x = 0 \<and> s) (rnd f x)"

fun fneg :: "fp \<Rightarrow> fp" where
  "fneg NaN = NaN"
| "fneg (Inf s) = Inf (\<not> s)"
| "fneg NegZero = Num 0"
| "fneg (Num r) = (if r = 0 then NegZero else Num (- r))"

fun fadd :: "fmt \<Rightarrow> fp \<Rightarrow> fp \<Rightarrow> fp" where
  "fadd f NaN _ = NaN"
| "fadd f _ NaN = NaN"
| "fadd f (Inf s) (Inf t) = (if s = t then Inf s else NaN)"
| "fadd f (Inf s) _ = Inf s"
| "fadd f _ (Inf t) = Inf t"
| "fadd f a b = fround f (fsign a \<and> fsign b) (fval a + fval b)"

definition fsub :: "fmt \<Rightarrow> fp \<Rightarrow> fp \<Rightarrow> fp" where
  "fsub f a b = fadd f a (fneg b)"

fun fmul :: "fmt \<Rightarrow> fp \<Rightarrow> fp \<Rightarrow> fp" where
  "fmul f NaN _ = NaN"
| "fmul f _ NaN = NaN"
| "fmul f (Inf s) b = (if fval b = 0 \<and> finite_fp b then NaN else Inf (s \<noteq> fsign b))"
| "fmul f a (Inf t) = (if fval a = 0 then NaN else Inf (fsign a \<noteq> t))"
| "fmul f a b = fround f (fsign a \<noteq> fsign b) (fval a * fval b)"

fun fdiv :: "fmt \<Rightarrow> fp \<Rightarrow> fp \<Rightarrow> fp" where
  "fdiv f NaN _ = NaN"
| "fdiv f _ NaN = NaN"
| "fdiv f (Inf s) (Inf t) = NaN"
| "fdiv f (Inf s) b = Inf (s \<noteq> fsign b)"
| "fdiv f a (Inf t) = (if fsign a \<noteq> t then NegZero else Num 0)"
| "fdiv f a b = (if fval b = 0 then if fval a = 0 then NaN else Inf (fsign a \<noteq> fsign b)
     else fround f (fsign a \<noteq> fsign b) (fval a / fval b))"

fun flt :: "fp \<Rightarrow> fp \<Rightarrow> bool" where
  "flt NaN _ \<longleftrightarrow> False"
| "flt _ NaN \<longleftrightarrow> False"
| "flt (Inf s) (Inf t) \<longleftrightarrow> s \<and> \<not> t"
| "flt (Inf s) _ \<longleftrightarrow> s"
| "flt _ (Inf t) \<longleftrightarrow> \<not> t"
| "flt a b \<longleftrightarrow> fval a < fval b"

fun feq :: "fp \<Rightarrow> fp \<Rightarrow> bool" where
  "feq NaN _ \<longleftrightarrow> False"
| "feq _ NaN \<longleftrightarrow> False"
| "feq (Inf s) (Inf t) \<longleftrightarrow> s = t"
| "feq (Inf s) _ \<longleftrightarrow> False"
| "feq _ (Inf t) \<longleftrightarrow> False"
| "feq a b \<longleftrightarrow> fval a = fval b"

definition fle :: "fp \<Rightarrow> fp \<Rightarrow> bool" where
  "fle a b \<longleftrightarrow> flt a b \<or> feq a b"

fun fcast :: "fmt \<Rightarrow> fp \<Rightarrow> fp" where
  "fcast f (Num r) = fround f False r"
| "fcast f x = x"

definition of_cint :: "fmt \<Rightarrow> int \<Rightarrow> fp" where
  "of_cint f n = fround f False (of_int n)"

definition trunc_rat :: "rat \<Rightarrow> int" where
  "trunc_rat x = (if 0 \<le> x then \<lfloor>x\<rfloor> else - \<lfloor>- x\<rfloor>)"

definition to_cint :: "fp \<Rightarrow> int option" where
  "to_cint x = (if finite_fp x then ck (trunc_rat (fval x)) else None)"

definition flit :: "rat \<Rightarrow> fp" where
  "flit x = fround Single False x"

lemma floor_rat_numeral [fp_eval]:
  "\<lfloor>numeral a / numeral b :: rat\<rfloor> = numeral a div numeral b"
  "\<lfloor>1 / numeral b :: rat\<rfloor> = 1 div numeral b"
  "\<lfloor>- (numeral a / numeral b) :: rat\<rfloor> = - (numeral a) div numeral b"
  "\<lfloor>- (1 / numeral b) :: rat\<rfloor> = - 1 div numeral b"
  using floor_divide_of_int_eq [of "numeral a" "numeral b", where ?'a = rat]
    floor_divide_of_int_eq [of 1 "numeral b", where ?'a = rat]
    floor_divide_of_int_eq [of "- numeral a" "numeral b", where ?'a = rat]
    floor_divide_of_int_eq [of "- 1" "numeral b", where ?'a = rat] by simp_all


subsection \<open>Finite operands\<close>

definition in_fmt :: "fmt \<Rightarrow> fp \<Rightarrow> bool" where
  "in_fmt f x \<longleftrightarrow> (case x of Num r \<Rightarrow> rnd f r = r \<and> \<bar>r\<bar> < 2 powi etop f | _ \<Rightarrow> True)"

lemma in_fmt_simps [simp]:
  "in_fmt f NaN" "in_fmt f (Inf s)" "in_fmt f NegZero"
  "in_fmt f (Num r) \<longleftrightarrow> rnd f r = r \<and> \<bar>r\<bar> < 2 powi etop f"
  by (simp_all add: in_fmt_def)

lemma in_fmt_fround [simp, intro]: "in_fmt f (fround f s x)"
  by (auto simp: fround_def pack_def not_le)

lemma fround_fval:
  assumes "\<bar>rnd f x\<bar> < 2 powi etop f"
  shows "finite_fp (fround f s x) \<and> fval (fround f s x) = rnd f x"
  using assms by (auto simp: fround_def pack_def)

lemma fround_between:
  assumes "lo \<le> x" "x \<le> hi" "rnd f lo = lo" "rnd f hi = hi"
    and "- (2 powi etop f) < lo" "hi < 2 powi etop f"
  shows "finite_fp (fround f s x)" "lo \<le> fval (fround f s x)" "fval (fround f s x) \<le> hi"
    and "fval (fround f s x) = rnd f x"
proof -
  have r: "lo \<le> rnd f x" "rnd f x \<le> hi"
    using assms rd.ge_repr rd.le_repr by auto
  then have "\<bar>rnd f x\<bar> < 2 powi etop f" using assms(5,6) by linarith
  from fround_fval [OF this, of s] r
  show "finite_fp (fround f s x)" "lo \<le> fval (fround f s x)" "fval (fround f s x) \<le> hi"
    "fval (fround f s x) = rnd f x" by auto
qed

lemma fround_exact:
  assumes "rnd f x = x" "\<bar>x\<bar> < 2 powi etop f"
  shows "finite_fp (fround f s x)" "fval (fround f s x) = x"
  using fround_fval [of f x s] assms by auto

lemma fadd_finite:
  "finite_fp a \<Longrightarrow> finite_fp b \<Longrightarrow> fadd f a b = fround f (fsign a \<and> fsign b) (fval a + fval b)"
  by (cases a; cases b) auto

lemma fneg_finite [simp]: "finite_fp (fneg a) \<longleftrightarrow> finite_fp a" "fval (fneg a) = - fval a"
  by (cases a; simp)+

lemma fsub_finite:
  "finite_fp a \<Longrightarrow> finite_fp b \<Longrightarrow> fsub f a b = fround f (fsign a \<and> fsign (fneg b)) (fval a - fval b)"
  by (simp add: fsub_def fadd_finite)

lemma fmul_finite:
  "finite_fp a \<Longrightarrow> finite_fp b \<Longrightarrow> fmul f a b = fround f (fsign a \<noteq> fsign b) (fval a * fval b)"
  by (cases a; cases b) auto

lemma fdiv_finite:
  "finite_fp a \<Longrightarrow> finite_fp b \<Longrightarrow> fval b \<noteq> 0 \<Longrightarrow>
     fdiv f a b = fround f (fsign a \<noteq> fsign b) (fval a / fval b)"
  by (cases a; cases b) auto

lemmas fop_finite = fadd_finite fsub_finite fmul_finite fdiv_finite

lemma flt_finite [simp]: "finite_fp a \<Longrightarrow> finite_fp b \<Longrightarrow> flt a b \<longleftrightarrow> fval a < fval b"
  by (cases a; cases b) auto

lemma feq_finite [simp]: "finite_fp a \<Longrightarrow> finite_fp b \<Longrightarrow> feq a b \<longleftrightarrow> fval a = fval b"
  by (cases a; cases b) auto

lemma fle_finite [simp]: "finite_fp a \<Longrightarrow> finite_fp b \<Longrightarrow> fle a b \<longleftrightarrow> fval a \<le> fval b"
  by (auto simp: fle_def)

lemma flt_NaN [simp]: "\<not> flt NaN b" "\<not> flt a NaN"
  by (cases a; simp)+

lemma flt_Inf_finite [simp]:
  "finite_fp x \<Longrightarrow> flt x (Inf s) \<longleftrightarrow> \<not> s" "finite_fp x \<Longrightarrow> flt (Inf s) x \<longleftrightarrow> s"
  by (cases x; simp)+

lemma fcast_in_fmt: "in_fmt f x \<Longrightarrow> fcast f x = x"
  by (cases x) (auto simp: fround_def pack_def)

subsection \<open>Intervals\<close>

text \<open>
  Interval reasoning for the component proofs: a finite datum between two bounds, and how
  each operation moves the bounds. The bounds of a result must be representable, which the
  simplifier decides on numerals with \<open>fp_eval\<close>.
\<close>

definition repn :: "fmt \<Rightarrow> rat \<Rightarrow> bool" where
  "repn f x \<longleftrightarrow> rnd f x = x \<and> \<bar>x\<bar> < 2 powi etop f"

definition btw :: "rat \<Rightarrow> rat \<Rightarrow> fp \<Rightarrow> bool" where
  "btw lo hi x \<longleftrightarrow> finite_fp x \<and> lo \<le> fval x \<and> fval x \<le> hi"

lemma btwD: "btw lo hi x \<Longrightarrow> finite_fp x" "btw lo hi x \<Longrightarrow> lo \<le> fval x" "btw lo hi x \<Longrightarrow> fval x \<le> hi"
  by (simp_all add: btw_def)

lemma btw_weaken: "btw lo hi x \<Longrightarrow> lo' \<le> lo \<Longrightarrow> hi \<le> hi' \<Longrightarrow> btw lo' hi' x"
  by (auto simp: btw_def)

lemma btw_Num [simp]: "btw lo hi (Num r) \<longleftrightarrow> lo \<le> r \<and> r \<le> hi"
  by (simp add: btw_def)

lemma btw_fround:
  assumes "lo \<le> x" "x \<le> hi" "repn f lo" "repn f hi"
  shows "btw lo hi (fround f s x)"
  using fround_between [of lo x hi f s] assms by (auto simp: btw_def repn_def)

lemma btw_add:
  assumes "btw a b x" "btw c d y" "lo \<le> a + c" "b + d \<le> hi" "repn f lo" "repn f hi"
  shows "btw lo hi (fadd f x y)"
proof -
  from assms have "fadd f x y = fround f (fsign x \<and> fsign y) (fval x + fval y)"
    by (simp add: fadd_finite btw_def)
  moreover from assms have "lo \<le> fval x + fval y" "fval x + fval y \<le> hi" by (auto simp: btw_def)
  ultimately show ?thesis using assms by (simp add: btw_fround)
qed

lemma btw_neg: "btw a b x \<Longrightarrow> btw (- b) (- a) (fneg x)"
  by (auto simp: btw_def)

lemma btw_sub:
  assumes "btw a b x" "btw c d y" "lo \<le> a - d" "b - c \<le> hi" "repn f lo" "repn f hi"
  shows "btw lo hi (fsub f x y)"
  unfolding fsub_def
  by (rule btw_add [OF assms(1) btw_neg [OF assms(2)]]) (use assms in auto)

text \<open>Products and quotients with a factor of known sign.\<close>

lemma btw_mul:
  assumes "btw a b x" "btw c d y" "0 \<le> a" "0 \<le> c" "lo \<le> a * c" "b * d \<le> hi" "repn f lo" "repn f hi"
  shows "btw lo hi (fmul f x y)"
proof -
  from assms have v: "a \<le> fval x" "fval x \<le> b" "c \<le> fval y" "fval y \<le> d" "finite_fp x" "finite_fp y"
    by (auto simp: btw_def)
  then have "a * c \<le> fval x * fval y" "fval x * fval y \<le> b * d"
    using assms(3,4) by (auto intro: mult_mono)
  with assms(5-8) v show ?thesis by (simp add: fmul_finite btw_fround)
qed

lemma btw_scale:
  assumes "btw a b x" "finite_fp y" "fval y = c" "0 \<le> c" "lo \<le> a * c" "b * c \<le> hi" "repn f lo" "repn f hi"
  shows "btw lo hi (fmul f x y)" "btw lo hi (fmul f y x)"
proof -
  from assms(1,4) have "a * c \<le> fval x * c" "fval x * c \<le> b * c"
    by (auto simp: btw_def intro: mult_right_mono)
  with assms show "btw lo hi (fmul f x y)" "btw lo hi (fmul f y x)"
    by (auto simp: fmul_finite btw_def [of a b] mult.commute intro!: btw_fround)
qed

lemma btw_div:
  assumes "btw a b x" "finite_fp y" "fval y = c" "0 < c" "lo \<le> a / c" "b / c \<le> hi" "repn f lo" "repn f hi"
  shows "btw lo hi (fdiv f x y)"
proof -
  from assms(1,4) have "a / c \<le> fval x / c" "fval x / c \<le> b / c"
    by (auto simp: btw_def intro: divide_right_mono)
  with assms show ?thesis
    by (auto simp: fdiv_finite btw_def [of a b] intro!: btw_fround)
qed

text \<open>A factor between 0 and 1 keeps a value between bounds on either side of zero.\<close>

lemma btw_mul_unit:
  assumes "btw a b x" "finite_fp y" "0 \<le> fval y" "fval y \<le> 1" "a \<le> 0" "0 \<le> b"
    and "lo \<le> a" "b \<le> hi" "repn f lo" "repn f hi"
  shows "btw lo hi (fmul f x y)"
proof -
  from assms(1) have v: "a \<le> fval x" "fval x \<le> b" "finite_fp x" by (auto simp: btw_def)
  have "lo \<le> fval x * fval y \<and> fval x * fval y \<le> hi"
  proof (cases "0 \<le> fval x")
    case True
    with assms(3-8) v have "0 \<le> fval x * fval y" "fval x * fval y \<le> fval x"
      by (simp_all add: mult_left_le)
    with assms v show ?thesis by linarith
  next
    case False
    with assms(3-8) have "fval x \<le> fval x * fval y" "fval x * fval y \<le> 0"
      by (simp_all add: mult_nonpos_nonneg mult_le_cancel_left1)
    with assms v show ?thesis by linarith
  qed
  with assms v show ?thesis by (simp add: fmul_finite btw_fround)
qed

text \<open>Multiplication by a negative constant, and the rounding error of a single operation.\<close>

lemma btw_scale_neg:
  assumes "btw a b x" "finite_fp y" "fval y = c" "c \<le> 0" "lo \<le> b * c" "a * c \<le> hi" "repn f lo" "repn f hi"
  shows "btw lo hi (fmul f y x)"
proof -
  from assms(1,4) have "b * c \<le> fval x * c" "fval x * c \<le> a * c"
    by (auto simp: btw_def intro: mult_right_mono_neg)
  with assms show ?thesis
    by (auto simp: fmul_finite btw_def [of a b] mult.commute intro!: btw_fround)
qed

lemma fround_error:
  assumes "\<bar>x\<bar> \<le> 2 powi k" "emin f + prec f \<le> k" "k < etop f"
  shows "finite_fp (fround f s x)" "\<bar>fval (fround f s x) - x\<bar> \<le> 2 powi (k - prec f)"
proof -
  have "emin f \<le> k" using assms(2) prec_pos(3) [of f] by linarith
  with rnd_grid [of 1 f k] have p: "rnd f (2 powi k) = 2 powi k" by simp
  have "\<bar>rnd f x\<bar> \<le> 2 powi k" by (rule rd.abs_le_repr [OF assms(1) p])
  also have "(2::rat) powi k < 2 powi etop f" using assms(3) by simp
  finally have "finite_fp (fround f s x) \<and> fval (fround f s x) = rnd f x" by (rule fround_fval)
  with rnd_error [OF assms(1,2)]
  show "finite_fp (fround f s x)" "\<bar>fval (fround f s x) - x\<bar> \<le> 2 powi (k - prec f)" by auto
qed

lemma fround_error_Single:
  assumes "\<bar>x\<bar> \<le> 2 ^ n" "n < 128"
  shows "\<bar>fval (fround Single s x) - x\<bar> \<le> 2 ^ n / 16777216"
proof -
  have "(2::rat) powi (int n - 24) = 2 ^ n / 2 powi 24"
    by (simp add: power_int_diff)
  with fround_error(2) [of x "int n" Single s] assms show ?thesis by simp
qed

text \<open>Integers up to the precision are exact.\<close>

lemma powi2_etop: "(2::rat) powi prec f < 2 powi etop f"
  by (cases f) (simp_all only: powi2_less_iff prec.simps etop.simps)

lemma of_cint_exact:
  assumes "\<bar>n\<bar> \<le> 2 ^ nat (prec f)"
  shows "finite_fp (of_cint f n)" "fval (of_cint f n) = of_int n"
proof -
  have "(of_int \<bar>n\<bar> :: rat) \<le> of_int (2 ^ nat (prec f))" using assms by (simp only: of_int_le_iff)
  then have "\<bar>of_int n :: rat\<bar> \<le> 2 powi prec f" by (simp add: power_int_def)
  with powi2_etop [of f] have "\<bar>of_int n :: rat\<bar> < 2 powi etop f" by linarith
  from fround_exact [OF rnd_of_int [OF assms] this, of False]
  show "finite_fp (of_cint f n)" "fval (of_cint f n) = of_int n" by (auto simp: of_cint_def)
qed

lemma of_cint_exact_Single:
  assumes "\<bar>n\<bar> \<le> 16777216"
  shows "finite_fp (of_cint Single n)" "fval (of_cint Single n) = of_int n"
  using of_cint_exact [of n Single] assms by simp_all

lemma of_cint_exact_Double:
  assumes "in_int n"
  shows "finite_fp (of_cint Double n)" "fval (of_cint Double n) = of_int n"
proof -
  have "\<bar>n\<bar> \<le> 2 ^ nat (prec Double)" using assms by (simp add: in_int_iff abs_le_iff)
  then show "finite_fp (of_cint Double n)" "fval (of_cint Double n) = of_int n"
    by (rule of_cint_exact)+
qed

subsection \<open>Evaluation\<close>

definition tie_int :: "int \<Rightarrow> int \<Rightarrow> int \<Rightarrow> int" where
  "tie_int q r b = (if 2 * r < b then q else if b < 2 * r then q + 1 else if even q then q else q + 1)"

lemma rne_frac:
  assumes "0 < b"
  shows "rne (of_int a / of_int b) = tie_int (a div b) (a mod b) b"
proof -
  have fl: "\<lfloor>of_int a / of_int b :: rat\<rfloor> = a div b"
    by (rule floor_divide_of_int_eq)
  have "(of_int a :: rat) = of_int (a div b) * of_int b + of_int (a mod b)"
    by (metis div_mult_mod_eq of_int_add of_int_mult)
  then have "(of_int a / of_int b :: rat) = of_int (a div b) + of_int (a mod b) / of_int b"
    using assms by (simp add: add_divide_distrib)
  then have d: "of_int a / of_int b - of_int (a div b) = (of_int (a mod b) / of_int b :: rat)"
    by simp
  have "of_int (a mod b) / of_int b < (1 / 2 :: rat) \<longleftrightarrow> (of_int (2 * (a mod b)) :: rat) < of_int b"
    using assms by (simp add: pos_divide_less_eq) linarith
  moreover have "(1 / 2 :: rat) < of_int (a mod b) / of_int b \<longleftrightarrow> (of_int b :: rat) < of_int (2 * (a mod b))"
    using assms by (simp add: pos_less_divide_eq) linarith
  ultimately show ?thesis
    by (simp only: rne_def fl d tie_even_def tie_int_def of_int_less_iff)
qed

lemma rne_numeral [fp_eval]:
  "rne (numeral a / numeral b) = tie_int (numeral a div numeral b) (numeral a mod numeral b) (numeral b)"
  "rne (1 / numeral b) = tie_int (1 div numeral b) (1 mod numeral b) (numeral b)"
  "rne (numeral a) = numeral a"
  "rne 1 = 1"
  using rne_frac [of "numeral b" "numeral a"] rne_frac [of "numeral b" 1]
    rne_of_int [of "numeral a"] rne_of_int [of 1] by simp_all

text \<open>Values far from the overflow threshold pack without comparing against it.\<close>

lemma pack_small:
  assumes "\<bar>r\<bar> \<le> 340282346638528859811704183484516925440" "r \<noteq> 0"
  shows "pack f s r = Num r"
proof -
  have "(2::rat) powi 128 \<le> 2 powi etop f" by (cases f) (simp_all only: powi2_le_iff etop.simps)
  moreover have "(340282346638528859811704183484516925440 :: rat) < 2 powi 128" by simp
  ultimately have "\<bar>r\<bar> < 2 powi etop f" using assms(1) by linarith
  then show ?thesis using assms(2) by (simp add: pack_def)
qed

lemma pack_zero: "pack f s 0 = (if s then NegZero else Num 0)"
proof -
  have "\<not> 2 powi etop f \<le> (0::rat)" by (simp only: not_le powi2_pos)
  then show ?thesis by (simp add: pack_def)
qed

lemma repn_eval [fp_eval]:
  "repn f x \<longleftrightarrow> rnd f x = x \<and> \<bar>x\<bar> < 2 powi etop f"
  by (simp add: repn_def)

lemmas [fp_eval] = fround_def pack_small pack_zero rnd_def rndp_def rnd_at_def qexp_def max_def
  tie_int_def ilog2_numeral log_adj_def fsub_def fle_def of_cint_def to_cint_def trunc_rat_def
  in_int_iff flit_def

end
