(* ===== verification/CMath.thy ===== *)
theory CMath
  imports CFloat "HOL-Library.Word"
begin

text \<open>
  The "math" section of oppai.c: the special values, the tests on bit patterns, the
  two-dimensional vectors, the \<^verbatim>\<open>al_*\<close> macros, and the functions of \<^verbatim>\<open>math.h\<close> the sources call.
  \<^verbatim>\<open>floor\<close>, \<^verbatim>\<open>ceil\<close>, \<^verbatim>\<open>fabs\<close>, \<^verbatim>\<open>fmod\<close> and \<^verbatim>\<open>sqrt\<close> are exactly specified by IEEE 754 and are
  defined here. The accuracy of \<^verbatim>\<open>pow\<close>, \<^verbatim>\<open>log\<close>, \<^verbatim>\<open>log10\<close>, \<^verbatim>\<open>sin\<close> and \<^verbatim>\<open>atan2\<close> is
  left to the implementation by the C standard, so they are the fields of a record \<open>libm\<close>
  that the definitions take as an argument.
  The file is read as C: arguments of \<^verbatim>\<open>math.h\<close> functions are converted to \<^verbatim>\<open>double\<close>,
  which preserves every \<^verbatim>\<open>float\<close>.
\<close>

record libm =
  m_pow :: "fp \<Rightarrow> fp \<Rightarrow> fp"
  m_log :: "fp \<Rightarrow> fp"
  m_log10 :: "fp \<Rightarrow> fp"
  m_sin :: "fp \<Rightarrow> fp"
  m_atan2 :: "fp \<Rightarrow> fp \<Rightarrow> fp"

abbreviation addf :: "fp \<Rightarrow> fp \<Rightarrow> fp" where "addf \<equiv> fadd Single"
abbreviation subf :: "fp \<Rightarrow> fp \<Rightarrow> fp" where "subf \<equiv> fsub Single"
abbreviation mulf :: "fp \<Rightarrow> fp \<Rightarrow> fp" where "mulf \<equiv> fmul Single"
abbreviation divf :: "fp \<Rightarrow> fp \<Rightarrow> fp" where "divf \<equiv> fdiv Single"
abbreviation addd :: "fp \<Rightarrow> fp \<Rightarrow> fp" where "addd \<equiv> fadd Double"
abbreviation subd :: "fp \<Rightarrow> fp \<Rightarrow> fp" where "subd \<equiv> fsub Double"
abbreviation muld :: "fp \<Rightarrow> fp \<Rightarrow> fp" where "muld \<equiv> fmul Double"
abbreviation divd :: "fp \<Rightarrow> fp \<Rightarrow> fp" where "divd \<equiv> fdiv Double"
abbreviation to_float :: "fp \<Rightarrow> fp" where "to_float \<equiv> fcast Single"
abbreviation i2f :: "int \<Rightarrow> fp" where "i2f \<equiv> of_cint Single"
abbreviation i2d :: "int \<Rightarrow> fp" where "i2d \<equiv> of_cint Double"

definition dlit :: "rat \<Rightarrow> fp" where
  [fp_eval]: "dlit x = fround Double False x"

subsection \<open>Exact functions of math.h\<close>

fun ffloor :: "fp \<Rightarrow> fp" where
  "ffloor (Num r) = Num (of_int \<lfloor>r\<rfloor>)"
| "ffloor x = x"

fun fceil :: "fp \<Rightarrow> fp" where
  "fceil (Num r) = (if - 1 < r \<and> r < 0 then NegZero else Num (of_int (- \<lfloor>- r\<rfloor>)))"
| "fceil x = x"

fun fabs :: "fp \<Rightarrow> fp" where
  "fabs NaN = NaN"
| "fabs (Inf s) = Inf False"
| "fabs NegZero = Num 0"
| "fabs (Num r) = Num \<bar>r\<bar>"

text \<open>\<^verbatim>\<open>fmod\<close> is exact: \<open>x - n y\<close> with the quotient truncated, carrying the sign of \<open>x\<close>.\<close>

definition ffmod :: "fp \<Rightarrow> fp \<Rightarrow> fp" where
  "ffmod x y =
     (if x = NaN \<or> y = NaN \<or> \<not> finite_fp x \<or> (finite_fp y \<and> fval y = 0) then NaN
      else if \<not> finite_fp y then x
      else fround Double (fsign x) (fval x - of_int (trunc_rat (fval x / fval y)) * fval y))"

text \<open>
  \<^verbatim>\<open>sqrt\<close> is correctly rounded. The integer square root of the argument scaled by \<open>4 ^ s\<close> has
  more bits than the format; a half unit is added when it is not exact, so that rounding
  sees on which side of every tie the true root lies.
\<close>

function isqrt :: "int \<Rightarrow> int" where
  "isqrt n = (if n \<le> 0 then 0 else let r = 2 * isqrt (n div 4) in if (r + 1) * (r + 1) \<le> n then r + 1 else r)"
  by pat_completeness auto
termination
  by (relation "measure nat") auto

declare isqrt.simps [simp del]

definition sqrt_scale :: "rat \<Rightarrow> int" where
  "sqrt_scale x = 60 - (ilog2 x div 2)"

definition sqrt_sticky :: "rat \<Rightarrow> rat" where
  "sqrt_sticky x = (let s = sqrt_scale x; n = \<lfloor>x * 4 powi s\<rfloor>; q = isqrt n in
     (if of_int (q * q) = x * 4 powi s then of_int q else of_int q + 1 / 2) / 2 powi s)"

fun fsqrt :: "fp \<Rightarrow> fp" where
  "fsqrt (Num r) = (if r < 0 then NaN else if r = 0 then Num 0 else fround Double False (sqrt_sticky r))"
| "fsqrt (Inf s) = (if s then NaN else Inf False)"
| "fsqrt x = x"

subsection \<open>The macros\<close>

definition al_round :: "fp \<Rightarrow> fp" where
  "al_round x = to_float (ffloor (addf x (flit (1 / 2))))"

definition al_min :: "fp \<Rightarrow> fp \<Rightarrow> fp" where
  "al_min a b = (if flt a b then a else b)"

definition al_max :: "fp \<Rightarrow> fp \<Rightarrow> fp" where
  "al_max a b = (if flt b a then a else b)"

definition al_mini :: "int \<Rightarrow> int \<Rightarrow> int" where
  "al_mini a b = (if a < b then a else b)"

definition al_maxi :: "int \<Rightarrow> int \<Rightarrow> int" where
  "al_maxi a b = (if a > b then a else b)"

lemma al_mini_min [simp]: "al_mini a b = min a b"
  by (simp add: al_mini_def min_def)

lemma al_maxi_max [simp]: "al_maxi a b = max a b"
  by (simp add: al_maxi_def max_def)

lemma al_min_finite:
  "finite_fp a \<Longrightarrow> finite_fp b \<Longrightarrow> finite_fp (al_min a b) \<and> fval (al_min a b) = min (fval a) (fval b)"
  by (auto simp: al_min_def)

lemma al_max_finite:
  "finite_fp a \<Longrightarrow> finite_fp b \<Longrightarrow> finite_fp (al_max a b) \<and> fval (al_max a b) = max (fval a) (fval b)"
  by (auto simp: al_max_def)

text \<open>The macros do not propagate NaN: a comparison with NaN is false.\<close>

lemma al_min_NaN [simp]: "al_min NaN b = b" "al_min a NaN = NaN"
  by (simp_all add: al_min_def)

lemma al_max_NaN [simp]: "al_max NaN b = b" "al_max a NaN = NaN"
  by (simp_all add: al_max_def)

subsection \<open>Bit patterns of binary32\<close>

definition decode :: "bool \<Rightarrow> int \<Rightarrow> int \<Rightarrow> fp" where
  "decode s E F =
     (let v = (if E = 0 then of_int F * 2 powi (- 149) else of_int (F + 8388608) * 2 powi (E - 150))
      in if E = 255 then (if F = 0 then Inf s else NaN)
         else if v = 0 then (if s then NegZero else Num 0)
         else Num (if s then - v else v))"

definition float_of_bits :: "32 word \<Rightarrow> fp" where
  "float_of_bits w = decode (2147483648 \<le> uint w)
     (uint w mod 2147483648 div 8388608) (uint w mod 2147483648 mod 8388608)"

definition magnitude_bits :: "rat \<Rightarrow> int" where
  "magnitude_bits x = (if x = 0 then 0
     else (qexp Single x + 149) * 8388608 + \<lfloor>x / 2 powi qexp Single x\<rfloor>)"

fun bits_of_float :: "fp \<Rightarrow> 32 word" where
  "bits_of_float NaN = 0x7FC00000"
| "bits_of_float (Inf s) = (if s then 0xFF800000 else 0x7F800000)"
| "bits_of_float NegZero = 0x80000000"
| "bits_of_float (Num r) = word_of_int ((if r < 0 then 2147483648 else 0) + magnitude_bits \<bar>r\<bar>)"

definition get_inf :: fp where
  "get_inf = float_of_bits 0x7F800000"

definition get_nan :: fp where
  "get_nan = float_of_bits 0x7FFFFFFF"

definition is_nan_bits :: "32 word \<Rightarrow> bool" where
  "is_nan_bits p \<longleftrightarrow> (p > 0x7F800000 \<and> p < 0x80000000) \<or> (p > 0x7FBFFFFF \<and> p \<le> 0xFFFFFFFF)"

definition is_nan :: "fp \<Rightarrow> bool" where
  "is_nan b \<longleftrightarrow> is_nan_bits (bits_of_float b)"

definition is_inf_bits :: "32 word \<Rightarrow> bool" where
  "is_inf_bits p \<longleftrightarrow> p = 0x7F800000 \<or> p = 0xFF800000"

definition is_inf :: "fp \<Rightarrow> bool" where
  "is_inf b \<longleftrightarrow> is_inf_bits (bits_of_float b)"

lemma is_nan_bits_uint: "is_nan_bits w \<longleftrightarrow> 2139095040 < uint w"
  using uint_lt2p [of w] by (auto simp: is_nan_bits_def word_less_def word_le_def)

lemma uint_range: "0 \<le> uint (w :: 32 word)" "uint (w :: 32 word) < 4294967296"
  using uint_lt2p [of w] by auto

lemma wrap31:
  assumes "0 \<le> n" "n < 4294967296"
  shows "n mod 2147483648 = (if n < 2147483648 then n else n - 2147483648 :: int)"
proof (cases "n < 2147483648")
  case False
  have "n mod 2147483648 = (n - 2147483648) mod 2147483648" by simp
  also have "\<dots> = n - 2147483648" using False assms by (intro mod_pos_pos_trivial) auto
  finally show ?thesis using False by simp
qed (use assms in simp)

lemma exponent_255:
  assumes "m < 2147483648"
  shows "m div 8388608 = 255 \<longleftrightarrow> 2139095040 \<le> (m :: int)"
    and "m div 8388608 = 255 \<Longrightarrow> m mod 8388608 = m - 2139095040"
proof -
  have "m = m div 8388608 * 8388608 + m mod 8388608" "0 \<le> m mod 8388608" "m mod 8388608 < 8388608"
    by simp_all
  with assms show "m div 8388608 = 255 \<longleftrightarrow> 2139095040 \<le> m"
    and "m div 8388608 = 255 \<Longrightarrow> m mod 8388608 = m - 2139095040" by linarith+
qed

lemma decode_special:
  "decode s E F = NaN \<longleftrightarrow> E = 255 \<and> F \<noteq> 0"
  "(\<exists>t. decode s E F = Inf t) \<longleftrightarrow> E = 255 \<and> F = 0"
  by (auto simp: decode_def Let_def)

lemma decode_NaN_iff: "float_of_bits w = NaN \<longleftrightarrow> 2139095040 < uint w mod 2147483648"
proof -
  let ?m = "uint w mod 2147483648"
  have "float_of_bits w = NaN \<longleftrightarrow> ?m div 8388608 = 255 \<and> ?m mod 8388608 \<noteq> 0"
    unfolding float_of_bits_def by (rule decode_special)
  also have "\<dots> \<longleftrightarrow> 2139095040 < ?m"
    using exponent_255 [of ?m] by auto
  finally show ?thesis .
qed

text \<open>
  What the two disjuncts of \<^verbatim>\<open>is_nan\<close> accept together: the NaNs, and every pattern whose sign
  bit is set.
\<close>

lemma is_nan_bits_iff: "is_nan_bits w \<longleftrightarrow> float_of_bits w = NaN \<or> 2147483648 \<le> uint w"
proof -
  have "uint w mod 2147483648 = (if uint w < 2147483648 then uint w else uint w - 2147483648)"
    using uint_range [of w] by (rule wrap31)
  then show ?thesis using uint_range [of w] by (auto simp: is_nan_bits_uint decode_NaN_iff)
qed

lemma decode_Inf_iff: "(\<exists>s. float_of_bits w = Inf s) \<longleftrightarrow> uint w mod 2147483648 = 2139095040"
proof -
  let ?m = "uint w mod 2147483648"
  have "(\<exists>s. float_of_bits w = Inf s) \<longleftrightarrow> ?m div 8388608 = 255 \<and> ?m mod 8388608 = 0"
    unfolding float_of_bits_def by (rule decode_special)
  also have "\<dots> \<longleftrightarrow> ?m = 2139095040"
    using exponent_255 [of ?m] by auto
  finally show ?thesis .
qed

lemma is_inf_bits_iff: "is_inf_bits w \<longleftrightarrow> (\<exists>s. float_of_bits w = Inf s)"
proof -
  have "uint w mod 2147483648 = (if uint w < 2147483648 then uint w else uint w - 2147483648)"
    using uint_range [of w] by (rule wrap31)
  then have "uint w mod 2147483648 = 2139095040 \<longleftrightarrow> uint w = 2139095040 \<or> uint w = 4286578688"
    using uint_range [of w] by auto
  then show ?thesis unfolding decode_Inf_iff
    by (auto simp: is_inf_bits_def word_uint_eq_iff)
qed

lemma significand:
  assumes "0 < x" "rnd Single x = x" "x < 2 powi 128"
  obtains m where "x = of_int m * 2 powi qexp Single x" "0 < m" "m < 16777216"
    "- 149 \<le> qexp Single x" "qexp Single x \<le> 104" "- 149 < qexp Single x \<Longrightarrow> 8388608 \<le> m"
    "\<lfloor>x / 2 powi qexp Single x\<rfloor> = m"
proof -
  let ?q = "qexp Single x" and ?m = "rne (x / 2 powi qexp Single x)"
  have q: "- 149 \<le> ?q" "ilog2 x - 23 \<le> ?q" by (auto simp: qexp_def)
  have x: "x = of_int ?m * 2 powi ?q"
    using assms(1,2) by (simp add: rnd_def rndp_def rnd_at_def)
  then have xq: "x / 2 powi ?q = of_int ?m"
    by (metis divide_eq_eq powi2_pos less_irrefl)
  have b: "2 powi ilog2 x \<le> x" "x < 2 powi (ilog2 x + 1)" using ilog2_bounds [OF assms(1)] by auto
  have "(2::rat) powi (ilog2 x + 1) \<le> 2 powi (?q + 24)" using q by simp
  with b have "x / 2 powi ?q < 2 powi 24" by (simp add: pos_divide_less_eq power_int_add mult.commute)
  with xq have m1: "?m < 16777216" by simp
  have m0: "0 < ?m" using x assms(1) by (metis zero_less_mult_iff of_int_0_less_iff powi2_pos not_less_iff_gr_or_eq)
  have "(2::rat) powi ilog2 x < 2 powi 128" using b(1) assms(3) by (rule order_le_less_trans)
  then have "ilog2 x < 128" by (simp only: powi2_less_iff)
  then have q1: "?q \<le> 104" by (simp add: qexp_def)
  have m2: "8388608 \<le> ?m" if "- 149 < ?q"
  proof -
    from that have "?q = ilog2 x - 23" by (auto simp: qexp_def)
    with b(1) have "2 powi (?q + 23) \<le> x" by simp
    then have "2 powi 23 \<le> x / 2 powi ?q" by (simp add: pos_le_divide_eq power_int_add mult.commute)
    with xq show ?thesis by simp
  qed
  have fl: "\<lfloor>x / 2 powi ?q\<rfloor> = ?m"
    using arg_cong [OF xq, of floor] floor_of_int [of ?m] by (rule trans)
  show thesis by (rule that [OF x m0 m1 q(1) q1 m2 fl])
qed

lemma magnitude_bits_form:
  assumes "0 < x" "rnd Single x = x" "x < 2 powi 128"
  defines "n \<equiv> magnitude_bits x"
  shows "0 < n" "n < 2139095040"
    and "(if n div 8388608 = 0 then of_int (n mod 8388608) * 2 powi (- 149)
       else of_int (n mod 8388608 + 8388608) * 2 powi (n div 8388608 - 150)) = x"
proof -
  let ?q = "qexp Single x"
  from significand [OF assms(1-3)] obtain m where m: "x = of_int m * 2 powi ?q" "0 < m" "m < 16777216"
    "- 149 \<le> ?q" "?q \<le> 104" "- 149 < ?q \<Longrightarrow> 8388608 \<le> m" "\<lfloor>x / 2 powi ?q\<rfloor> = m" by metis
  have n: "n = (?q + 149) * 8388608 + m" using assms(1) m(7) by (simp add: n_def magnitude_bits_def)
  have "0 < n \<and> n < 2139095040 \<and>
      (if n div 8388608 = 0 then of_int (n mod 8388608) * 2 powi (- 149)
       else of_int (n mod 8388608 + 8388608) * 2 powi (n div 8388608 - 150)) = x"
  proof (cases "m < 8388608")
    case True
    then have "?q = - 149" using m by linarith
    then have "n = m" using n by simp
    then show ?thesis using True m \<open>?q = - 149\<close> by simp
  next
    case False
    then have f: "n = 8388608 * (?q + 150) + (m - 8388608)" "0 \<le> m - 8388608" "m - 8388608 < 8388608"
      using n m by auto
    have d: "n div 8388608 = ?q + 150" "n mod 8388608 = m - 8388608"
      using int_div_pos_eq [OF f] int_mod_pos_eq [OF f] by auto
    moreover have "0 < n" using n m(2,4) by simp
    moreover have "n < 2139095040" using n m(3,5) by simp
    ultimately show ?thesis using m(1,4) by simp
  qed
  then show "0 < n" "n < 2139095040"
    "(if n div 8388608 = 0 then of_int (n mod 8388608) * 2 powi (- 149)
       else of_int (n mod 8388608 + 8388608) * 2 powi (n div 8388608 - 150)) = x" by auto
qed

lemma uint_word_of_int_32: "0 \<le> n \<Longrightarrow> n < 4294967296 \<Longrightarrow> uint (word_of_int n :: 32 word) = n"
  by (simp add: uint_word_of_int)

lemma float_of_bits_finite:
  assumes "uint w = (if s then 2147483648 else 0) + n" "0 \<le> n" "n < 2139095040"
    and v: "(if n div 8388608 = 0 then of_int (n mod 8388608) * 2 powi (- 149)
       else of_int (n mod 8388608 + 8388608) * 2 powi (n div 8388608 - 150)) = v" and "v \<noteq> 0"
  shows "float_of_bits w = Num (if s then - v else v)"
proof -
  have 1: "uint w mod 2147483648 = n" "2147483648 \<le> uint w \<longleftrightarrow> s" using assms(1-3) by auto
  have 2: "n div 8388608 \<noteq> 255" using exponent_255(1) [of n] assms(3) by simp
  show ?thesis unfolding float_of_bits_def 1 decode_def v Let_def using 2 assms(5) by simp
qed

lemma uint_bits_Num:
  assumes "rnd Single r = r" "\<bar>r\<bar> < 2 powi 128" "r \<noteq> 0"
  shows "uint (bits_of_float (Num r)) = (if r < 0 then 2147483648 else 0) + magnitude_bits \<bar>r\<bar>"
    and "0 < \<bar>r\<bar>" "rnd Single \<bar>r\<bar> = \<bar>r\<bar>"
proof -
  show x: "0 < \<bar>r\<bar>" "rnd Single \<bar>r\<bar> = \<bar>r\<bar>" using assms by (auto simp: abs_if)
  let ?s = "if r < 0 then 2147483648 else 0 :: int"
  have "0 \<le> ?s" "?s \<le> 2147483648" by simp_all
  with magnitude_bits_form(1,2) [OF x assms(2)]
  have "0 \<le> ?s + magnitude_bits \<bar>r\<bar>" "?s + magnitude_bits \<bar>r\<bar> < 4294967296" by linarith+
  then show "uint (bits_of_float (Num r)) = ?s + magnitude_bits \<bar>r\<bar>"
    unfolding bits_of_float.simps by (rule uint_word_of_int_32)
qed

lemma special_patterns [simp]:
  "float_of_bits 0x7F800000 = Inf False" "float_of_bits 0xFF800000 = Inf True"
  "float_of_bits 0x7FFFFFFF = NaN" "float_of_bits 0x7FC00000 = NaN"
  "float_of_bits 0x80000000 = NegZero" "float_of_bits 0 = Num 0"
  by (simp_all add: float_of_bits_def decode_def)

lemma bits_round_trip:
  assumes "in_fmt Single x"
  shows "float_of_bits (bits_of_float x) = x"
proof (cases x)
  case (Num r)
  with assms have r: "rnd Single r = r" "\<bar>r\<bar> < 2 powi 128" by auto
  show ?thesis
  proof (cases "r = 0")
    case True
    then show ?thesis by (simp add: Num magnitude_bits_def)
  next
    case False
    note U = uint_bits_Num [OF r False]
    note M = magnitude_bits_form [OF U(2,3) r(2)]
    have "float_of_bits (bits_of_float x) = Num (if r < 0 then - \<bar>r\<bar> else \<bar>r\<bar>)"
      unfolding Num using U(2) M(1) by (intro float_of_bits_finite [OF U(1) _ M(2,3)]) auto
    then show ?thesis by (simp add: Num)
  qed
next
  case (Inf s)
  then show ?thesis by (cases s) simp_all
qed simp_all

lemma uint_bits_sign:
  assumes "in_fmt Single x" "x \<noteq> NaN"
  shows "2147483648 \<le> uint (bits_of_float x) \<longleftrightarrow> fsign x"
proof (cases x)
  case (Num r)
  with assms have r: "rnd Single r = r" "\<bar>r\<bar> < 2 powi 128" by auto
  show ?thesis
  proof (cases "r = 0")
    case False
    note U = uint_bits_Num [OF r False]
    from magnitude_bits_form(1,2) [OF U(2,3) r(2)] U(1) Num show ?thesis by auto
  qed (simp add: Num magnitude_bits_def)
qed (use assms in \<open>simp_all\<close>)

lemma is_nan_iff:
  assumes "in_fmt Single x"
  shows "is_nan x \<longleftrightarrow> x = NaN \<or> fsign x"
  using bits_round_trip [OF assms] uint_bits_sign [OF assms]
  by (cases "x = NaN") (auto simp: is_nan_def is_nan_bits_iff)

lemma is_inf_iff:
  assumes "in_fmt Single x"
  shows "is_inf x \<longleftrightarrow> (\<exists>s. x = Inf s)"
  using bits_round_trip [OF assms] by (simp add: is_inf_def is_inf_bits_iff)

lemma get_inf_eq [simp]: "get_inf = Inf False"
  by (simp add: get_inf_def)

lemma get_nan_eq [simp]: "get_nan = NaN"
  by (simp add: get_nan_def)

subsection \<open>Vectors\<close>

type_synonym v2f = "fp \<times> fp"

definition v2f_sub :: "v2f \<Rightarrow> v2f \<Rightarrow> v2f" where
  "v2f_sub a b = (subf (fst a) (fst b), subf (snd a) (snd b))"

definition v2f_len :: "v2f \<Rightarrow> fp" where
  "v2f_len v = to_float (fsqrt (addf (mulf (fst v) (fst v)) (mulf (snd v) (snd v))))"

definition v2f_dot :: "v2f \<Rightarrow> v2f \<Rightarrow> fp" where
  "v2f_dot a b = addf (mulf (fst a) (fst b)) (mulf (snd a) (snd b))"

end
