(* ===== verification/State.thy ===== *)
theory State
  imports Arena CMath
begin

text \<open>
  The data of oppai.c: the constants, \<^verbatim>\<open>timing_t\<close>, \<^verbatim>\<open>object_t\<close> and the handle
  \<^verbatim>\<open>struct ezpp\<close>. Record fields carry the names of the C fields behind a prefix (\<open>t_\<close>, \<open>o_\<close>,
  \<open>ez_\<close>). The three fields of the allocator are the field \<open>ez_mem\<close>; the line buffer of
  \<^verbatim>\<open>p_map\<close> is local to that function in the model.
  \<^verbatim>\<open>array_alloc\<close> does not initialise the timing point it returns, so its float fields are
  options and \<open>None\<close> is an indeterminate value.
\<close>

definition MODE_STD :: int where [simp]: "MODE_STD = 0"
definition MODE_TAIKO :: int where [simp]: "MODE_TAIKO = 1"

definition DIFF_SPEED :: int where [simp]: "DIFF_SPEED = 0"
definition DIFF_AIM :: int where [simp]: "DIFF_AIM = 1"

definition ERR_SYNTAX :: int where "ERR_SYNTAX = - 2"
definition ERR_NOTIMPLEMENTED :: int where "ERR_NOTIMPLEMENTED = - 4"
definition ERR_IO :: int where "ERR_IO = - 5"
definition ERR_FORMAT :: int where "ERR_FORMAT = - 6"
definition ERR_OOM :: int where "ERR_OOM = - 7"

lemmas err_codes = ERR_MORE_def ERR_SYNTAX_def ERR_TRUNCATED_def ERR_NOTIMPLEMENTED_def
  ERR_IO_def ERR_FORMAT_def ERR_OOM_def

text \<open>The message of an error code.\<close>

definition errstr :: "int \<Rightarrow> string" where
  "errstr err =
     (if err = ERR_MORE then ''call me again with more data''
      else if err = ERR_SYNTAX then ''syntax error''
      else if err = ERR_TRUNCATED then ''data was truncated, possibly because it was too big''
      else if err = ERR_NOTIMPLEMENTED then ''requested a feature that isn'' @ [CHR 0x27] @ ''t implemented''
      else if err = ERR_IO then ''i/o error''
      else if err = ERR_FORMAT then ''invalid input format''
      else if err = ERR_OOM then ''out of memory''
      else ''unknown error'')"

definition OBJ_CIRCLE :: int where "OBJ_CIRCLE = 1"
definition OBJ_SLIDER :: int where "OBJ_SLIDER = 2"
definition OBJ_SPINNER :: int where "OBJ_SPINNER = 8"

definition SOUND_NONE :: int where "SOUND_NONE = 0"
definition SOUND_NORMAL :: int where "SOUND_NORMAL = 1"
definition SOUND_WHISTLE :: int where "SOUND_WHISTLE = 2"
definition SOUND_FINISH :: int where "SOUND_FINISH = 4"
definition SOUND_CLAP :: int where "SOUND_CLAP = 8"

text \<open>A bit test of the source, \<^verbatim>\<open>x & mask\<close> as a condition.\<close>

definition has :: "int \<Rightarrow> int \<Rightarrow> bool" where
  "has x m \<longleftrightarrow> x AND m \<noteq> 0"

record timing =
  t_time :: "fp option"
  t_ms_per_beat :: "fp option"
  t_change :: int
  t_px_per_beat :: "fp option"
  t_beat_len :: "fp option"
  t_velocity :: "fp option"

definition uninit_timing :: timing where
  "uninit_timing = \<lparr>t_time = None, t_ms_per_beat = None, t_change = 0,
     t_px_per_beat = None, t_beat_len = None, t_velocity = None\<rparr>"

record object =
  o_time :: fp
  o_type :: int
  o_nsound_types :: int
  o_sound_types :: ptr
  o_normpos :: v2f
  o_angle :: fp
  o_strains :: "fp \<times> fp"
  o_is_single :: int
  o_delta_time :: fp
  o_d_distance :: fp
  o_timing_point :: int
  o_pos :: v2f
  o_distance :: fp
  o_repetitions :: int
  o_duration :: fp
  o_tick_spacing :: fp
  o_slider_is_drum_roll :: int

text \<open>\<^verbatim>\<open>memset(o, 0, sizeof(*o))\<close>\<close>

definition zero_object :: object where
  "zero_object = \<lparr>o_time = Num 0, o_type = 0, o_nsound_types = 0, o_sound_types = None,
     o_normpos = (Num 0, Num 0), o_angle = Num 0, o_strains = (Num 0, Num 0), o_is_single = 0,
     o_delta_time = Num 0, o_d_distance = Num 0, o_timing_point = 0, o_pos = (Num 0, Num 0),
     o_distance = Num 0, o_repetitions = 0, o_duration = Num 0, o_tick_spacing = Num 0,
     o_slider_is_drum_roll = 0\<rparr>"

text \<open>A two-element array of floats indexed by a C \<^verbatim>\<open>int\<close>.\<close>

definition sel2 :: "fp \<times> fp \<Rightarrow> int \<Rightarrow> fp option" where
  "sel2 v i = (if i = 0 then Some (fst v) else if i = 1 then Some (snd v) else None)"

definition upd2 :: "fp \<times> fp \<Rightarrow> int \<Rightarrow> fp \<Rightarrow> (fp \<times> fp) option" where
  "upd2 v i x = (if i = 0 then Some (x, snd v) else if i = 1 then Some (fst v, x) else None)"

definition AUTOCALC_BIT :: int where "AUTOCALC_BIT = 1"
definition OWNS_MAP_BIT :: int where "OWNS_MAP_BIT = 2"

text \<open>A \<^verbatim>\<open>char*\<close> of the handle: a pointer into the arena, or a string literal.\<close>

datatype strp = SPtr ptr | SLit string

record ezpp =
  ez_map :: "string option"
  ez_data :: "buf option"
  ez_data_size :: int
  ez_flags :: int
  ez_format_version :: int
  ez_mode :: int
  ez_mode_override :: int
  ez_original_mode :: int
  ez_score_version :: int
  ez_mods :: int
  ez_combo :: int
  ez_accuracy_percent :: fp
  ez_n300 :: int
  ez_n100 :: int
  ez_n50 :: int
  ez_nmiss :: int
  ez_end :: int
  ez_end_time :: fp
  ez_base_ar :: fp
  ez_base_cs :: fp
  ez_base_od :: fp
  ez_base_hp :: fp
  ez_max_combo :: int
  ez_title :: strp
  ez_title_unicode :: strp
  ez_artist :: strp
  ez_artist_unicode :: strp
  ez_creator :: strp
  ez_version :: strp
  ez_ncircles :: int
  ez_nsliders :: int
  ez_nspinners :: int
  ez_nobjects :: int
  ez_ar :: fp
  ez_od :: fp
  ez_cs :: fp
  ez_hp :: fp
  ez_odms :: fp
  ez_sv :: fp
  ez_tick_rate :: fp
  ez_speed_mul :: fp
  ez_stars :: fp
  ez_aim_stars :: fp
  ez_aim_difficulty :: fp
  ez_aim_length_bonus :: fp
  ez_speed_stars :: fp
  ez_speed_difficulty :: fp
  ez_speed_length_bonus :: fp
  ez_pp :: fp
  ez_aim_pp :: fp
  ez_speed_pp :: fp
  ez_acc_pp :: fp
  ez_section :: string
  ez_p_flags :: int
  ez_objects :: "object arr"
  ez_timing_points :: "timing arr"
  ez_interval_end :: fp
  ez_max_strain :: fp
  ez_highest_strains :: "fp arr"
  ez_mem :: arena

text \<open>Sizes of the array elements on a 64-bit machine.\<close>

definition sizeof_object :: int where "sizeof_object = 88"
definition sizeof_timing :: int where "sizeof_timing = 24"
definition sizeof_float :: int where "sizeof_float = 4"

end
