(* ===== verification/Mods.thy ===== *)
theory Mods
  imports State
begin

text \<open>
  Game modifiers: the \<^verbatim>\<open>MODS_*\<close> bits and \<^verbatim>\<open>mods_apply\<close>, which scales the difficulty settings
  of a map by the active modifiers. The lemmas give the ranges of the settings after the
  modifiers, for every input that is not NaN, infinities included.
\<close>

definition MODS_NOMOD :: int where "MODS_NOMOD = 0"
definition MODS_NF :: int where "MODS_NF = 1"
definition MODS_EZ :: int where "MODS_EZ = 2"
definition MODS_TD :: int where "MODS_TD = 4"
definition MODS_HD :: int where "MODS_HD = 8"
definition MODS_HR :: int where "MODS_HR = 16"
definition MODS_SD :: int where "MODS_SD = 32"
definition MODS_DT :: int where "MODS_DT = 64"
definition MODS_RX :: int where "MODS_RX = 128"
definition MODS_HT :: int where "MODS_HT = 256"
definition MODS_NC :: int where "MODS_NC = 512"
definition MODS_FL :: int where "MODS_FL = 1024"
definition MODS_SO :: int where "MODS_SO = 4096"
definition MODS_TOUCH_DEVICE :: int where "MODS_TOUCH_DEVICE = MODS_TD"
definition MODS_SPEED_CHANGING :: int where
  "MODS_SPEED_CHANGING = MODS_DT OR MODS_HT OR MODS_NC"
definition MODS_MAP_CHANGING :: int where
  "MODS_MAP_CHANGING = MODS_HR OR MODS_EZ OR MODS_SPEED_CHANGING"

lemmas mods_bits = MODS_NOMOD_def MODS_NF_def MODS_EZ_def MODS_TD_def MODS_HD_def MODS_HR_def
  MODS_SD_def MODS_DT_def MODS_RX_def MODS_HT_def MODS_NC_def MODS_FL_def MODS_SO_def
  MODS_TOUCH_DEVICE_def MODS_SPEED_CHANGING_def MODS_MAP_CHANGING_def

text \<open>The tables indexed by mode (std, taiko).\<close>

definition od10_ms :: "int \<Rightarrow> fp" where "od10_ms mode = Num 20"
definition od0_ms :: "int \<Rightarrow> fp" where "od0_ms mode = (if mode = MODE_STD then Num 80 else Num 50)"
definition od_ms_step :: "int \<Rightarrow> fp" where "od_ms_step mode = (if mode = MODE_STD then Num 6 else Num 3)"

definition AR0_MS :: fp where "AR0_MS = Num 1800"
definition AR5_MS :: fp where "AR5_MS = Num 1200"
definition AR10_MS :: fp where "AR10_MS = Num 450"
definition AR_MS_STEP1 :: fp where "AR_MS_STEP1 = Num 120"
definition AR_MS_STEP2 :: fp where "AR_MS_STEP2 = Num 150"

definition odms_of :: "int \<Rightarrow> fp \<Rightarrow> fp" where
  "odms_of mode od = subf (od0_ms mode) (to_float (fceil (mulf (od_ms_step mode) od)))"

definition mods_speed :: "int \<Rightarrow> fp" where
  "mods_speed mods =
     (let s = Num 1;
          s = (if has mods (MODS_DT OR MODS_NC) then mulf s (Num (3/2)) else s)
      in if has mods MODS_HT then mulf s (Num (3/4)) else s)"

definition mods_stat_mul :: "int \<Rightarrow> fp" where
  "mods_stat_mul mods =
     (let m = Num 1;
          m = (if has mods MODS_HR then mulf m (flit (14/10)) else m)
      in if has mods MODS_EZ then mulf m (Num (1/2)) else m)"

definition mods_cs_mul :: "int \<Rightarrow> fp" where
  "mods_cs_mul mods =
     (let c = Num 1;
          c = (if has mods MODS_HR then flit (13/10) else c)
      in if has mods MODS_EZ then Num (1/2) else c)"

text \<open>Overall difficulty: scaled, turned into milliseconds, clamped, sped up, turned back.\<close>

definition mods_odms :: "int \<Rightarrow> fp \<Rightarrow> fp \<Rightarrow> fp" where
  "mods_odms mode speed od =
     divf (al_min (od0_ms mode) (al_max (od10_ms mode) (odms_of mode od))) speed"

definition mods_od :: "int \<Rightarrow> fp \<Rightarrow> fp" where
  "mods_od mode odms = divf (subf (od0_ms mode) odms) (od_ms_step mode)"

text \<open>Approach rate, the same way with two slopes.\<close>

definition mods_arms :: "fp \<Rightarrow> fp \<Rightarrow> fp" where
  "mods_arms speed ar =
     (let arms = (if fle ar (Num 5) then subf AR0_MS (mulf AR_MS_STEP1 (subf ar (Num 0)))
                  else subf AR5_MS (mulf AR_MS_STEP2 (subf ar (Num 5))))
      in divf (al_min AR0_MS (al_max AR10_MS arms)) speed)"

definition mods_ar :: "fp \<Rightarrow> fp" where
  "mods_ar arms =
     (if flt AR5_MS arms then addf (Num 0) (divf (subf AR0_MS arms) AR_MS_STEP1)
      else addf (Num 5) (divf (subf AR5_MS arms) AR_MS_STEP2))"

definition mods_apply :: "ezpp \<Rightarrow> ezpp \<times> int" where
  "mods_apply ez =
     (let mode = ez_mode ez; mods = ez_mods ez in
      if mode \<noteq> MODE_STD \<and> mode \<noteq> MODE_TAIKO then (ez, ERR_NOTIMPLEMENTED)
      else if \<not> has mods MODS_MAP_CHANGING then
        (ez\<lparr>ez_speed_mul := Num 1, ez_odms := odms_of mode (ez_od ez)\<rparr>, 0)
      else
        let speed = mods_speed mods;
            mul = mods_stat_mul mods;
            odms = mods_odms mode speed (mulf (ez_od ez) mul);
            arms = mods_arms speed (mulf (ez_ar ez) mul)
        in (ez\<lparr>ez_speed_mul := speed, ez_odms := odms, ez_od := mods_od mode odms,
               ez_ar := mods_ar arms,
               ez_cs := al_max (Num 0) (al_min (Num 10) (mulf (ez_cs ez) (mods_cs_mul mods))),
               ez_hp := al_min (mulf (ez_hp ez) mul) (Num 10)\<rparr>, 0))"


subsection \<open>Ranges\<close>

lemma btw_clamp:
  assumes "x \<noteq> NaN" "lo \<le> hi"
  shows "btw lo hi (al_min (Num hi) (al_max (Num lo) x))"
  using assms by (cases x) (auto simp: al_min_def al_max_def btw_def)

lemma clamp_nan_free:
  assumes "x \<noteq> NaN"
  shows "btw lo hi (al_max (Num lo) (al_min (Num hi) x)) \<or> hi < lo"
  using assms by (cases x) (auto simp: al_min_def al_max_def btw_def)

lemma fround_not_NaN [simp]: "fround f s x \<noteq> NaN"
  by (simp add: fround_def pack_def)

lemma fmul_not_NaN:
  assumes "finite_fp a" "fval a \<noteq> 0" "x \<noteq> NaN"
  shows "fmul f a x \<noteq> NaN" "fmul f x a \<noteq> NaN"
  using assms by (cases a; cases x; auto)+

lemma fadd_not_NaN:
  assumes "finite_fp a" "x \<noteq> NaN"
  shows "fadd f a x \<noteq> NaN" "fadd f x a \<noteq> NaN"
  using assms by (cases a; cases x; auto)+

lemma fneg_not_NaN [simp]: "fneg x = NaN \<longleftrightarrow> x = NaN"
  by (cases x) auto

lemma fsub_not_NaN:
  assumes "finite_fp a" "x \<noteq> NaN"
  shows "fsub f a x \<noteq> NaN" "fsub f x a \<noteq> NaN"
  using assms by (simp_all add: fsub_def fadd_not_NaN)

lemma fceil_not_NaN [simp]: "fceil x = NaN \<longleftrightarrow> x = NaN" "fcast f x = NaN \<longleftrightarrow> x = NaN"
  by (cases x; simp)+

lemmas not_NaN_rules = fmul_not_NaN fadd_not_NaN fsub_not_NaN

lemma odms_of_not_NaN: "od \<noteq> NaN \<Longrightarrow> odms_of mode od \<noteq> NaN"
  by (simp add: odms_of_def od0_ms_def od_ms_step_def not_NaN_rules)

lemma mods_speed_cases:
  "mods_speed mods \<in> {Num 1, Num (3/2), Num (3/4), Num (9/8)}"
  by (simp add: mods_speed_def Let_def fp_eval)

lemma mods_speed_bounds: "btw (3/4) (3/2) (mods_speed mods)"
  using mods_speed_cases [of mods] by auto

lemma mods_stat_mul_cases:
  "mods_stat_mul mods \<in> {Num 1, flit (14/10), Num (1/2), mulf (flit (14/10)) (Num (1/2))}"
  by (simp add: mods_stat_mul_def Let_def fp_eval)

lemma mods_stat_mul_bounds: "btw (1/2) (3/2) (mods_stat_mul mods)"
  using mods_stat_mul_cases [of mods] by (auto simp: fp_eval)

lemma mods_cs_mul_bounds: "btw (1/2) (3/2) (mods_cs_mul mods)"
  by (simp add: mods_cs_mul_def Let_def fp_eval)

lemma scaled_not_NaN:
  assumes "x \<noteq> NaN" "btw (1/2) (3/2) m"
  shows "mulf x m \<noteq> NaN"
  using assms by (intro fmul_not_NaN(2)) (auto simp: btw_def)

lemma div_speed:
  assumes "btw a b x" "lo \<le> a / (3/2)" "b / (3/4) \<le> hi" "0 \<le> a" "repn Single lo" "repn Single hi"
  shows "btw lo hi (divf x (mods_speed mods))"
proof -
  from assms(1,4) have ab: "0 \<le> b" by (auto simp: btw_def)
  have "\<exists>c. mods_speed mods = Num c \<and> 3/4 \<le> c \<and> c \<le> 3/2"
    using mods_speed_cases [of mods] by auto
  then obtain c where c: "mods_speed mods = Num c" "3/4 \<le> c" "c \<le> 3/2" by blast
  have "a / (3/2) \<le> a / c" "b / c \<le> b / (3/4)"
    by (intro divide_left_mono; use c assms(4) ab in simp)+
  with assms(2,3) have "lo \<le> a / c" "b / c \<le> hi" by linarith+
  then show ?thesis using assms(5,6) c by (intro btw_div [OF assms(1)]) auto
qed

lemma mods_odms_bounds:
  assumes "od \<noteq> NaN"
  shows "btw 13 (if mode = MODE_STD then 107 else 67) (mods_odms mode (mods_speed mods) od)"
proof -
  have "btw 20 (if mode = MODE_STD then 80 else 50)
      (al_min (od0_ms mode) (al_max (od10_ms mode) (odms_of mode od)))"
    using btw_clamp [OF odms_of_not_NaN [OF assms], of 20] by (simp add: od0_ms_def od10_ms_def)
  then show ?thesis unfolding mods_odms_def
    by (rule div_speed) (simp_all add: fp_eval)
qed

lemma mods_od_bounds:
  assumes "btw 13 (if mode = MODE_STD then 107 else 67) odms"
  shows "btw (- 6) (if mode = MODE_STD then 45/4 else 99/8) (mods_od mode odms)"
proof (cases "mode = MODE_STD")
  case True
  then have "btw (- 27) 67 (subf (od0_ms mode) odms)"
    using assms by (intro btw_sub [of 80 80 _ 13 107]) (auto simp: od0_ms_def fp_eval)
  then show ?thesis unfolding mods_od_def using True
    by (intro btw_div [of "- 27" 67 _ _ 6]) (auto simp: od_ms_step_def fp_eval)
next
  case False
  then have "btw (- 17) 37 (subf (od0_ms mode) odms)"
    using assms by (intro btw_sub [of 50 50 _ 13 67]) (auto simp: od0_ms_def fp_eval)
  then show ?thesis unfolding mods_od_def using False
    by (intro btw_div [of "- 17" 37 _ _ 3]) (auto simp: od_ms_step_def fp_eval)
qed

lemma mods_arms_bounds:
  assumes "ar \<noteq> NaN"
  shows "btw 300 2400 (mods_arms (mods_speed mods) ar)"
proof -
  let ?a = "if fle ar (Num 5) then subf AR0_MS (mulf AR_MS_STEP1 (subf ar (Num 0)))
    else subf AR5_MS (mulf AR_MS_STEP2 (subf ar (Num 5)))"
  have "?a \<noteq> NaN" using assms
    by (simp add: AR0_MS_def AR5_MS_def AR_MS_STEP1_def AR_MS_STEP2_def not_NaN_rules)
  then have "btw 450 1800 (al_min AR0_MS (al_max AR10_MS ?a))"
    unfolding AR0_MS_def AR10_MS_def by (rule btw_clamp) simp
  then show ?thesis unfolding mods_arms_def Let_def
    by (rule div_speed) (simp_all add: fp_eval)
qed

lemma mods_ar_bounds:
  assumes "btw 300 2400 arms"
  shows "btw (- 5) 11 (mods_ar arms)"
proof (cases "flt AR5_MS arms")
  case True
  then have a: "btw 1200 2400 arms" using assms by (auto simp: btw_def AR5_MS_def)
  have "btw (- 600) 600 (subf AR0_MS arms)"
    by (rule btw_sub [OF _ a, of 1800 1800]) (simp_all add: AR0_MS_def fp_eval)
  then have "btw (- 5) 5 (divf (subf AR0_MS arms) AR_MS_STEP1)"
    by (rule btw_div [where c = 120]) (simp_all add: AR_MS_STEP1_def fp_eval)
  then have "btw (- 5) 5 (addf (Num 0) (divf (subf AR0_MS arms) AR_MS_STEP1))"
    by (intro btw_add [of 0 0 _ "- 5" 5]) (simp_all add: fp_eval)
  with True show ?thesis by (auto simp: mods_ar_def intro: btw_weaken)
next
  case False
  then have a: "btw 300 1200 arms" using assms by (auto simp: btw_def AR5_MS_def)
  have "btw 0 900 (subf AR5_MS arms)"
    by (rule btw_sub [OF _ a, of 1200 1200]) (simp_all add: AR5_MS_def fp_eval)
  then have "btw 0 6 (divf (subf AR5_MS arms) AR_MS_STEP2)"
    by (rule btw_div [where c = 150]) (simp_all add: AR_MS_STEP2_def fp_eval)
  then have "btw 5 11 (addf (Num 5) (divf (subf AR5_MS arms) AR_MS_STEP2))"
    by (intro btw_add [of 5 5 _ 0 6]) (simp_all add: fp_eval)
  with False show ?thesis by (auto simp: mods_ar_def intro: btw_weaken)
qed

lemma al_min_le:
  assumes "x \<noteq> NaN"
  shows "fle (al_min x (Num c)) (Num c)"
  using assms by (cases x) (auto simp: al_min_def fle_def)

lemma mods_apply_map_changing:
  assumes "ez_mode ez = MODE_STD \<or> ez_mode ez = MODE_TAIKO" "has (ez_mods ez) MODS_MAP_CHANGING"
    and "ez_od ez \<noteq> NaN" "ez_ar ez \<noteq> NaN" "ez_cs ez \<noteq> NaN" "ez_hp ez \<noteq> NaN"
    and "mods_apply ez = (ez', r)"
  shows "r = 0" "btw (3/4) (3/2) (ez_speed_mul ez')"
    "btw 13 (if ez_mode ez = MODE_STD then 107 else 67) (ez_odms ez')"
    "btw (- 6) (if ez_mode ez = MODE_STD then 45/4 else 99/8) (ez_od ez')"
    "btw (- 5) 11 (ez_ar ez')" "btw 0 10 (ez_cs ez')" "fle (ez_hp ez') (Num 10)"
proof -
  let ?m = "ez_mods ez"
  have eq: "r = 0" "ez_speed_mul ez' = mods_speed ?m"
    "ez_odms ez' = mods_odms (ez_mode ez) (mods_speed ?m) (mulf (ez_od ez) (mods_stat_mul ?m))"
    "ez_od ez' = mods_od (ez_mode ez) (ez_odms ez')"
    "ez_ar ez' = mods_ar (mods_arms (mods_speed ?m) (mulf (ez_ar ez) (mods_stat_mul ?m)))"
    "ez_cs ez' = al_max (Num 0) (al_min (Num 10) (mulf (ez_cs ez) (mods_cs_mul ?m)))"
    "ez_hp ez' = al_min (mulf (ez_hp ez) (mods_stat_mul ?m)) (Num 10)"
    using assms(1,2,7) by (auto simp: mods_apply_def Let_def)
  note M = mods_stat_mul_bounds [of ?m] and C = mods_cs_mul_bounds [of ?m]
  show "r = 0" "btw (3/4) (3/2) (ez_speed_mul ez')"
    using eq mods_speed_bounds by auto
  show o: "btw 13 (if ez_mode ez = MODE_STD then 107 else 67) (ez_odms ez')"
    unfolding eq(3) by (rule mods_odms_bounds [OF scaled_not_NaN [OF assms(3) M]])
  show "btw (- 6) (if ez_mode ez = MODE_STD then 45/4 else 99/8) (ez_od ez')"
    unfolding eq(4) by (rule mods_od_bounds [OF o])
  show "btw (- 5) 11 (ez_ar ez')"
    unfolding eq(5) by (rule mods_ar_bounds [OF mods_arms_bounds [OF scaled_not_NaN [OF assms(4) M]]])
  show "btw 0 10 (ez_cs ez')"
    unfolding eq(6) using clamp_nan_free [OF scaled_not_NaN [OF assms(5) C], of 0 10] by simp
  show "fle (ez_hp ez') (Num 10)"
    unfolding eq(7) by (rule al_min_le [OF scaled_not_NaN [OF assms(6) M]])
qed

end
