(* ===== verification/Acc.thy ===== *)
theory Acc
  imports Mods
begin

text \<open>
  Accuracy: \<^verbatim>\<open>acc_calc\<close> and \<^verbatim>\<open>taiko_acc_calc\<close> from hit counts to a ratio, \<^verbatim>\<open>acc_round\<close> and
  \<^verbatim>\<open>taiko_acc_round\<close> from a percentage back to hit counts, in single precision as the source
  computes them. The lemmas bound the rounding errors of the chains of float operations and
  conclude that the counts produced are natural numbers that add up to the objects.
\<close>

definition acc_calc :: "int \<Rightarrow> int \<Rightarrow> int \<Rightarrow> int \<Rightarrow> fp option" where
  "acc_calc n300 n100 n50 misses = do {
     t1 \<leftarrow> ck (n300 + n100);
     t2 \<leftarrow> ck (t1 + n50);
     total_hits \<leftarrow> ck (t2 + misses);
     Some (if total_hits > 0 then
       divf (addf (addf (mulf (i2f n50) (Num 50)) (mulf (i2f n100) (Num 100))) (mulf (i2f n300) (Num 300)))
         (mulf (i2f total_hits) (Num 300))
       else Num 0)
   }"

text \<open>\<^verbatim>\<open>(acc_percent * 0.01f - 1.0f) * nobjects + misses\<close>, the term the three rounding formulas share.\<close>

definition acc_term :: "fp \<Rightarrow> int \<Rightarrow> int \<Rightarrow> fp" where
  "acc_term acc_percent nobjects misses =
     addf (mulf (subf (mulf acc_percent (flit (1/100))) (Num 1)) (i2f nobjects)) (i2f misses)"

definition acc_round :: "fp \<Rightarrow> int \<Rightarrow> int \<Rightarrow> (int \<times> int \<times> int) option" where
  "acc_round acc_percent nobjects misses = do {
     let misses = al_mini nobjects misses;
     max300 \<leftarrow> ck (nobjects - misses);
     a \<leftarrow> acc_calc max300 0 0 misses;
     let maxacc = mulf a (Num 100);
     let acc_percent = al_max (Num 0) (al_min maxacc acc_percent);
     n100 \<leftarrow> to_cint (al_round (mulf (mulf (Num (- 3)) (acc_term acc_percent nobjects misses)) (Num (1/2))));
     d \<leftarrow> ck (nobjects - misses);
     (n100, n50) \<leftarrow> (if n100 > d then do {
         n50 \<leftarrow> to_cint (al_round (mulf (mulf (Num (- 6)) (acc_term acc_percent nobjects misses)) (flit (2/10))));
         Some (0, al_mini max300 n50)
       } else Some (al_mini max300 n100, 0));
     m1 \<leftarrow> ck (nobjects - n100);
     m2 \<leftarrow> ck (m1 - n50);
     n300 \<leftarrow> ck (m2 - misses);
     Some (n300, n100, n50)
   }"

definition taiko_acc_calc :: "int \<Rightarrow> int \<Rightarrow> int \<Rightarrow> fp option" where
  "taiko_acc_calc n300 n150 nmiss = do {
     t1 \<leftarrow> ck (n300 + n150);
     total_hits \<leftarrow> ck (t1 + nmiss);
     Some (if total_hits > 0 then
       divf (addf (mulf (i2f n150) (Num 150)) (mulf (i2f n300) (Num 300))) (mulf (i2f total_hits) (Num 300))
       else Num 0)
   }"

definition taiko_acc_round :: "fp \<Rightarrow> int \<Rightarrow> int \<Rightarrow> (int \<times> int) option" where
  "taiko_acc_round acc_percent nobjects nmisses = do {
     let nmisses = al_mini nobjects nmisses;
     max300 \<leftarrow> ck (nobjects - nmisses);
     a \<leftarrow> acc_calc max300 0 0 nmisses;
     let maxacc = mulf a (Num 100);
     let acc_percent = al_max (Num 0) (al_min maxacc acc_percent);
     n150 \<leftarrow> to_cint (al_round (mulf (Num (- 2)) (acc_term acc_percent nobjects nmisses)));
     let n150 = al_mini max300 n150;
     m1 \<leftarrow> ck (nobjects - n150);
     n300 \<leftarrow> ck (m1 - nmisses);
     Some (n300, n150)
   }"

subsection \<open>The accuracy of hit counts\<close>

lemma i2f_times:
  assumes "0 \<le> n" "n * c \<le> 16777216" "1 \<le> c"
  shows "finite_fp (mulf (i2f n) (Num (of_int c)))" "fval (mulf (i2f n) (Num (of_int c))) = of_int (n * c)"
proof -
  have "n \<le> n * c" using assms by (simp add: mult_le_cancel_left1)
  then have "\<bar>n\<bar> \<le> 16777216" using assms by linarith
  note I = of_cint_exact_Single [OF this]
  have r: "rnd Single (of_int (n * c)) = of_int (n * c)"
    using assms by (intro rnd_of_int) (simp add: abs_mult)
  have "(of_int (n * c) :: rat) \<le> of_int 16777216" using assms(2) by (simp only: of_int_le_iff)
  moreover have "(0::rat) \<le> of_int (n * c)" using assms by simp
  ultimately have "\<bar>of_int (n * c) :: rat\<bar> < 2 powi etop Single" by simp
  note E = fround_exact [OF r this]
  show "finite_fp (mulf (i2f n) (Num (of_int c)))" "fval (mulf (i2f n) (Num (of_int c))) = of_int (n * c)"
    using E I by (simp_all add: fmul_finite)
qed

lemma add_exact:
  assumes "finite_fp x" "finite_fp y" "fval x = of_int a" "fval y = of_int b" "\<bar>a + b\<bar> \<le> 16777216"
  shows "finite_fp (addf x y)" "fval (addf x y) = of_int (a + b)"
proof -
  have r: "rnd Single (of_int (a + b)) = of_int (a + b)"
    using assms by (intro rnd_of_int) simp
  have "(of_int \<bar>a + b\<bar> :: rat) \<le> of_int 16777216" using assms(5) by (simp only: of_int_le_iff)
  then have "\<bar>of_int (a + b) :: rat\<bar> < 2 powi etop Single" by simp
  note E = fround_exact [OF r this]
  show "finite_fp (addf x y)" "fval (addf x y) = of_int (a + b)"
    using E assms by (simp_all add: fadd_finite)
qed

lemma ratio_unit:
  assumes "finite_fp x" "finite_fp y" "fval x = of_int a" "fval y = of_int b" "0 \<le> a" "a \<le> b" "0 < b"
  shows "btw 0 1 (divf x y)" "fval (divf x y) = rnd Single (of_int a / of_int b)"
proof -
  have q: "0 \<le> (of_int a / of_int b :: rat)" "(of_int a / of_int b :: rat) \<le> 1"
    using assms by auto
  have d: "divf x y = fround Single (fsign x \<noteq> fsign y) (of_int a / of_int b)"
    using assms by (simp add: fdiv_finite)
  show "btw 0 1 (divf x y)" unfolding d using q by (intro btw_fround) (simp_all add: fp_eval)
  show "fval (divf x y) = rnd Single (of_int a / of_int b)"
    unfolding d using q by (intro fround_between(4) [of 0 _ 1]) (simp_all add: fp_eval)
qed

text \<open>With at most 55924 hits all sums are exact and only the quotient is rounded.\<close>

lemma acc_calc_value:
  assumes "0 \<le> n300" "0 \<le> n100" "0 \<le> n50" "0 \<le> misses"
    and t: "n300 + n100 + n50 + misses \<le> 55924" "0 < n300 + n100 + n50 + misses"
  obtains a where "acc_calc n300 n100 n50 misses = Some a" "btw 0 1 a"
    "fval a = rnd Single (of_int (n50 * 50 + n100 * 100 + n300 * 300)
       / of_int ((n300 + n100 + n50 + misses) * 300))"
proof -
  let ?t = "n300 + n100 + n50 + misses"
  have i: "in_int (n300 + n100)" "in_int (n300 + n100 + n50)" "in_int ?t"
    using assms by (auto simp: in_int_iff)
  have m50: "finite_fp (mulf (i2f n50) (Num 50))" "fval (mulf (i2f n50) (Num 50)) = of_int (n50 * 50)"
    using i2f_times [of n50 50] assms by simp_all
  have m100: "finite_fp (mulf (i2f n100) (Num 100))" "fval (mulf (i2f n100) (Num 100)) = of_int (n100 * 100)"
    using i2f_times [of n100 100] assms by simp_all
  have m300: "finite_fp (mulf (i2f n300) (Num 300))" "fval (mulf (i2f n300) (Num 300)) = of_int (n300 * 300)"
    using i2f_times [of n300 300] assms by simp_all
  let ?s1 = "addf (mulf (i2f n50) (Num 50)) (mulf (i2f n100) (Num 100))"
  have s1: "finite_fp ?s1" "fval ?s1 = of_int (n50 * 50 + n100 * 100)"
    by (rule add_exact [OF m50(1) m100(1) m50(2) m100(2)], use assms in linarith)+
  let ?s2 = "addf ?s1 (mulf (i2f n300) (Num 300))"
  have s2: "finite_fp ?s2" "fval ?s2 = of_int (n50 * 50 + n100 * 100 + n300 * 300)"
    by (rule add_exact [OF s1(1) m300(1) s1(2) m300(2)], use assms in linarith)+
  let ?d = "mulf (i2f ?t) (Num 300)"
  have d: "finite_fp ?d" "fval ?d = of_int (?t * 300)"
    using i2f_times [of ?t 300] assms by simp_all
  note R = ratio_unit [OF s2(1) d(1) s2(2) d(2)]
  show thesis
    by (rule that [of "divf ?s2 ?d"]) (use i R assms in \<open>simp_all add: acc_calc_def\<close>)
qed

subsection \<open>From a percentage to counts\<close>

text \<open>The float form of a bound on an exact result: the bound plus one rounding error.\<close>

lemma fop_upper:
  assumes "fval y = fval (fround Single s x)" "\<bar>x\<bar> \<le> 2 ^ n" "n < 128" "x \<le> u"
  shows "fval y \<le> u + 2 ^ n / 16777216"
  using fround_error_Single [OF assms(2,3), of s] assms(1,4) by linarith

lemma acc_term_bounds:
  assumes n: "0 \<le> n" "n \<le> 55924" and m: "0 \<le> m" "m \<le> n"
    and r: "0 \<le> r" "r \<le> 1" "of_int n * r = of_int n - of_int m"
    and acc: "btw 0 100 acc" "fval acc \<le> 100 * r + 228 / 16777216"
  shows "btw (- 65536) (1/16) (acc_term acc n m)"
proof -
  have nI: "finite_fp (i2f n)" "fval (i2f n) = of_int n" using of_cint_exact_Single [of n] n by auto
  have mI: "finite_fp (i2f m)" "fval (i2f m) = of_int m" using of_cint_exact_Single [of m] n m by auto
  have nr: "(0::rat) \<le> of_int n" "(of_int n :: rat) \<le> 55924" "(0::rat) \<le> of_int m" "of_int m \<le> (of_int n::rat)"
    using n m of_int_le_iff [of n 55924, where 'a=rat] by simp_all
  define c :: fp where "c = flit (1/100)"
  have c: "finite_fp c" "0 \<le> fval c" "fval c \<le> 1/100" by (simp_all add: c_def flit_def fp_eval)
  define p where "p = mulf acc c"
  have ac: "0 \<le> fval acc * fval c" "fval acc * fval c \<le> fval acc * (1/100)"
    using acc(1) c mult_left_mono [of "fval c" "1/100" "fval acc"] by (auto simp: btw_def)
  have ac1: "fval acc * fval c \<le> 1" using ac acc(1) by (auto simp: btw_def)
  have pf: "p = fround Single (fsign acc \<noteq> fsign c) (fval acc * fval c)"
    using acc(1) c(1) by (simp add: p_def fmul_finite btw_def)
  have p: "btw 0 1 p" unfolding pf using ac ac1 by (intro btw_fround) (simp_all add: fp_eval)
  have "fval p \<le> (r + 228 / 1677721600) + 2 ^ 0 / 16777216"
    by (rule fop_upper [where s = "fsign acc \<noteq> fsign c" and x = "fval acc * fval c"])
      (use pf ac ac1 acc(2) in auto)
  note pu = this
  define s where "s = subf p (Num 1)"
  have s: "btw (- 1) 0 s" unfolding s_def using p by (intro btw_sub) (auto simp: fp_eval)
  have "fval s \<le> (fval p - 1) + 2 ^ 0 / 16777216"
    by (rule fop_upper [where s = "fsign p \<and> True" and x = "fval p - 1"])
      (use p in \<open>auto simp: s_def fsub_finite btw_def\<close>)
  with pu have su: "fval s \<le> r - 1 + 5 / 16777216" by simp
  define q where "q = mulf s (i2f n)"
  have sn: "fval s * of_int n \<le> (r - 1 + 5 / 16777216) * of_int n"
    using su nr by (intro mult_right_mono) auto
  also have "\<dots> = - of_int m + 5 / 16777216 * of_int n"
    using r(3) by (simp add: algebra_simps)
  also have "\<dots> \<le> - of_int m + 1 / 50" using nr by simp
  finally have sn: "fval s * of_int n \<le> - of_int m + 1 / 50" .
  have sn0: "- of_int n \<le> fval s * of_int n" "fval s * of_int n \<le> 0"
    using s nr mult_right_mono [of "- 1" "fval s" "of_int n"] by (auto simp: btw_def mult_nonpos_nonneg)
  have qf: "q = fround Single (fsign s \<noteq> fsign (i2f n)) (fval s * of_int n)"
    using s nI by (simp add: q_def fmul_finite btw_def)
  have rn: "repn Single (- of_int n)"
    using rnd_of_int [of n Single] nr n by (auto simp: repn_def)
  have q: "btw (- of_int n) 0 q" unfolding qf using sn0 rn by (intro btw_fround) (simp_all add: fp_eval)
  have qu: "fval q \<le> (- of_int m + 1 / 50) + 2 ^ 16 / 16777216"
    by (rule fop_upper [where s = "fsign s \<noteq> fsign (i2f n)" and x = "fval s * of_int n"])
      (use qf sn sn0 nr in auto)
  define e where "e = addf q (i2f m)"
  have ef: "e = fround Single (fsign q \<and> fsign (i2f m)) (fval q + of_int m)"
    using q mI by (simp add: e_def fadd_finite btw_def)
  have qm: "- 65536 \<le> fval q + of_int m" "fval q + of_int m \<le> 1/16"
    using q qu nr by (auto simp: btw_def)
  have "btw (- 65536) (1/16) e" unfolding ef using qm by (intro btw_fround) (simp_all add: fp_eval)
  then show ?thesis by (simp add: e_def q_def s_def p_def c_def acc_term_def)
qed

text \<open>Rounding a value that is not below a half to a C integer.\<close>

lemma al_round_cint:
  assumes "btw (- 1/2) hi x" "hi \<le> 1048576"
  obtains k where "to_cint (al_round x) = Some k" "0 \<le> k" "k \<le> 1048577"
proof -
  have x: "btw (- 1/2) 1048576 x" by (rule btw_weaken [OF assms(1)]) (use assms in auto)
  have s: "btw 0 1048577 (addf x (flit (1/2)))"
    by (rule btw_add [OF x, where c = "1/2" and d = "1/2"]) (simp_all add: flit_def fp_eval)
  define y where "y = ffloor (addf x (flit (1/2)))"
  have y: "finite_fp y" "fval y = of_int \<lfloor>fval (addf x (flit (1/2)))\<rfloor>"
    using s by (cases "addf x (flit (1/2))"; simp add: y_def btw_def)+
  define k where "k = \<lfloor>fval (addf x (flit (1/2)))\<rfloor>"
  have k: "0 \<le> k" "k \<le> 1048577" using s unfolding k_def by (auto simp: btw_def floor_le_iff le_floor_iff)
  have "finite_fp (to_float y) \<and> fval (to_float y) = of_int k"
    using y of_cint_exact_Single [of k] k by (cases y) (auto simp: k_def of_cint_def)
  then have "to_cint (to_float y) = Some k"
    using k by (cases "to_float y") (auto simp: to_cint_def trunc_rat_def in_int_iff)
  with k show thesis by (intro that [of k]) (simp_all add: al_round_def y_def)
qed

text \<open>The percentage that \<open>acc_round\<close> works with is clamped between 0 and the best one possible.\<close>

lemma clamped_accuracy:
  assumes n: "0 \<le> n" "n \<le> 55924" and m: "0 \<le> m" "m \<le> n" and nan: "acc \<noteq> NaN"
  obtains a where "acc_calc (n - m) 0 0 m = Some a"
    "btw (- 65536) (1/16) (acc_term (al_max (Num 0) (al_min (mulf a (Num 100)) acc)) n m)"
proof -
  define r :: rat where "r = (if n = 0 then 0 else of_int (n - m) / of_int n)"
  have r: "0 \<le> r" "r \<le> 1" "of_int n * r = of_int n - of_int m"
    using n m by (auto simp: r_def divide_le_eq)
  obtain a where a: "acc_calc (n - m) 0 0 m = Some a" "btw 0 1 a" "fval a = rnd Single r"
  proof (cases "n = 0")
    case True
    with m show thesis by (intro that [of "Num 0"]) (simp_all add: acc_calc_def r_def in_int_iff)
  next
    case False
    have q: "of_int ((n - m) * 300) / of_int (n * 300) = r" using False by (simp add: r_def field_simps)
    show thesis
      by (rule acc_calc_value [of "n - m" 0 0 m]) (use False n m that q in auto)
  qed
  have ar: "fval a \<le> r + 2 ^ 0 / 16777216"
    by (rule fop_upper [where s = False and x = r])
      (use r a(3) fround_between(4) [of 0 r 1 Single False] in \<open>auto simp: fp_eval\<close>)
  have M: "btw 0 100 (mulf a (Num 100))"
    by (rule btw_scale(1) [OF a(2), where c = 100]) (simp_all add: fp_eval)
  have Mu: "fval (mulf a (Num 100)) \<le> 100 * fval a + 2 ^ 7 / 16777216"
    by (rule fop_upper [where s = "fsign a \<noteq> False" and x = "100 * fval a"])
      (use a(2) in \<open>auto simp: fmul_finite btw_def mult.commute\<close>)
  have Mu: "fval (mulf a (Num 100)) \<le> 100 * r + 228 / 16777216" using ar Mu by simp
  let ?c = "al_max (Num 0) (al_min (mulf a (Num 100)) acc)"
  have c: "btw 0 100 ?c"
    using M nan by (cases acc) (auto simp: btw_def al_max_def al_min_def)
  have "fval ?c \<le> fval (mulf a (Num 100))"
    using M nan by (cases acc) (auto simp: btw_def al_max_def al_min_def)
  with Mu have "fval ?c \<le> 100 * r + 228 / 16777216" by linarith
  from acc_term_bounds [OF n m r c this] a(1) show thesis by (intro that)
qed

lemma acc_term_cints:
  assumes "btw (- 65536) (1/16) e"
  obtains i j k where "to_cint (al_round (mulf (mulf (Num (- 3)) e) (Num (1/2)))) = Some i" "0 \<le> i" "i \<le> 1048577"
    and "to_cint (al_round (mulf (mulf (Num (- 6)) e) (flit (2/10)))) = Some j" "0 \<le> j" "j \<le> 1048577"
    and "to_cint (al_round (mulf (Num (- 2)) e)) = Some k" "0 \<le> k" "k \<le> 1048577"
proof -
  have "btw (- 1/4) 196608 (mulf (Num (- 3)) e)"
    by (rule btw_scale_neg [OF assms, where c = "- 3"]) (simp_all add: fp_eval)
  then have "btw (- 1/2) 1048576 (mulf (mulf (Num (- 3)) e) (Num (1/2)))"
    by (rule btw_scale(1) [where c = "1/2"]) (simp_all add: fp_eval)
  then obtain i where i: "to_cint (al_round (mulf (mulf (Num (- 3)) e) (Num (1/2)))) = Some i" "0 \<le> i" "i \<le> 1048577"
    by (rule al_round_cint) auto
  have "btw (- 1/2) 393216 (mulf (Num (- 6)) e)"
    by (rule btw_scale_neg [OF assms, where c = "- 6"]) (simp_all add: fp_eval)
  then have "btw (- 1/2) 1048576 (mulf (mulf (Num (- 6)) e) (flit (2/10)))"
    by (rule btw_mul_unit) (simp_all add: flit_def fp_eval)
  then obtain j where j: "to_cint (al_round (mulf (mulf (Num (- 6)) e) (flit (2/10)))) = Some j" "0 \<le> j" "j \<le> 1048577"
    by (rule al_round_cint) auto
  have "btw (- 1/2) 1048576 (mulf (Num (- 2)) e)"
    by (rule btw_scale_neg [OF assms, where c = "- 2"]) (simp_all add: fp_eval)
  then obtain k where "to_cint (al_round (mulf (Num (- 2)) e)) = Some k" "0 \<le> k" "k \<le> 1048577"
    by (rule al_round_cint) auto
  with i j show thesis by (intro that)
qed

lemma acc_round_total:
  assumes "0 \<le> nobjects" "nobjects \<le> 55924" "0 \<le> misses" "acc \<noteq> NaN"
  shows "\<exists>n300 n100 n50. acc_round acc nobjects misses = Some (n300, n100, n50) \<and>
    0 \<le> n300 \<and> 0 \<le> n100 \<and> 0 \<le> n50 \<and> (n100 = 0 \<or> n50 = 0) \<and>
    n300 + n100 + n50 + min nobjects misses = nobjects"
proof -
  let ?m = "min nobjects misses"
  have m: "0 \<le> ?m" "?m \<le> nobjects" using assms by auto
  from clamped_accuracy [OF assms(1,2) m assms(4)] obtain a where
    a: "acc_calc (nobjects - ?m) 0 0 ?m = Some a" and
    e: "btw (- 65536) (1/16) (acc_term (al_max (Num 0) (al_min (mulf a (Num 100)) acc)) nobjects ?m)"
    (is "btw _ _ ?e") .
  from acc_term_cints [OF e] obtain i j where
    i: "to_cint (al_round (mulf (mulf (Num (- 3)) ?e) (Num (1/2)))) = Some i" "0 \<le> i" "i \<le> 1048577" and
    j: "to_cint (al_round (mulf (mulf (Num (- 6)) ?e) (flit (2/10)))) = Some j" "0 \<le> j" "j \<le> 1048577" .
  have I: "in_int x" if "0 \<le> x" "x \<le> 55924" for x using that by (simp add: in_int_iff)
  have "in_int (nobjects - ?m)" "in_int nobjects" using I assms(1,2) m by auto
  then show ?thesis
  proof (cases "i > nobjects - ?m")
    case True
    let ?n50 = "min (nobjects - ?m) j"
    have "acc_round acc nobjects misses = Some (nobjects - ?n50 - ?m, 0, ?n50)"
      unfolding acc_round_def Let_def al_mini_min
      using True a i(1) j(1) I j(2) m assms(1,2) by simp
    then show ?thesis using m j by auto
  next
    case False
    let ?n100 = "min (nobjects - ?m) i"
    have "acc_round acc nobjects misses = Some (nobjects - ?n100 - ?m, ?n100, 0)"
      unfolding acc_round_def Let_def al_mini_min
      using False a i(1,2) I m assms(1,2) by simp
    then show ?thesis using m i by auto
  qed
qed

text \<open>
  For up to 55924 objects and any accuracy but NaN, \<open>acc_round\<close> meets no overflow and no
  failing conversion, and the counts it returns are natural numbers that add up, with the misses
  (at most one per object), to the number of objects; it never uses 100s and 50s together.
\<close>

theorem acc_round_counts:
  assumes "0 \<le> nobjects" "nobjects \<le> 55924" "0 \<le> misses" "acc \<noteq> NaN"
  shows "\<exists>n300 n100 n50. acc_round acc nobjects misses = Some (n300, n100, n50) \<and>
    0 \<le> n300 \<and> 0 \<le> n100 \<and> 0 \<le> n50 \<and> (n100 = 0 \<or> n50 = 0) \<and>
    n300 + n100 + n50 + min nobjects misses = nobjects"
  using acc_round_total [OF assms] .

theorem acc_round_counts_witness:
  "\<exists>n300 n100 n50. acc_round (Num 98) 1000 3 = Some (n300, n100, n50) \<and>
    0 \<le> n300 \<and> 0 \<le> n100 \<and> 0 \<le> n50 \<and> (n100 = 0 \<or> n50 = 0) \<and> n300 + n100 + n50 + min 1000 3 = 1000"
  using acc_round_counts [of 1000 3 "Num 98"] by simp

text \<open>
  The same for taiko: the counts of \<open>taiko_acc_round\<close> are natural numbers that add up, with
  the misses, to the number of objects.
\<close>

theorem taiko_acc_round_counts:
  assumes "0 \<le> nobjects" "nobjects \<le> 55924" "0 \<le> misses" "acc \<noteq> NaN"
  shows "\<exists>n300 n150. taiko_acc_round acc nobjects misses = Some (n300, n150) \<and>
    0 \<le> n300 \<and> 0 \<le> n150 \<and> n300 + n150 + min nobjects misses = nobjects"
proof -
  let ?m = "min nobjects misses"
  have m: "0 \<le> ?m" "?m \<le> nobjects" using assms by auto
  from clamped_accuracy [OF assms(1,2) m assms(4)] obtain a where
    a: "acc_calc (nobjects - ?m) 0 0 ?m = Some a" and
    e: "btw (- 65536) (1/16) (acc_term (al_max (Num 0) (al_min (mulf a (Num 100)) acc)) nobjects ?m)"
    (is "btw _ _ ?e") .
  from acc_term_cints [OF e] obtain k where
    k: "to_cint (al_round (mulf (Num (- 2)) ?e)) = Some k" "0 \<le> k" "k \<le> 1048577" .
  have I: "in_int x" if "0 \<le> x" "x \<le> 55924" for x using that by (simp add: in_int_iff)
  let ?n150 = "min (nobjects - ?m) k"
  have "taiko_acc_round acc nobjects misses = Some (nobjects - ?n150 - ?m, ?n150)"
    unfolding taiko_acc_round_def Let_def al_mini_min
    using a k(1,2) I m assms(1,2) by simp
  then show ?thesis using m k by auto
qed

theorem taiko_acc_round_counts_witness:
  "\<exists>n300 n150. taiko_acc_round (Num 95) 700 2 = Some (n300, n150) \<and>
    0 \<le> n300 \<and> 0 \<le> n150 \<and> n300 + n150 + min 700 2 = 700"
  using taiko_acc_round_counts [of 700 2 "Num 95"] by simp

text \<open>
  An accuracy of 100 percent or more without misses is rounded to all 300s.
\<close>

theorem acc_round_ss:
  assumes "0 \<le> nobjects" "nobjects \<le> 55924" "fle (Num 100) acc"
  shows "acc_round acc nobjects 0 = Some (nobjects, 0, 0)"
proof -
  obtain a where a: "acc_calc nobjects 0 0 0 = Some a"
    and M: "al_max (Num 0) (al_min (mulf a (Num 100)) acc) = Num (if nobjects = 0 then 0 else 100)"
  proof (cases "nobjects = 0")
    case True
    have "acc_calc 0 0 0 0 = Some (Num 0)" by (simp add: acc_calc_def in_int_iff)
    moreover have "mulf (Num 0) (Num 100) = Num 0" by (simp add: fp_eval)
    ultimately show thesis
      using assms(3) True by (intro that [of "Num 0"]; cases acc) (auto simp: al_min_def al_max_def fle_def)
  next
    case False
    with assms(1,2) obtain a where a: "acc_calc nobjects 0 0 0 = Some a" "btw 0 1 a" "fval a = rnd Single 1"
      using acc_calc_value [of nobjects 0 0 0] by auto
    have "rnd Single 1 = 1" by (simp add: fp_eval)
    with a have a1: "a = Num 1" by (cases a) (auto simp: btw_def)
    have "mulf (Num 1) (Num 100) = Num 100" by (simp add: fp_eval)
    with a1 a(1) show thesis
      using assms(3) False by (intro that [of a]; cases acc) (auto simp: al_min_def al_max_def fle_def)
  qed
  have e: "acc_term (Num (if nobjects = 0 then 0 else 100)) nobjects 0 = Num 0"
  proof (cases "nobjects = 0")
    case True
    then show ?thesis by (simp add: acc_term_def fp_eval)
  next
    case False
    have nI: "finite_fp (i2f nobjects)" "fval (i2f nobjects) = of_int nobjects"
      using of_cint_exact_Single [of nobjects] assms by auto
    have z: "mulf (Num 0) (i2f nobjects) = fround Single (fsign (i2f nobjects)) 0"
      using nI by (simp add: fmul_finite)
    have "\<not> fsign (i2f nobjects)" using nI False assms(1) by (cases "i2f nobjects") auto
    with z have "mulf (Num 0) (i2f nobjects) = Num 0" by (simp add: fp_eval)
    with False show ?thesis by (simp add: acc_term_def fp_eval)
  qed
  have r: "to_cint (al_round (mulf (mulf (Num (- 3)) (Num 0)) (Num (1/2)))) = Some 0"
    by (simp add: al_round_def fp_eval)
  have "in_int nobjects" using assms by (simp add: in_int_iff)
  with assms(1) a M e r show ?thesis
    unfolding acc_round_def Let_def al_mini_min by simp
qed

theorem acc_round_ss_witness: "acc_round (Num 100) 1200 0 = Some (1200, 0, 0)"
  using acc_round_ss [of 1200 "Num 100"] by (simp add: fle_def)

text \<open>
  The accuracy of natural hit counts (at most 55924 in total, not all zero) is a number
  between 0 and 1: the exact ratio of the points to the maximum, rounded once to single
  precision.
\<close>

theorem acc_calc_ratio:
  assumes "0 \<le> n300" "0 \<le> n100" "0 \<le> n50" "0 \<le> misses"
    and "n300 + n100 + n50 + misses \<le> 55924" "0 < n300 + n100 + n50 + misses"
  shows "\<exists>a. acc_calc n300 n100 n50 misses = Some a \<and> btw 0 1 a \<and>
    fval a = rnd Single (of_int (n50 * 50 + n100 * 100 + n300 * 300)
       / of_int ((n300 + n100 + n50 + misses) * 300))"
  using acc_calc_value [OF assms] by metis

theorem acc_calc_ratio_witness:
  "\<exists>a. acc_calc 980 15 2 3 = Some a \<and> btw 0 1 a \<and> fval a = rnd Single (295600 / 300000)"
  using acc_calc_ratio [of 980 15 2 3] by simp

end
