(* ===== verification/Scan.thy ===== *)
theory Scan
  imports Slices CFloat
begin

text \<open>
  The two conversions of \<^verbatim>\<open>sscanf\<close> that the parser uses, \<^verbatim>\<open>%d\<close> and \<^verbatim>\<open>%f\<close>, as the C standard
  describes them (C99 7.19.6.2 with the subject sequences of \<^verbatim>\<open>strtol\<close> and \<^verbatim>\<open>strtod\<close>), in the
  C locale. The input is a C string: it ends at the first NUL, and without one the call is
  undefined. A matching failure and an input failure are both \<open>None\<close>: the source compares the
  number of conversions with 1. \<^verbatim>\<open>%d\<close> of a number that no \<^verbatim>\<open>int\<close> holds is undefined behaviour;
  \<^verbatim>\<open>%f\<close> rounds to nearest.

  The lemmas: a C string ends at its NUL; the printed form of an integer scans back to it; on
  text whose runs of digits are at most nine long \<^verbatim>\<open>%d\<close> is never undefined.
\<close>

definition cstr :: "buf \<Rightarrow> nat \<Rightarrow> string option" where
  "cstr b p = (if NUL \<in> set (drop p b) then Some (takeWhile (\<lambda>c. c \<noteq> NUL) (drop p b)) else None)"

abbreviation code :: "char \<Rightarrow> int" where
  "code c \<equiv> of_char c"

definition isspace :: "char \<Rightarrow> bool" where
  "isspace c \<longleftrightarrow> code c = 32 \<or> 9 \<le> code c \<and> code c \<le> 13"

definition is_digit :: "char \<Rightarrow> bool" where
  "is_digit c \<longleftrightarrow> 48 \<le> code c \<and> code c \<le> 57"

definition dig :: "char \<Rightarrow> int" where
  "dig c = code c - 48"

definition digits_val :: "string \<Rightarrow> int" where
  "digits_val ds = foldl (\<lambda>v c. v * 10 + dig c) 0 ds"

fun take_sign :: "string \<Rightarrow> bool \<times> string" where
  "take_sign [] = (False, [])"
| "take_sign (c # r) =
     (if c = CHR ''-'' then (True, r) else if c = CHR ''+'' then (False, r) else (False, c # r))"

definition sscanf_d :: "string \<Rightarrow> int option option" where
  "sscanf_d s =
     (let (neg, r) = take_sign (dropWhile isspace s); ds = takeWhile is_digit r;
          v = (if neg then - digits_val ds else digits_val ds) in
      if ds = [] then Some None
      else if in_int v then Some (Some v) else None)"

subsection \<open>Floats\<close>

definition lower :: "char \<Rightarrow> int" where
  "lower c = (if 65 \<le> code c \<and> code c \<le> 90 then code c + 32 else code c)"

definition is_xdigit :: "char \<Rightarrow> bool" where
  "is_xdigit c \<longleftrightarrow> is_digit c \<or> 97 \<le> lower c \<and> lower c \<le> 102"

definition xdig :: "char \<Rightarrow> int" where
  "xdig c = (if is_digit c then dig c else lower c - 87)"

text \<open>Length of the common prefix with a word, ignoring case.\<close>

fun word_prefix :: "string \<Rightarrow> string \<Rightarrow> nat" where
  "word_prefix (w # ws) (c # cs) = (if lower c = code w then Suc (word_prefix ws cs) else 0)"
| "word_prefix _ _ = 0"

text \<open>A significand: the digits before and after the point, the scale, and the rest.\<close>

definition significand_of ::
  "(char \<Rightarrow> bool) \<Rightarrow> (char \<Rightarrow> int) \<Rightarrow> int \<Rightarrow> string \<Rightarrow> (int \<times> nat \<times> string) option" where
  "significand_of isd val base s =
     (let ip = takeWhile isd s; r = dropWhile isd s;
          (fp, r') = (case r of c # t \<Rightarrow> if c = CHR ''.'' then (takeWhile isd t, dropWhile isd t) else ([], r)
                      | [] \<Rightarrow> ([], r)) in
      if ip = [] \<and> fp = [] then None
      else Some (foldl (\<lambda>v c. v * base + val c) 0 (ip @ fp), length fp, r'))"

text \<open>
  An exponent. A marker that no digit follows makes the conversion fail: the input item is the
  longest prefix of a matching sequence.
\<close>

definition exponent_of :: "int \<Rightarrow> string \<Rightarrow> int option" where
  "exponent_of mark s = (case s of [] \<Rightarrow> Some 0
     | c # r \<Rightarrow>
         if lower c = mark then
           let (neg, r') = take_sign r; ds = takeWhile is_digit r' in
           if ds = [] then None else Some (if neg then - digits_val ds else digits_val ds)
         else Some 0)"

definition nan_chars :: "char \<Rightarrow> bool" where
  "nan_chars c \<longleftrightarrow> is_digit c \<or> 97 \<le> lower c \<and> lower c \<le> 122 \<or> c = CHR ''_''"

definition hex_float :: "bool \<Rightarrow> string \<Rightarrow> fp option" where
  "hex_float neg s = do {
     (m, k, r) \<leftarrow> significand_of is_xdigit xdig 16 s;
     e \<leftarrow> exponent_of 112 r;
     let v = of_int m * 2 powi (e - 4 * int k);
     Some (fround Single neg (if neg then - v else v))
   }"

definition dec_float :: "bool \<Rightarrow> string \<Rightarrow> fp option" where
  "dec_float neg s = do {
     (m, k, r) \<leftarrow> significand_of is_digit dig 10 s;
     e \<leftarrow> exponent_of 101 r;
     let v = of_int m * 10 powi (e - int k);
     Some (fround Single neg (if neg then - v else v))
   }"

definition sscanf_f :: "string \<Rightarrow> fp option" where
  "sscanf_f s =
     (let (neg, r) = take_sign (dropWhile isspace s) in
      if 0 < word_prefix ''infinity'' r then
        (if word_prefix ''infinity'' r = 3 \<or> word_prefix ''infinity'' r = 8 then Some (Inf neg) else None)
      else if 0 < word_prefix ''nan'' r then
        (if word_prefix ''nan'' r = 3 then
           (case drop 3 r of [] \<Rightarrow> Some NaN
            | c # t \<Rightarrow> if c = CHR ''('' then
                 (case dropWhile nan_chars t of [] \<Rightarrow> None
                  | d # _ \<Rightarrow> if d = CHR '')'' then Some NaN else None)
                 else Some NaN)
         else None)
      else if word_prefix ''0x'' r = 2 then hex_float neg (drop 2 r)
      else dec_float neg r)"

subsection \<open>C strings\<close>

lemma cstr_ends:
  assumes "p \<le> length b"
  shows "cstr (b @ [NUL]) p \<noteq> None"
  using assms by (simp add: cstr_def)

lemma cstr_terminated:
  assumes "p + length t < length b" "b ! (p + length t) = NUL" "NUL \<notin> set t" "take (length t) (drop p b) = t"
  shows "cstr b p = Some t"
proof -
  have d: "drop p b = t @ NUL # drop (Suc (p + length t)) b"
    using assms append_take_drop_id [of "length t" "drop p b"] Cons_nth_drop_Suc [OF assms(1)]
    by (simp add: add.commute)
  have "takeWhile (\<lambda>c. c \<noteq> NUL) (drop p b) = t"
    unfolding d using assms(3) by (subst takeWhile_append2) auto
  with d show ?thesis by (simp add: cstr_def)
qed

lemma cstr_free_of_NUL: "cstr b p = Some t \<Longrightarrow> NUL \<notin> set t"
  by (auto simp: cstr_def split: if_splits dest: set_takeWhileD)

text \<open>Runs of at most nine digits.\<close>

fun short_runs :: "nat \<Rightarrow> string \<Rightarrow> bool" where
  "short_runs k [] = True"
| "short_runs k (c # cs) = (if is_digit c then 0 < k \<and> short_runs (k - 1) cs else short_runs 9 cs)"

lemma short_runs_takeWhile: "short_runs k s \<Longrightarrow> k \<le> 9 \<Longrightarrow> length (takeWhile is_digit s) \<le> k"
proof (induction k s rule: short_runs.induct)
  case (2 k c cs)
  have "k - 1 \<le> 9" using 2(4) by simp
  with 2 show ?case by (auto split: if_splits)
qed simp

lemma short_runs_mono: "short_runs k s \<Longrightarrow> k \<le> l \<Longrightarrow> short_runs l s"
  by (induction k s arbitrary: l rule: short_runs.induct) (auto split: if_splits)

lemma short_runs_drop: "short_runs k s \<Longrightarrow> k \<le> 9 \<Longrightarrow> short_runs 9 (drop n s)"
proof (induction k s arbitrary: n rule: short_runs.induct)
  case (2 k c cs)
  then show ?case
    by (cases n) (auto split: if_splits intro: short_runs_mono simp: diff_le_self)
qed simp

lemma short_runs_take: "short_runs k s \<Longrightarrow> short_runs k (take n s)"
  by (induction k s arbitrary: n rule: short_runs.induct) (auto simp: take_Cons' split: if_splits)

lemma digits_val_snoc: "digits_val (ds @ [c]) = digits_val ds * 10 + dig c"
  by (simp add: digits_val_def)

lemma digits_val_bounds: "\<forall>c \<in> set ds. is_digit c \<Longrightarrow> 0 \<le> digits_val ds \<and> digits_val ds < 10 ^ length ds"
proof (induction ds rule: rev_induct)
  case Nil
  then show ?case by (simp add: digits_val_def)
next
  case (snoc c ds)
  then have "0 \<le> dig c" "dig c \<le> 9" by (auto simp: is_digit_def dig_def)
  with snoc show ?case by (auto simp: digits_val_snoc)
qed

lemma digits_val_short:
  assumes "length (takeWhile is_digit s) \<le> 9"
  shows "0 \<le> digits_val (takeWhile is_digit s)" "digits_val (takeWhile is_digit s) < 1000000000"
proof -
  have "\<forall>c \<in> set (takeWhile is_digit s). is_digit c" by (auto dest: set_takeWhileD)
  note b = digits_val_bounds [OF this]
  have "(10::int) ^ length (takeWhile is_digit s) \<le> 10 ^ 9"
    using assms by (intro power_increasing) auto
  with b show "0 \<le> digits_val (takeWhile is_digit s)"
    "digits_val (takeWhile is_digit s) < 1000000000" by auto
qed

lemma take_sign_drop: "snd (take_sign s) = drop (if fst (take_sign s) \<or> take 1 s = ''+'' then 1 else 0) s"
  by (cases s) auto

lemma sscanf_d_defined:
  assumes "short_runs 9 s"
  shows "sscanf_d s \<noteq> None" "sscanf_d s = Some (Some v) \<Longrightarrow> \<bar>v\<bar> < 1000000000"
proof -
  define r where "r = snd (take_sign (dropWhile isspace s))"
  obtain n where "r = drop n (dropWhile isspace s)"
    using take_sign_drop [of "dropWhile isspace s"] r_def by metis
  then have "r = drop (n + length (takeWhile isspace s)) s" by (simp add: dropWhile_eq_drop)
  with assms have "short_runs 9 r" by (simp add: short_runs_drop)
  then have "length (takeWhile is_digit r) \<le> 9" by (rule short_runs_takeWhile) simp
  from digits_val_short [OF this] show "sscanf_d s \<noteq> None"
    "sscanf_d s = Some (Some v) \<Longrightarrow> \<bar>v\<bar> < 1000000000"
    by (auto simp: sscanf_d_def r_def in_int_iff Let_def split: prod.splits if_splits)
qed

subsection \<open>Printed integers scan back\<close>

function print_nat :: "nat \<Rightarrow> string" where
  "print_nat n = (if n < 10 then [] else print_nat (n div 10)) @ [char_of (48 + n mod 10)]"
  by pat_completeness auto
termination
  by (relation "measure id") auto

definition print_int :: "int \<Rightarrow> string" where
  "print_int n = (if n < 0 then CHR ''-'' # print_nat (nat (- n)) else print_nat (nat n))"

declare print_nat.simps [simp del]

lemma digit_char:
  assumes "d < 10"
  shows "is_digit (char_of (48 + d :: nat))" "dig (char_of (48 + d :: nat)) = int d"
proof -
  have "(of_char (char_of (48 + d :: nat)) :: nat) = 48 + d" using assms by simp
  then have "code (char_of (48 + d :: nat)) = 48 + int d"
    by (metis of_nat_add of_nat_numeral of_nat_of_char)
  with assms show "is_digit (char_of (48 + d :: nat))" "dig (char_of (48 + d :: nat)) = int d"
    by (simp_all add: is_digit_def dig_def)
qed

lemma print_nat_digits: "\<forall>c \<in> set (print_nat n). is_digit c"
  by (induction n rule: print_nat.induct) (subst print_nat.simps, auto simp: digit_char)

lemma print_nat_val: "digits_val (print_nat n) = int n"
proof (induction n rule: print_nat.induct)
  case (1 n)
  show ?case
  proof (cases "n < 10")
    case True
    then show ?thesis using digit_char(2) [of n]
      by (subst print_nat.simps) (simp add: digits_val_def)
  next
    case False
    have "int (n div 10) * 10 + int (n mod 10) = int n"
      by (metis mult.commute mult_div_mod_eq of_nat_add of_nat_mult of_nat_numeral)
    with False 1 digit_char(2) [of "n mod 10"] show ?thesis
      by (subst print_nat.simps) (simp add: digits_val_snoc)
  qed
qed

lemma print_nat_nonempty: "print_nat n \<noteq> []"
  by (subst print_nat.simps) simp

lemma digit_not_space: "is_digit c \<Longrightarrow> \<not> isspace c \<and> c \<noteq> CHR ''-'' \<and> c \<noteq> CHR ''+''"
  by (auto simp: is_digit_def isspace_def)

lemma takeWhile_digits:
  "\<forall>c \<in> set ds. is_digit c \<Longrightarrow> rest = [] \<or> \<not> is_digit (hd rest) \<Longrightarrow> takeWhile is_digit (ds @ rest) = ds"
  by (cases rest) auto

lemma sscanf_d_print:
  assumes "in_int n" "rest = [] \<or> \<not> is_digit (hd rest)" "\<forall>c \<in> set ws. isspace c"
  shows "sscanf_d (ws @ print_int n @ rest) = Some (Some n)"
proof -
  obtain c cs where p: "print_nat (nat \<bar>n\<bar>) = c # cs" using print_nat_nonempty by (cases "print_nat (nat \<bar>n\<bar>)") auto
  then have c: "is_digit c" using print_nat_digits [of "nat \<bar>n\<bar>"] by auto
  have t: "takeWhile is_digit (print_nat (nat \<bar>n\<bar>) @ rest) = print_nat (nat \<bar>n\<bar>)"
    using print_nat_digits assms(2) by (rule takeWhile_digits)
  have v: "digits_val (print_nat (nat \<bar>n\<bar>)) = \<bar>n\<bar>" by (simp add: print_nat_val)
  have d: "dropWhile isspace (ws @ print_int n @ rest) = print_int n @ rest"
    using assms(3) p c digit_not_space [OF c]
    by (cases "n < 0") (auto simp: dropWhile_append2 print_int_def isspace_def)
  have "take_sign (print_int n @ rest) = (n < 0, print_nat (nat \<bar>n\<bar>) @ rest)"
    using p digit_not_space [OF c] by (auto simp: print_int_def)
  with d t v p assms(1) show ?thesis by (auto simp: sscanf_d_def Let_def)
qed

end
