(* ===== verification/Parser.thy ===== *)
theory Parser
  imports State Scan
begin

text \<open>
  The line parser of oppai.c: the \<^verbatim>\<open>p_*\<close> functions from \<^verbatim>\<open>p_float\<close> to \<^verbatim>\<open>p_line\<close>, each with the
  line buffer, the handle and the slices of the source. A handler returns the new handle and
  the result of the C function: the bytes consumed, or a negative error code. The warnings
  printed to \<^verbatim>\<open>stderr\<close> have no effect on the handle and are left out; \<^verbatim>\<open>p_warn\<close> is its result 0.
\<close>

text \<open>\<open>scan_int b p\<close> is \<^verbatim>\<open>sscanf(p, "%d", ..)\<close>, \<open>scan_float b p\<close> is \<^verbatim>\<open>sscanf(p, "%f", ..)\<close>.\<close>

definition scan_int :: "buf \<Rightarrow> nat \<Rightarrow> int option option" where
  "scan_int b p = do { s \<leftarrow> cstr b p; sscanf_d s }"

definition scan_float :: "buf \<Rightarrow> nat \<Rightarrow> fp option option" where
  "scan_float b p = do { s \<leftarrow> cstr b p; Some (sscanf_f s) }"

definition P_OVERRIDE_MODE :: int where "P_OVERRIDE_MODE = 1"
definition P_FOUND_AR :: int where "P_FOUND_AR = 2"

definition p_float :: "buf \<Rightarrow> slice \<Rightarrow> fp option" where
  "p_float b value = do {
     c \<leftarrow> rd b (s_start value);
     let (res, p) = (if c = CHR ''-'' then (Num (- 1), s_start value + 1) else (Num 1, s_start value));
     d \<leftarrow> strncmp_at b p [CHR 0xE2, CHR 0x88, CHR 0x9E] 3;
     if d = 0 then Some (mulf res get_inf)
     else do {
       r \<leftarrow> scan_float b (s_start value);
       Some (case r of Some x \<Rightarrow> x | None \<Rightarrow> Num 0)
     }
   }"

text \<open>A result of \<open>p_section_name\<close> and \<open>p_property\<close>: the code returned and the slices written.\<close>

definition p_section_name :: "buf \<Rightarrow> slice \<Rightarrow> (int \<times> slice) option" where
  "p_section_name b s = do {
     c \<leftarrow> rd b (s_start s);
     if c \<noteq> CHR ''['' then Some (ERR_SYNTAX, mk_slice 0 0)
     else do {
       (n, name) \<leftarrow> p_consume_til b (mk_slice (s_start s + 1) (s_end s)) '']'';
       if n < 0 then Some (n, name)
       else if s_start s + 1 + nat n \<noteq> s_end s - 1 then Some (ERR_SYNTAX, name)
       else Some (1 + n, name)
     }
   }"

definition p_property :: "buf \<Rightarrow> slice \<Rightarrow> (int \<times> slice \<times> slice) option" where
  "p_property b s = do {
     (n, name) \<leftarrow> p_consume_til b s '':'';
     if n < 0 then Some (n, name, mk_slice 0 0)
     else do {
       name \<leftarrow> slice_trim b name;
       value \<leftarrow> slice_trim b (mk_slice (s_start s + nat n + 1) (s_end s));
       Some (slice_len s, name, value)
     }
   }"

text \<open>An \<^verbatim>\<open>else if\<close> chain of \<^verbatim>\<open>slice_cmp\<close> tests: the first key equal to the name.\<close>

fun match_key :: "buf \<Rightarrow> slice \<Rightarrow> string list \<Rightarrow> string option option" where
  "match_key b name [] = Some None"
| "match_key b name (k # ks) = do {
     d \<leftarrow> slice_cmp b name k;
     if d = 0 then Some (Some k) else match_key b name ks
   }"

definition p_slicedup :: "buf \<Rightarrow> ezpp \<Rightarrow> slice \<Rightarrow> (ezpp \<times> strp) option" where
  "p_slicedup b ez s = do {
     (A, p) \<leftarrow> m_strndup (ez_mem ez) b (s_start s) (nat (slice_len s));
     Some (ez\<lparr>ez_mem := A\<rparr>, SPtr p)
   }"

definition set_metadata :: "string \<Rightarrow> strp \<Rightarrow> ezpp \<Rightarrow> ezpp" where
  "set_metadata k p ez =
     (if k = ''Title'' then ez\<lparr>ez_title := p\<rparr>
      else if k = ''TitleUnicode'' then ez\<lparr>ez_title_unicode := p\<rparr>
      else if k = ''Artist'' then ez\<lparr>ez_artist := p\<rparr>
      else if k = ''ArtistUnicode'' then ez\<lparr>ez_artist_unicode := p\<rparr>
      else if k = ''Creator'' then ez\<lparr>ez_creator := p\<rparr>
      else ez\<lparr>ez_version := p\<rparr>)"

definition p_metadata :: "buf \<Rightarrow> ezpp \<Rightarrow> slice \<Rightarrow> (ezpp \<times> int) option" where
  "p_metadata b ez line = do {
     (n, name, value) \<leftarrow> p_property b line;
     if n < 0 then Some (ez, 0)
     else do {
       k \<leftarrow> match_key b name
         [''Title'', ''TitleUnicode'', ''Artist'', ''ArtistUnicode'', ''Creator'', ''Version''];
       case k of None \<Rightarrow> Some (ez, n)
       | Some k \<Rightarrow> do {
           (ez, p) \<leftarrow> p_slicedup b ez value;
           Some (set_metadata k p ez, n)
         }
     }
   }"

definition p_general :: "buf \<Rightarrow> ezpp \<Rightarrow> slice \<Rightarrow> (ezpp \<times> int) option" where
  "p_general b ez line = do {
     (n, name, value) \<leftarrow> p_property b line;
     if n < 0 then Some (ez, 0)
     else do {
       d \<leftarrow> slice_cmp b name ''Mode'';
       if d \<noteq> 0 then Some (ez, n)
       else do {
         r \<leftarrow> scan_int b (s_start value);
         case r of None \<Rightarrow> Some (ez, ERR_SYNTAX)
         | Some m \<Rightarrow>
             let ez = ez\<lparr>ez_original_mode := m\<rparr>;
                 ez = ez\<lparr>ez_mode := (if has (ez_p_flags ez) P_OVERRIDE_MODE
                    then ez_mode_override ez else ez_original_mode ez)\<rparr> in
             Some (ez, if ez_mode ez = MODE_STD \<or> ez_mode ez = MODE_TAIKO then n else ERR_NOTIMPLEMENTED)
       }
     }
   }"

definition set_difficulty :: "string \<Rightarrow> fp \<Rightarrow> ezpp \<Rightarrow> ezpp" where
  "set_difficulty k x ez =
     (if k = ''CircleSize'' then ez\<lparr>ez_cs := x\<rparr>
      else if k = ''OverallDifficulty'' then ez\<lparr>ez_od := x\<rparr>
      else if k = ''ApproachRate'' then ez\<lparr>ez_ar := x, ez_p_flags := ez_p_flags ez OR P_FOUND_AR\<rparr>
      else if k = ''HPDrainRate'' then ez\<lparr>ez_hp := x\<rparr>
      else if k = ''SliderMultiplier'' then ez\<lparr>ez_sv := x\<rparr>
      else ez\<lparr>ez_tick_rate := x\<rparr>)"

definition p_difficulty :: "buf \<Rightarrow> ezpp \<Rightarrow> slice \<Rightarrow> (ezpp \<times> int) option" where
  "p_difficulty b ez line = do {
     (n, name, value) \<leftarrow> p_property b line;
     if n < 0 then Some (ez, 0)
     else do {
       k \<leftarrow> match_key b name [''CircleSize'', ''OverallDifficulty'', ''ApproachRate'',
         ''HPDrainRate'', ''SliderMultiplier'', ''SliderTickRate''];
       case k of None \<Rightarrow> Some (ez, n)
       | Some k \<Rightarrow> do { x \<leftarrow> p_float b value; Some (set_difficulty k x ez, n) }
     }
   }"

subsection \<open>Timing points\<close>

definition upd_last :: "'a arr \<Rightarrow> 'a \<Rightarrow> 'a arr" where
  "upd_last a x = a\<lparr>arr_items := butlast (arr_items a) @ [x]\<rparr>"

fun trim_all :: "buf \<Rightarrow> slice list \<Rightarrow> slice list option" where
  "trim_all b [] = Some []"
| "trim_all b (s # ss) = do { s' \<leftarrow> slice_trim b s; ss' \<leftarrow> trim_all b ss; Some (s' # ss') }"

definition p_timing :: "buf \<Rightarrow> ezpp \<Rightarrow> slice \<Rightarrow> (ezpp \<times> int) option" where
  "p_timing b ez line = do {
     let t = uninit_timing\<lparr>t_change := 1\<rparr>;
     (tps, h, ok) \<leftarrow> array_append sizeof_timing (ez_timing_points ez) t (a_heap (ez_mem ez));
     let ez = ez\<lparr>ez_timing_points := tps, ez_mem := (ez_mem ez)\<lparr>a_heap := h\<rparr>\<rparr>;
     if \<not> ok then Some (ez, ERR_OOM)
     else do {
       (split, err) \<leftarrow> slice_split b line '','' 8;
       if err < 0 \<and> err \<noteq> ERR_TRUNCATED then Some (ez, err)
       else if length split < 2 then Some (ez, 0)
       else do {
         let res = int (s_end (last split)) - int (s_start line);
         split \<leftarrow> trim_all b split;
         time \<leftarrow> p_float b (split ! 0);
         ms_per_beat \<leftarrow> p_float b (split ! 1);
         change \<leftarrow> (if 7 \<le> length split then
             if slice_len (split ! 6) < 1 then Some 1
             else do { c \<leftarrow> rd b (s_start (split ! 6)); Some (if c \<noteq> CHR ''0'' then 1 else 0) }
           else Some 1);
         let t = t\<lparr>t_time := Some time, t_ms_per_beat := Some ms_per_beat, t_change := change\<rparr>;
         Some (ez\<lparr>ez_timing_points := upd_last (ez_timing_points ez) t\<rparr>, res)
       }
     }
   }"

subsection \<open>Hit objects\<close>

definition set_object :: "ezpp \<Rightarrow> object \<Rightarrow> ezpp" where
  "set_object ez ob = ez\<lparr>ez_objects := upd_last (ez_objects ez) ob\<rparr>"

text \<open>The sound type of a taiko object; the flag is false when the allocation failed.\<close>

definition p_sound :: "buf \<Rightarrow> ezpp \<Rightarrow> object \<Rightarrow> slice \<Rightarrow> (ezpp \<times> object \<times> bool) option" where
  "p_sound b ez ob f =
     (if ez_mode ez = MODE_TAIKO then do {
        (A, p) \<leftarrow> m_alloc (ez_mem ez) 4;
        if p = None then Some (ez\<lparr>ez_mem := A\<rparr>, ob, False)
        else do {
          r \<leftarrow> scan_int b (s_start f);
          h \<leftarrow> store p (CInts [case r of None \<Rightarrow> SOUND_NORMAL | Some v \<Rightarrow> v]) (a_heap A);
          Some (ez\<lparr>ez_mem := A\<lparr>a_heap := h\<rparr>\<rparr>, ob\<lparr>o_nsound_types := 1, o_sound_types := p\<rparr>, True)
        }
      } else Some (ez, ob, True))"

text \<open>
  The loop over the nodes of a slider, with the number of rounds left. When no separator is
  left \<^verbatim>\<open>p_consume_til\<close> returns -1 and the start of the slice does not move, so that the last
  sound type is read again for the remaining nodes.
\<close>

fun node_loop :: "buf \<Rightarrow> slice \<Rightarrow> nat \<Rightarrow> nat \<Rightarrow> int list \<Rightarrow> (int list \<times> int) option" where
  "node_loop b p 0 i types = Some (types, 0)"
| "node_loop b p (Suc k) i types = do {
     (n, node) \<leftarrow> p_consume_til b p ''|'';
     if n < 0 \<and> n \<noteq> ERR_MORE then Some (types, n)
     else if s_start node \<ge> s_end node then Some (types, 0)
     else do {
       let p = mk_slice (nat (int (s_start p) + n + 1)) (s_end p);
       r \<leftarrow> scan_int b (s_start node);
       case r of None \<Rightarrow> Some (types, 0)
       | Some type \<Rightarrow>
           let types = types[i := type] in
           if s_start p \<ge> s_end p then Some (types, 0) else node_loop b p k (i + 1) types
     }
   }"

definition load_int :: "heap \<Rightarrow> ptr \<Rightarrow> nat \<Rightarrow> int option" where
  "load_int h p i = do {
     c \<leftarrow> load p h;
     case c of CInts xs \<Rightarrow> rd xs i | CStr _ \<Rightarrow> None
   }"

definition p_node_sounds :: "buf \<Rightarrow> ezpp \<Rightarrow> object \<Rightarrow> slice \<Rightarrow> int \<Rightarrow> (ezpp \<times> int) option" where
  "p_node_sounds b ez ob f res = do {
     sound_type \<leftarrow> load_int (a_heap (ez_mem ez)) (o_sound_types ob) 0;
     nodes \<leftarrow> ck (o_repetitions ob + 1);
     if nodes < 0 \<or> nodes > 1000 then Some (set_object ez ob, ERR_SYNTAX)
     else do {
       (A, p) \<leftarrow> m_alloc (ez_mem ez) (4 * nodes);
       let ob = ob\<lparr>o_sound_types := p\<rparr>;
       if p = None then Some (set_object (ez\<lparr>ez_mem := A\<rparr>) ob, ERR_OOM)
       else do {
         let ob = ob\<lparr>o_nsound_types := nodes\<rparr>;
         (types, err) \<leftarrow> node_loop b f (nat nodes) 0 (replicate (nat nodes) sound_type);
         h \<leftarrow> (if nodes = 0 then Some (a_heap A) else store p (CInts types) (a_heap A));
         Some (set_object (ez\<lparr>ez_mem := A\<lparr>a_heap := h\<rparr>\<rparr>) ob, if err < 0 then err else res)
       }
     }
   }"

definition p_slider :: "buf \<Rightarrow> ezpp \<Rightarrow> object \<Rightarrow> slice list \<Rightarrow> int \<Rightarrow> (ezpp \<times> int) option" where
  "p_slider b ez ob e res = do {
     n \<leftarrow> ck (ez_nsliders ez + 1);
     let ez = ez\<lparr>ez_nsliders := n\<rparr>;
     if length e < 7 then Some (set_object ez ob, 0)
     else do {
       x \<leftarrow> p_float b (e ! 0);
       y \<leftarrow> p_float b (e ! 1);
       r \<leftarrow> scan_int b (s_start (e ! 6));
       d \<leftarrow> (if 7 < length e then p_float b (e ! 7) else Some (Num 0));
       let ob = ob\<lparr>o_pos := (x, y), o_repetitions := (case r of None \<Rightarrow> 1 | Some v \<Rightarrow> v), o_distance := d\<rparr>;
       if ez_mode ez = MODE_TAIKO \<and> 8 < length e \<and> slice_len (e ! 8) > 0
       then p_node_sounds b ez ob (e ! 8) res
       else Some (set_object ez ob, res)
     }
   }"

text \<open>The three kinds of object, tested in the order of the source.\<close>

definition p_kind :: "buf \<Rightarrow> ezpp \<Rightarrow> object \<Rightarrow> slice list \<Rightarrow> int \<Rightarrow> (ezpp \<times> int) option" where
  "p_kind b ez ob e res =
     (if has (o_type ob) OBJ_CIRCLE then do {
        n \<leftarrow> ck (ez_ncircles ez + 1);
        x \<leftarrow> p_float b (e ! 0);
        y \<leftarrow> p_float b (e ! 1);
        Some (set_object (ez\<lparr>ez_ncircles := n\<rparr>) (ob\<lparr>o_pos := (x, y)\<rparr>), res)
      } else if has (o_type ob) OBJ_SPINNER then do {
        n \<leftarrow> ck (ez_nspinners ez + 1);
        Some (set_object (ez\<lparr>ez_nspinners := n\<rparr>) ob, res)
      } else if has (o_type ob) OBJ_SLIDER then p_slider b ez ob e res
      else Some (set_object ez ob, res))"

definition p_objects :: "buf \<Rightarrow> ezpp \<Rightarrow> slice \<Rightarrow> (ezpp \<times> int) option" where
  "p_objects b ez line =
     (if ez_end ez > 0 \<and> arr_len (ez_objects ez) \<ge> ez_end ez then Some (ez, 0)
      else do {
        (os, h, ok) \<leftarrow> array_append sizeof_object (ez_objects ez) zero_object (a_heap (ez_mem ez));
        let ez = ez\<lparr>ez_objects := os, ez_mem := (ez_mem ez)\<lparr>a_heap := h\<rparr>\<rparr>;
        if \<not> ok then Some (ez, ERR_OOM)
        else do {
          (e, err) \<leftarrow> slice_split b line '','' 11;
          if err < 0 \<and> err \<noteq> ERR_TRUNCATED then Some (ez, err)
          else if length e < 5 then Some (ez, 0)
          else do {
            t \<leftarrow> p_float b (e ! 2);
            let t = (if is_inf t then Num 0 else t);
            if flt (Num 0) (ez_end_time ez) \<and> fle (ez_end_time ez) t
            then Some (ez\<lparr>ez_objects := os\<lparr>arr_items := butlast (arr_items os)\<rparr>\<rparr>, 0)
            else do {
              ty \<leftarrow> scan_int b (s_start (e ! 3));
              let ob = zero_object\<lparr>o_time := t, o_type := (case ty of None \<Rightarrow> OBJ_CIRCLE | Some v \<Rightarrow> v)\<rparr>;
              (ez, ob, ok) \<leftarrow> p_sound b ez ob (e ! 4);
              if \<not> ok then Some (set_object ez ob, ERR_OOM)
              else p_kind b ez ob e (int (s_end (last e)) - int (s_start line))
            }
          }
        }
      })"

subsection \<open>Lines\<close>

text \<open>
  A section header. The name is kept in 63 bytes; a comparison with it stops at a NUL.
\<close>

definition p_header :: "buf \<Rightarrow> ezpp \<Rightarrow> slice \<Rightarrow> (ezpp \<times> int) option" where
  "p_header b ez line = do {
     (n, section) \<leftarrow> p_section_name b line;
     if n < 0 then Some (ez, n)
     else
       let len = al_mini 63 (slice_len section) in
       Some (ez\<lparr>ez_section := sub b (s_start section) (s_start section + nat len)\<rparr>, n)
   }"

definition in_section :: "ezpp \<Rightarrow> string \<Rightarrow> bool" where
  "in_section ez name \<longleftrightarrow> takeWhile (\<lambda>c. c \<noteq> NUL) (ez_section ez) = name"

text \<open>Outside the known sections the parser looks for the format version.\<close>

function version_loop :: "buf \<Rightarrow> nat \<Rightarrow> nat \<Rightarrow> nat option" where
  "version_loop b p e =
     (if p < e then do {
        d \<leftarrow> strncmp_at b p ''file format v'' 13;
        if d \<noteq> 0 then version_loop b (p + 1) e else Some p
      } else Some p)"
  by pat_completeness auto
termination
  by (relation "measure (\<lambda>(b, p, e). e - p)") auto

declare version_loop.simps [simp del]

definition p_version :: "buf \<Rightarrow> ezpp \<Rightarrow> slice \<Rightarrow> (ezpp \<times> int) option" where
  "p_version b ez line = do {
     p \<leftarrow> version_loop b (s_start line) (s_end line);
     if p + 13 < s_end line then do {
       r \<leftarrow> scan_int b (p + 13);
       case r of Some v \<Rightarrow> Some (ez\<lparr>ez_format_version := v\<rparr>, slice_len line) | None \<Rightarrow> Some (ez, 0)
     } else Some (ez, 0)
   }"

definition p_section_line :: "buf \<Rightarrow> ezpp \<Rightarrow> slice \<Rightarrow> (ezpp \<times> int) option" where
  "p_section_line b ez line =
     (if in_section ez ''Metadata'' then p_metadata b ez line
      else if in_section ez ''General'' then p_general b ez line
      else if in_section ez ''Difficulty'' then p_difficulty b ez line
      else if in_section ez ''TimingPoints'' then p_timing b ez line
      else if in_section ez ''HitObjects'' then p_objects b ez line
      else p_version b ez line)"

definition p_line :: "buf \<Rightarrow> ezpp \<Rightarrow> slice \<Rightarrow> (ezpp \<times> int) option" where
  "p_line b ez line =
     (if s_start line \<ge> s_end line then Some (ez, 0)
      else do {
        ws \<leftarrow> slice_whitespace b line;
        if ws then Some (ez, slice_len line)
        else do {
          c \<leftarrow> rd b (s_start line);
          if c = CHR '' '' \<or> c = CHR ''_'' then Some (ez, slice_len line)
          else do {
            line \<leftarrow> slice_trim b line;
            d \<leftarrow> strncmp_at b (s_start line) ''//'' 2;
            if d = 0 then Some (ez, 0)
            else do {
              c \<leftarrow> rd b (s_start line);
              if c = CHR ''['' then p_header b ez line else p_section_line b ez line
            }
          }
        }
      })"

end
