(* ===== verification/ParseMap.thy ===== *)
theory ParseMap
  imports Parser Mods
begin

text \<open>
  Whole maps: \<^verbatim>\<open>p_end\<close>, which derives the timing data, the combo and the normalised positions
  once all lines are read, \<^verbatim>\<open>p_reset\<close>, and the two readers, \<^verbatim>\<open>p_map\<close> from a file and
  \<^verbatim>\<open>p_map_mem\<close> from memory. A file is the bytes \<^verbatim>\<open>fgetc\<close> yields before the end of the file.
\<close>

subsection \<open>The end of the map\<close>

definition CIRCLESIZE_BUFF_TRESHOLD :: fp where "CIRCLESIZE_BUFF_TRESHOLD = Num 30"
definition PLAYFIELD_WIDTH :: fp where "PLAYFIELD_WIDTH = Num 512"
definition PLAYFIELD_HEIGHT :: fp where "PLAYFIELD_HEIGHT = Num 384"

definition playfield_center :: v2f where
  "playfield_center = (divf PLAYFIELD_WIDTH (Num 2), divf PLAYFIELD_HEIGHT (Num 2))"

definition or_null :: "strp \<Rightarrow> strp" where
  "or_null p = (if p = SPtr None then SLit ''(null)'' else p)"

definition end_strings :: "ezpp \<Rightarrow> ezpp" where
  "end_strings ez =
     (let ez = (if ez_title_unicode ez = SPtr None then ez\<lparr>ez_title_unicode := ez_title ez\<rparr> else ez);
          ez = (if ez_artist_unicode ez = SPtr None then ez\<lparr>ez_artist_unicode := ez_artist ez\<rparr> else ez) in
      ez\<lparr>ez_title := or_null (ez_title ez), ez_title_unicode := or_null (ez_title_unicode ez),
         ez_artist := or_null (ez_artist ez), ez_artist_unicode := or_null (ez_artist_unicode ez),
         ez_creator := or_null (ez_creator ez), ez_version := or_null (ez_version ez)\<rparr>)"

text \<open>A base stat that was set wins over the map's; otherwise it takes the map's value.\<close>

definition end_base_stats :: "ezpp \<Rightarrow> ezpp" where
  "end_base_stats ez =
     (let ez = (if flt (ez_base_ar ez) (Num 0) then ez\<lparr>ez_base_ar := ez_ar ez\<rparr> else ez\<lparr>ez_ar := ez_base_ar ez\<rparr>);
          ez = (if flt (ez_base_cs ez) (Num 0) then ez\<lparr>ez_base_cs := ez_cs ez\<rparr> else ez\<lparr>ez_cs := ez_base_cs ez\<rparr>);
          ez = (if flt (ez_base_od ez) (Num 0) then ez\<lparr>ez_base_od := ez_od ez\<rparr> else ez\<lparr>ez_od := ez_base_od ez\<rparr>) in
      if flt (ez_base_hp ez) (Num 0) then ez\<lparr>ez_base_hp := ez_hp ez\<rparr> else ez\<lparr>ez_hp := ez_base_hp ez\<rparr>)"

fun end_timing :: "int \<Rightarrow> fp \<Rightarrow> fp \<Rightarrow> timing list \<Rightarrow> timing list option" where
  "end_timing fv sv ms [] = Some []"
| "end_timing fv sv ms (t # ts) = do {
     ms \<leftarrow> (if t_change t \<noteq> 0 then t_ms_per_beat t else Some ms);
     sv_multiplier \<leftarrow> (if t_change t = 0 then do {
         m \<leftarrow> t_ms_per_beat t;
         Some (if flt m (Num 0) then divf (Num (- 100)) m else Num 1)
       } else Some (Num 1));
     let beat_len = divf ms sv_multiplier;
     let px_per_beat = mulf sv (Num 100);
     let velocity = divf (mulf (Num 100) sv) beat_len;
     let (beat_len, px_per_beat) = (if 8 \<le> fv then (mulf beat_len sv_multiplier, mulf px_per_beat sv_multiplier)
       else (beat_len, px_per_beat));
     ts \<leftarrow> end_timing fv sv ms ts;
     Some (t\<lparr>t_beat_len := Some beat_len, t_px_per_beat := Some px_per_beat, t_velocity := Some velocity\<rparr> # ts)
   }"

text \<open>
  The search for the timing point of an object. Times are finite, so that the loop stops at the
  infinite \<open>tnext\<close> after the last point; for an infinite time the index would overflow.
\<close>

function tp_loop :: "timing list \<Rightarrow> fp \<Rightarrow> fp \<Rightarrow> int \<Rightarrow> (fp \<times> int) option" where
  "tp_loop tps time tnext tindex =
     (if fle tnext time then do {
        tindex \<leftarrow> ck (tindex + 1);
        tnext \<leftarrow> (if tindex + 1 < int (length tps) then do { t \<leftarrow> rdi tps (tindex + 1); t_time t }
          else Some (Inf False));
        tp_loop tps time tnext tindex
      } else Some (tnext, tindex))"
  by pat_completeness auto
termination
  by (relation "measure (\<lambda>(tps, time, tnext, tindex). nat (INT_MAX - tindex))")
    (auto simp: in_int_iff INT_MAX_def)

declare tp_loop.simps [simp del]

definition end_angle :: "libm \<Rightarrow> v2f list \<Rightarrow> v2f \<Rightarrow> fp" where
  "end_angle M prevs pos = (case prevs of
     prev1 # prev2 # _ \<Rightarrow>
       let v1 = v2f_sub prev2 prev1; v2 = v2f_sub pos prev1; d = v2f_dot v1 v2;
           det = subf (mulf (fst v1) (snd v2)) (mulf (snd v1) (fst v2)) in
       to_float (fabs (m_atan2 M det d))
   | _ \<Rightarrow> get_nan)"

text \<open>The combo that the ticks of a slider of osu! standard add.\<close>

definition slider_ticks :: "fp \<Rightarrow> object \<Rightarrow> fp \<Rightarrow> int option" where
  "slider_ticks tick_rate ob px_per_beat = do {
     let num_beats = divf (mulf (o_distance ob) (i2f (o_repetitions ob))) px_per_beat;
     ticks \<leftarrow> to_cint (fceil (mulf (divf (subf num_beats (flit (1/10))) (i2f (o_repetitions ob))) tick_rate));
     ticks \<leftarrow> ck (ticks - 1);
     ticks \<leftarrow> ck (ticks * o_repetitions ob);
     n \<leftarrow> ck (o_repetitions ob + 1);
     ticks \<leftarrow> ck (ticks + n);
     t \<leftarrow> ck (ticks - 1);
     Some (al_maxi 0 t)
   }"

definition end_slider :: "ezpp \<Rightarrow> fp \<Rightarrow> timing \<Rightarrow> object \<Rightarrow> int \<Rightarrow> (object \<times> int) option" where
  "end_slider ez legacy_multiplier t ob max_combo = do {
     velocity \<leftarrow> t_velocity t;
     beat_len \<leftarrow> t_beat_len t;
     px_per_beat \<leftarrow> t_px_per_beat t;
     let duration = mulf (divf (mulf (o_distance ob) (i2f (o_repetitions ob))) velocity) legacy_multiplier;
     let tick_spacing = al_min (divf beat_len (ez_tick_rate ez)) (divf duration (i2f (o_repetitions ob)));
     let drum = flt (Num 0) tick_spacing \<and> flt duration (mulf (Num 2) beat_len);
     let ob = ob\<lparr>o_duration := duration, o_tick_spacing := tick_spacing,
       o_slider_is_drum_roll := (if drum then 1 else 0)\<rparr>;
     max_combo \<leftarrow>
       (if ez_mode ez = MODE_TAIKO then
          if drum \<and> ez_mode ez \<noteq> ez_original_mode ez then do {
            n \<leftarrow> to_cint (fceil (divf (addf duration (divf tick_spacing (Num 8))) tick_spacing));
            ck (max_combo + n)
          } else Some max_combo
        else if ez_mode ez = MODE_STD then do {
          n \<leftarrow> slider_ticks (ez_tick_rate ez) ob px_per_beat;
          ck (max_combo + n)
        } else Some max_combo);
     Some (ob, max_combo)
   }"

text \<open>
  One object: the normalised positions of the objects before it (the last one first), the
  search state of the timing points, and the combo.
\<close>

definition end_object :: "libm \<Rightarrow> ezpp \<Rightarrow> fp \<Rightarrow> fp \<Rightarrow> v2f list \<Rightarrow> fp \<Rightarrow> int \<Rightarrow> int \<Rightarrow> object \<Rightarrow>
    (object \<times> fp \<times> int \<times> int) option" where
  "end_object M ez legacy scaling prevs tnext tindex max_combo ob = do {
     let pos = (if has (o_type ob) OBJ_SPINNER then playfield_center else o_pos ob);
     let normpos = (mulf (fst pos) scaling, mulf (snd pos) scaling);
     (tnext, tindex) \<leftarrow> tp_loop (arr_items (ez_timing_points ez)) (o_time ob) tnext tindex;
     let ob = ob\<lparr>o_normpos := normpos, o_angle := end_angle M prevs normpos, o_timing_point := tindex\<rparr>;
     if has (o_type ob) OBJ_SLIDER then do {
       t \<leftarrow> rdi (arr_items (ez_timing_points ez)) tindex;
       (ob, max_combo) \<leftarrow> end_slider ez legacy t ob max_combo;
       Some (ob, tnext, tindex, max_combo)
     } else Some (ob, tnext, tindex, max_combo)
   }"

fun end_objects :: "libm \<Rightarrow> ezpp \<Rightarrow> fp \<Rightarrow> fp \<Rightarrow> v2f list \<Rightarrow> fp \<Rightarrow> int \<Rightarrow> int \<Rightarrow> object list \<Rightarrow>
    (object list \<times> int) option" where
  "end_objects M ez legacy scaling prevs tnext tindex max_combo [] = Some ([], max_combo)"
| "end_objects M ez legacy scaling prevs tnext tindex max_combo (ob # obs) = do {
     (ob, tnext, tindex, max_combo) \<leftarrow> end_object M ez legacy scaling prevs tnext tindex max_combo ob;
     (obs, max_combo) \<leftarrow> end_objects M ez legacy scaling (o_normpos ob # prevs) tnext tindex max_combo obs;
     Some (ob # obs, max_combo)
   }"

definition circle_radius :: "fp \<Rightarrow> fp" where
  "circle_radius cs = mulf (divf PLAYFIELD_WIDTH (Num 16))
     (subf (Num 1) (divf (mulf (flit (7/10)) (subf cs (Num 5))) (Num 5)))"

definition circle_scaling :: "fp \<Rightarrow> fp" where
  "circle_scaling radius =
     (let s = divf (Num 52) radius in
      if flt radius CIRCLESIZE_BUFF_TRESHOLD
      then mulf s (addf (Num 1) (divf (al_min (subf CIRCLESIZE_BUFF_TRESHOLD radius) (Num 5)) (Num 50)))
      else s)"

text \<open>The stats: in old maps the approach rate is the overall difficulty.\<close>

definition end_stats :: "ezpp \<Rightarrow> ezpp" where
  "end_stats ez =
     (let ez = (if has (ez_p_flags ez) P_FOUND_AR then ez else ez\<lparr>ez_ar := ez_od ez\<rparr>) in
      fst (mods_apply (end_base_stats (end_strings ez))))"

text \<open>The combo before the ticks of sliders; spinners and sliders give none in taiko.\<close>

definition end_combo :: "ezpp \<Rightarrow> int option" where
  "end_combo ez =
     (if ez_mode ez = MODE_TAIKO then do {
        k \<leftarrow> ck (ez_nspinners ez + ez_nsliders ez);
        ck (ez_nobjects ez - k)
      } else Some (ez_nobjects ez))"

definition p_end :: "libm \<Rightarrow> ezpp \<Rightarrow> ezpp option" where
  "p_end M ez = do {
     let ez = end_stats ez;
     let convert = ez_mode ez = MODE_TAIKO \<and> ez_mode ez \<noteq> ez_original_mode ez;
     let legacy = (if convert then flit (14/10) else Num 1);
     let sv = (if convert then mulf (ez_sv ez) legacy else ez_sv ez);
     tps \<leftarrow> end_timing (ez_format_version ez) sv get_inf (arr_items (ez_timing_points ez));
     let ez = ez\<lparr>ez_sv := sv, ez_timing_points := (ez_timing_points ez)\<lparr>arr_items := tps\<rparr>,
       ez_nobjects := arr_len (ez_objects ez)\<rparr>;
     max_combo \<leftarrow> end_combo ez;
     (obs, max_combo) \<leftarrow> end_objects M ez legacy (circle_scaling (circle_radius (ez_cs ez))) []
       (fneg get_inf) (- 1) max_combo (arr_items (ez_objects ez));
     Some (ez\<lparr>ez_objects := (ez_objects ez)\<lparr>arr_items := obs\<rparr>, ez_max_combo := max_combo\<rparr>)
   }"

subsection \<open>Reset\<close>

definition p_reset :: "ezpp \<Rightarrow> ezpp option" where
  "p_reset ez = do {
     A \<leftarrow> m_free (ez_mem ez);
     Some (ez\<lparr>ez_ncircles := 0, ez_nsliders := 0, ez_nspinners := 0, ez_nobjects := 0,
       ez_objects := (ez_objects ez)\<lparr>arr_items := []\<rparr>,
       ez_timing_points := (ez_timing_points ez)\<lparr>arr_items := []\<rparr>,
       ez_mem := A, ez_section := []\<rparr>)
   }"

subsection \<open>From a file\<close>

definition LINE_MAX :: nat where
  "LINE_MAX = 65534"

text \<open>
  One line into the buffer: the bytes, the rest of the file, and whether the file ended.
  \<open>None\<close> is a line that does not fit.
\<close>

fun read_line :: "nat \<Rightarrow> buf \<Rightarrow> string \<Rightarrow> (buf \<times> string \<times> bool) option" where
  "read_line room acc rest =
     (if room = 0 then None
      else case rest of [] \<Rightarrow> Some (acc, [], True)
        | c # r \<Rightarrow> if c = CHR 0x0A then Some (acc, r, False) else read_line (room - 1) (acc @ [c]) r)"

declare read_line.simps [simp del]

lemma read_line_shorter: "read_line room acc rest = Some (l, r, False) \<Longrightarrow> length r < length rest"
proof (induction room acc rest rule: read_line.induct)
  case (1 room acc rest)
  then show ?case by (subst (asm) (2) read_line.simps) (fastforce split: if_splits list.splits)
qed

function p_lines :: "ezpp \<Rightarrow> string \<Rightarrow> (ezpp \<times> int) option" where
  "p_lines ez f = (case read_line LINE_MAX [] f of
     None \<Rightarrow> Some (ez, ERR_TRUNCATED)
   | Some (l, r, eof) \<Rightarrow> do {
       (ez, n) \<leftarrow> p_line (l @ [NUL]) ez (mk_slice 0 (length l));
       if n < 0 then Some (ez, n)
       else if eof then Some (ez, int (length l))
       else p_lines ez r
     })"
  by pat_completeness auto
termination
  by (relation "measure (\<lambda>(ez, f). length f)") (auto dest: read_line_shorter)

declare p_lines.simps [simp del]

definition p_map :: "libm \<Rightarrow> ezpp \<Rightarrow> string option \<Rightarrow> (ezpp \<times> int) option" where
  "p_map M ez f = (case f of
     None \<Rightarrow> Some (ez, ERR_IO)
   | Some content \<Rightarrow> do {
       ez \<leftarrow> p_reset ez;
       (ez, n) \<leftarrow> p_lines ez content;
       if n < 0 then Some (ez, n)
       else do {
         ez \<leftarrow> p_end M ez;
         Some (ez\<lparr>ez_nobjects := arr_len (ez_objects ez)\<rparr>, n)
       }
     })"

subsection \<open>From memory\<close>

lemma til_loop_ge: "til_loop b p e seps = Some (q, f) \<Longrightarrow> p \<le> q"
proof (induction b p e seps rule: til_loop.induct)
  case (1 b p e seps)
  from 1(2) show ?case
    by (subst (asm) til_loop.simps) (auto split: if_splits dest: 1(1))
qed

lemma consume_advance:
  assumes "p_consume_til b s seps = Some (n, line)"
  shows "0 \<le> n \<or> n = ERR_MORE"
  using assms by (auto simp: p_consume_til_def bind_Some_iff ERR_MORE_def dest: til_loop_ge split: if_splits)

function mem_loop :: "buf \<Rightarrow> slice \<Rightarrow> int \<Rightarrow> int \<Rightarrow> ezpp \<Rightarrow> (ezpp \<times> int) option" where
  "mem_loop b s nlines res ez =
     (if s_start s < s_end s then do {
        (n, line) \<leftarrow> p_consume_til b s [CHR 0x0A];
        if n < 0 \<and> n \<noteq> ERR_MORE then Some (ez, n)
        else if n < 0 \<and> nlines = 0 then Some (ez, ERR_TRUNCATED)
        else do {
          let (line, n) = (if n < 0 then (s, slice_len s) else (line, n + 1));
          res \<leftarrow> ck (res + n);
          let s = mk_slice (nat (int (s_start s) + n)) (s_end s);
          nlines \<leftarrow> ck (nlines + 1);
          (ez, n) \<leftarrow> p_line b ez line;
          if n < 0 then Some (ez, n)
          else do { res \<leftarrow> ck (res + n); mem_loop b s nlines res ez }
        }
      } else Some (ez, res))"
  by pat_completeness auto
termination
  by (relation "measure (\<lambda>(b, s, nlines, res, ez). s_end s - s_start s)")
    (auto simp: slice_len_def split: if_splits)

declare mem_loop.simps [simp del]

definition p_map_mem :: "libm \<Rightarrow> ezpp \<Rightarrow> buf option \<Rightarrow> int \<Rightarrow> (ezpp \<times> int) option" where
  "p_map_mem M ez data data_size = (case data of
     None \<Rightarrow> Some (ez, ERR_IO)
   | Some b \<Rightarrow>
       if data_size = 0 then Some (ez, ERR_IO)
       else do {
         ez \<leftarrow> p_reset ez;
         (ez, res) \<leftarrow> mem_loop b (mk_slice 0 (nat data_size)) 0 0 ez;
         if res < 0 then Some (ez, res)
         else do { ez \<leftarrow> p_end M ez; Some (ez, res) }
       })"

end
