(* ===== verification/Lines.thy ===== *)
theory Lines
  imports ParseMap
begin

text \<open>
  The contract of the line handlers and what follows from it for whole files.

  A handler gets a line in a buffer that a NUL ends. The laws: on such a line, with runs of at
  most nine digits, it meets no undefined behaviour, whatever bytes the line holds, and keeps
  the invariant of the parser's memory (\<open>hinv\<close>); it does not touch the settings of the handle
  (\<open>cfg\<close>); without an error it keeps the object counts equal to the objects stored
  (\<open>counts_ok\<close>). They are the assumptions of the locale \<open>line_handler\<close>, which every \<^verbatim>\<open>p_*\<close>
  handler and \<^verbatim>\<open>p_line\<close> itself interpret.
\<close>

subsection \<open>Terminated buffers\<close>

definition terminated :: "buf \<Rightarrow> nat \<Rightarrow> bool" where
  "terminated b p \<longleftrightarrow> NUL \<in> set (drop p b)"

lemma terminated_mono: "terminated b q \<Longrightarrow> p \<le> q \<Longrightarrow> terminated b p"
  using set_drop_subset_set_drop [of p q b] by (auto simp: terminated_def)

lemma terminated_less: "terminated b p \<Longrightarrow> p < length b"
  by (rule ccontr) (simp add: terminated_def)

lemma terminated_next: "terminated b p \<Longrightarrow> b ! p \<noteq> NUL \<Longrightarrow> terminated b (p + 1)"
  using Cons_nth_drop_Suc [of p b] terminated_less [of b p]
  by (auto simp: terminated_def) (metis set_ConsD)

lemma strncmp_at_total: "terminated b p \<Longrightarrow> \<exists>r. strncmp_at b p str n = Some r"
proof (induction n arbitrary: p str)
  case (Suc n)
  show ?case
  proof (cases "b ! p = (case str of [] \<Rightarrow> NUL | x # _ \<Rightarrow> x) \<and> b ! p \<noteq> NUL")
    case True
    then show ?thesis using Suc terminated_next terminated_less
      by (auto simp: Let_def)
  next
    case False
    then show ?thesis using terminated_less [OF Suc.prems] by (auto simp: Let_def)
  qed
qed simp

definition line_ok :: "buf \<Rightarrow> slice \<Rightarrow> bool" where
  "line_ok b s \<longleftrightarrow> slice_ok b s \<and> terminated b (s_end s) \<and> short_runs 9 b \<and> length b \<le> 100000000"

text \<open>A slice of the line: what the handlers cut out.\<close>

definition piece :: "buf \<Rightarrow> slice \<Rightarrow> slice \<Rightarrow> bool" where
  "piece b s t \<longleftrightarrow> slice_ok b t \<and> s_start s \<le> s_start t \<and> s_end t \<le> s_end s"

lemma piece_line_ok: "line_ok b s \<Longrightarrow> piece b s t \<Longrightarrow> line_ok b t"
  by (auto simp: line_ok_def piece_def dest: terminated_mono)

lemma line_ok_start: "line_ok b s \<Longrightarrow> terminated b (s_start s)"
  by (auto simp: line_ok_def slice_ok_def intro: terminated_mono)

lemma scan_int_total:
  assumes "terminated b p" "short_runs 9 b"
  shows "\<exists>r. scan_int b p = Some r" "scan_int b p = Some (Some v) \<Longrightarrow> \<bar>v\<bar> < 1000000000"
proof -
  have "takeWhile (\<lambda>c. c \<noteq> NUL) (drop p b) = take (length (takeWhile (\<lambda>c. c \<noteq> NUL) (drop p b))) (drop p b)"
    by (rule takeWhile_eq_take)
  then have "short_runs 9 (takeWhile (\<lambda>c. c \<noteq> NUL) (drop p b))"
    using assms(2) short_runs_drop short_runs_take by (metis order_refl)
  from sscanf_d_defined [OF this] assms(1) show "\<exists>r. scan_int b p = Some r"
    "scan_int b p = Some (Some v) \<Longrightarrow> \<bar>v\<bar> < 1000000000"
    by (simp_all add: scan_int_def cstr_def terminated_def)
qed

lemma p_float_total:
  assumes "terminated b (s_start v)"
  shows "\<exists>x. p_float b v = Some x"
proof -
  define p where "p = (if b ! s_start v = CHR ''-'' then s_start v + 1 else s_start v)"
  have "terminated b p" using assms terminated_next by (auto simp: p_def NUL_def)
  then obtain d where "strncmp_at b p [CHR 0xE2, CHR 0x88, CHR 0x9E] 3 = Some d"
    using strncmp_at_total by blast
  with assms terminated_less [OF assms] show ?thesis
    by (auto simp: p_float_def p_def scan_float_def cstr_def terminated_def)
qed

lemma line_float: "line_ok b s \<Longrightarrow> piece b s t \<Longrightarrow> \<exists>x. p_float b t = Some x"
  by (blast intro: p_float_total line_ok_start piece_line_ok)

lemma line_int:
  assumes "line_ok b s" "piece b s t"
  shows "\<exists>r. scan_int b (s_start t) = Some r" "scan_int b (s_start t) = Some (Some v) \<Longrightarrow> \<bar>v\<bar> < 1000000000"
  using scan_int_total [of b "s_start t"] line_ok_start [OF piece_line_ok [OF assms]] assms(1)
  by (auto simp: line_ok_def)

subsection \<open>The pieces of a line\<close>

lemma property_total:
  assumes "line_ok b s"
  obtains n name val where "p_property b s = Some (n, name, val)"
    "n < 0 \<or> piece b s name \<and> piece b s val \<and> n = slice_len s"
proof -
  have ok: "slice_ok b s" using assms by (simp add: line_ok_def)
  define w where "w = takeWhile (\<lambda>c. c \<notin> set '':'') (slice_str b s)"
  have c: "p_consume_til b s '':'' =
    Some (if length w < length (slice_str b s) then int (length w) else ERR_MORE,
      mk_slice (s_start s) (s_start s + length w))"
    using p_consume_til_spec(1) [OF ok, of "'':''"] by (simp add: w_def)
  show thesis
  proof (cases "length w < length (slice_str b s)")
    case True
    then have l: "s_start s + length w < s_end s" using ok by (auto simp: slice_str_def slice_ok_def)
    let ?n = "mk_slice (s_start s) (s_start s + length w)"
    let ?v = "mk_slice (s_start s + length w + 1) (s_end s)"
    have "slice_ok b ?n" "slice_ok b ?v" using ok l by (auto simp: slice_ok_def)
    then obtain name val where "slice_trim b ?n = Some name" "piece b ?n name"
      "slice_trim b ?v = Some val" "piece b ?v val"
      by (metis slice_trim_spec piece_def)
    moreover have "0 \<le> slice_len s" using ok by (simp add: slice_ok_def slice_len_def)
    ultimately show thesis using True c l
      by (intro that [of "slice_len s" name val]) (auto simp: p_property_def piece_def)
  next
    case False
    with c show thesis
      by (intro that [of ERR_MORE]) (auto simp: p_property_def ERR_MORE_def)
  qed
qed

lemma match_key_total:
  assumes "slice_ok b name" "\<forall>k \<in> set ks. NUL \<notin> set k"
  shows "match_key b name ks = Some (List.find (\<lambda>k. slice_str b name = k) ks)"
  using assms(2)
proof (induction ks)
  case (Cons k ks)
  with slice_cmp_eq [OF assms(1), of k] show ?case by auto
qed simp

lemma split_total:
  assumes "line_ok b s" "0 < n"
  obtains res err where "slice_split b s '','' n = Some (res, err)" "err = 0 \<or> err = ERR_TRUNCATED"
    "\<forall>t \<in> set res. piece b s t" "0 < length res" "length res \<le> n"
proof -
  from assms have ok: "slice_ok b s" by (simp add: line_ok_def)
  obtain res where r: "slice_split b s '','' n =
      Some (res, if length (split_on '','' (slice_str b s)) \<le> n then 0 else ERR_TRUNCATED)"
    "map (slice_str b) res = take n (split_on '','' (slice_str b s))" "list_all (slice_ok b) res"
    "list_all (\<lambda>t. s_start s \<le> s_start t \<and> s_end t \<le> s_end s) res"
    by (rule slice_split_spec [OF ok _ assms(2)]) auto
  from arg_cong [OF r(2), of length] have l: "length res = min (length (split_on '','' (slice_str b s))) n" by simp
  moreover have "0 < length (split_on '','' (slice_str b s))" by simp
  ultimately have "0 < length res" "length res \<le> n" using assms(2) by linarith+
  with r show thesis
    by (intro that [of res]) (auto simp: piece_def list_all_iff)
qed

lemma trim_all_total:
  assumes "\<forall>t \<in> set ts. piece b s t"
  obtains ts' where "trim_all b ts = Some ts'" "length ts' = length ts" "\<forall>t \<in> set ts'. piece b s t"
proof -
  have "\<exists>ts'. trim_all b ts = Some ts' \<and> length ts' = length ts \<and> (\<forall>t \<in> set ts'. piece b s t)"
    using assms
  proof (induction ts)
    case (Cons t ts)
    then have "slice_ok b t" by (simp add: piece_def)
    then obtain t' where "slice_trim b t = Some t'" "piece b t t'"
      by (rule slice_trim_spec) (simp add: piece_def)
    with Cons show ?case by (fastforce simp: piece_def)
  qed simp
  with that show thesis by blast
qed

subsection \<open>Memory\<close>

text \<open>An array that has held at most \<open>N\<close> elements; the capacity doubles when it is full.\<close>

definition grown :: "int \<Rightarrow> 'a arr \<Rightarrow> bool" where
  "grown N a \<longleftrightarrow> arr_len a \<le> N \<and> arr_cap a \<le> 2 * N + 16"

lemma grown_mono: "grown N a \<Longrightarrow> N \<le> N' \<Longrightarrow> grown N' a"
  by (simp add: grown_def)

lemma append_total:
  assumes "grown N a" "arr_ok esize a" "esize \<le> 88" "N < 10000000"
  obtains a' h' ok where "array_append esize a x h = Some (a', h', ok)" "grown (N + 1) a'"
proof -
  have l: "0 \<le> arr_len a" "arr_len a \<le> N" "arr_cap a \<le> 2 * N + 16" "0 < esize" "0 \<le> arr_cap a"
    using assms by (auto simp: grown_def arr_ok_def arr_len_def)
  have e: "esize * n \<le> 88 * n \<and> 0 \<le> esize * n" if "0 \<le> n" for n
    using that l(4) assms(3) by (simp add: mult_right_mono)
  have "\<exists>r. array_append esize a x h = Some r"
  proof (cases "arr_cap a \<le> arr_len a + 1")
    case True
    have "0 \<le> arr_cap a * 2" "arr_cap a * 2 \<le> 20000002" using True l assms(4) by linarith+
    then have "in_int (arr_cap a * 2)" "in_int (esize * (arr_cap a * 2))"
      using e [of "arr_cap a * 2"] by (simp_all add: in_int_iff)
    moreover have "in_int (esize * 16)" "in_int (arr_len a + 1)"
      using l assms(3,4) by (simp_all add: in_int_iff)
    ultimately show ?thesis using True
      by (auto simp add: array_append_def array_reserve_i_def Let_def intro: exI [of _ True] exI [of _ False])
  next
    case False
    with l assms show ?thesis
      by (auto simp: array_append_def array_reserve_i_def in_int_iff intro: exI [of _ True])
  qed
  then obtain a' h' ok where r: "array_append esize a x h = Some (a', h', ok)" by (metis prod_cases3)
  then have "grown (N + 1) a'" using l(2,3)
    by (auto simp: array_append_def array_reserve_i_def bind_Some_iff Let_def grown_def arr_len_def
        split: if_splits)
  with r show thesis by (rule that)
qed

lemma alloc_total:
  assumes "arena_ok A" "grown N (a_blocks A)" "0 \<le> n" "n \<le> 1000000000" "N < 10000000"
  obtains A' p where "m_alloc A n = Some (A', p)" "grown (N + 1) (a_blocks A')" "arena_ok A'"
    "\<And>q. p = Some q \<Longrightarrow> h_size (a_heap A') (fst q) \<noteq> None"
proof -
  let ?m = "if n > M_BLOCK_SIZE then n else M_BLOCK_SIZE"
  have al: "in_int (bit_align_up n M_ALIGN)" "in_int (bit_align_up ?m M_ALIGN)"
    using bit_align_up_8(2,3) [of n] bit_align_up_8(2,3) [of ?m] assms(3,4)
    by (auto simp: in_int_iff M_BLOCK_SIZE_def)
  have "arr_ok 8 (a_blocks A)" using assms(1) by (simp add: arena_ok_def)
  note ap = append_total [OF assms(2) this _ assms(5)]
  have d: "\<exists>d. ptr_diff (a_end A) (a_block A) = Some d"
    using assms(1) by (auto simp: arena_ok_def elim!: cur_okE)
  have "\<exists>A1 ok. m_reserve A n = Some (A1, ok) \<and> grown (N + 1) (a_blocks A1)"
  proof (cases "malloc (bit_align_up ?m M_ALIGN) (a_heap A)")
    case (Pair r h)
    obtain blocks h' ok' where "array_append 8 (a_blocks A) (Some (the r, 0)) h = Some (blocks, h', ok')"
      "grown (N + 1) blocks" by (rule ap) simp
    moreover have "grown (N + 1) (a_blocks A)" using assms(2) by (rule grown_mono) simp
    ultimately show ?thesis using d al(2) Pair by (cases r) (auto simp: m_reserve_def)
  qed
  then obtain A1 ok where r: "m_reserve A n = Some (A1, ok)" "grown (N + 1) (a_blocks A1)" by blast
  have A1: "arena_ok A1" using m_reserve_ok(1) [OF r(1) assms(1)] .
  have "\<exists>A' p. m_alloc A n = Some (A', p) \<and> grown (N + 1) (a_blocks A')"
  proof (cases "ok \<and> a_block A1 = None")
    case True
    then have "n = 0" using m_reserve_ok(2) [OF r(1) assms(1)] assms(3) by simp
    moreover have "bit_align_up 0 M_ALIGN = 0"
      using bit_align_up_8 [of 0] by presburger
    ultimately show ?thesis using True r al by (simp add: m_alloc_def)
  next
    case False
    then show ?thesis using r al by (cases "a_block A1") (auto simp: m_alloc_def)
  qed
  then obtain A' p where m: "m_alloc A n = Some (A', p)" "grown (N + 1) (a_blocks A')" by blast
  have "h_size (a_heap A') (fst q) \<noteq> None" if "p = Some q" for q
    using m_alloc_ok(3) [OF m(1) assms(1,3) that] by (auto simp: owned_def region_of_def)
  with m m_alloc_ok(1) [OF m(1) assms(1,3)] show thesis by (intro that)
qed

text \<open>Storing leaves everything but the contents alone.\<close>

lemma store_frame:
  assumes "store p c h = Some h'"
  shows "h_size h' = h_size h" "h_next h' = h_next h" "h_ok h' = h_ok h" "load p h' = Some c"
  using assms by (auto simp: store_def load_def split: option.splits if_splits)

lemma store_total: "h_size h (fst q) \<noteq> None \<Longrightarrow> \<exists>h'. store (Some q) c h = Some h'"
  by (cases q) (auto simp: store_def)

lemma arena_ok_heap:
  assumes "arena_ok A" "h_size h = h_size (a_heap A)" "h_next (a_heap A) \<le> h_next h"
  shows "arena_ok (A\<lparr>a_heap := h\<rparr>)"
  using assms by (auto simp: arena_ok_def cur_ok_def fresh_ok_def blocks_ok_def split: option.splits)

lemma strndup_total:
  assumes "arena_ok A" "grown N (a_blocks A)" "s + n \<le> length b" "length b \<le> 100000000" "N < 10000000"
  obtains A' p where "m_strndup A b s n = Some (A', p)" "grown (N + 1) (a_blocks A')" "arena_ok A'"
    "\<And>q. p = Some q \<Longrightarrow> load p (a_heap A') = Some (CStr (sub b s (s + n)))"
proof -
  obtain A1 p where a: "m_alloc A (int n + 1) = Some (A1, p)" "grown (N + 1) (a_blocks A1)" "arena_ok A1"
    "\<And>q. p = Some q \<Longrightarrow> h_size (a_heap A1) (fst q) \<noteq> None"
    by (rule alloc_total [OF assms(1,2), of "int n + 1"]) (use assms in auto)
  have i: "in_int (int n + 1)" using assms by (simp add: in_int_iff)
  show thesis
  proof (cases p)
    case None
    with a i show thesis by (intro that [of A1 p]) (auto simp: m_strndup_def)
  next
    case (Some q)
    then obtain h where h: "store p (CStr (sub b s (s + n))) (a_heap A1) = Some h"
      using a(4) store_total by blast
    note F = store_frame [OF h]
    with Some a i h assms show thesis
      by (intro that [of "A1\<lparr>a_heap := h\<rparr>" p]) (auto simp: m_strndup_def intro!: arena_ok_heap)
  qed
qed

subsection \<open>The contract\<close>

text \<open>The parser's part of the handle after at most \<open>k\<close> lines.\<close>

definition hinv :: "int \<Rightarrow> ezpp \<Rightarrow> bool" where
  "hinv k ez \<longleftrightarrow> 0 \<le> k \<and> arena_ok (ez_mem ez) \<and> grown (2 * k) (a_blocks (ez_mem ez))
     \<and> arr_ok sizeof_object (ez_objects ez) \<and> grown k (ez_objects ez)
     \<and> arr_ok sizeof_timing (ez_timing_points ez) \<and> grown k (ez_timing_points ez)
     \<and> 0 \<le> ez_ncircles ez \<and> ez_ncircles ez \<le> k \<and> 0 \<le> ez_nsliders ez \<and> ez_nsliders ez \<le> k
     \<and> 0 \<le> ez_nspinners ez \<and> ez_nspinners ez \<le> k"

text \<open>The settings, which parsing must not change.\<close>

definition cfg :: "ezpp \<Rightarrow> _" where
  "cfg ez = (ez_map ez, ez_data ez, ez_data_size ez, ez_flags ez, ez_mode_override ez,
     ez_score_version ez, ez_mods ez, ez_combo ez, ez_accuracy_percent ez,
     ez_n300 ez, ez_n100 ez, ez_n50 ez, ez_nmiss ez, ez_end ez, ez_end_time ez,
     ez_base_ar ez, ez_base_cs ez, ez_base_od ez, ez_base_hp ez, ez_max_combo ez,
     ez_stars ez, ez_aim_stars ez, ez_speed_stars ez, ez_nobjects ez)"

text \<open>The kinds of objects, tested in the order of \<^verbatim>\<open>p_objects\<close>.\<close>

definition is_circle :: "object \<Rightarrow> bool" where
  "is_circle ob \<longleftrightarrow> has (o_type ob) OBJ_CIRCLE"
definition is_spinner :: "object \<Rightarrow> bool" where
  "is_spinner ob \<longleftrightarrow> \<not> is_circle ob \<and> has (o_type ob) OBJ_SPINNER"
definition is_slider :: "object \<Rightarrow> bool" where
  "is_slider ob \<longleftrightarrow> \<not> is_circle ob \<and> \<not> is_spinner ob \<and> has (o_type ob) OBJ_SLIDER"

definition count :: "('a \<Rightarrow> bool) \<Rightarrow> 'a list \<Rightarrow> int" where
  "count P xs = int (length (filter P xs))"

definition counts_ok :: "ezpp \<Rightarrow> bool" where
  "counts_ok ez \<longleftrightarrow> ez_ncircles ez = count is_circle (arr_items (ez_objects ez))
     \<and> ez_nspinners ez = count is_spinner (arr_items (ez_objects ez))
     \<and> ez_nsliders ez = count is_slider (arr_items (ez_objects ez))"

definition LINES :: int where
  "LINES = 1000000"

locale line_handler =
  fixes h :: "buf \<Rightarrow> ezpp \<Rightarrow> slice \<Rightarrow> (ezpp \<times> int) option"
  assumes safe: "line_ok b s \<Longrightarrow> s_start s < s_end s \<Longrightarrow> hinv k ez \<Longrightarrow> k < LINES \<Longrightarrow>
      \<exists>ez' n. h b ez s = Some (ez', n) \<and> hinv (k + 1) ez'"
    and keeps: "h b ez s = Some (ez', n) \<Longrightarrow> cfg ez' = cfg ez"
    and counts: "h b ez s = Some (ez', n) \<Longrightarrow> 0 \<le> n \<Longrightarrow> counts_ok ez \<Longrightarrow> counts_ok ez'"

text \<open>A handler that leaves memory, objects and counters alone.\<close>

definition light :: "ezpp \<Rightarrow> ezpp \<Rightarrow> bool" where
  "light ez ez' \<longleftrightarrow> cfg ez' = cfg ez \<and> ez_mem ez' = ez_mem ez \<and> ez_objects ez' = ez_objects ez
     \<and> ez_timing_points ez' = ez_timing_points ez \<and> ez_ncircles ez' = ez_ncircles ez
     \<and> ez_nsliders ez' = ez_nsliders ez \<and> ez_nspinners ez' = ez_nspinners ez"

lemma hinv_mono: "hinv k ez \<Longrightarrow> k \<le> k' \<Longrightarrow> hinv k' ez"
  by (auto simp: hinv_def grown_def)

lemma light_hinv: "light ez ez' \<Longrightarrow> hinv k ez \<Longrightarrow> hinv (k + 1) ez'"
  by (auto simp: light_def hinv_def grown_def)

lemma light_counts: "light ez ez' \<Longrightarrow> counts_ok ez \<Longrightarrow> counts_ok ez'"
  by (auto simp: light_def counts_ok_def)

lemma light_refl [simp]: "light ez ez"
  by (simp add: light_def)

lemma light_handler:
  assumes "\<And>b s ez. line_ok b s \<Longrightarrow> s_start s < s_end s \<Longrightarrow> \<exists>ez' n. h b ez s = Some (ez', n)"
    and "\<And>b s ez ez' n. h b ez s = Some (ez', n) \<Longrightarrow> light ez ez'"
  shows "line_handler h"
proof
  show "\<exists>ez' n. h b ez s = Some (ez', n) \<and> hinv (k + 1) ez'"
    if "line_ok b s" "s_start s < s_end s" "hinv k ez" for b s k ez
    using assms(1) [OF that(1,2), of ez] assms(2) light_hinv that(3) by blast
qed (use assms(2) light_counts in \<open>auto simp: light_def\<close>)

lemma set_metadata_light: "light ez (set_metadata k p ez)"
  by (simp add: set_metadata_def light_def cfg_def)

lemma set_difficulty_light: "light ez (set_difficulty k x ez)"
  by (simp add: set_difficulty_def light_def cfg_def)

subsection \<open>The handlers meet the contract\<close>

lemma p_difficulty_light: "p_difficulty b ez s = Some (ez', n) \<Longrightarrow> light ez ez'"
  by (auto simp: p_difficulty_def bind_Some_iff set_difficulty_light split: if_splits option.splits)

lemma p_difficulty_total:
  assumes "line_ok b s"
  shows "\<exists>ez' n. p_difficulty b ez s = Some (ez', n)"
proof -
  from property_total [OF assms] obtain n name val where p: "p_property b s = Some (n, name, val)"
    "n < 0 \<or> piece b s name \<and> piece b s val" by blast
  show ?thesis
  proof (cases "n < 0")
    case False
    then have v: "piece b s name" "piece b s val" using p by auto
    from line_float [OF assms v(2)] obtain x where "p_float b val = Some x" by blast
    moreover obtain k where "match_key b name [''CircleSize'', ''OverallDifficulty'', ''ApproachRate'',
         ''HPDrainRate'', ''SliderMultiplier'', ''SliderTickRate''] = Some k"
      by (rule that [OF match_key_total]) (use v(1) in \<open>auto simp: piece_def NUL_def\<close>)
    ultimately show ?thesis using p(1) False
      by (cases k) (simp_all add: p_difficulty_def del: match_key.simps)
  qed (simp add: p_difficulty_def p)
qed

interpretation difficulty: line_handler p_difficulty
  by (rule light_handler) (use p_difficulty_total p_difficulty_light in blast)+

lemma light_updates [simp]:
  "light ez (e\<lparr>ez_original_mode := m\<rparr>) \<longleftrightarrow> light ez e"
  "light ez (e\<lparr>ez_mode := m\<rparr>) \<longleftrightarrow> light ez e"
  "light ez (e\<lparr>ez_section := t\<rparr>) \<longleftrightarrow> light ez e"
  "light ez (e\<lparr>ez_format_version := m\<rparr>) \<longleftrightarrow> light ez e"
  by (simp_all add: light_def cfg_def)

lemma p_general_light: "p_general b ez s = Some (ez', n) \<Longrightarrow> light ez ez'"
  unfolding p_general_def Let_def
  by (auto elim!: bind_SomeE split: if_split_asm option.split_asm prod.split_asm)

lemma p_general_total:
  assumes "line_ok b s"
  shows "\<exists>ez' n. p_general b ez s = Some (ez', n)"
proof -
  from property_total [OF assms] obtain n name val where p: "p_property b s = Some (n, name, val)"
    "n < 0 \<or> piece b s name \<and> piece b s val" by blast
  show ?thesis
  proof (cases "n < 0")
    case False
    then have v: "piece b s name" "piece b s val" using p by auto
    from line_int(1) [OF assms v(2)] obtain r where r: "scan_int b (s_start val) = Some r" by blast
    from slice_cmp_eq [of b name "''Mode''"] v(1) obtain d where "slice_cmp b name ''Mode'' = Some d"
      by (auto simp: piece_def NUL_def)
    with p(1) False r show ?thesis
      by (cases r) (auto simp: p_general_def Let_def)
  qed (simp add: p_general_def p)
qed

interpretation general: line_handler p_general
  by (rule light_handler) (use p_general_total p_general_light in blast)+

lemma version_loop_total:
  assumes "terminated b e"
  shows "\<exists>q. version_loop b p e = Some q"
proof (induction "e - p" arbitrary: p)
  case 0
  then show ?case by (simp add: version_loop.simps)
next
  case (Suc n)
  from assms Suc.hyps(2) have "terminated b p" by (auto intro: terminated_mono)
  from strncmp_at_total [OF this] obtain d where "strncmp_at b p ''file format v'' 13 = Some d" by blast
  moreover have "n = e - (p + 1)" using Suc.hyps(2) by simp
  ultimately show ?case using Suc.hyps(1) [of "p + 1"] by (subst version_loop.simps) simp
qed

lemma p_version_light: "p_version b ez s = Some (ez', n) \<Longrightarrow> light ez ez'"
  unfolding p_version_def
  by (auto elim!: bind_SomeE split: if_split_asm option.split_asm)

lemma p_version_total:
  assumes "line_ok b s"
  shows "\<exists>ez' n. p_version b ez s = Some (ez', n)"
proof -
  from assms have t: "terminated b (s_end s)" "short_runs 9 b" by (auto simp: line_ok_def)
  from version_loop_total [OF t(1)] obtain q where q: "version_loop b (s_start s) (s_end s) = Some q" by blast
  show ?thesis
  proof (cases "q + 13 < s_end s")
    case True
    then have "terminated b (q + 13)" using t(1) by (auto intro: terminated_mono)
    from scan_int_total(1) [OF this t(2)] obtain r where "scan_int b (q + 13) = Some r" by blast
    with q True show ?thesis by (cases r) (simp_all add: p_version_def)
  qed (simp add: p_version_def q)
qed

interpretation version: line_handler p_version
  by (rule light_handler) (use p_version_total p_version_light in blast)+

lemma p_header_light: "p_header b ez s = Some (ez', n) \<Longrightarrow> light ez ez'"
  unfolding p_header_def Let_def
  by (auto elim!: bind_SomeE split: if_split_asm prod.split_asm)

lemma p_header_total:
  assumes "line_ok b s" "s_start s < s_end s"
  shows "\<exists>ez' n. p_header b ez s = Some (ez', n)"
proof -
  have "slice_ok b (mk_slice (s_start s + 1) (s_end s))" "s_start s < length b"
    using assms by (auto simp: line_ok_def slice_ok_def)
  with p_consume_til_spec(1) [of b "mk_slice (s_start s + 1) (s_end s)" "'']''"] show ?thesis
    by (auto simp: p_header_def p_section_name_def Let_def)
qed

interpretation header: line_handler p_header
  by (rule light_handler) (use p_header_total p_header_light in blast)+

text \<open>Metadata: a copy of the value in the arena.\<close>

lemma p_metadata_total:
  assumes "line_ok b s" "hinv k ez" "k < LINES"
  shows "\<exists>ez' n. p_metadata b ez s = Some (ez', n) \<and> hinv (k + 1) ez'"
proof -
  from property_total [OF assms(1)] obtain n name val where p: "p_property b s = Some (n, name, val)"
    "n < 0 \<or> piece b s name \<and> piece b s val" by blast
  have up: "hinv (k + 1) ez" using assms(2) by (rule hinv_mono) simp
  show ?thesis
  proof (cases "n < 0")
    case True
    with p up show ?thesis by (simp add: p_metadata_def)
  next
    case False
    then have v: "piece b s name" "piece b s val" using p by auto
    obtain r where r: "match_key b name [''Title'', ''TitleUnicode'', ''Artist'', ''ArtistUnicode'',
        ''Creator'', ''Version''] = Some r"
      by (rule that [OF match_key_total]) (use v(1) in \<open>auto simp: piece_def NUL_def\<close>)
    have h: "arena_ok (ez_mem ez)" "grown (2 * k) (a_blocks (ez_mem ez))" "2 * k < 10000000"
      "length b \<le> 100000000" using assms by (auto simp: hinv_def LINES_def line_ok_def)
    have "s_start val + nat (slice_len val) \<le> length b"
      using v(2) by (auto simp: piece_def slice_ok_def slice_len_def)
    from strndup_total [OF h(1,2) this h(4,3)] obtain A' q where
      m: "m_strndup (ez_mem ez) b (s_start val) (nat (slice_len val)) = Some (A', q)"
      "grown (2 * k + 1) (a_blocks A')" "arena_ok A'" by metis
    have "grown (2 * (k + 1)) (a_blocks A')" using m(2) by (rule grown_mono) simp
    with up m(3) have "hinv (k + 1) (ez\<lparr>ez_mem := A'\<rparr>)" by (simp add: hinv_def)
    then have "hinv (k + 1) (set_metadata key x (ez\<lparr>ez_mem := A'\<rparr>))" for key x
      by (simp add: hinv_def set_metadata_def)
    with p(1) False r m(1) up show ?thesis
      by (cases r) (simp_all add: p_metadata_def p_slicedup_def del: match_key.simps)
  qed
qed

lemma set_metadata_frame [simp]:
  "cfg (set_metadata key x ez) = cfg ez" "counts_ok (set_metadata key x ez) = counts_ok ez"
  by (simp_all add: set_metadata_def cfg_def counts_ok_def)

lemma mem_frame [simp]:
  "cfg (ez\<lparr>ez_mem := A\<rparr>) = cfg ez" "counts_ok (ez\<lparr>ez_mem := A\<rparr>) = counts_ok ez"
  by (simp_all add: cfg_def counts_ok_def)

lemma p_metadata_frame:
  "p_metadata b ez s = Some (ez', n) \<Longrightarrow> cfg ez' = cfg ez \<and> counts_ok ez' = counts_ok ez"
  unfolding p_metadata_def p_slicedup_def
  by (auto elim!: bind_SomeE split: if_split_asm option.split_asm prod.split_asm)

interpretation metadata: line_handler p_metadata
  by unfold_locales (use p_metadata_total p_metadata_frame in blast)+

subsection \<open>Timing points\<close>

lemma piece_last: "\<forall>t \<in> set ts. piece b s t \<Longrightarrow> i < length ts \<Longrightarrow> piece b s (ts ! i)"
  by simp

lemma upd_last_ok:
  assumes "arr_items a \<noteq> []"
  shows "arr_ok esize (upd_last a x) = arr_ok esize a" "grown N (upd_last a x) = grown N a"
proof -
  have "length (butlast (arr_items a)) + 1 = length (arr_items a)" using assms by (cases "arr_items a") auto
  then show "arr_ok esize (upd_last a x) = arr_ok esize a" "grown N (upd_last a x) = grown N a"
    using assms by (auto simp: upd_last_def arr_ok_def grown_def arr_len_def)
qed

lemma p_timing_frame:
  "p_timing b ez s = Some (ez', n) \<Longrightarrow> cfg ez' = cfg ez \<and> counts_ok ez' = counts_ok ez"
  unfolding p_timing_def Let_def
  by (auto elim!: bind_SomeE simp: cfg_def counts_ok_def split: if_split_asm prod.split_asm)

lemma p_timing_total:
  assumes l: "line_ok b s" and h: "hinv k ez" "k < LINES"
  shows "\<exists>ez' n. p_timing b ez s = Some (ez', n) \<and> hinv (k + 1) ez'"
proof -
  let ?t = "uninit_timing\<lparr>t_change := 1\<rparr>"
  have a: "grown k (ez_timing_points ez)" "arr_ok sizeof_timing (ez_timing_points ez)" "k < 10000000"
    using h by (auto simp: hinv_def LINES_def)
  obtain tps h' ok where t: "array_append sizeof_timing (ez_timing_points ez) ?t (a_heap (ez_mem ez)) = Some (tps, h', ok)"
    "grown (k + 1) tps"
    by (rule append_total [OF a(1,2) _ a(3)]) (simp add: sizeof_timing_def)
  note F = array_append_frame [OF t(1)]
  let ?ez = "ez\<lparr>ez_timing_points := tps, ez_mem := (ez_mem ez)\<lparr>a_heap := h'\<rparr>\<rparr>"
  have inv: "hinv (k + 1) ?ez"
    using hinv_mono [OF h(1), of "k + 1"] array_append_ok(1) [OF a(2) t(1)] t(2) F
    by (auto simp: hinv_def intro!: arena_ok_heap)
  have upd: "hinv (k + 1) (?ez\<lparr>ez_timing_points := upd_last tps x\<rparr>)" if ok for x
    using inv F(1) that upd_last_ok [of tps] by (auto simp: hinv_def)
  obtain sp err where sp: "slice_split b s '','' 8 = Some (sp, err)"
    "err = 0 \<or> err = ERR_TRUNCATED" "\<forall>t \<in> set sp. piece b s t"
    by (rule split_total [OF l, of 8]) simp
  from trim_all_total [OF sp(3)] obtain tr where tr: "trim_all b sp = Some tr" "length tr = length sp"
    "\<forall>t \<in> set tr. piece b s t" .
  show ?thesis
  proof (cases "ok \<and> 2 \<le> length sp")
    case True
    then have "piece b s (tr ! 0)" "piece b s (tr ! 1)" using tr by (auto intro!: nth_mem)
    from line_float [OF l this(1)] line_float [OF l this(2)] obtain x y where
      xy: "p_float b (tr ! 0) = Some x" "p_float b (tr ! 1) = Some y" by blast
    have c: "s_start (tr ! 6) < length b" if "7 \<le> length tr"
    proof -
      have "piece b s (tr ! 6)" using tr(3) that by simp
      from line_ok_start [OF piece_line_ok [OF l this]] show ?thesis by (rule terminated_less)
    qed
    then obtain ch where "(if 7 \<le> length tr then if slice_len (tr ! 6) < 1 then Some 1
        else do { c \<leftarrow> rd b (s_start (tr ! 6)); Some (if c \<noteq> CHR ''0'' then 1 else 0) } else Some (1::int)) = Some ch"
      by (cases "7 \<le> length tr"; cases "slice_len (tr ! 6) < 1") auto
    with t(1) sp(1,2) tr(1) xy True upd [of "?t\<lparr>t_time := Some x, t_ms_per_beat := Some y, t_change := ch\<rparr>"]
    show ?thesis by (auto simp: p_timing_def Let_def)
  next
    case False
    with t(1) sp(1,2) inv show ?thesis by (auto simp: p_timing_def Let_def)
  qed
qed

interpretation timing: line_handler p_timing
  by unfold_locales (use p_timing_total p_timing_frame in blast)+

subsection \<open>Hit objects\<close>

lemma set_object_cfg [simp]: "cfg (set_object ez ob) = cfg ez"
  by (simp add: set_object_def cfg_def)

lemma counters_cfg [simp]:
  "cfg (ez\<lparr>ez_ncircles := n\<rparr>) = cfg ez" "cfg (ez\<lparr>ez_nsliders := n\<rparr>) = cfg ez"
  "cfg (ez\<lparr>ez_nspinners := n\<rparr>) = cfg ez" "cfg (ez\<lparr>ez_objects := os\<rparr>) = cfg ez"
  by (simp_all add: cfg_def)

lemma p_node_sounds_cfg: "p_node_sounds b ez ob f r = Some (ez', n) \<Longrightarrow> cfg ez' = cfg ez"
  unfolding p_node_sounds_def Let_def
  by (auto elim!: bind_SomeE split: if_split_asm prod.split_asm)

lemma p_kind_cfg: "p_kind b ez ob e r = Some (ez', n) \<Longrightarrow> cfg ez' = cfg ez"
  unfolding p_kind_def p_slider_def Let_def
  by (auto elim!: bind_SomeE dest!: p_node_sounds_cfg split: if_split_asm)

lemma p_sound_cfg: "p_sound b ez ob f = Some (ez', ob', ok) \<Longrightarrow> cfg ez' = cfg ez"
  unfolding p_sound_def
  by (auto elim!: bind_SomeE split: if_split_asm prod.split_asm)

lemma p_objects_cfg: "p_objects b ez s = Some (ez', n) \<Longrightarrow> cfg ez' = cfg ez"
  unfolding p_objects_def Let_def
  by (auto elim!: bind_SomeE dest!: p_kind_cfg p_sound_cfg split: if_split_asm prod.split_asm)

text \<open>The last object replaced by one of the same type, with the counters left alone.\<close>

definition closes :: "ezpp \<Rightarrow> object \<Rightarrow> ezpp \<Rightarrow> bool" where
  "closes ez ob ez' \<longleftrightarrow> (\<exists>ob'. o_type ob' = o_type ob
     \<and> arr_items (ez_objects ez') = butlast (arr_items (ez_objects ez)) @ [ob'])
     \<and> ez_ncircles ez' = ez_ncircles ez \<and> ez_nsliders ez' = ez_nsliders ez \<and> ez_nspinners ez' = ez_nspinners ez"

lemma closes_set_object: "o_type ob' = o_type ob \<Longrightarrow> closes ez ob (set_object ez ob')"
  "o_type ob' = o_type ob \<Longrightarrow> closes ez ob (set_object (ez\<lparr>ez_mem := A\<rparr>) ob')"
  by (auto simp: closes_def set_object_def upd_last_def)

lemma p_node_sounds_closes: "p_node_sounds b ez ob f r = Some (ez', n) \<Longrightarrow> closes ez ob ez'"
  unfolding p_node_sounds_def Let_def
  by (auto elim!: bind_SomeE intro!: closes_set_object split: if_split_asm prod.split_asm)

lemma p_slider_closes:
  assumes "p_slider b ez ob e r = Some (ez', n)"
  shows "closes (ez\<lparr>ez_nsliders := ez_nsliders ez + 1\<rparr>) ob ez'"
proof -
  have "closes ez1 (ob\<lparr>o_pos := p, o_repetitions := q, o_distance := d\<rparr>) ez' \<Longrightarrow> closes ez1 ob ez'" for ez1 p q d
    by (simp add: closes_def)
  with assms show ?thesis
    unfolding p_slider_def Let_def
    by (auto elim!: bind_SomeE dest!: p_node_sounds_closes intro!: closes_set_object split: if_split_asm)
qed

definition count_kind :: "object \<Rightarrow> ezpp \<Rightarrow> ezpp" where
  "count_kind ob ez =
     (if is_circle ob then ez\<lparr>ez_ncircles := ez_ncircles ez + 1\<rparr>
      else if is_spinner ob then ez\<lparr>ez_nspinners := ez_nspinners ez + 1\<rparr>
      else if is_slider ob then ez\<lparr>ez_nsliders := ez_nsliders ez + 1\<rparr>
      else ez)"

lemma p_kind_closes:
  assumes "p_kind b ez ob e r = Some (ez', n)"
  shows "closes (count_kind ob ez) ob ez'"
proof -
  consider (circle) "has (o_type ob) OBJ_CIRCLE"
    | (spinner) "\<not> has (o_type ob) OBJ_CIRCLE" "has (o_type ob) OBJ_SPINNER"
    | (slider) "\<not> has (o_type ob) OBJ_CIRCLE" "\<not> has (o_type ob) OBJ_SPINNER" "has (o_type ob) OBJ_SLIDER"
    | (other) "\<not> has (o_type ob) OBJ_CIRCLE" "\<not> has (o_type ob) OBJ_SPINNER" "\<not> has (o_type ob) OBJ_SLIDER"
    by blast
  then show ?thesis
  proof cases
    case circle
    with assms show ?thesis
      by (auto simp: p_kind_def count_kind_def is_circle_def elim!: bind_SomeE intro!: closes_set_object)
  next
    case spinner
    with assms show ?thesis
      by (auto simp: p_kind_def count_kind_def is_circle_def is_spinner_def
          elim!: bind_SomeE intro!: closes_set_object)
  next
    case slider
    with assms show ?thesis
      by (auto simp: p_kind_def count_kind_def is_circle_def is_spinner_def is_slider_def
          dest!: p_slider_closes)
  next
    case other
    with assms show ?thesis
      by (auto simp: p_kind_def count_kind_def is_circle_def is_spinner_def is_slider_def
          intro!: closes_set_object)
  qed
qed

lemma p_sound_frame:
  assumes "p_sound b ez ob f = Some (ez', ob', ok)"
  shows "o_type ob' = o_type ob" "ez_objects ez' = ez_objects ez" "ez_ncircles ez' = ez_ncircles ez"
    "ez_nsliders ez' = ez_nsliders ez" "ez_nspinners ez' = ez_nspinners ez"
    "ez_timing_points ez' = ez_timing_points ez" "ez_mode ez' = ez_mode ez"
  using assms unfolding p_sound_def
  by (auto elim!: bind_SomeE split: if_split_asm prod.split_asm)

lemma count_simps [simp]: "count P [] = 0" "count P (xs @ [x]) = count P xs + (if P x then 1 else 0)"
  by (simp_all add: count_def)

lemma is_kind_type: "o_type ob' = o_type ob \<Longrightarrow>
  is_circle ob' = is_circle ob \<and> is_spinner ob' = is_spinner ob \<and> is_slider ob' = is_slider ob"
  by (simp add: is_circle_def is_spinner_def is_slider_def)

lemma zero_kind [simp]: "\<not> is_circle zero_object" "\<not> is_spinner zero_object" "\<not> is_slider zero_object"
  by (simp_all add: is_circle_def is_spinner_def is_slider_def zero_object_def has_def)

lemma count_kind_objects [simp]: "ez_objects (count_kind ob ez) = ez_objects ez"
  by (simp add: count_kind_def)

lemma closes_counts:
  assumes "closes (count_kind ob ez1) ob ez'"
    and "ez_ncircles ez1 = count is_circle xs" "ez_nspinners ez1 = count is_spinner xs"
    "ez_nsliders ez1 = count is_slider xs" "butlast (arr_items (ez_objects ez1)) = xs"
  shows "counts_ok ez'"
proof -
  from assms(1) obtain ob' where ob': "o_type ob' = o_type ob"
    "arr_items (ez_objects ez') = butlast (arr_items (ez_objects (count_kind ob ez1))) @ [ob']"
    "ez_ncircles ez' = ez_ncircles (count_kind ob ez1)" "ez_nsliders ez' = ez_nsliders (count_kind ob ez1)"
    "ez_nspinners ez' = ez_nspinners (count_kind ob ez1)"
    by (auto simp: closes_def)
  have x: "\<not> (is_circle ob \<and> is_spinner ob)" "\<not> (is_circle ob \<and> is_slider ob)" "\<not> (is_spinner ob \<and> is_slider ob)"
    by (auto simp: is_spinner_def is_slider_def)
  show ?thesis
    using ob' assms(2-5) is_kind_type [OF ob'(1)] x
    by (cases "is_circle ob"; cases "is_spinner ob"; cases "is_slider ob") (simp_all add: counts_ok_def count_kind_def)
qed

lemma p_objects_counts:
  assumes "p_objects b ez s = Some (ez', n)" "0 \<le> n" "counts_ok ez"
  shows "counts_ok ez'"
proof (cases "ez_end ez > 0 \<and> arr_len (ez_objects ez) \<ge> ez_end ez")
  case True
  with assms show ?thesis by (simp add: p_objects_def)
next
  case False
  with assms(1) obtain os h ok where a:
    "array_append sizeof_object (ez_objects ez) zero_object (a_heap (ez_mem ez)) = Some (os, h, ok)"
    by (auto simp: p_objects_def bind_Some_iff)
  let ?ez = "ez\<lparr>ez_objects := os, ez_mem := (ez_mem ez)\<lparr>a_heap := h\<rparr>\<rparr>"
  let ?xs = "arr_items (ez_objects ez)"
  note F = array_append_frame(1) [OF a]
  have c0: "counts_ok ?ez" using assms(3) F by (simp add: counts_ok_def)
  show ?thesis
  proof (cases ok)
    case ok: False
    with assms(1,2) a False show ?thesis by (auto simp: p_objects_def ERR_OOM_def)
  next
    case ok: True
    with F have i: "arr_items os = ?xs @ [zero_object]" by simp
    have fin: "counts_ok ez'" if "p_sound b ?ez ob0 f = Some (ez1, ob, True)"
      "p_kind b ez1 ob e r = Some (ez', n)" for ob0 f ez1 ob e r
      using p_kind_closes [OF that(2)] p_sound_frame [OF that(1)] assms(3) i
      by (intro closes_counts [of ob ez1 ez' ?xs]) (auto simp: counts_ok_def)
    have drop: "counts_ok (?ez\<lparr>ez_objects := os\<lparr>arr_items := butlast (arr_items os)\<rparr>\<rparr>)"
      using assms(3) i by (simp add: counts_ok_def)
    from assms(1,2) a False ok c0 fin drop show ?thesis
      unfolding p_objects_def Let_def
      by (auto elim!: bind_SomeE simp: ERR_OOM_def split: if_split_asm prod.split_asm)
  qed
qed

lemma node_loop_total:
  assumes "line_ok b s" "piece b s p" "i + k \<le> length types"
  shows "\<exists>types' err. node_loop b p k i types = Some (types', err) \<and> length types' = length types \<and> err = 0"
  using assms(2,3)
proof (induction k arbitrary: p i types)
  case (Suc k)
  from Suc.prems(1) have ok: "slice_ok b p" by (simp add: piece_def)
  define w where "w = takeWhile (\<lambda>c. c \<notin> set ''|'') (slice_str b p)"
  let ?n = "if length w < length (slice_str b p) then int (length w) else ERR_MORE"
  have c: "p_consume_til b p ''|'' = Some (?n, mk_slice (s_start p) (s_start p + length w))"
    using p_consume_til_spec(1) [OF ok, of "''|''"] by (simp add: w_def)
  obtain r where r: "scan_int b (s_start p) = Some r" using line_int(1) [OF assms(1) Suc.prems(1)] by blast
  define n where "n = (if length w < length (slice_str b p) then int (length w) else ERR_MORE)"
  have n: "n < 0 \<Longrightarrow> n = ERR_MORE" "- 1 \<le> n" by (auto simp: n_def ERR_MORE_def)
  define q where "q = mk_slice (nat (int (s_start p) + n + 1)) (s_end p)"
  show ?case
  proof (cases "w = [] \<or> r = None")
    case True
    with c r n(1) show ?thesis by (auto simp: n_def [symmetric])
  next
    case False
    then obtain ty where ty: "r = Some ty" by auto
    have step: "node_loop b p (Suc k) i types =
        (if s_start q \<ge> s_end q then Some (types[i := ty], 0) else node_loop b q k (i + 1) (types[i := ty]))"
      using c r n(1) ty False by (cases "n < 0") (simp_all add: n_def [symmetric] q_def Let_def)
    have "s_start p \<le> s_start q" using n(2) by (simp add: q_def)
    then have "piece b s q" if "s_start q < s_end q"
      using that Suc.prems(1) by (auto simp: piece_def slice_ok_def q_def)
    with Suc.IH [of q "i + 1" "types[i := ty]"] Suc.prems(2) step show ?thesis
      by (cases "s_start q < s_end q") auto
  qed
qed simp

text \<open>The invariant with an open object at the end.\<close>

definition open_inv :: "int \<Rightarrow> ezpp \<Rightarrow> bool" where
  "open_inv k ez \<longleftrightarrow> 0 \<le> k \<and> arena_ok (ez_mem ez) \<and> arr_ok sizeof_object (ez_objects ez) \<and> grown (k + 1) (ez_objects ez)
     \<and> arr_items (ez_objects ez) \<noteq> [] \<and> arr_ok sizeof_timing (ez_timing_points ez) \<and> grown k (ez_timing_points ez)
     \<and> 0 \<le> ez_ncircles ez \<and> ez_ncircles ez \<le> k + 1 \<and> 0 \<le> ez_nsliders ez \<and> ez_nsliders ez \<le> k + 1
     \<and> 0 \<le> ez_nspinners ez \<and> ez_nspinners ez \<le> k + 1"

lemma open_inv_close:
  assumes "open_inv k ez" "grown (2 * k + 2) (a_blocks (ez_mem ez))"
  shows "hinv (k + 1) ez" "hinv (k + 1) (set_object ez ob)"
  using assms by (auto simp: open_inv_def hinv_def set_object_def upd_last_ok distrib_left
      elim: grown_mono)

lemma open_inv_mem: "open_inv k ez \<Longrightarrow> arena_ok A \<Longrightarrow> open_inv k (ez\<lparr>ez_mem := A\<rparr>)"
  by (simp add: open_inv_def)

lemma load_int_stored: "store p (CInts (x # xs)) h = Some h' \<Longrightarrow> load_int h' p 0 = Some x"
  using store_frame(4) [of p "CInts (x # xs)" h h'] by (simp add: load_int_def)

lemma p_sound_total:
  assumes l: "line_ok b s" "piece b s f" and inv: "open_inv k ez" "k < LINES" "grown (2 * k) (a_blocks (ez_mem ez))"
  obtains ez' ob' ok where "p_sound b ez ob f = Some (ez', ob', ok)" "open_inv k ez'"
    "grown (2 * k + 1) (a_blocks (ez_mem ez'))"
    "ok \<Longrightarrow> ez_mode ez' = MODE_TAIKO \<Longrightarrow> load_int (a_heap (ez_mem ez')) (o_sound_types ob') 0 \<noteq> None"
    "ez_mode ez' = ez_mode ez" "ez_ncircles ez' = ez_ncircles ez" "ez_nsliders ez' = ez_nsliders ez"
    "ez_nspinners ez' = ez_nspinners ez"
proof (cases "ez_mode ez = MODE_TAIKO")
  case False
  with inv show thesis by (intro that [of ez ob True]) (auto simp: p_sound_def elim: grown_mono)
next
  case True
  from inv have h: "arena_ok (ez_mem ez)" "2 * k < 10000000" by (auto simp: open_inv_def LINES_def)
  obtain A p where a: "m_alloc (ez_mem ez) 4 = Some (A, p)" "grown (2 * k + 1) (a_blocks A)" "arena_ok A"
    "\<And>q. p = Some q \<Longrightarrow> h_size (a_heap A) (fst q) \<noteq> None"
    by (rule alloc_total [OF h(1) inv(3) _ _ h(2), of 4]) auto
  from line_int(1) [OF l] obtain r where r: "scan_int b (s_start f) = Some r" by blast
  show thesis
  proof (cases p)
    case None
    with True a inv(1) show thesis
      by (intro that [of "ez\<lparr>ez_mem := A\<rparr>" ob False]) (auto simp: p_sound_def open_inv_mem)
  next
    case (Some q)
    let ?v = "case r of None \<Rightarrow> SOUND_NORMAL | Some v \<Rightarrow> v"
    obtain h' where st: "store p (CInts [?v]) (a_heap A) = Some h'"
      using store_total [of "a_heap A" q] a(4) Some by blast
    note F = store_frame [OF st]
    have "arena_ok (A\<lparr>a_heap := h'\<rparr>)" using a(3) F by (auto intro: arena_ok_heap)
    with True Some a r st inv(1) load_int_stored [OF st] show thesis
      by (intro that [of "ez\<lparr>ez_mem := A\<lparr>a_heap := h'\<rparr>\<rparr>" "ob\<lparr>o_nsound_types := 1, o_sound_types := p\<rparr>" True])
        (auto simp: p_sound_def open_inv_mem)
  qed
qed

lemma p_node_sounds_total:
  assumes l: "line_ok b s" "piece b s f" and inv: "open_inv k ez" "k < LINES" "grown (2 * k + 1) (a_blocks (ez_mem ez))"
    and snd: "load_int (a_heap (ez_mem ez)) (o_sound_types ob) 0 \<noteq> None" and rep: "in_int (o_repetitions ob + 1)"
  shows "\<exists>ez' n. p_node_sounds b ez ob f r = Some (ez', n) \<and> hinv (k + 1) ez'"
proof -
  let ?nodes = "o_repetitions ob + 1"
  from snd obtain st where st: "load_int (a_heap (ez_mem ez)) (o_sound_types ob) 0 = Some st" by auto
  have g: "grown (2 * k + 2) (a_blocks (ez_mem ez))" using inv(3) by (rule grown_mono) simp
  show ?thesis
  proof (cases "?nodes < 0 \<or> ?nodes > 1000")
    case True
    with st rep open_inv_close(2) [OF inv(1) g] show ?thesis by (auto simp: p_node_sounds_def)
  next
    case False
    from inv have h: "arena_ok (ez_mem ez)" "2 * k + 1 < 10000000" by (auto simp: open_inv_def LINES_def)
    obtain A p where a: "m_alloc (ez_mem ez) (4 * ?nodes) = Some (A, p)" "grown (2 * k + 1 + 1) (a_blocks A)"
      "arena_ok A" "\<And>q. p = Some q \<Longrightarrow> h_size (a_heap A) (fst q) \<noteq> None"
      by (rule alloc_total [OF h(1) inv(3) _ _ h(2), of "4 * ?nodes"]) (use False in auto)
    have g': "grown (2 * k + 2) (a_blocks A)" using a(2) by (simp add: add.assoc)
    have close: "hinv (k + 1) (set_object (ez\<lparr>ez_mem := A'\<rparr>) ob')"
      if "arena_ok A'" "a_blocks A' = a_blocks A" for A' ob'
      using that g' open_inv_close(2) [OF open_inv_mem [OF inv(1) that(1)]] by simp
    show ?thesis
    proof (cases p)
      case None
      with st rep False a(1) close [OF a(3)] show ?thesis by (auto simp: p_node_sounds_def Let_def)
    next
      case (Some q)
      obtain types where n: "node_loop b f (nat ?nodes) 0 (replicate (nat ?nodes) st) = Some (types, 0)"
        using node_loop_total [OF l, of 0 "nat ?nodes" "replicate (nat ?nodes) st"] by auto
      obtain h' where h': "store p (CInts types) (a_heap A) = Some h'"
        using store_total [of "a_heap A" q] a(4) Some by blast
      note F = store_frame [OF h']
      have "arena_ok (A\<lparr>a_heap := h'\<rparr>)" using a(3) F by (auto intro: arena_ok_heap)
      with st rep False a(1) Some n h' close [of "A\<lparr>a_heap := h'\<rparr>"] close [of A] a(3) show ?thesis
        by (auto simp: p_node_sounds_def Let_def)
    qed
  qed
qed

lemma p_slider_total:
  assumes l: "line_ok b s" "\<forall>t \<in> set e. piece b s t" "5 \<le> length e"
    and inv: "open_inv k ez" "k < LINES" "grown (2 * k + 1) (a_blocks (ez_mem ez))" "ez_nsliders ez \<le> k"
    and snd: "ez_mode ez = MODE_TAIKO \<Longrightarrow> load_int (a_heap (ez_mem ez)) (o_sound_types ob) 0 \<noteq> None"
  shows "\<exists>ez' n. p_slider b ez ob e r = Some (ez', n) \<and> hinv (k + 1) ez'"
proof -
  have i: "in_int (ez_nsliders ez + 1)" using inv by (auto simp: open_inv_def LINES_def in_int_iff)
  let ?ez = "ez\<lparr>ez_nsliders := ez_nsliders ez + 1\<rparr>"
  have o1: "open_inv k ?ez" using inv(1,4) by (simp add: open_inv_def)
  have "grown (2 * k + 2) (a_blocks (ez_mem ?ez))" using grown_mono [OF inv(3)] by simp
  note close = open_inv_close(2) [OF o1 this]
  show ?thesis
  proof (cases "length e < 7")
    case True
    with i close show ?thesis by (simp add: p_slider_def Let_def)
  next
    case False
    have pc: "piece b s (e ! j)" if "j < length e" for j using that l(2) by simp
    obtain x y where xy: "p_float b (e ! 0) = Some x" "p_float b (e ! 1) = Some y"
      using line_float [OF l(1) pc [of 0]] line_float [OF l(1) pc [of 1]] False by force
    obtain rp where rp: "scan_int b (s_start (e ! 6)) = Some rp"
      using line_int(1) [OF l(1) pc [of 6]] False by auto
    obtain d where d: "(if 7 < length e then p_float b (e ! 7) else Some (Num 0)) = Some d"
      using line_float [OF l(1) pc [of 7]] by (cases "7 < length e") auto
    let ?rep = "case rp of None \<Rightarrow> 1 | Some v \<Rightarrow> v"
    let ?ob = "ob\<lparr>o_pos := (x, y), o_repetitions := ?rep, o_distance := d\<rparr>"
    have rep: "in_int (?rep + 1)"
      using line_int(2) [OF l(1) pc [of 6]] rp False by (cases rp) (auto simp: in_int_iff)
    show ?thesis
    proof (cases "ez_mode ez = MODE_TAIKO \<and> 8 < length e \<and> slice_len (e ! 8) > 0")
      case True
      from p_node_sounds_total [OF l(1) pc [of 8] o1 inv(2), of ?ob r] True snd rep inv(3)
      obtain ez' n where "p_node_sounds b ?ez ?ob (e ! 8) r = Some (ez', n)" "hinv (k + 1) ez'" by auto
      with True False i xy rp d show ?thesis by (auto simp: p_slider_def Let_def)
    next
      case no: False
      with False i xy rp d close show ?thesis by (auto simp: p_slider_def Let_def)
    qed
  qed
qed

lemma p_kind_total:
  assumes l: "line_ok b s" "\<forall>t \<in> set e. piece b s t" "5 \<le> length e"
    and inv: "open_inv k ez" "k < LINES" "grown (2 * k + 1) (a_blocks (ez_mem ez))"
    and c: "ez_nsliders ez \<le> k" "ez_ncircles ez \<le> k" "ez_nspinners ez \<le> k"
    and snd: "ez_mode ez = MODE_TAIKO \<Longrightarrow> load_int (a_heap (ez_mem ez)) (o_sound_types ob) 0 \<noteq> None"
  shows "\<exists>ez' n. p_kind b ez ob e r = Some (ez', n) \<and> hinv (k + 1) ez'"
proof -
  have i: "in_int (ez_ncircles ez + 1)" "in_int (ez_nspinners ez + 1)"
    using inv c by (auto simp: open_inv_def LINES_def in_int_iff)
  have g: "grown (2 * k + 2) (a_blocks (ez_mem ez))" using grown_mono [OF inv(3)] by simp
  have o1: "open_inv k (ez\<lparr>ez_ncircles := ez_ncircles ez + 1\<rparr>)"
    and o2: "open_inv k (ez\<lparr>ez_nspinners := ez_nspinners ez + 1\<rparr>)"
    using inv(1) c by (simp_all add: open_inv_def)
  have cl: "hinv (k + 1) (set_object ez ob)"
    "hinv (k + 1) (set_object (ez\<lparr>ez_ncircles := ez_ncircles ez + 1\<rparr>) ob')"
    "hinv (k + 1) (set_object (ez\<lparr>ez_nspinners := ez_nspinners ez + 1\<rparr>) ob)" for ob'
    using open_inv_close(2) [OF inv(1) g] open_inv_close(2) [OF o1] open_inv_close(2) [OF o2] g by simp_all
  have pc: "piece b s (e ! j)" if "j < length e" for j using that l(2) by simp
  obtain x y where xy: "p_float b (e ! 0) = Some x" "p_float b (e ! 1) = Some y"
    using line_float [OF l(1) pc [of 0]] line_float [OF l(1) pc [of 1]] l(3) by force
  from p_slider_total [OF l inv c(1) snd]
  show ?thesis using i cl xy by (auto simp: p_kind_def)
qed

lemma p_objects_total:
  assumes l: "line_ok b s" and h: "hinv k ez" "k < LINES"
  shows "\<exists>ez' n. p_objects b ez s = Some (ez', n) \<and> hinv (k + 1) ez'"
proof (cases "ez_end ez > 0 \<and> arr_len (ez_objects ez) \<ge> ez_end ez")
  case True
  with hinv_mono [OF h(1), of "k + 1"] show ?thesis by (simp add: p_objects_def)
next
  case False
  have a: "grown k (ez_objects ez)" "arr_ok sizeof_object (ez_objects ez)" "k < 10000000"
    using h by (auto simp: hinv_def LINES_def)
  obtain os h' ok where t: "array_append sizeof_object (ez_objects ez) zero_object (a_heap (ez_mem ez)) = Some (os, h', ok)"
    "grown (k + 1) os"
    by (rule append_total [OF a(1,2) _ a(3)]) (simp add: sizeof_object_def)
  note F = array_append_frame [OF t(1)]
  let ?ez = "ez\<lparr>ez_objects := os, ez_mem := (ez_mem ez)\<lparr>a_heap := h'\<rparr>\<rparr>"
  have inv: "hinv (k + 1) ?ez"
    using hinv_mono [OF h(1), of "k + 1"] array_append_ok(1) [OF a(2) t(1)] t(2) F
    by (auto simp: hinv_def intro!: arena_ok_heap)
  show ?thesis
  proof (cases ok)
    case False
    with t(1) inv \<open>\<not> (ez_end ez > 0 \<and> arr_len (ez_objects ez) \<ge> ez_end ez)\<close> show ?thesis
      by (auto simp: p_objects_def Let_def)
  next
    case True
    obtain e err where sp: "slice_split b s '','' 11 = Some (e, err)"
      "err = 0 \<or> err = ERR_TRUNCATED" "\<forall>t \<in> set e. piece b s t"
      by (rule split_total [OF l, of 11]) simp
    show ?thesis
    proof (cases "length e < 5")
      case short: True
      with t(1) inv sp False True show ?thesis by (auto simp: p_objects_def Let_def)
    next
      case long: False
      have pc: "piece b s (e ! j)" if "j < 5" for j using that long sp(3) by simp
      obtain tm where tm: "p_float b (e ! 2) = Some tm" using line_float [OF l pc [of 2]] by auto
      define tm' where "tm' = (if is_inf tm then Num 0 else tm)"
      have dr: "hinv (k + 1) (?ez\<lparr>ez_objects := os\<lparr>arr_items := butlast (arr_items os)\<rparr>\<rparr>)"
        using inv by (auto simp: hinv_def grown_def arr_ok_def arr_len_def)
      show ?thesis
      proof (cases "flt (Num 0) (ez_end_time ez) \<and> fle (ez_end_time ez) tm'")
        case late: True
        with t(1) sp False True long tm dr show ?thesis by (auto simp: p_objects_def Let_def tm'_def)
      next
        case early: False
        obtain ty where ty: "scan_int b (s_start (e ! 3)) = Some ty" using line_int(1) [OF l pc [of 3]] by auto
        let ?ob = "zero_object\<lparr>o_time := tm', o_type := (case ty of None \<Rightarrow> OBJ_CIRCLE | Some v \<Rightarrow> v)\<rparr>"
        have o0: "open_inv k ?ez" "grown (2 * k) (a_blocks (ez_mem ?ez))"
          using inv h(1) True F(1) by (auto simp: hinv_def open_inv_def)
        obtain ez1 ob1 ok1 where s1: "p_sound b ?ez ?ob (e ! 4) = Some (ez1, ob1, ok1)" "open_inv k ez1"
          "grown (2 * k + 1) (a_blocks (ez_mem ez1))"
          "ok1 \<Longrightarrow> ez_mode ez1 = MODE_TAIKO \<Longrightarrow> load_int (a_heap (ez_mem ez1)) (o_sound_types ob1) 0 \<noteq> None"
          "ez_ncircles ez1 = ez_ncircles ez" "ez_nsliders ez1 = ez_nsliders ez" "ez_nspinners ez1 = ez_nspinners ez"
          by (rule p_sound_total [OF l pc [of 4] o0(1) h(2) o0(2), of ?ob]) auto
        have g: "grown (2 * k + 2) (a_blocks (ez_mem ez1))" using grown_mono [OF s1(3)] by simp
        have body: "p_objects b ez s = (if \<not> ok1 then Some (set_object ez1 ob1, ERR_OOM)
            else p_kind b ez1 ob1 e (int (s_end (last e)) - int (s_start s)))"
          using t(1) sp False True long tm early ty s1(1) by (auto simp: p_objects_def Let_def tm'_def)
        show ?thesis
        proof (cases ok1)
          case False
          with body open_inv_close(2) [OF s1(2) g] show ?thesis by simp
        next
          case True
          have c: "ez_nsliders ez1 \<le> k" "ez_ncircles ez1 \<le> k" "ez_nspinners ez1 \<le> k"
            using h(1) s1 by (auto simp: hinv_def)
          from True body p_kind_total [OF l sp(3) _ s1(2) h(2) s1(3) c s1(4), of "int (s_end (last e)) - int (s_start s)"] long
          show ?thesis by simp
        qed
      qed
    qed
  qed
qed

interpretation objects: line_handler p_objects
  by unfold_locales (use p_objects_total p_objects_cfg p_objects_counts in blast)+

subsection \<open>Lines\<close>

lemma trim_spec_Nil: "trim_spec xs = [] \<longleftrightarrow> list_all whitespace xs"
proof -
  have "dropWhile whitespace xs = [] \<longleftrightarrow> list_all whitespace xs" for xs :: string
    by (simp add: list_all_iff)
  then have "trim_spec xs = [] \<longleftrightarrow> list_all whitespace (dropWhile whitespace xs)"
    by (simp add: trim_spec_def list_all_iff)
  also have "\<dots> \<longleftrightarrow> list_all whitespace xs"
    by (induction xs) auto
  finally show ?thesis .
qed

lemma p_section_line_safe:
  assumes "line_ok b s" "s_start s < s_end s" "hinv k ez" "k < LINES"
  shows "\<exists>ez' n. p_section_line b ez s = Some (ez', n) \<and> hinv (k + 1) ez'"
  unfolding p_section_line_def
  using metadata.safe [OF assms] general.safe [OF assms] difficulty.safe [OF assms]
    timing.safe [OF assms] objects.safe [OF assms] version.safe [OF assms] by simp

lemma p_section_line_keeps: "p_section_line b ez s = Some (ez', n) \<Longrightarrow> cfg ez' = cfg ez"
  unfolding p_section_line_def
  by (auto split: if_split_asm dest: metadata.keeps general.keeps difficulty.keeps timing.keeps
      objects.keeps version.keeps)

lemma p_section_line_counts:
  "p_section_line b ez s = Some (ez', n) \<Longrightarrow> 0 \<le> n \<Longrightarrow> counts_ok ez \<Longrightarrow> counts_ok ez'"
  unfolding p_section_line_def
  by (auto split: if_split_asm dest: metadata.counts general.counts difficulty.counts timing.counts
      objects.counts version.counts)

interpretation section_line: line_handler p_section_line
  by unfold_locales (use p_section_line_safe p_section_line_keeps p_section_line_counts in blast)+

lemma p_line_safe:
  assumes l: "line_ok b s" "s_start s < s_end s" and h: "hinv k ez" "k < LINES"
  shows "\<exists>ez' n. p_line b ez s = Some (ez', n) \<and> hinv (k + 1) ez'"
proof -
  from l have ok: "slice_ok b s" and lt: "s_start s < length b" by (auto simp: line_ok_def slice_ok_def)
  have up: "hinv (k + 1) ez" using h(1) by (rule hinv_mono) simp
  from slice_whitespace_spec [OF ok] have w: "slice_whitespace b s = Some (list_all whitespace (slice_str b s))" .
  show ?thesis
  proof (cases "list_all whitespace (slice_str b s) \<or> b ! s_start s = CHR '' '' \<or> b ! s_start s = CHR ''_''")
    case True
    with w lt up l(2) show ?thesis by (auto simp: p_line_def)
  next
    case False
    obtain t where t: "slice_trim b s = Some t" "piece b s t" "slice_str b t = trim_spec (slice_str b s)"
      by (rule slice_trim_spec [OF ok]) (auto simp: piece_def)
    have "slice_str b t \<noteq> []" using t(3) False by (simp add: trim_spec_Nil)
    then have lt': "s_start t < s_end t"
      by (cases "s_start t < s_end t") (auto simp: slice_str_def)
    have lk: "line_ok b t" using piece_line_ok [OF l(1) t(2)] .
    from strncmp_at_total [OF line_ok_start [OF lk]] obtain d where d: "strncmp_at b (s_start t) ''//'' 2 = Some d" by blast
    have "s_start t < length b" using line_ok_start [OF lk] by (rule terminated_less)
    with False w lt l(2) t(1) d up header.safe [OF lk lt' h] section_line.safe [OF lk lt' h] show ?thesis
      by (auto simp: p_line_def)
  qed
qed

lemma p_line_keeps: "p_line b ez s = Some (ez', n) \<Longrightarrow> cfg ez' = cfg ez"
  unfolding p_line_def
  by (auto elim!: bind_SomeE split: if_split_asm) (simp_all add: header.keeps section_line.keeps)

lemma p_line_counts: "p_line b ez s = Some (ez', n) \<Longrightarrow> 0 \<le> n \<Longrightarrow> counts_ok ez \<Longrightarrow> counts_ok ez'"
  unfolding p_line_def
  by (auto elim!: bind_SomeE split: if_split_asm) (blast intro: header.counts section_line.counts)+

interpretation line: line_handler p_line
  by unfold_locales (use p_line_safe p_line_keeps p_line_counts in blast)+

subsection \<open>Files\<close>

text \<open>
  The specification of reading a file: split it at the newlines, hand every line to the handler
  in a buffer of its own, stop at an error or at a line that does not fit.
\<close>

fun run_lines :: "(buf \<Rightarrow> ezpp \<Rightarrow> slice \<Rightarrow> (ezpp \<times> int) option) \<Rightarrow> ezpp \<Rightarrow> string list \<Rightarrow> (ezpp \<times> int) option" where
  "run_lines h ez [] = Some (ez, 0)"
| "run_lines h ez (l # ls) =
     (if LINE_MAX \<le> length l then Some (ez, ERR_TRUNCATED)
      else do {
        (ez, n) \<leftarrow> h (l @ [NUL]) ez (mk_slice 0 (length l));
        if n < 0 then Some (ez, n)
        else if ls = [] then Some (ez, int (length l))
        else run_lines h ez ls
      })"

definition NL :: char where
  "NL = CHR 0x0A"

lemma read_line_spec:
  "read_line room acc f =
     (if room \<le> length (hd (split_on [NL] f)) then None
      else if tl (split_on [NL] f) = [] then Some (acc @ f, [], True)
      else Some (acc @ hd (split_on [NL] f), drop (Suc (length (hd (split_on [NL] f)))) f, False))"
proof (induction f arbitrary: room acc)
  case Nil
  then show ?case by (subst read_line.simps) simp
next
  case (Cons c f)
  have "tl (split_on [NL] f) = [] \<Longrightarrow> hd (split_on [NL] f) = f"
    by (induction f) (auto split: if_splits)
  with Cons.IH [of "room - 1" "acc @ [c]"] show ?case
    by (subst read_line.simps) (auto simp: NL_def)
qed

lemma split_on_rest:
  "tl (split_on [NL] f) \<noteq> [] \<Longrightarrow> split_on [NL] (drop (Suc (length (hd (split_on [NL] f)))) f) = tl (split_on [NL] f)"
  by (induction f) auto

lemma split_on_one: "tl (split_on [NL] f) = [] \<Longrightarrow> split_on [NL] f = [f]"
  by (induction f) (auto split: if_splits)

lemma p_lines_eq: "p_lines ez f = run_lines p_line ez (split_on [NL] f)"
proof (induction ez f rule: p_lines.induct)
  case (1 ez f)
  obtain l ls where ws: "split_on [NL] f = l # ls" by (metis split_on_nonempty list.exhaust)
  consider (long) "LINE_MAX \<le> length l" | (last) "length l < LINE_MAX" "ls = []"
    | (more) "length l < LINE_MAX" "ls \<noteq> []" by linarith
  then show ?case
  proof cases
    case long
    then have "read_line LINE_MAX [] f = None" by (simp add: read_line_spec ws)
    then show ?thesis using long by (subst p_lines.simps) (simp add: ws)
  next
    case last
    then have w: "l = f" using split_on_one [of f] ws by simp
    have "read_line LINE_MAX [] f = Some (f, [], True)" using last w by (simp add: read_line_spec ws)
    then show ?thesis using last w
      by (subst p_lines.simps) (cases "p_line (l @ [NUL]) ez (mk_slice 0 (length l))"; auto simp: ws)
  next
    case more
    let ?r = "drop (Suc (length l)) f"
    have r: "read_line LINE_MAX [] f = Some (l, ?r, False)" using more by (simp add: read_line_spec ws)
    have IH: "p_lines ez' ?r = run_lines p_line ez' ls"
      if "p_line (l @ [NUL]) ez (mk_slice 0 (length l)) = Some (ez', n)" "\<not> n < 0" for ez' n
      using 1 [OF r _ _ that(1)] that split_on_rest [of f] more(2) by (auto simp: ws)
    show ?thesis using more
      by (subst p_lines.simps)
        (cases "p_line (l @ [NUL]) ez (mk_slice 0 (length l))"; auto simp: r IH ws)
  qed
qed

lemma short_runs_split:
  "short_runs k f \<Longrightarrow> k \<le> 9 \<Longrightarrow> short_runs k (hd (split_on [NL] f) @ [NUL])
     \<and> (\<forall>l \<in> set (tl (split_on [NL] f)). short_runs 9 (l @ [NUL]))"
proof (induction k f rule: short_runs.induct)
  case (1 k)
  then show ?case by (simp add: NUL_def is_digit_def)
next
  case (2 k c cs)
  obtain w ws where w: "split_on [NL] cs = w # ws" by (metis split_on_nonempty list.exhaust)
  show ?case
  proof (cases "is_digit c")
    case True
    then have "c \<noteq> NL" by (auto simp: is_digit_def NL_def)
    with 2 True w show ?thesis by auto
  next
    case False
    with 2 w show ?thesis by (auto simp: NUL_def is_digit_def)
  qed
qed

lemma short_runs_lines: "short_runs 9 f \<Longrightarrow> l \<in> set (split_on [NL] f) \<Longrightarrow> short_runs 9 (l @ [NUL])"
  using short_runs_split [of 9 f] by (cases "split_on [NL] f") auto

lemma own_buffer_ok:
  assumes "short_runs 9 (l @ [NUL])" "length l < LINE_MAX"
  shows "line_ok (l @ [NUL]) (mk_slice 0 (length l))"
  using assms by (simp add: line_ok_def slice_ok_def terminated_def LINE_MAX_def)

text \<open>The consequences of the contract for whole files.\<close>

context line_handler
begin

lemma run_safe:
  assumes "\<forall>l \<in> set ls. short_runs 9 (l @ [NUL])" "hinv k ez" "k + int (length ls) \<le> LINES"
    and empty: "\<And>b ez s. s_end s \<le> s_start s \<Longrightarrow> h b ez s = Some (ez, 0)"
  shows "\<exists>ez' n. run_lines h ez ls = Some (ez', n) \<and> hinv (k + int (length ls)) ez'"
  using assms(1-3)
proof (induction ls arbitrary: k ez)
  case (Cons l ls)
  show ?case
  proof (cases "LINE_MAX \<le> length l")
    case True
    with hinv_mono [OF Cons.prems(2), of "k + int (length (l # ls))"] show ?thesis by simp
  next
    case False
    have "\<exists>ez' n. h (l @ [NUL]) ez (mk_slice 0 (length l)) = Some (ez', n) \<and> hinv (k + 1) ez'"
    proof (cases "l = []")
      case True
      with empty [of "mk_slice 0 (length l)"] hinv_mono [OF Cons.prems(2), of "k + 1"] show ?thesis by simp
    next
      case ne: False
      show ?thesis
        by (rule safe) (use Cons.prems False ne own_buffer_ok [of l] in \<open>auto simp: LINES_def\<close>)
    qed
    then obtain ez1 n where 1: "h (l @ [NUL]) ez (mk_slice 0 (length l)) = Some (ez1, n)" "hinv (k + 1) ez1" by blast
    have up: "hinv (k + int (length (l # ls))) ez1" using 1(2) by (rule hinv_mono) simp
    have "\<exists>ez' m. run_lines h ez1 ls = Some (ez', m) \<and> hinv (k + 1 + int (length ls)) ez'"
      using Cons.prems 1(2) by (intro Cons.IH) auto
    with False 1(1) up show ?thesis by (auto simp: add.assoc)
  qed
qed simp

lemma run_keeps: "run_lines h ez ls = Some (ez', n) \<Longrightarrow> cfg ez' = cfg ez"
proof (induction ls arbitrary: ez)
  case (Cons l ls)
  then show ?case
    by (auto elim!: bind_SomeE split: if_split_asm prod.split_asm) (metis keeps)+
qed simp

lemma run_counts: "run_lines h ez ls = Some (ez', n) \<Longrightarrow> 0 \<le> n \<Longrightarrow> counts_ok ez \<Longrightarrow> counts_ok ez'"
proof (induction ls arbitrary: ez)
  case (Cons l ls)
  then show ?case
    by (auto elim!: bind_SomeE simp: ERR_TRUNCATED_def split: if_split_asm prod.split_asm) (metis counts not_less)+
qed simp

end

lemma p_line_empty: "s_end s \<le> s_start s \<Longrightarrow> p_line b ez s = Some (ez, 0)"
  by (simp add: p_line_def)

lemma p_lines_safe:
  assumes "short_runs 9 f" "hinv k ez" "k + int (length (split_on [NL] f)) \<le> LINES"
  shows "\<exists>ez' n. p_lines ez f = Some (ez', n) \<and> hinv (k + int (length (split_on [NL] f))) ez'"
  unfolding p_lines_eq
  by (rule line.run_safe) (use assms short_runs_lines p_line_empty in auto)

lemma p_lines_keeps: "p_lines ez f = Some (ez', n) \<Longrightarrow> cfg ez' = cfg ez"
  unfolding p_lines_eq by (rule line.run_keeps)

lemma p_lines_counts: "p_lines ez f = Some (ez', n) \<Longrightarrow> 0 \<le> n \<Longrightarrow> counts_ok ez \<Longrightarrow> counts_ok ez'"
  unfolding p_lines_eq by (rule line.run_counts)

subsection \<open>Resetting\<close>

lemma p_reset_total:
  assumes "hinv k ez"
  obtains ez' where "p_reset ez = Some ez'" "hinv k ez'" "counts_ok ez'"
proof -
  from assms have a: "arena_ok (ez_mem ez)" by (simp add: hinv_def)
  obtain A where A: "m_free (ez_mem ez) = Some A" "arena_ok A" "arr_items (a_blocks A) = []"
    by (rule m_free_ok [OF a])
  from A(1) have "arr_cap (a_blocks A) = 0" by (auto simp: m_free_def array_free_def bind_Some_iff)
  with A assms show thesis
    by (intro that) (auto simp: p_reset_def hinv_def counts_ok_def grown_def arr_ok_def arr_len_def)
qed

end
