(* ===== verification/DiffStd.thy ===== *)
theory DiffStd
  imports State Mods
begin

text \<open>
  The difficulty of osu! standard maps: the strain of each object (\<^verbatim>\<open>d_spacing_weight\<close>,
  \<^verbatim>\<open>d_calc_strain\<close>), the peaks of 400ms sections (\<^verbatim>\<open>d_update_max_strains\<close>), their weighed sum
  (\<^verbatim>\<open>d_weigh_strains\<close>), and \<^verbatim>\<open>d_calc_individual\<close> and \<^verbatim>\<open>d_std\<close> on top. The bit of \<^verbatim>\<open>math.h\<close>
  that IEEE 754 does not fix is the argument \<open>M\<close>.
\<close>

definition M_PI :: fp where [fp_eval]: "M_PI = dlit (314159265358979323846 / 10 ^ 20)"
definition SINGLE_SPACING :: fp where "SINGLE_SPACING = Num 125"
definition STAR_SCALING_FACTOR :: fp where "STAR_SCALING_FACTOR = flit (675 / 10000)"
definition EXTREME_SCALING_FACTOR :: fp where "EXTREME_SCALING_FACTOR = Num (1 / 2)"
definition STRAIN_STEP :: fp where "STRAIN_STEP = Num 400"
definition DECAY_WEIGHT :: fp where "DECAY_WEIGHT = flit (9 / 10)"
definition MAX_SPEED_BONUS :: fp where "MAX_SPEED_BONUS = Num 45"
definition MIN_SPEED_BONUS :: fp where "MIN_SPEED_BONUS = Num 75"
definition ANGLE_BONUS_SCALE :: fp where "ANGLE_BONUS_SCALE = Num 90"
definition AIM_TIMING_THRESHOLD :: fp where "AIM_TIMING_THRESHOLD = Num 107"
definition SPEED_ANGLE_BONUS_BEGIN :: fp where "SPEED_ANGLE_BONUS_BEGIN = divd (muld (Num 5) M_PI) (Num 6)"
definition AIM_ANGLE_BONUS_BEGIN :: fp where "AIM_ANGLE_BONUS_BEGIN = divd M_PI (Num 3)"

definition decay_base :: "int \<Rightarrow> fp option" where
  "decay_base type = sel2 (flit (3 / 10), flit (15 / 100)) type"

definition weight_scaling :: "int \<Rightarrow> fp option" where
  "weight_scaling type = sel2 (Num 1400, Num (105 / 4)) type"

text \<open>\<^verbatim>\<open>(float)pow(x, y)\<close>\<close>

definition powf :: "libm \<Rightarrow> fp \<Rightarrow> fp \<Rightarrow> fp" where
  "powf M x y = to_float (m_pow M x y)"

subsection \<open>Strains of objects\<close>

definition speed_angle_bonus :: "libm \<Rightarrow> fp \<Rightarrow> fp \<Rightarrow> fp" where
  "speed_angle_bonus M distance angle =
     (if \<not> is_nan angle \<and> flt angle SPEED_ANGLE_BONUS_BEGIN then
        let s = to_float (m_sin M (muld (Num (3 / 2)) (subd SPEED_ANGLE_BONUS_BEGIN angle)));
            angle_bonus = addf (Num 1) (divf (powf M s (Num 2)) (flit (357 / 100))) in
        if flt angle (divd M_PI (Num 2)) then
          let angle_bonus = flit (128 / 100);
              near = mulf (subf (Num 1) angle_bonus) (al_min (divf (subf ANGLE_BONUS_SCALE distance) (Num 10)) (Num 1)) in
          if flt distance ANGLE_BONUS_SCALE \<and> flt angle (divd M_PI (Num 4)) then addf angle_bonus near
          else if flt distance ANGLE_BONUS_SCALE then
            addf angle_bonus (mulf near
              (to_float (m_sin M (divd (muld (subd (divd M_PI (Num 2)) angle) (Num 4)) M_PI))))
          else angle_bonus
        else angle_bonus
      else Num 1)"

definition speed_weight :: "libm \<Rightarrow> fp \<Rightarrow> fp \<Rightarrow> fp \<Rightarrow> fp" where
  "speed_weight M distance delta_time angle =
     (let strain_time = al_max delta_time (Num 50);
          distance = al_min distance SINGLE_SPACING;
          delta_time = al_max delta_time MAX_SPEED_BONUS;
          speed_bonus = (if flt delta_time MIN_SPEED_BONUS
            then addf (Num 1) (powf M (divf (subf MIN_SPEED_BONUS delta_time) (Num 40)) (Num 2))
            else Num 1);
          angle_bonus = speed_angle_bonus M distance angle in
      divf (mulf (mulf (addf (Num 1) (mulf (subf speed_bonus (Num 1)) (Num (3 / 4)))) angle_bonus)
          (addf (flit (95 / 100)) (mulf speed_bonus (powf M (divf distance SINGLE_SPACING) (Num (7 / 2))))))
        strain_time)"

definition aim_weight :: "libm \<Rightarrow> fp \<Rightarrow> fp \<Rightarrow> fp \<Rightarrow> fp \<Rightarrow> fp \<Rightarrow> fp" where
  "aim_weight M distance delta_time prev_distance prev_delta_time angle =
     (let strain_time = al_max delta_time (Num 50);
          prev_strain_time = al_max prev_delta_time (Num 50);
          result = (if \<not> is_nan angle \<and> flt AIM_ANGLE_BONUS_BEGIN angle then
            let angle_bonus = to_float (fsqrt (muld (muld
                  (al_max (subf prev_distance ANGLE_BONUS_SCALE) (Num 0))
                  (m_pow M (m_sin M (subd angle AIM_ANGLE_BONUS_BEGIN)) (Num 2)))
                  (al_max (subf distance ANGLE_BONUS_SCALE) (Num 0)))) in
            divf (mulf (Num (3 / 2)) (powf M (al_max (Num 0) angle_bonus) (dlit (99 / 100))))
              (al_max AIM_TIMING_THRESHOLD prev_strain_time)
            else Num 0);
          weighted_distance = powf M distance (dlit (99 / 100)) in
      al_max (addf result (divf weighted_distance (al_max AIM_TIMING_THRESHOLD strain_time)))
        (divf weighted_distance strain_time))"

text \<open>The weight, and the new value of \<^verbatim>\<open>*is_single\<close>.\<close>

definition d_spacing_weight ::
  "libm \<Rightarrow> fp \<Rightarrow> fp \<Rightarrow> fp \<Rightarrow> fp \<Rightarrow> fp \<Rightarrow> int \<Rightarrow> int \<Rightarrow> fp \<times> int" where
  "d_spacing_weight M distance delta_time prev_distance prev_delta_time angle type is_single =
     (if type = DIFF_SPEED then
        (speed_weight M distance delta_time angle, if flt SINGLE_SPACING distance then 1 else 0)
      else if type = DIFF_AIM then
        (aim_weight M distance delta_time prev_distance prev_delta_time angle, is_single)
      else (Num 0, is_single))"

definition d_calc_strain :: "libm \<Rightarrow> int \<Rightarrow> object \<Rightarrow> object \<Rightarrow> fp \<Rightarrow> object option" where
  "d_calc_strain M type ob prev speedmul = do {
     let time_elapsed = divf (subf (o_time ob) (o_time prev)) speedmul;
     base \<leftarrow> decay_base type;
     let decay = powf M base (divf time_elapsed (Num 1000));
     scaling \<leftarrow> weight_scaling type;
     let ob = ob\<lparr>o_delta_time := time_elapsed\<rparr>;
     let (ob, res) =
       (if has (o_type ob) (OBJ_SLIDER OR OBJ_CIRCLE) then
          let d = v2f_len (v2f_sub (o_normpos ob) (o_normpos prev));
              (w, single) = d_spacing_weight M d time_elapsed (o_d_distance prev) (o_delta_time prev)
                (o_angle ob) type (o_is_single ob) in
          (ob\<lparr>o_d_distance := d, o_is_single := single\<rparr>, mulf w scaling)
        else (ob, Num 0));
     prev_strain \<leftarrow> sel2 (o_strains prev) type;
     strains \<leftarrow> upd2 (o_strains ob) type (addf (mulf prev_strain decay) res);
     Some (ob\<lparr>o_strains := strains\<rparr>)
   }"

subsection \<open>Peaks\<close>

lemma array_append_len:
  "array_append esize a x h = Some (a', h', True) \<Longrightarrow> in_int (arr_len a + 1) \<and> arr_items a' = arr_items a @ [x]"
  by (auto simp: array_append_def array_reserve_i_def bind_Some_iff Let_def split: if_splits)

text \<open>
  The loop ends when the interval passes the current time; where rounding keeps the interval
  from moving, it ends when the array of strains cannot grow.
\<close>

function strain_loop :: "libm \<Rightarrow> fp \<Rightarrow> fp \<Rightarrow> fp \<Rightarrow> fp \<Rightarrow> bool \<Rightarrow> ezpp \<Rightarrow> (ezpp \<times> int) option" where
  "strain_loop M decay_factor cur_time prev_time prev_strain first_obj ez =
     (if flt (ez_interval_end ez) cur_time then do {
        (hs, h, ok) \<leftarrow> array_append sizeof_float (ez_highest_strains ez) (ez_max_strain ez) (a_heap (ez_mem ez));
        let ez' = ez\<lparr>ez_highest_strains := hs, ez_mem := (ez_mem ez)\<lparr>a_heap := h\<rparr>\<rparr>;
        if \<not> ok then Some (ez', ERR_OOM)
        else
          let ms = (if first_obj then Num 0 else
                mulf prev_strain (powf M decay_factor (divf (subf (ez_interval_end ez) prev_time) (Num 1000))));
              ie = addf (ez_interval_end ez) (mulf STRAIN_STEP (ez_speed_mul ez)) in
          strain_loop M decay_factor cur_time prev_time prev_strain first_obj
            (ez'\<lparr>ez_max_strain := ms, ez_interval_end := ie\<rparr>)
      } else Some (ez, 0))"
  by pat_completeness auto
termination
proof (relation "measure (\<lambda>(M, d, c, p, s, f, ez). nat (INT_MAX + 1 - arr_len (ez_highest_strains ez)))",
    goal_cases)
  case (2 M d c p s f ez x hs y h ok ez' ms ie)
  then have "array_append sizeof_float (ez_highest_strains ez) (ez_max_strain ez) (a_heap (ez_mem ez)) = Some (hs, h, True)"
    by auto
  from array_append_len [OF this] have
    "in_int (arr_len (ez_highest_strains ez) + 1)" "arr_len hs = arr_len (ez_highest_strains ez) + 1"
    by (auto simp: arr_len_def)
  with 2 show ?case by (auto simp: in_int_iff INT_MAX_def arr_len_def)
qed auto

declare strain_loop.simps [simp del]

text \<open>The three ways a round of the loop goes, and induction over the rounds.\<close>

definition strain_room :: "ezpp \<Rightarrow> nat" where
  "strain_room ez = nat (INT_MAX + 1 - arr_len (ez_highest_strains ez))"

lemma strain_loop_cases:
  assumes "strain_loop M d ct pt ps first ez = Some (ez', n)"
  obtains (stop) "\<not> flt (ez_interval_end ez) ct" "ez' = ez" "n = 0"
  | (oom) h hs where "n = ERR_OOM" "ez' = ez\<lparr>ez_highest_strains := hs, ez_mem := (ez_mem ez)\<lparr>a_heap := h\<rparr>\<rparr>"
      "arr_items hs = arr_items (ez_highest_strains ez)"
  | (round) h hs ms where "flt (ez_interval_end ez) ct"
      "strain_loop M d ct pt ps first (ez\<lparr>ez_highest_strains := hs, ez_mem := (ez_mem ez)\<lparr>a_heap := h\<rparr>,
         ez_max_strain := ms, ez_interval_end := addf (ez_interval_end ez) (mulf STRAIN_STEP (ez_speed_mul ez))\<rparr>) = Some (ez', n)"
      "arr_items hs = arr_items (ez_highest_strains ez) @ [ez_max_strain ez]"
      "nat (INT_MAX + 1 - arr_len hs) < strain_room ez"
proof (cases "flt (ez_interval_end ez) ct")
  case False
  with assms show thesis by (intro stop) (subst (asm) strain_loop.simps, simp)+
next
  case True
  with assms obtain hs h ok where
    a: "array_append sizeof_float (ez_highest_strains ez) (ez_max_strain ez) (a_heap (ez_mem ez)) = Some (hs, h, ok)"
    by (subst (asm) strain_loop.simps) (auto elim!: bind_SomeE)
  note F = array_append_frame(1) [OF a]
  show thesis
  proof (cases ok)
    case False
    with assms True a F show thesis
      by (intro oom [where h = h and hs = hs]) (subst (asm) strain_loop.simps, auto)+
  next
    case ok: True
    with array_append_len [of sizeof_float "ez_highest_strains ez" "ez_max_strain ez" "a_heap (ez_mem ez)" hs h] a
    have "in_int (arr_len (ez_highest_strains ez) + 1)" "arr_len hs = arr_len (ez_highest_strains ez) + 1"
      by (auto simp: arr_len_def)
    then have m: "nat (INT_MAX + 1 - arr_len hs) < strain_room ez"
      by (auto simp: in_int_iff INT_MAX_def strain_room_def)
    from assms True a ok have "strain_loop M d ct pt ps first (ez\<lparr>ez_highest_strains := hs, ez_mem := (ez_mem ez)\<lparr>a_heap := h\<rparr>,
         ez_max_strain := (if first then Num 0 else mulf ps (powf M d (divf (subf (ez_interval_end ez) pt) (Num 1000)))),
         ez_interval_end := addf (ez_interval_end ez) (mulf STRAIN_STEP (ez_speed_mul ez))\<rparr>) = Some (ez', n)"
      by (subst (asm) strain_loop.simps) (simp add: Let_def split: if_split_asm)
    from round [OF True this _ m] F ok show thesis by simp
  qed
qed

lemma strain_loop_induct:
  assumes "\<And>ez. (\<And>ez2. strain_room ez2 < strain_room ez \<Longrightarrow> P ez2) \<Longrightarrow> P ez"
  shows "P ez"
  by (induction "strain_room ez" arbitrary: ez rule: less_induct) (use assms in blast)

definition d_update_max_strains ::
  "libm \<Rightarrow> ezpp \<Rightarrow> fp \<Rightarrow> fp \<Rightarrow> fp \<Rightarrow> fp \<Rightarrow> fp \<Rightarrow> bool \<Rightarrow> (ezpp \<times> int) option" where
  "d_update_max_strains M ez decay_factor cur_time prev_time cur_strain prev_strain first_obj = do {
     (ez, err) \<leftarrow> strain_loop M decay_factor cur_time prev_time prev_strain first_obj ez;
     if err < 0 then Some (ez, err)
     else Some (ez\<lparr>ez_max_strain := al_max (ez_max_strain ez) cur_strain\<rparr>, 0)
   }"

text \<open>
  \<^verbatim>\<open>qsort\<close> with \<^verbatim>\<open>dbl_desc\<close>. The comparator is an ordering on floats other than NaN; with a NaN it
  is inconsistent and \<^verbatim>\<open>qsort\<close> is undefined. The only distinct floats it calls equal are the two
  zeros.
\<close>

definition dbl_desc :: "fp \<Rightarrow> fp \<Rightarrow> int" where
  "dbl_desc x y = (if flt x y then 1 else if feq x y then 0 else - 1)"

fun insert_by :: "('a \<Rightarrow> 'a \<Rightarrow> int) \<Rightarrow> 'a \<Rightarrow> 'a list \<Rightarrow> 'a list" where
  "insert_by cmp x [] = [x]"
| "insert_by cmp x (y # ys) = (if cmp x y \<le> 0 then x # y # ys else y # insert_by cmp x ys)"

definition qsort_by :: "('a \<Rightarrow> 'a \<Rightarrow> int) \<Rightarrow> 'a list \<Rightarrow> 'a list" where
  "qsort_by cmp xs = foldr (insert_by cmp) xs []"

fun weigh :: "libm \<Rightarrow> fp list \<Rightarrow> fp \<Rightarrow> fp \<Rightarrow> fp \<Rightarrow> fp \<times> fp" where
  "weigh M [] difficulty tot weight = (difficulty, tot)"
| "weigh M (x # xs) difficulty tot weight =
     weigh M xs (addf difficulty (mulf x weight)) (addf tot (powf M x (dlit (12 / 10)))) (mulf weight DECAY_WEIGHT)"

text \<open>The handle with its strains sorted, \<^verbatim>\<open>*pdiff\<close> and \<^verbatim>\<open>*ptotal\<close>.\<close>

definition d_weigh_strains :: "libm \<Rightarrow> ezpp \<Rightarrow> (ezpp \<times> fp \<times> fp) option" where
  "d_weigh_strains M ez =
     (let strains = arr_items (ez_highest_strains ez) in
      if NaN \<in> set strains then None
      else
        let sorted = qsort_by dbl_desc strains;
            (difficulty, tot) = weigh M sorted (Num 0) (Num 0) (Num 1) in
        Some (ez\<lparr>ez_highest_strains := (ez_highest_strains ez)\<lparr>arr_items := sorted\<rparr>\<rparr>, difficulty, tot))"

subsection \<open>One kind of difficulty\<close>

text \<open>The loop over the objects, with the previous object as the source has updated it.\<close>

fun strain_objects :: "libm \<Rightarrow> int \<Rightarrow> ezpp \<Rightarrow> object option \<Rightarrow> object list \<Rightarrow> (ezpp \<times> object list \<times> int) option" where
  "strain_objects M type ez prev [] = Some (ez, [], 0)"
| "strain_objects M type ez prev (ob # obs) = do {
     (ob, prev_time, prev_strain) \<leftarrow> (case prev of
       None \<Rightarrow> Some (ob, Num 0, Num 0)
     | Some p \<Rightarrow> do {
         ob \<leftarrow> d_calc_strain M type ob p (ez_speed_mul ez);
         s \<leftarrow> sel2 (o_strains p) type;
         Some (ob, o_time p, s)
       });
     base \<leftarrow> decay_base type;
     cur \<leftarrow> sel2 (o_strains ob) type;
     (ez, err) \<leftarrow> d_update_max_strains M ez base (o_time ob) prev_time cur prev_strain (prev = None);
     if err < 0 then Some (ez, ob # obs, err)
     else do {
       (ez, obs, err) \<leftarrow> strain_objects M type ez (Some ob) obs;
       Some (ez, ob # obs, err)
     }
   }"

definition d_calc_individual :: "libm \<Rightarrow> ezpp \<Rightarrow> int \<Rightarrow> (ezpp \<times> int) option" where
  "d_calc_individual M ez type = do {
     o0 \<leftarrow> rd (arr_items (ez_objects ez)) 0;
     let step = mulf STRAIN_STEP (ez_speed_mul ez);
     let ez = ez\<lparr>ez_max_strain := Num 0,
       ez_interval_end := mulf (mulf (to_float (fceil (divf (o_time o0) step))) STRAIN_STEP) (ez_speed_mul ez),
       ez_highest_strains := (ez_highest_strains ez)\<lparr>arr_items := []\<rparr>\<rparr>;
     (ez, obs, err) \<leftarrow> strain_objects M type ez None (arr_items (ez_objects ez));
     let ez = ez\<lparr>ez_objects := (ez_objects ez)\<lparr>arr_items := obs\<rparr>\<rparr>;
     if err < 0 then Some (ez, err)
     else do {
       (hs, h, ok) \<leftarrow> array_append sizeof_float (ez_highest_strains ez) (ez_max_strain ez) (a_heap (ez_mem ez));
       let ez = ez\<lparr>ez_highest_strains := hs, ez_mem := (ez_mem ez)\<lparr>a_heap := h\<rparr>\<rparr>;
       if \<not> ok then Some (ez, ERR_OOM)
       else if type = DIFF_SPEED then do {
         (ez, d, t) \<leftarrow> d_weigh_strains M ez;
         Some (ez\<lparr>ez_speed_stars := d, ez_speed_difficulty := t\<rparr>, 0)
       } else if type = DIFF_AIM then do {
         (ez, d, t) \<leftarrow> d_weigh_strains M ez;
         Some (ez\<lparr>ez_aim_stars := d, ez_aim_difficulty := t\<rparr>, 0)
       } else Some (ez, 0)
     }
   }"

definition d_length_bonus :: "libm \<Rightarrow> fp \<Rightarrow> fp \<Rightarrow> fp" where
  "d_length_bonus M stars difficulty =
     addf (flit (32 / 100)) (mulf (Num (1 / 2))
       (subf (to_float (m_log10 M (addf difficulty stars))) (to_float (m_log10 M stars))))"

definition d_std :: "libm \<Rightarrow> ezpp \<Rightarrow> (ezpp \<times> int) option" where
  "d_std M ez = do {
     (ez, res) \<leftarrow> d_calc_individual M ez DIFF_SPEED;
     if res < 0 then Some (ez, res)
     else do {
       (ez, res) \<leftarrow> d_calc_individual M ez DIFF_AIM;
       if res < 0 then Some (ez, res)
       else
         let ez = ez\<lparr>ez_aim_length_bonus := d_length_bonus M (ez_aim_stars ez) (ez_aim_difficulty ez)\<rparr>;
             ez = ez\<lparr>ez_speed_length_bonus := d_length_bonus M (ez_speed_stars ez) (ez_speed_difficulty ez)\<rparr>;
             ez = ez\<lparr>ez_aim_stars := mulf (to_float (fsqrt (ez_aim_stars ez))) STAR_SCALING_FACTOR\<rparr>;
             ez = ez\<lparr>ez_speed_stars := mulf (to_float (fsqrt (ez_speed_stars ez))) STAR_SCALING_FACTOR\<rparr>;
             ez = (if has (ez_mods ez) MODS_TOUCH_DEVICE
               then ez\<lparr>ez_aim_stars := powf M (ez_aim_stars ez) (flit (8 / 10))\<rparr> else ez) in
         Some (ez\<lparr>ez_stars := addf (addf (ez_aim_stars ez) (ez_speed_stars ez))
           (mulf (to_float (fabs (subf (ez_speed_stars ez) (ez_aim_stars ez)))) EXTREME_SCALING_FACTOR)\<rparr>, 0)
     }
   }"

end
