(* ===== verification/DiffTaiko.thy ===== *)
theory DiffTaiko
  imports DiffStd Parser
begin

text \<open>
  The difficulty of taiko maps: the bonuses and the strain of one hit, the stream of hits that
  a slider of a converted map becomes, and \<^verbatim>\<open>d_taiko\<close>.

  The source keeps the current and the previous hit in two structures and swaps pointers to
  them. Every field of the current one is assigned before it is used, so the model only carries
  the previous hit, \<open>None\<close> before the first. The arguments that the source takes from the
  unset previous hit for the first object are not used by \<^verbatim>\<open>d_update_max_strains\<close>.
  The loop over the ticks of a slider need not end (the tick spacing can vanish against the
  time), so it is a partial function: \<open>None\<close> is also the value of a run that does not return.
\<close>

definition TAIKO_STAR_SCALING_FACTOR :: fp where "TAIKO_STAR_SCALING_FACTOR = flit (4125 / 100000)"
definition TAIKO_TYPE_CHANGE_BONUS :: fp where "TAIKO_TYPE_CHANGE_BONUS = Num (3 / 4)"
definition TAIKO_RHYTHM_CHANGE_BONUS :: fp where "TAIKO_RHYTHM_CHANGE_BONUS = Num 1"
definition TAIKO_RHYTHM_CHANGE_BASE_THRESHOLD :: fp where "TAIKO_RHYTHM_CHANGE_BASE_THRESHOLD = flit (2 / 10)"
definition TAIKO_RHYTHM_CHANGE_BASE :: fp where "TAIKO_RHYTHM_CHANGE_BASE = Num 2"

record taiko_object =
  k_hit :: bool
  k_strain :: fp
  k_time :: fp
  k_time_elapsed :: fp
  k_rim :: bool
  k_same_since :: int
  k_last_switch_even :: int

definition taiko_change_bonus :: "taiko_object \<Rightarrow> taiko_object \<Rightarrow> (fp \<times> taiko_object) option" where
  "taiko_change_bonus cur prev =
     (if k_rim prev \<noteq> k_rim cur then
        let cur = cur\<lparr>k_last_switch_even := (if cmod (k_same_since prev) 2 = 0 then 1 else 0)\<rparr> in
        if k_last_switch_even prev \<noteq> k_last_switch_even cur \<and> k_last_switch_even prev \<noteq> - 1
        then Some (TAIKO_TYPE_CHANGE_BONUS, cur) else Some (Num 0, cur)
      else do {
        n \<leftarrow> ck (k_same_since prev + 1);
        Some (Num 0, cur\<lparr>k_last_switch_even := k_last_switch_even prev, k_same_since := n\<rparr>)
      })"

definition taiko_rhythm_bonus :: "libm \<Rightarrow> taiko_object \<Rightarrow> taiko_object \<Rightarrow> fp" where
  "taiko_rhythm_bonus M cur prev =
     (if feq (k_time_elapsed cur) (Num 0) \<or> feq (k_time_elapsed prev) (Num 0) then Num 0
      else
        let ratio = al_max (divf (k_time_elapsed prev) (k_time_elapsed cur))
              (divf (k_time_elapsed cur) (k_time_elapsed prev)) in
        if fle (Num 8) ratio then Num 0
        else
          let diff = to_float (ffmod (divd (m_log M ratio) (m_log M TAIKO_RHYTHM_CHANGE_BASE)) (Num 1)) in
          if flt TAIKO_RHYTHM_CHANGE_BASE_THRESHOLD diff
            \<and> flt diff (subf (Num 1) TAIKO_RHYTHM_CHANGE_BASE_THRESHOLD)
          then TAIKO_RHYTHM_CHANGE_BONUS else Num 0)"

definition taiko_strain :: "libm \<Rightarrow> taiko_object \<Rightarrow> taiko_object \<Rightarrow> taiko_object option" where
  "taiko_strain M cur prev = do {
     base \<leftarrow> decay_base 0;
     let decay = powf M base (divf (k_time_elapsed cur) (Num 1000));
     (addition, cur) \<leftarrow>
       (if k_hit prev \<and> k_hit cur \<and> flt (subf (k_time cur) (k_time prev)) (Num 1000) then do {
          (b, cur) \<leftarrow> taiko_change_bonus cur prev;
          Some (addf (addf (Num 1) b) (taiko_rhythm_bonus M cur prev), cur)
        } else Some (Num 1, cur));
     let factor = (if flt (k_time_elapsed cur) (Num 50)
       then addf (flit (4 / 10)) (divf (mulf (flit (6 / 10)) (k_time_elapsed cur)) (Num 50)) else Num 1);
     Some (cur\<lparr>k_strain := addf (mulf (k_strain prev) decay) (mulf addition factor)\<rparr>)
   }"

definition is_rim :: "int \<Rightarrow> bool" where
  "is_rim sound \<longleftrightarrow> has sound (SOUND_CLAP OR SOUND_WHISTLE)"

definition fresh_hit :: "bool \<Rightarrow> fp \<Rightarrow> fp \<Rightarrow> bool \<Rightarrow> taiko_object" where
  "fresh_hit hit time elapsed rim = \<lparr>k_hit = hit, k_strain = Num 1, k_time = time,
     k_time_elapsed = elapsed, k_rim = rim, k_same_since = 1, k_last_switch_even = - 1\<rparr>"

text \<open>
  The hits of a drum roll, from time \<open>j\<close>. The loop is only entered for \<^verbatim>\<open>i > 0\<close>, so the test
  \<^verbatim>\<open>i > 0 || j > o->time\<close> holds and the last argument of \<^verbatim>\<open>d_update_max_strains\<close> is false.
\<close>

partial_function (option) slider_hits ::
  "libm \<Rightarrow> object \<Rightarrow> fp \<Rightarrow> int \<Rightarrow> taiko_object \<Rightarrow> ezpp \<Rightarrow> (ezpp \<times> taiko_object \<times> int) option" where
  "slider_hits M ob j isound prev ez =
     (if flt j (addf (addf (o_time ob) (o_duration ob)) (divf (o_tick_spacing ob) (Num 8))) then
        Option.bind (load_int (a_heap (ez_mem ez)) (o_sound_types ob) (nat isound)) (\<lambda>sound_type.
        Option.bind (taiko_strain M (fresh_hit True j (divf (subf j (k_time prev)) (ez_speed_mul ez)) (is_rim sound_type)) prev) (\<lambda>cur.
        Option.bind (decay_base 0) (\<lambda>base.
        Option.bind (d_update_max_strains M ez base (k_time cur) (k_time prev) (k_strain cur) (k_strain prev) False) (\<lambda>r.
        if snd r < 0 then Some (fst r, cur, snd r)
        else Option.bind (ck (isound + 1)) (\<lambda>n.
          if o_nsound_types ob = 0 then None
          else slider_hits M ob (addf j (o_tick_spacing ob)) (cmod n (o_nsound_types ob)) cur (fst r))))))
      else Some (ez, prev, 0))"

declare slider_hits.simps [code]

fun taiko_objects :: "libm \<Rightarrow> taiko_object option \<Rightarrow> object list \<Rightarrow> ezpp \<Rightarrow> (ezpp \<times> int) option" where
  "taiko_objects M prev [] ez = Some (ez, 0)"
| "taiko_objects M prev (ob # obs) ez =
     (if o_sound_types ob = None then Some (ez, ERR_SYNTAX)
      else do {
        sound \<leftarrow> load_int (a_heap (ez_mem ez)) (o_sound_types ob) 0;
        let elapsed = (case prev of None \<Rightarrow> Num 0
          | Some p \<Rightarrow> divf (subf (o_time ob) (k_time p)) (ez_speed_mul ez));
        let cur = fresh_hit (has (o_type ob) OBJ_CIRCLE) (o_time ob) elapsed (is_rim sound);
        if ez_original_mode ez \<noteq> MODE_TAIKO \<and> has (o_type ob) OBJ_SLIDER
          \<and> o_slider_is_drum_roll ob \<noteq> 0 \<and> prev \<noteq> None
        then do {
          (ez, p, err) \<leftarrow> slider_hits M ob (o_time ob) 0 (the prev) ez;
          if err < 0 then Some (ez, err) else taiko_objects M (Some p) obs ez
        }
        else do {
          (cur, prev_time, prev_strain) \<leftarrow> (case prev of None \<Rightarrow> Some (cur, Num 0, Num 0)
            | Some p \<Rightarrow> do { cur \<leftarrow> taiko_strain M cur p; Some (cur, k_time p, k_strain p) });
          base \<leftarrow> decay_base 0;
          (ez, err) \<leftarrow> d_update_max_strains M ez base (k_time cur) prev_time (k_strain cur) prev_strain (prev = None);
          if err < 0 then Some (ez, err) else taiko_objects M (Some cur) obs ez
        }
      })"

definition d_taiko :: "libm \<Rightarrow> ezpp \<Rightarrow> (ezpp \<times> int) option" where
  "d_taiko M ez = do {
     let ez = ez\<lparr>ez_highest_strains := (ez_highest_strains ez)\<lparr>arr_items := []\<rparr>, ez_max_strain := Num 0,
       ez_interval_end := mulf STRAIN_STEP (ez_speed_mul ez)\<rparr>;
     let n = nat (ez_nobjects ez);
     if length (arr_items (ez_objects ez)) < n then None
     else do {
       (ez, err) \<leftarrow> taiko_objects M None (take n (arr_items (ez_objects ez))) ez;
       if err < 0 then Some (ez, err)
       else do {
         (ez, d, t) \<leftarrow> d_weigh_strains M ez;
         let ez = ez\<lparr>ez_speed_stars := mulf d TAIKO_STAR_SCALING_FACTOR\<rparr>;
         Some (ez\<lparr>ez_stars := ez_speed_stars ez\<rparr>, 0)
       }
     }
   }"

definition d_calc :: "libm \<Rightarrow> ezpp \<Rightarrow> (ezpp \<times> int) option" where
  "d_calc M ez =
     (if ez_mode ez = MODE_STD then d_std M ez
      else if ez_mode ez = MODE_TAIKO then d_taiko M ez
      else Some (ez, ERR_NOTIMPLEMENTED))"

end
