(* ===== verification/PP.thy ===== *)
theory PP
  imports Acc DiffStd
begin

text \<open>
  Performance points: \<^verbatim>\<open>base_pp\<close>, \<^verbatim>\<open>pp_std\<close> and \<^verbatim>\<open>pp_taiko\<close>. Where the source multiplies a
  field step by step, the model names the factors and multiplies them in the same order.
\<close>

definition base_pp :: "libm \<Rightarrow> fp \<Rightarrow> fp" where
  "base_pp M stars =
     divf (powf M (subf (mulf (Num 5) (al_max (Num 1) (divf stars (flit (675 / 10000))))) (Num 4)) (Num 3)) (Num 100000)"

definition std_length_bonus :: "libm \<Rightarrow> int \<Rightarrow> fp" where
  "std_length_bonus M nobjects =
     (let over = divf (i2f nobjects) (Num 2000) in
      addf (addf (flit (95 / 100)) (mulf (flit (4 / 10)) (al_min (Num 1) over)))
        (if nobjects > 2000 then mulf (to_float (m_log10 M over)) (Num (1 / 2)) else Num 0))"

definition std_ar_bonus :: "fp \<Rightarrow> fp" where
  "std_ar_bonus ar =
     (if flt (flit (1033 / 100)) ar then addf (Num 1) (mulf (flit (3 / 10)) (subf ar (flit (1033 / 100))))
      else if flt ar (Num 8) then addf (Num 1) (mulf (flit (1 / 100)) (subf (Num 8) ar))
      else Num 1)"

definition std_fl_bonus :: "int \<Rightarrow> fp" where
  "std_fl_bonus nobjects =
     (let b = addf (Num 1) (mulf (flit (35 / 100)) (al_min (Num 1) (divf (i2f nobjects) (Num 200))));
          b = (if nobjects > 200
            then addf b (mulf (flit (3 / 10)) (al_min (Num 1) (divf (i2f (nobjects - 200)) (Num 300)))) else b) in
      if nobjects > 500 then addf b (divf (i2f (nobjects - 500)) (Num 1200)) else b)"

text \<open>A field multiplied by a list of factors, from the left.\<close>

definition mul_all :: "fp \<Rightarrow> fp list \<Rightarrow> fp" where
  "mul_all x fs = foldl mulf x fs"

definition std_aim_pp :: "libm \<Rightarrow> ezpp \<Rightarrow> fp \<Rightarrow> fp \<Rightarrow> fp \<Rightarrow> fp \<Rightarrow> fp \<Rightarrow> fp \<Rightarrow> fp" where
  "std_aim_pp M ez miss_penality combo_break ar_bonus hd_bonus accuracy od_squared =
     mul_all (base_pp M (ez_aim_stars ez))
       ([std_length_bonus M (ez_nobjects ez), miss_penality, combo_break, ar_bonus, hd_bonus]
        @ (if has (ez_mods ez) MODS_FL then [std_fl_bonus (ez_nobjects ez)] else [])
        @ [addf (Num (1 / 2)) (divf accuracy (Num 2)), addf (flit (98 / 100)) (divf od_squared (Num 2500))])"

definition std_speed_pp :: "libm \<Rightarrow> ezpp \<Rightarrow> fp \<Rightarrow> fp \<Rightarrow> fp \<Rightarrow> fp \<Rightarrow> fp \<Rightarrow> fp \<Rightarrow> fp" where
  "std_speed_pp M ez miss_penality combo_break ar_bonus hd_bonus accuracy od_squared =
     mul_all (base_pp M (ez_speed_stars ez))
       ([std_length_bonus M (ez_nobjects ez), miss_penality, combo_break]
        @ (if flt (flit (1033 / 100)) (ez_ar ez) then [ar_bonus] else [])
        @ [hd_bonus, addf (flit (2 / 100)) accuracy, addf (flit (96 / 100)) (divf od_squared (Num 1600))])"

definition std_acc_pp :: "libm \<Rightarrow> ezpp \<Rightarrow> fp \<Rightarrow> int \<Rightarrow> fp" where
  "std_acc_pp M ez real_acc ncircles =
     mul_all (powf M (flit (152163 / 100000)) (ez_od ez))
       ([powf M real_acc (Num 24), flit (283 / 100),
         al_min (flit (115 / 100)) (powf M (divf (i2f ncircles) (Num 1000)) (flit (3 / 10)))]
        @ (if has (ez_mods ez) MODS_HD then [flit (108 / 100)] else [])
        @ (if has (ez_mods ez) MODS_FL then [flit (102 / 100)] else []))"

definition std_total_pp :: "libm \<Rightarrow> int \<Rightarrow> fp \<Rightarrow> fp \<Rightarrow> fp \<Rightarrow> fp" where
  "std_total_pp M mods aim_pp speed_pp acc_pp =
     (let final_multiplier = mul_all (flit (112 / 100))
            ((if has mods MODS_NF then [flit (90 / 100)] else []) @ (if has mods MODS_SO then [flit (95 / 100)] else []));
          e = flit (11 / 10) in
      to_float (muld (m_pow M (addd (addd (m_pow M aim_pp e) (m_pow M speed_pp e)) (m_pow M acc_pp e)) (divf (Num 1) e))
        final_multiplier))"

text \<open>Scorev1 ignores sliders and spinners in the accuracy; scorev2 counts every object.\<close>

definition std_real_acc :: "ezpp \<Rightarrow> fp \<Rightarrow> (fp \<times> int) option" where
  "std_real_acc ez accuracy =
     (if ez_score_version ez = 1 then do {
        k \<leftarrow> ck (ez_n300 ez - ez_nsliders ez);
        k \<leftarrow> ck (k - ez_nspinners ez);
        a \<leftarrow> acc_calc (al_maxi 0 k) (ez_n100 ez) (ez_n50 ez) (ez_nmiss ez);
        Some (a, ez_ncircles ez)
      } else Some (accuracy, ez_nobjects ez))"

definition std_fill :: "libm \<Rightarrow> ezpp \<Rightarrow> fp \<Rightarrow> fp \<Rightarrow> fp \<Rightarrow> fp \<Rightarrow> int \<Rightarrow> ezpp" where
  "std_fill M ez miss_penality combo_break accuracy real_acc ncircles =
     (let ar_bonus = std_ar_bonus (ez_ar ez);
          hd_bonus = (if has (ez_mods ez) MODS_HD
            then addf (Num 1) (mulf (flit (4 / 100)) (subf (Num 12) (ez_ar ez))) else Num 1);
          od_squared = powf M (ez_od ez) (Num 2);
          aim_pp = std_aim_pp M ez miss_penality combo_break ar_bonus hd_bonus accuracy od_squared;
          speed_pp = std_speed_pp M ez miss_penality combo_break ar_bonus hd_bonus accuracy od_squared;
          acc_pp = std_acc_pp M ez real_acc ncircles in
      ez\<lparr>ez_aim_pp := aim_pp, ez_speed_pp := speed_pp, ez_acc_pp := acc_pp,
         ez_pp := std_total_pp M (ez_mods ez) aim_pp speed_pp acc_pp,
         ez_accuracy_percent := mulf accuracy (Num 100)\<rparr>)"

definition pp_std :: "libm \<Rightarrow> ezpp \<Rightarrow> (ezpp \<times> int) option" where
  "pp_std M ez = do {
     let miss_penality = powf M (flit (97 / 100)) (i2d (ez_nmiss ez));
     let combo_break = divf (powf M (i2d (ez_combo ez)) (flit (8 / 10))) (powf M (i2d (ez_max_combo ez)) (flit (8 / 10)));
     k \<leftarrow> ck (ez_nobjects ez - ez_nsliders ez);
     k \<leftarrow> ck (k - ez_ncircles ez);
     let ez = ez\<lparr>ez_nspinners := k, ez_max_combo := (if ez_max_combo ez \<le> 0 then 1 else ez_max_combo ez)\<rparr>;
     accuracy \<leftarrow> acc_calc (ez_n300 ez) (ez_n100 ez) (ez_n50 ez) (ez_nmiss ez);
     if ez_score_version ez \<noteq> 1 \<and> ez_score_version ez \<noteq> 2 then Some (ez, ERR_NOTIMPLEMENTED)
     else do {
       (real_acc, ncircles) \<leftarrow> std_real_acc ez accuracy;
       Some (std_fill M ez miss_penality combo_break accuracy real_acc ncircles, 0)
     }
   }"

definition taiko_total_pp :: "libm \<Rightarrow> int \<Rightarrow> fp \<Rightarrow> fp \<Rightarrow> fp" where
  "taiko_total_pp M mods speed_pp acc_pp =
     (let final_multiplier = mul_all (flit (11 / 10))
            ((if has mods MODS_NF then [flit (90 / 100)] else []) @ (if has mods MODS_HD then [flit (110 / 100)] else []));
          e = flit (11 / 10) in
      mulf (powf M (addd (m_pow M speed_pp e) (m_pow M acc_pp e)) (divf (Num 1) e)) final_multiplier)"

definition taiko_combo_factor :: "libm \<Rightarrow> ezpp \<Rightarrow> fp list option" where
  "taiko_combo_factor M ez =
     (if ez_max_combo ez > 0 then do {
        d \<leftarrow> ck (ez_combo ez - ez_nmiss ez);
        Some [al_min (divf (powf M (i2d d) (Num (1 / 2))) (powf M (i2d (ez_max_combo ez)) (Num (1 / 2)))) (Num 1)]
      } else Some [])"

definition taiko_fill :: "libm \<Rightarrow> ezpp \<Rightarrow> fp \<Rightarrow> fp list \<Rightarrow> ezpp" where
  "taiko_fill M ez accuracy combo_factor =
     (let combo_share = divf (i2f (ez_max_combo ez)) (Num 1500);
          acc_pp = mul_all (powf M (divf (Num 150) (ez_odms ez)) (flit (11 / 10)))
            [mulf (powf M accuracy (Num 15)) (Num 22), al_min (flit (115 / 100)) (powf M combo_share (flit (3 / 10)))];
          length_bonus = addf (Num 1) (mulf (flit (1 / 10)) (al_min (Num 1) combo_share));
          speed_pp = mul_all
            (divf (powf M (subf (mulf (Num 5) (al_max (Num 1) (divf (ez_stars ez) (flit (75 / 10000))))) (Num 4)) (Num 2)) (Num 100000))
            ([length_bonus, powf M (flit (985 / 1000)) (i2d (ez_nmiss ez))] @ combo_factor
             @ (if has (ez_mods ez) MODS_HD then [flit (1025 / 1000)] else [])
             @ (if has (ez_mods ez) MODS_FL then [mulf (flit (105 / 100)) length_bonus] else [])
             @ [accuracy]) in
      ez\<lparr>ez_acc_pp := acc_pp, ez_speed_pp := speed_pp, ez_pp := taiko_total_pp M (ez_mods ez) speed_pp acc_pp,
         ez_accuracy_percent := mulf accuracy (Num 100)\<rparr>)"

definition pp_taiko :: "libm \<Rightarrow> ezpp \<Rightarrow> (ezpp \<times> int) option" where
  "pp_taiko M ez = do {
     k \<leftarrow> ck (ez_max_combo ez - ez_n100 ez);
     k \<leftarrow> ck (k - ez_nmiss ez);
     let ez = ez\<lparr>ez_n300 := al_maxi 0 k\<rparr>;
     accuracy \<leftarrow> taiko_acc_calc (ez_n300 ez) (ez_n100 ez) (ez_nmiss ez);
     combo_factor \<leftarrow> taiko_combo_factor M ez;
     Some (taiko_fill M ez accuracy combo_factor, 0)
   }"

end
