(* ===== verification/Iface.thy ===== *)
theory Iface
  imports ParseMap DiffTaiko PP
begin

text \<open>
  The public interface of oppai.c: \<^verbatim>\<open>params_from_map\<close>, \<^verbatim>\<open>calc\<close>, the life of a handle, the
  entry points, the getters and the setters.

  The environment is a record: the functions of \<^verbatim>\<open>math.h\<close> left open by IEEE 754, and the files
  (\<open>e_files\<close> is \<^verbatim>\<open>fopen\<close> and the bytes that can then be read, \<open>e_stdin\<close> the standard input).
  The memory that \<^verbatim>\<open>strclone\<close> and \<^verbatim>\<open>memclone\<close> obtain is given back by \<^verbatim>\<open>free_owned_map\<close> under
  \<open>OWNS_MAP_BIT\<close>; the model keeps the contents of the copy and the bit.
\<close>

record env =
  e_libm :: libm
  e_files :: "string \<Rightarrow> string option"
  e_stdin :: string

subsection \<open>Calculation\<close>

definition params_from_map :: "env \<Rightarrow> ezpp \<Rightarrow> (ezpp \<times> int) option" where
  "params_from_map E ez = do {
     let M = e_libm E;
     let ez = ez\<lparr>ez_ar := Num 5, ez_cs := Num 5, ez_hp := Num 5, ez_od := Num 5,
       ez_sv := Num 1, ez_tick_rate := Num 1,
       ez_p_flags := (if ez_mode_override ez \<noteq> 0 then P_OVERRIDE_MODE else 0)\<rparr>;
     (ez, res) \<leftarrow> (case ez_data ez of
         Some d \<Rightarrow> p_map_mem M ez (Some d) (ez_data_size ez)
       | None \<Rightarrow> (case ez_map ez of
           None \<Rightarrow> None
         | Some m \<Rightarrow> if m = ''-'' then p_map M ez (Some (e_stdin E))
             else (case e_files E m of None \<Rightarrow> Some (ez, ERR_IO) | Some f \<Rightarrow> p_map M ez (Some f))));
     if res < 0 then Some (ez, res)
     else if feq (ez_aim_stars ez) (Num 0) \<and> feq (ez_speed_stars ez) (Num 0) then d_calc M ez
     else Some (ez, res)
   }"

definition override_stats :: "ezpp \<Rightarrow> ezpp" where
  "override_stats ez =
     (let ez = (if fle (Num 0) (ez_base_ar ez) then ez\<lparr>ez_ar := ez_base_ar ez\<rparr> else ez);
          ez = (if fle (Num 0) (ez_base_od ez) then ez\<lparr>ez_od := ez_base_od ez\<rparr> else ez);
          ez = (if fle (Num 0) (ez_base_cs ez) then ez\<lparr>ez_cs := ez_base_cs ez\<rparr> else ez) in
      if fle (Num 0) (ez_base_hp ez) then ez\<lparr>ez_hp := ez_base_hp ez\<rparr> else ez)"

text \<open>The hit counts, from the accuracy when one is set.\<close>

definition calc_counts :: "ezpp \<Rightarrow> ezpp option" where
  "calc_counts ez = do {
     ez \<leftarrow> (if fle (Num 0) (ez_accuracy_percent ez) then
         if ez_mode ez = MODE_STD then do {
           (n300, n100, n50) \<leftarrow> acc_round (ez_accuracy_percent ez) (ez_nobjects ez) (ez_nmiss ez);
           Some (ez\<lparr>ez_n300 := n300, ez_n100 := n100, ez_n50 := n50\<rparr>)
         } else if ez_mode ez = MODE_TAIKO then do {
           (n300, n100) \<leftarrow> taiko_acc_round (ez_accuracy_percent ez) (ez_max_combo ez) (ez_nmiss ez);
           Some (ez\<lparr>ez_n300 := n300, ez_n100 := n100\<rparr>)
         } else Some ez
       else Some ez);
     ez \<leftarrow> (if ez_combo ez < 0 then do {
         c \<leftarrow> ck (ez_max_combo ez - ez_nmiss ez);
         Some (ez\<lparr>ez_combo := c\<rparr>)
       } else Some ez);
     k \<leftarrow> ck (ez_nobjects ez - ez_n100 ez);
     k \<leftarrow> ck (k - ez_n50 ez);
     k \<leftarrow> ck (k - ez_nmiss ez);
     Some (ez\<lparr>ez_n300 := k\<rparr>)
   }"

definition calc_pp :: "env \<Rightarrow> ezpp \<Rightarrow> (ezpp \<times> int) option" where
  "calc_pp E ez = do {
     let ez = (if ez_mode ez = MODE_TAIKO then ez\<lparr>ez_stars := ez_speed_stars ez\<rparr> else ez);
     ez \<leftarrow> calc_counts ez;
     if ez_mode ez = MODE_STD then pp_std (e_libm E) ez
     else if ez_mode ez = MODE_TAIKO then pp_taiko (e_libm E) ez
     else Some (ez, ERR_NOTIMPLEMENTED)
   }"

definition calc :: "env \<Rightarrow> ezpp \<Rightarrow> (ezpp \<times> int) option" where
  "calc E ez = do {
     (ez, res) \<leftarrow>
       (if ez_max_combo ez = 0 \<and> (ez_map ez \<noteq> None \<or> ez_data ez \<noteq> None) then
          params_from_map E (if has (ez_flags ez) AUTOCALC_BIT
            then ez\<lparr>ez_base_ar := Num (- 1), ez_base_od := Num (- 1), ez_base_cs := Num (- 1), ez_base_hp := Num (- 1)\<rparr>
            else ez)
        else Some (fst (mods_apply (override_stats ez)), 0));
     if res < 0 then Some (ez, res) else calc_pp E ez
   }"

subsection \<open>The life of a handle\<close>

definition init_handle :: "heap \<Rightarrow> ezpp" where
  "init_handle h = \<lparr>ez_map = None, ez_data = None, ez_data_size = 0, ez_flags = 0,
     ez_format_version = 0, ez_mode = MODE_STD, ez_mode_override = 0, ez_original_mode = 0,
     ez_score_version = 1, ez_mods = MODS_NOMOD, ez_combo = - 1, ez_accuracy_percent = Num (- 1),
     ez_n300 = 0, ez_n100 = 0, ez_n50 = 0, ez_nmiss = 0, ez_end = 0, ez_end_time = Num 0,
     ez_base_ar = Num (- 1), ez_base_cs = Num (- 1), ez_base_od = Num (- 1), ez_base_hp = Num (- 1),
     ez_max_combo = 0, ez_title = SPtr None, ez_title_unicode = SPtr None, ez_artist = SPtr None,
     ez_artist_unicode = SPtr None, ez_creator = SPtr None, ez_version = SPtr None,
     ez_ncircles = 0, ez_nsliders = 0, ez_nspinners = 0, ez_nobjects = 0,
     ez_ar = Num 0, ez_od = Num 0, ez_cs = Num 0, ez_hp = Num 0, ez_odms = Num 0, ez_sv = Num 0,
     ez_tick_rate = Num 0, ez_speed_mul = Num 0, ez_stars = Num 0, ez_aim_stars = Num 0,
     ez_aim_difficulty = Num 0, ez_aim_length_bonus = Num 0, ez_speed_stars = Num 0,
     ez_speed_difficulty = Num 0, ez_speed_length_bonus = Num 0, ez_pp = Num 0, ez_aim_pp = Num 0,
     ez_speed_pp = Num 0, ez_acc_pp = Num 0, ez_section = [], ez_p_flags = 0,
     ez_objects = empty_arr, ez_timing_points = empty_arr, ez_interval_end = Num 0,
     ez_max_strain = Num 0, ez_highest_strains = empty_arr,
     ez_mem = \<lparr>a_block = None, a_end = None, a_blocks = empty_arr, a_heap = h\<rparr>\<rparr>"

text \<open>
  \<^verbatim>\<open>calloc\<close> is the first request to the environment; it may fail. The three reservations are
  made on empty arrays and their results are ignored.
\<close>

definition ezpp_new :: "heap \<Rightarrow> ezpp option option" where
  "ezpp_new h =
     (if \<not> h_ok h (h_next h) then Some None
      else do {
        let h = h\<lparr>h_next := h_next h + 1\<rparr>;
        let ez = init_handle h;
        (os, h, _) \<leftarrow> array_reserve_i 600 sizeof_object (ez_objects ez) h;
        (tps, h, _) \<leftarrow> array_reserve_i 16 sizeof_timing (ez_timing_points ez) h;
        (hs, h, _) \<leftarrow> array_reserve_i 600 sizeof_float (ez_highest_strains ez) h;
        Some (Some (ez\<lparr>ez_objects := os, ez_timing_points := tps, ez_highest_strains := hs,
          ez_mem := (ez_mem ez)\<lparr>a_heap := h\<rparr>\<rparr>))
      })"

definition free_owned_map :: "ezpp \<Rightarrow> ezpp" where
  "free_owned_map ez =
     (let ez = (if has (ez_flags ez) OWNS_MAP_BIT
            then ez\<lparr>ez_flags := ez_flags ez AND NOT OWNS_MAP_BIT\<rparr> else ez);
          ez = ez\<lparr>ez_map := None, ez_data := None, ez_data_size := 0\<rparr> in
      if has (ez_flags ez) AUTOCALC_BIT then ez\<lparr>ez_max_combo := 0\<rparr> else ez)"

text \<open>What is left of the memory when the handle is gone.\<close>

definition ezpp_free :: "ezpp \<Rightarrow> heap option" where
  "ezpp_free ez = do {
     let ez = free_owned_map ez;
     let ez = ez\<lparr>ez_objects := array_free (ez_objects ez), ez_timing_points := array_free (ez_timing_points ez),
       ez_highest_strains := array_free (ez_highest_strains ez)\<rparr>;
     A \<leftarrow> m_free (ez_mem ez);
     Some (a_heap A)
   }"

definition ezpp_map :: "env \<Rightarrow> ezpp \<Rightarrow> string option \<Rightarrow> (ezpp \<times> int) option" where
  "ezpp_map E ez mapfile = calc E ((free_owned_map ez)\<lparr>ez_map := mapfile\<rparr>)"

definition ezpp_data :: "env \<Rightarrow> ezpp \<Rightarrow> buf option \<Rightarrow> int \<Rightarrow> (ezpp \<times> int) option" where
  "ezpp_data E ez d data_size =
     calc E ((free_owned_map ez)\<lparr>ez_data := d, ez_data_size := data_size\<rparr>)"

text \<open>A request of memory for a copy: granted or not. A negative size, as a \<^verbatim>\<open>size_t\<close>, is never granted.\<close>

definition memclone :: "'a \<Rightarrow> ezpp \<Rightarrow> 'a option \<times> ezpp" where
  "memclone p ez =
     (let h = a_heap (ez_mem ez); ez = ez\<lparr>ez_mem := (ez_mem ez)\<lparr>a_heap := h\<lparr>h_next := h_next h + 1\<rparr>\<rparr>\<rparr> in
      (if h_ok h (h_next h) then Some p else None, ez))"

definition strclone :: "string \<Rightarrow> ezpp \<Rightarrow> string option \<times> ezpp" where
  "strclone s ez = memclone s ez"

definition ezpp_dup :: "env \<Rightarrow> ezpp \<Rightarrow> string \<Rightarrow> (ezpp \<times> int) option" where
  "ezpp_dup E ez mapfile =
     (let ez = free_owned_map ez;
          ez = ez\<lparr>ez_flags := ez_flags ez OR OWNS_MAP_BIT\<rparr>;
          (m, ez) = strclone mapfile ez in
      calc E (ez\<lparr>ez_map := m\<rparr>))"

definition ezpp_data_dup :: "env \<Rightarrow> ezpp \<Rightarrow> buf \<Rightarrow> int \<Rightarrow> (ezpp \<times> int) option" where
  "ezpp_data_dup E ez d data_size =
     (if int (length d) < data_size then None
      else
        let ez = free_owned_map ez;
            ez = ez\<lparr>ez_flags := ez_flags ez OR OWNS_MAP_BIT\<rparr>;
            (c, ez) = memclone (take (nat data_size) d) ez;
            c = (if data_size < 0 then None else c) in
        calc E (ez\<lparr>ez_data := c, ez_data_size := data_size\<rparr>))"

subsection \<open>Getters\<close>

definition ezpp_pp :: "ezpp \<Rightarrow> fp" where "ezpp_pp ez = ez_pp ez"
definition ezpp_stars :: "ezpp \<Rightarrow> fp" where "ezpp_stars ez = ez_stars ez"
definition ezpp_mode :: "ezpp \<Rightarrow> int" where "ezpp_mode ez = ez_mode ez"
definition ezpp_combo :: "ezpp \<Rightarrow> int" where "ezpp_combo ez = ez_combo ez"
definition ezpp_max_combo :: "ezpp \<Rightarrow> int" where "ezpp_max_combo ez = ez_max_combo ez"
definition ezpp_mods :: "ezpp \<Rightarrow> int" where "ezpp_mods ez = ez_mods ez"
definition ezpp_score_version :: "ezpp \<Rightarrow> int" where "ezpp_score_version ez = ez_score_version ez"
definition ezpp_aim_stars :: "ezpp \<Rightarrow> fp" where "ezpp_aim_stars ez = ez_aim_stars ez"
definition ezpp_speed_stars :: "ezpp \<Rightarrow> fp" where "ezpp_speed_stars ez = ez_speed_stars ez"
definition ezpp_aim_pp :: "ezpp \<Rightarrow> fp" where "ezpp_aim_pp ez = ez_aim_pp ez"
definition ezpp_speed_pp :: "ezpp \<Rightarrow> fp" where "ezpp_speed_pp ez = ez_speed_pp ez"
definition ezpp_acc_pp :: "ezpp \<Rightarrow> fp" where "ezpp_acc_pp ez = ez_acc_pp ez"
definition ezpp_accuracy_percent :: "ezpp \<Rightarrow> fp" where "ezpp_accuracy_percent ez = ez_accuracy_percent ez"
definition ezpp_n300 :: "ezpp \<Rightarrow> int" where "ezpp_n300 ez = ez_n300 ez"
definition ezpp_n100 :: "ezpp \<Rightarrow> int" where "ezpp_n100 ez = ez_n100 ez"
definition ezpp_n50 :: "ezpp \<Rightarrow> int" where "ezpp_n50 ez = ez_n50 ez"
definition ezpp_nmiss :: "ezpp \<Rightarrow> int" where "ezpp_nmiss ez = ez_nmiss ez"
definition ezpp_ncircles :: "ezpp \<Rightarrow> int" where "ezpp_ncircles ez = ez_ncircles ez"
definition ezpp_nsliders :: "ezpp \<Rightarrow> int" where "ezpp_nsliders ez = ez_nsliders ez"
definition ezpp_nspinners :: "ezpp \<Rightarrow> int" where "ezpp_nspinners ez = ez_nspinners ez"
definition ezpp_nobjects :: "ezpp \<Rightarrow> int" where "ezpp_nobjects ez = ez_nobjects ez"
definition ezpp_ar :: "ezpp \<Rightarrow> fp" where "ezpp_ar ez = ez_ar ez"
definition ezpp_cs :: "ezpp \<Rightarrow> fp" where "ezpp_cs ez = ez_cs ez"
definition ezpp_od :: "ezpp \<Rightarrow> fp" where "ezpp_od ez = ez_od ez"
definition ezpp_hp :: "ezpp \<Rightarrow> fp" where "ezpp_hp ez = ez_hp ez"
definition ezpp_odms :: "ezpp \<Rightarrow> fp" where "ezpp_odms ez = ez_odms ez"
definition ezpp_autocalc :: "ezpp \<Rightarrow> int" where "ezpp_autocalc ez = ez_flags ez AND AUTOCALC_BIT"

text \<open>The string a \<^verbatim>\<open>char*\<close> of the handle points to; \<open>None\<close> for a null or dangling pointer.\<close>

definition str_of :: "ezpp \<Rightarrow> strp \<Rightarrow> string option" where
  "str_of ez p = (case p of SLit s \<Rightarrow> Some s
     | SPtr q \<Rightarrow> do {
         c \<leftarrow> load q (a_heap (ez_mem ez));
         case c of CStr s \<Rightarrow> Some (takeWhile (\<lambda>c. c \<noteq> NUL) s) | CInts _ \<Rightarrow> None
       })"

definition ezpp_title :: "ezpp \<Rightarrow> strp" where "ezpp_title ez = ez_title ez"
definition ezpp_title_unicode :: "ezpp \<Rightarrow> strp" where "ezpp_title_unicode ez = ez_title_unicode ez"
definition ezpp_artist :: "ezpp \<Rightarrow> strp" where "ezpp_artist ez = ez_artist ez"
definition ezpp_artist_unicode :: "ezpp \<Rightarrow> strp" where "ezpp_artist_unicode ez = ez_artist_unicode ez"
definition ezpp_creator :: "ezpp \<Rightarrow> strp" where "ezpp_creator ez = ez_creator ez"
definition ezpp_version :: "ezpp \<Rightarrow> strp" where "ezpp_version ez = ez_version ez"

definition ezpp_time_at :: "ezpp \<Rightarrow> int \<Rightarrow> fp option" where
  "ezpp_time_at ez i =
     (if arr_items (ez_objects ez) = [] then Some (Num 0)
      else do { ob \<leftarrow> rdi (arr_items (ez_objects ez)) i; Some (o_time ob) })"

definition ezpp_strain_at :: "ezpp \<Rightarrow> int \<Rightarrow> int \<Rightarrow> fp option" where
  "ezpp_strain_at ez i difficulty_type =
     (if arr_items (ez_objects ez) = [] then Some (Num 0)
      else do { ob \<leftarrow> rdi (arr_items (ez_objects ez)) i; sel2 (o_strains ob) difficulty_type })"

subsection \<open>Setters\<close>

text \<open>The end of every setter: recalculation, with its result ignored.\<close>

definition autocalc :: "env \<Rightarrow> ezpp \<Rightarrow> ezpp option" where
  "autocalc E ez =
     (if has (ez_flags ez) AUTOCALC_BIT then do { (ez, _) \<leftarrow> calc E ez; Some ez } else Some ez)"

definition ezpp_set_aim_stars :: "env \<Rightarrow> ezpp \<Rightarrow> fp \<Rightarrow> ezpp option" where
  "ezpp_set_aim_stars E ez x = autocalc E (ez\<lparr>ez_aim_stars := x\<rparr>)"
definition ezpp_set_speed_stars :: "env \<Rightarrow> ezpp \<Rightarrow> fp \<Rightarrow> ezpp option" where
  "ezpp_set_speed_stars E ez x = autocalc E (ez\<lparr>ez_speed_stars := x\<rparr>)"
definition ezpp_set_base_ar :: "env \<Rightarrow> ezpp \<Rightarrow> fp \<Rightarrow> ezpp option" where
  "ezpp_set_base_ar E ez x = autocalc E (ez\<lparr>ez_base_ar := x\<rparr>)"
definition ezpp_set_base_od :: "env \<Rightarrow> ezpp \<Rightarrow> fp \<Rightarrow> ezpp option" where
  "ezpp_set_base_od E ez x = autocalc E (ez\<lparr>ez_base_od := x\<rparr>)"
definition ezpp_set_base_hp :: "env \<Rightarrow> ezpp \<Rightarrow> fp \<Rightarrow> ezpp option" where
  "ezpp_set_base_hp E ez x = autocalc E (ez\<lparr>ez_base_hp := x\<rparr>)"
definition ezpp_set_mode :: "env \<Rightarrow> ezpp \<Rightarrow> int \<Rightarrow> ezpp option" where
  "ezpp_set_mode E ez x = autocalc E (ez\<lparr>ez_mode := x\<rparr>)"
definition ezpp_set_combo :: "env \<Rightarrow> ezpp \<Rightarrow> int \<Rightarrow> ezpp option" where
  "ezpp_set_combo E ez x = autocalc E (ez\<lparr>ez_combo := x\<rparr>)"
definition ezpp_set_score_version :: "env \<Rightarrow> ezpp \<Rightarrow> int \<Rightarrow> ezpp option" where
  "ezpp_set_score_version E ez x = autocalc E (ez\<lparr>ez_score_version := x\<rparr>)"
definition ezpp_set_accuracy_percent :: "env \<Rightarrow> ezpp \<Rightarrow> fp \<Rightarrow> ezpp option" where
  "ezpp_set_accuracy_percent E ez x = autocalc E (ez\<lparr>ez_accuracy_percent := x\<rparr>)"

definition ezpp_set_autocalc :: "ezpp \<Rightarrow> int \<Rightarrow> ezpp" where
  "ezpp_set_autocalc ez on =
     (if on \<noteq> 0 then ez\<lparr>ez_flags := ez_flags ez OR AUTOCALC_BIT\<rparr>
      else ez\<lparr>ez_flags := ez_flags ez AND NOT AUTOCALC_BIT\<rparr>)"

definition clobber :: "ezpp \<Rightarrow> ezpp" where
  "clobber ez = ez\<lparr>ez_aim_stars := Num 0, ez_speed_stars := Num 0, ez_stars := Num 0, ez_max_combo := 0\<rparr>"

definition ezpp_set_mods :: "env \<Rightarrow> ezpp \<Rightarrow> int \<Rightarrow> ezpp option" where
  "ezpp_set_mods E ez mods =
     (let ez = (if has (mods XOR ez_mods ez) (MODS_MAP_CHANGING OR MODS_SPEED_CHANGING) then clobber ez else ez) in
      autocalc E (ez\<lparr>ez_mods := mods\<rparr>))"

definition ezpp_set_base_cs :: "env \<Rightarrow> ezpp \<Rightarrow> fp \<Rightarrow> ezpp option" where
  "ezpp_set_base_cs E ez x = autocalc E ((clobber ez)\<lparr>ez_base_cs := x\<rparr>)"
definition ezpp_set_mode_override :: "env \<Rightarrow> ezpp \<Rightarrow> int \<Rightarrow> ezpp option" where
  "ezpp_set_mode_override E ez x = autocalc E ((clobber ez)\<lparr>ez_mode_override := x\<rparr>)"

definition acc_clobber :: "ezpp \<Rightarrow> ezpp" where
  "acc_clobber ez = clobber (ez\<lparr>ez_accuracy_percent := Num (- 1)\<rparr>)"

definition ezpp_set_nmiss :: "env \<Rightarrow> ezpp \<Rightarrow> int \<Rightarrow> ezpp option" where
  "ezpp_set_nmiss E ez x = autocalc E ((acc_clobber ez)\<lparr>ez_nmiss := x\<rparr>)"
definition ezpp_set_end :: "env \<Rightarrow> ezpp \<Rightarrow> int \<Rightarrow> ezpp option" where
  "ezpp_set_end E ez x = autocalc E ((acc_clobber ez)\<lparr>ez_end := x\<rparr>)"
definition ezpp_set_end_time :: "env \<Rightarrow> ezpp \<Rightarrow> fp \<Rightarrow> ezpp option" where
  "ezpp_set_end_time E ez x = autocalc E ((acc_clobber ez)\<lparr>ez_end_time := x\<rparr>)"

definition ezpp_set_accuracy :: "env \<Rightarrow> ezpp \<Rightarrow> int \<Rightarrow> int \<Rightarrow> ezpp option" where
  "ezpp_set_accuracy E ez n100 n50 =
     autocalc E (ez\<lparr>ez_accuracy_percent := Num (- 1), ez_n100 := n100, ez_n50 := n50\<rparr>)"

end
