(* ===== verification/Handle.thy ===== *)
theory Handle
  imports Lines Iface
begin

text \<open>
  What the interface guarantees about a handle: a new handle meets the parser's invariant, the
  readers meet no undefined behaviour before \<^verbatim>\<open>p_end\<close>, a map that was read has object counts
  that match its objects, calculation keeps the settings, and the setters do what the header of
  oppai.c says of them, or not.
\<close>

subsection \<open>Creation\<close>

lemma reserve_empty:
  assumes "0 \<le> n" "0 < esize" "esize \<le> 88"
  obtains a' h' ok where "array_reserve_i n esize empty_arr h = Some (a', h', ok)" "arr_items a' = []"
    "arr_cap a' = 0 \<or> arr_cap a' = 16" "h_size h' = h_size h" "h_next h \<le> h_next h'"
  using assms by (cases "h_ok h (h_next h)") (auto simp: array_reserve_i_def empty_arr_def Let_def in_int_iff)

lemma ezpp_new_hinv:
  assumes "fresh_ok h"
  obtains r where "ezpp_new h = Some r"
    "\<And>ez. r = Some ez \<Longrightarrow> hinv 0 ez \<and> ez_map ez = None \<and> ez_data ez = None \<and> ez_flags ez = 0"
proof (cases "h_ok h (h_next h)")
  case False
  then show thesis by (intro that [of None]) (simp_all add: ezpp_new_def)
next
  case True
  let ?h = "h\<lparr>h_next := h_next h + 1\<rparr>"
  obtain os :: "object arr" and h1 ok1 where 1: "array_reserve_i 600 sizeof_object empty_arr ?h = Some (os, h1, ok1)"
    "arr_items os = []" "arr_cap os = 0 \<or> arr_cap os = 16" "h_size h1 = h_size ?h" "h_next ?h \<le> h_next h1"
    by (rule reserve_empty [of 600 sizeof_object ?h]) (simp_all add: sizeof_object_def)
  obtain tps :: "timing arr" and h2 ok2 where 2: "array_reserve_i 16 sizeof_timing empty_arr h1 = Some (tps, h2, ok2)"
    "arr_items tps = []" "arr_cap tps = 0 \<or> arr_cap tps = 16" "h_size h2 = h_size h1" "h_next h1 \<le> h_next h2"
    by (rule reserve_empty [of 16 sizeof_timing h1]) (simp_all add: sizeof_timing_def)
  obtain hs :: "fp arr" and h3 ok3 where 3: "array_reserve_i 600 sizeof_float empty_arr h2 = Some (hs, h3, ok3)"
    "arr_items hs = []" "h_size h3 = h_size h2" "h_next h2 \<le> h_next h3"
    by (rule reserve_empty [of 600 sizeof_float h2]) (simp_all add: sizeof_float_def)
  let ?ez = "(init_handle ?h)\<lparr>ez_objects := os, ez_timing_points := tps, ez_highest_strains := hs,
          ez_mem := (ez_mem (init_handle ?h))\<lparr>a_heap := h3\<rparr>\<rparr>"
  have n: "ezpp_new h = Some (Some ?ez)"
    using True 1(1) 2(1) 3(1) by (simp add: ezpp_new_def Let_def init_handle_def)
  have "h_next h \<le> h_next h3" using 1(5) 2(5) 3(4) by simp
  with assms 1 2 3 have "fresh_ok h3" by (auto simp: fresh_ok_def)
  then have "arena_ok \<lparr>a_block = None, a_end = None, a_blocks = empty_arr, a_heap = h3\<rparr>"
    by (simp add: arena_ok_def cur_ok_def blocks_ok_def) (simp add: empty_arr_def)
  with 1 2 have "hinv 0 ?ez"
    by (auto simp: hinv_def init_handle_def grown_def arr_ok_def arr_len_def sizeof_object_def
        sizeof_timing_def INT_MAX_def empty_arr_def)
  with n show thesis by (intro that) (auto simp: init_handle_def)
qed

subsection \<open>The end of the map keeps the objects\<close>

lemma end_slider_type: "end_slider ez l t ob c = Some (ob', c') \<Longrightarrow> o_type ob' = o_type ob \<and> o_time ob' = o_time ob"
  unfolding end_slider_def Let_def by (auto elim!: bind_SomeE)

lemma end_object_type:
  assumes "end_object M ez l sc pr tn ti c ob = Some (ob', r)"
  shows "o_type ob' = o_type ob"
  using assms unfolding end_object_def Let_def
  by (elim bind_SomeE) (auto elim!: bind_SomeE dest!: end_slider_type split: if_split_asm)

lemma end_objects_types:
  "end_objects M ez l sc pr tn ti c obs = Some (obs', c') \<Longrightarrow> map o_type obs' = map o_type obs"
proof (induction obs arbitrary: pr tn ti c obs')
  case (Cons ob obs)
  then show ?case by (auto elim!: bind_SomeE dest: end_object_type)
qed simp

lemma count_types:
  assumes "map o_type xs = map o_type ys"
  shows "count is_circle xs = count is_circle ys" "count is_spinner xs = count is_spinner ys"
    "count is_slider xs = count is_slider ys"
proof -
  have P: "count P xs = count P ys" if "\<And>x. P x = Q (o_type x)" for P Q
  proof -
    have "P = (\<lambda>x. Q (o_type x))" using that by auto
    then have "count P zs = count Q (map o_type zs)" for zs by (simp add: count_def filter_map o_def)
    with assms show ?thesis by simp
  qed
  show "count is_circle xs = count is_circle ys"
    by (rule P [where Q = "\<lambda>t. has t OBJ_CIRCLE"]) (simp add: is_circle_def)
  show "count is_spinner xs = count is_spinner ys"
    by (rule P [where Q = "\<lambda>t. \<not> has t OBJ_CIRCLE \<and> has t OBJ_SPINNER"]) (simp add: is_circle_def is_spinner_def)
  show "count is_slider xs = count is_slider ys"
    by (rule P [where Q = "\<lambda>t. \<not> has t OBJ_CIRCLE \<and> \<not> has t OBJ_SPINNER \<and> has t OBJ_SLIDER"])
      (auto simp: is_circle_def is_spinner_def is_slider_def)
qed

text \<open>What \<^verbatim>\<open>p_end\<close> does not touch.\<close>

definition kept :: "ezpp \<Rightarrow> _" where
  "kept ez = (ez_map ez, ez_data ez, ez_data_size ez, ez_flags ez, ez_mode_override ez,
     ez_score_version ez, ez_mods ez, ez_combo ez, ez_accuracy_percent ez,
     ez_n300 ez, ez_n100 ez, ez_n50 ez, ez_nmiss ez, ez_end ez, ez_end_time ez,
     ez_stars ez, ez_aim_stars ez, ez_speed_stars ez)"

definition shape :: "ezpp \<Rightarrow> _" where
  "shape ez = (kept ez, ez_ncircles ez, ez_nsliders ez, ez_nspinners ez, ez_mem ez)"

lemma cfg_kept: "cfg ez' = cfg ez \<Longrightarrow> kept ez' = kept ez"
  by (simp add: cfg_def kept_def)

lemma mods_apply_form:
  obtains a b c d e f where "fst (mods_apply ez) = ez\<lparr>ez_speed_mul := a, ez_odms := b, ez_od := c,
    ez_ar := d, ez_cs := e, ez_hp := f\<rparr>"
proof (cases "ez_mode ez \<noteq> MODE_STD \<and> ez_mode ez \<noteq> MODE_TAIKO")
  case True
  then show thesis
    by (intro that [where a = "ez_speed_mul ez" and b = "ez_odms ez" and c = "ez_od ez"
          and d = "ez_ar ez" and e = "ez_cs ez" and f = "ez_hp ez"]) (simp add: mods_apply_def)
next
  case False
  then show thesis
  proof (cases "has (ez_mods ez) MODS_MAP_CHANGING")
    case True
    let ?m = "ez_mode ez" and ?s = "mods_speed (ez_mods ez)" and ?x = "mods_stat_mul (ez_mods ez)"
    let ?od = "mods_odms ?m ?s (mulf (ez_od ez) ?x)" and ?ar = "mods_arms ?s (mulf (ez_ar ez) ?x)"
    from False True have "fst (mods_apply ez) = ez\<lparr>ez_speed_mul := ?s, ez_odms := ?od, ez_od := mods_od ?m ?od,
        ez_ar := mods_ar ?ar, ez_cs := al_max (Num 0) (al_min (Num 10) (mulf (ez_cs ez) (mods_cs_mul (ez_mods ez)))),
        ez_hp := al_min (mulf (ez_hp ez) ?x) (Num 10)\<rparr>"
      by (auto simp only: mods_apply_def Let_def if_False if_True fst_conv simp_thms)
    then show thesis by (rule that)
  next
    case no: False
    with False show thesis
      by (intro that [where a = "Num 1" and b = "odms_of (ez_mode ez) (ez_od ez)" and c = "ez_od ez"
            and d = "ez_ar ez" and e = "ez_cs ez" and f = "ez_hp ez"]) (auto simp: mods_apply_def)
  qed
qed

lemma mods_apply_shape:
  "shape (fst (mods_apply ez)) = shape ez" "ez_objects (fst (mods_apply ez)) = ez_objects ez"
  "ez_timing_points (fst (mods_apply ez)) = ez_timing_points ez" "ez_mode (fst (mods_apply ez)) = ez_mode ez"
  "ez_nobjects (fst (mods_apply ez)) = ez_nobjects ez" "ez_max_combo (fst (mods_apply ez)) = ez_max_combo ez"
  by (rule mods_apply_form [of ez], simp add: shape_def kept_def)+

lemma end_strings_shape: "shape (end_strings ez) = shape ez" "ez_objects (end_strings ez) = ez_objects ez"
  by (simp_all add: end_strings_def Let_def shape_def kept_def)

lemma end_base_stats_shape: "shape (end_base_stats ez) = shape ez" "ez_objects (end_base_stats ez) = ez_objects ez"
  by (simp_all add: end_base_stats_def Let_def shape_def kept_def)

lemma shape_sel:
  assumes "shape ez' = shape ez"
  shows "kept ez' = kept ez" "ez_ncircles ez' = ez_ncircles ez" "ez_nsliders ez' = ez_nsliders ez"
    "ez_nspinners ez' = ez_nspinners ez" "ez_mem ez' = ez_mem ez"
  using assms by (simp_all add: shape_def)

lemma end_stats_shape: "shape (end_stats ez) = shape ez" "ez_objects (end_stats ez) = ez_objects ez"
proof -
  have "shape (ez\<lparr>ez_ar := x\<rparr>) = shape ez" for x by (simp add: shape_def kept_def)
  then show "shape (end_stats ez) = shape ez" "ez_objects (end_stats ez) = ez_objects ez"
    by (simp_all add: end_stats_def mods_apply_shape end_strings_shape end_base_stats_shape)
qed

lemma p_end_shape:
  assumes "p_end M ez = Some ez'"
  shows "shape ez' = shape ez" "map o_type (arr_items (ez_objects ez')) = map o_type (arr_items (ez_objects ez))"
    "ez_nobjects ez' = arr_len (ez_objects ez')"
proof -
  let ?e = "end_stats ez"
  from assms obtain e obs mc tps sv la sc mc0 where
    o1: "end_objects M e la sc [] (fneg get_inf) (- 1) mc0 (arr_items (ez_objects e)) = Some (obs, mc)" and
    e: "e = ?e\<lparr>ez_sv := sv, ez_timing_points := tps, ez_nobjects := arr_len (ez_objects ?e)\<rparr>" and
    o2: "ez' = e\<lparr>ez_objects := (ez_objects e)\<lparr>arr_items := obs\<rparr>, ez_max_combo := mc\<rparr>"
    unfolding p_end_def Let_def
    by (elim bind_SomeE) (force elim!: bind_SomeE split: prod.split_asm)
  from end_objects_types [OF o1] e have t: "map o_type obs = map o_type (arr_items (ez_objects ?e))" by simp
  then have "length obs = length (arr_items (ez_objects ?e))" by (metis length_map)
  moreover have "shape ez' = shape ?e" using o2 e by (simp add: shape_def kept_def)
  ultimately show "shape ez' = shape ez"
    "map o_type (arr_items (ez_objects ez')) = map o_type (arr_items (ez_objects ez))"
    "ez_nobjects ez' = arr_len (ez_objects ez')"
    using t o2 e end_stats_shape [of ez] by (simp_all add: arr_len_def)
qed

subsection \<open>Settings\<close>

text \<open>What only the setters and the loaders change.\<close>

definition settings :: "ezpp \<Rightarrow> _" where
  "settings ez = (ez_map ez, ez_data ez, ez_data_size ez, ez_flags ez, ez_mode_override ez,
     ez_score_version ez, ez_mods ez, ez_nmiss ez, ez_end ez, ez_end_time ez)"

lemma settings_upd [simp]:
  "settings (ez\<lparr>ez_format_version := x0\<rparr>) = settings ez"
  "settings (ez\<lparr>ez_mode := x1\<rparr>) = settings ez"
  "settings (ez\<lparr>ez_original_mode := x2\<rparr>) = settings ez"
  "settings (ez\<lparr>ez_combo := x3\<rparr>) = settings ez"
  "settings (ez\<lparr>ez_accuracy_percent := x4\<rparr>) = settings ez"
  "settings (ez\<lparr>ez_n300 := x5\<rparr>) = settings ez"
  "settings (ez\<lparr>ez_n100 := x6\<rparr>) = settings ez"
  "settings (ez\<lparr>ez_n50 := x7\<rparr>) = settings ez"
  "settings (ez\<lparr>ez_base_ar := x8\<rparr>) = settings ez"
  "settings (ez\<lparr>ez_base_cs := x9\<rparr>) = settings ez"
  "settings (ez\<lparr>ez_base_od := x10\<rparr>) = settings ez"
  "settings (ez\<lparr>ez_base_hp := x11\<rparr>) = settings ez"
  "settings (ez\<lparr>ez_max_combo := x12\<rparr>) = settings ez"
  "settings (ez\<lparr>ez_title := x13\<rparr>) = settings ez"
  "settings (ez\<lparr>ez_title_unicode := x14\<rparr>) = settings ez"
  "settings (ez\<lparr>ez_artist := x15\<rparr>) = settings ez"
  "settings (ez\<lparr>ez_artist_unicode := x16\<rparr>) = settings ez"
  "settings (ez\<lparr>ez_creator := x17\<rparr>) = settings ez"
  "settings (ez\<lparr>ez_version := x18\<rparr>) = settings ez"
  "settings (ez\<lparr>ez_ncircles := x19\<rparr>) = settings ez"
  "settings (ez\<lparr>ez_nsliders := x20\<rparr>) = settings ez"
  "settings (ez\<lparr>ez_nspinners := x21\<rparr>) = settings ez"
  "settings (ez\<lparr>ez_nobjects := x22\<rparr>) = settings ez"
  "settings (ez\<lparr>ez_ar := x23\<rparr>) = settings ez"
  "settings (ez\<lparr>ez_od := x24\<rparr>) = settings ez"
  "settings (ez\<lparr>ez_cs := x25\<rparr>) = settings ez"
  "settings (ez\<lparr>ez_hp := x26\<rparr>) = settings ez"
  "settings (ez\<lparr>ez_odms := x27\<rparr>) = settings ez"
  "settings (ez\<lparr>ez_sv := x28\<rparr>) = settings ez"
  "settings (ez\<lparr>ez_tick_rate := x29\<rparr>) = settings ez"
  "settings (ez\<lparr>ez_speed_mul := x30\<rparr>) = settings ez"
  "settings (ez\<lparr>ez_stars := x31\<rparr>) = settings ez"
  "settings (ez\<lparr>ez_aim_stars := x32\<rparr>) = settings ez"
  "settings (ez\<lparr>ez_aim_difficulty := x33\<rparr>) = settings ez"
  "settings (ez\<lparr>ez_aim_length_bonus := x34\<rparr>) = settings ez"
  "settings (ez\<lparr>ez_speed_stars := x35\<rparr>) = settings ez"
  "settings (ez\<lparr>ez_speed_difficulty := x36\<rparr>) = settings ez"
  "settings (ez\<lparr>ez_speed_length_bonus := x37\<rparr>) = settings ez"
  "settings (ez\<lparr>ez_pp := x38\<rparr>) = settings ez"
  "settings (ez\<lparr>ez_aim_pp := x39\<rparr>) = settings ez"
  "settings (ez\<lparr>ez_speed_pp := x40\<rparr>) = settings ez"
  "settings (ez\<lparr>ez_acc_pp := x41\<rparr>) = settings ez"
  "settings (ez\<lparr>ez_section := x42\<rparr>) = settings ez"
  "settings (ez\<lparr>ez_p_flags := x43\<rparr>) = settings ez"
  "settings (ez\<lparr>ez_objects := x44\<rparr>) = settings ez"
  "settings (ez\<lparr>ez_timing_points := x45\<rparr>) = settings ez"
  "settings (ez\<lparr>ez_interval_end := x46\<rparr>) = settings ez"
  "settings (ez\<lparr>ez_max_strain := x47\<rparr>) = settings ez"
  "settings (ez\<lparr>ez_highest_strains := x48\<rparr>) = settings ez"
  "settings (ez\<lparr>ez_mem := x49\<rparr>) = settings ez"
  by (simp_all add: settings_def)

lemma kept_settings: "kept ez' = kept ez \<Longrightarrow> settings ez' = settings ez"
  by (simp add: kept_def settings_def)

lemma mem_loop_step:
  assumes "mem_loop b s nl res ez = Some (ez', n)" "s_start s < s_end s"
  obtains "ez' = ez" "n < 0"
  | line where "p_line b ez line = Some (ez', n)" "n < 0"
  | line ez1 m nl' res' s' where "p_line b ez line = Some (ez1, m)" "\<not> m < 0"
      "mem_loop b s' nl' res' ez1 = Some (ez', n)" "s_end s' = s_end s" "s_start s < s_start s'"
proof -
  from assms obtain m line where c: "p_consume_til b s [CHR 0x0A] = Some (m, line)"
    by (subst (asm) mem_loop.simps) (auto elim!: bind_SomeE)
  note adv = consume_advance [OF c]
  show thesis
  proof (cases "m < 0")
    case True
    with adv have m: "m = ERR_MORE" "ERR_MORE < 0" by simp_all
    show thesis
    proof (cases "nl = 0")
      case True
      with assms c m show thesis
        by (intro that(1)) (subst (asm) mem_loop.simps, auto simp: ERR_TRUNCATED_def)+
    next
      case False
      with assms c m have "do {
          res \<leftarrow> ck (res + slice_len s); nlines \<leftarrow> ck (nl + 1);
          (ez, n) \<leftarrow> p_line b ez s;
          if n < 0 then Some (ez, n)
          else do { res \<leftarrow> ck (res + n); mem_loop b (mk_slice (nat (int (s_start s) + slice_len s)) (s_end s)) nlines res ez } }
        = Some (ez', n)"
        by (subst (asm) mem_loop.simps) auto
      then show thesis
        using assms(2) that(2,3) by (auto elim!: bind_SomeE split: if_split_asm simp: slice_len_def)
    qed
  next
    case False
    with assms c have "do {
          res \<leftarrow> ck (res + (m + 1)); nlines \<leftarrow> ck (nl + 1);
          (ez, n) \<leftarrow> p_line b ez line;
          if n < 0 then Some (ez, n)
          else do { res \<leftarrow> ck (res + n); mem_loop b (mk_slice (nat (int (s_start s) + (m + 1))) (s_end s)) nlines res ez } }
        = Some (ez', n)"
      by (subst (asm) mem_loop.simps) auto
    then show thesis
      using False that(2,3) by (auto elim!: bind_SomeE split: if_split_asm)
  qed
qed

lemma mem_loop_frame:
  "mem_loop b s nl res ez = Some (ez', n) \<Longrightarrow> cfg ez' = cfg ez \<and> (0 \<le> n \<longrightarrow> counts_ok ez \<longrightarrow> counts_ok ez')"
proof (induction "s_end s - s_start s" arbitrary: s nl res ez rule: less_induct)
  case less
  show ?case
  proof (cases "s_start s < s_end s")
    case False
    with less.prems show ?thesis by (subst (asm) mem_loop.simps) auto
  next
    case True
    from less.prems True show ?thesis
    proof (cases rule: mem_loop_step)
      case (3 line ez1 m nl' res' s')
      then have "s_end s' - s_start s' < s_end s - s_start s" using True by simp
      from less.hyps [OF this 3(3)] show ?thesis using line.keeps [OF 3(1)] line.counts [OF 3(1)] 3(2) by auto
    qed (use line.keeps in auto)
  qed
qed

subsection \<open>Reading a map\<close>

lemma p_reset_frame: "p_reset ez = Some ez' \<Longrightarrow> kept ez' = kept ez \<and> counts_ok ez'"
  by (auto simp: p_reset_def kept_def counts_ok_def bind_Some_iff)

lemma p_end_counts:
  assumes "p_end M ez = Some ez'" "counts_ok ez"
  shows "counts_ok ez'" "kept ez' = kept ez"
proof -
  note S = p_end_shape [OF assms(1)]
  from assms(2) count_types [OF S(2)] shape_sel [OF S(1)]
  show "counts_ok ez'" "kept ez' = kept ez" by (simp_all add: counts_ok_def)
qed

lemma p_map_frame:
  assumes "p_map M ez f = Some (ez', n)"
  shows "kept ez' = kept ez" "0 \<le> n \<Longrightarrow> counts_ok ez' \<and> ez_nobjects ez' = arr_len (ez_objects ez')"
proof -
  have "kept ez' = kept ez \<and> (0 \<le> n \<longrightarrow> counts_ok ez' \<and> ez_nobjects ez' = arr_len (ez_objects ez'))"
  proof (cases f)
    case None
    with assms show ?thesis by (simp add: p_map_def ERR_IO_def)
  next
    case (Some c)
    with assms obtain ez1 ez2 where 1: "p_reset ez = Some ez1" "p_lines ez1 c = Some (ez2, n)"
      "(if n < 0 then Some (ez2, n) else do { e \<leftarrow> p_end M ez2; Some (e\<lparr>ez_nobjects := arr_len (ez_objects e)\<rparr>, n) }) = Some (ez', n)"
      by (auto simp: p_map_def elim!: bind_SomeE split: if_split_asm)
    note R = p_reset_frame [OF 1(1)]
    have K: "kept ez2 = kept ez" using cfg_kept [OF p_lines_keeps [OF 1(2)]] R by simp
    show ?thesis
    proof (cases "n < 0")
      case True
      with 1(3) K show ?thesis by simp
    next
      case False
      with 1(3) obtain e where e: "p_end M ez2 = Some e" "ez' = e\<lparr>ez_nobjects := arr_len (ez_objects e)\<rparr>"
        by (auto elim!: bind_SomeE)
      have "counts_ok ez2" using p_lines_counts [OF 1(2)] False R by simp
      from p_end_counts [OF e(1) this] e(2) K show ?thesis by (simp add: counts_ok_def kept_def)
    qed
  qed
  then show "kept ez' = kept ez" "0 \<le> n \<Longrightarrow> counts_ok ez' \<and> ez_nobjects ez' = arr_len (ez_objects ez')" by auto
qed

lemma p_map_mem_frame:
  assumes "p_map_mem M ez d sz = Some (ez', n)"
  shows "kept ez' = kept ez" "0 \<le> n \<Longrightarrow> counts_ok ez' \<and> ez_nobjects ez' = arr_len (ez_objects ez')"
proof -
  have "kept ez' = kept ez \<and> (0 \<le> n \<longrightarrow> counts_ok ez' \<and> ez_nobjects ez' = arr_len (ez_objects ez'))"
  proof (cases "d = None \<or> sz = 0")
    case True
    with assms show ?thesis by (auto simp: p_map_mem_def ERR_IO_def split: option.split_asm)
  next
    case False
    then obtain b where b: "d = Some b" "sz \<noteq> 0" by auto
    with assms have "do { ez \<leftarrow> p_reset ez;
         (ez, res) \<leftarrow> mem_loop b (mk_slice 0 (nat sz)) 0 0 ez;
         if res < 0 then Some (ez, res) else do { ez \<leftarrow> p_end M ez; Some (ez, res) } } = Some (ez', n)"
      by (simp add: p_map_mem_def)
    then obtain ez1 ez2 m where 1: "p_reset ez = Some ez1"
      "mem_loop b (mk_slice 0 (nat sz)) 0 0 ez1 = Some (ez2, m)"
      "(if m < 0 then Some (ez2, m) else do { e \<leftarrow> p_end M ez2; Some (e, m) }) = Some (ez', n)"
      by (elim bind_SomeE) (simp split: prod.split_asm)
    then have mn: "m = n" by (auto elim!: bind_SomeE split: if_split_asm)
    note R = p_reset_frame [OF 1(1)]
    have K: "kept ez2 = kept ez" using cfg_kept [OF conjunct1 [OF mem_loop_frame [OF 1(2)]]] R by simp
    note E = 1(3) [unfolded mn]
    note C = 1(2) [unfolded mn]
    show ?thesis
    proof (cases "n < 0")
      case True
      with E K show ?thesis by simp
    next
      case False
      with E have e: "p_end M ez2 = Some ez'" by (auto elim!: bind_SomeE)
      have "counts_ok ez2" using mem_loop_frame [OF C] False R by simp
      from p_end_counts [OF e this] p_end_shape(3) [OF e] K show ?thesis by simp
    qed
  qed
  then show "kept ez' = kept ez" "0 \<le> n \<Longrightarrow> counts_ok ez' \<and> ez_nobjects ez' = arr_len (ez_objects ez')" by auto
qed

end
