(* ===== verification/Api.thy ===== *)
theory Api
  imports Handle
begin

text \<open>
  The interface as a state machine: calculation keeps the settings of a handle, the calls of the
  API as the steps of a relation, and invariants of the handles that sequences of calls reach.
\<close>

subsection \<open>Calculation keeps the settings\<close>

lemma strain_loop_settings:
  "strain_loop M d ct pt ps first ez = Some (ez', n) \<Longrightarrow> settings ez' = settings ez \<and> ez_objects ez' = ez_objects ez"
proof (induction ez rule: strain_loop_induct)
  case (1 ez)
  from 1(2) show ?case
  proof (cases rule: strain_loop_cases)
    case (round h hs ms)
    from 1(1) [OF _ round(2)] round(4) show ?thesis by (simp add: strain_room_def)
  qed simp_all
qed

lemma max_strains_settings:
  "d_update_max_strains M ez d ct pt cs ps first = Some (ez', n) \<Longrightarrow> settings ez' = settings ez"
  unfolding d_update_max_strains_def
  by (auto elim!: bind_SomeE split: if_split_asm dest!: strain_loop_settings)

lemma weigh_settings: "d_weigh_strains M ez = Some (ez', r) \<Longrightarrow> settings ez' = settings ez"
  by (auto simp: d_weigh_strains_def Let_def split: if_split_asm prod.split_asm)

lemma strain_objects_settings:
  "strain_objects M type ez prev obs = Some (ez', obs', n) \<Longrightarrow> settings ez' = settings ez"
proof (induction obs arbitrary: ez prev obs')
  case (Cons ob obs)
  from Cons.prems obtain ob' pt ps base cur ez1 err where x:
    "d_update_max_strains M ez base (o_time ob') pt cur ps (prev = None) = Some (ez1, err)"
    "(if err < 0 then Some (ez1, ob' # obs, err)
     else do { (ez, obs, err) \<leftarrow> strain_objects M type ez1 (Some ob') obs; Some (ez, ob' # obs, err) }) = Some (ez', obs', n)"
    by (auto elim!: bind_SomeE)
  from x(2) max_strains_settings [OF x(1)] show ?case
    by (auto split: if_split_asm elim!: bind_SomeE dest!: Cons.IH)
qed simp

lemma individual_settings: "d_calc_individual M ez type = Some (ez', n) \<Longrightarrow> settings ez' = settings ez"
  unfolding d_calc_individual_def Let_def
  by (elim bind_SomeE)
    (auto elim!: bind_SomeE split: if_split_asm dest!: strain_objects_settings weigh_settings)

lemma d_std_settings: "d_std M ez = Some (ez', n) \<Longrightarrow> settings ez' = settings ez"
  unfolding d_std_def Let_def
  by (auto elim!: bind_SomeE split: if_split_asm dest!: individual_settings)

lemma slider_hits_settings:
  assumes "slider_hits M ob j i prev ez = Some r"
  shows "settings (fst r) = settings ez"
proof (rule slider_hits.raw_induct [OF _ assms, where P = "\<lambda>M ob j i prev ez r. settings (fst r) = settings ez"],
    goal_cases)
  case (1 f M ob j i prev ez r)
  from 1(2) show ?case
    by (auto split: if_split_asm elim!: bind_SomeE dest!: 1(1) max_strains_settings)
qed

lemma taiko_objects_settings: "taiko_objects M prev obs ez = Some (ez', n) \<Longrightarrow> settings ez' = settings ez"
proof (induction obs arbitrary: prev ez)
  case (Cons ob obs)
  show ?case
  proof (cases "o_sound_types ob = None")
    case True
    with Cons.prems show ?thesis by simp
  next
    case False
    with Cons.prems obtain cur where c: "(if ez_original_mode ez \<noteq> MODE_TAIKO \<and> has (o_type ob) OBJ_SLIDER
          \<and> o_slider_is_drum_roll ob \<noteq> 0 \<and> prev \<noteq> None
        then do {
          (ez, p, err) \<leftarrow> slider_hits M ob (o_time ob) 0 (the prev) ez;
          if err < 0 then Some (ez, err) else taiko_objects M (Some p) obs ez
        }
        else do {
          (cur, prev_time, prev_strain) \<leftarrow> (case prev of None \<Rightarrow> Some (cur, Num 0, Num 0)
            | Some p \<Rightarrow> do { cur \<leftarrow> taiko_strain M cur p; Some (cur, k_time p, k_strain p) });
          base \<leftarrow> decay_base 0;
          (ez, err) \<leftarrow> d_update_max_strains M ez base (k_time cur) prev_time (k_strain cur) prev_strain (prev = None);
          if err < 0 then Some (ez, err) else taiko_objects M (Some cur) obs ez
        }) = Some (ez', n)"
      by (auto simp: Let_def elim!: bind_SomeE simp del: MODE_TAIKO_def)
    then show ?thesis
      by (auto split: if_split_asm elim!: bind_SomeE dest!: slider_hits_settings max_strains_settings Cons.IH)
  qed
qed simp

lemma d_taiko_settings: "d_taiko M ez = Some (ez', n) \<Longrightarrow> settings ez' = settings ez"
  unfolding d_taiko_def Let_def
  by (auto split: if_split_asm elim!: bind_SomeE dest!: taiko_objects_settings weigh_settings)

lemma d_calc_settings: "d_calc M ez = Some (ez', n) \<Longrightarrow> settings ez' = settings ez"
  by (auto simp: d_calc_def split: if_split_asm dest!: d_std_settings d_taiko_settings)

lemma override_stats_settings: "settings (override_stats ez) = settings ez"
  by (simp add: override_stats_def Let_def)

lemma mods_apply_settings: "settings (fst (mods_apply ez)) = settings ez"
  by (rule kept_settings [OF shape_sel(1) [OF mods_apply_shape(1)]])

lemma calc_counts_settings: "calc_counts ez = Some ez' \<Longrightarrow> settings ez' = settings ez"
  unfolding calc_counts_def
  by (auto split: if_split_asm elim!: bind_SomeE)

lemma pp_std_settings: "pp_std M ez = Some (ez', n) \<Longrightarrow> settings ez' = settings ez"
  unfolding pp_std_def Let_def
  by (auto elim!: bind_SomeE split: if_split_asm simp: std_fill_def Let_def)

lemma pp_taiko_settings: "pp_taiko M ez = Some (ez', n) \<Longrightarrow> settings ez' = settings ez"
  unfolding pp_taiko_def Let_def
  by (auto elim!: bind_SomeE simp: taiko_fill_def Let_def)

lemma params_settings: "params_from_map E ez = Some (ez', n) \<Longrightarrow> settings ez' = settings ez"
  unfolding params_from_map_def Let_def
  by (auto split: if_split_asm option.split_asm elim!: bind_SomeE
      dest!: d_calc_settings kept_settings [OF p_map_frame(1)] kept_settings [OF p_map_mem_frame(1)])

lemma calc_pp_settings: "calc_pp E ez = Some (ez', n) \<Longrightarrow> settings ez' = settings ez"
  unfolding calc_pp_def Let_def
  by (auto split: if_split_asm elim!: bind_SomeE dest!: pp_std_settings pp_taiko_settings calc_counts_settings)

lemma calc_settings: "calc E ez = Some (ez', n) \<Longrightarrow> settings ez' = settings ez"
  unfolding calc_def
  by (auto split: if_split_asm elim!: bind_SomeE dest!: params_settings calc_pp_settings
      simp: mods_apply_settings override_stats_settings)

lemma autocalc_settings: "autocalc E ez = Some ez' \<Longrightarrow> settings ez' = settings ez"
  unfolding autocalc_def
  by (auto split: if_split_asm elim!: bind_SomeE dest!: calc_settings)

lemma settings_sel:
  assumes "settings ez' = settings ez"
  shows "ez_map ez' = ez_map ez" "ez_data ez' = ez_data ez" "ez_data_size ez' = ez_data_size ez"
    "ez_flags ez' = ez_flags ez" "ez_mode_override ez' = ez_mode_override ez"
    "ez_score_version ez' = ez_score_version ez" "ez_mods ez' = ez_mods ez" "ez_nmiss ez' = ez_nmiss ez"
    "ez_end ez' = ez_end ez" "ez_end_time ez' = ez_end_time ez"
  using assms by (simp_all add: settings_def)

subsection \<open>The calls of the interface\<close>

datatype call =
    CMap "string option" | CData "buf option" int | CDup string | CDataDup buf int
  | CAutocalc int | CMods int | CBaseCs fp | CModeOverride int | CNmiss int | CEnd int | CEndTime fp
  | CAccuracy int int | CAimStars fp | CSpeedStars fp | CBaseAr fp | CBaseOd fp | CBaseHp fp
  | CMode int | CCombo int | CScoreVersion int | CAccuracyPercent fp

inductive api_step :: "env \<Rightarrow> ezpp \<Rightarrow> call \<Rightarrow> ezpp \<Rightarrow> bool" for E where
  map: "ezpp_map E ez m = Some (ez', r) \<Longrightarrow> api_step E ez (CMap m) ez'"
| data: "ezpp_data E ez d n = Some (ez', r) \<Longrightarrow> api_step E ez (CData d n) ez'"
| dup: "ezpp_dup E ez s = Some (ez', r) \<Longrightarrow> api_step E ez (CDup s) ez'"
| data_dup: "ezpp_data_dup E ez b n = Some (ez', r) \<Longrightarrow> api_step E ez (CDataDup b n) ez'"
| autocalc: "api_step E ez (CAutocalc i) (ezpp_set_autocalc ez i)"
| mods: "ezpp_set_mods E ez i = Some ez' \<Longrightarrow> api_step E ez (CMods i) ez'"
| base_cs: "ezpp_set_base_cs E ez x = Some ez' \<Longrightarrow> api_step E ez (CBaseCs x) ez'"
| mode_override: "ezpp_set_mode_override E ez i = Some ez' \<Longrightarrow> api_step E ez (CModeOverride i) ez'"
| nmiss: "ezpp_set_nmiss E ez i = Some ez' \<Longrightarrow> api_step E ez (CNmiss i) ez'"
| end_at: "ezpp_set_end E ez i = Some ez' \<Longrightarrow> api_step E ez (CEnd i) ez'"
| end_time: "ezpp_set_end_time E ez x = Some ez' \<Longrightarrow> api_step E ez (CEndTime x) ez'"
| accuracy: "ezpp_set_accuracy E ez i j = Some ez' \<Longrightarrow> api_step E ez (CAccuracy i j) ez'"
| aim_stars: "ezpp_set_aim_stars E ez x = Some ez' \<Longrightarrow> api_step E ez (CAimStars x) ez'"
| speed_stars: "ezpp_set_speed_stars E ez x = Some ez' \<Longrightarrow> api_step E ez (CSpeedStars x) ez'"
| base_ar: "ezpp_set_base_ar E ez x = Some ez' \<Longrightarrow> api_step E ez (CBaseAr x) ez'"
| base_od: "ezpp_set_base_od E ez x = Some ez' \<Longrightarrow> api_step E ez (CBaseOd x) ez'"
| base_hp: "ezpp_set_base_hp E ez x = Some ez' \<Longrightarrow> api_step E ez (CBaseHp x) ez'"
| mode: "ezpp_set_mode E ez i = Some ez' \<Longrightarrow> api_step E ez (CMode i) ez'"
| combo: "ezpp_set_combo E ez i = Some ez' \<Longrightarrow> api_step E ez (CCombo i) ez'"
| score_version: "ezpp_set_score_version E ez i = Some ez' \<Longrightarrow> api_step E ez (CScoreVersion i) ez'"
| accuracy_percent: "ezpp_set_accuracy_percent E ez x = Some ez' \<Longrightarrow> api_step E ez (CAccuracyPercent x) ez'"

text \<open>The handle after a sequence of calls, the last one first in the list.\<close>

inductive api_run :: "env \<Rightarrow> heap \<Rightarrow> call list \<Rightarrow> ezpp \<Rightarrow> bool" for E h where
  start: "ezpp_new h = Some (Some ez) \<Longrightarrow> api_run E h [] ez"
| step: "api_run E h cs ez \<Longrightarrow> api_step E ez c ez' \<Longrightarrow> api_run E h (c # cs) ez'"

inductive_cases api_run_ConsE: "api_run E h (c # cs) ez"
inductive_simps api_run_Nil: "api_run E h [] ez"

text \<open>What the history says: who owns the map, and the last values set.\<close>

fun owned_map :: "call list \<Rightarrow> bool" where
  "owned_map [] = False"
| "owned_map (CDup _ # cs) = True"
| "owned_map (CDataDup _ _ # cs) = True"
| "owned_map (CMap _ # cs) = False"
| "owned_map (CData _ _ # cs) = False"
| "owned_map (_ # cs) = owned_map cs"

fun autocalc_on :: "call list \<Rightarrow> bool" where
  "autocalc_on [] = False"
| "autocalc_on (CAutocalc i # cs) = (i \<noteq> 0)"
| "autocalc_on (_ # cs) = autocalc_on cs"

fun last_nmiss :: "call list \<Rightarrow> int" where
  "last_nmiss [] = 0"
| "last_nmiss (CNmiss i # cs) = i"
| "last_nmiss (_ # cs) = last_nmiss cs"

fun last_mods :: "call list \<Rightarrow> int" where
  "last_mods [] = 0"
| "last_mods (CMods i # cs) = i"
| "last_mods (_ # cs) = last_mods cs"

definition flags_of :: "bool \<Rightarrow> bool \<Rightarrow> int" where
  "flags_of owns auto = (if owns then 2 else 0) + (if auto then 1 else 0)"

lemma flags_ops:
  "has (flags_of w a) AUTOCALC_BIT = a" "has (flags_of w a) OWNS_MAP_BIT = w"
  "flags_of w a AND NOT OWNS_MAP_BIT = flags_of False a" "flags_of w a OR OWNS_MAP_BIT = flags_of True a"
  "flags_of w a AND NOT AUTOCALC_BIT = flags_of w False" "flags_of w a OR AUTOCALC_BIT = flags_of w True"
  by (cases w; cases a; simp add: flags_of_def has_def AUTOCALC_BIT_def OWNS_MAP_BIT_def)+

definition api_inv :: "call list \<Rightarrow> ezpp \<Rightarrow> bool" where
  "api_inv cs ez \<longleftrightarrow> ez_flags ez = flags_of (owned_map cs) (autocalc_on cs)
     \<and> (ez_map ez = None \<or> ez_data ez = None)
     \<and> ez_nmiss ez = last_nmiss cs \<and> ez_mods ez = last_mods cs"

lemma api_inv_settings: "settings ez' = settings ez \<Longrightarrow> api_inv cs ez' = api_inv cs ez"
  by (simp add: api_inv_def settings_def)

lemma free_owned_map_inv:
  "api_inv cs ez \<Longrightarrow> ez_flags (free_owned_map ez) = flags_of False (autocalc_on cs)
     \<and> ez_map (free_owned_map ez) = None \<and> ez_data (free_owned_map ez) = None
     \<and> ez_nmiss (free_owned_map ez) = last_nmiss cs \<and> ez_mods (free_owned_map ez) = last_mods cs"
  by (cases "owned_map cs") (simp_all add: api_inv_def free_owned_map_def Let_def flags_ops)

lemma memclone_frame: "memclone p ez = (r, ez') \<Longrightarrow> settings ez' = settings ez"
  by (auto simp: memclone_def Let_def)

lemma load_inv:
  assumes "api_inv cs ez" "calc E ez0 = Some (ez', r)"
    and "ez_flags ez0 = flags_of (owned_map (c # cs)) (autocalc_on (c # cs))"
    "ez_map ez0 = None \<or> ez_data ez0 = None" "ez_nmiss ez0 = last_nmiss (c # cs)" "ez_mods ez0 = last_mods (c # cs)"
  shows "api_inv (c # cs) ez'"
proof -
  have "api_inv (c # cs) ez0" using assms(3-6) by (simp add: api_inv_def)
  with api_inv_settings [OF calc_settings [OF assms(2)]] show ?thesis by simp
qed

lemmas load_defs = ezpp_map_def ezpp_data_def ezpp_dup_def ezpp_data_dup_def strclone_def

lemmas setter_defs = ezpp_set_base_cs_def ezpp_set_mode_override_def ezpp_set_nmiss_def ezpp_set_end_def
  ezpp_set_end_time_def ezpp_set_accuracy_def ezpp_set_aim_stars_def ezpp_set_speed_stars_def
  ezpp_set_base_ar_def ezpp_set_base_od_def ezpp_set_base_hp_def ezpp_set_mode_def ezpp_set_combo_def
  ezpp_set_score_version_def ezpp_set_accuracy_percent_def clobber_def acc_clobber_def

lemma setter_inv:
  assumes "autocalc E ez0 = Some ez'" "api_inv (c # cs) ez0"
  shows "api_inv (c # cs) ez'"
  using api_inv_settings [OF autocalc_settings [OF assms(1)]] assms(2) by simp

lemma api_step_inv:
  assumes "api_step E ez c ez'" "api_inv cs ez"
  shows "api_inv (c # cs) ez'"
  using assms(1)
proof cases
  case (map m r)
  then show ?thesis using free_owned_map_inv [OF assms(2)]
    by (auto simp: load_defs intro: load_inv [OF assms(2)])
next
  case (data d n r)
  then show ?thesis using free_owned_map_inv [OF assms(2)]
    by (auto simp: load_defs intro: load_inv [OF assms(2)])
next
  case (dup s r)
  let ?e = "(free_owned_map ez)\<lparr>ez_flags := ez_flags (free_owned_map ez) OR OWNS_MAP_BIT\<rparr>"
  obtain m ez1 where m: "memclone s ?e = (m, ez1)" by (cases "memclone s ?e")
  with dup have k: "calc E (ez1\<lparr>ez_map := m\<rparr>) = Some (ez', r)" by (simp add: load_defs Let_def)
  note S = settings_sel [OF memclone_frame [OF m]] free_owned_map_inv [OF assms(2)]
  show ?thesis unfolding dup(1)
    by (rule load_inv [OF assms(2) k]) (use S in \<open>auto simp: flags_ops\<close>)
next
  case (data_dup b n r)
  let ?e = "(free_owned_map ez)\<lparr>ez_flags := ez_flags (free_owned_map ez) OR OWNS_MAP_BIT\<rparr>"
  obtain m ez1 where m: "memclone (take (nat n) b) ?e = (m, ez1)" by (cases "memclone (take (nat n) b) ?e")
  with data_dup obtain d where k: "calc E (ez1\<lparr>ez_data := d, ez_data_size := n\<rparr>) = Some (ez', r)"
    by (auto simp: load_defs Let_def split: if_split_asm)
  note S = settings_sel [OF memclone_frame [OF m]] free_owned_map_inv [OF assms(2)]
  show ?thesis unfolding data_dup(1)
    by (rule load_inv [OF assms(2) k]) (use S in \<open>auto simp: flags_ops\<close>)
next
  case (autocalc i)
  with assms(2) show ?thesis by (simp add: api_inv_def ezpp_set_autocalc_def flags_ops)
next
  case (mods i)
  let ?e = "(if has (i XOR ez_mods ez) (MODS_MAP_CHANGING OR MODS_SPEED_CHANGING) then clobber ez else ez)\<lparr>ez_mods := i\<rparr>"
  have "autocalc E ?e = Some ez'" using mods(2) by (simp add: ezpp_set_mods_def Let_def)
  moreover have "api_inv (c # cs) ?e" using assms(2) mods(1) by (simp add: api_inv_def clobber_def)
  ultimately show ?thesis by (rule setter_inv)
qed (insert assms(2), (simp only: setter_defs, erule setter_inv, simp add: api_inv_def)+)

lemma api_run_inv: "api_run E h cs ez \<Longrightarrow> fresh_ok h \<Longrightarrow> api_inv cs ez"
proof (induction rule: api_run.induct)
  case (start ez)
  obtain r where "ezpp_new h = Some r" "\<And>ez. r = Some ez \<Longrightarrow> ez_map ez = None \<and> ez_data ez = None \<and> ez_flags ez = 0"
    using ezpp_new_hinv [OF start(2)] by metis
  moreover have "ez_nmiss ez = 0 \<and> ez_mods ez = 0"
    using start(1) by (auto simp: ezpp_new_def Let_def init_handle_def MODS_NOMOD_def elim!: bind_SomeE split: if_split_asm)
  ultimately show ?case using start(1) by (auto simp: api_inv_def flags_of_def)
qed (use api_step_inv in blast)

end
