(* ===== verification/ParserProps.thy ===== *)
theory ParserProps
  imports Handle
begin

text \<open>
  Properties of the parser: the contract of the line handlers put together for whole files and
  maps, what the string fields of a handle point to, and the witnesses on a small handle.
\<close>

subsection \<open>A handle for the examples\<close>

definition empty_heap :: heap where
  "empty_heap = \<lparr>h_next = 0, h_ok = (\<lambda>_. True), h_size = (\<lambda>_. None), h_cell = (\<lambda>_. None)\<rparr>"

definition blank_handle :: ezpp where
  "blank_handle = init_handle empty_heap"

text \<open>A concrete instance of the open part of \<^verbatim>\<open>math.h\<close>, for the examples only.\<close>

definition flat_libm :: libm where
  "flat_libm = \<lparr>m_pow = (\<lambda>_ _. Num 1), m_log = (\<lambda>_. Num 0), m_log10 = (\<lambda>_. Num 0),
     m_sin = (\<lambda>_. Num 0), m_atan2 = (\<lambda>_ _. Num 0)\<rparr>"

lemma blank_fresh: "fresh_ok empty_heap"
  by (simp add: fresh_ok_def empty_heap_def)

lemma blank_sel:
  "ez_mem blank_handle = \<lparr>a_block = None, a_end = None, a_blocks = empty_arr, a_heap = empty_heap\<rparr>"
  "ez_objects blank_handle = empty_arr" "ez_timing_points blank_handle = empty_arr"
  "ez_ncircles blank_handle = 0" "ez_nsliders blank_handle = 0" "ez_nspinners blank_handle = 0"
  by (simp_all add: blank_handle_def init_handle_def)

lemma blank_arena: "arena_ok \<lparr>a_block = None, a_end = None, a_blocks = empty_arr, a_heap = empty_heap\<rparr>"
  using blank_fresh by (simp add: arena_ok_def cur_ok_def blocks_ok_def) (simp add: empty_arr_def)

lemma grown_empty: "0 \<le> k \<Longrightarrow> grown k empty_arr"
  by (simp add: grown_def empty_arr_def arr_len_def)

lemma blank_hinv: "hinv 0 blank_handle"
  unfolding hinv_def blank_sel
  by (intro conjI blank_arena arr_ok_empty) (simp_all add: sizeof_object_def sizeof_timing_def grown_empty)

lemma end_stats_timing: "ez_timing_points (end_stats ez) = ez_timing_points ez"
proof -
  have "ez_timing_points (end_strings e) = ez_timing_points e" for e
    by (simp add: end_strings_def Let_def)
  moreover have "ez_timing_points (end_base_stats e) = ez_timing_points e" for e
    by (simp add: end_base_stats_def Let_def)
  ultimately show ?thesis by (simp add: end_stats_def mods_apply_shape)
qed

lemma p_end_empty:
  assumes "arr_items (ez_objects ez) = []" "arr_items (ez_timing_points ez) = []"
    "ez_nsliders ez = 0" "ez_nspinners ez = 0"
  shows "\<exists>ez'. p_end M ez = Some ez'"
proof -
  note S = shape_sel [OF end_stats_shape(1) [of ez]] end_stats_shape(2) [of ez] end_stats_timing [of ez]
  have "in_int 0" by (simp add: in_int_iff)
  then show ?thesis
    using assms S by (auto simp: p_end_def Let_def end_combo_def arr_len_def)
qed

lemma p_lines_Nil: "p_lines ez [] = Some (ez, 0)"
  by (simp add: p_lines_eq p_line_empty LINE_MAX_def)

lemma p_reset_empty:
  assumes "hinv k ez"
  obtains ez' where "p_reset ez = Some ez'" "hinv k ez'" "counts_ok ez'"
    "arr_items (ez_objects ez') = []" "arr_items (ez_timing_points ez') = []"
    "ez_nsliders ez' = 0" "ez_nspinners ez' = 0"
proof -
  obtain ez' where r: "p_reset ez = Some ez'" "hinv k ez'" "counts_ok ez'"
    by (rule p_reset_total [OF assms])
  then show thesis by (intro that [OF r]) (auto simp: p_reset_def elim!: bind_SomeE)
qed

lemma p_map_blank: "\<exists>ez'. p_map M blank_handle (Some []) = Some (ez', 0)"
proof -
  obtain ez1 where r: "p_reset blank_handle = Some ez1"
    "arr_items (ez_objects ez1) = []" "arr_items (ez_timing_points ez1) = []"
    "ez_nsliders ez1 = 0" "ez_nspinners ez1 = 0"
    by (rule p_reset_empty [OF blank_hinv])
  from p_end_empty [OF r(2-)] obtain ez2 where "p_end M ez1 = Some ez2" by blast
  with r(1) show ?thesis by (simp add: p_map_def p_lines_Nil)
qed

subsection \<open>Files\<close>

text \<open>
  C2 Parsing never meets undefined behaviour: on any file of at most a million lines whose runs
  of digits are at most nine long, whatever else it holds, reading all lines returns, keeps the
  invariant of the parser's memory and the settings of the handle, and, unless it reports an
  error, keeps the object counters equal to the objects stored.
\<close>

theorem parse_safe:
  assumes "hinv k ez" "short_runs 9 f" "k + int (length (split_on [NL] f)) \<le> LINES"
  shows "\<exists>ez' n. p_lines ez f = Some (ez', n) \<and> hinv (k + int (length (split_on [NL] f))) ez'
    \<and> cfg ez' = cfg ez \<and> (0 \<le> n \<and> counts_ok ez \<longrightarrow> counts_ok ez')"
  using p_lines_safe [OF assms(2,1,3)] p_lines_keeps p_lines_counts by metis

theorem parse_safe_witness:
  "\<exists>ez' n. p_lines blank_handle ''[HitObjects]\<newline>1,2,300,1,0'' = Some (ez', n) \<and> hinv 2 ez'"
proof -
  define f where "f = ''[HitObjects]\<newline>1,2,300,1,0''"
  have "length (split_on [NL] f) = 2"
    unfolding f_def by (simp only: length_split_on) (simp add: NL_def)
  moreover have "short_runs 9 f" by (simp add: is_digit_def f_def)
  ultimately show ?thesis using parse_safe [OF blank_hinv, of f] by (auto simp: LINES_def f_def [symmetric])
qed

text \<open>
  C8 The reading loop of \<^verbatim>\<open>p_map\<close>, which fills a 65535-byte buffer byte by byte, implements
  its specification: the file is split at the newlines and the lines are handed to \<^verbatim>\<open>p_line\<close> in
  order, up to the first error and the first line that does not fit the buffer.
\<close>

theorem file_loop_refines_lines: "p_lines ez f = run_lines p_line ez (split_on [NL] f)"
  by (rule p_lines_eq)

text \<open>
  C9 After a map was read from a file without an error, \<^verbatim>\<open>ncircles\<close>, \<^verbatim>\<open>nsliders\<close> and
  \<^verbatim>\<open>nspinners\<close> count the objects of each kind, \<^verbatim>\<open>nobjects\<close> is the number of objects, and the
  settings, the hit counts and the stars are those from before.
\<close>

theorem map_counts:
  assumes "p_map M ez f = Some (ez', n)" "0 \<le> n"
  shows "ez_ncircles ez' = count is_circle (arr_items (ez_objects ez'))
    \<and> ez_nsliders ez' = count is_slider (arr_items (ez_objects ez'))
    \<and> ez_nspinners ez' = count is_spinner (arr_items (ez_objects ez'))
    \<and> ez_nobjects ez' = int (length (arr_items (ez_objects ez'))) \<and> kept ez' = kept ez"
  using p_map_frame [OF assms(1)] assms(2) by (simp add: counts_ok_def arr_len_def)

theorem map_counts_witness:
  "\<exists>ez'. p_map flat_libm blank_handle (Some []) = Some (ez', 0)
    \<and> ez_ncircles ez' = count is_circle (arr_items (ez_objects ez'))"
  using p_map_blank [of flat_libm] map_counts by (metis order_refl)

lemma mem_loop_one_newline:
  assumes "b = [CHR 0x0A]"
  shows "mem_loop b (mk_slice 0 1) 0 0 ez = Some (ez, 1)"
proof -
  have c: "p_consume_til b (mk_slice 0 1) [CHR 0x0A] = Some (0, mk_slice 0 0)"
    using p_consume_til_spec(1) [of b "mk_slice 0 1" "[CHR 0x0A]"] assms
    by (simp add: slice_ok_def slice_str_def sub_def)
  have "in_int 0" "in_int 1" by (simp_all add: in_int_iff)
  then show ?thesis using c
    by (subst mem_loop.simps) (simp add: ck_def p_line_empty mem_loop.simps [of b "mk_slice (Suc 0) (Suc 0)"])
qed

text \<open>
  The same for a map read from memory.
\<close>

theorem map_mem_counts:
  assumes "p_map_mem M ez d sz = Some (ez', n)" "0 \<le> n"
  shows "ez_ncircles ez' = count is_circle (arr_items (ez_objects ez'))
    \<and> ez_nsliders ez' = count is_slider (arr_items (ez_objects ez'))
    \<and> ez_nspinners ez' = count is_spinner (arr_items (ez_objects ez'))
    \<and> ez_nobjects ez' = int (length (arr_items (ez_objects ez'))) \<and> kept ez' = kept ez"
  using p_map_mem_frame [OF assms(1)] assms(2) by (simp add: counts_ok_def arr_len_def)

lemma p_map_mem_blank: "\<exists>ez'. p_map_mem M blank_handle (Some [CHR 0x0A]) 1 = Some (ez', 1)"
proof -
  obtain ez1 where r: "p_reset blank_handle = Some ez1"
    "arr_items (ez_objects ez1) = []" "arr_items (ez_timing_points ez1) = []"
    "ez_nsliders ez1 = 0" "ez_nspinners ez1 = 0"
    by (rule p_reset_empty [OF blank_hinv])
  from p_end_empty [OF r(2-)] obtain ez2 where "p_end M ez1 = Some ez2" by blast
  with r(1) mem_loop_one_newline [OF refl, of ez1] show ?thesis by (simp add: p_map_mem_def)
qed

theorem map_mem_counts_witness:
  "\<exists>ez'. p_map_mem flat_libm blank_handle (Some [CHR 0x0A]) 1 = Some (ez', 1)
    \<and> ez_nobjects ez' = int (length (arr_items (ez_objects ez')))"
  using p_map_mem_blank [of flat_libm] map_mem_counts by (metis zero_le_one)

subsection \<open>Pieces of a line\<close>

text \<open>
  \<^verbatim>\<open>slice_trim\<close> reads only inside the slice and returns a part of it that holds the text
  without its leading and trailing whitespace.
\<close>

theorem trim_correct:
  assumes "slice_ok b s"
  shows "\<exists>t. slice_trim b s = Some t \<and> slice_ok b t \<and> s_start s \<le> s_start t \<and> s_end t \<le> s_end s
    \<and> slice_str b t = trim_spec (slice_str b s)"
  using slice_trim_spec [OF assms] by metis

theorem trim_correct_witness:
  "\<exists>t. slice_trim '' a b '' (mk_slice 0 5) = Some t \<and> slice_str '' a b '' t = ''a b''"
  using trim_correct [of "'' a b ''" "mk_slice 0 5"]
  by (auto simp: slice_ok_def slice_str_def sub_def trim_spec_def whitespace_def)

text \<open>
  \<^verbatim>\<open>slice_split\<close> cuts the text at every separator, as the specification \<open>split_on\<close> does: it
  writes the first \<open>nmax\<close> pieces and reports \<^verbatim>\<open>ERR_TRUNCATED\<close> exactly when there are more.
\<close>

theorem split_correct:
  assumes "slice_ok b s" "seps \<noteq> []" "0 < nmax"
  shows "\<exists>res. slice_split b s seps nmax =
      Some (res, if length (split_on seps (slice_str b s)) \<le> nmax then 0 else ERR_TRUNCATED)
    \<and> map (slice_str b) res = take nmax (split_on seps (slice_str b s)) \<and> list_all (slice_ok b) res"
  using slice_split_spec [OF assms] by metis

theorem split_correct_witness:
  "\<exists>res. slice_split ''1,2'' (mk_slice 0 3) '','' 1 = Some (res, ERR_TRUNCATED)
    \<and> map (slice_str ''1,2'') res = [''1'']"
  using split_correct [of "''1,2''" "mk_slice 0 3" "'',''" 1]
  by (auto simp: slice_ok_def slice_str_def sub_def)

lemma property_spec:
  assumes "slice_ok b s" "slice_str b s = name @ CHR '':'' # val" "CHR '':'' \<notin> set name"
  obtains nm vl where "p_property b s = Some (slice_len s, nm, vl)" "slice_ok b nm" "slice_ok b vl"
    "slice_str b nm = trim_spec name" "slice_str b vl = trim_spec val"
proof -
  have w: "takeWhile (\<lambda>c. c \<notin> set '':'') (slice_str b s) = name" "length name < length (slice_str b s)"
    using assms(2,3) by (auto simp: takeWhile_tail takeWhile_append2)
  note C = p_consume_til_spec [OF assms(1), of "'':''", unfolded w(1)]
  let ?n = "mk_slice (s_start s) (s_start s + length name)"
  let ?v = "mk_slice (s_start s + length name + 1) (s_end s)"
  have l: "length (slice_str b s) = s_end s - s_start s" "s_end s \<le> length b"
    using assms(1) by (simp_all add: slice_str_def slice_ok_def)
  then have e: "s_start s + length name < s_end s" using w(2) by linarith
  have sv: "slice_str b ?v = val"
  proof -
    have "slice_str b s = sub b (s_start s) (s_start s + length name + 1) @ slice_str b ?v"
      unfolding slice_str_def mk_slice_sel by (rule sub_append) (use e in simp_all)
    moreover have "length (sub b (s_start s) (s_start s + length name + 1)) = length (name @ '':'')"
      using e l(2) by simp
    ultimately have "slice_str b ?v = drop (length (name @ '':'')) (slice_str b s)" by simp
    then show ?thesis using assms(2) by simp
  qed
  have ok: "slice_ok b ?n" "slice_ok b ?v" using e l(2) by (auto simp: slice_ok_def)
  obtain nm where nm: "slice_trim b ?n = Some nm" "slice_ok b nm" "slice_str b nm = trim_spec (slice_str b ?n)"
    by (rule slice_trim_spec [OF ok(1)])
  obtain vl where vl: "slice_trim b ?v = Some vl" "slice_ok b vl" "slice_str b vl = trim_spec (slice_str b ?v)"
    by (rule slice_trim_spec [OF ok(2)])
  show thesis using C w(2) nm vl sv by (intro that [of nm vl]) (simp_all add: p_property_def)
qed

text \<open>
  A line \<^verbatim>\<open>Title: ...\<close> of the metadata section makes the title a fresh copy of the text after
  the first colon, trimmed; when there is no memory for the copy it makes it a null pointer.
\<close>

theorem metadata_title:
  assumes "line_ok b s" "hinv k ez" "k < LINES"
    and "slice_str b s = name @ CHR '':'' # val" "CHR '':'' \<notin> set name" "trim_spec name = ''Title''"
  shows "\<exists>ez' p. p_metadata b ez s = Some (ez', slice_len s) \<and> ez_title ez' = SPtr p
    \<and> (p = None \<or> load p (a_heap (ez_mem ez')) = Some (CStr (trim_spec val)))"
proof -
  have ok: "slice_ok b s" using assms(1) by (simp add: line_ok_def)
  from property_spec [OF ok assms(4,5)] obtain nm vl where p: "p_property b s = Some (slice_len s, nm, vl)"
    "slice_ok b nm" "slice_ok b vl" "slice_str b nm = ''Title''" "slice_str b vl = trim_spec val"
    using assms(6) by metis
  have k: "match_key b nm [''Title'', ''TitleUnicode'', ''Artist'', ''ArtistUnicode'', ''Creator'', ''Version'']
      = Some (Some ''Title'')"
    using match_key_total [OF p(2), of "[''Title'', ''TitleUnicode'', ''Artist'', ''ArtistUnicode'', ''Creator'', ''Version'']"] p(4)
    by (simp add: NUL_def del: match_key.simps)
  have h: "arena_ok (ez_mem ez)" "grown (2 * k) (a_blocks (ez_mem ez))" "2 * k < 10000000"
    "length b \<le> 100000000" using assms(1-3) by (auto simp: hinv_def LINES_def line_ok_def)
  have v: "s_start vl + nat (slice_len vl) = s_end vl" "s_end vl \<le> length b"
    using p(3) by (auto simp: slice_ok_def slice_len_def)
  then have vb: "s_start vl + nat (slice_len vl) \<le> length b" by simp
  from strndup_total [OF h(1,2) vb h(4,3)] obtain A' q where
    m: "m_strndup (ez_mem ez) b (s_start vl) (nat (slice_len vl)) = Some (A', q)"
    "\<And>a. q = Some a \<Longrightarrow> load q (a_heap A') = Some (CStr (trim_spec val))"
    using v(1) p(5) by (metis slice_str_def)
  have "0 \<le> slice_len s" using ok by (simp add: slice_ok_def slice_len_def)
  then show ?thesis using p(1) k m
    by (cases q) (simp_all add: p_metadata_def p_slicedup_def set_metadata_def del: match_key.simps)
qed

theorem metadata_title_witness:
  "\<exists>ez' p. p_metadata (''Title: a b'' @ [NUL]) blank_handle (mk_slice 0 10) = Some (ez', 10)
    \<and> ez_title ez' = SPtr p \<and> (p = None \<or> load p (a_heap (ez_mem ez')) = Some (CStr ''a b''))"
proof -
  define l where "l = ''Title: a b''"
  have "short_runs 9 (l @ [NUL])" "length l = 10" by (simp_all add: is_digit_def NUL_def l_def)
  then have ok: "line_ok (l @ [NUL]) (mk_slice 0 10)"
    using own_buffer_ok [of l] by (simp add: LINE_MAX_def)
  have s: "slice_str (l @ [NUL]) (mk_slice 0 10) = ''Title'' @ CHR '':'' # '' a b''"
    by (simp add: slice_str_def sub_def l_def)
  have "trim_spec ''Title'' = ''Title''" "trim_spec '' a b'' = ''a b''"
    by (simp_all add: trim_spec_def whitespace_def)
  then show ?thesis using metadata_title [OF ok blank_hinv _ s]
    by (simp add: LINES_def slice_len_def l_def [symmetric])
qed

text \<open>
  A section header sets the section: on \<^verbatim>\<open>[name]\<close>, for any name without a closing bracket, the
  parser keeps the first 63 bytes of the name as the current section and changes nothing else.
\<close>

theorem section_header:
  assumes "slice_ok b s" "slice_str b s = CHR ''['' # name @ '']''" "CHR '']'' \<notin> set name"
  shows "p_header b ez s = Some (ez\<lparr>ez_section := take 63 name\<rparr>, 1 + int (length name))"
proof -
  have l0: "length (slice_str b s) = s_end s - s_start s" "s_end s \<le> length b"
    using assms(1) by (simp_all add: slice_str_def slice_ok_def)
  then have l: "length (slice_str b s) = s_end s - s_start s" "s_end s \<le> length b" "s_start s < s_end s"
    using assms(2) by simp_all
  then have e: "s_start s + 1 + length name = s_end s - 1" using assms(2) by simp
  have st: "slice_str b s = b ! s_start s # sub b (s_start s + 1) (s_end s)"
    unfolding slice_str_def by (rule sub_step) (use l in simp_all)
  let ?r = "mk_slice (s_start s + 1) (s_end s)"
  have r: "slice_ok b ?r" "slice_str b ?r = name @ '']''" "b ! s_start s = CHR ''[''"
    using st l assms(2) by (auto simp: slice_ok_def slice_str_def)
  have w: "takeWhile (\<lambda>c. c \<notin> set '']'') (slice_str b ?r) = name"
    using r(2) assms(3) by (auto simp: takeWhile_tail takeWhile_append2)
  note C = p_consume_til_spec [OF r(1), of "'']''", unfolded w]
  let ?n = "mk_slice (s_start s + 1) (s_start s + 1 + length name)"
  have n: "p_section_name b s = Some (1 + int (length name), ?n)"
    using C(1) r e l by (simp add: p_section_name_def)
  let ?p = "s_start s + 1"
  have N: "take (length name) (drop ?p b) = name" using C(2) by (simp add: slice_str_def sub_def)
  have T: "sub b ?p (?p + m) = take m name" if "m \<le> length name" for m
  proof -
    have "sub b ?p (?p + m) = take m (take (length name) (drop ?p b))" using that by (simp add: sub_def)
    then show ?thesis unfolding N .
  qed
  have "sub b ?p (?p + nat (al_mini 63 (int (length name)))) = take 63 name"
  proof (cases "63 \<le> length name")
    case True
    then have "nat (al_mini 63 (int (length name))) = 63" by simp
    with T [OF True] show ?thesis by simp
  next
    case False
    then have "nat (al_mini 63 (int (length name))) = length name" by simp
    with T [of "length name"] False show ?thesis by simp
  qed
  then show ?thesis using n by (simp add: p_header_def Let_def slice_len_def)
qed

theorem section_header_witness:
  "p_header ''[General]'' blank_handle (mk_slice 0 9) = Some (blank_handle\<lparr>ez_section := ''General''\<rparr>, 8)"
  using section_header [of "''[General]''" "mk_slice 0 9" "''General''" blank_handle]
  by (simp add: slice_ok_def slice_str_def sub_def)

subsection \<open>Memory\<close>

text \<open>
  C38 The arena hands out memory of its own: a block of \<^verbatim>\<open>m_alloc\<close> is aligned to 8 bytes, lies inside a
  live block of the heap, overlaps nothing handed out before, and what was handed out before
  stays valid.
\<close>

theorem arena_disjoint:
  assumes "m_alloc A n = Some (A', Some q)" "arena_ok A" "0 \<le> n"
  shows "arena_ok A' \<and> 8 dvd snd q \<and> owned A' (region_of q n)
    \<and> (\<forall>r. owned A r \<longrightarrow> owned A' r \<and> disjoint_regions r (region_of q n))"
  using m_alloc_ok [OF assms] by blast

theorem arena_disjoint_witness:
  "\<exists>A' q. m_alloc (ez_mem blank_handle) 5 = Some (A', Some q) \<and> 8 dvd snd q \<and> owned A' (region_of q 5)"
proof -
  have "bit_align_up 4096 M_ALIGN = 4096" "bit_align_up 5 M_ALIGN = 8"
    by (simp_all add: bit_align_up_def bit_align_down_def M_ALIGN_def)
  then obtain A' q where a: "m_alloc (ez_mem blank_handle) 5 = Some (A', Some q)"
    by (simp add: blank_sel m_alloc_def m_reserve_def M_BLOCK_SIZE_def malloc_def empty_heap_def array_append_def
        array_reserve_i_def empty_arr_def arr_len_def in_int_iff)
  have "arena_ok (ez_mem blank_handle)" using blank_hinv by (simp add: hinv_def)
  from arena_disjoint [OF a this] a show ?thesis by auto
qed

lemma reset_frees:
  assumes "hinv k ez" "p_reset ez = Some ez'" "Some (i, 0) \<in> set (arr_items (a_blocks (ez_mem ez)))"
  shows "h_cell (a_heap (ez_mem ez')) (i, p) = None"
proof -
  have "arena_ok (ez_mem ez)" using assms(1) by (simp add: hinv_def)
  then obtain A' where m: "m_free (ez_mem ez) = Some A'"
    "h_cell (a_heap A') = (\<lambda>a. if Some (fst a, 0) \<in> set (arr_items (a_blocks (ez_mem ez))) then None
       else h_cell (a_heap (ez_mem ez)) a)"
    by (rule m_free_ok) blast
  with assms(2,3) show ?thesis by (auto simp: p_reset_def)
qed

text \<open>
  Resetting leaves the strings of the previous map dangling: \<^verbatim>\<open>p_reset\<close> frees the blocks of the arena,
  but the title keeps its pointer, and reading it afterwards is undefined. The \<^verbatim>\<open>p_end\<close> of
  a next map that sets no title does not replace such a pointer, for it is not null.
\<close>

theorem reset_dangles:
  assumes "hinv k ez" "ez_title ez = SPtr (Some (i, p))" "Some (i, 0) \<in> set (arr_items (a_blocks (ez_mem ez)))"
  shows "\<exists>ez'. p_reset ez = Some ez' \<and> ez_title ez' = SPtr (Some (i, p)) \<and> str_of ez' (ez_title ez') = None
    \<and> ez_title (end_strings ez') = SPtr (Some (i, p))"
proof -
  obtain ez' where r: "p_reset ez = Some ez'" by (rule p_reset_total [OF assms(1)])
  then have t: "ez_title ez' = SPtr (Some (i, p))" using assms(2) by (auto simp: p_reset_def elim!: bind_SomeE)
  from reset_frees [OF assms(1) r assms(3)] r t show ?thesis
    by (simp add: str_of_def load_def end_strings_def Let_def or_null_def)
qed

theorem reset_dangles_witness:
  "\<exists>ez ez'. ez_title ez = SPtr (Some (0, 8)) \<and> p_reset ez = Some ez' \<and> str_of ez' (ez_title ez') = None"
proof -
  let ?h = "empty_heap\<lparr>h_size := [0 \<mapsto> 4096], h_next := 1\<rparr>"
  let ?A = "\<lparr>a_block = Some (0, 16), a_end = Some (0, 4096), a_blocks = \<lparr>arr_cap = 16, arr_items = [Some (0, 0)]\<rparr>, a_heap = ?h\<rparr>"
  let ?e = "blank_handle\<lparr>ez_mem := ?A, ez_title := SPtr (Some (0, 8))\<rparr>"
  have "arena_ok ?A"
    by (auto simp: arena_ok_def cur_ok_def fresh_ok_def blocks_ok_def arr_ok_def arr_len_def INT_MAX_def empty_heap_def)
  then have "hinv 1 ?e"
    by (simp add: hinv_def blank_sel grown_empty sizeof_object_def sizeof_timing_def) (simp add: grown_def arr_len_def)
  from reset_dangles [OF this, of 0 8] obtain ez' where "p_reset ?e = Some ez'" "str_of ez' (ez_title ez') = None"
    by auto
  then show ?thesis by (intro exI [of _ ?e] exI [of _ ez']) simp
qed

end
