(* ===== verification/ApiProps.thy ===== *)
theory ApiProps
  imports Api ParserProps
begin

text \<open>
  Properties of the interface: what a calculation may change, what sequences of calls keep, and
  the cases in which the interface does not do what its header says.
\<close>

text \<open>
  Calculation keeps the settings: \<^verbatim>\<open>calc\<close> changes neither the map, the data and its size, the
  flags, the mode override, the score version, the mods, the misses nor the end of the map,
  whatever it reads and however it ends.
\<close>

theorem calc_keeps_settings:
  assumes "calc E ez = Some (ez', n)"
  shows "ez_map ez' = ez_map ez \<and> ez_data ez' = ez_data ez \<and> ez_data_size ez' = ez_data_size ez
    \<and> ez_flags ez' = ez_flags ez \<and> ez_mode_override ez' = ez_mode_override ez
    \<and> ez_score_version ez' = ez_score_version ez \<and> ez_mods ez' = ez_mods ez
    \<and> ez_nmiss ez' = ez_nmiss ez \<and> ez_end ez' = ez_end ez \<and> ez_end_time ez' = ez_end_time ez"
  using settings_sel [OF calc_settings [OF assms]] by simp

lemma calc_missing_file:
  assumes "e_files E m = None" "m \<noteq> ''-''" "ez_map ez = Some m" "ez_data ez = None" "ez_max_combo ez = 0"
  shows "\<exists>ez'. calc E ez = Some (ez', ERR_IO)"
  using assms by (simp add: calc_def params_from_map_def Let_def ERR_IO_def)

definition no_files :: "libm \<Rightarrow> env" where
  "no_files M = \<lparr>e_libm = M, e_files = (\<lambda>_. None), e_stdin = []\<rparr>"

lemma blank_settings:
  "ez_map blank_handle = None" "ez_data blank_handle = None" "ez_max_combo blank_handle = 0"
  "ez_flags blank_handle = 0" "ez_nmiss blank_handle = 0" "ez_mods blank_handle = 0"
  by (simp_all add: blank_handle_def init_handle_def MODS_NOMOD_def)

theorem calc_keeps_settings_witness:
  "\<exists>ez'. calc (no_files flat_libm) (blank_handle\<lparr>ez_map := Some ''x.osu'', ez_nmiss := 3\<rparr>) = Some (ez', ERR_IO)
    \<and> ez_nmiss ez' = 3 \<and> ez_map ez' = Some ''x.osu''"
proof -
  obtain ez' where k: "calc (no_files flat_libm) (blank_handle\<lparr>ez_map := Some ''x.osu'', ez_nmiss := 3\<rparr>) = Some (ez', ERR_IO)"
    using calc_missing_file [of "no_files flat_libm" "''x.osu''" "blank_handle\<lparr>ez_map := Some ''x.osu'', ez_nmiss := 3\<rparr>"]
    by (auto simp: no_files_def blank_settings)
  with calc_keeps_settings [OF k] show ?thesis by simp
qed

text \<open>
  C5 Every handle that a sequence of API calls reaches is consistent with the history: it owns its
  map exactly when the last map was given to one of the copying calls, recalculates exactly when
  the last \<^verbatim>\<open>ezpp_set_autocalc\<close> said so, never has both a map and data, and holds the misses and
  the mods that were set last.
\<close>

theorem api_history:
  assumes "api_run E h cs ez" "fresh_ok h"
  shows "ez_flags ez = flags_of (owned_map cs) (autocalc_on cs) \<and> (ez_map ez = None \<or> ez_data ez = None)
    \<and> ez_nmiss ez = last_nmiss cs \<and> ez_mods ez = last_mods cs"
  using api_run_inv [OF assms] by (simp add: api_inv_def)

lemma new_blank: "\<exists>ez. ezpp_new empty_heap = Some (Some ez) \<and> ez_flags ez = 0"
proof -
  obtain r where r: "ezpp_new empty_heap = Some r" "\<And>ez. r = Some ez \<Longrightarrow> ez_flags ez = 0"
    using ezpp_new_hinv [OF blank_fresh] by metis
  moreover have "r \<noteq> None" using r(1)
    by (auto simp: ezpp_new_def empty_heap_def Let_def elim!: bind_SomeE)
  ultimately show ?thesis by auto
qed

theorem api_history_witness:
  "\<exists>ez. api_run (no_files flat_libm) empty_heap [CAutocalc 1, CMods 64, CNmiss 2] ez \<and> ez_nmiss ez = 2 \<and> ez_mods ez = 64
    \<and> ez_flags ez = 1"
proof -
  obtain e0 where 0: "ezpp_new empty_heap = Some (Some e0)" "ez_flags e0 = 0" using new_blank by blast
  let ?e1 = "(acc_clobber e0)\<lparr>ez_nmiss := 2\<rparr>"
  have f1: "ez_flags ?e1 = 0" using 0(2) by (simp add: acc_clobber_def clobber_def)
  have 1: "api_step (no_files flat_libm) e0 (CNmiss 2) ?e1"
    by (rule api_step.nmiss) (use f1 in \<open>simp add: ezpp_set_nmiss_def autocalc_def has_def\<close>)
  let ?e2 = "(if has (64 XOR ez_mods ?e1) (MODS_MAP_CHANGING OR MODS_SPEED_CHANGING) then clobber ?e1 else ?e1)\<lparr>ez_mods := 64\<rparr>"
  have 2: "api_step (no_files flat_libm) ?e1 (CMods 64) ?e2"
    by (rule api_step.mods) (use f1 in \<open>simp add: ezpp_set_mods_def Let_def autocalc_def has_def clobber_def\<close>)
  have 3: "api_run (no_files flat_libm) empty_heap [CAutocalc 1, CMods 64, CNmiss 2] (ezpp_set_autocalc ?e2 1)"
    using 0(1) 1 2 by (intro api_run.step [OF _ api_step.autocalc] api_run.step [OF _ 2] api_run.step [OF _ 1] api_run.start)
  have "last_nmiss [CAutocalc 1, CMods 64, CNmiss 2] = 2" "last_mods [CAutocalc 1, CMods 64, CNmiss 2] = 64"
    "flags_of (owned_map [CAutocalc 1, CMods 64, CNmiss 2]) (autocalc_on [CAutocalc 1, CMods 64, CNmiss 2]) = 1"
    by (simp_all add: flags_of_def)
  with 3 api_history [OF 3 blank_fresh] show ?thesis by metis
qed

text \<open>
  Without a map and without data no file is read: the result of \<^verbatim>\<open>calc\<close> does not depend on the
  files and the standard input.
\<close>

theorem calc_without_map:
  assumes "ez_map ez = None" "ez_data ez = None"
  shows "calc (E\<lparr>e_files := fs, e_stdin := s\<rparr>) ez = calc E ez"
proof -
  have l: "e_libm (E\<lparr>e_files := fs, e_stdin := s\<rparr>) = e_libm E" by simp
  show ?thesis using assms unfolding calc_def calc_pp_def l by simp
qed

theorem calc_without_map_witness:
  "calc ((no_files flat_libm)\<lparr>e_files := (\<lambda>_. Some ''x''), e_stdin := ''y''\<rparr>) blank_handle = calc (no_files flat_libm) blank_handle"
  by (rule calc_without_map) (simp_all add: blank_settings)

text \<open>
  In autocalc mode with a map, \<^verbatim>\<open>ezpp_set_base_cs\<close> has no effect of its own: it forces the map to be
  read again, and reading it resets the value just set, so that the argument does not matter.
\<close>

theorem base_cs_ignored:
  assumes "has (ez_flags ez) AUTOCALC_BIT" "ez_map ez \<noteq> None \<or> ez_data ez \<noteq> None"
  shows "ezpp_set_base_cs E ez x = ezpp_set_base_cs E ez y"
  using assms by (simp add: ezpp_set_base_cs_def autocalc_def calc_def clobber_def)

theorem base_cs_ignored_witness:
  "ezpp_set_base_cs (no_files flat_libm) (blank_handle\<lparr>ez_flags := 1, ez_map := Some ''m''\<rparr>) (Num 2)
    = ezpp_set_base_cs (no_files flat_libm) (blank_handle\<lparr>ez_flags := 1, ez_map := Some ''m''\<rparr>) (Num 7)"
  by (rule base_cs_ignored) (simp_all add: has_def AUTOCALC_BIT_def)

text \<open>
  The hit counts always add up: after the count step of \<^verbatim>\<open>calc\<close> the 300s, 100s, 50s and misses sum to
  the number of objects.
\<close>

theorem calc_counts_sum:
  assumes "calc_counts ez = Some ez'"
  shows "ez_n300 ez' + ez_n100 ez' + ez_n50 ez' + ez_nmiss ez' = ez_nobjects ez'"
  using assms unfolding calc_counts_def by (auto elim!: bind_SomeE split: if_split_asm)

theorem calc_counts_sum_witness:
  "\<exists>ez'. calc_counts (blank_handle\<lparr>ez_nobjects := 10, ez_nmiss := 2, ez_combo := 5, ez_accuracy_percent := Num (- 1)\<rparr>) = Some ez'
    \<and> ez_n300 ez' + ez_n100 ez' + ez_n50 ez' + ez_nmiss ez' = ez_nobjects ez'"
proof -
  have "\<exists>ez'. calc_counts (blank_handle\<lparr>ez_nobjects := 10, ez_nmiss := 2, ez_combo := 5, ez_accuracy_percent := Num (- 1)\<rparr>) = Some ez'"
    by (simp add: calc_counts_def blank_handle_def init_handle_def in_int_iff)
  with calc_counts_sum show ?thesis by metis
qed

text \<open>
  When an accuracy is set for osu! standard and there are more misses than objects, the number of 300s
  becomes negative: \<^verbatim>\<open>acc_round\<close> clamps the misses, but \<^verbatim>\<open>calc\<close> then recomputes the 300s with the misses
  as they were set.
\<close>

theorem calc_counts_negative:
  assumes "ez_mode ez = MODE_STD" "fle (Num 0) (ez_accuracy_percent ez)" "0 \<le> ez_nobjects ez"
    "ez_nobjects ez < ez_nmiss ez" "ez_nmiss ez \<le> 55924" "0 \<le> ez_combo ez"
  shows "\<exists>ez'. calc_counts ez = Some ez' \<and> ez_n300 ez' < 0"
proof -
  have "ez_accuracy_percent ez \<noteq> NaN" using assms(2) by (auto simp: fle_def)
  then obtain a b c where r: "acc_round (ez_accuracy_percent ez) (ez_nobjects ez) (ez_nmiss ez) = Some (a, b, c)"
    "0 \<le> a" "0 \<le> b" "0 \<le> c" "a + b + c + min (ez_nobjects ez) (ez_nmiss ez) = ez_nobjects ez"
    using acc_round_total [of "ez_nobjects ez" "ez_nmiss ez" "ez_accuracy_percent ez"] assms by fastforce
  then have "b = 0" "c = 0" using assms(4) by simp_all
  then show ?thesis using r(1) assms by (simp add: calc_counts_def in_int_iff)
qed

theorem calc_counts_negative_witness:
  "\<exists>ez'. calc_counts (blank_handle\<lparr>ez_nobjects := 10, ez_nmiss := 12, ez_combo := 0, ez_accuracy_percent := Num 50\<rparr>) = Some ez'
    \<and> ez_n300 ez' < 0"
  by (rule calc_counts_negative) (simp_all add: blank_handle_def init_handle_def)

end
