(* ===== verification/DiffProps.thy ===== *)
theory DiffProps
  imports DiffTaiko ParserProps "HOL-Library.Multiset"
begin

text \<open>
  Properties of the difficulty calculation and of the data it works on: the sort and the peaks
  of the strains, the bonuses of taiko, the ranges that the mods leave, the search for timing
  points, the allocator, and the bit patterns of floats.
\<close>

subsection \<open>Strains\<close>

lemma dbl_desc_flip: "x \<noteq> NaN \<Longrightarrow> y \<noteq> NaN \<Longrightarrow> \<not> dbl_desc x y \<le> 0 \<Longrightarrow> fle x y"
  by (auto simp: dbl_desc_def fle_def split: if_splits)

lemma dbl_desc_le: "x \<noteq> NaN \<Longrightarrow> y \<noteq> NaN \<Longrightarrow> dbl_desc x y \<le> 0 \<Longrightarrow> fle y x"
  by (cases x; cases y) (auto simp: dbl_desc_def fle_def split: if_splits)

lemma fle_trans: "fle x y \<Longrightarrow> fle y z \<Longrightarrow> fle x z"
  by (cases x; cases y; cases z) (auto simp: fle_def)

lemma set_insert_by [simp]: "set (insert_by cmp x xs) = insert x (set xs)"
  by (induction xs) auto

lemma mset_insert_by: "mset (insert_by cmp x xs) = add_mset x (mset xs)"
  by (induction xs) auto

lemma mset_qsort_by: "mset (qsort_by cmp xs) = mset xs"
  by (induction xs) (simp_all add: qsort_by_def mset_insert_by)

lemma sorted_insert_by:
  assumes "NaN \<notin> set (x # xs)" "sorted_wrt (\<lambda>a b. fle b a) xs"
  shows "sorted_wrt (\<lambda>a b. fle b a) (insert_by dbl_desc x xs)"
  using assms
proof (induction xs)
  case (Cons y ys)
  then have n: "x \<noteq> NaN" "y \<noteq> NaN" by auto
  show ?case
  proof (cases "dbl_desc x y \<le> 0")
    case True
    with Cons.prems dbl_desc_le [OF n] show ?thesis by (auto intro: fle_trans)
  next
    case False
    with Cons dbl_desc_flip [OF n False] show ?thesis by auto
  qed
qed simp

lemma sorted_qsort_by: "NaN \<notin> set xs \<Longrightarrow> sorted_wrt (\<lambda>a b. fle b a) (qsort_by dbl_desc xs)"
proof (induction xs)
  case (Cons x xs)
  moreover have "set (qsort_by dbl_desc xs) = set xs" using mset_qsort_by by (metis set_mset_mset)
  ultimately show ?case by (simp add: qsort_by_def sorted_insert_by)
qed (simp add: qsort_by_def)

text \<open>
  Weighing sorts the peaks: when no strain is NaN, the array is afterwards a permutation of
  itself from the highest to the lowest, nothing else of the handle changes, and the results
  are the weighed sums over the sorted peaks.
\<close>

theorem weigh_sorts:
  assumes "NaN \<notin> set (arr_items (ez_highest_strains ez))"
  shows "\<exists>ys. mset ys = mset (arr_items (ez_highest_strains ez)) \<and> sorted_wrt (\<lambda>a b. fle b a) ys
    \<and> d_weigh_strains M ez = Some (ez\<lparr>ez_highest_strains := (ez_highest_strains ez)\<lparr>arr_items := ys\<rparr>\<rparr>,
        weigh M ys (Num 0) (Num 0) (Num 1))"
  using assms sorted_qsort_by [OF assms] mset_qsort_by [of dbl_desc]
  by (auto simp: d_weigh_strains_def Let_def split: prod.splits)

theorem weigh_sorts_witness:
  "\<exists>ys. mset ys = {#Num 1, Num 3, Num 2#} \<and> sorted_wrt (\<lambda>a b. fle b a) ys
    \<and> (\<exists>r. d_weigh_strains flat_libm (blank_handle\<lparr>ez_highest_strains := \<lparr>arr_cap = 16, arr_items = [Num 1, Num 3, Num 2]\<rparr>\<rparr>) = Some r)"
  using weigh_sorts [of "blank_handle\<lparr>ez_highest_strains := \<lparr>arr_cap = 16, arr_items = [Num 1, Num 3, Num 2]\<rparr>\<rparr>" flat_libm]
  by auto

text \<open>
  The loop over the 400ms sections catches up with the current object: when it ends without an
  error, the section does not end before the object, the peaks stored before are still there in front
  of the new ones, and the first new one is the maximum of the section that was open.
\<close>

theorem strain_sections:
  assumes "strain_loop M d ct pt ps first ez = Some (ez', n)" "0 \<le> n"
  shows "\<not> flt (ez_interval_end ez') ct \<and>
    (\<exists>new. arr_items (ez_highest_strains ez') = arr_items (ez_highest_strains ez) @ new
      \<and> (new = [] \<longrightarrow> ez' = ez) \<and> (new \<noteq> [] \<longrightarrow> hd new = ez_max_strain ez))"
  using assms
proof (induction ez rule: strain_loop_induct)
  case (1 ez)
  from 1(2) show ?case
  proof (cases rule: strain_loop_cases)
    case oom
    show ?thesis using oom(1) 1(3) by (simp only: ERR_OOM_def)
  next
    case (round h hs ms)
    let ?e = "ez\<lparr>ez_highest_strains := hs, ez_mem := (ez_mem ez)\<lparr>a_heap := h\<rparr>, ez_max_strain := ms,
        ez_interval_end := addf (ez_interval_end ez) (mulf STRAIN_STEP (ez_speed_mul ez))\<rparr>"
    have "strain_room ?e < strain_room ez" using round(4) by (simp add: strain_room_def)
    from 1(1) [OF this round(2) 1(3)] obtain new where
      "\<not> flt (ez_interval_end ez') ct" "arr_items (ez_highest_strains ez') = arr_items hs @ new" by auto
    with round(3) show ?thesis by (intro conjI exI [of _ "ez_max_strain ez # new"]) simp_all
  qed simp
qed

theorem strain_sections_witness:
  "strain_loop flat_libm (Num 1) (Num 5) (Num 0) (Num 0) True (blank_handle\<lparr>ez_interval_end := Num 400\<rparr>)
      = Some (blank_handle\<lparr>ez_interval_end := Num 400\<rparr>, 0)
    \<and> \<not> flt (ez_interval_end (blank_handle\<lparr>ez_interval_end := Num 400\<rparr>)) (Num 5)"
proof -
  have "strain_loop flat_libm (Num 1) (Num 5) (Num 0) (Num 0) True (blank_handle\<lparr>ez_interval_end := Num 400\<rparr>)
      = Some (blank_handle\<lparr>ez_interval_end := Num 400\<rparr>, 0)"
    by (subst strain_loop.simps) simp
  with strain_sections [OF this] show ?thesis by simp
qed

subsection \<open>Taiko\<close>

text \<open>
  The bonuses of a taiko hit are bounded: the type change gives 0 or 0.75, the rhythm change 0
  or 1; and the type change leaves the streak of the hit at 1 or makes it one longer than that of
  the hit before.
\<close>

theorem taiko_bonus_bounds:
  assumes "taiko_change_bonus cur prev = Some (b, cur')" "k_same_since cur = 1"
  shows "b \<in> {Num 0, Num (3/4)} \<and> taiko_rhythm_bonus M cur' prev \<in> {Num 0, Num 1}
    \<and> k_same_since cur' = (if k_rim prev = k_rim cur then k_same_since prev + 1 else 1)"
  using assms unfolding taiko_change_bonus_def taiko_rhythm_bonus_def Let_def
  by (auto simp: TAIKO_TYPE_CHANGE_BONUS_def TAIKO_RHYTHM_CHANGE_BONUS_def split: if_split_asm elim!: bind_SomeE)

theorem taiko_bonus_bounds_witness:
  "\<exists>cur'. taiko_change_bonus (fresh_hit True (Num 9) (Num 3) True) (fresh_hit True (Num 6) (Num 3) True) = Some (Num 0, cur')
    \<and> k_same_since cur' = 2"
proof -
  obtain cur' where c: "taiko_change_bonus (fresh_hit True (Num 9) (Num 3) True) (fresh_hit True (Num 6) (Num 3) True) = Some (Num 0, cur')"
    by (simp add: taiko_change_bonus_def fresh_hit_def in_int_iff)
  with taiko_bonus_bounds [OF c] show ?thesis by (simp add: fresh_hit_def)
qed

subsection \<open>Mods\<close>

text \<open>
  Active mods leave the settings in range: for any settings but NaN the speed is between 0.75 and
  1.5, the hit window positive and at most 107 (67 in taiko) ms, the approach rate between -5
  and 11, the circle size between 0 and 10, the drain at most 10.
\<close>

theorem mods_ranges:
  assumes "ez_mode ez = MODE_STD \<or> ez_mode ez = MODE_TAIKO" "has (ez_mods ez) MODS_MAP_CHANGING"
    and "ez_od ez \<noteq> NaN" "ez_ar ez \<noteq> NaN" "ez_cs ez \<noteq> NaN" "ez_hp ez \<noteq> NaN"
  shows "let ez' = fst (mods_apply ez) in btw (3/4) (3/2) (ez_speed_mul ez')
    \<and> btw 13 (if ez_mode ez = MODE_STD then 107 else 67) (ez_odms ez')
    \<and> btw (- 6) (if ez_mode ez = MODE_STD then 45/4 else 99/8) (ez_od ez')
    \<and> btw (- 5) 11 (ez_ar ez') \<and> btw 0 10 (ez_cs ez') \<and> fle (ez_hp ez') (Num 10)"
  using mods_apply_map_changing [OF assms prod.collapse [symmetric]] by (simp add: Let_def)

theorem mods_ranges_witness:
  "btw (- 5) 11 (ez_ar (fst (mods_apply (blank_handle\<lparr>ez_mods := 80\<rparr>))))"
  using mods_ranges [of "blank_handle\<lparr>ez_mods := 80\<rparr>"]
  by (simp add: Let_def blank_handle_def init_handle_def has_def mods_bits)

text \<open>
  The overall difficulty leaves the range that the comment on \<^verbatim>\<open>mods_apply\<close> gives (-4.42 to 11.08): with
  double time a difficulty of 10 becomes more than 11.1, and with half time 0 becomes less than -4.4443.
\<close>

theorem mods_od_beyond_comment:
  "flt (Num (111/10)) (ez_od (fst (mods_apply (blank_handle\<lparr>ez_mods := MODS_DT, ez_od := Num 10\<rparr>))))
    \<and> flt (ez_od (fst (mods_apply (blank_handle\<lparr>ez_mods := MODS_HT, ez_od := Num 0\<rparr>)))) (Num (- 44443/10000))"
  by (simp add: mods_apply_def blank_handle_def init_handle_def has_def mods_bits Let_def mods_od_def mods_odms_def
      mods_speed_def mods_stat_mul_def odms_of_def od0_ms_def od10_ms_def od_ms_step_def al_min_def al_max_def fp_eval)

subsection \<open>Timing points\<close>

definition next_time :: "timing list \<Rightarrow> int \<Rightarrow> fp \<Rightarrow> bool" where
  "next_time tps i t \<longleftrightarrow>
     (if i + 1 < int (length tps) then 0 \<le> i + 1 \<and> t_time (tps ! nat (i + 1)) = Some t else t = Inf False)"

lemma fle_inf_finite [simp]: "finite_fp x \<Longrightarrow> \<not> fle (Inf False) x"
  by (cases x) (auto simp: fle_def)

lemma tp_loop_step:
  assumes "tp_loop tps time tn i = Some r" "fle tn time"
  obtains tn1 where "ck (i + 1) = Some (i + 1)" "tp_loop tps time tn1 (i + 1) = Some r"
    "(if i + 1 + 1 < int (length tps) then do { t \<leftarrow> rdi tps (i + 1 + 1); t_time t } else Some (Inf False)) = Some tn1"
proof -
  have "do { tindex \<leftarrow> ck (i + 1);
        tnext \<leftarrow> (if tindex + 1 < int (length tps) then do { t \<leftarrow> rdi tps (tindex + 1); t_time t } else Some (Inf False));
        tp_loop tps time tnext tindex } = Some r"
    using assms(1) unfolding tp_loop.simps [of tps time tn i] if_P [OF assms(2)] .
  then show thesis by (elim bind_SomeE) (rule that, simp_all)
qed

lemma tp_loop_stop: "\<not> fle tn time \<Longrightarrow> tp_loop tps time tn i = Some (tn, i)"
  by (subst tp_loop.simps) simp

lemma tp_loop_ge: "tp_loop tps time tn i = Some (tn', k) \<Longrightarrow> i \<le> k"
proof (induction tps time tn i rule: tp_loop.induct)
  case (1 tps time tn i)
  show ?case
  proof (cases "fle tn time")
    case True
    then obtain tn1 where t: "ck (i + 1) = Some (i + 1)" "tp_loop tps time tn1 (i + 1) = Some (tn', k)"
      "(if i + 1 + 1 < int (length tps) then do { t \<leftarrow> rdi tps (i + 1 + 1); t_time t } else Some (Inf False)) = Some tn1"
      by (rule tp_loop_step [OF 1(2)])
    from 1(1) [OF True t(1,3,2)] show ?thesis by simp
  next
    case False
    with 1(2) show ?thesis by (simp add: tp_loop_stop)
  qed
qed

lemma tp_loop_spec:
  assumes "tp_loop tps time tn i = Some (tn', k)" "finite_fp time"
  shows "i \<le> k \<and> \<not> fle tn' time \<and> (i < k \<longrightarrow> fle tn time \<and> next_time tps k tn')
    \<and> (\<forall>j. i + 1 < j \<and> j \<le> k \<longrightarrow> j < int (length tps) \<and> (\<exists>x. t_time (tps ! nat j) = Some x \<and> fle x time))"
  using assms
proof (induction tps time tn i rule: tp_loop.induct)
  case (1 tps time tn i)
  show ?case
  proof (cases "fle tn time")
    case False
    with 1(2) show ?thesis by (auto simp: tp_loop.simps [of tps time tn i])
  next
    case True
    then obtain tn1 where t: "ck (i + 1) = Some (i + 1)" "tp_loop tps time tn1 (i + 1) = Some (tn', k)"
      and u: "(if i + 1 + 1 < int (length tps) then do { t \<leftarrow> rdi tps (i + 1 + 1); t_time t } else Some (Inf False)) = Some tn1"
      by (rule tp_loop_step [OF 1(2)])
    have nx: "next_time tps (i + 1) tn1"
      using u by (auto simp: next_time_def elim!: bind_SomeE split: if_split_asm)
    from 1(1) [OF True t(1) u t(2) 1(3)] have
      IH: "i + 1 \<le> k" "\<not> fle tn' time" "i + 1 < k \<Longrightarrow> fle tn1 time \<and> next_time tps k tn'"
        "\<And>j. i + 1 + 1 < j \<Longrightarrow> j \<le> k \<Longrightarrow> j < int (length tps) \<and> (\<exists>x. t_time (tps ! nat j) = Some x \<and> fle x time)"
      by auto
    have n: "next_time tps k tn'"
    proof (cases "fle tn1 time")
      case False
      with t(2) nx show ?thesis by (simp add: tp_loop_stop)
    next
      case True
      obtain tn2 where "tp_loop tps time tn2 (i + 1 + 1) = Some (tn', k)"
        by (rule tp_loop_step [OF t(2) True])
      from tp_loop_ge [OF this] have "i + 1 < k" by simp
      with IH(3) show ?thesis by blast
    qed
    have "j < int (length tps) \<and> (\<exists>x. t_time (tps ! nat j) = Some x \<and> fle x time)" if "i + 1 < j" "j \<le> k" for j
    proof (cases "j = i + 1 + 1")
      case True
      then have "fle tn1 time" using IH(3) that by simp
      with nx 1(3) True show ?thesis by (auto simp: next_time_def split: if_split_asm)
    next
      case False
      with IH(4) that show ?thesis by simp
    qed
    with IH n True show ?thesis by simp
  qed
qed

text \<open>
  The search for the timing point of an object finds the last one that is not later: started before
  the first point it returns an index such that all points up to it but the first (which is
  taken whatever its time) are at or before the object and the one after it, if any, is later. Its
  second result is the time of that next point.
\<close>

theorem timing_point_search:
  assumes "tp_loop tps time (fneg get_inf) (- 1) = Some (tn', k)" "finite_fp time"
  shows "0 \<le> k \<and> \<not> fle tn' time \<and> next_time tps k tn'
    \<and> (\<forall>j. 0 < j \<and> j \<le> k \<longrightarrow> j < int (length tps) \<and> (\<exists>x. t_time (tps ! nat j) = Some x \<and> fle x time))"
proof -
  have f: "fle (fneg get_inf) time" using assms(2) by (cases time) (auto simp: fle_def)
  obtain tn1 where "tp_loop tps time tn1 (- 1 + 1) = Some (tn', k)"
    by (rule tp_loop_step [OF assms(1) f])
  from tp_loop_ge [OF this] have "0 \<le> k" by simp
  with tp_loop_spec [OF assms] show ?thesis by simp
qed

theorem timing_point_search_witness:
  "tp_loop [uninit_timing\<lparr>t_time := Some (Num 0)\<rparr>, uninit_timing\<lparr>t_time := Some (Num 9)\<rparr>] (Num 5) (fneg get_inf) (- 1)
      = Some (Num 9, 0) \<and> \<not> fle (Num 9) (Num 5)"
proof -
  have "tp_loop [uninit_timing\<lparr>t_time := Some (Num 0)\<rparr>, uninit_timing\<lparr>t_time := Some (Num 9)\<rparr>] (Num 5) (fneg get_inf) (- 1)
      = Some (Num 9, 0)"
    by (subst tp_loop.simps) (simp add: fle_def in_int_iff rdi_def tp_loop_stop)
  with timing_point_search [OF this] show ?thesis by simp
qed

subsection \<open>Bit patterns\<close>

text \<open>
  The tests on the bits of a float: the pattern of every float reads back as that float, \<^verbatim>\<open>is_inf\<close>
  is exact, but \<^verbatim>\<open>is_nan\<close> also holds of every float with the sign bit set (its second range
  starts below the negative floats).
\<close>

theorem float_bits:
  assumes "in_fmt Single x"
  shows "float_of_bits (bits_of_float x) = x \<and> (is_inf x \<longleftrightarrow> (\<exists>s. x = Inf s))
    \<and> (is_nan x \<longleftrightarrow> x = NaN \<or> fsign x)"
  using bits_round_trip [OF assms] is_inf_iff [OF assms] is_nan_iff [OF assms] by simp

theorem float_bits_witness:
  "float_of_bits (bits_of_float (Num (- 2))) = Num (- 2) \<and> is_nan (Num (- 2)) \<and> \<not> is_inf (Num (- 2))"
  using float_bits [of "Num (- 2)"] by (simp add: in_fmt_def fp_eval)

end
