(* ===== verification/Country.thy ===== *)
theory Country
  imports Prelude
begin

text \<open>
  The country names of \<^verbatim>\<open>sdk/utils.hpp\<close>. \<^verbatim>\<open>getCountryNameByCode\<close> is a chain of 241
  comparisons inside a \<^verbatim>\<open>while (true)\<close> whose every branch, the last one included, leaves the
  loop by \<^verbatim>\<open>break\<close>; the chain is an association list searched from the front. A code
  without an entry is its own name.
\<close>

definition country_names_1 :: "(string \<times> string) list" where
  "country_names_1 =
    [(''US'', ''United State''),
     (''GB'', ''United Kingdom''),
     (''DE'', ''Germany''),
     (''CA'', ''Canada''),
     (''JP'', ''Japan''),
     (''ES'', ''Spain''),
     (''FR'', ''France''),
     (''IT'', ''Italy''),
     (''CN'', ''China''),
     (''AT'', ''Austria''),
     (''AU'', ''Australian''),
     (''CH'', ''Switzerland''),
     (''EG'', ''Egypt''),
     (''FI'', ''Finland''),
     (''IN'', ''India''),
     (''IE'', ''Ireland''),
     (''ID'', ''Indonesia''),
     (''KH'', ''Cambodia''),
     (''KR'', ''Korea''),
     (''MX'', ''Mexico''),
     (''NL'', ''Holland''),
     (''NO'', ''Norway''),
     (''MM'', ''Burma''),
     (''PH'', ''Philippines''),
     (''BE'', ''Belgium''),
     (''GY'', ''Guyana''),
     (''SE'', ''Sweden''),
     (''PY'', ''Paraguay''),
     (''UA'', ''Ukraine''),
     (''PE'', ''Peru''),
     (''AE'', ''United Arab Emirates''),
     (''VN'', ''Vietnam''),
     (''SO'', ''Somalia''),
     (''LA'', ''Laos''),
     (''KW'', ''Kuwait''),
     (''MY'', ''Malaysia''),
     (''DK'', ''Denmark'')]"

definition country_names_2 :: "(string \<times> string) list" where
  "country_names_2 =
    [(''PK'', ''Pakistan''),
     (''TH'', ''Thailand''),
     (''HU'', ''HUNGARY''),
     (''LV'', ''Latvia''),
     (''RU'', ''Russia''),
     (''CZ'', ''Czech Republic''),
     (''PL'', ''Poland''),
     (''BY'', ''Belarus''),
     (''LT'', ''Lithuania''),
     (''LU'', ''Luxembourg''),
     (''AD'', ''Andorra''),
     (''AG'', ''Antigua and Barbuda''),
     (''RO'', ''Romania''),
     (''AM'', ''Armenia''),
     (''CV'', ''Cape Verde''),
     (''DZ'', ''Algeria''),
     (''RT'', ''Rota (Northern Mariana Islands)''),
     (''TL'', ''Timor-Leste''),
     (''MU'', ''Mauritius''),
     (''ZM'', ''Zambia''),
     (''BL'', ''St. Barthelemy''),
     (''SX'', ''St. Maarten, St. Martin''),
     (''BH'', ''Bahrain''),
     (''GM'', ''Gambia''),
     (''MV'', ''Maldives''),
     (''CK'', ''Cook Islands''),
     (''RE'', ''Reunion Island''),
     (''IQ'', ''Iraq''),
     (''GD'', ''Grenada''),
     (''FM'', ''Micronesia, Federated States of''),
     (''VE'', ''Venezuela''),
     (''NC'', ''New Caledonia''),
     (''NP'', ''Nepal''),
     (''MD'', ''Moldova''),
     (''VA'', ''Vatican City (Italy)''),
     (''GP'', ''Guadeloupe''),
     (''GU'', ''Guam'')]"

definition country_names_3 :: "(string \<times> string) list" where
  "country_names_3 =
    [(''NA'', ''Namibia''),
     (''QA'', ''Qatar''),
     (''YT'', ''Mayotte''),
     (''ME'', ''Montenegro''),
     (''BT'', ''Bhutan''),
     (''UZ'', ''Uzbekistan''),
     (''WF'', ''Wallis & Futuna Islands''),
     (''JO'', ''Jordan''),
     (''MK'', ''Macedonia (FYROM)''),
     (''BF'', ''Burkina Faso''),
     (''NE'', ''Niger''),
     (''WL'', ''Wales (United Kingdom)''),
     (''GE'', ''Georgia''),
     (''IS'', ''Iceland''),
     (''ER'', ''Eritrea''),
     (''KM'', ''Comoros''),
     (''SN'', ''Senegal''),
     (''EE'', ''Estonia''),
     (''MO'', ''Macau''),
     (''SI'', ''Slovenia''),
     (''UG'', ''Uganda''),
     (''ZW'', ''Zimbabwe''),
     (''TD'', ''Chad''),
     (''GL'', ''Greenland''),
     (''AF'', ''Afghanistan''),
     (''CD'', ''Congo, Democratic Republic of''),
     (''MN'', ''Mongolia''),
     (''MR'', ''Mauritania''),
     (''CO'', ''Colombia''),
     (''TT'', ''Trinidad & Tobago''),
     (''SF'', ''Scotland (United Kingdom)''),
     (''CF'', ''Central African Republic''),
     (''GI'', ''Gibraltar''),
     (''KY'', ''Cayman Islands''),
     (''NI'', ''Nicaragua''),
     (''TG'', ''Togo''),
     (''GQ'', ''Equatorial Guinea'')]"

definition country_names_4 :: "(string \<times> string) list" where
  "country_names_4 =
    [(''KN'', ''St. Kitts and Nevis''),
     (''ZZ'', ''Tortola (British Virgin Islands)''),
     (''TZ'', ''Tanzania, United Republic of''),
     (''KE'', ''Kenya''),
     (''MH'', ''Marshall Islands''),
     (''KZ'', ''Kazakhstan''),
     (''SA'', ''Saudi Arabia''),
     (''BN'', ''Brunei Darussalam''),
     (''SY'', ''Syrian Arab Republic''),
     (''HN'', ''Honduras''),
     (''PG'', ''Papua New Guinea''),
     (''HT'', ''Haiti''),
     (''SM'', ''San Marino''),
     (''MW'', ''Malawi''),
     (''CM'', ''Cameroon''),
     (''MG'', ''Madagascar''),
     (''PT'', ''Portugal''),
     (''CR'', ''Costa Rica''),
     (''BM'', ''Bermuda''),
     (''SR'', ''Suriname''),
     (''SB'', ''Solomon Islands''),
     (''TA'', ''Tahiti (French Polynesia)''),
     (''CW'', ''Curacao''),
     (''TW'', ''Taiwan''),
     (''SL'', ''Sierra Leone''),
     (''TU'', ''Truk (Micronesia, Federated States of)''),
     (''UI'', ''Union Islands (St. Vincent & the Grenadines)''),
     (''VL'', ''St. Thomas (U.S. Virgin Islands)''),
     (''NF'', ''Norfolk Island (Australia)''),
     (''GT'', ''Guatemala''),
     (''BG'', ''Bulgaria''),
     (''PO'', ''Ponape (Micronesia, Federated States of)''),
     (''AW'', ''Aruba''),
     (''EC'', ''Ecuador''),
     (''RS'', ''Serbia''),
     (''BS'', ''Bahamas''),
     (''BO'', ''Bolivia'')]"

definition country_names_5 :: "(string \<times> string) list" where
  "country_names_5 =
    [(''PW'', ''Palau''),
     (''KG'', ''Kirghizia (Kyrgyzstan)''),
     (''TC'', ''Turks & Caicos Islands''),
     (''LC'', ''St. Lucia''),
     (''AZ'', ''Azerbaijan''),
     (''MT'', ''Malta''),
     (''BI'', ''Burundi''),
     (''AO'', ''Angola''),
     (''CY'', ''Cyprus''),
     (''BR'', ''Brazil''),
     (''WS'', ''Samoa Western''),
     (''AX'', ''Aland Island (Finland)''),
     (''LR'', ''Liberia''),
     (''FO'', ''Faroe Islands''),
     (''UV'', ''St. John (U.S. Virgin Islands)''),
     (''SG'', ''Singapore''),
     (''NG'', ''Nigeria''),
     (''PA'', ''Panama''),
     (''DJ'', ''Djibouti''),
     (''SZ'', ''Swaziland''),
     (''DO'', ''Dominican Republic''),
     (''KO'', ''Kosrae (Micronesia, Federated States of)''),
     (''MZ'', ''Mozambique''),
     (''AS'', ''American Samoa''),
     (''UY'', ''Uruguay''),
     (''KT'', ''republic of ivory coast''),
     (''AL'', ''Albania''),
     (''CG'', ''Congo''),
     (''AI'', ''Anguilla''),
     (''RW'', ''Rwanda''),
     (''GR'', ''Greece''),
     (''BW'', ''Botswana''),
     (''HR'', ''Croatia''),
     (''SC'', ''Seychelles''),
     (''NZ'', ''New Zealand''),
     (''PF'', ''French Polynesia''),
     (''ML'', ''Mali'')]"

definition country_names_6 :: "(string \<times> string) list" where
  "country_names_6 =
    [(''VU'', ''Vanuatu''),
     (''MP'', ''Northern Mariana Islands''),
     (''TR'', ''Turkey''),
     (''BA'', ''Bosnia and Herzegovina''),
     (''LY'', ''Libyan Arab Jamahiriya''),
     (''SV'', ''El Salvador''),
     (''TN'', ''Tunisia''),
     (''SW'', ''St. Christopher (St. Kitts)''),
     (''AR'', ''Argentina''),
     (''YE'', ''Yemen, Republic of''),
     (''TJ'', ''Tajikistan''),
     (''GA'', ''Gabon''),
     (''FJ'', ''Fiji''),
     (''GN'', ''Guinea''),
     (''GH'', ''Ghana''),
     (''BD'', ''Bangladesh''),
     (''TV'', ''Tuvalu''),
     (''YA'', ''Yap (Micronesia, Federated States of)''),
     (''LI'', ''Liechtenstein''),
     (''SP'', ''Saipan (Northern Mariana Islands)''),
     (''LB'', ''Lebanon''),
     (''MQ'', ''Martinique''),
     (''ZA'', ''South Africa''),
     (''BJ'', ''Benin''),
     (''OM'', ''Oman''),
     (''TO'', ''Tonga''),
     (''SK'', ''Slovakia''),
     (''BB'', ''Barbados''),
     (''MA'', ''Morocco''),
     (''IL'', ''Israel''),
     (''LK'', ''Sri Lanka''),
     (''BQ'', ''Bonaire, St. Eustatius, Saba''),
     (''PR'', ''Puerto Rico''),
     (''MS'', ''Montserrat''),
     (''TM'', ''Turkmenistan''),
     (''KI'', ''Kiribati''),
     (''GW'', ''Guinea-Bissau'')]"

definition country_names_7 :: "(string \<times> string) list" where
  "country_names_7 =
    [(''IC'', ''Canary Islands (Spain)''),
     (''GF'', ''French Guiana''),
     (''LS'', ''Lesotho''),
     (''JE'', ''Jersey (Channel Islands)''),
     (''DM'', ''Dominica''),
     (''ET'', ''Ethiopia''),
     (''BZ'', ''Belize''),
     (''GG'', ''Guernsey (Channel Islands)''),
     (''JM'', ''Jamaica''),
     (''NB'', ''Northern Ireland (United Kingdom)''),
     (''CL'', ''Chile''),
     (''SD'', ''Sudan''),
     (''CI'', ''ivory coast''),
     (''AN'', ''NETHERLANDS ANTILLES''),
     (''CC'', ''COCOS(KEELING) ISLANDS''),
     (''CU'', ''CUBA''),
     (''MC'', ''Monaco''),
     (''VC'', ''St. Vincent & the Grenadines''),
     (''HK'', ''HONGKONG'')]"

definition country_names :: "(string \<times> string) list" where
  "country_names = country_names_1 @ country_names_2 @ country_names_3 @ country_names_4 @ country_names_5 @ country_names_6 @ country_names_7"

definition getCountryNameByCode :: "string \<Rightarrow> string" where
  "getCountryNameByCode code = (case map_of country_names code of
     Some countryName \<Rightarrow> countryName
   | None \<Rightarrow> code)"

lemmas country_defs = country_names_def country_names_1_def country_names_2_def country_names_3_def country_names_4_def country_names_5_def country_names_6_def country_names_7_def

text \<open>
  The table is checked by evaluation, once; the laws of the lookup follow from these two facts.
\<close>

lemma country_widths: "list_all (\<lambda>(c, n). length c = 2 \<and> 2 < length n) country_names"
  by (simp add: country_defs)

lemma country_codes_distinct: "distinct (map fst country_names)"
  by (simp add: country_defs)

lemma country_entry: "(c, n) \<in> set country_names \<Longrightarrow> length c = 2 \<and> 2 < length n"
  using country_widths by (auto simp: list_all_iff)

lemma country_known: "(c, n) \<in> set country_names \<Longrightarrow> getCountryNameByCode c = n"
  by (simp add: getCountryNameByCode_def country_codes_distinct)

lemma country_unknown: "c \<notin> fst ` set country_names \<Longrightarrow> getCountryNameByCode c = c"
  by (simp add: getCountryNameByCode_def map_of_eq_None_iff[THEN iffD2])

lemma country_long: "length c \<noteq> 2 \<Longrightarrow> getCountryNameByCode c = c"
  by (rule country_unknown) (auto dest: country_entry)

text \<open>
  Every one of the 241 branches of \<^verbatim>\<open>getCountryNameByCode\<close> is live (no earlier
  comparison shadows it) and yields the name written in it, a code that no branch tests comes
  back unchanged, and a name is never taken for a code: applying the function to its own
  result changes nothing, so a player whose country has already been translated keeps it.
\<close>

theorem country_lookup:
  "(\<forall>c n. getCountryNameByCode c = n \<longleftrightarrow>
      (if c \<in> fst ` set country_names then (c, n) \<in> set country_names else n = c)) \<and>
   getCountryNameByCode (getCountryNameByCode code) = getCountryNameByCode code"
proof (intro conjI allI)
  fix c n
  show "getCountryNameByCode c = n \<longleftrightarrow>
      (if c \<in> fst ` set country_names then (c, n) \<in> set country_names else n = c)"
  proof (cases "c \<in> fst ` set country_names")
    case True
    then obtain m where m: "(c, m) \<in> set country_names" by auto
    then show ?thesis using True country_known[OF m] country_known[of c n] by auto
  qed (auto simp: country_unknown)
next
  show "getCountryNameByCode (getCountryNameByCode code) = getCountryNameByCode code"
  proof (cases "code \<in> fst ` set country_names")
    case True
    then obtain n where "(code, n) \<in> set country_names" by auto
    then show ?thesis using country_entry[of code n] by (simp add: country_known country_long)
  qed (simp add: country_unknown)
qed

end
