(* ===== verification/Strings.thy ===== *)
theory Strings
  imports Scan
begin

text \<open>
  The string helpers of \<^verbatim>\<open>sdk/utils.hpp\<close>. A \<^verbatim>\<open>std::string\<close> is the list of its bytes; a
  \<^verbatim>\<open>size_t\<close> position is a \<^typ>\<open>nat\<close> and \<^verbatim>\<open>npos\<close> is \<^const>\<open>None\<close>. A function that
  assigns to its reference argument returns the new value. \<^const>\<open>None\<close> as the result of a
  helper is undefined behaviour or a call that never returns, as in the other theories.

  Besides the helpers the theory has the reference definitions they are compared with:
  \<open>replace_ref\<close>, a recursion over the text, and \<open>trimmed\<close>, the text without its outer blanks.
\<close>

subsection \<open>Searching\<close>

fun starts :: "string \<Rightarrow> string \<Rightarrow> bool" where
  "starts [] s = True"
| "starts (c # cs) [] = False"
| "starts (c # cs) (d # s) = (c = d \<and> starts cs s)"

fun find_sub :: "string \<Rightarrow> string \<Rightarrow> nat option" where
  "find_sub pat [] = (if pat = [] then Some 0 else None)"
| "find_sub pat (c # s) =
     (if starts pat (c # s) then Some 0 else map_option Suc (find_sub pat s))"

definition str_find :: "string \<Rightarrow> string \<Rightarrow> nat \<Rightarrow> nat option" where
  "str_find s pat pos =
     (if pos \<le> length s then map_option ((+) pos) (find_sub pat (drop pos s)) else None)"

lemma starts_iff: "starts pat s \<longleftrightarrow> (\<exists>r. s = pat @ r)"
  by (induction pat s rule: starts.induct) auto

lemma starts_length: "starts pat s \<Longrightarrow> length pat \<le> length s"
  by (auto simp: starts_iff)

lemma starts_drop: "starts pat s \<Longrightarrow> s = pat @ drop (length pat) s"
  by (auto simp: starts_iff)

lemma find_sub_bound: "find_sub pat s = Some k \<Longrightarrow> k + length pat \<le> length s"
  by (induction pat s arbitrary: k rule: find_sub.induct) (auto split: if_splits dest: starts_length)

lemma str_find_bound: "str_find s pat pos = Some k \<Longrightarrow> pos \<le> k \<and> k + length pat \<le> length s"
  by (auto simp: str_find_def split: if_splits dest!: find_sub_bound)

lemma find_sub_None: "find_sub pat s = None \<longleftrightarrow> (\<nexists>a b. s = a @ pat @ b)"
proof (induction s)
  case (Cons c s)
  show ?case
  proof
    assume "find_sub pat (c # s) = None"
    then have "\<not> starts pat (c # s)" and none: "\<nexists>a b. s = a @ pat @ b"
      using Cons.IH by (auto split: if_splits)
    then show "\<nexists>a b. c # s = a @ pat @ b"
      by (auto simp: starts_iff Cons_eq_append_conv)
  next
    assume no: "\<nexists>a b. c # s = a @ pat @ b"
    then have "\<not> starts pat (c # s)" by (auto simp: starts_iff dest: spec[of _ "[]"])
    moreover have "\<nexists>a b. s = a @ pat @ b"
    proof
      assume "\<exists>a b. s = a @ pat @ b"
      then obtain a b where "c # s = (c # a) @ pat @ b" by auto
      with no show False by blast
    qed
    ultimately show "find_sub pat (c # s) = None" using Cons.IH by simp
  qed
qed auto

lemma find_sub_Some:
  assumes "find_sub pat s = Some k"
  shows "\<exists>b. s = take k s @ pat @ b" and "\<And>j. j < k \<Longrightarrow> \<not> starts pat (drop j s)"
proof -
  show "\<exists>b. s = take k s @ pat @ b"
    using assms by (induction s arbitrary: k) (auto split: if_splits simp: starts_iff)
  show "\<And>j. j < k \<Longrightarrow> \<not> starts pat (drop j s)"
    using assms
  proof (induction s arbitrary: k)
    case (Cons c s)
    then show ?case by (cases j) (auto split: if_splits)
  qed (auto split: if_splits)
qed

subsection \<open>\<open>string_replace\<close>\<close>

text \<open>
  The loop of \<^verbatim>\<open>string_replace\<close> with its position and the result so far. Searching for the empty
  string finds it at \<^verbatim>\<open>last_pos\<close> again and again: the loop does not end (until memory does).
\<close>

function replace_loop :: "string \<Rightarrow> string \<Rightarrow> string \<Rightarrow> nat \<Rightarrow> string \<Rightarrow> string option" where
  "replace_loop str old_val new_val last_pos res =
     (case str_find str old_val last_pos of
        None \<Rightarrow> Some (res @ drop last_pos str)
      | Some pos \<Rightarrow>
          if old_val = [] then None
          else replace_loop str old_val new_val (pos + length old_val)
                 (res @ take (pos - last_pos) (drop last_pos str) @ new_val))"
  by pat_completeness auto
termination
  by (relation "measure (\<lambda>(str, old, new, last, res). length str - last)")
    (auto dest!: str_find_bound simp flip: length_greater_0_conv)

declare replace_loop.simps [simp del]

definition string_replace :: "string \<Rightarrow> string \<Rightarrow> string \<Rightarrow> string option" where
  "string_replace str old_val new_val = replace_loop str old_val new_val 0 []"

function replace_ref :: "string \<Rightarrow> string \<Rightarrow> string \<Rightarrow> string" where
  "replace_ref old new [] = []"
| "replace_ref old new (c # s) =
     (if old \<noteq> [] \<and> starts old (c # s) then new @ replace_ref old new (drop (length old) (c # s))
      else c # replace_ref old new s)"
  by pat_completeness auto
termination
  by (relation "measure (\<lambda>(old, new, s). length s)") (auto simp flip: length_greater_0_conv)

lemma replace_ref_none: "find_sub old s = None \<Longrightarrow> replace_ref old new s = s"
  by (induction old new s rule: replace_ref.induct) (auto split: if_splits)

lemma replace_ref_found:
  "find_sub old s = Some k \<Longrightarrow> old \<noteq> [] \<Longrightarrow>
   replace_ref old new s = take k s @ new @ replace_ref old new (drop (k + length old) s)"
proof (induction s arbitrary: k)
  case (Cons c s)
  then show ?case by (auto split: if_splits simp: add.commute)
qed auto

lemma replace_loop_ref:
  "old \<noteq> [] \<Longrightarrow> p \<le> length str \<Longrightarrow>
   replace_loop str old new p res = Some (res @ replace_ref old new (drop p str))"
proof (induction str old new p res rule: replace_loop.induct)
  case (1 str old new p res)
  show ?case
  proof (cases "str_find str old p")
    case None
    with 1 have "find_sub old (drop p str) = None" by (auto simp: str_find_def)
    with None show ?thesis by (simp add: replace_loop.simps replace_ref_none)
  next
    case (Some pos)
    then obtain k where k: "find_sub old (drop p str) = Some k" and pos: "pos = p + k"
      using 1 by (auto simp: str_find_def)
    have "pos + length old \<le> length str" using str_find_bound[OF Some] by simp
    with 1 Some show ?thesis
      by (subst replace_loop.simps)
        (simp add: replace_ref_found[OF k] pos add.commute add.left_commute)
  qed
qed

lemma string_replace_eq: "old \<noteq> [] \<Longrightarrow> string_replace s old new = Some (replace_ref old new s)"
  by (simp add: string_replace_def replace_loop_ref)

lemma string_replace_nothing: "string_replace s [] new = None"
proof -
  have "str_find s [] 0 = Some 0" by (cases s) (simp_all add: str_find_def)
  then show ?thesis by (simp add: string_replace_def replace_loop.simps)
qed


text \<open>What a search in a text and the replacement of one byte do.\<close>

lemma starts_append: "starts (p @ q) s \<Longrightarrow> starts p s"
  by (auto simp: starts_iff)

lemma find_sub_Cons: "find_sub pat (c # s) = None \<longleftrightarrow> \<not> starts pat (c # s) \<and> find_sub pat s = None"
  by simp

lemma find_sub_char: "find_sub [x] s = None \<longleftrightarrow> x \<notin> set s"
  by (induction s) auto

lemma replace_ref_char: "replace_ref [x] new s = concat (map (\<lambda>c. if c = x then new else [c]) s)"
  by (induction s) auto

lemma starts_encoded:
  assumes "\<And>c. f c = [c] \<or> (\<exists>r. f c = x # r)" and "x \<notin> set p"
  shows "starts p (concat (map f s)) \<Longrightarrow> starts p s"
  using assms(2)
proof (induction p arbitrary: s)
  case (Cons a p)
  then show ?case
    using assms(1)[of "hd s"] by (cases s) auto
qed simp

subsection \<open>Trimming\<close>

text \<open>
  The lambda of the trim functions takes the \<^verbatim>\<open>char\<close> as an \<^verbatim>\<open>int\<close>: a byte of 128 or more is
  negative, and \<^verbatim>\<open>std::isspace\<close> is undefined on it except for the byte 255, which is \<^verbatim>\<open>EOF\<close>.
\<close>

definition isspace_int :: "char \<Rightarrow> bool option" where
  "isspace_int c = (if code c < 128 \<or> code c = 255 then Some (isspace c) else None)"

fun string_ltrim :: "string \<Rightarrow> string option" where
  "string_ltrim [] = Some []"
| "string_ltrim (c # s) = do { b \<leftarrow> isspace_int c; if b then string_ltrim s else Some (c # s) }"

definition string_rtrim :: "string \<Rightarrow> string option" where
  "string_rtrim s = map_option rev (string_ltrim (rev s))"

definition string_trim :: "string \<Rightarrow> string option" where
  "string_trim s = do { l \<leftarrow> string_ltrim s; string_rtrim l }"

definition trimmed :: "string \<Rightarrow> string" where
  "trimmed s = rev (dropWhile isspace (rev (dropWhile isspace s)))"

definition classified :: "char \<Rightarrow> bool" where
  "classified c \<longleftrightarrow> code c < 128 \<or> code c = 255"

lemma isspace_classified: "isspace c \<Longrightarrow> classified c"
  by (auto simp: isspace_def classified_def)

lemma string_ltrim_eq:
  "string_ltrim s = (let t = dropWhile isspace s in
     if t = [] \<or> classified (hd t) then Some t else None)"
  by (induction s)
    (auto simp: isspace_int_def Let_def classified_def[symmetric] dest: isspace_classified)

lemma strip_back:
  assumes "t \<noteq> []" "\<not> isspace (hd t)"
  shows "dropWhile isspace (rev t) \<noteq> [] \<and> last (dropWhile isspace (rev t)) = hd t"
proof -
  from assms obtain c r where t: "t = c # r" and c: "\<not> isspace c" by (cases t) auto
  have "dropWhile isspace (rev r @ [c]) = dropWhile isspace (rev r) @ [c]"
    using c by (induction "rev r" arbitrary: r) (auto simp: dropWhile_append)
  then show ?thesis by (simp add: t)
qed

lemma string_trim_eq:
  "string_trim s = (let t = trimmed s in
     if t = [] \<or> classified (hd t) \<and> classified (last t) then Some t else None)"
proof (cases "dropWhile isspace s = []")
  case True
  then show ?thesis
    by (simp add: string_trim_def string_ltrim_eq string_rtrim_def trimmed_def Let_def
        del: dropWhile_eq_Nil_conv)
next
  case False
  define t where "t = dropWhile isspace s"
  define u where "u = dropWhile isspace (rev t)"
  have "\<not> isspace (hd t)" using False hd_dropWhile unfolding t_def by blast
  with False have u: "u \<noteq> []" "last u = hd t" using strip_back unfolding t_def u_def by blast+
  have tr: "trimmed s = rev u" by (simp add: trimmed_def t_def u_def)
  have l: "string_ltrim s = (if classified (hd t) then Some t else None)"
    using False by (simp add: string_ltrim_eq Let_def t_def del: dropWhile_eq_Nil_conv)
  have r: "string_rtrim t = (if classified (hd u) then Some (rev u) else None)"
    using u(1) by (simp add: string_rtrim_def string_ltrim_eq Let_def u_def[symmetric])
  show ?thesis
    using u by (simp add: string_trim_def l r tr Let_def hd_rev last_rev)
qed

text \<open>
  \<^verbatim>\<open>string_trim\<close> removes the white space at both ends and nothing else. It is defined
  exactly when the first and the last character that stay are ASCII (or byte 255): on a text
  that begins or ends with a character of several bytes, as Chinese text does, the call of
  \<^verbatim>\<open>std::isspace\<close> is undefined.
\<close>

theorem string_trim_correct:
  "string_trim s = (let t = trimmed s in
     if t = [] \<or> classified (hd t) \<and> classified (last t) then Some t else None)"
  by (rule string_trim_eq)

subsection \<open>Splitting\<close>

text \<open>
  The loop of \<^verbatim>\<open>string_split\<close> over the characters that are left, with the piece being
  collected and the pieces so far. The last piece is pushed in the iteration of the last
  character, so the empty string has no piece at all.
\<close>

fun split_chars :: "char \<Rightarrow> string \<Rightarrow> string \<Rightarrow> string list \<Rightarrow> string list" where
  "split_chars sep [] tmp rtn = rtn"
| "split_chars sep (c # cs) tmp rtn =
     (let (rtn, tmp) = (if c = sep then (rtn @ [tmp], []) else (rtn, tmp @ [c]));
          rtn = (if cs = [] then rtn @ [tmp] else rtn) in
      split_chars sep cs tmp rtn)"

definition string_split :: "string \<Rightarrow> char \<Rightarrow> string list" where
  "string_split original_str split_character = split_chars split_character original_str [] []"

lemma split_chars_eq:
  "s \<noteq> [] \<Longrightarrow> split_chars sep s tmp rtn =
     rtn @ (tmp @ hd (split_on [sep] s)) # tl (split_on [sep] s)"
proof (induction sep s tmp rtn rule: split_chars.induct)
  case (2 sep c cs tmp rtn)
  then show ?case
    by (cases "cs = []") (auto simp: Let_def split: if_splits)
qed simp

lemma string_split_eq: "string_split s c = (if s = [] then [] else split_on [c] s)"
  by (cases s) (simp_all add: string_split_def split_chars_eq del: split_chars.simps(2))

lemma split_on_free: "\<forall>w \<in> set (split_on [c] s). c \<notin> set w"
proof (induction s)
  case (Cons a s)
  then show ?case by (cases "split_on [c] s") auto
qed simp

text \<open>
  \<^verbatim>\<open>string_split\<close> cuts the text at every separator and nowhere else: joining the pieces
  by the separator gives the text back, no piece contains the separator, and there is one
  piece more than separators, except that the empty text has no piece.
\<close>

theorem string_split_correct:
  "concat (map (\<lambda>w. w @ [c]) (string_split s c)) = (if s = [] then [] else s @ [c]) \<and>
   c \<notin> set (concat (string_split s c)) \<and>
   length (string_split s c) = (if s = [] then 0 else Suc (length (filter (\<lambda>x. x = c) s)))"
  using split_on_free[of c s]
  by (auto simp: string_split_eq split_on_intercalate length_split_on)

subsection \<open>\<open>GetMiddleText\<close>\<close>

text \<open>
  \<^verbatim>\<open>find\<close> returns \<^verbatim>\<open>npos\<close>, the largest \<^verbatim>\<open>size_t\<close>, when there is no match, and the addition of
  the length of \<^verbatim>\<open>frontStr\<close> wraps around. A \<^verbatim>\<open>substr\<close> that starts behind the end throws
  \<^verbatim>\<open>out_of_range\<close>, which the function turns into the empty string.
\<close>

definition size_max :: nat where "size_max = 2 ^ 64 - 1"

definition pos_of :: "nat option \<Rightarrow> nat" where
  "pos_of p = (case p of Some k \<Rightarrow> k | None \<Rightarrow> size_max)"

definition GetMiddleText :: "string \<Rightarrow> string \<Rightarrow> string \<Rightarrow> string" where
  "GetMiddleText regularStr frontStr behindStr =
     (let p = (pos_of (str_find regularStr frontStr 0) + length frontStr) mod 2 ^ 64 in
      if length regularStr < p then []
      else let str = drop p regularStr in take (pos_of (str_find str behindStr 0)) str)"

lemma str_find_0: "str_find s pat 0 = find_sub pat s"
  by (cases "find_sub pat s") (simp_all add: str_find_def)

lemma middle_found:
  assumes "find_sub f r = Some k" "length r \<le> size_max" "find_sub b (drop (k + length f) r) = Some n"
  shows "GetMiddleText r f b = take n (drop (k + length f) r)"
  using assms find_sub_bound[of f r k] by (simp add: GetMiddleText_def str_find_0 pos_of_def size_max_def)

lemma middle_open:
  assumes "find_sub f r = Some k" "length r \<le> size_max" "find_sub b (drop (k + length f) r) = None"
  shows "GetMiddleText r f b = drop (k + length f) r"
  using assms find_sub_bound[of f r k] by (simp add: GetMiddleText_def str_find_0 pos_of_def size_max_def)

text \<open>A missing \<^verbatim>\<open>frontStr\<close> does not give the empty string: the text is then read from
  position \<open>length f - 1\<close>.\<close>

lemma middle_missing:
  assumes "find_sub [x] r = None" "length r \<le> size_max"
  shows "GetMiddleText r [x] b = (case find_sub b r of Some n \<Rightarrow> take n r | None \<Rightarrow> r)"
  using assms by (simp add: GetMiddleText_def str_find_0 pos_of_def size_max_def split: option.split)

subsection \<open>Escapes\<close>

definition DQUOTE :: char where "DQUOTE = CHR 34"
definition SQUOTE :: char where "SQUOTE = CHR 39"

definition ocescape :: "string \<Rightarrow> string option" where
  "ocescape str = do {
     res \<leftarrow> string_replace str [DQUOTE] ''[OC:character,id=1]'';
     string_replace res [SQUOTE] ''[OC:character,id=2]'' }"

definition ocunescape :: "string \<Rightarrow> string option" where
  "ocunescape str = do {
     res \<leftarrow> string_replace str ''[OC:character,id=1]'' [DQUOTE];
     string_replace res ''[OC:character,id=2]'' [SQUOTE] }"

definition cqescape :: "string \<Rightarrow> string option" where
  "cqescape str = do {
     res \<leftarrow> string_replace str '','' ''&#44;'';
     res \<leftarrow> string_replace res ''&'' ''&amp;'';
     res \<leftarrow> string_replace res ''['' ''&#91;'';
     string_replace res '']'' ''&#93;'' }"

definition cqunescape :: "string \<Rightarrow> string option" where
  "cqunescape str = do {
     res \<leftarrow> string_replace str ''&#44;'' '','';
     res \<leftarrow> string_replace res ''&amp;'' ''&'';
     res \<leftarrow> string_replace res ''&#91;'' ''['';
     string_replace res ''&#93;'' '']'' }"

text \<open>What the escapes put in the place of a byte, and the texts between the steps of the
  unescaping.\<close>

definition cq_piece :: "char \<Rightarrow> string" where
  "cq_piece c = (if c = CHR '','' then ''&amp;#44;'' else if c = CHR ''&'' then ''&amp;''
     else if c = CHR ''['' then ''&#91;'' else if c = CHR '']'' then ''&#93;'' else [c])"

definition cq_brackets :: "char \<Rightarrow> string" where
  "cq_brackets c = (if c = CHR ''['' then ''&#91;'' else if c = CHR '']'' then ''&#93;'' else [c])"

definition cq_closing :: "char \<Rightarrow> string" where
  "cq_closing c = (if c = CHR '']'' then ''&#93;'' else [c])"

definition oc_piece :: "char \<Rightarrow> string" where
  "oc_piece c = (if c = DQUOTE then ''[OC:character,id=1]''
     else if c = SQUOTE then ''[OC:character,id=2]'' else [c])"

definition oc_single :: "char \<Rightarrow> string" where
  "oc_single c = (if c = SQUOTE then ''[OC:character,id=2]'' else [c])"

lemma cqescape_eq: "cqescape s = Some (concat (map cq_piece s))"
  unfolding cqescape_def
  by (induction s) (simp_all add: string_replace_eq replace_ref_char cq_piece_def)

lemma ocescape_eq: "ocescape s = Some (concat (map oc_piece s))"
  unfolding ocescape_def
  by (induction s) (simp_all add: string_replace_eq replace_ref_char oc_piece_def DQUOTE_def SQUOTE_def)

lemma cq_unescape_step1:
  "CHR '','' \<notin> set s \<Longrightarrow> replace_ref ''&#44;'' '','' (concat (map cq_piece s)) = concat (map cq_piece s)"
  by (induction s) (simp_all add: cq_piece_def)

lemma cq_unescape_step2:
  "CHR '','' \<notin> set s \<Longrightarrow> replace_ref ''&amp;'' ''&'' (concat (map cq_piece s)) = concat (map cq_brackets s)"
  by (induction s) (auto simp: cq_piece_def cq_brackets_def)

lemma cq_raw_amp:
  assumes "find_sub ''&#'' (CHR ''&'' # s) = None" and "\<And>c. f c = [c] \<or> (\<exists>r. f c = CHR ''&'' # r)"
  shows "\<not> starts (CHR ''#'' # p) (concat (map f s))"
proof
  assume "starts (CHR ''#'' # p) (concat (map f s))"
  then have "starts ''#'' (concat (map f s))" using starts_append[of "''#''" p] by simp
  then have "starts ''#'' s" by (rule starts_encoded[where x = "CHR ''&''", OF assms(2), rotated]) simp
  with assms(1) show False by simp
qed

lemma cq_unescape_step3:
  "find_sub ''&#'' s = None \<Longrightarrow> replace_ref ''&#91;'' ''['' (concat (map cq_brackets s)) = concat (map cq_closing s)"
proof (induction s)
  case (Cons c s)
  moreover have "cq_brackets d = [d] \<or> (\<exists>r. cq_brackets d = CHR ''&'' # r)" for d
    by (simp add: cq_brackets_def)
  ultimately show ?case
    using cq_raw_amp[of s cq_brackets "''91;''"]
    by (auto simp: cq_brackets_def[of c] cq_closing_def[of c] simp del: find_sub.simps dest: find_sub_Cons[THEN iffD1])
qed simp

lemma cq_unescape_step4:
  "find_sub ''&#'' s = None \<Longrightarrow> replace_ref ''&#93;'' '']'' (concat (map cq_closing s)) = s"
proof (induction s)
  case (Cons c s)
  moreover have "cq_closing d = [d] \<or> (\<exists>r. cq_closing d = CHR ''&'' # r)" for d
    by (simp add: cq_closing_def)
  ultimately show ?case
    using cq_raw_amp[of s cq_closing "''93;''"]
    by (auto simp: cq_closing_def[of c] simp del: find_sub.simps dest: find_sub_Cons[THEN iffD1])
qed simp

lemma oc_raw_bracket:
  assumes "find_sub ''[OC:'' (CHR ''['' # s) = None" and "\<And>c. f c = [c] \<or> (\<exists>r. f c = CHR ''['' # r)"
  shows "\<not> starts (''OC:'' @ p) (concat (map f s))"
proof
  assume "starts (''OC:'' @ p) (concat (map f s))"
  then have "starts ''OC:'' (concat (map f s))" by (rule starts_append)
  then have "starts ''OC:'' s" by (rule starts_encoded[where x = "CHR ''[''", OF assms(2), rotated]) simp
  with assms(1) show False by simp
qed

lemma oc_unescape_step1:
  "find_sub ''[OC:'' s = None \<Longrightarrow>
   replace_ref ''[OC:character,id=1]'' [DQUOTE] (concat (map oc_piece s)) = concat (map oc_single s)"
proof (induction s)
  case (Cons c s)
  moreover have "oc_piece d = [d] \<or> (\<exists>r. oc_piece d = CHR ''['' # r)" for d
    by (simp add: oc_piece_def)
  ultimately show ?case
    using oc_raw_bracket[of s oc_piece "''character,id=1]''"]
    by (auto simp: oc_piece_def[of c] oc_single_def[of c] DQUOTE_def SQUOTE_def
        simp del: find_sub.simps dest: find_sub_Cons[THEN iffD1])
qed simp

lemma oc_unescape_step2:
  "find_sub ''[OC:'' s = None \<Longrightarrow>
   replace_ref ''[OC:character,id=2]'' [SQUOTE] (concat (map oc_single s)) = s"
proof (induction s)
  case (Cons c s)
  moreover have "oc_single d = [d] \<or> (\<exists>r. oc_single d = CHR ''['' # r)" for d
    by (simp add: oc_single_def)
  ultimately show ?case
    using oc_raw_bracket[of s oc_single "''character,id=2]''"]
    by (auto simp: oc_single_def[of c] SQUOTE_def
        simp del: find_sub.simps dest: find_sub_Cons[THEN iffD1])
qed simp

text \<open>A comma does not survive the round trip: \<^verbatim>\<open>cqescape\<close> escapes the ampersand that it has
  just written for the comma, and \<^verbatim>\<open>cqunescape\<close> looks for the comma first.\<close>

lemma cq_comma_lost: "Option.bind (cqescape '','') cqunescape = Some ''&#44;''"
  by (simp add: cqescape_eq cq_piece_def cqunescape_def string_replace_eq)

text \<open>
  \<^verbatim>\<open>cqescape\<close> always returns, its result contains no bracket and no comma (so it cannot
  open a CQ code of its own), and \<^verbatim>\<open>cqunescape\<close> restores the text, provided the text has no
  comma and no character reference of its own.
\<close>

theorem cq_round_trip:
  assumes "CHR '','' \<notin> set s" "find_sub ''&#'' s = None"
  shows "\<exists>e. cqescape s = Some e \<and> set e \<inter> {CHR ''['', CHR '']'', CHR '',''} = {} \<and>
             cqunescape e = Some s"
proof -
  have "set (concat (map cq_piece s)) \<inter> {CHR ''['', CHR '']'', CHR '',''} = {}"
    by (auto simp: cq_piece_def split: if_splits)
  moreover have "cqunescape (concat (map cq_piece s)) = Some s"
    using assms by (simp add: cqunescape_def string_replace_eq cq_unescape_step1
        cq_unescape_step2 cq_unescape_step3 cq_unescape_step4)
  ultimately show ?thesis by (simp add: cqescape_eq)
qed

lemma cq_round_trip_witness:
  "\<exists>e. cqescape ''a [b] & c'' = Some e \<and> set e \<inter> {CHR ''['', CHR '']'', CHR '',''} = {} \<and>
       cqunescape e = Some ''a [b] & c''"
  by (rule cq_round_trip) simp_all

text \<open>
  The escape the bot applies to the texts it puts between quotes in an SQL statement:
  \<^verbatim>\<open>ocescape\<close> always returns a text without quotes of either kind, and \<^verbatim>\<open>ocunescape\<close>
  restores any text that has no escape of the bot in it.
\<close>

theorem oc_round_trip:
  assumes "find_sub ''[OC:'' s = None"
  shows "\<exists>e. ocescape s = Some e \<and> DQUOTE \<notin> set e \<and> SQUOTE \<notin> set e \<and> ocunescape e = Some s"
proof -
  have "DQUOTE \<notin> set (concat (map oc_piece s)) \<and> SQUOTE \<notin> set (concat (map oc_piece s))"
    by (auto simp: oc_piece_def DQUOTE_def SQUOTE_def split: if_splits)
  moreover have "ocunescape (concat (map oc_piece s)) = Some s"
    using assms by (simp add: ocunescape_def string_replace_eq oc_unescape_step1 oc_unescape_step2)
  ultimately show ?thesis by (simp add: ocescape_eq)
qed

lemma oc_round_trip_witness:
  "\<exists>e. ocescape (''it'' @ [SQUOTE] @ ''s [OK]'') = Some e \<and> DQUOTE \<notin> set e \<and> SQUOTE \<notin> set e \<and>
       ocunescape e = Some (''it'' @ [SQUOTE] @ ''s [OK]'')"
  by (rule oc_round_trip) (simp add: SQUOTE_def)

end
