(* ===== verification/Json.thy ===== *)
theory Json
  imports Strings
begin

text \<open>
  What the bot's clients use of JSON values and of the number conversions of the standard
  library. The JSON library itself is third-party code: a \<^verbatim>\<open>json\<close> value is the datatype of
  its documentation, and the parser is an argument of the functions that call it. An operation
  that may throw returns a sum, the exception on the left. \<open>Undefined\<close> and \<open>Aborted\<close> are not
  exceptions (no handler catches them): the first is undefined behaviour, the second the call of
  the invalid-parameter handler by \<^verbatim>\<open>sprintf_s\<close> when the text does not fit.
\<close>

datatype exn = TypeError | ParseError | InvalidArgument | OutOfRange | BadOptionalAccess | MagickError | NetworkError | DatabaseError
  | OsucatError | Undefined | Aborted

text \<open>\<^verbatim>\<open>osucat::exception\<close> (\<open>OsucatError\<close>) and its two classes, for the network and the database, do not
  derive from \<^verbatim>\<open>std::exception\<close>, so a handler for the latter lets them pass; \<^verbatim>\<open>Magick::Exception\<close> does.\<close>

definition std_exception :: "exn \<Rightarrow> bool" where
  "std_exception e \<longleftrightarrow> e \<in> {TypeError, ParseError, InvalidArgument, OutOfRange, BadOptionalAccess, MagickError}"

datatype json = JNull | JBool bool | JNumber string | JString string | JArray "json list"
  | JObject "(string \<times> json) list"

type_synonym 'a thrown = "exn + 'a"

fun andThen :: "'a thrown \<Rightarrow> ('a \<Rightarrow> 'b thrown) \<Rightarrow> 'b thrown" where
  "andThen (Inl e) f = Inl e"
| "andThen (Inr x) f = f x"

lemma andThen_Inr: "andThen m f = Inr y \<longleftrightarrow> (\<exists>x. m = Inr x \<and> f x = Inr y)"
  by (cases m) auto

subsection \<open>Access to a value\<close>

text \<open>\<^verbatim>\<open>operator[]\<close> on a value that is not constant: a missing member, a missing element and a
  member of null are created as null.\<close>

fun element0 :: "json \<Rightarrow> json thrown" where
  "element0 (JArray (x # xs)) = Inr x"
| "element0 (JArray []) = Inr JNull"
| "element0 JNull = Inr JNull"
| "element0 _ = Inl TypeError"

fun member :: "json \<Rightarrow> string \<Rightarrow> json thrown" where
  "member (JObject ms) k = Inr (case map_of ms k of Some v \<Rightarrow> v | None \<Rightarrow> JNull)"
| "member JNull k = Inr JNull"
| "member _ k = Inl TypeError"

fun get_string :: "json \<Rightarrow> string thrown" where
  "get_string (JString s) = Inr s"
| "get_string _ = Inl TypeError"

definition text_at :: "json \<Rightarrow> string \<Rightarrow> string thrown" where
  "text_at d k = andThen (member d k) get_string"

text \<open>The values a range-based \<^verbatim>\<open>for\<close> visits.\<close>

fun elements :: "json \<Rightarrow> json list" where
  "elements (JArray xs) = xs"
| "elements (JObject ms) = map snd ms"
| "elements JNull = []"
| "elements v = [v]"

subsection \<open>Number conversions\<close>

text \<open>\<^verbatim>\<open>stoi\<close>, \<^verbatim>\<open>stol\<close> and \<^verbatim>\<open>stoll\<close> convert the longest prefix that is a number; \<^verbatim>\<open>long\<close> has 32
  bits on the platform of the program.\<close>

definition sto_int :: "nat \<Rightarrow> string \<Rightarrow> int thrown" where
  "sto_int w s =
     (let (neg, r) = take_sign (dropWhile isspace s); ds = takeWhile is_digit r;
          v = (if neg then - digits_val ds else digits_val ds) in
      if ds = [] then Inl InvalidArgument
      else if - (2 ^ (w - 1)) \<le> v \<and> v < 2 ^ (w - 1) then Inr v else Inl OutOfRange)"

definition stoi :: "string \<Rightarrow> int thrown" where "stoi = sto_int 32"
definition stol :: "string \<Rightarrow> int thrown" where "stol = sto_int 32"
definition stoll :: "string \<Rightarrow> int thrown" where "stoll = sto_int 64"

text \<open>
  \<^verbatim>\<open>stof\<close> and \<^verbatim>\<open>stod\<close>: like \<^verbatim>\<open>strtof\<close> and \<^verbatim>\<open>strtod\<close>, a marker without digits is not part of the
  number. A value too large for the type throws, and so does a nonzero one that rounds to zero.
\<close>

definition lax_exponent :: "int \<Rightarrow> string \<Rightarrow> int" where
  "lax_exponent mark s = (case exponent_of mark s of Some e \<Rightarrow> e | None \<Rightarrow> 0)"

definition sto_rounded :: "fmt \<Rightarrow> bool \<Rightarrow> rat \<Rightarrow> fp thrown" where
  "sto_rounded f neg v =
     (let x = fround f neg (if neg then - v else v) in
      if \<not> finite_fp x \<or> fval x = 0 \<and> v \<noteq> 0 then Inl OutOfRange else Inr x)"

definition sto_float :: "fmt \<Rightarrow> string \<Rightarrow> fp thrown" where
  "sto_float f s =
     (let (neg, r) = take_sign (dropWhile isspace s) in
      if 3 \<le> word_prefix ''infinity'' r then Inr (Inf neg)
      else if word_prefix ''nan'' r = 3 then Inr NaN
      else case (if word_prefix ''0x'' r = 2 then significand_of is_xdigit xdig 16 (drop 2 r) else None) of
        Some (m, k, t) \<Rightarrow> sto_rounded f neg (of_int m * 2 powi (lax_exponent 112 t - 4 * int k))
      | None \<Rightarrow>
        (case significand_of is_digit dig 10 r of
           None \<Rightarrow> Inl InvalidArgument
         | Some (m, k, t) \<Rightarrow> sto_rounded f neg (of_int m * 10 powi (lax_exponent 101 t - int k))))"

definition stof :: "string \<Rightarrow> fp thrown" where "stof = sto_float Single"
definition stod :: "string \<Rightarrow> fp thrown" where "stod = sto_float Double"

text \<open>A member that holds a number as a text.\<close>

definition number_at :: "(string \<Rightarrow> 'a thrown) \<Rightarrow> json \<Rightarrow> string \<Rightarrow> 'a thrown" where
  "number_at conv d k = andThen (text_at d k) conv"

lemma number_at_present:
  "map_of ms k = Some (JString t) \<Longrightarrow> number_at conv (JObject ms) k = conv t"
  by (simp add: number_at_def text_at_def)

lemma number_at_absent: "map_of ms k = None \<Longrightarrow> number_at conv (JObject ms) k = Inl TypeError"
  by (simp add: number_at_def text_at_def)

subsection \<open>Programs that fill a record\<close>

text \<open>
  The functions of the clients store one member after the other through a pointer. What they
  have stored stays when a later member throws, so a step returns the state together with the
  exception, and \<open>run\<close> stops at the first one. \<open>assign\<close> is a plain assignment, \<open>assign_or\<close> one
  inside \<^verbatim>\<open>try { ... } catch (std::exception)\<close> with a default.
\<close>

type_synonym 's step = "'s \<Rightarrow> 's \<times> exn option"

definition assign :: "'a thrown \<Rightarrow> ('a \<Rightarrow> 's \<Rightarrow> 's) \<Rightarrow> 's step" where
  "assign v upd s = (case v of Inl e \<Rightarrow> (s, Some e) | Inr x \<Rightarrow> (upd x s, None))"

definition assign_or :: "'a thrown \<Rightarrow> 'a \<Rightarrow> ('a \<Rightarrow> 's \<Rightarrow> 's) \<Rightarrow> 's step" where
  "assign_or v d upd s = (case v of
     Inr x \<Rightarrow> (upd x s, None)
   | Inl e \<Rightarrow> if std_exception e then (upd d s, None) else (s, Some e))"

fun run :: "'s step list \<Rightarrow> 's step" where
  "run [] s = (s, None)"
| "run (f # fs) s = (case f s of (s', None) \<Rightarrow> run fs s' | (s', Some e) \<Rightarrow> (s', Some e))"

lemma run_append:
  "run (fs @ gs) s = (case run fs s of (s', None) \<Rightarrow> run gs s' | (s', Some e) \<Rightarrow> (s', Some e))"
  by (induction fs arbitrary: s) (auto split: prod.split option.split)

text \<open>An assignment that always throws ends the run, whatever comes before it.\<close>

lemma run_throws: "f \<in> set fs \<Longrightarrow> (\<And>s. snd (f s) \<noteq> None) \<Longrightarrow> snd (run fs s) \<noteq> None"
proof (induction fs arbitrary: s)
  case (Cons g fs)
  obtain t b where g: "g s = (t, b)" by (cases "g s")
  show ?case
  proof (cases b)
    case None
    with g Cons.prems(2)[of s] have "f \<noteq> g" by auto
    with Cons g None show ?thesis by simp
  qed (simp add: g)
qed simp

lemma run_returns: "(\<And>f s. f \<in> set fs \<Longrightarrow> snd (f s) = None) \<Longrightarrow> snd (run fs s) = None"
proof (induction fs arbitrary: s)
  case (Cons g fs)
  then show ?case by (cases "g s") (auto split: option.split, metis option.simps(3) snd_conv)
qed simp

end
