(* ===== verification/Numbers.thy ===== *)
theory Numbers
  imports Strings CMath "HOL-Library.Multiset"
begin

text \<open>
  The number, time, random-number and vector helpers of \<^verbatim>\<open>sdk/utils.hpp\<close>. An \<^verbatim>\<open>int64_t\<close>
  is an \<^typ>\<open>int\<close> checked against its range, a \<^verbatim>\<open>uint64_t\<close> a word. The values of \<^verbatim>\<open>rand()\<close> are an
  argument of the functions that call it.
\<close>

definition in_int64 :: "int \<Rightarrow> bool" where
  "in_int64 n \<longleftrightarrow> - (2 ^ 63) \<le> n \<and> n < 2 ^ 63"

definition ck64 :: "int \<Rightarrow> int option" where
  "ck64 n = (if in_int64 n then Some n else None)"

subsection \<open>\<open>IntegerSplit\<close>\<close>

function split_digits :: "char \<Rightarrow> int \<Rightarrow> string \<Rightarrow> int \<Rightarrow> string" where
  "split_digits inpent number ret counter =
     (if number > 0 then
        let bit = number mod 10;
            ret = print_int bit @ ret;
            counter = counter + 1;
            (ret, counter) = (if counter = 3 then (inpent # ret, 0) else (ret, counter)) in
        split_digits inpent (number div 10) ret counter
      else ret)"
  by pat_completeness auto
termination
  by (relation "measure (\<lambda>(i, n, r, c). nat n)") auto

declare split_digits.simps [simp del]

text \<open>The second argument has the default \<^verbatim>\<open>','\<close>, which every call uses. The sign of the least
  \<^verbatim>\<open>int64_t\<close> cannot be changed.\<close>

definition IntegerSplit :: "int \<Rightarrow> char \<Rightarrow> string option" where
  "IntegerSplit number inpent =
     (let flag = number < 0 in do {
        number \<leftarrow> (if number < 0 then ck64 (0 - number) else Some number);
        let ret = split_digits inpent number [] 0;
        let rtn = (if flag then CHR ''-'' # ret else ret);
        Some (if rtn \<noteq> [] \<and> hd rtn = CHR '','' then tl rtn else rtn) })"

subsection \<open>Durations\<close>

text \<open>\<^verbatim>\<open>%I64d\<close> and \<^verbatim>\<open>%lld\<close> read the unsigned value as a signed one of the same width; all the
  values printed here are below \<open>2 ^ 63\<close>.\<close>

definition print_i64 :: "64 word \<Rightarrow> string" where
  "print_i64 w = print_int (sint w)"

definition Duration2String :: "64 word \<Rightarrow> string" where
  "Duration2String duration =
     (let day = duration div 86400;
          duration = duration mod 86400;
          hour = duration div 3600;
          duration = duration mod 3600;
          minute = duration div 60;
          second = duration mod 60 in
      print_i64 day @ ''d '' @ print_i64 hour @ ''h '' @ print_i64 minute @ ''m '' @
      print_i64 second @ ''s'')"

definition Duration2DayString :: "64 word \<Rightarrow> string" where
  "Duration2DayString duration = (let day = duration div 86400 in print_i64 day)"

definition utf8 :: "nat list \<Rightarrow> string" where
  "utf8 = map char_of"

definition HOURS :: string where "HOURS = utf8 [229, 176, 143, 230, 151, 182]"
definition MINUTES :: string where "MINUTES = utf8 [229, 136, 134, 233, 146, 159]"
definition SECONDS :: string where "SECONDS = utf8 [231, 167, 146]"

definition Duration2StrWithoutDAY :: "64 word \<Rightarrow> string" where
  "Duration2StrWithoutDAY duration =
     (let hour = duration div 3600;
          duration = duration mod 3600;
          minute = duration div 60;
          second = duration mod 60 in
      print_i64 hour @ HOURS @ print_i64 minute @ MINUTES @ print_i64 second @ SECONDS)"

subsection \<open>Numbers as texts\<close>

text \<open>The conversion \<^verbatim>\<open>%f\<close> with \<open>d\<close> decimals, correctly rounded; \<^verbatim>\<open>std::to_string\<close> of a \<^verbatim>\<open>double\<close> has
  six.\<close>

definition pad_digits :: "nat \<Rightarrow> nat \<Rightarrow> string" where
  "pad_digits d n = (let t = print_nat n in replicate (d - length t) CHR ''0'' @ t)"

definition print_fixed :: "nat \<Rightarrow> fp \<Rightarrow> string" where
  "print_fixed d x = (case x of
     NaN \<Rightarrow> ''nan''
   | Inf s \<Rightarrow> (if s then ''-inf'' else ''inf'')
   | _ \<Rightarrow> (let n = nat (rne (\<bar>fval x\<bar> * 10 ^ d)) in
       (if fsign x then ''-'' else []) @ print_nat (n div 10 ^ d) @ ''.'' @ pad_digits d (n mod 10 ^ d)))"

definition print_double :: "fp \<Rightarrow> string" where
  "print_double x = print_fixed 6 x"

subsection \<open>Random numbers\<close>

text \<open>
  \<open>r\<close> is the value that \<^verbatim>\<open>rand()\<close> gives after the seeding. The handler of the source cannot
  run: a division by zero is not an exception of C++, it is undefined.
\<close>

definition randomNum :: "int \<Rightarrow> int \<Rightarrow> int \<Rightarrow> int option" where
  "randomNum r minNum maxNum = do {
     d \<leftarrow> ck64 (maxNum - minNum);
     d \<leftarrow> ck64 (d + 1);
     if d = 0 then None else ck64 (cmod r d + minNum) }"

definition random_numofchars :: "int \<Rightarrow> string \<Rightarrow> int \<Rightarrow> int \<Rightarrow> string option" where
  "random_numofchars r chars lo hi = do {
     a \<leftarrow> randomNum r lo hi;
     let a = sint (word_of_int a :: 32 word);
     Some (concat (replicate (nat a) chars)) }"

text \<open>\<^verbatim>\<open>rand_str\<close> reads the sequence \<open>rs\<close> of values of \<^verbatim>\<open>rand()\<close>, two for each of the 20
  characters; the position in the sequence is threaded through the loop.\<close>

fun rand_chars :: "(nat \<Rightarrow> nat) \<Rightarrow> nat \<Rightarrow> nat \<Rightarrow> string" where
  "rand_chars rs k 0 = []"
| "rand_chars rs k (Suc n) =
     (let c = (case rs k mod 5 of
          Suc 0 \<Rightarrow> char_of (65 + rs (k + 1) mod 25)
        | Suc (Suc 0) \<Rightarrow> char_of (97 + rs (k + 1) mod 25)
        | _ \<Rightarrow> char_of (48 + rs (k + 1) mod 10)) in
      c # rand_chars rs (k + 2) n)"

definition rand_str :: "(nat \<Rightarrow> nat) \<Rightarrow> string" where
  "rand_str rs = rand_chars rs 0 20"

subsection \<open>Vectors\<close>

text \<open>\<^verbatim>\<open>std::unique\<close>, \<^verbatim>\<open>std::set_intersection\<close> and \<^verbatim>\<open>std::set_union\<close> on sorted ranges.\<close>

fun set_intersection :: "int list \<Rightarrow> int list \<Rightarrow> int list" where
  "set_intersection (x # xs) (y # ys) =
     (if x < y then set_intersection xs (y # ys)
      else if y < x then set_intersection (x # xs) ys
      else x # set_intersection xs ys)"
| "set_intersection xs ys = []"

fun set_union :: "int list \<Rightarrow> int list \<Rightarrow> int list" where
  "set_union [] ys = ys"
| "set_union xs [] = xs"
| "set_union (x # xs) (y # ys) =
     (if x < y then x # set_union xs (y # ys)
      else if y < x then y # set_union (x # xs) ys
      else x # set_union xs ys)"

definition unique_element_in_vector :: "int list \<Rightarrow> int list" where
  "unique_element_in_vector v = remdups_adj (sort v)"

definition vectors_intersection :: "int list \<Rightarrow> int list \<Rightarrow> int list" where
  "vectors_intersection v1 v2 = set_intersection (sort v1) (sort v2)"

definition vectors_set_union :: "int list \<Rightarrow> int list \<Rightarrow> int list" where
  "vectors_set_union v1 v2 = set_union (sort v1) (sort v2)"

fun is_element_in_vector :: "string list \<Rightarrow> string \<Rightarrow> bool" where
  "is_element_in_vector [] element = False"
| "is_element_in_vector (w # v) element = (w = element \<or> is_element_in_vector v element)"

subsection \<open>Rounding\<close>

text \<open>The conversion to \<^verbatim>\<open>int\<close> is undefined when the scaled value does not fit.\<close>

definition round_to :: "libm \<Rightarrow> fp \<Rightarrow> fp \<Rightarrow> fp option" where
  "round_to M x d =
     (let D = d;
          d = muld (dlit 5) (m_pow M (dlit 10) (subd (fneg d) (dlit 1)));
          x = (if flt (Num 0) x then addd (addd x d) (dlit (1 / 1000000))
               else subd (subd x d) (dlit (1 / 1000000))) in do {
        n \<leftarrow> to_cint (muld x (m_pow M (dlit 10) D));
        Some (divd (i2d n) (m_pow M (dlit 10) D)) })"

subsection \<open>The grouping of \<open>IntegerSplit\<close>\<close>

text \<open>The text under construction: fewer than three digits, then groups of three, each behind a
  separator.\<close>

definition grouped :: "string \<Rightarrow> string list \<Rightarrow> string" where
  "grouped x gs = x @ concat (map (\<lambda>g. CHR '','' # g) gs)"

definition plain :: "string \<Rightarrow> bool" where
  "plain x \<longleftrightarrow> CHR '','' \<notin> set x"

definition nat_digits :: "int \<Rightarrow> string" where
  "nat_digits n = (if n \<le> 0 then [] else print_nat (nat n))"

lemma digit_plain: "d < 10 \<Longrightarrow> plain [char_of (48 + d :: nat)]"
proof -
  assume "d < 10"
  then have "is_digit (char_of (48 + d))" by (rule digit_char)
  moreover have "\<not> is_digit CHR '',''" by (simp add: is_digit_def)
  ultimately show ?thesis by (auto simp: plain_def)
qed

lemma nat_digits_step:
  "0 < n \<Longrightarrow> nat_digits n = nat_digits (n div 10) @ print_int (n mod 10)"
  using pos_imp_zdiv_nonneg_iff[of 10 n]
  by (subst nat_digits_def, subst print_nat.simps)
    (auto simp: nat_digits_def print_int_def print_nat.simps[of "nat n mod 10"] nat_div_distrib
      nat_mod_distrib)

lemma print_digit: "0 \<le> d \<Longrightarrow> d < 10 \<Longrightarrow> \<exists>c. print_int d = [c] \<and> plain [c]"
  using digit_plain[of "nat d"] by (auto simp: print_int_def print_nat.simps[of "nat d"] nat_less_iff)

lemma split_digits_grouped:
  assumes "length x < 3" "plain x" "\<forall>g \<in> set gs. length g = 3 \<and> plain g" "ret = grouped x gs"
    "counter = int (length x)"
  shows "\<exists>y hs. split_digits CHR '','' n ret counter = grouped y hs \<and> length y < 3 \<and> plain y \<and>
           (\<forall>g \<in> set hs. length g = 3 \<and> plain g) \<and>
           y @ concat hs = nat_digits n @ x @ concat gs"
  using assms
proof (induction "CHR '',''" n ret counter arbitrary: x gs rule: split_digits.induct)
  case (1 n ret counter)
  show ?case
  proof (cases "0 < n")
    case False
    then show ?thesis using 1(2-) by (auto simp: split_digits.simps nat_digits_def)
  next
    case True
    obtain c where c: "print_int (n mod 10) = [c]" "plain [c]" using print_digit[of "n mod 10"] by auto
    show ?thesis
    proof (cases "length x = 2")
      case True
      have "\<exists>y hs. split_digits CHR '','' (n div 10) (grouped [] ((c # x) # gs)) 0 = grouped y hs \<and>
          length y < 3 \<and> plain y \<and> (\<forall>g \<in> set hs. length g = 3 \<and> plain g) \<and>
          y @ concat hs = nat_digits (n div 10) @ [] @ concat ((c # x) # gs)"
        by (rule 1(1)[OF \<open>0 < n\<close> refl refl refl])
          (use 1(2-) c True in \<open>auto simp: grouped_def plain_def\<close>)
      then show ?thesis
        using \<open>0 < n\<close> True 1(5,6) c
        by (subst split_digits.simps) (simp add: nat_digits_step grouped_def)
    next
      case False
      have "\<exists>y hs. split_digits CHR '','' (n div 10) (grouped (c # x) gs) (counter + 1) = grouped y hs \<and>
          length y < 3 \<and> plain y \<and> (\<forall>g \<in> set hs. length g = 3 \<and> plain g) \<and>
          y @ concat hs = nat_digits (n div 10) @ (c # x) @ concat gs"
        by (rule 1(1)[OF \<open>0 < n\<close> refl refl refl])
          (use 1(2-) c False in \<open>auto simp: grouped_def plain_def\<close>)
      then show ?thesis
        using \<open>0 < n\<close> False 1(2,5,6) c
        by (subst split_digits.simps) (simp add: nat_digits_step grouped_def)
    qed
  qed
qed

lemma split_on_plain: "plain x \<Longrightarrow> split_on '','' x = [x]"
  by (induction x) (auto simp: plain_def)

lemma split_on_plain_comma:
  "plain x \<Longrightarrow> split_on '','' (x @ CHR '','' # r) = x # split_on '','' r"
  by (induction x) (auto simp: plain_def)

lemma split_on_grouped:
  "plain x \<Longrightarrow> \<forall>g \<in> set gs. plain g \<Longrightarrow> split_on '','' (grouped x gs) = x # gs"
proof (induction gs arbitrary: x)
  case (Cons g gs)
  then have "split_on '','' (grouped g gs) = g # gs" by simp
  with Cons.prems show ?case by (simp add: grouped_def split_on_plain_comma)
qed (simp add: grouped_def split_on_plain)

lemma concat_grouped: "plain x \<Longrightarrow> \<forall>g \<in> set gs. plain g \<Longrightarrow>
   filter (\<lambda>c. c \<noteq> CHR '','') (grouped x gs) = x @ concat gs"
proof -
  have p: "plain g \<Longrightarrow> filter (\<lambda>c. c \<noteq> CHR '','') g = g" for g
    by (auto simp: plain_def filter_id_conv)
  show "plain x \<Longrightarrow> \<forall>g \<in> set gs. plain g \<Longrightarrow> ?thesis"
    by (induction gs) (auto simp: grouped_def p)
qed

text \<open>Zero has no digit, and the separator in front of a negative number of three digits stays.\<close>

lemma IntegerSplit_zero: "IntegerSplit 0 CHR '','' = Some []"
  by (simp add: IntegerSplit_def split_digits.simps)

lemma IntegerSplit_negative: "IntegerSplit (- 123) CHR '','' = Some ''-,123''"
  by code_simp

text \<open>
  For a positive \<^verbatim>\<open>int64_t\<close>, \<^verbatim>\<open>IntegerSplit\<close> writes exactly the decimal digits of the number
  and cuts them into groups of three from the right: between two commas there are three digits,
  and the leading group has one, two or three (it is never empty, the separator that the loop
  has put in front of a full leading group is taken off again).
\<close>

theorem IntegerSplit_groups:
  assumes "0 < n" "n < 2 ^ 63"
  shows "\<exists>r. IntegerSplit n CHR '','' = Some r \<and>
     filter (\<lambda>c. c \<noteq> CHR '','') r = print_int n \<and>
     length (hd (split_on '','' r)) \<in> {1, 2, 3} \<and>
     (\<forall>g \<in> set (tl (split_on '','' r)). length g = 3)"
proof -
  obtain y hs where yh: "split_digits CHR '','' n [] 0 = grouped y hs" "length y < 3" "plain y"
      "\<forall>g \<in> set hs. length g = 3 \<and> plain g" "y @ concat hs = nat_digits n"
    using split_digits_grouped[of "[]" "[]" "[]" 0 n] by (auto simp: grouped_def plain_def)
  have digits: "nat_digits n = print_int n" and ne: "nat_digits n \<noteq> []"
    using assms(1) print_nat.simps[of "nat n"] by (auto simp: nat_digits_def print_int_def)
  have I: "IntegerSplit n CHR '','' =
      Some (if grouped y hs \<noteq> [] \<and> hd (grouped y hs) = CHR '','' then tl (grouped y hs) else grouped y hs)"
    using assms(1) yh(1) by (simp add: IntegerSplit_def)
  show ?thesis
  proof (cases y)
    case Nil
    with ne yh(5) obtain g gs where hs: "hs = g # gs" by (cases hs) auto
    have "IntegerSplit n CHR '','' = Some (grouped g gs)" by (simp add: I Nil hs grouped_def)
    with yh(4,5) show ?thesis
      by (simp add: hs Nil split_on_grouped concat_grouped flip: digits)
  next
    case (Cons c r)
    then have "IntegerSplit n CHR '','' = Some (grouped y hs)"
      using yh(3) by (auto simp: I grouped_def plain_def)
    moreover have "length y \<in> {1, 2, 3}" using yh(2) Cons by (cases r) auto
    ultimately show ?thesis
      using yh(3-5) by (simp add: split_on_grouped concat_grouped flip: digits)
  qed
qed

lemma IntegerSplit_groups_witness:
  "\<exists>r. IntegerSplit 1234567 CHR '','' = Some r \<and>
     filter (\<lambda>c. c \<noteq> CHR '','') r = print_int 1234567 \<and>
     length (hd (split_on '','' r)) \<in> {1, 2, 3} \<and>
     (\<forall>g \<in> set (tl (split_on '','' r)). length g = 3)"
  by (rule IntegerSplit_groups) simp_all

subsection \<open>Durations, random numbers and sets\<close>

lemma randomNum_range:
  assumes "0 \<le> r" "lo \<le> hi" "in_int64 (hi - lo + 1)" "in_int64 lo" "in_int64 hi"
  shows "\<exists>v. randomNum r lo hi = Some v \<and> lo \<le> v \<and> v \<le> hi"
proof -
  define v where "v = r mod (hi - lo + 1)"
  have "cmod r (hi - lo + 1) = v" using assms by (simp add: cmod_nonneg_eq v_def)
  moreover have "0 \<le> v" "v < hi - lo + 1"
    using pos_mod_sign[of "hi - lo + 1" r] pos_mod_bound[of "hi - lo + 1" r] assms(2)
    unfolding v_def by linarith+
  ultimately show ?thesis
    using assms by (auto simp: randomNum_def ck64_def in_int64_def)
qed

lemma rand_str_length: "length (rand_str rs) = 20"
proof -
  have "length (rand_chars rs k n) = n" for k n
    by (induction rs k n rule: rand_chars.induct) (simp_all add: Let_def)
  then show ?thesis by (simp add: rand_str_def)
qed

lemma set_intersection_set: "set (set_intersection xs ys) \<subseteq> set xs \<inter> set ys"
  by (induction xs ys rule: set_intersection.induct) auto

lemma set_union_set: "set (set_union xs ys) = set xs \<union> set ys"
  by (induction xs ys rule: set_union.induct) auto

lemma sorted_set_intersection: "sorted xs \<Longrightarrow> sorted ys \<Longrightarrow> sorted (set_intersection xs ys)"
  by (induction xs ys rule: set_intersection.induct) (auto dest!: set_intersection_set[THEN subsetD])

lemma sorted_set_union: "sorted xs \<Longrightarrow> sorted ys \<Longrightarrow> sorted (set_union xs ys)"
  by (induction xs ys rule: set_union.induct) (auto simp: set_union_set)

lemma count_below: "sorted (y # ys) \<Longrightarrow> x < y \<Longrightarrow> count (mset (y # ys)) x = 0"
  by auto

lemma count_Cons: "count (mset (x # xs)) z = (if z = x then Suc (count (mset xs) z) else count (mset xs) z)"
  by simp

lemma count_set_intersection:
  "sorted xs \<Longrightarrow> sorted ys \<Longrightarrow>
   count (mset (set_intersection xs ys)) z = min (count (mset xs) z) (count (mset ys) z)"
proof (induction xs ys rule: set_intersection.induct)
  case (1 x xs y ys)
  then have tails: "sorted xs" "sorted ys" by simp_all
  show ?case
  proof (cases x y rule: linorder_cases)
    case less
    then have "set_intersection (x # xs) (y # ys) = set_intersection xs (y # ys)" by simp
    moreover have "count (mset (y # ys)) x = 0" using less 1(5) by (rule count_below[rotated])
    ultimately show ?thesis
      using 1(1)[OF less tails(1) 1(5)] count_Cons[of x xs z] by (cases "z = x") simp_all
  next
    case greater
    then have "set_intersection (x # xs) (y # ys) = set_intersection (x # xs) ys" by simp
    moreover have "count (mset (x # xs)) y = 0" using greater 1(4) by (rule count_below[rotated])
    ultimately show ?thesis
      using 1(2)[OF _ greater 1(4) tails(2)] greater count_Cons[of y ys z] by (cases "z = y") (simp_all del: count_mset_0_iff)
  next
    case equal
    then show ?thesis using 1(3) tails by simp
  qed
qed simp_all

lemma count_set_union:
  "sorted xs \<Longrightarrow> sorted ys \<Longrightarrow>
   count (mset (set_union xs ys)) z = max (count (mset xs) z) (count (mset ys) z)"
proof (induction xs ys rule: set_union.induct)
  case (3 x xs y ys)
  then have tails: "sorted xs" "sorted ys" by simp_all
  show ?case
  proof (cases x y rule: linorder_cases)
    case less
    then have "set_union (x # xs) (y # ys) = x # set_union xs (y # ys)" by simp
    moreover have "count (mset (y # ys)) x = 0" using less 3(5) by (rule count_below[rotated])
    ultimately show ?thesis
      using 3(1)[OF less tails(1) 3(5)] count_Cons[of x xs z] by (cases "z = x") simp_all
  next
    case greater
    then have "set_union (x # xs) (y # ys) = y # set_union (x # xs) ys" by simp
    moreover have "count (mset (x # xs)) y = 0" using greater 3(4) by (rule count_below[rotated])
    ultimately show ?thesis
      using 3(2)[OF _ greater 3(4) tails(2)] greater count_Cons[of y ys z] by (cases "z = y") (simp_all del: count_mset_0_iff)
  next
    case equal
    then show ?thesis using 3(3) tails by simp
  qed
qed simp_all

lemma distinct_remdups_adj: "sorted xs \<Longrightarrow> distinct (remdups_adj xs)"
  by (induction xs rule: remdups_adj.induct) (auto simp: le_less)

lemma is_element_iff: "is_element_in_vector v e \<longleftrightarrow> e \<in> set v"
  by (induction v) auto

text \<open>
  The vector helpers against their meaning: \<^verbatim>\<open>unique_element_in_vector\<close> returns the
  elements of the vector once each, in order; \<^verbatim>\<open>vectors_intersection\<close> and
  \<^verbatim>\<open>vectors_set_union\<close> return sorted vectors in which every number occurs as often as in the
  argument with fewer, respectively more, copies of it (they are the intersection and the union
  of multisets, so a duplicate inside one vector is not removed).
\<close>

theorem vector_helpers_correct:
  "unique_element_in_vector v1 = sorted_list_of_set (set v1) \<and>
   sorted (vectors_intersection v1 v2) \<and>
   mset (vectors_intersection v1 v2) = mset v1 \<inter># mset v2 \<and>
   sorted (vectors_set_union v1 v2) \<and>
   mset (vectors_set_union v1 v2) = mset v1 \<union># mset v2"
proof (intro conjI)
  have "sorted (remdups_adj (sort v1))" "distinct (remdups_adj (sort v1))"
    by (simp_all add: sorted_remdups_adj distinct_remdups_adj)
  then show "unique_element_in_vector v1 = sorted_list_of_set (set v1)"
    by (metis unique_element_in_vector_def remdups_adj_set set_sort sorted_list_of_set.idem_if_sorted_distinct)
qed (auto simp: vectors_intersection_def vectors_set_union_def sorted_set_intersection
    sorted_set_union multiset_eq_iff count_set_intersection count_set_union)

end
