(* ===== verification/OsuApi.thy ===== *)
theory OsuApi
  imports Json Numbers State
begin

text \<open>
  \<^verbatim>\<open>src/include/osu_api.hpp\<close>: the client of the osu! web interface. A request is a URL, the
  answer a text; \<^verbatim>\<open>HttpsGet\<close> (the network), the JSON parser and \<^verbatim>\<open>mktime\<close> (the local time
  zone) are the fields of the record \<open>api\<close>, an argument of all functions. The functions fill the
  record behind their pointer member by member, so they return it also when they throw. The
  members that a function leaves unset in a local variable are those of an indeterminate record,
  \<open>api_fresh\<close>. \<open>modParser\<close> prints the mods of a score.
\<close>

subsection \<open>Data\<close>

record user_info =
  ui_user_id :: int
  ui_username :: string
  ui_registed_timestamp :: int
  ui_n300 :: int
  ui_n100 :: int
  ui_n50 :: int
  ui_playcount :: int
  ui_total_score :: int
  ui_ranked_score :: int
  ui_pp :: fp
  ui_country_rank :: int
  ui_global_rank :: int
  ui_count_ssh :: int
  ui_count_ss :: int
  ui_count_sh :: int
  ui_count_s :: int
  ui_count_a :: int
  ui_playtime :: int
  ui_level :: fp
  ui_accuracy :: fp
  ui_country :: string
  ui_mode :: int
  ui_updatepplus :: bool
  ui_days_before :: int

record beatmap_info =
  bi_beatmap_id :: int
  bi_beatmapset_id :: int
  bi_artist :: string
  bi_title :: string
  bi_submit_timestamp :: int
  bi_lastupdate_timestamp :: int
  bi_approved_timestamp :: int
  bi_creator :: string
  bi_creator_id :: int
  bi_bpm :: fp
  bi_stars :: fp
  bi_aim_stars :: fp
  bi_speed_stars :: fp
  bi_cs :: fp
  bi_ar :: fp
  bi_od :: fp
  bi_hp :: fp
  bi_tags :: "string list"
  bi_source :: string
  bi_version :: string
  bi_filemd5 :: string
  bi_game_length :: int
  bi_total_length :: int
  bi_approved :: int
  bi_rating :: fp
  bi_favourite_count :: int
  bi_playcount :: int
  bi_passcount :: int
  bi_count_circle :: int
  bi_count_slider :: int
  bi_count_spinner :: int
  bi_maxcombo :: int
  bi_hasStoryboard :: bool
  bi_hasVideo :: bool
  bi_canDownload :: bool
  bi_mode :: int

record score_info =
  si_beatmap_id :: int
  si_score :: int
  si_user_id :: int
  si_n300 :: int
  si_n100 :: int
  si_n50 :: int
  si_nmiss :: int
  si_nkatu :: int
  si_ngeki :: int
  si_combo :: int
  si_mods :: int
  si_achieved_timestamp :: int
  si_pp :: fp
  si_hasReplay :: bool
  si_rank :: string
  si_username :: string

record tm =
  tm_year :: int
  tm_mon :: int
  tm_mday :: int
  tm_hour :: int
  tm_min :: int
  tm_sec :: int
  tm_isdst :: int

record api =
  api_get :: "string \<Rightarrow> string thrown"
  api_parse :: "string \<Rightarrow> json thrown"
  api_mktime :: "tm \<Rightarrow> int \<times> tm"
  api_key :: string
  api_fresh_beatmap :: beatmap_info
  api_fresh_score :: score_info

subsection \<open>Dates\<close>

text \<open>
  \<^verbatim>\<open>fakestrptime\<close> ignores its format. A field that \<^verbatim>\<open>sscanf\<close> does not reach stays
  uninitialised. \<open>scan_ints\<close> reads the numbers, each behind the character that the format has in
  front of it (a blank of the format skips white space).
\<close>

fun scan_ints :: "string \<Rightarrow> string \<Rightarrow> int list option" where
  "scan_ints [] s = Some []"
| "scan_ints (c # cs) s = do {
     s \<leftarrow> (if c = CHR '' '' then Some s
          else case s of d # r \<Rightarrow> if d = c then Some r else None | [] \<Rightarrow> None);
     (let (neg, r) = take_sign (dropWhile isspace s); ds = takeWhile is_digit r;
          v = (if neg then - digits_val ds else digits_val ds) in
      if ds = [] \<or> \<not> in_int v then None
      else map_option ((#) v) (scan_ints cs (dropWhile is_digit r))) }"

definition fakestrptime :: "api \<Rightarrow> string \<Rightarrow> tm option" where
  "fakestrptime E timeStr = (case scan_ints '' -- ::'' timeStr of
     Some [year, month, day, hour, minute, second] \<Rightarrow> do {
       y \<leftarrow> ck (year - 1900);
       m \<leftarrow> ck (month - 1);
       Some (snd (api_mktime E \<lparr>tm_year = y, tm_mon = m, tm_mday = day, tm_hour = hour,
         tm_min = minute, tm_sec = second, tm_isdst = 0\<rparr>)) }
   | _ \<Rightarrow> None)"

definition timestamp :: "api \<Rightarrow> int \<Rightarrow> string \<Rightarrow> int thrown" where
  "timestamp E shift t = (case fakestrptime E t of
     None \<Rightarrow> Inl Undefined
   | Some time_temp \<Rightarrow> Inr (fst (api_mktime E time_temp) + shift))"

text \<open>The cast to the 32-bit \<^verbatim>\<open>long\<close> comes before the addition.\<close>

definition long_timestamp :: "api \<Rightarrow> int \<Rightarrow> string \<Rightarrow> int thrown" where
  "long_timestamp E shift t = (case fakestrptime E t of
     None \<Rightarrow> Inl Undefined
   | Some time_temp \<Rightarrow>
       (case ck (sint (word_of_int (fst (api_mktime E time_temp)) :: 32 word) + shift) of
          None \<Rightarrow> Inl Undefined | Some n \<Rightarrow> Inr n))"

definition stamp_or_null :: "api \<Rightarrow> int \<Rightarrow> json \<Rightarrow> string \<Rightarrow> int thrown" where
  "stamp_or_null E shift d k = andThen (member d k)
     (\<lambda>v. if v = JNull then Inr (- 1) else andThen (get_string v) (timestamp E shift))"

subsection \<open>Requests\<close>

text \<open>\<^verbatim>\<open>sprintf_s\<close> into a buffer of 512 bytes.\<close>

definition sprintf_url :: "string \<Rightarrow> string thrown" where
  "sprintf_url s = (if length s < 512 then Inr s else Inl Aborted)"

definition OSU_API_V1 :: string where "OSU_API_V1 = ''https://osu.ppy.sh/api/''"

definition request :: "api \<Rightarrow> string \<Rightarrow> string thrown" where
  "request E url = andThen (sprintf_url url) (api_get E)"

text \<open>
  An answer of at most 50 bytes counts as no answer. \<open>fill\<close> runs the assignments to the record
  behind the pointer; \<open>fill_each\<close> fills one local record for each element and appends those
  that \<open>keep\<close> selects.
\<close>

definition fill :: "api \<Rightarrow> string \<Rightarrow> (json \<Rightarrow> 's step list) \<Rightarrow> 's \<Rightarrow> 's \<times> int thrown" where
  "fill E url body info = (case request E url of
     Inl e \<Rightarrow> (info, Inl e)
   | Inr response \<Rightarrow>
       if 50 < length response then
         (case andThen (api_parse E response) element0 of
            Inl e \<Rightarrow> (info, Inl e)
          | Inr data \<Rightarrow> (case run (body data) info of
              (info, None) \<Rightarrow> (info, Inr 1)
            | (info, Some e) \<Rightarrow> (info, Inl e)))
       else (info, Inr 0))"

fun fill_each :: "'s \<Rightarrow> (json \<Rightarrow> 's step list) \<Rightarrow> ('s \<Rightarrow> bool) \<Rightarrow> json list \<Rightarrow> 's list \<Rightarrow> 's list \<times> exn option" where
  "fill_each fresh body keep [] info = (info, None)"
| "fill_each fresh body keep (it # its) info = (case run (body it) fresh of
     (single, None) \<Rightarrow> fill_each fresh body keep its (if keep single then info @ [single] else info)
   | (single, Some e) \<Rightarrow> (info, Some e))"

text \<open>The vector is cleared after the parsing; its size is the result.\<close>

definition fill_all ::
  "api \<Rightarrow> string \<Rightarrow> 's \<Rightarrow> (json \<Rightarrow> 's step list) \<Rightarrow> ('s \<Rightarrow> bool) \<Rightarrow> 's list \<Rightarrow> 's list \<times> int thrown" where
  "fill_all E url fresh body keep info = (case request E url of
     Inl e \<Rightarrow> (info, Inl e)
   | Inr response \<Rightarrow>
       if 50 < length response then
         (case api_parse E response of
            Inl e \<Rightarrow> (info, Inl e)
          | Inr data \<Rightarrow> (case fill_each fresh body keep (elements data) [] of
              (info, None) \<Rightarrow> (info, Inr (int (length info)))
            | (info, Some e) \<Rightarrow> (info, Inl e)))
       else (info, Inr 0))"

definition as_bool :: "int thrown \<Rightarrow> bool thrown" where
  "as_bool v = map_sum id (\<lambda>n. n \<noteq> 0) v"

definition as_double :: "int thrown \<Rightarrow> fp thrown" where
  "as_double v = map_sum id (of_cint Double) v"

definition date_or :: "json \<Rightarrow> string" where
  "date_or d = (case text_at d ''date'' of Inr t \<Rightarrow> t | Inl e \<Rightarrow> ''2020-01-01 00:00:00'')"

text \<open>
  The loop over the tags. \<open>temp\<close> keeps the last word when only white space is left, and it is
  pushed once more.
\<close>

function read_tags :: "string \<Rightarrow> string \<Rightarrow> string list" where
  "read_tags s temp =
     (let r = dropWhile isspace s in
      if r = [] then [temp]
      else let w = takeWhile (\<lambda>c. \<not> isspace c) r; t = dropWhile (\<lambda>c. \<not> isspace c) r in
        if t = [] then [w] else w # read_tags t w)"
  by pat_completeness auto
termination
proof (relation "measure (\<lambda>(s, temp). length s)", simp)
  fix s temp r w t :: string
  assume r: "r = dropWhile isspace s" and ne: "r \<noteq> []" and t: "t = dropWhile (\<lambda>c. \<not> isspace c) r"
  from ne obtain c u where cu: "r = c # u" by (cases r) auto
  have "\<not> isspace c" using hd_dropWhile[of isspace s] ne cu unfolding r by (metis list.sel(1))
  then have "length t \<le> length u" by (simp add: t cu length_dropWhile_le)
  also have "\<dots> < length s" using length_dropWhile_le[of isspace s] cu unfolding r by simp
  finally show "((t, w), (s, temp)) \<in> measure (\<lambda>(s, temp). length s)" by simp
qed

declare read_tags.simps [simp del]


subsection \<open>Users\<close>

definition GetUser_by_id_fields :: "api \<Rightarrow> int \<Rightarrow> json \<Rightarrow> user_info step list" where
  "GetUser_by_id_fields E mode data =
     [assign (number_at stoll data ''user_id'') (\<lambda>x s. s\<lparr>ui_user_id := x\<rparr>),
      assign (text_at data ''username'') (\<lambda>x s. s\<lparr>ui_username := x\<rparr>),
      assign (andThen (text_at data ''join_date'') (timestamp E (16 * 3600))) (\<lambda>x s. s\<lparr>ui_registed_timestamp := x\<rparr>),
      assign_or (number_at stoll data ''count50'') 0 (\<lambda>x s. s\<lparr>ui_n50 := x\<rparr>),
      assign_or (number_at stoll data ''count100'') 0 (\<lambda>x s. s\<lparr>ui_n100 := x\<rparr>),
      assign_or (number_at stoll data ''count300'') 0 (\<lambda>x s. s\<lparr>ui_n300 := x\<rparr>),
      assign_or (number_at stoll data ''playcount'') 0 (\<lambda>x s. s\<lparr>ui_playcount := x\<rparr>),
      assign_or (number_at stoll data ''ranked_score'') 0 (\<lambda>x s. s\<lparr>ui_ranked_score := x\<rparr>),
      assign_or (number_at stoll data ''total_score'') 0 (\<lambda>x s. s\<lparr>ui_total_score := x\<rparr>),
      assign_or (number_at stoll data ''pp_rank'') 0 (\<lambda>x s. s\<lparr>ui_global_rank := x\<rparr>),
      assign_or (number_at stof data ''level'') (Num 0) (\<lambda>x s. s\<lparr>ui_level := x\<rparr>),
      assign_or (number_at stof data ''pp_raw'') (Num 0) (\<lambda>x s. s\<lparr>ui_pp := x\<rparr>),
      assign_or (number_at stod data ''accuracy'') (Num 0) (\<lambda>x s. s\<lparr>ui_accuracy := x\<rparr>),
      assign_or (number_at stoi data ''count_rank_ss'') 0 (\<lambda>x s. s\<lparr>ui_count_ss := x\<rparr>),
      assign_or (number_at stoi data ''count_rank_ssh'') 0 (\<lambda>x s. s\<lparr>ui_count_ssh := x\<rparr>),
      assign_or (number_at stoi data ''count_rank_s'') 0 (\<lambda>x s. s\<lparr>ui_count_s := x\<rparr>),
      assign_or (number_at stoi data ''count_rank_sh'') 0 (\<lambda>x s. s\<lparr>ui_count_sh := x\<rparr>),
      assign_or (number_at stoi data ''count_rank_a'') 0 (\<lambda>x s. s\<lparr>ui_count_a := x\<rparr>),
      assign_or (number_at stoll data ''total_seconds_played'') 0 (\<lambda>x s. s\<lparr>ui_playtime := x\<rparr>),
      assign_or (number_at stoll data ''pp_country_rank'') 0 (\<lambda>x s. s\<lparr>ui_country_rank := x\<rparr>),
      assign (text_at data ''country'') (\<lambda>x s. s\<lparr>ui_country := x\<rparr>),
      assign (Inr mode) (\<lambda>x s. s\<lparr>ui_mode := x\<rparr>)]"

definition GetUser_by_id :: "api \<Rightarrow> int \<Rightarrow> int \<Rightarrow> user_info \<Rightarrow> user_info \<times> int thrown" where
  "GetUser_by_id E uid mode info = fill E
     (OSU_API_V1 @ ''get_user?type=id&k='' @ api_key E @ ''&u='' @ print_int uid @ ''&m='' @ print_int mode)
     (GetUser_by_id_fields E mode) info"

definition GetUser_by_name_fields :: "api \<Rightarrow> int \<Rightarrow> json \<Rightarrow> user_info step list" where
  "GetUser_by_name_fields E mode data =
     [assign (number_at stoi data ''user_id'') (\<lambda>x s. s\<lparr>ui_user_id := x\<rparr>),
      assign (text_at data ''username'') (\<lambda>x s. s\<lparr>ui_username := x\<rparr>),
      assign (andThen (text_at data ''join_date'') (long_timestamp E (16 * 3600))) (\<lambda>x s. s\<lparr>ui_registed_timestamp := x\<rparr>),
      assign_or (number_at stoll data ''count50'') 0 (\<lambda>x s. s\<lparr>ui_n50 := x\<rparr>),
      assign_or (number_at stoll data ''count100'') 0 (\<lambda>x s. s\<lparr>ui_n100 := x\<rparr>),
      assign_or (number_at stoll data ''count300'') 0 (\<lambda>x s. s\<lparr>ui_n300 := x\<rparr>),
      assign_or (number_at stoll data ''playcount'') 0 (\<lambda>x s. s\<lparr>ui_playcount := x\<rparr>),
      assign_or (number_at stoll data ''ranked_score'') 0 (\<lambda>x s. s\<lparr>ui_ranked_score := x\<rparr>),
      assign_or (number_at stoll data ''total_score'') 0 (\<lambda>x s. s\<lparr>ui_total_score := x\<rparr>),
      assign_or (number_at stoll data ''pp_rank'') 0 (\<lambda>x s. s\<lparr>ui_global_rank := x\<rparr>),
      assign_or (number_at stof data ''level'') (Num 0) (\<lambda>x s. s\<lparr>ui_level := x\<rparr>),
      assign_or (number_at stof data ''pp_raw'') (Num 0) (\<lambda>x s. s\<lparr>ui_pp := x\<rparr>),
      assign_or (number_at stod data ''accuracy'') (Num 0) (\<lambda>x s. s\<lparr>ui_accuracy := x\<rparr>),
      assign_or (number_at stoi data ''count_rank_ss'') 0 (\<lambda>x s. s\<lparr>ui_count_ss := x\<rparr>),
      assign_or (number_at stoi data ''count_rank_ssh'') 0 (\<lambda>x s. s\<lparr>ui_count_ssh := x\<rparr>),
      assign_or (number_at stoi data ''count_rank_s'') 0 (\<lambda>x s. s\<lparr>ui_count_s := x\<rparr>),
      assign_or (number_at stoi data ''count_rank_sh'') 0 (\<lambda>x s. s\<lparr>ui_count_sh := x\<rparr>),
      assign_or (number_at stoi data ''count_rank_a'') 0 (\<lambda>x s. s\<lparr>ui_count_a := x\<rparr>),
      assign_or (number_at stoll data ''total_seconds_played'') 0 (\<lambda>x s. s\<lparr>ui_playtime := x\<rparr>),
      assign_or (number_at stoll data ''pp_country_rank'') 0 (\<lambda>x s. s\<lparr>ui_country_rank := x\<rparr>),
      assign (text_at data ''country'') (\<lambda>x s. s\<lparr>ui_country := x\<rparr>),
      assign (Inr mode) (\<lambda>x s. s\<lparr>ui_mode := x\<rparr>)]"

definition GetUser_by_name :: "api \<Rightarrow> string \<Rightarrow> int \<Rightarrow> user_info \<Rightarrow> user_info \<times> int thrown" where
  "GetUser_by_name E username mode info = fill E
     (OSU_API_V1 @ ''get_user?type=string&k='' @ api_key E @ ''&u='' @ username @ ''&m='' @ print_int mode)
     (GetUser_by_name_fields E mode) info"

subsection \<open>Beatmaps\<close>

definition GetBeatmap_fields :: "api \<Rightarrow> json \<Rightarrow> beatmap_info step list" where
  "GetBeatmap_fields E data =
     [assign (number_at stoi data ''approved'') (\<lambda>x s. s\<lparr>bi_approved := x\<rparr>),
      assign (stamp_or_null E (8 * 3600) data ''submit_date'') (\<lambda>x s. s\<lparr>bi_submit_timestamp := x\<rparr>),
      assign (stamp_or_null E (8 * 3600) data ''approved_date'') (\<lambda>x s. s\<lparr>bi_approved_timestamp := x\<rparr>),
      assign (stamp_or_null E (8 * 3600) data ''last_update'') (\<lambda>x s. s\<lparr>bi_lastupdate_timestamp := x\<rparr>),
      assign (text_at data ''artist'') (\<lambda>x s. s\<lparr>bi_artist := x\<rparr>),
      assign (text_at data ''title'') (\<lambda>x s. s\<lparr>bi_title := x\<rparr>),
      assign (number_at stoi data ''beatmap_id'') (\<lambda>x s. s\<lparr>bi_beatmap_id := x\<rparr>),
      assign (number_at stoi data ''beatmapset_id'') (\<lambda>x s. s\<lparr>bi_beatmapset_id := x\<rparr>),
      assign (number_at stof data ''bpm'') (\<lambda>x s. s\<lparr>bi_bpm := x\<rparr>),
      assign (text_at data ''creator'') (\<lambda>x s. s\<lparr>bi_creator := x\<rparr>),
      assign (number_at stoi data ''creator_id'') (\<lambda>x s. s\<lparr>bi_creator_id := x\<rparr>),
      assign (number_at stod data ''difficultyrating'') (\<lambda>x s. s\<lparr>bi_stars := x\<rparr>),
      assign_or (number_at stod data ''diff_aim'') (Num 0) (\<lambda>x s. s\<lparr>bi_aim_stars := x\<rparr>),
      assign_or (number_at stod data ''diff_speed'') (Num 0) (\<lambda>x s. s\<lparr>bi_speed_stars := x\<rparr>),
      assign (number_at stof data ''diff_size'') (\<lambda>x s. s\<lparr>bi_cs := x\<rparr>),
      assign (number_at stof data ''diff_approach'') (\<lambda>x s. s\<lparr>bi_ar := x\<rparr>),
      assign (number_at stof data ''diff_overall'') (\<lambda>x s. s\<lparr>bi_od := x\<rparr>),
      assign (number_at stof data ''diff_drain'') (\<lambda>x s. s\<lparr>bi_hp := x\<rparr>),
      assign (number_at stoi data ''hit_length'') (\<lambda>x s. s\<lparr>bi_game_length := x\<rparr>),
      assign (number_at stoi data ''total_length'') (\<lambda>x s. s\<lparr>bi_total_length := x\<rparr>),
      assign (text_at data ''version'') (\<lambda>x s. s\<lparr>bi_version := x\<rparr>),
      assign (text_at data ''file_md5'') (\<lambda>x s. s\<lparr>bi_filemd5 := x\<rparr>),
      assign (number_at stoi data ''mode'') (\<lambda>x s. s\<lparr>bi_mode := x\<rparr>),
      assign (Inr []) (\<lambda>x s. s\<lparr>bi_tags := x\<rparr>),
      assign (andThen (text_at data ''tags'') (\<lambda>t. Inr (read_tags t [])))
          (\<lambda>x s. s\<lparr>bi_tags := x\<rparr>),
      assign (number_at stoi data ''favourite_count'') (\<lambda>x s. s\<lparr>bi_favourite_count := x\<rparr>),
      assign (number_at stof data ''rating'') (\<lambda>x s. s\<lparr>bi_rating := x\<rparr>),
      assign (number_at stoi data ''playcount'') (\<lambda>x s. s\<lparr>bi_playcount := x\<rparr>),
      assign (number_at stoi data ''passcount'') (\<lambda>x s. s\<lparr>bi_passcount := x\<rparr>),
      assign (number_at stoi data ''count_normal'') (\<lambda>x s. s\<lparr>bi_count_circle := x\<rparr>),
      assign (number_at stoi data ''count_slider'') (\<lambda>x s. s\<lparr>bi_count_slider := x\<rparr>),
      assign (number_at stoi data ''count_spinner'') (\<lambda>x s. s\<lparr>bi_count_spinner := x\<rparr>),
      assign_or (number_at stoi data ''max_combo'') 0 (\<lambda>x s. s\<lparr>bi_maxcombo := x\<rparr>),
      assign (as_bool (number_at stoi data ''storyboard'')) (\<lambda>x s. s\<lparr>bi_hasStoryboard := x\<rparr>),
      assign (as_bool (number_at stoi data ''video'')) (\<lambda>x s. s\<lparr>bi_hasVideo := x\<rparr>),
      assign (as_bool (number_at stoi data ''download_unavailable'')) (\<lambda>x s. s\<lparr>bi_canDownload := x\<rparr>)]"

definition GetBeatmap :: "api \<Rightarrow> int \<Rightarrow> beatmap_info \<Rightarrow> beatmap_info \<times> int thrown" where
  "GetBeatmap E bid info = fill E
     (OSU_API_V1 @ ''get_beatmaps?k='' @ api_key E @ ''&b='' @ print_int bid)
     (GetBeatmap_fields E) info"

text \<open>In the set version the artist and the title are read from the whole answer, \<open>top\<close>, and not
  from the element; the vector is cleared at the start and the result is 1.\<close>

definition GetBeatmapset_fields :: "api \<Rightarrow> json \<Rightarrow> json \<Rightarrow> beatmap_info step list" where
  "GetBeatmapset_fields E whole it =
     [assign (number_at stoi it ''approved'') (\<lambda>x s. s\<lparr>bi_approved := x\<rparr>),
      assign (stamp_or_null E (16 * 3600) it ''submit_date'') (\<lambda>x s. s\<lparr>bi_submit_timestamp := x\<rparr>),
      assign (stamp_or_null E (16 * 3600) it ''approved_date'') (\<lambda>x s. s\<lparr>bi_approved_timestamp := x\<rparr>),
      assign (stamp_or_null E (16 * 3600) it ''last_update'') (\<lambda>x s. s\<lparr>bi_lastupdate_timestamp := x\<rparr>),
      assign (text_at whole ''artist'') (\<lambda>x s. s\<lparr>bi_artist := x\<rparr>),
      assign (text_at whole ''title'') (\<lambda>x s. s\<lparr>bi_title := x\<rparr>),
      assign (number_at stoi it ''beatmap_id'') (\<lambda>x s. s\<lparr>bi_beatmap_id := x\<rparr>),
      assign (number_at stoi it ''beatmapset_id'') (\<lambda>x s. s\<lparr>bi_beatmapset_id := x\<rparr>),
      assign (number_at stof it ''bpm'') (\<lambda>x s. s\<lparr>bi_bpm := x\<rparr>),
      assign (text_at it ''creator'') (\<lambda>x s. s\<lparr>bi_creator := x\<rparr>),
      assign (number_at stoi it ''creator_id'') (\<lambda>x s. s\<lparr>bi_creator_id := x\<rparr>),
      assign (number_at stod it ''difficultyrating'') (\<lambda>x s. s\<lparr>bi_stars := x\<rparr>),
      assign_or (number_at stod it ''diff_aim'') (Num 0) (\<lambda>x s. s\<lparr>bi_aim_stars := x\<rparr>),
      assign_or (number_at stod it ''diff_speed'') (Num 0) (\<lambda>x s. s\<lparr>bi_speed_stars := x\<rparr>),
      assign (number_at stof it ''diff_size'') (\<lambda>x s. s\<lparr>bi_cs := x\<rparr>),
      assign (number_at stof it ''diff_approach'') (\<lambda>x s. s\<lparr>bi_ar := x\<rparr>),
      assign (number_at stof it ''diff_overall'') (\<lambda>x s. s\<lparr>bi_od := x\<rparr>),
      assign (number_at stof it ''diff_drain'') (\<lambda>x s. s\<lparr>bi_hp := x\<rparr>),
      assign (number_at stoi it ''hit_length'') (\<lambda>x s. s\<lparr>bi_game_length := x\<rparr>),
      assign (number_at stoi it ''total_length'') (\<lambda>x s. s\<lparr>bi_total_length := x\<rparr>),
      assign (text_at it ''version'') (\<lambda>x s. s\<lparr>bi_version := x\<rparr>),
      assign (text_at it ''file_md5'') (\<lambda>x s. s\<lparr>bi_filemd5 := x\<rparr>),
      assign (number_at stoi it ''mode'') (\<lambda>x s. s\<lparr>bi_mode := x\<rparr>),
      assign (Inr []) (\<lambda>x s. s\<lparr>bi_tags := x\<rparr>),
      assign (andThen (text_at it ''tags'') (\<lambda>t. Inr (read_tags t [])))
          (\<lambda>x s. s\<lparr>bi_tags := x\<rparr>),
      assign (number_at stoi it ''favourite_count'') (\<lambda>x s. s\<lparr>bi_favourite_count := x\<rparr>),
      assign (number_at stof it ''rating'') (\<lambda>x s. s\<lparr>bi_rating := x\<rparr>),
      assign (number_at stoi it ''playcount'') (\<lambda>x s. s\<lparr>bi_playcount := x\<rparr>),
      assign (number_at stoi it ''passcount'') (\<lambda>x s. s\<lparr>bi_passcount := x\<rparr>),
      assign (number_at stoi it ''count_normal'') (\<lambda>x s. s\<lparr>bi_count_circle := x\<rparr>),
      assign (number_at stoi it ''count_slider'') (\<lambda>x s. s\<lparr>bi_count_slider := x\<rparr>),
      assign (number_at stoi it ''count_spinner'') (\<lambda>x s. s\<lparr>bi_count_spinner := x\<rparr>),
      assign_or (number_at stoi it ''max_combo'') 0 (\<lambda>x s. s\<lparr>bi_maxcombo := x\<rparr>),
      assign (as_bool (number_at stoi it ''storyboard'')) (\<lambda>x s. s\<lparr>bi_hasStoryboard := x\<rparr>),
      assign (as_bool (number_at stoi it ''video'')) (\<lambda>x s. s\<lparr>bi_hasVideo := x\<rparr>),
      assign (as_bool (number_at stoi it ''download_unavailable'')) (\<lambda>x s. s\<lparr>bi_canDownload := x\<rparr>)]"

definition GetBeatmapset :: "api \<Rightarrow> int \<Rightarrow> beatmap_info list \<Rightarrow> beatmap_info list \<times> int thrown" where
  "GetBeatmapset E sid info = (case request E
       (OSU_API_V1 @ ''get_beatmaps?k='' @ api_key E @ ''&s='' @ print_int sid) of
     Inl e \<Rightarrow> ([], Inl e)
   | Inr response \<Rightarrow>
       if 50 < length response then
         (case api_parse E response of
            Inl e \<Rightarrow> ([], Inl e)
          | Inr data \<Rightarrow> (case fill_each (api_fresh_beatmap E) (GetBeatmapset_fields E data) (\<lambda>s. True)
                (elements data) [] of
              (info, None) \<Rightarrow> (info, Inr 1)
            | (info, Some e) \<Rightarrow> (info, Inl e)))
       else ([], Inr 0))"

subsection \<open>Scores\<close>

definition GetUserRecent_by_id_fields :: "api \<Rightarrow> json \<Rightarrow> score_info step list" where
  "GetUserRecent_by_id_fields E data =
     [assign (number_at stol data ''beatmap_id'') (\<lambda>x s. s\<lparr>si_beatmap_id := x\<rparr>),
      assign (number_at stoll data ''score'') (\<lambda>x s. s\<lparr>si_score := x\<rparr>),
      assign (number_at stoi data ''maxcombo'') (\<lambda>x s. s\<lparr>si_combo := x\<rparr>),
      assign (number_at stoi data ''count50'') (\<lambda>x s. s\<lparr>si_n50 := x\<rparr>),
      assign (number_at stoi data ''count100'') (\<lambda>x s. s\<lparr>si_n100 := x\<rparr>),
      assign (number_at stoi data ''count300'') (\<lambda>x s. s\<lparr>si_n300 := x\<rparr>),
      assign (number_at stoi data ''countkatu'') (\<lambda>x s. s\<lparr>si_nkatu := x\<rparr>),
      assign (number_at stoi data ''countgeki'') (\<lambda>x s. s\<lparr>si_ngeki := x\<rparr>),
      assign (number_at stoi data ''countmiss'') (\<lambda>x s. s\<lparr>si_nmiss := x\<rparr>),
      assign (number_at stoll data ''enabled_mods'') (\<lambda>x s. s\<lparr>si_mods := x\<rparr>),
      assign (number_at stoll data ''user_id'') (\<lambda>x s. s\<lparr>si_user_id := x\<rparr>),
      assign (text_at data ''rank'') (\<lambda>x s. s\<lparr>si_rank := x\<rparr>),
      assign (andThen (text_at data ''date'') (long_timestamp E (16 * 3600))) (\<lambda>x s. s\<lparr>si_achieved_timestamp := x\<rparr>)]"

definition GetUserRecent_by_id :: "api \<Rightarrow> int \<Rightarrow> int \<Rightarrow> score_info \<Rightarrow> score_info \<times> int thrown" where
  "GetUserRecent_by_id E uid mode info = fill E
     (OSU_API_V1 @ ''get_user_recent?type=id&k='' @ api_key E @ ''&u='' @ print_int uid @ ''&m='' @ print_int mode)
     (GetUserRecent_by_id_fields E) info"

definition GetUserRecent_by_name_fields :: "api \<Rightarrow> json \<Rightarrow> score_info step list" where
  "GetUserRecent_by_name_fields E data =
     [assign (number_at stoi data ''beatmap_id'') (\<lambda>x s. s\<lparr>si_beatmap_id := x\<rparr>),
      assign (number_at stoll data ''score'') (\<lambda>x s. s\<lparr>si_score := x\<rparr>),
      assign (number_at stoi data ''maxcombo'') (\<lambda>x s. s\<lparr>si_combo := x\<rparr>),
      assign (number_at stoi data ''count50'') (\<lambda>x s. s\<lparr>si_n50 := x\<rparr>),
      assign (number_at stoi data ''count100'') (\<lambda>x s. s\<lparr>si_n100 := x\<rparr>),
      assign (number_at stoi data ''count300'') (\<lambda>x s. s\<lparr>si_n300 := x\<rparr>),
      assign (number_at stoi data ''countkatu'') (\<lambda>x s. s\<lparr>si_nkatu := x\<rparr>),
      assign (number_at stoi data ''countgeki'') (\<lambda>x s. s\<lparr>si_ngeki := x\<rparr>),
      assign (number_at stoi data ''countmiss'') (\<lambda>x s. s\<lparr>si_nmiss := x\<rparr>),
      assign (number_at stoll data ''enabled_mods'') (\<lambda>x s. s\<lparr>si_mods := x\<rparr>),
      assign (number_at stoll data ''user_id'') (\<lambda>x s. s\<lparr>si_user_id := x\<rparr>),
      assign (text_at data ''rank'') (\<lambda>x s. s\<lparr>si_rank := x\<rparr>),
      assign (andThen (text_at data ''date'') (long_timestamp E (16 * 3600))) (\<lambda>x s. s\<lparr>si_achieved_timestamp := x\<rparr>)]"

definition GetUserRecent_by_name :: "api \<Rightarrow> string \<Rightarrow> int \<Rightarrow> score_info \<Rightarrow> score_info \<times> int thrown" where
  "GetUserRecent_by_name E username mode info = fill E
     (OSU_API_V1 @ ''get_user_recent?type=string&k='' @ api_key E @ ''&u='' @ username @ ''&m='' @ print_int mode)
     (GetUserRecent_by_name_fields E) info"

text \<open>The assignments inside the test for a rank other than \<^verbatim>\<open>F\<close>; a failed play is skipped.\<close>

definition unless_failed :: "score_info step \<Rightarrow> score_info step" where
  "unless_failed f s = (if si_rank s \<noteq> ''F'' then f s else (s, None))"

definition GetUserPassRecent_by_id_fields :: "api \<Rightarrow> json \<Rightarrow> score_info step list" where
  "GetUserPassRecent_by_id_fields E it =
     assign (text_at it ''rank'') (\<lambda>x s. s\<lparr>si_rank := x\<rparr>) #
     map unless_failed [assign (number_at stoi it ''beatmap_id'') (\<lambda>x s. s\<lparr>si_beatmap_id := x\<rparr>),
      assign (number_at stoll it ''score'') (\<lambda>x s. s\<lparr>si_score := x\<rparr>),
      assign (number_at stoi it ''maxcombo'') (\<lambda>x s. s\<lparr>si_combo := x\<rparr>),
      assign (number_at stoi it ''count50'') (\<lambda>x s. s\<lparr>si_n50 := x\<rparr>),
      assign (number_at stoi it ''count100'') (\<lambda>x s. s\<lparr>si_n100 := x\<rparr>),
      assign (number_at stoi it ''count300'') (\<lambda>x s. s\<lparr>si_n300 := x\<rparr>),
      assign (number_at stoi it ''countkatu'') (\<lambda>x s. s\<lparr>si_nkatu := x\<rparr>),
      assign (number_at stoi it ''countgeki'') (\<lambda>x s. s\<lparr>si_ngeki := x\<rparr>),
      assign (number_at stoi it ''countmiss'') (\<lambda>x s. s\<lparr>si_nmiss := x\<rparr>),
      assign (number_at stoi it ''enabled_mods'') (\<lambda>x s. s\<lparr>si_mods := x\<rparr>),
      assign (number_at stoi it ''user_id'') (\<lambda>x s. s\<lparr>si_user_id := x\<rparr>),
      assign (andThen (text_at it ''date'') (long_timestamp E (16 * 3600))) (\<lambda>x s. s\<lparr>si_achieved_timestamp := x\<rparr>)]"

definition GetUserPassRecent_by_id :: "api \<Rightarrow> int \<Rightarrow> int \<Rightarrow> int \<Rightarrow> score_info list \<Rightarrow> score_info list \<times> int thrown" where
  "GetUserPassRecent_by_id E uid limit mode info = fill_all E
     (OSU_API_V1 @ ''get_user_recent?type=id&k='' @ api_key E @ ''&u='' @ print_int uid @ ''&m='' @ print_int mode @
       ''&limit='' @ print_int limit)
     (api_fresh_score E) (GetUserPassRecent_by_id_fields E) (\<lambda>s. si_rank s \<noteq> ''F'') info"

definition GetUserPassRecent_by_name_fields :: "api \<Rightarrow> json \<Rightarrow> score_info step list" where
  "GetUserPassRecent_by_name_fields E it =
     assign (text_at it ''rank'') (\<lambda>x s. s\<lparr>si_rank := x\<rparr>) #
     map unless_failed [assign (number_at stoi it ''beatmap_id'') (\<lambda>x s. s\<lparr>si_beatmap_id := x\<rparr>),
      assign (number_at stoll it ''score'') (\<lambda>x s. s\<lparr>si_score := x\<rparr>),
      assign (number_at stoi it ''maxcombo'') (\<lambda>x s. s\<lparr>si_combo := x\<rparr>),
      assign (number_at stoi it ''count50'') (\<lambda>x s. s\<lparr>si_n50 := x\<rparr>),
      assign (number_at stoi it ''count100'') (\<lambda>x s. s\<lparr>si_n100 := x\<rparr>),
      assign (number_at stoi it ''count300'') (\<lambda>x s. s\<lparr>si_n300 := x\<rparr>),
      assign (number_at stoi it ''countkatu'') (\<lambda>x s. s\<lparr>si_nkatu := x\<rparr>),
      assign (number_at stoi it ''countgeki'') (\<lambda>x s. s\<lparr>si_ngeki := x\<rparr>),
      assign (number_at stoi it ''countmiss'') (\<lambda>x s. s\<lparr>si_nmiss := x\<rparr>),
      assign (number_at stoi it ''enabled_mods'') (\<lambda>x s. s\<lparr>si_mods := x\<rparr>),
      assign (number_at stoi it ''user_id'') (\<lambda>x s. s\<lparr>si_user_id := x\<rparr>),
      assign (andThen (text_at it ''date'') (long_timestamp E (16 * 3600))) (\<lambda>x s. s\<lparr>si_achieved_timestamp := x\<rparr>)]"

definition GetUserPassRecent_by_name :: "api \<Rightarrow> string \<Rightarrow> int \<Rightarrow> int \<Rightarrow> score_info list \<Rightarrow> score_info list \<times> int thrown" where
  "GetUserPassRecent_by_name E username limit mode info = fill_all E
     (OSU_API_V1 @ ''get_user_recent?type=string&k='' @ api_key E @ ''&u='' @ username @ ''&m='' @ print_int mode @
       ''&limit='' @ print_int limit)
     (api_fresh_score E) (GetUserPassRecent_by_name_fields E) (\<lambda>s. si_rank s \<noteq> ''F'') info"

definition GetUserBest_by_id_fields :: "api \<Rightarrow> json \<Rightarrow> score_info step list" where
  "GetUserBest_by_id_fields E it =
     [assign (number_at stoi it ''beatmap_id'') (\<lambda>x s. s\<lparr>si_beatmap_id := x\<rparr>),
      assign (number_at stoll it ''score'') (\<lambda>x s. s\<lparr>si_score := x\<rparr>),
      assign (number_at stoi it ''maxcombo'') (\<lambda>x s. s\<lparr>si_combo := x\<rparr>),
      assign (number_at stoi it ''count50'') (\<lambda>x s. s\<lparr>si_n50 := x\<rparr>),
      assign (number_at stoi it ''count100'') (\<lambda>x s. s\<lparr>si_n100 := x\<rparr>),
      assign (number_at stoi it ''count300'') (\<lambda>x s. s\<lparr>si_n300 := x\<rparr>),
      assign (number_at stoi it ''countkatu'') (\<lambda>x s. s\<lparr>si_nkatu := x\<rparr>),
      assign (number_at stoi it ''countgeki'') (\<lambda>x s. s\<lparr>si_ngeki := x\<rparr>),
      assign (number_at stoi it ''countmiss'') (\<lambda>x s. s\<lparr>si_nmiss := x\<rparr>),
      assign (number_at stoi it ''enabled_mods'') (\<lambda>x s. s\<lparr>si_mods := x\<rparr>),
      assign (number_at stoi it ''user_id'') (\<lambda>x s. s\<lparr>si_user_id := x\<rparr>),
      assign (text_at it ''rank'') (\<lambda>x s. s\<lparr>si_rank := x\<rparr>),
      assign (number_at stod it ''pp'') (\<lambda>x s. s\<lparr>si_pp := x\<rparr>),
      assign (andThen (text_at it ''date'') (long_timestamp E (16 * 3600))) (\<lambda>x s. s\<lparr>si_achieved_timestamp := x\<rparr>)]"

definition GetUserBest_by_id :: "api \<Rightarrow> int \<Rightarrow> int \<Rightarrow> int \<Rightarrow> score_info list \<Rightarrow> score_info list \<times> int thrown" where
  "GetUserBest_by_id E uid limit mode info = fill_all E
     (OSU_API_V1 @ ''get_user_best?type=id&k='' @ api_key E @ ''&u='' @ print_int uid @ ''&m='' @ print_int mode @
       ''&limit='' @ print_int limit)
     (api_fresh_score E) (GetUserBest_by_id_fields E) (\<lambda>s. True) info"

definition GetUserBest_by_name_fields :: "api \<Rightarrow> json \<Rightarrow> score_info step list" where
  "GetUserBest_by_name_fields E it =
     [assign (number_at stoi it ''beatmap_id'') (\<lambda>x s. s\<lparr>si_beatmap_id := x\<rparr>),
      assign (number_at stoll it ''score'') (\<lambda>x s. s\<lparr>si_score := x\<rparr>),
      assign (number_at stoi it ''maxcombo'') (\<lambda>x s. s\<lparr>si_combo := x\<rparr>),
      assign (number_at stoi it ''count50'') (\<lambda>x s. s\<lparr>si_n50 := x\<rparr>),
      assign (number_at stoi it ''count100'') (\<lambda>x s. s\<lparr>si_n100 := x\<rparr>),
      assign (number_at stoi it ''count300'') (\<lambda>x s. s\<lparr>si_n300 := x\<rparr>),
      assign (number_at stoi it ''countkatu'') (\<lambda>x s. s\<lparr>si_nkatu := x\<rparr>),
      assign (number_at stoi it ''countgeki'') (\<lambda>x s. s\<lparr>si_ngeki := x\<rparr>),
      assign (number_at stoi it ''countmiss'') (\<lambda>x s. s\<lparr>si_nmiss := x\<rparr>),
      assign (number_at stoi it ''enabled_mods'') (\<lambda>x s. s\<lparr>si_mods := x\<rparr>),
      assign (number_at stoi it ''user_id'') (\<lambda>x s. s\<lparr>si_user_id := x\<rparr>),
      assign (text_at it ''rank'') (\<lambda>x s. s\<lparr>si_rank := x\<rparr>),
      assign (number_at stod it ''pp'') (\<lambda>x s. s\<lparr>si_pp := x\<rparr>),
      assign (andThen (text_at it ''date'') (long_timestamp E (16 * 3600))) (\<lambda>x s. s\<lparr>si_achieved_timestamp := x\<rparr>)]"

definition GetUserBest_by_name :: "api \<Rightarrow> string \<Rightarrow> int \<Rightarrow> int \<Rightarrow> score_info list \<Rightarrow> score_info list \<times> int thrown" where
  "GetUserBest_by_name E username limit mode info = fill_all E
     (OSU_API_V1 @ ''get_user_best?type=string&k='' @ api_key E @ ''&u='' @ username @ ''&m='' @ print_int mode @
       ''&limit='' @ print_int limit)
     (api_fresh_score E) (GetUserBest_by_name_fields E) (\<lambda>s. True) info"

definition GetUserScore_fields :: "api \<Rightarrow> int \<Rightarrow> json \<Rightarrow> score_info step list" where
  "GetUserScore_fields E beatmapid data =
     [assign (Inr beatmapid) (\<lambda>x s. s\<lparr>si_beatmap_id := x\<rparr>),
      assign_or (number_at stoll data ''score'') 0 (\<lambda>x s. s\<lparr>si_score := x\<rparr>),
      assign_or (number_at stoi data ''maxcombo'') 0 (\<lambda>x s. s\<lparr>si_combo := x\<rparr>),
      assign_or (number_at stoi data ''count50'') 0 (\<lambda>x s. s\<lparr>si_n50 := x\<rparr>),
      assign_or (number_at stoi data ''count100'') 0 (\<lambda>x s. s\<lparr>si_n100 := x\<rparr>),
      assign_or (number_at stoi data ''count300'') 0 (\<lambda>x s. s\<lparr>si_n300 := x\<rparr>),
      assign_or (number_at stoi data ''countkatu'') 0 (\<lambda>x s. s\<lparr>si_nkatu := x\<rparr>),
      assign_or (number_at stoi data ''countgeki'') 0 (\<lambda>x s. s\<lparr>si_ngeki := x\<rparr>),
      assign_or (number_at stoi data ''countmiss'') 0 (\<lambda>x s. s\<lparr>si_nmiss := x\<rparr>),
      assign_or (number_at stoi data ''enabled_mods'') 0 (\<lambda>x s. s\<lparr>si_mods := x\<rparr>),
      assign_or (number_at stoll data ''user_id'') 0 (\<lambda>x s. s\<lparr>si_user_id := x\<rparr>),
      assign_or (text_at data ''username'') ''error'' (\<lambda>x s. s\<lparr>si_username := x\<rparr>),
      assign_or (text_at data ''rank'') ''D'' (\<lambda>x s. s\<lparr>si_rank := x\<rparr>),
      assign_or (as_double (number_at stol data ''pp'')) (Num 0) (\<lambda>x s. s\<lparr>si_pp := x\<rparr>),
      assign (andThen (Inr (date_or data)) (long_timestamp E (16 * 3600))) (\<lambda>x s. s\<lparr>si_achieved_timestamp := x\<rparr>)]"

definition GetUserScore :: "api \<Rightarrow> int \<Rightarrow> int \<Rightarrow> int \<Rightarrow> score_info \<Rightarrow> score_info \<times> int thrown" where
  "GetUserScore E uid mode beatmapid info = fill E
     (OSU_API_V1 @ ''get_scores?type=id&k='' @ api_key E @ ''&u='' @ print_int uid @ ''&m='' @ print_int mode @
       ''&limit='' @ print_int 1 @ ''&b='' @ print_int beatmapid)
     (GetUserScore_fields E beatmapid) info"

end
