(* ===== verification/ModText.thy ===== *)
theory ModText
  imports Json State
begin

text \<open>
  \<open>modParser\<close> of \<^verbatim>\<open>src/include/osu_api.hpp\<close>, which prints the mods of a score, and the
  reference it is compared with. The chain of \<^verbatim>\<open>if (mods & X)\<close> is a walk over tables of the
  tested bit and the name that is appended; between the tables the name of \<^verbatim>\<open>DoubleTime\<close> is
  replaced by that of \<^verbatim>\<open>Nightcore\<close>, and that of \<^verbatim>\<open>SuddenDeath\<close> by that of \<^verbatim>\<open>Perfect\<close>.
\<close>

unbundle bit_operations_syntax

fun append_names :: "(int \<times> string) list \<Rightarrow> int \<Rightarrow> string \<Rightarrow> string" where
  "append_names [] m MODS = MODS"
| "append_names ((b, name) # bs) m MODS =
     append_names bs m (if m AND b \<noteq> 0 then MODS @ name else MODS)"

text \<open>\<^verbatim>\<open>replace\<close> at the position \<^verbatim>\<open>npos\<close> throws.\<close>

definition replace_name :: "string \<Rightarrow> string \<Rightarrow> string \<Rightarrow> string thrown" where
  "replace_name MODS old new = (case str_find MODS old 0 of
     None \<Rightarrow> Inl OutOfRange
   | Some p \<Rightarrow> Inr (take p MODS @ new @ drop (p + 2) MODS))"

definition first_names :: "(int \<times> string) list" where
  "first_names = [(1, ''NF''), (2, ''EZ''), (4, ''TD''), (8, ''HD''), (16, ''HR''), (32, ''SD''),
     (64, ''DT''), (128, ''RX''), (256, ''HT'')]"

definition middle_names :: "(int \<times> string) list" where
  "middle_names = [(1024, ''FL''), (2048, ''AT''), (4096, ''SO''), (8192, ''AP'')]"

definition last_names :: "(int \<times> string) list" where
  "last_names = [(32768, ''4K''), (65536, ''5K''), (131072, ''6K''), (262144, ''7K''),
     (524288, ''8K''), (1048576, ''FD''), (2097152, ''RD''), (4194304, ''CN''), (8388608, ''TG''),
     (16777216, ''9K''), (33554432, ''CP''), (67108864, ''1K''), (134217728, ''3K''),
     (268435456, ''2K''), (536870912, ''V2''), (1073741824, ''MR'')]"

definition modParser :: "int \<Rightarrow> string thrown" where
  "modParser m =
     (if m = 0 then Inr ''NM''
      else
        let MODS = append_names first_names m [] in
        andThen (if m AND 512 \<noteq> 0 then replace_name MODS ''DT'' ''NC'' else Inr MODS) (\<lambda>MODS.
        let MODS = append_names middle_names m MODS in
        andThen (if m AND 16384 \<noteq> 0 then replace_name MODS ''SD'' ''PF'' else Inr MODS) (\<lambda>MODS.
        Inr (append_names last_names m MODS))))"

subsection \<open>Searching in a row of names\<close>

definition names_of :: "(int \<times> string) list \<Rightarrow> int \<Rightarrow> string list" where
  "names_of bs m = map snd (filter (\<lambda>(b, name). m AND b \<noteq> 0) bs)"

lemma append_names_eq: "append_names bs m MODS = MODS @ concat (names_of bs m)"
  by (induction bs m MODS rule: append_names.induct) (auto simp: names_of_def)

text \<open>No name ends with the first letter of the searched one in front of a name that starts with
  the second, so that every match is a whole name.\<close>

definition aligned :: "char \<Rightarrow> char \<Rightarrow> string \<Rightarrow> string \<Rightarrow> bool" where
  "aligned a b p q \<longleftrightarrow> \<not> (p ! 1 = a \<and> q ! 0 = b)"

definition pairs :: "string list \<Rightarrow> bool" where
  "pairs ps \<longleftrightarrow> (\<forall>p \<in> set ps. length p = 2)"

definition index_of :: "'a \<Rightarrow> 'a list \<Rightarrow> nat" where
  "index_of x ps = length (takeWhile (\<lambda>p. p \<noteq> x) ps)"

lemma find_names:
  assumes "pairs ps" "sorted_wrt (aligned a b) ps"
  shows "find_sub [a, b] (concat ps) =
     (if [a, b] \<in> set ps then Some (2 * index_of [a, b] ps) else None)"
  using assms
proof (induction ps)
  case (Cons p ps)
  then obtain x y where p: "p = [x, y]" by (auto simp: pairs_def length_Suc_conv numeral_2_eq_2)
  have no: "\<not> (y = a \<and> starts [b] (concat ps))"
  proof (cases ps)
    case (Cons q qs)
    with Cons.prems have "aligned a b p q" "length q = 2" by (auto simp: pairs_def)
    then show ?thesis by (auto simp: Cons p aligned_def length_Suc_conv numeral_2_eq_2)
  qed simp
  have IH: "find_sub [a, b] (concat ps) =
     (if [a, b] \<in> set ps then Some (2 * index_of [a, b] ps) else None)"
    using Cons by (simp add: pairs_def)
  then have "find_sub [a, b] (y # concat ps) =
     (if [a, b] \<in> set ps then Some (Suc (2 * index_of [a, b] ps)) else None)"
    using no by simp
  then show ?case by (auto simp: p index_of_def)
qed simp

lemma replace_found:
  assumes "pairs ps" "sorted_wrt (aligned a b) ps" "[a, b] \<in> set ps" "distinct ps"
  shows "replace_name (concat ps) [a, b] new = Inr (concat (map (\<lambda>p. if p = [a, b] then new else p) ps))"
proof -
  have "take (2 * index_of p ps) (concat ps) @ new @ drop (2 * index_of p ps + 2) (concat ps) =
      concat (map (\<lambda>q. if q = p then new else q) ps)" if "pairs ps" "p \<in> set ps" "distinct ps" for p
    using that
  proof (induction ps)
    case (Cons q qs)
    have len: "length q = 2" "pairs qs" using Cons.prems by (auto simp: pairs_def)
    show ?case
    proof (cases "q = p")
      case True
      with Cons.prems have "map (\<lambda>q. if q = p then new else q) qs = qs" by (auto intro: map_idI)
      with True len show ?thesis by (simp add: index_of_def)
    next
      case False
      with Cons len show ?thesis by (simp add: index_of_def)
    qed
  qed simp
  then show ?thesis using assms by (simp add: replace_name_def str_find_0 find_names)
qed

lemma replace_missing:
  "pairs ps \<Longrightarrow> sorted_wrt (aligned a b) ps \<Longrightarrow> [a, b] \<notin> set ps \<Longrightarrow>
   replace_name (concat ps) [a, b] new = Inl OutOfRange"
  by (simp add: replace_name_def str_find_0 find_names)

subsection \<open>The printed mods\<close>

lemma names_of_append: "names_of (bs @ cs) m = names_of bs m @ names_of cs m"
  by (simp add: names_of_def)

lemma names_of_rename: "map f (names_of bs m) = names_of (map (\<lambda>(b, n). (b, f n)) bs) m"
  by (induction bs) (auto simp: names_of_def)

lemma names_of_set: "w \<in> set (names_of bs m) \<longleftrightarrow> (\<exists>b. (b, w) \<in> set bs \<and> m AND b \<noteq> 0)"
  by (force simp: names_of_def)

lemma names_of_sub:
  "pairs (map snd bs) \<Longrightarrow> pairs (names_of bs m)"
  "sorted_wrt R (map snd bs) \<Longrightarrow> sorted_wrt R (names_of bs m)"
  "distinct (map snd bs) \<Longrightarrow> distinct (names_of bs m)"
proof -
  show "pairs (map snd bs) \<Longrightarrow> pairs (names_of bs m)"
    by (auto simp: pairs_def names_of_def)
  show "sorted_wrt R (map snd bs) \<Longrightarrow> sorted_wrt R (names_of bs m)"
    by (simp add: names_of_def sorted_wrt_map sorted_wrt_filter)
  show "distinct (map snd bs) \<Longrightarrow> distinct (names_of bs m)"
    by (simp add: names_of_def distinct_map_filter)
qed

definition display :: "int \<Rightarrow> string \<Rightarrow> string" where
  "display m name = (if name = ''DT'' \<and> m AND 512 \<noteq> 0 then ''NC''
     else if name = ''SD'' \<and> m AND 16384 \<noteq> 0 then ''PF'' else name)"

definition all_names :: "(int \<times> string) list" where
  "all_names = first_names @ middle_names @ last_names"

lemmas name_tables = first_names_def middle_names_def last_names_def all_names_def

lemma nightcore_step:
  "(if m AND 512 \<noteq> 0 then replace_name (concat (names_of first_names m)) ''DT'' ''NC''
    else Inr (concat (names_of first_names m))) =
   (if m AND 512 \<noteq> 0 \<and> m AND 64 = 0 then Inl OutOfRange
    else Inr (concat (names_of (map (\<lambda>(b, n). (b, if n = ''DT'' \<and> m AND 512 \<noteq> 0 then ''NC'' else n)) first_names) m)))"
proof -
  let ?ps = "names_of first_names m"
  have ps: "pairs ?ps" "sorted_wrt (aligned CHR ''D'' CHR ''T'') ?ps" "distinct ?ps"
    by (rule names_of_sub, simp add: first_names_def pairs_def aligned_def)+
  have mem: "''DT'' \<in> set ?ps \<longleftrightarrow> m AND 64 \<noteq> 0"
    by (simp add: names_of_set first_names_def)
  have "names_of (map (\<lambda>(b, n). (b, if n = ''DT'' \<and> m AND 512 \<noteq> 0 then ''NC'' else n)) first_names) m =
      map (\<lambda>p. if p = ''DT'' \<and> m AND 512 \<noteq> 0 then ''NC'' else p) ?ps"
    by (simp add: names_of_rename)
  then show ?thesis
    using replace_found[OF ps(1,2) _ ps(3), of "''NC''"] replace_missing[OF ps(1,2), of "''NC''"] mem
    by auto
qed

lemma perfect_step:
  fixes m :: int
  defines "bs \<equiv> map (\<lambda>(b, n). (b, if n = ''DT'' \<and> m AND 512 \<noteq> 0 then ''NC'' else n)) first_names @ middle_names"
  shows "(if m AND 16384 \<noteq> 0 then replace_name (concat (names_of bs m)) ''SD'' ''PF''
      else Inr (concat (names_of bs m))) =
   (if m AND 16384 \<noteq> 0 \<and> m AND 32 = 0 then Inl OutOfRange
    else Inr (concat (map (display m) (names_of (first_names @ middle_names) m))))"
proof -
  let ?ps = "names_of bs m"
  have ps: "pairs ?ps" "sorted_wrt (aligned CHR ''S'' CHR ''D'') ?ps" "distinct ?ps"
    by (rule names_of_sub, simp add: bs_def name_tables pairs_def aligned_def)+
  have mem: "''SD'' \<in> set ?ps \<longleftrightarrow> m AND 32 \<noteq> 0"
    by (simp add: names_of_set bs_def name_tables)
  have "map (display m) (names_of (first_names @ middle_names) m) =
      map (\<lambda>p. if p = ''SD'' \<and> m AND 16384 \<noteq> 0 then ''PF'' else p) ?ps"
    by (simp add: names_of_rename bs_def name_tables display_def)
  then show ?thesis
    using replace_found[OF ps(1,2) _ ps(3), of "''PF''"] replace_missing[OF ps(1,2), of "''PF''"] mem
    by auto
qed

lemma modParser_names:
  "modParser m =
     (if m = 0 then Inr ''NM''
      else if m AND 512 \<noteq> 0 \<and> m AND 64 = 0 \<or> m AND 16384 \<noteq> 0 \<and> m AND 32 = 0 then Inl OutOfRange
      else Inr (concat (map (display m) (names_of all_names m))))"
proof (cases "m AND 512 \<noteq> 0 \<and> m AND 64 = 0")
  case True
  then show ?thesis using nightcore_step[of m] by (simp add: modParser_def append_names_eq)
next
  case False
  have last: "map (display m) (names_of last_names m) = names_of last_names m"
    by (rule map_idI) (auto simp: names_of_set last_names_def display_def)
  define F where "F = names_of (map (\<lambda>(b, n). (b, if n = ''DT'' \<and> m AND 512 \<noteq> 0 then ''NC'' else n)) first_names) m"
  have 1: "(if m AND 512 \<noteq> 0 then replace_name (concat (names_of first_names m)) ''DT'' ''NC''
    else Inr (concat (names_of first_names m))) = Inr (concat F)"
    using nightcore_step[of m] False by (simp only: if_False F_def)
  have 2: "(if m AND 16384 \<noteq> 0 then replace_name (concat F @ concat (names_of middle_names m)) ''SD'' ''PF''
      else Inr (concat F @ concat (names_of middle_names m))) =
   (if m AND 16384 \<noteq> 0 \<and> m AND 32 = 0 then Inl OutOfRange
    else Inr (concat (map (display m) (names_of (first_names @ middle_names) m))))"
    using perfect_step[of m] by (simp only: names_of_append F_def concat_append)
  have "modParser m = (if m = 0 then Inr ''NM'' else
      andThen (if m AND 16384 \<noteq> 0 \<and> m AND 32 = 0 then Inl OutOfRange
        else Inr (concat (map (display m) (names_of (first_names @ middle_names) m))))
      (\<lambda>MODS. Inr (MODS @ concat (names_of last_names m))))"
    by (simp only: modParser_def append_names_eq Let_def append_Nil 1 2 andThen.simps)
  then show ?thesis
    using False by (auto simp: all_names_def names_of_append last)
qed

text \<open>
  C20 \<^verbatim>\<open>modParser\<close> prints \<^verbatim>\<open>NM\<close> for no mod and otherwise the names of the set bits in
  the order of the enumeration, with \<^verbatim>\<open>NC\<close> in the place of \<^verbatim>\<open>DT\<close> for Nightcore and \<^verbatim>\<open>PF\<close> in the
  place of \<^verbatim>\<open>SD\<close> for Perfect. It throws \<^verbatim>\<open>out_of_range\<close> exactly when Nightcore comes without
  the bit of DoubleTime, or Perfect without that of SuddenDeath: the search for the name to
  replace is not checked.
\<close>

theorem modParser_correct:
  "modParser m =
     (if m = 0 then Inr ''NM''
      else if m AND 512 \<noteq> 0 \<and> m AND 64 = 0 \<or> m AND 16384 \<noteq> 0 \<and> m AND 32 = 0 then Inl OutOfRange
      else Inr (concat (map (display m) (names_of all_names m))))"
  by (rule modParser_names)

end
