(* ===== verification/OsuApiProps.thy ===== *)
theory OsuApiProps
  imports OsuApi ModText
begin

text \<open>
  Properties of the client of the osu! interface: what a missing member does, which plays the
  list functions return, and the request for a beatmap set, which never succeeds. The first part
  collects what the conversions can throw.
\<close>

named_theorems benign \<open>conversions that throw only exceptions a handler catches\<close>

definition catchable :: "'a thrown \<Rightarrow> bool" where
  "catchable v \<longleftrightarrow> (\<forall>e. v = Inl e \<longrightarrow> std_exception e)"

definition value_or :: "'a thrown \<Rightarrow> 'a \<Rightarrow> 'a" where
  "value_or v d = (case v of Inr x \<Rightarrow> x | Inl e \<Rightarrow> d)"

lemma assign_or_eq: "catchable v \<Longrightarrow> assign_or v d upd s = (upd (value_or v d) s, None)"
  by (auto simp: assign_or_def catchable_def value_or_def split: sum.split)

lemma assign_Inr: "assign (Inr x) upd s = (upd x s, None)"
  by (simp add: assign_def)

lemma catchable_text [benign]: "catchable (text_at d k)"
proof -
  have "catchable (member d k)" by (cases d) (simp_all add: catchable_def std_exception_def)
  moreover have "catchable (get_string v)" for v by (cases v) (simp_all add: catchable_def std_exception_def)
  ultimately show ?thesis by (cases "member d k") (auto simp: text_at_def catchable_def)
qed

lemma catchable_number:
  assumes "\<And>t. catchable (conv t)"
  shows "catchable (number_at conv d k)"
  using assms catchable_text[of d k] by (cases "text_at d k") (auto simp: number_at_def catchable_def)

lemma catchable_int: "catchable (sto_int w t)"
  by (simp add: catchable_def std_exception_def sto_int_def Let_def split: prod.split)

lemma catchable_float: "catchable (sto_float f t)"
  by (simp add: catchable_def std_exception_def sto_float_def sto_rounded_def Let_def split: prod.split option.split)

lemma catchable_stoi [benign]: "catchable (number_at stoi d k)"
  and catchable_stol [benign]: "catchable (number_at stol d k)"
  and catchable_stoll [benign]: "catchable (number_at stoll d k)"
  and catchable_stof [benign]: "catchable (number_at stof d k)"
  and catchable_stod [benign]: "catchable (number_at stod d k)"
  by (rule catchable_number, simp add: stoi_def stol_def stoll_def stof_def stod_def
      catchable_int catchable_float)+

lemma catchable_double [benign]: "catchable v \<Longrightarrow> catchable (as_double v)"
  by (cases v) (auto simp: as_double_def catchable_def)

text \<open>How a request that is answered ends.\<close>

lemma fill_answered:
  assumes "request E url = Inr response" "50 < length response"
    "api_parse E response = Inr v" "element0 v = Inr data"
  shows "fill E url body info = (case run (body data) info of
     (info, None) \<Rightarrow> (info, Inr 1) | (info, Some e) \<Rightarrow> (info, Inl e))"
  using assms by (simp add: fill_def)

lemma fill_each_throws:
  assumes "snd (run (body it) fresh) \<noteq> None"
  shows "\<exists>e. fill_each fresh body keep (it # its) info = (info, Some e)"
  using assms by (cases "run (body it) fresh") auto

lemma fill_each_collects:
  "fill_each fresh body keep its info = (infos, None) \<Longrightarrow>
   infos = info @ filter keep (map (\<lambda>it. fst (run (body it) fresh)) its)"
proof (induction its arbitrary: info)
  case (Cons it its)
  then obtain s where "run (body it) fresh = (s, None)"
    by (cases "run (body it) fresh") (auto split: option.splits)
  with Cons.IH[of info] Cons.IH[of "info @ [s]"] Cons.prems show ?case by (auto split: if_splits)
qed simp

lemma fill_all_collects:
  assumes "fill_all E url fresh body keep info = (infos, Inr n)"
    "request E url = Inr response" "api_parse E response = Inr data"
  shows "if length response \<le> 50 then infos = info \<and> n = 0
    else n = int (length infos) \<and>
      infos = filter keep (map (\<lambda>it. fst (run (body it) fresh)) (elements data))"
  using assms by (auto simp: fill_all_def split: prod.splits option.splits if_splits dest: fill_each_collects)

text \<open>
  \<^verbatim>\<open>GetUser\<close> needs only the identity of the player. When the answer is an object with a
  number \<^verbatim>\<open>user_id\<close>, a \<^verbatim>\<open>username\<close>, a date \<^verbatim>\<open>join_date\<close> and a \<^verbatim>\<open>country\<close>, the call returns 1, and
  every statistic is the number in the answer, or zero where the answer has none that can be
  converted (a player who has never played has null there); the members that the function does
  not name keep their values.
\<close>

theorem GetUser_defaults:
  assumes "request E (OSU_API_V1 @ ''get_user?type=id&k='' @ api_key E @ ''&u='' @ print_int uid @
      ''&m='' @ print_int mode) = Inr response" "50 < length response"
    and "api_parse E response = Inr (JArray (data # others))"
    and "number_at stoll data ''user_id'' = Inr who" "text_at data ''username'' = Inr name"
    and "andThen (text_at data ''join_date'') (timestamp E (16 * 3600)) = Inr joined"
    and "text_at data ''country'' = Inr country"
  shows "GetUser_by_id E uid mode info =
    (info\<lparr>ui_user_id := who, ui_username := name, ui_registed_timestamp := joined,
       ui_n300 := value_or (number_at stoll data ''count300'') 0,
       ui_n100 := value_or (number_at stoll data ''count100'') 0,
       ui_n50 := value_or (number_at stoll data ''count50'') 0,
       ui_playcount := value_or (number_at stoll data ''playcount'') 0,
       ui_total_score := value_or (number_at stoll data ''total_score'') 0,
       ui_ranked_score := value_or (number_at stoll data ''ranked_score'') 0,
       ui_pp := value_or (number_at stof data ''pp_raw'') (Num 0),
       ui_country_rank := value_or (number_at stoll data ''pp_country_rank'') 0,
       ui_global_rank := value_or (number_at stoll data ''pp_rank'') 0,
       ui_count_ssh := value_or (number_at stoi data ''count_rank_ssh'') 0,
       ui_count_ss := value_or (number_at stoi data ''count_rank_ss'') 0,
       ui_count_sh := value_or (number_at stoi data ''count_rank_sh'') 0,
       ui_count_s := value_or (number_at stoi data ''count_rank_s'') 0,
       ui_count_a := value_or (number_at stoi data ''count_rank_a'') 0,
       ui_playtime := value_or (number_at stoll data ''total_seconds_played'') 0,
       ui_level := value_or (number_at stof data ''level'') (Num 0),
       ui_accuracy := value_or (number_at stod data ''accuracy'') (Num 0),
       ui_country := country, ui_mode := mode\<rparr>, Inr 1)"
  using assms
  by (simp add: GetUser_by_id_def fill_answered GetUser_by_id_fields_def assign_or_eq assign_Inr benign)

text \<open>A server for the witnesses: every request is answered, the parser gives the value \<open>v\<close>, and
  the local time zone maps every date to the epoch.\<close>

definition blank_beatmap :: beatmap_info where
  "blank_beatmap = \<lparr>bi_beatmap_id = 0, bi_beatmapset_id = 0, bi_artist = [], bi_title = [],
     bi_submit_timestamp = 0, bi_lastupdate_timestamp = 0, bi_approved_timestamp = 0,
     bi_creator = [], bi_creator_id = 0, bi_bpm = Num 0, bi_stars = Num 0, bi_aim_stars = Num 0,
     bi_speed_stars = Num 0, bi_cs = Num 0, bi_ar = Num 0, bi_od = Num 0, bi_hp = Num 0,
     bi_tags = [], bi_source = [], bi_version = [], bi_filemd5 = [], bi_game_length = 0,
     bi_total_length = 0, bi_approved = 0, bi_rating = Num 0, bi_favourite_count = 0,
     bi_playcount = 0, bi_passcount = 0, bi_count_circle = 0, bi_count_slider = 0,
     bi_count_spinner = 0, bi_maxcombo = 0, bi_hasStoryboard = False, bi_hasVideo = False,
     bi_canDownload = False, bi_mode = 0\<rparr>"

definition blank_score :: score_info where
  "blank_score = \<lparr>si_beatmap_id = 0, si_score = 0, si_user_id = 0, si_n300 = 0, si_n100 = 0,
     si_n50 = 0, si_nmiss = 0, si_nkatu = 0, si_ngeki = 0, si_combo = 0, si_mods = 0,
     si_achieved_timestamp = 0, si_pp = Num 0, si_hasReplay = False, si_rank = [], si_username = []\<rparr>"

definition blank_user :: user_info where
  "blank_user = \<lparr>ui_user_id = 0, ui_username = [], ui_registed_timestamp = 0, ui_n300 = 0,
     ui_n100 = 0, ui_n50 = 0, ui_playcount = 0, ui_total_score = 0, ui_ranked_score = 0,
     ui_pp = Num 0, ui_country_rank = 0, ui_global_rank = 0, ui_count_ssh = 0, ui_count_ss = 0,
     ui_count_sh = 0, ui_count_s = 0, ui_count_a = 0, ui_playtime = 0, ui_level = Num 0,
     ui_accuracy = Num 0, ui_country = [], ui_mode = 0, ui_updatepplus = False, ui_days_before = 0\<rparr>"

definition answering :: "json \<Rightarrow> api" where
  "answering v = \<lparr>api_get = (\<lambda>url. Inr (replicate 60 CHR ''x'')), api_parse = (\<lambda>t. Inr v),
     api_mktime = (\<lambda>t. (0, t)), api_key = ''key'',
     api_fresh_beatmap = blank_beatmap, api_fresh_score = blank_score\<rparr>"

definition demo_user :: json where
  "demo_user = JObject [(''user_id'', JString ''2''), (''username'', JString ''peppy''),
     (''join_date'', JString ''2007-08-28 03:09:12''), (''playcount'', JString ''7''),
     (''pp_raw'', JNull), (''country'', JString ''AU'')]"

lemma GetUser_defaults_witness:
  "ui_playcount (fst (GetUser_by_id (answering (JArray [demo_user])) 2 0 blank_user)) = 7 \<and>
   ui_n300 (fst (GetUser_by_id (answering (JArray [demo_user])) 2 0 blank_user)) = 0 \<and>
   snd (GetUser_by_id (answering (JArray [demo_user])) 2 0 blank_user) = Inr 1"
proof -
  have req: "request (answering (JArray [demo_user])) (OSU_API_V1 @ ''get_user?type=id&k='' @
      api_key (answering (JArray [demo_user])) @ ''&u='' @ print_int 2 @ ''&m='' @ print_int 0) =
      Inr (replicate 60 CHR ''x'')"
    by (simp add: request_def sprintf_url_def OSU_API_V1_def answering_def print_int_def print_nat.simps)
  have joined: "andThen (text_at demo_user ''join_date'') (timestamp (answering (JArray [demo_user])) (16 * 3600)) =
      Inr 57600"
    by (simp add: demo_user_def text_at_def timestamp_def fakestrptime_def Let_def is_digit_def
        digits_val_def dig_def isspace_def in_int_iff answering_def)
  have who: "number_at stoll demo_user ''user_id'' = Inr 2"
    and plays: "number_at stoll demo_user ''playcount'' = Inr 7"
    and none: "number_at stoll demo_user ''count300'' = Inl TypeError"
    by (simp_all add: demo_user_def number_at_def text_at_def stoll_def sto_int_def Let_def
        is_digit_def digits_val_def dig_def isspace_def)
  have parse: "api_parse (answering (JArray [demo_user])) (replicate 60 CHR ''x'') = Inr (JArray [demo_user])"
    by (simp add: answering_def)
  have name: "text_at demo_user ''username'' = Inr ''peppy''"
    and country: "text_at demo_user ''country'' = Inr ''AU''"
    by (simp_all add: demo_user_def text_at_def)
  show ?thesis
    using GetUser_defaults[OF req _ parse who name joined country, of blank_user]
    by (simp add: plays none value_or_def)
qed

text \<open>
  The request for a beatmap set never succeeds: the loop reads the artist from the array
  instead of from its element, which throws for every answer that has an element, so that the
  caller gets the exception and an empty vector, never the beatmaps.
\<close>

theorem GetBeatmapset_throws:
  assumes "request E (OSU_API_V1 @ ''get_beatmaps?k='' @ api_key E @ ''&s='' @ print_int sid) = Inr response"
    and "50 < length response" "api_parse E response = Inr (JArray (it # its))"
  shows "\<exists>e. GetBeatmapset E sid info = ([], Inl e)"
proof -
  let ?top = "JArray (it # its)"
  let ?step = "assign (text_at ?top ''artist'') (\<lambda>x s. s\<lparr>bi_artist := x\<rparr>)"
  have "?step \<in> set (GetBeatmapset_fields E ?top it)" by (simp add: GetBeatmapset_fields_def)
  moreover have "snd (?step s) \<noteq> None" for s by (simp add: assign_def text_at_def)
  ultimately have "snd (run (GetBeatmapset_fields E ?top it) (api_fresh_beatmap E)) \<noteq> None"
    by (rule run_throws)
  from fill_each_throws[of "GetBeatmapset_fields E ?top", OF this]
  obtain e where "fill_each (api_fresh_beatmap E) (GetBeatmapset_fields E ?top) (\<lambda>s. True)
      (it # its) [] = ([], Some e)" by blast
  then show ?thesis using assms by (simp add: GetBeatmapset_def del: fill_each.simps)
qed

lemma GetBeatmapset_throws_witness:
  "\<exists>e. GetBeatmapset (answering (JArray [JObject []])) 1 [] = ([], Inl e)"
  by (rule GetBeatmapset_throws[where response = "replicate 60 CHR ''x''"])
    (simp_all add: request_def sprintf_url_def OSU_API_V1_def answering_def print_int_def print_nat.simps)

text \<open>
  C21 A result of \<^verbatim>\<open>GetUserPassRecent\<close> that is not an exception is the number of plays in the
  vector, and these are exactly the plays of the answer that did not fail, in its order, each
  filled from its own element; without an answer the result is zero and the vector is left alone.
\<close>

theorem GetUserPassRecent_plays:
  assumes "GetUserPassRecent_by_id E uid limit mode info = (plays, Inr n)"
    and "api_parse E response = Inr data" "api_get E url = Inr response"
    and "url = OSU_API_V1 @ ''get_user_recent?type=id&k='' @ api_key E @ ''&u='' @ print_int uid @
       ''&m='' @ print_int mode @ ''&limit='' @ print_int limit"
  shows "if length response \<le> 50 then plays = info \<and> n = 0
    else n = int (length plays) \<and>
      plays = filter (\<lambda>s. si_rank s \<noteq> ''F'')
        (map (\<lambda>it. fst (run (GetUserPassRecent_by_id_fields E it) (api_fresh_score E))) (elements data))"
proof -
  have all: "fill_all E url (api_fresh_score E) (GetUserPassRecent_by_id_fields E)
      (\<lambda>s. si_rank s \<noteq> ''F'') info = (plays, Inr n)"
    using assms(1) by (simp only: GetUserPassRecent_by_id_def assms(4))
  then have "request E url = Inr response"
    using assms(3) by (auto simp: fill_all_def request_def sprintf_url_def split: if_splits)
  from fill_all_collects[OF all this assms(2)] show ?thesis .
qed

lemma GetUserPassRecent_plays_witness:
  "\<exists>plays n. GetUserPassRecent_by_id (answering (JArray [JObject [(''rank'', JString ''F'')]])) 2 10 0 [] =
     (plays, Inr n) \<and> n = 0 \<and> plays = []"
proof -
  let ?E = "answering (JArray [JObject [(''rank'', JString ''F'')]])"
  let ?url = "OSU_API_V1 @ ''get_user_recent?type=id&k='' @ api_key ?E @ ''&u='' @ print_int 2 @
       ''&m='' @ print_int 0 @ ''&limit='' @ print_int 10"
  have f: "run (GetUserPassRecent_by_id_fields ?E (JObject [(''rank'', JString ''F'')])) blank_score =
      (blank_score\<lparr>si_rank := ''F''\<rparr>, None)"
    by (simp add: GetUserPassRecent_by_id_fields_def assign_def text_at_def unless_failed_def)
  have "GetUserPassRecent_by_id ?E 2 10 0 [] = ([], Inr 0)"
    by (simp add: GetUserPassRecent_by_id_def fill_all_def request_def sprintf_url_def OSU_API_V1_def
        print_int_def print_nat.simps)
      (simp add: answering_def f[unfolded answering_def])
  from GetUserPassRecent_plays[OF this, of "replicate 60 CHR ''x''" "JArray [JObject [(''rank'', JString ''F'')]]" ?url]
  show ?thesis using \<open>GetUserPassRecent_by_id ?E 2 10 0 [] = ([], Inr 0)\<close> by (simp add: answering_def)
qed

end
