(* ===== verification/ModSet.thy ===== *)
theory ModSet
  imports Strings State
begin

text \<open>
  \<^verbatim>\<open>oppai-cpp/oppai/mods.hpp\<close>: the class \<^verbatim>\<open>osucat::Mod\<close>, a set of mods that is built from a
  bit mask or from a text such as \<^verbatim>\<open>HDDT\<close> and turned back into either. The \<^verbatim>\<open>std::set\<close> of
  enumerators is the sorted list of their values. A mask is an \<^typ>\<open>int\<close> in two's complement, on
  which \<^verbatim>\<open>>>=\<close> shifts the sign in; only the bits below 31 are read.
\<close>

unbundle bit_operations_syntax

subsection \<open>The enumeration \<open>osu::Mods\<close>\<close>

definition DoubleTime :: int where "DoubleTime = 2 ^ 6"
definition SuddenDeath :: int where "SuddenDeath = 2 ^ 5"
definition NoFail :: int where "NoFail = 2 ^ 0"
definition Easy :: int where "Easy = 2 ^ 1"
definition HardRock :: int where "HardRock = 2 ^ 4"
definition Relax :: int where "Relax = 2 ^ 7"
definition HalfTime :: int where "HalfTime = 2 ^ 8"
definition Relax2 :: int where "Relax2 = 2 ^ 13"
definition Nightcore :: int where "Nightcore = 2 ^ 9 OR DoubleTime"
definition Perfect :: int where "Perfect = 2 ^ 14 OR SuddenDeath"

type_synonym mods = "int list"

definition mods_str :: "string list" where
  "mods_str = [''NF'', ''EZ'', ''TD'', ''HD'', ''HR'', ''SD'', ''DT'', ''RX'',
     ''HT'', ''NC'', ''FL'', ''AU'', ''SO'', ''AP'', ''PF'', ''K4'',
     ''K5'', ''K6'', ''K7'', ''K8'', ''FI'', ''RD'', ''CN'', ''TG'',
     ''K9'', ''KC'', ''K1'', ''K3'', ''K2'', ''S2'', ''MR'']"

definition invaild_mods :: "int list" where
  "invaild_mods = [Easy OR HardRock, HalfTime OR DoubleTime, NoFail OR SuddenDeath, Relax OR Relax2]"

subsection \<open>From a mask\<close>

fun mod_bits :: "nat \<Rightarrow> nat \<Rightarrow> int \<Rightarrow> mods \<Rightarrow> mods" where
  "mod_bits i 0 mod_num enabled = enabled"
| "mod_bits i (Suc n) mod_num enabled =
     mod_bits (Suc i) n (mod_num div 2)
       (if mod_num AND 1 \<noteq> 0 then
          let m = 2 ^ i;
              (enabled, m) = (if i = 9 then (remove1 DoubleTime enabled, m OR DoubleTime) else (enabled, m));
              (enabled, m) = (if i = 14 then (remove1 SuddenDeath enabled, m OR SuddenDeath) else (enabled, m)) in
          insort_insert m enabled
        else enabled)"

definition Mod_of_num :: "int \<Rightarrow> mods" where
  "Mod_of_num mod_num = mod_bits 0 31 mod_num []"

subsection \<open>From a text\<close>

text \<open>
  \<^verbatim>\<open>::toupper\<close> on a negative \<^verbatim>\<open>char\<close> is undefined. The loop that erases the other characters
  increments its iterator also after an erasure, so it does not look at the character that
  moves into the gap, and it runs past the end when the last character is erased.
\<close>

definition to_upper :: "char \<Rightarrow> char option" where
  "to_upper c = (if classified c then
     Some (if 97 \<le> code c \<and> code c \<le> 122 then char_of (code c - 32) else c) else None)"

fun map_upper :: "string \<Rightarrow> string option" where
  "map_upper [] = Some []"
| "map_upper (c # s) = do { d \<leftarrow> to_upper c; r \<leftarrow> map_upper s; Some (d # r) }"

text \<open>The comparison is between signed \<^verbatim>\<open>char\<close>s; the bytes from 128 on are below all letters.\<close>

definition mod_char :: "char \<Rightarrow> bool" where
  "mod_char c \<longleftrightarrow> (65 \<le> code c \<and> code c \<le> 90) \<or> (48 \<le> code c \<and> code c \<le> 57)"

fun erase_others :: "string \<Rightarrow> string option" where
  "erase_others [] = Some []"
| "erase_others (c # s) =
     (if mod_char c then map_option ((#) c) (erase_others s)
      else case s of [] \<Rightarrow> None | d # r \<Rightarrow> map_option ((#) d) (erase_others r))"

fun mod_index :: "string list \<Rightarrow> string \<Rightarrow> nat \<Rightarrow> nat option" where
  "mod_index [] amod i = None"
| "mod_index (w # ws) amod i = (if w = amod then Some i else mod_index ws amod (Suc i))"

fun mod_pairs :: "string \<Rightarrow> mods \<Rightarrow> mods" where
  "mod_pairs (a # b # s) enabled =
     mod_pairs s (case mod_index mods_str [a, b] 0 of
         None \<Rightarrow> enabled
       | Some i \<Rightarrow>
           let mod_num = 2 ^ i;
               mod_num = (if i = 9 then mod_num + DoubleTime else mod_num);
               mod_num = (if i = 14 then mod_num + SuddenDeath else mod_num) in
           insort_insert mod_num enabled)"
| "mod_pairs s enabled = enabled"

definition Mod_of_str :: "string \<Rightarrow> mods option" where
  "Mod_of_str mod_str = do {
     s \<leftarrow> map_upper mod_str;
     s \<leftarrow> erase_others s;
     let s = (if length s mod 2 = 1 then take (length s - 1) s else s);
     Some (mod_pairs s []) }"

subsection \<open>Back to a mask and to a text\<close>

definition GetModNumber :: "mods \<Rightarrow> int" where
  "GetModNumber enabled = foldl (\<lambda>ret it. ret OR it) 0 enabled"

fun mod_names :: "nat \<Rightarrow> int \<Rightarrow> string \<Rightarrow> string" where
  "mod_names 0 mod_num inpent = []"
| "mod_names (Suc i) mod_num inpent =
     (if mod_num AND 2 ^ i \<noteq> 0 then
        let mod_num = (if i = 9 then mod_num - DoubleTime else mod_num);
            mod_num = (if i = 14 then mod_num - SuddenDeath else mod_num) in
        mods_str ! i @ inpent @ mod_names i mod_num inpent
      else mod_names i mod_num inpent)"

text \<open>The text ends with a separator that \<^verbatim>\<open>substr\<close> takes off; for the empty set the subtraction
  wraps around and the whole, empty, text is returned.\<close>

definition GetModString :: "mods \<Rightarrow> string \<Rightarrow> string" where
  "GetModString enabled inpent =
     (let ret = mod_names 31 (GetModNumber enabled) inpent in
      take (nat ((int (length ret) - int (length inpent)) mod 2 ^ 64)) ret)"

definition isVaild :: "mods \<Rightarrow> bool" where
  "isVaild enabled =
     (let mod_num = GetModNumber enabled in \<not> (\<exists>it \<in> set invaild_mods. mod_num AND it = it))"

subsection \<open>The mask of a set\<close>

lemma bit_foldl_or: "bit (foldl (\<lambda>ret it. ret OR it) a ms) k \<longleftrightarrow> bit a k \<or> (\<exists>m \<in> set ms. bit m k)" for a :: int
  by (induction ms arbitrary: a) (auto simp: bit_or_iff)

lemma bit_GetModNumber: "bit (GetModNumber ms) k \<longleftrightarrow> (\<exists>m \<in> set ms. bit m k)"
  by (simp add: GetModNumber_def bit_foldl_or)

lemma GetModNumber_eqI: "(\<And>k. (\<exists>m \<in> set ms. bit m k) \<longleftrightarrow> bit n k) \<Longrightarrow> GetModNumber ms = n"
  by (rule bit_eqI) (simp add: bit_GetModNumber)

lemma and_one_bit: "x AND 1 \<noteq> 0 \<longleftrightarrow> bit x 0" for x :: int
  by (simp add: and_one_eq mod2_eq_if bit_0)

lemma and_exp_bit: "x AND 2 ^ i \<noteq> 0 \<longleftrightarrow> bit x i" for x :: int
proof -
  have "x AND 2 ^ i = (if bit x i then 2 ^ i else 0)"
    by (rule bit_eqI) (auto simp: bit_and_iff bit_exp_iff)
  then show ?thesis by simp
qed

text \<open>The bits that the enabled bit \<open>i\<close> of a mask stands for.\<close>

definition mod_value :: "nat \<Rightarrow> int" where
  "mod_value i = (if i = 9 then Nightcore else if i = 14 then Perfect else 2 ^ i)"

lemma bit_mod_value:
  "bit (mod_value i) k \<longleftrightarrow> k = i \<or> i = 9 \<and> k = 6 \<or> i = 14 \<and> k = 5"
  by (auto simp: mod_value_def Nightcore_def Perfect_def DoubleTime_def SuddenDeath_def
      bit_or_iff bit_exp_iff simp del: power_numeral)

lemma bit_DoubleTime: "bit DoubleTime k \<longleftrightarrow> k = 6" and bit_SuddenDeath: "bit SuddenDeath k \<longleftrightarrow> k = 5"
  by (auto simp: DoubleTime_def SuddenDeath_def bit_exp_iff simp del: power_numeral)

definition mod_enable :: "nat \<Rightarrow> mods \<Rightarrow> mods" where
  "mod_enable i ms = insort_insert (mod_value i)
     (if i = 9 then remove1 DoubleTime ms else if i = 14 then remove1 SuddenDeath ms else ms)"

lemma mod_bits_Suc: "mod_bits i (Suc n) num ms =
   mod_bits (Suc i) n (num div 2) (if bit num 0 then mod_enable i ms else ms)"
  by (simp add: mod_enable_def mod_value_def Nightcore_def Perfect_def and_one_bit)

lemma set_mod_enable:
  "(\<exists>m \<in> set (mod_enable i ms). bit m k) \<longleftrightarrow> bit (mod_value i) k \<or> (\<exists>m \<in> set ms. bit m k)"
proof -
  have r: "set ms \<subseteq> insert x (set (remove1 x ms))" "set (remove1 x ms) \<subseteq> set ms" for x
    by (induction ms) auto
  have s: "set (mod_enable i ms) = insert (mod_value i)
     (set (if i = 9 then remove1 DoubleTime ms else if i = 14 then remove1 SuddenDeath ms else ms))"
    by (simp add: mod_enable_def set_insort_insert)
  show ?thesis
    using r(1)[of DoubleTime] r(1)[of SuddenDeath] r(2)[of DoubleTime] r(2)[of SuddenDeath]
    by (auto simp: s bit_mod_value bit_DoubleTime bit_SuddenDeath)
qed

lemma bit_mod_bits:
  "(\<exists>m \<in> set (mod_bits i n num ms). bit m k) \<longleftrightarrow>
     (\<exists>m \<in> set ms. bit m k) \<or> (\<exists>j < n. bit num j \<and> bit (mod_value (i + j)) k)"
proof (induction n arbitrary: i num ms)
  case (Suc n)
  have "(\<exists>j < Suc n. bit num j \<and> bit (mod_value (i + j)) k) \<longleftrightarrow>
    bit num 0 \<and> bit (mod_value i) k \<or> (\<exists>j < n. bit (num div 2) j \<and> bit (mod_value (Suc i + j)) k)"
    by (auto simp: less_Suc_eq_0_disj bit_Suc)
  then show ?case
    by (simp add: mod_bits_Suc Suc set_mod_enable del: mod_bits.simps) blast
qed simp

lemma bit_Mod_of_num:
  "bit (GetModNumber (Mod_of_num n)) k \<longleftrightarrow>
     k < 31 \<and> bit n k \<or> k = 6 \<and> bit n 9 \<or> k = 5 \<and> bit n 14"
proof -
  have "bit (GetModNumber (Mod_of_num n)) k \<longleftrightarrow> (\<exists>j < 31. bit n j \<and> bit (mod_value j) k)"
    by (simp add: bit_GetModNumber Mod_of_num_def bit_mod_bits del: mod_bits.simps)
  also have "\<dots> \<longleftrightarrow> k < 31 \<and> bit n k \<or> (9::nat) < 31 \<and> k = 6 \<and> bit n 9 \<or> (14::nat) < 31 \<and> k = 5 \<and> bit n 14"
    unfolding bit_mod_value by blast
  finally show ?thesis by simp
qed

subsection \<open>Texts of mods\<close>

definition mod_text_char :: "char \<Rightarrow> bool" where
  "mod_text_char c \<longleftrightarrow> mod_char c \<and> code c < 97"

lemma mods_str_texts: "list_all (\<lambda>w. length w = 2 \<and> list_all mod_text_char w) mods_str"
  by (simp add: mods_str_def mod_text_char_def mod_char_def)

lemma mods_str_nth:
  assumes "i < 31"
  shows "\<exists>a b. mods_str ! i = [a, b] \<and> mod_text_char a \<and> mod_text_char b"
proof -
  have "i < length mods_str" using assms by (simp add: mods_str_def)
  then have "length (mods_str ! i) = 2" "list_all mod_text_char (mods_str ! i)"
    using mods_str_texts by (simp_all add: list_all_length)
  then show ?thesis by (auto simp: length_Suc_conv numeral_2_eq_2)
qed

lemma mod_index_nth: "distinct ws \<Longrightarrow> j < length ws \<Longrightarrow> mod_index ws (ws ! j) i = Some (i + j)"
proof (induction ws arbitrary: i j)
  case (Cons w ws)
  then show ?case by (cases j) auto
qed simp

lemma mods_str_index: "i < 31 \<Longrightarrow> mod_index mods_str (mods_str ! i) 0 = Some i"
proof -
  have "distinct mods_str" "length mods_str = 31" by (simp_all add: mods_str_def)
  then show "i < 31 \<Longrightarrow> ?thesis" by (simp add: mod_index_nth)
qed

lemma mod_pairs_append:
  "i < 31 \<Longrightarrow> mod_pairs (mods_str ! i @ s) ms = mod_pairs s (insort_insert (mod_value i) ms)"
  using mods_str_nth[of i] mods_str_index[of i]
  by (auto simp: mod_value_def Nightcore_def Perfect_def DoubleTime_def SuddenDeath_def)

lemma mod_names_chars: "i \<le> 31 \<Longrightarrow> list_all mod_text_char (mod_names i N []) \<and>
   even (length (mod_names i N [])) \<and> length (mod_names i N []) \<le> 2 * i"
proof (induction i arbitrary: N)
  case (Suc i)
  obtain a b where "mods_str ! i = [a, b]" "mod_text_char a" "mod_text_char b"
    using mods_str_nth[of i] Suc.prems by auto
  then show ?case using Suc.IH Suc.prems by (simp add: Let_def le_SucI)
qed simp

lemma map_upper_text: "list_all mod_text_char s \<Longrightarrow> map_upper s = Some s"
  by (induction s) (auto simp: to_upper_def mod_text_char_def classified_def)

lemma erase_others_text: "list_all mod_text_char s \<Longrightarrow> erase_others s = Some s"
  by (induction s rule: erase_others.induct) (auto simp: mod_text_char_def)

lemma bit_minus_exp: "bit N i \<Longrightarrow> bit (N - 2 ^ i) k \<longleftrightarrow> bit N k \<and> k \<noteq> i" for N :: int
  using bit_unset_bit_iff[of i N k] by (auto simp: unset_bit_eq possible_bit_def)

lemma bit_mod_pairs_names:
  assumes "i \<le> 31" "9 < i \<longrightarrow> bit N 9 \<longrightarrow> bit N 6" "14 < i \<longrightarrow> bit N 14 \<longrightarrow> bit N 5"
  shows "(\<exists>m \<in> set (mod_pairs (mod_names i N []) ms). bit m k) \<longleftrightarrow>
     (\<exists>m \<in> set ms. bit m k) \<or> k < i \<and> bit N k"
  using assms
proof (induction i arbitrary: N ms)
  case (Suc i)
  define N' where "N' = (if i = 9 then N - DoubleTime else if i = 14 then N - SuddenDeath else N)"
  show ?case
  proof (cases "bit N i")
    case False
    then have "mod_names (Suc i) N [] = mod_names i N []" by (simp add: and_exp_bit)
    with False Suc show ?thesis by (auto simp: less_Suc_eq)
  next
    case True
    then have names: "mod_names (Suc i) N [] = mods_str ! i @ mod_names i N' []"
      by (simp add: and_exp_bit N'_def)
    have bits: "bit N' j \<longleftrightarrow> bit N j \<and> \<not> (i = 9 \<and> j = 6) \<and> \<not> (i = 14 \<and> j = 5)" for j
      using True Suc.prems bit_minus_exp[of N 6 j] bit_minus_exp[of N 5 j]
      by (auto simp: N'_def DoubleTime_def SuddenDeath_def)
    have "mod_pairs (mod_names (Suc i) N []) ms =
        mod_pairs (mod_names i N' []) (insort_insert (mod_value i) ms)"
      using Suc.prems(1) by (simp only: names) (rule mod_pairs_append, simp)
    moreover have "(\<exists>m \<in> set (mod_pairs (mod_names i N' []) (insort_insert (mod_value i) ms)). bit m k) \<longleftrightarrow>
        (\<exists>m \<in> set (insort_insert (mod_value i) ms). bit m k) \<or> k < i \<and> bit N' k"
      by (rule Suc.IH) (use Suc.prems in \<open>auto simp: bits\<close>)
    ultimately have "(\<exists>m \<in> set (mod_pairs (mod_names (Suc i) N []) ms). bit m k) \<longleftrightarrow>
        (\<exists>m \<in> set (insort_insert (mod_value i) ms). bit m k) \<or> k < i \<and> bit N' k"
      by (simp only:)
    then show ?thesis
      using True Suc.prems
      by (auto simp: set_insort_insert bit_mod_value bits less_Suc_eq simp del: mod_names.simps)
  qed
qed simp

text \<open>
  C34 A set of mods survives the way through its text: for every mask, the text of
  \<^verbatim>\<open>GetModString\<close> is accepted by the constructor that parses texts, and the set it builds has
  the same mask. The mask of a set is the given one reduced to its 31 mod bits, with the bit
  of \<^verbatim>\<open>DoubleTime\<close> added to \<^verbatim>\<open>Nightcore\<close> and that of \<^verbatim>\<open>SuddenDeath\<close> to \<^verbatim>\<open>Perfect\<close>.
\<close>

theorem mods_text_round_trip:
  "(\<exists>ms. Mod_of_str (GetModString (Mod_of_num n) []) = Some ms \<and>
      GetModNumber ms = GetModNumber (Mod_of_num n)) \<and>
   (\<forall>k. bit (GetModNumber (Mod_of_num n)) k \<longleftrightarrow>
      k < 31 \<and> bit n k \<or> k = 6 \<and> bit n 9 \<or> k = 5 \<and> bit n 14)"
proof (intro conjI allI bit_Mod_of_num)
  define N where "N = GetModNumber (Mod_of_num n)"
  define s where "s = mod_names 31 N []"
  have N: "bit N 9 \<longrightarrow> bit N 6" "bit N 14 \<longrightarrow> bit N 5" "bit N k \<Longrightarrow> k < 31" for k
    by (auto simp: N_def bit_Mod_of_num)
  have ok: "list_all mod_text_char s" "even (length s)" "length s \<le> 62"
    unfolding s_def using mod_names_chars[of 31 N] by simp_all
  have printed: "GetModString (Mod_of_num n) [] = s"
    using ok(3) by (simp add: GetModString_def s_def N_def Let_def)
  have "GetModNumber (mod_pairs s []) = N"
    using N by (intro GetModNumber_eqI) (auto simp: s_def bit_mod_pairs_names simp del: mod_pairs.simps mod_names.simps)
  moreover have "Mod_of_str s = Some (mod_pairs s [])"
    using ok by (simp add: Mod_of_str_def map_upper_text erase_others_text even_iff_mod_2_eq_zero)
  ultimately show "\<exists>ms. Mod_of_str (GetModString (Mod_of_num n) []) = Some ms \<and>
      GetModNumber ms = GetModNumber (Mod_of_num n)"
    by (simp add: printed N_def)
qed

end
