(* ===== verification/Wrapper.thy ===== *)
theory Wrapper
  imports Api ModSet
begin

text \<open>
  \<^verbatim>\<open>oppai-cpp/oppai.hpp\<close>: the class \<^verbatim>\<open>oppai\<close>, through which the bot uses the calculator. An
  object is the handle and the text of the map; \<^verbatim>\<open>this->ez\<close> is never null in the model, because
  the constructor dereferences it at once. Files are those of \<open>env\<close>.
\<close>

subsection \<open>Data\<close>

definition PERFECT :: int where "PERFECT = 1"
definition NO_BREAK :: int where "NO_BREAK = 2"
definition SLIDER_BREAK :: int where "SLIDER_BREAK = 4"
definition ONE_MISS :: int where "ONE_MISS = 8"
definition END_CHOKE :: int where "END_CHOKE = 16"
definition CLEAR :: int where "CLEAR = 32"

record oppai_data =
  rd_artist :: string
  rd_artistUnicode :: string
  rd_title :: string
  rd_titleUnicode :: string
  rd_creator :: string
  rd_map_version :: string
  rd_cs :: fp
  rd_od :: fp
  rd_ar :: fp
  rd_hp :: fp
  rd_total_star :: fp
  rd_aim_star :: fp
  rd_speed_star :: fp
  rd_aim_pp :: fp
  rd_speed_pp :: fp
  rd_acc_pp :: fp
  rd_total_pp :: fp
  rd_mode :: int
  rd_mods_num :: int
  rd_mods_str :: string
  rd_accuracy :: fp
  rd_length :: int
  rd_combo :: int
  rd_maxcombo :: int
  rd_bpm :: fp
  rd_sr :: int
  rd_n300 :: int
  rd_n100 :: int
  rd_n50 :: int
  rd_nmiss :: int

text \<open>The data of a result with a negative code are uninitialised.\<close>

record oppai_result =
  res_code :: int
  res_message :: string
  res_data :: "oppai_data option"

record oppai =
  op_ez :: ezpp
  op_data :: string

subsection \<open>Construction and input\<close>

definition oppai_new :: "env \<Rightarrow> heap \<Rightarrow> oppai option" where
  "oppai_new E h = do {
     r \<leftarrow> ezpp_new h;
     ez \<leftarrow> r;
     ez \<leftarrow> ezpp_set_mode E ez 0;
     Some \<lparr>op_ez = ez, op_data = []\<rparr> }"

definition oppai_delete :: "oppai \<Rightarrow> heap option" where
  "oppai_delete w = ezpp_free (op_ez w)"

text \<open>
  The loop appends what \<^verbatim>\<open>get()\<close> returns until the end of the file has been met; the value of
  \<^verbatim>\<open>EOF\<close>, as a \<^verbatim>\<open>char\<close>, is the last one appended, and is taken off. A stream that could not be
  opened never reaches its end: the loop does not return.
\<close>

fun read_chars :: "string \<Rightarrow> string \<Rightarrow> string" where
  "read_chars [] d = d @ [CHR 255]"
| "read_chars (c # r) d = read_chars r (d @ [c])"

definition read_map_file :: "env \<Rightarrow> oppai \<Rightarrow> string \<Rightarrow> oppai option" where
  "read_map_file E w mapfile = (case e_files E mapfile of
     None \<Rightarrow> None
   | Some f \<Rightarrow> Some (w\<lparr>op_data := butlast (read_chars f [])\<rparr>))"

definition read_data :: "oppai \<Rightarrow> string \<Rightarrow> oppai" where
  "read_data w d = w\<lparr>op_data := d\<rparr>"

subsection \<open>Accessors\<close>

definition get_accuracy_percent :: "oppai \<Rightarrow> fp" where "get_accuracy_percent w = ezpp_accuracy_percent (op_ez w)"
definition get_end :: "oppai \<Rightarrow> int" where "get_end w = ez_end (op_ez w)"
definition get_n300 :: "oppai \<Rightarrow> int" where "get_n300 w = ez_n300 (op_ez w)"
definition get_n100 :: "oppai \<Rightarrow> int" where "get_n100 w = ezpp_n100 (op_ez w)"
definition get_n50 :: "oppai \<Rightarrow> int" where "get_n50 w = ezpp_n50 (op_ez w)"
definition get_nmiss :: "oppai \<Rightarrow> int" where "get_nmiss w = ezpp_nmiss (op_ez w)"
definition get_speed_stars :: "oppai \<Rightarrow> fp" where "get_speed_stars w = ezpp_speed_stars (op_ez w)"
definition get_aim_stars :: "oppai \<Rightarrow> fp" where "get_aim_stars w = ezpp_aim_stars (op_ez w)"
definition get_combo :: "oppai \<Rightarrow> int" where "get_combo w = ezpp_combo (op_ez w)"
definition get_ar :: "oppai \<Rightarrow> fp" where "get_ar w = ezpp_ar (op_ez w)"
definition get_od :: "oppai \<Rightarrow> fp" where "get_od w = ezpp_od (op_ez w)"
definition get_cs :: "oppai \<Rightarrow> fp" where "get_cs w = ezpp_cs (op_ez w)"
definition get_hp :: "oppai \<Rightarrow> fp" where "get_hp w = ezpp_hp (op_ez w)"
definition get_mode :: "oppai \<Rightarrow> int" where "get_mode w = ezpp_mode (op_ez w)"

definition with_ez :: "oppai \<Rightarrow> ezpp option \<Rightarrow> oppai option" where
  "with_ez w r = map_option (\<lambda>ez. w\<lparr>op_ez := ez\<rparr>) r"

definition set_accuracy_percent :: "env \<Rightarrow> oppai \<Rightarrow> fp \<Rightarrow> oppai option" where
  "set_accuracy_percent E w x = with_ez w (ezpp_set_accuracy_percent E (op_ez w) x)"
definition set_end :: "env \<Rightarrow> oppai \<Rightarrow> int \<Rightarrow> oppai option" where
  "set_end E w x = with_ez w (ezpp_set_end E (op_ez w) x)"
definition set_nmiss :: "env \<Rightarrow> oppai \<Rightarrow> int \<Rightarrow> oppai option" where
  "set_nmiss E w x = with_ez w (ezpp_set_nmiss E (op_ez w) x)"
definition set_speed_stars :: "env \<Rightarrow> oppai \<Rightarrow> fp \<Rightarrow> oppai option" where
  "set_speed_stars E w x = with_ez w (ezpp_set_speed_stars E (op_ez w) x)"
definition set_aim_stars :: "env \<Rightarrow> oppai \<Rightarrow> fp \<Rightarrow> oppai option" where
  "set_aim_stars E w x = with_ez w (ezpp_set_aim_stars E (op_ez w) x)"
definition set_combo :: "env \<Rightarrow> oppai \<Rightarrow> int \<Rightarrow> oppai option" where
  "set_combo E w x = with_ez w (ezpp_set_combo E (op_ez w) x)"
definition set_ar :: "env \<Rightarrow> oppai \<Rightarrow> fp \<Rightarrow> oppai option" where
  "set_ar E w x = with_ez w (ezpp_set_base_ar E (op_ez w) x)"
definition set_od :: "env \<Rightarrow> oppai \<Rightarrow> fp \<Rightarrow> oppai option" where
  "set_od E w x = with_ez w (ezpp_set_base_od E (op_ez w) x)"
definition set_cs :: "env \<Rightarrow> oppai \<Rightarrow> fp \<Rightarrow> oppai option" where
  "set_cs E w x = with_ez w (ezpp_set_base_cs E (op_ez w) x)"
definition set_hp :: "env \<Rightarrow> oppai \<Rightarrow> fp \<Rightarrow> oppai option" where
  "set_hp E w x = with_ez w (ezpp_set_base_hp E (op_ez w) x)"
definition set_mode :: "env \<Rightarrow> oppai \<Rightarrow> int \<Rightarrow> oppai option" where
  "set_mode E w x = with_ez w (ezpp_set_mode_override E (op_ez w) x)"
definition set_score_version :: "env \<Rightarrow> oppai \<Rightarrow> int \<Rightarrow> oppai option" where
  "set_score_version E w x =
     (if x < 1 \<or> x > 2 then Some w else with_ez w (ezpp_set_score_version E (op_ez w) x))"

text \<open>These three write to the handle and recalculate nothing.\<close>

definition set_n300 :: "oppai \<Rightarrow> int \<Rightarrow> oppai" where
  "set_n300 w x = w\<lparr>op_ez := (op_ez w)\<lparr>ez_n300 := x\<rparr>\<rparr>"
definition set_n100 :: "oppai \<Rightarrow> int \<Rightarrow> oppai" where
  "set_n100 w x = w\<lparr>op_ez := (op_ez w)\<lparr>ez_n100 := x\<rparr>\<rparr>"
definition set_n50 :: "oppai \<Rightarrow> int \<Rightarrow> oppai" where
  "set_n50 w x = w\<lparr>op_ez := (op_ez w)\<lparr>ez_n50 := x\<rparr>\<rparr>"

definition get_mods :: "oppai \<Rightarrow> mods" where
  "get_mods w = Mod_of_num (ezpp_mods (op_ez w))"
definition set_mods :: "env \<Rightarrow> oppai \<Rightarrow> mods \<Rightarrow> oppai option" where
  "set_mods E w ms = with_ez w (ezpp_set_mods E (op_ez w) (GetModNumber ms))"
definition set_mods_num :: "env \<Rightarrow> oppai \<Rightarrow> int \<Rightarrow> oppai option" where
  "set_mods_num E w m = with_ez w (ezpp_set_mods E (op_ez w) m)"

subsection \<open>Calculation\<close>

definition classify :: "int \<Rightarrow> int \<Rightarrow> int \<Rightarrow> int" where
  "classify combo maxcombo nmiss =
     (let pct_combo = divd (i2d combo) (i2d maxcombo) in
      if feq pct_combo (Num 1) then PERFECT
      else if flt (dlit (98 / 100)) pct_combo \<and> nmiss = 0 then NO_BREAK
      else if flt (dlit (85 / 100)) pct_combo then END_CHOKE
      else if nmiss = 0 then SLIDER_BREAK
      else if nmiss = 1 then ONE_MISS
      else CLEAR)"

text \<open>The first timing point is read without a look at their number.\<close>

definition first_bpm :: "ezpp \<Rightarrow> fp option" where
  "first_bpm ez = do {
     tp \<leftarrow> rd (arr_items (ez_timing_points ez)) 0;
     ms_per_beat \<leftarrow> t_ms_per_beat tp;
     Some (if feq ms_per_beat (Num 0) then Num (- 1) else divf (i2f 60000) ms_per_beat) }"

definition oppai_fields :: "ezpp \<Rightarrow> string \<Rightarrow> oppai_data option" where
  "oppai_fields ez inpent = do {
     artist \<leftarrow> str_of ez (ezpp_artist ez);
     artistUnicode \<leftarrow> str_of ez (ezpp_artist_unicode ez);
     title \<leftarrow> str_of ez (ezpp_title ez);
     titleUnicode \<leftarrow> str_of ez (ezpp_title_unicode ez);
     map_version \<leftarrow> str_of ez (ezpp_version ez);
     creator \<leftarrow> str_of ez (ezpp_creator ez);
     i \<leftarrow> ck (ezpp_nobjects ez - 1);
     t1 \<leftarrow> ezpp_time_at ez i;
     t0 \<leftarrow> ezpp_time_at ez 0;
     len \<leftarrow> to_cint (subf t1 t0);
     bpm \<leftarrow> first_bpm ez;
     Some \<lparr>rd_artist = artist, rd_artistUnicode = artistUnicode, rd_title = title,
       rd_titleUnicode = titleUnicode, rd_creator = creator, rd_map_version = map_version,
       rd_cs = ezpp_cs ez, rd_od = ezpp_od ez, rd_ar = ezpp_ar ez, rd_hp = ezpp_hp ez,
       rd_total_star = ezpp_stars ez, rd_aim_star = ezpp_aim_stars ez,
       rd_speed_star = ezpp_speed_stars ez, rd_aim_pp = ezpp_aim_pp ez,
       rd_speed_pp = ezpp_speed_pp ez, rd_acc_pp = ezpp_acc_pp ez, rd_total_pp = ezpp_pp ez,
       rd_mode = ezpp_mode ez, rd_mods_num = ezpp_mods ez,
       rd_mods_str = GetModString (Mod_of_num (ezpp_mods ez)) inpent,
       rd_accuracy = ezpp_accuracy_percent ez, rd_length = len,
       rd_combo = ezpp_combo ez, rd_maxcombo = ezpp_max_combo ez, rd_bpm = bpm,
       rd_sr = classify (ezpp_combo ez) (ezpp_max_combo ez) (ezpp_nmiss ez),
       rd_n300 = ezpp_n300 ez, rd_n100 = ezpp_n100 ez, rd_n50 = ezpp_n50 ez,
       rd_nmiss = ezpp_nmiss ez\<rparr> }"

definition oppai_calc :: "env \<Rightarrow> oppai \<Rightarrow> string \<Rightarrow> (oppai \<times> oppai_result) option" where
  "oppai_calc E w inpent = do {
     (ez, ret) \<leftarrow> ezpp_data E (op_ez w) (Some (op_data w @ [NUL])) (int (length (op_data w)));
     let w = w\<lparr>op_ez := ez\<rparr>;
     if ret < 0 then Some (w, \<lparr>res_code = ret, res_message = errstr ret, res_data = None\<rparr>)
     else do {
       d \<leftarrow> oppai_fields ez inpent;
       Some (w, \<lparr>res_code = ret, res_message = [], res_data = Some d\<rparr>) } }"

lemma read_chars_eq: "read_chars f d = d @ f @ [CHR 255]"
  by (induction f arbitrary: d) auto

lemma read_map_file_data: "e_files E m = Some f \<Longrightarrow> read_map_file E w m = Some (w\<lparr>op_data := f\<rparr>)"
  by (simp add: read_map_file_def read_chars_eq butlast_append)

end
