(* ===== verification/WrapperProps.thy ===== *)
theory WrapperProps
  imports Wrapper ApiProps
begin

text \<open>
  Properties of the wrapper: a second calculation does not look at a new map, and when a play
  counts as perfect. The first part shows that a calculation that does not parse commutes with an
  exchange of the data.
\<close>

definition reload :: "buf option \<Rightarrow> int \<Rightarrow> ezpp \<Rightarrow> ezpp" where
  "reload d n ez = ez\<lparr>ez_data := d, ez_data_size := n\<rparr>"

lemma reload_sel [simp]:
  "ez_map (reload d n ez) = ez_map ez" "ez_flags (reload d n ez) = ez_flags ez"
  "ez_mode (reload d n ez) = ez_mode ez" "ez_mods (reload d n ez) = ez_mods ez"
  "ez_combo (reload d n ez) = ez_combo ez" "ez_max_combo (reload d n ez) = ez_max_combo ez"
  "ez_accuracy_percent (reload d n ez) = ez_accuracy_percent ez" "ez_n300 (reload d n ez) = ez_n300 ez"
  "ez_n100 (reload d n ez) = ez_n100 ez" "ez_n50 (reload d n ez) = ez_n50 ez" "ez_nmiss (reload d n ez) = ez_nmiss ez"
  "ez_nobjects (reload d n ez) = ez_nobjects ez" "ez_score_version (reload d n ez) = ez_score_version ez"
  "ez_ncircles (reload d n ez) = ez_ncircles ez" "ez_nsliders (reload d n ez) = ez_nsliders ez"
  "ez_nspinners (reload d n ez) = ez_nspinners ez" "ez_aim_stars (reload d n ez) = ez_aim_stars ez"
  "ez_speed_stars (reload d n ez) = ez_speed_stars ez" "ez_stars (reload d n ez) = ez_stars ez"
  "ez_ar (reload d n ez) = ez_ar ez" "ez_od (reload d n ez) = ez_od ez" "ez_cs (reload d n ez) = ez_cs ez"
  "ez_hp (reload d n ez) = ez_hp ez" "ez_odms (reload d n ez) = ez_odms ez"
  "ez_base_ar (reload d n ez) = ez_base_ar ez" "ez_base_od (reload d n ez) = ez_base_od ez"
  "ez_base_cs (reload d n ez) = ez_base_cs ez" "ez_base_hp (reload d n ez) = ez_base_hp ez"
  by (simp_all add: reload_def)

lemma reload_upd:
  "(reload d n ez)\<lparr>ez_n300 := a\<rparr> = reload d n (ez\<lparr>ez_n300 := a\<rparr>)"
  "(reload d n ez)\<lparr>ez_n100 := a\<rparr> = reload d n (ez\<lparr>ez_n100 := a\<rparr>)"
  "(reload d n ez)\<lparr>ez_n50 := a\<rparr> = reload d n (ez\<lparr>ez_n50 := a\<rparr>)"
  "(reload d n ez)\<lparr>ez_combo := a\<rparr> = reload d n (ez\<lparr>ez_combo := a\<rparr>)"
  "(reload d n ez)\<lparr>ez_stars := x\<rparr> = reload d n (ez\<lparr>ez_stars := x\<rparr>)"
  "(reload d n ez)\<lparr>ez_max_combo := a\<rparr> = reload d n (ez\<lparr>ez_max_combo := a\<rparr>)"
  "(reload d n ez)\<lparr>ez_nspinners := a\<rparr> = reload d n (ez\<lparr>ez_nspinners := a\<rparr>)"
  "(reload d n ez)\<lparr>ez_ar := x\<rparr> = reload d n (ez\<lparr>ez_ar := x\<rparr>)"
  "(reload d n ez)\<lparr>ez_od := x\<rparr> = reload d n (ez\<lparr>ez_od := x\<rparr>)"
  "(reload d n ez)\<lparr>ez_cs := x\<rparr> = reload d n (ez\<lparr>ez_cs := x\<rparr>)"
  "(reload d n ez)\<lparr>ez_hp := x\<rparr> = reload d n (ez\<lparr>ez_hp := x\<rparr>)"
  "(reload d n ez)\<lparr>ez_odms := x\<rparr> = reload d n (ez\<lparr>ez_odms := x\<rparr>)"
  "(reload d n ez)\<lparr>ez_speed_mul := x\<rparr> = reload d n (ez\<lparr>ez_speed_mul := x\<rparr>)"
  "(reload d n ez)\<lparr>ez_aim_pp := x\<rparr> = reload d n (ez\<lparr>ez_aim_pp := x\<rparr>)"
  "(reload d n ez)\<lparr>ez_speed_pp := x\<rparr> = reload d n (ez\<lparr>ez_speed_pp := x\<rparr>)"
  "(reload d n ez)\<lparr>ez_acc_pp := x\<rparr> = reload d n (ez\<lparr>ez_acc_pp := x\<rparr>)"
  "(reload d n ez)\<lparr>ez_pp := x\<rparr> = reload d n (ez\<lparr>ez_pp := x\<rparr>)"
  "(reload d n ez)\<lparr>ez_accuracy_percent := x\<rparr> = reload d n (ez\<lparr>ez_accuracy_percent := x\<rparr>)"
  by (simp_all add: reload_def)

abbreviation lifted :: "(ezpp \<Rightarrow> ezpp) \<Rightarrow> (ezpp \<times> int) option \<Rightarrow> (ezpp \<times> int) option" where
  "lifted f \<equiv> map_option (\<lambda>(ez, r). (f ez, r))"

lemma override_stats_reload: "override_stats (reload d n ez) = reload d n (override_stats ez)"
  by (simp add: override_stats_def Let_def reload_upd)

lemma mods_apply_reload: "fst (mods_apply (reload d n ez)) = reload d n (fst (mods_apply ez))"
  by (simp add: mods_apply_def Let_def reload_upd)

lemma std_fill_reload: "std_fill M (reload d n ez) m c a r k = reload d n (std_fill M ez m c a r k)"
  by (simp add: std_fill_def std_aim_pp_def std_speed_pp_def std_acc_pp_def Let_def reload_upd)

lemma std_real_acc_reload: "std_real_acc (reload d n ez) a = std_real_acc ez a"
  by (simp add: std_real_acc_def)

lemma lifted_bind: "lifted f (Option.bind m g) = Option.bind m (\<lambda>x. lifted f (g x))"
  by (cases m) simp_all

lemma lifted_if: "lifted f (if b then x else y) = (if b then lifted f x else lifted f y)"
  by simp

lemma lifted_Some: "lifted f (Some (ez, r)) = Some (f ez, r)"
  by simp

lemma lifted_prod: "lifted f (case p of (x, y) \<Rightarrow> g x y) = (case p of (x, y) \<Rightarrow> lifted f (g x y))"
  by (simp add: split_beta)

lemmas lifted_rules = lifted_bind lifted_if lifted_Some lifted_prod

lemma pp_std_reload: "pp_std M (reload d n ez) = lifted (reload d n) (pp_std M ez)"
  unfolding pp_std_def Let_def
  by (simp only: reload_sel reload_upd std_fill_reload std_real_acc_reload lifted_rules)

lemma taiko_combo_factor_reload: "taiko_combo_factor M (reload d n ez) = taiko_combo_factor M ez"
  by (simp add: taiko_combo_factor_def)

lemma taiko_fill_reload: "taiko_fill M (reload d n ez) a c = reload d n (taiko_fill M ez a c)"
  by (simp add: taiko_fill_def Let_def reload_upd)

lemma pp_taiko_reload: "pp_taiko M (reload d n ez) = lifted (reload d n) (pp_taiko M ez)"
  unfolding pp_taiko_def Let_def
  by (simp only: reload_sel reload_upd taiko_fill_reload taiko_combo_factor_reload lifted_rules)

text \<open>The two halves of \<open>calc_counts\<close>.\<close>

definition counts_round :: "ezpp \<Rightarrow> ezpp option" where
  "counts_round ez =
     (if fle (Num 0) (ez_accuracy_percent ez) then
        if ez_mode ez = MODE_STD then do {
          (n300, n100, n50) \<leftarrow> acc_round (ez_accuracy_percent ez) (ez_nobjects ez) (ez_nmiss ez);
          Some (ez\<lparr>ez_n300 := n300, ez_n100 := n100, ez_n50 := n50\<rparr>) }
        else if ez_mode ez = MODE_TAIKO then do {
          (n300, n100) \<leftarrow> taiko_acc_round (ez_accuracy_percent ez) (ez_max_combo ez) (ez_nmiss ez);
          Some (ez\<lparr>ez_n300 := n300, ez_n100 := n100\<rparr>) }
        else Some ez
      else Some ez)"

definition counts_rest :: "ezpp \<Rightarrow> ezpp option" where
  "counts_rest ez = do {
     k \<leftarrow> ck (ez_nobjects ez - ez_n100 ez);
     k \<leftarrow> ck (k - ez_n50 ez);
     k \<leftarrow> ck (k - ez_nmiss ez);
     Some (ez\<lparr>ez_n300 := k\<rparr>) }"

lemma calc_counts_split: "calc_counts ez = do {
    ez \<leftarrow> counts_round ez;
    ez \<leftarrow> (if ez_combo ez < 0 then do {
        c \<leftarrow> ck (ez_max_combo ez - ez_nmiss ez);
        Some (ez\<lparr>ez_combo := c\<rparr>) } else Some ez);
    counts_rest ez }"
  by (simp only: calc_counts_def counts_round_def counts_rest_def)

lemma map_bind: "map_option f (Option.bind m g) = Option.bind m (\<lambda>x. map_option f (g x))"
  by (cases m) simp_all

lemma counts_round_reload: "counts_round (reload d n ez) = map_option (reload d n) (counts_round ez)"
  unfolding counts_round_def
  by (simp only: reload_sel reload_upd map_bind option.map if_distrib[of "map_option (reload d n)"]
      prod.case_distrib[of "map_option (reload d n)"])

lemma counts_rest_reload: "counts_rest (reload d n ez) = map_option (reload d n) (counts_rest ez)"
  unfolding counts_rest_def
  by (simp only: reload_sel reload_upd map_bind option.map)

lemma calc_counts_reload: "calc_counts (reload d n ez) = map_option (reload d n) (calc_counts ez)"
proof (cases "counts_round ez")
  case (Some e)
  show ?thesis
  proof (cases "ez_combo e < 0")
    case True
    then show ?thesis
      by (simp add: calc_counts_split counts_round_reload Some reload_upd counts_rest_reload map_bind)
  qed (simp add: calc_counts_split counts_round_reload Some counts_rest_reload)
qed (simp add: calc_counts_split counts_round_reload)

lemma calc_pp_reload: "calc_pp E (reload d n ez) = lifted (reload d n) (calc_pp E ez)"
proof (cases "ez_mode ez = MODE_TAIKO")
  case True
  then show ?thesis
    by (cases "calc_counts (ez\<lparr>ez_stars := ez_speed_stars ez\<rparr>)")
      (simp_all add: calc_pp_def reload_upd calc_counts_reload pp_std_reload pp_taiko_reload del: MODE_TAIKO_def MODE_STD_def)
next
  case False
  then show ?thesis
    by (cases "calc_counts ez")
      (simp_all add: calc_pp_def reload_upd calc_counts_reload pp_std_reload pp_taiko_reload del: MODE_TAIKO_def MODE_STD_def)
qed

lemma calc_reload:
  assumes "ez_max_combo ez \<noteq> 0"
  shows "calc E (reload d n ez) = lifted (reload d n) (calc E ez)"
  using assms
  by (simp add: calc_def override_stats_reload mods_apply_reload calc_pp_reload)


lemma free_reload:
  assumes "ez_flags ez = 0"
  shows "(free_owned_map ez)\<lparr>ez_data := d, ez_data_size := n\<rparr> = reload d n (ez\<lparr>ez_map := None\<rparr>)"
  using assms by (simp add: free_owned_map_def has_def AUTOCALC_BIT_def OWNS_MAP_BIT_def reload_def)

lemma str_of_reload: "str_of (reload d n ez) p = str_of ez p"
  by (simp add: str_of_def reload_def split: strp.split)

lemma first_bpm_reload: "first_bpm (reload d n ez) = first_bpm ez"
  by (simp add: first_bpm_def reload_def)

lemma time_at_reload: "ezpp_time_at (reload d n ez) i = ezpp_time_at ez i"
  by (simp add: ezpp_time_at_def reload_def)

lemmas getter_defs = ezpp_artist_def ezpp_artist_unicode_def ezpp_title_def ezpp_title_unicode_def
  ezpp_version_def ezpp_creator_def ezpp_nobjects_def ezpp_cs_def ezpp_od_def ezpp_ar_def ezpp_hp_def
  ezpp_stars_def ezpp_aim_stars_def ezpp_speed_stars_def ezpp_aim_pp_def ezpp_speed_pp_def
  ezpp_acc_pp_def ezpp_pp_def ezpp_mode_def ezpp_mods_def ezpp_accuracy_percent_def ezpp_combo_def
  ezpp_max_combo_def ezpp_nmiss_def ezpp_n300_def ezpp_n100_def ezpp_n50_def

lemma fields_reload: "oppai_fields (reload d n ez) inpent = oppai_fields ez inpent"
proof -
  have "ez_artist (reload d n ez) = ez_artist ez" "ez_artist_unicode (reload d n ez) = ez_artist_unicode ez"
    "ez_title (reload d n ez) = ez_title ez" "ez_title_unicode (reload d n ez) = ez_title_unicode ez"
    "ez_version (reload d n ez) = ez_version ez" "ez_creator (reload d n ez) = ez_creator ez"
    "ez_aim_pp (reload d n ez) = ez_aim_pp ez" "ez_speed_pp (reload d n ez) = ez_speed_pp ez"
    "ez_acc_pp (reload d n ez) = ez_acc_pp ez" "ez_pp (reload d n ez) = ez_pp ez"
    by (simp_all add: reload_def)
  then show ?thesis
    by (simp only: oppai_fields_def str_of_reload first_bpm_reload time_at_reload getter_defs reload_sel)
qed

text \<open>
  The calculator of a wrapper object is for one map. After a successful parse has left a
  maximal combo, a calculation without automatic recalculation does not read the text of the
  map: with any other text, that of another beatmap included, \<^verbatim>\<open>calc\<close> gives the same result
  (or is undefined for both).
\<close>

theorem second_map_ignored:
  assumes "ez_max_combo (op_ez w) \<noteq> 0" "ez_flags (op_ez w) = 0"
  shows "map_option snd (oppai_calc E (read_data w text1) inpent) =
         map_option snd (oppai_calc E (read_data w text2) inpent)"
proof -
  let ?ez = "(op_ez w)\<lparr>ez_map := None\<rparr>"
  have "ezpp_data E (op_ez w) d n = lifted (reload d n) (calc E ?ez)" for d n
    using assms by (simp add: ezpp_data_def free_reload calc_reload)
  then show ?thesis
    by (cases "calc E ?ez")
      (auto simp: oppai_calc_def read_data_def Let_def fields_reload split: Option.bind_split)
qed


lemma second_map_ignored_witness:
  "map_option snd (oppai_calc (no_files flat_libm)
     (read_data \<lparr>op_ez = blank_handle\<lparr>ez_max_combo := 5\<rparr>, op_data = []\<rparr> ''osu file format v14'') []) =
   map_option snd (oppai_calc (no_files flat_libm)
     (read_data \<lparr>op_ez = blank_handle\<lparr>ez_max_combo := 5\<rparr>, op_data = []\<rparr> ''not a map'') [])"
  by (rule second_map_ignored) (simp_all add: blank_settings)

text \<open>The quotient of two combos that differ is far from 1 on the scale of a \<^verbatim>\<open>double\<close>.\<close>

lemma repn_near_one: "repn Double (1 - 1 / 2 ^ 31)" "repn Double (1 + 1 / 2 ^ 31)" "repn Double 0"
    "repn Double (2 ^ 31)"
  by (simp_all add: fp_eval)

lemma quotient_of_combos:
  assumes "0 \<le> a" "a < 2 ^ 31" "0 < b" "b < 2 ^ 31"
  shows "finite_fp (divd (i2d a) (i2d b))" "fval (divd (i2d a) (i2d b)) = 1 \<longleftrightarrow> a = b"
proof -
  have A: "finite_fp (i2d a)" "fval (i2d a) = of_int a" and B: "finite_fp (i2d b)" "fval (i2d b) = of_int b"
    using assms by (simp_all add: of_cint_exact_Double in_int_iff)
  let ?q = "divd (i2d a) (i2d b)"
  have eq: "?q = fround Double (fsign (i2d a) \<noteq> fsign (i2d b)) (of_int a / of_int b)"
    using A B assms by (simp add: fdiv_finite)
  have range: "0 \<le> (of_int a :: rat)" "of_int a \<le> (2 ^ 31 :: rat)" "(1 :: rat) \<le> of_int b"
    "(of_int b :: rat) \<le> 2 ^ 31"
    using assms by simp_all
  have near: "(of_int a / of_int b :: rat) \<le> 1 - 1 / 2 ^ 31" if "a < b"
  proof -
    have "of_int a \<le> (of_int (b - 1) :: rat)" using that by (simp only: of_int_le_iff)
    then have "(of_int a / of_int b :: rat) \<le> 1 - 1 / of_int b"
      using range by (simp add: field_simps)
    also have "\<dots> \<le> 1 - 1 / 2 ^ 31" using range by (simp add: frac_le)
    finally show ?thesis .
  qed
  have far: "1 + 1 / 2 ^ 31 \<le> (of_int a / of_int b :: rat)" if "b < a"
  proof -
    have "of_int (b + 1) \<le> (of_int a :: rat)" using that by (simp only: of_int_le_iff)
    then have "of_int (b + 1) / of_int b \<le> (of_int a / of_int b :: rat)"
      by (rule divide_right_mono) (use range in simp)
    then have "1 + 1 / of_int b \<le> (of_int a / of_int b :: rat)"
      using range by (simp add: add_divide_distrib)
    moreover have "(1 / 2 ^ 31 :: rat) \<le> 1 / of_int b" using range by (simp add: frac_le)
    ultimately show ?thesis by linarith
  qed
  have top: "(of_int a / of_int b :: rat) \<le> 2 ^ 31" "0 \<le> (of_int a / of_int b :: rat)"
    using range by (simp_all add: divide_le_eq)
  show "finite_fp ?q"
    unfolding eq by (rule btwD[OF btw_fround[OF top(2,1) repn_near_one(3,4)]])
  show "fval ?q = 1 \<longleftrightarrow> a = b"
  proof (cases a b rule: linorder_cases)
    case less
    have "fval ?q \<le> 1 - 1 / 2 ^ 31"
      unfolding eq by (rule btwD(3)[OF btw_fround[OF top(2) near[OF less] repn_near_one(3,1)]])
    with less show ?thesis by auto
  next
    case greater
    have "1 + 1 / 2 ^ 31 \<le> fval ?q"
      unfolding eq by (rule btwD(2)[OF btw_fround[OF far[OF greater] top(1) repn_near_one(2,4)]])
    with greater show ?thesis by auto
  next
    case equal
    then have "(of_int a / of_int b :: rat) = 1" using range by simp
    with equal show ?thesis unfolding eq by (simp add: fp_eval)
  qed
qed

text \<open>
  The classification of a play is not blurred by the division in \<^verbatim>\<open>double\<close>: for combos in
  the range of an \<^verbatim>\<open>int\<close>, a play is \<^verbatim>\<open>PERFECT\<close> exactly when its combo is the maximal one,
  whatever its misses; and a play without a miss is
  never \<^verbatim>\<open>ONE_MISS\<close> or \<^verbatim>\<open>CLEAR\<close>.
\<close>

theorem classify_perfect:
  assumes "0 \<le> combo" "combo < 2 ^ 31" "0 < maxcombo" "maxcombo < 2 ^ 31"
  shows "(classify combo maxcombo nmiss = PERFECT \<longleftrightarrow> combo = maxcombo) \<and>
    (classify combo maxcombo nmiss \<in> {ONE_MISS, CLEAR} \<longrightarrow> nmiss \<noteq> 0)"
  using quotient_of_combos[OF assms]
  by (auto simp: classify_def Let_def PERFECT_def NO_BREAK_def END_CHOKE_def SLIDER_BREAK_def
      ONE_MISS_def CLEAR_def)

theorem classify_perfect_witness:
  "classify 1000 1001 0 \<noteq> PERFECT \<and> classify 1000 1001 0 \<notin> {ONE_MISS, CLEAR} \<and> classify 1001 1001 2 = PERFECT"
  using classify_perfect[of 1000 1001 0] classify_perfect[of 1001 1001 2] by simp

end
