(* ===== verification/Database.thy ===== *)
theory Database
  imports Json
begin

text \<open>
  The class \<^verbatim>\<open>Database\<close> of \<^verbatim>\<open>src/include/mysql.hpp\<close>: the operations that send a statement to
  the server. The server is an argument: what it answers to a statement may depend on all the
  statements it has received. The state of a connection is that list, the last one first.
\<close>

text \<open>The answer of the server: an error, no result set, or the rows of one, each the names of
  its columns with their values, of which one may be the SQL null.\<close>

datatype answer = Failed | NoResult | Rows "(string \<times> string option) list list"

record server =
  sv_connect :: "string list \<Rightarrow> bool"
  sv_query :: "string list \<Rightarrow> string \<Rightarrow> answer"

type_synonym 'a statement = "string list \<Rightarrow> string list \<times> 'a thrown"

definition Connect :: "server \<Rightarrow> unit statement" where
  "Connect S l = (l, if sv_connect S l then Inr () else Inl DatabaseError)"

definition Execute :: "server \<Rightarrow> string \<Rightarrow> unit statement" where
  "Execute S sql l = (sql # l, if sv_query S l sql = Failed then Inl DatabaseError else Inr ())"

text \<open>
  The test of the kind of a statement: its first six characters, without the blanks around the
  statement, in lower case. (\<^verbatim>\<open>tolower\<close> is only applied to these, which are ASCII in every call.)
\<close>

definition lower_char :: "char \<Rightarrow> char" where
  "lower_char c = (if 65 \<le> code c \<and> code c \<le> 90 then char_of (code c + 32) else c)"

definition kind_of :: "string \<Rightarrow> string" where
  "kind_of sql =
     (let query = dropWhile (\<lambda>c. c = CHR '' '') sql;
          query = rev (dropWhile (\<lambda>c. c = CHR '' '') (rev query)) in
      map lower_char (take 6 query))"

definition checked :: "server \<Rightarrow> string \<Rightarrow> string \<Rightarrow> unit statement" where
  "checked S kind sql l = (if kind_of sql \<noteq> kind then (l, Inl DatabaseError) else Execute S sql l)"

definition Update :: "server \<Rightarrow> string \<Rightarrow> unit statement" where
  "Update S sql = checked S ''update'' sql"

definition Insert :: "server \<Rightarrow> string \<Rightarrow> unit statement" where
  "Insert S sql = checked S ''insert'' sql"

definition Delete :: "server \<Rightarrow> string \<Rightarrow> unit statement" where
  "Delete S sql = checked S ''delete'' sql"

text \<open>
  The rows as JSON objects whose members are texts. A null column is a null \<^verbatim>\<open>char*\<close>, from which
  no \<^verbatim>\<open>std::string\<close> may be made. A result without rows throws.
\<close>

fun row_json :: "(string \<times> string option) list \<Rightarrow> (string \<times> json) list thrown" where
  "row_json [] = Inr []"
| "row_json ((f, None) # cs) = Inl Undefined"
| "row_json ((f, Some v) # cs) = andThen (row_json cs) (\<lambda>r. Inr ((f, JString v) # r))"

fun rows_json :: "(string \<times> string option) list list \<Rightarrow> json list thrown" where
  "rows_json [] = Inr []"
| "rows_json (r # rs) = andThen (row_json r) (\<lambda>j. andThen (rows_json rs) (\<lambda>js. Inr (JObject j # js)))"

definition Select :: "server \<Rightarrow> string \<Rightarrow> json list statement" where
  "Select S sql l =
     (if kind_of sql \<noteq> ''select'' then (l, Inl DatabaseError)
      else (sql # l, case sv_query S l sql of
          Rows rs \<Rightarrow> andThen (rows_json rs) (\<lambda>js. if js = [] then Inl DatabaseError else Inr js)
        | NoResult \<Rightarrow> Inl DatabaseError
        | Failed \<Rightarrow> Inl DatabaseError))"

subsection \<open>What the bot counts and looks up\<close>

fun bindS :: "'a statement \<Rightarrow> ('a \<Rightarrow> 'b statement) \<Rightarrow> 'b statement" where
  "bindS m f l = (case m l of (l, Inl e) \<Rightarrow> (l, Inl e) | (l, Inr x) \<Rightarrow> f x l)"

text \<open>\<^verbatim>\<open>catch (osucat::database_exception)\<close> with a default: the exceptions of the conversions and
  of the JSON library pass.\<close>

definition catch_db :: "'a statement \<Rightarrow> 'a \<Rightarrow> 'a statement" where
  "catch_db m d l = (case m l of (l, Inl DatabaseError) \<Rightarrow> (l, Inr d) | r \<Rightarrow> r)"

definition pureS :: "'a thrown \<Rightarrow> 'a statement" where
  "pureS v l = (l, v)"

definition first_number :: "(string \<Rightarrow> int thrown) \<Rightarrow> string \<Rightarrow> json list \<Rightarrow> int thrown" where
  "first_number conv k js = andThen (element0 (JArray js)) (\<lambda>r. number_at conv r k)"

definition addcallcount :: "server \<Rightarrow> unit statement" where
  "addcallcount S = catch_db
     (bindS (Select S ''select count from total_call_count'') (\<lambda>js.
      bindS (pureS (first_number stoi ''count'' js)) (\<lambda>n.
      bindS (pureS (if in_int (n + 1) then Inr (n + 1) else Inl Undefined)) (\<lambda>n.
      Update S (''update total_call_count set count='' @ print_int n))))) ()"

definition UserSet :: "server \<Rightarrow> int \<Rightarrow> int \<Rightarrow> unit statement" where
  "UserSet S user_id qq = catch_db
     (Insert S (''insert into osu_user_list (uid, qq) values ('' @ print_int user_id @ '', '' @
        print_int qq @ '')'')) ()"

definition osu_getqq :: "server \<Rightarrow> int \<Rightarrow> int statement" where
  "osu_getqq S uid = catch_db
     (bindS (Select S (''select qq from osu_user_list where uid='' @ print_int uid)) (\<lambda>js.
      pureS (first_number stoll ''qq'' js))) 0"

definition osu_getuserid :: "server \<Rightarrow> int \<Rightarrow> int statement" where
  "osu_getuserid S qq = catch_db
     (bindS (Select S (''select uid from osu_user_list where qq='' @ print_int qq)) (\<lambda>js.
      pureS (first_number stoll ''uid'' js))) 0"

definition osu_getunsetstatus :: "server \<Rightarrow> int \<Rightarrow> int statement" where
  "osu_getunsetstatus S uid = catch_db
     (bindS (Select S (''select unset from osu_user_list where uid='' @ print_int uid)) (\<lambda>js.
      pureS (first_number stol ''unset'' js))) 0"

definition osu_changeunsetstatus :: "server \<Rightarrow> int \<Rightarrow> bool \<Rightarrow> unit statement" where
  "osu_changeunsetstatus S uid status =
     Update S (''update osu_user_list set unset='' @ print_int (if status then 1 else 0) @
       '' where uid='' @ print_int uid)"

definition osu_deleteuser :: "server \<Rightarrow> int \<Rightarrow> unit statement" where
  "osu_deleteuser S uid =
     bindS (Delete S (''DELETE from osu_user_records where uid = '' @ print_int uid)) (\<lambda>_.
     Delete S (''DELETE from osu_user_list where uid = '' @ print_int uid))"

end
