(* ===== verification/BotText.thy ===== *)
theory BotText
  imports Numbers
begin

text \<open>
  The texts of \<^verbatim>\<open>src/include/mysql.hpp\<close>, \<^verbatim>\<open>src/addons.hpp\<close>, \<^verbatim>\<open>src/message.h\<close>, \<^verbatim>\<open>src/image.hpp\<close> and
  \<^verbatim>\<open>src/osucat.hpp\<close> that are not ASCII, as the bytes of their UTF-8 encoding.
\<close>

definition T_deleted :: string where
  "T_deleted = utf8 [230, 173, 164, 230, 182, 136, 230, 129, 175, 229, 183, 178, 232, 162,
    171, 231, 174, 161, 231, 144, 134, 229, 145, 152, 229, 136, 160, 233, 153, 164]"

definition T_badge_not_found :: string where
  "T_badge_not_found = utf8 [230, 156, 170, 230, 137, 190, 229, 136, 176, 230, 173, 164, 229,
    139, 139, 231, 171, 160]"

definition T_stat_left :: string where
  "T_stat_left = utf8 [229, 189, 147, 229, 137, 141, 229, 137, 169, 228, 189, 153, 231, 147,
    182, 230, 149, 176, 32, 61, 32]"

definition T_stat_total :: string where
  "T_stat_total = utf8 [10, 230, 128, 187, 230, 137, 148, 47, 230, 141, 161, 230, 149, 176,
    32, 61, 32]"

definition T_stat_rate :: string where
  "T_stat_rate = utf8 [10, 230, 137, 148, 230, 141, 161, 231, 142, 135, 32, 61, 32]"

definition T_stat_pool :: string where
  "T_stat_pool = utf8 [10, 230, 156, 159, 230, 156, 155, 230, 177, 160, 229, 173, 144, 229,
    164, 167, 229, 176, 143, 32, 61, 32]"

definition T_stat_removal :: string where
  "T_stat_removal = utf8 [10, 229, 189, 147, 229, 137, 141, 231, 167, 187, 233, 153, 164, 230,
    166, 130, 231, 142, 135, 32, 61, 32]"

definition T_stat_days :: string where
  "T_stat_days = utf8 [10, 232, 191, 145, 51, 229, 164, 169, 230, 137, 148, 230, 141, 161, 32,
    61, 32]"

definition T_calls_since_date :: string where
  "T_calls_since_date = utf8 [231, 140, 171, 231, 140, 171, 228, 187, 142, 48, 46, 52, 231,
    137, 136, 230, 156, 172, 40, 50, 48, 50, 48, 47, 48, 52, 47, 50, 48, 41, 229, 188, 128,
    229, 167, 139, 239, 188, 140, 228, 184, 187, 232, 166, 129, 229, 138, 159, 232, 131, 189,
    232, 135, 179, 228, 187, 138, 228, 184, 128, 229, 133, 177, 232, 162, 171, 232, 176, 131,
    231, 148, 168, 228, 186, 134, 32]"

definition T_times :: string where
  "T_times = utf8 [32, 230, 172, 161, 227, 128, 130]"

definition T_calls_since :: string where
  "T_calls_since = utf8 [231, 140, 171, 231, 140, 171, 228, 187, 142, 48, 46, 52, 231, 137,
    136, 230, 156, 172, 229, 188, 128, 229, 167, 139, 239, 188, 140, 228, 184, 187, 232, 166,
    129, 229, 138, 159, 232, 131, 189, 232, 135, 179, 228, 187, 138, 228, 184, 128, 229, 133,
    177, 232, 162, 171, 232, 176, 131, 231, 148, 168, 228, 186, 134, 32]"

definition T_help_bind :: string where
  "T_help_bind = utf8 [91, 67, 81, 58, 105, 109, 97, 103, 101, 44, 102, 105, 108, 101, 61,
    111, 115, 117, 99, 97, 116, 92, 104, 101, 108, 112, 92, 231, 187, 145, 229, 174, 154, 46,
    112, 110, 103, 93]"

definition T_help_info :: string where
  "T_help_info = utf8 [91, 67, 81, 58, 105, 109, 97, 103, 101, 44, 102, 105, 108, 101, 61,
    111, 115, 117, 99, 97, 116, 92, 104, 101, 108, 112, 92, 228, 184, 170, 228, 186, 186, 228,
    191, 161, 230, 129, 175, 46, 112, 110, 103, 93]"

definition T_help_score :: string where
  "T_help_score = utf8 [91, 67, 81, 58, 105, 109, 97, 103, 101, 44, 102, 105, 108, 101, 61,
    111, 115, 117, 99, 97, 116, 92, 104, 101, 108, 112, 92, 230, 136, 144, 231, 187, 169, 46,
    112, 110, 103, 93]"

definition T_help_custom :: string where
  "T_help_custom = utf8 [91, 67, 81, 58, 105, 109, 97, 103, 101, 44, 102, 105, 108, 101, 61,
    111, 115, 117, 99, 97, 116, 92, 104, 101, 108, 112, 92, 232, 135, 170, 229, 174, 154, 228,
    185, 137, 46, 112, 110, 103, 93]"

definition T_help_other :: string where
  "T_help_other = utf8 [91, 67, 81, 58, 105, 109, 97, 103, 101, 44, 102, 105, 108, 101, 61,
    111, 115, 117, 99, 97, 116, 92, 104, 101, 108, 112, 92, 229, 133, 182, 228, 187, 150, 46,
    112, 110, 103, 93]"

definition T_help :: string where
  "T_help = utf8 [91, 67, 81, 58, 105, 109, 97, 103, 101, 44, 102, 105, 108, 101, 61, 111,
    115, 117, 99, 97, 116, 92, 104, 101, 108, 112, 92, 229, 184, 174, 229, 138, 169, 46, 112,
    110, 103, 93]"

definition T_passed_on :: string where
  "T_passed_on = utf8 [93, 32, 228, 189, 160, 230, 131, 179, 228, 188, 160, 232, 190, 190,
    231, 154, 132, 232, 175, 157, 229, 183, 178, 230, 136, 144, 229, 138, 159, 228, 188, 160,
    232, 190, 190, 231, 187, 153, 233, 186, 187, 233, 186, 187, 228, 186, 134, 229, 147, 166,
    227, 128, 130]"

definition T_from_user :: string where
  "T_from_user = utf8 [230, 148, 182, 229, 136, 176, 230, 157, 165, 232, 135, 170, 231, 148,
    168, 230, 136, 183, 32]"

definition T_message_of :: string where
  "T_message_of = utf8 [32, 231, 154, 132, 230, 182, 136, 230, 129, 175, 239, 188, 154]"

definition T_meow :: string where
  "T_meow = utf8 [229, 150, 181]"

definition T_too_long :: string where
  "T_too_long = utf8 [229, 164, 170, 233, 149, 191, 228, 186, 134, 239, 188, 129]"

definition T_banned_account :: string where
  "T_banned_account = utf8 [228, 189, 160, 231, 154, 132, 232, 180, 166, 230, 136, 183, 229,
    183, 178, 231, 187, 143, 232, 162, 171, 98, 97, 110, 99, 104, 111, 32, 98, 97, 110, 230,
    142, 137, 228, 186, 134, 239, 188, 140, 232, 175, 183, 229, 133, 136, 232, 167, 163, 231,
    187, 145, 229, 134, 141, 231, 187, 145, 229, 174, 154, 228, 189, 160, 232, 166, 129, 231,
    154, 132, 232, 180, 166, 230, 136, 183, 227, 128, 130]"

definition T_no_such_user :: string where
  "T_no_such_user = utf8 [230, 178, 161, 232, 191, 153, 228, 184, 170, 228, 186, 186, 239,
    188, 129]"

definition T_not_bound :: string where
  "T_not_bound = utf8 [228, 189, 160, 232, 191, 152, 230, 178, 161, 230, 156, 137, 231, 187,
    145, 229, 174, 154, 228, 189, 160, 231, 154, 132, 232, 180, 166, 230, 136, 183, 239, 188,
    140, 232, 175, 183, 228, 189, 191, 231, 148, 168, 33, 32, 115, 101, 116, 105, 100, 32,
    105, 100, 230, 157, 165, 231, 187, 145, 229, 174, 154, 126]"

definition T_mode_hint :: string where
  "T_mode_hint = utf8 [48, 61, 115, 116, 100, 44, 49, 61, 116, 97, 105, 107, 111, 44, 50, 61,
    99, 116, 98, 44, 51, 61, 109, 97, 110, 105, 97]"

definition T_bound_to :: string where
  "T_bound_to = utf8 [228, 189, 160, 231, 154, 132, 232, 180, 166, 230, 136, 183, 229, 183,
    178, 228, 184, 142, 111, 115, 117, 33, 105, 100, 228, 184, 186, 32]"

definition T_bound_before :: string where
  "T_bound_before = utf8 [32, 231, 154, 132, 231, 148, 168, 230, 136, 183, 231, 187, 145, 229,
    174, 154, 232, 191, 135, 228, 186, 134, 229, 147, 166, 227, 128, 130, 229, 166, 130, 233,
    156, 128, 232, 167, 163, 231, 187, 145, 232, 175, 183, 233, 152, 133, 232, 175, 187, 229,
    184, 174, 229, 138, 169, 228, 191, 161, 230, 129, 175, 126]"

definition T_account_of_qq :: string where
  "T_account_of_qq = utf8 [228, 189, 160, 230, 131, 179, 232, 166, 129, 231, 187, 145, 229,
    174, 154, 231, 154, 132, 232, 180, 166, 230, 136, 183, 229, 183, 178, 228, 184, 142, 113,
    113, 229, 143, 183, 228, 184, 186, 32]"

definition T_bound_by_other :: string where
  "T_bound_by_other = utf8 [32, 231, 154, 132, 231, 148, 168, 230, 136, 183, 231, 187, 145,
    229, 174, 154, 232, 191, 135, 228, 186, 134, 229, 147, 166, 227, 128, 130, 229, 166, 130,
    230, 158, 156, 228, 189, 160, 232, 174, 164, 228, 184, 186, 230, 152, 175, 228, 187, 150,
    228, 186, 186, 233, 148, 153, 232, 175, 175, 231, 187, 145, 229, 174, 154, 228, 186, 134,
    228, 189, 160, 231, 154, 132, 232, 180, 166, 230, 136, 183, 239, 188, 140, 232, 175, 183,
    232, 129, 148, 231, 179, 187, 233, 186, 187, 233, 186, 187, 126]"

definition T_user_sp :: string where
  "T_user_sp = utf8 [231, 148, 168, 230, 136, 183, 32]"

definition T_bound_now :: string where
  "T_bound_now = utf8 [32, 229, 183, 178, 230, 136, 144, 229, 138, 159, 231, 187, 145, 229,
    174, 154, 229, 136, 176, 230, 173, 164, 113, 113, 228, 184, 138, 126, 10, 230, 173, 163,
    229, 156, 168, 229, 136, 157, 229, 167, 139, 229, 140, 150, 230, 149, 176, 230, 141, 174,
    239, 188, 140, 230, 151, 182, 233, 151, 180, 229, 143, 175, 232, 131, 189, 232, 190, 131,
    233, 149, 191, 239, 188, 140, 232, 175, 183, 232, 128, 144, 229, 191, 131, 231, 173, 137,
    229, 190, 133, 227, 128, 130]"

definition T_one_bound :: string where
  "T_one_bound = utf8 [230, 156, 137, 49, 228, 189, 141, 231, 148, 168, 230, 136, 183, 231,
    187, 145, 229, 174, 154, 228, 186, 134, 228, 187, 150, 231, 154, 132, 111, 115, 117, 33,
    105, 100, 44, 10, 113, 113, 58, 32]"

definition T_sure_unset :: string where
  "T_sure_unset = utf8 [228, 189, 160, 231, 161, 174, 229, 174, 154, 232, 166, 129, 232, 167,
    163, 233, 153, 164, 231, 187, 145, 229, 174, 154, 229, 144, 151, 239, 188, 159, 232, 167,
    163, 233, 153, 164, 231, 187, 145, 229, 174, 154, 229, 144, 142, 228, 188, 154, 230, 184,
    133, 233, 153, 164, 230, 137, 128, 230, 156, 137, 231, 187, 145, 229, 174, 154, 232, 174,
    176, 229, 189, 149, 228, 187, 165, 229, 143, 138, 230, 175, 143, 230, 151, 165, 230, 149,
    176, 230, 141, 174, 230, 155, 180, 230, 150, 176, 232, 174, 176, 229, 189, 149, 239, 188,
    129, 10, 229, 166, 130, 230, 158, 156, 232, 166, 129, 230, 141, 162, 231, 187, 145, 231,
    154, 132, 232, 175, 157, 239, 188, 140, 232, 175, 183, 228, 189, 191, 231, 148, 168, 33,
    99, 111, 110, 116, 97, 99, 116, 230, 140, 135, 228, 187, 164, 232, 129, 148, 231, 179,
    187, 231, 174, 161, 231, 144, 134, 229, 145, 152, 239, 188, 140, 232, 175, 183, 228, 184,
    141, 232, 166, 129, 233, 154, 143, 230, 132, 143, 232, 167, 163, 231, 187, 145, 239, 188,
    140, 232, 162, 171, 230, 184, 133, 233, 153, 164, 231, 154, 132, 230, 175, 143, 230, 151,
    165, 230, 149, 176, 230, 141, 174, 232, 174, 176, 229, 189, 149, 230, 152, 175, 230, 151,
    160, 230, 179, 149, 230, 129, 162, 229, 164, 141, 231, 154, 132, 239, 188, 129, 10, 229,
    166, 130, 230, 158, 156, 231, 161, 174, 229, 174, 154, 232, 166, 129, 232, 167, 163, 231,
    187, 145, 239, 188, 140, 232, 175, 183, 228, 189, 191, 231, 148, 168, 229, 145, 189, 228,
    187, 164, 33, 117, 110, 115, 101, 116, 32, 121, 101, 115, 230, 157, 165, 232, 191, 155,
    232, 161, 140, 231, 161, 174, 232, 174, 164, 239, 188, 129, 10, 230, 136, 150, 229, 155,
    158, 229, 164, 141, 33, 117, 110, 115, 101, 116, 43, 228, 187, 187, 230, 132, 143, 229,
    134, 133, 229, 174, 185, 228, 184, 173, 230, 173, 162, 230, 147, 141, 228, 189, 156, 227,
    128, 130]"

definition T_you_not_bound :: string where
  "T_you_not_bound = utf8 [228, 189, 160, 232, 191, 152, 230, 178, 161, 230, 156, 137, 231,
    187, 145, 229, 174, 154, 46, 46, 46]"

definition T_unset_stopped :: string where
  "T_unset_stopped = utf8 [232, 167, 163, 231, 187, 145, 230, 147, 141, 228, 189, 156, 229,
    183, 178, 228, 184, 173, 230, 173, 162, 227, 128, 130]"

definition T_executing :: string where
  "T_executing = utf8 [230, 173, 163, 229, 156, 168, 230, 137, 167, 232, 161, 140, 230, 147,
    141, 228, 189, 156, 46, 46, 46]"

definition T_unset_done :: string where
  "T_unset_done = utf8 [229, 183, 178, 230, 136, 144, 229, 138, 159, 232, 167, 163, 231, 187,
    145, 227, 128, 130]"

definition T_one_unbound :: string where
  "T_one_unbound = utf8 [230, 156, 137, 49, 228, 189, 141, 231, 148, 168, 230, 136, 183, 232,
    167, 163, 231, 187, 145, 228, 186, 134, 228, 187, 150, 231, 154, 132, 111, 115, 117, 33,
    105, 100, 44, 10, 113, 113, 58, 32]"

definition T_mode_failed :: string where
  "T_mode_failed = utf8 [229, 156, 168, 230, 137, 167, 232, 161, 140, 230, 147, 141, 228, 189,
    156, 230, 151, 182, 229, 143, 145, 231, 148, 159, 228, 186, 134, 233, 148, 153, 232, 175,
    175, 46, 46, 232, 175, 183, 231, 168, 141, 229, 144, 142, 229, 134, 141, 232, 175, 149,
    227, 128, 130]"

definition T_mode_std :: string where
  "T_mode_std = utf8 [228, 189, 160, 231, 154, 132, 228, 184, 187, 232, 166, 129, 230, 184,
    184, 230, 136, 143, 230, 168, 161, 229, 188, 143, 229, 183, 178, 232, 174, 190, 231, 189,
    174, 228, 184, 186, 83, 116, 97, 110, 100, 97, 114, 100, 46]"

definition T_mode_taiko :: string where
  "T_mode_taiko = utf8 [228, 189, 160, 231, 154, 132, 228, 184, 187, 232, 166, 129, 230, 184,
    184, 230, 136, 143, 230, 168, 161, 229, 188, 143, 229, 183, 178, 232, 174, 190, 231, 189,
    174, 228, 184, 186, 84, 97, 105, 107, 111, 46]"

definition T_mode_ctb :: string where
  "T_mode_ctb = utf8 [228, 189, 160, 231, 154, 132, 228, 184, 187, 232, 166, 129, 230, 184,
    184, 230, 136, 143, 230, 168, 161, 229, 188, 143, 229, 183, 178, 232, 174, 190, 231, 189,
    174, 228, 184, 186, 67, 97, 116, 99, 104, 32, 116, 104, 101, 32, 66, 101, 97, 116, 46]"

definition T_mode_mania :: string where
  "T_mode_mania = utf8 [228, 189, 160, 231, 154, 132, 228, 184, 187, 232, 166, 129, 230, 184,
    184, 230, 136, 143, 230, 168, 161, 229, 188, 143, 229, 183, 178, 232, 174, 190, 231, 189,
    174, 228, 184, 186, 77, 97, 110, 105, 97, 46]"

definition T_unknown_error :: string where
  "T_unknown_error = utf8 [229, 143, 145, 231, 148, 159, 228, 186, 134, 230, 156, 170, 231,
    159, 165, 233, 148, 153, 232, 175, 175]"

definition T_no_badges_yet :: string where
  "T_no_badges_yet = utf8 [228, 189, 160, 232, 191, 152, 230, 178, 161, 230, 156, 137, 232,
    142, 183, 229, 190, 151, 232, 191, 135, 229, 165, 150, 231, 171, 160, 227, 128, 130]"

definition T_you_have :: string where
  "T_you_have = utf8 [228, 189, 160, 230, 139, 165, 230, 156, 137, 32]"

definition T_badges_nl :: string where
  "T_badges_nl = utf8 [32, 229, 157, 151, 229, 139, 139, 231, 171, 160, 10]"

definition T_give_id :: string where
  "T_give_id = utf8 [232, 175, 183, 230, 143, 144, 228, 190, 155, 73, 68]"

definition T_wrong_id :: string where
  "T_wrong_id = utf8 [230, 143, 144, 228, 190, 155, 231, 154, 132, 73, 68, 230, 156, 137, 232,
    175, 175]"

definition T_no_badge_at_all :: string where
  "T_no_badge_at_all = utf8 [228, 189, 160, 232, 191, 152, 230, 178, 161, 230, 156, 137, 232,
    142, 183, 229, 190, 151, 228, 187, 187, 228, 189, 149, 229, 165, 150, 231, 171, 160, 229,
    145, 162, 227, 128, 130]"

definition T_shown_badge :: string where
  "T_shown_badge = utf8 [228, 189, 160, 231, 154, 132, 228, 184, 187, 230, 152, 190, 229, 165,
    150, 231, 171, 160, 229, 183, 178, 232, 174, 190, 228, 184, 186, 32]"

definition T_badge_not_yours :: string where
  "T_badge_not_yours = utf8 [228, 189, 160, 230, 156, 170, 230, 139, 165, 230, 156, 137, 230,
    173, 164, 229, 165, 150, 231, 171, 160, 227, 128, 130]"

definition T_banner_reset :: string where
  "T_banner_reset = utf8 [229, 183, 178, 230, 136, 144, 229, 138, 159, 233, 135, 141, 231,
    189, 174, 228, 189, 160, 231, 154, 132, 98, 97, 110, 110, 101, 114, 227, 128, 130]"

definition T_panel_reset :: string where
  "T_panel_reset = utf8 [229, 183, 178, 230, 136, 144, 229, 138, 159, 233, 135, 141, 231, 189,
    174, 228, 189, 160, 231, 154, 132, 105, 110, 102, 111, 233, 157, 162, 230, 157, 191, 227,
    128, 130]"

definition T_in_group_only :: string where
  "T_in_group_only = utf8 [230, 173, 164, 230, 147, 141, 228, 189, 156, 229, 191, 133, 233,
    161, 187, 229, 156, 168, 231, 190, 164, 229, 134, 133, 229, 174, 140, 230, 136, 144, 227,
    128, 130]"

definition T_admin_only :: string where
  "T_admin_only = utf8 [230, 173, 164, 230, 147, 141, 228, 189, 156, 233, 156, 128, 232, 166,
    129, 231, 174, 161, 231, 144, 134, 229, 145, 152, 230, 137, 167, 232, 161, 140, 227, 128,
    130]"

definition T_wide_colon :: string where
  "T_wide_colon = utf8 [239, 188, 154]"

definition T_wrong_setting :: string where
  "T_wrong_setting = utf8 [231, 187, 153, 229, 174, 154, 231, 154, 132, 229, 143, 130, 230,
    149, 176, 228, 184, 141, 230, 173, 163, 231, 161, 174, 10, 230, 173, 163, 231, 161, 174,
    231, 154, 132, 229, 143, 130, 230, 149, 176, 228, 190, 139, 239, 188, 154, 123, 102, 117,
    110, 99, 116, 105, 111, 110, 125, 58, 123, 111, 110, 47, 111, 102, 102, 125, 10, 229, 143,
    130, 230, 149, 176, 229, 144, 141, 239, 188, 154, 98, 112, 47, 114, 99, 116, 112, 112, 47,
    114, 101, 99, 101, 110, 116, 47, 101, 110, 116, 101, 114, 116, 97, 105, 110, 109, 101,
    110, 116, 47, 114, 101, 112, 101, 97, 116, 101, 114]"

definition T_already_on :: string where
  "T_already_on = utf8 [232, 191, 153, 233, 161, 185, 229, 138, 159, 232, 131, 189, 229, 183,
    178, 231, 187, 143, 230, 152, 175, 229, 144, 175, 231, 148, 168, 231, 138, 182, 230, 128,
    129, 228, 186, 134]"

definition T_already_off :: string where
  "T_already_off = utf8 [232, 191, 153, 233, 161, 185, 229, 138, 159, 232, 131, 189, 229, 183,
    178, 231, 187, 143, 229, 164, 132, 228, 186, 142, 231, 166, 129, 231, 148, 168, 231, 138,
    182, 230, 128, 129, 228, 186, 134]"

definition T_submitted :: string where
  "T_submitted = utf8 [230, 147, 141, 228, 189, 156, 229, 183, 178, 230, 136, 144, 229, 138,
    159, 230, 143, 144, 228, 186, 164, 227, 128, 130]"

definition T_change_failed :: string where
  "T_change_failed = utf8 [228, 191, 174, 230, 148, 185, 231, 190, 164, 232, 174, 190, 231,
    189, 174, 229, 164, 177, 232, 180, 165]"

definition T_no_badge_info :: string where
  "T_no_badge_info = utf8 [230, 178, 161, 230, 156, 137, 230, 159, 165, 232, 175, 162, 229,
    136, 176, 230, 173, 164, 229, 190, 189, 231, 171, 160, 231, 154, 132, 228, 187, 187, 228,
    189, 149, 228, 191, 161, 230, 129, 175]"

definition T_name :: string where
  "T_name = utf8 [10, 229, 144, 141, 231, 167, 176, 58, 32]"

definition T_description :: string where
  "T_description = utf8 [41, 10, 230, 143, 143, 232, 191, 176, 58, 32]"

definition T_event_not_bound :: string where
  "T_event_not_bound = utf8 [232, 191, 152, 230, 156, 170, 231, 187, 145, 229, 174, 154, 111,
    115, 117, 33, 232, 180, 166, 230, 136, 183]"

definition T_event_on :: string where
  "T_event_on = utf8 [229, 183, 178, 229, 188, 128, 229, 144, 175]"

definition T_event_off :: string where
  "T_event_off = utf8 [229, 183, 178, 229, 133, 179, 233, 151, 173]"

definition T_bad_argument :: string where
  "T_bad_argument = utf8 [230, 151, 160, 230, 149, 136, 229, 143, 130, 230, 149, 176]"

definition T_about_image :: string where
  "T_about_image = utf8 [91, 67, 81, 58, 105, 109, 97, 103, 101, 44, 102, 105, 108, 101, 61,
    111, 115, 117, 99, 97, 116, 92, 104, 101, 108, 112, 92, 97, 98, 111, 117, 116, 46, 112,
    110, 103, 93]"

definition T_badge_image :: string where
  "T_badge_image = utf8 [91, 67, 81, 58, 105, 109, 97, 103, 101, 44, 102, 105, 108, 101, 61,
    111, 115, 117, 99, 97, 116, 92, 98, 97, 100, 103, 101, 115, 92]"

definition T_banner_verify :: string where
  "T_banner_verify = utf8 [46, 92, 100, 97, 116, 97, 92, 105, 109, 97, 103, 101, 115, 92, 111,
    115, 117, 99, 97, 116, 92, 99, 117, 115, 116, 111, 109, 92, 98, 97, 110, 110, 101, 114,
    95, 118, 101, 114, 105, 102, 121, 92]"

definition T_panel_verify :: string where
  "T_panel_verify = utf8 [46, 92, 100, 97, 116, 97, 92, 105, 109, 97, 103, 101, 115, 92, 111,
    115, 117, 99, 97, 116, 92, 99, 117, 115, 116, 111, 109, 92, 105, 110, 102, 111, 112, 97,
    110, 101, 108, 95, 118, 101, 114, 105, 102, 121, 92]"

definition T_id_colon :: string where
  "T_id_colon = utf8 [73, 68, 239, 188, 154]"

definition T_banner_passed :: string where
  "T_banner_passed = utf8 [228, 189, 160, 228, 184, 138, 228, 188, 160, 231, 154, 132, 66, 97,
    110, 110, 101, 114, 233, 128, 154, 232, 191, 135, 229, 174, 161, 230, 160, 184, 229, 149,
    166, 239, 188, 140, 229, 143, 175, 228, 187, 165, 228, 189, 191, 231, 148, 168, 105, 110,
    102, 111, 230, 140, 135, 228, 187, 164, 230, 159, 165, 231, 156, 139, 126]"

definition T_banner_told :: string where
  "T_banner_told = utf8 [32, 239, 188, 140, 229, 183, 178, 230, 136, 144, 229, 138, 159, 233,
    128, 154, 231, 159, 165, 231, 148, 168, 230, 136, 183, 66, 97, 110, 110, 101, 114, 229,
    183, 178, 229, 174, 161, 230, 160, 184, 230, 136, 144, 229, 138, 159, 227, 128, 130]"

definition T_panel_passed :: string where
  "T_panel_passed = utf8 [228, 189, 160, 228, 184, 138, 228, 188, 160, 231, 154, 132, 73, 110,
    102, 111, 233, 157, 162, 230, 157, 191, 233, 128, 154, 232, 191, 135, 229, 174, 161, 230,
    160, 184, 229, 149, 166, 239, 188, 140, 229, 143, 175, 228, 187, 165, 228, 189, 191, 231,
    148, 168, 105, 110, 102, 111, 230, 140, 135, 228, 187, 164, 230, 159, 165, 231, 156, 139,
    126]"

definition T_panel_told :: string where
  "T_panel_told = utf8 [32, 239, 188, 140, 229, 183, 178, 230, 136, 144, 229, 138, 159, 233,
    128, 154, 231, 159, 165, 231, 148, 168, 230, 136, 183, 73, 110, 102, 111, 80, 97, 110,
    101, 108, 229, 183, 178, 229, 174, 161, 230, 160, 184, 230, 136, 144, 229, 138, 159, 227,
    128, 130]"

definition T_move_error :: string where
  "T_move_error = utf8 [229, 156, 168, 231, 167, 187, 229, 138, 168, 230, 150, 135, 228, 187,
    182, 230, 151, 182, 229, 143, 145, 231, 148, 159, 228, 186, 134, 228, 184, 128, 228, 184,
    170, 233, 148, 153, 232, 175, 175, 227, 128, 130]"

definition T_not_in_list :: string where
  "T_not_in_list = utf8 [230, 173, 164, 231, 148, 168, 230, 136, 183, 231, 154, 132, 229, 134,
    133, 229, 174, 185, 228, 184, 141, 229, 156, 168, 229, 190, 133, 229, 174, 161, 230, 160,
    184, 230, 184, 133, 229, 141, 149, 229, 134, 133, 227, 128, 130]"

definition T_no_details :: string where
  "T_no_details = utf8 [230, 156, 170, 230, 143, 144, 228, 190, 155, 232, 175, 166, 230, 131,
    133, 227, 128, 130]"

definition T_banner_rejected :: string where
  "T_banner_rejected = utf8 [228, 189, 160, 228, 184, 138, 228, 188, 160, 231, 154, 132, 66,
    97, 110, 110, 101, 114, 229, 183, 178, 232, 162, 171, 231, 174, 161, 231, 144, 134, 229,
    145, 152, 233, 169, 179, 229, 155, 158, 239, 188, 140, 232, 175, 166, 230, 131, 133, 239,
    188, 154]"

definition T_banner_reject_told :: string where
  "T_banner_reject_told = utf8 [32, 239, 188, 140, 229, 183, 178, 230, 136, 144, 229, 138,
    159, 233, 128, 154, 231, 159, 165, 231, 148, 168, 230, 136, 183, 66, 97, 110, 110, 101,
    114, 229, 183, 178, 232, 162, 171, 233, 169, 179, 229, 155, 158, 227, 128, 130, 232, 175,
    166, 230, 131, 133, 239, 188, 154]"

definition T_panel_rejected :: string where
  "T_panel_rejected = utf8 [228, 189, 160, 228, 184, 138, 228, 188, 160, 231, 154, 132, 73,
    110, 102, 111, 80, 97, 110, 101, 108, 229, 183, 178, 232, 162, 171, 231, 174, 161, 231,
    144, 134, 229, 145, 152, 233, 169, 179, 229, 155, 158, 239, 188, 140, 232, 175, 166, 230,
    131, 133, 239, 188, 154]"

definition T_panel_reject_told :: string where
  "T_panel_reject_told = utf8 [32, 239, 188, 140, 229, 183, 178, 230, 136, 144, 229, 138, 159,
    233, 128, 154, 231, 159, 165, 231, 148, 168, 230, 136, 183, 73, 110, 102, 111, 80, 97,
    110, 101, 108, 229, 183, 178, 232, 162, 171, 233, 169, 179, 229, 155, 158, 227, 128, 130,
    232, 175, 166, 230, 131, 133, 239, 188, 154]"

definition T_data_reset :: string where
  "T_data_reset = utf8 [228, 189, 160, 231, 154, 132, 228, 184, 170, 228, 186, 186, 232, 181,
    132, 230, 150, 153, 229, 183, 178, 232, 162, 171, 233, 135, 141, 231, 189, 174, 239, 188,
    140, 232, 175, 166, 230, 131, 133, 239, 188, 154]"

definition T_reset_told :: string where
  "T_reset_told = utf8 [32, 239, 188, 140, 229, 183, 178, 230, 136, 144, 229, 138, 159, 233,
    128, 154, 231, 159, 165, 231, 148, 168, 230, 136, 183, 228, 187, 150, 231, 154, 132, 228,
    184, 170, 228, 186, 186, 232, 181, 132, 230, 150, 153, 229, 183, 178, 232, 162, 171, 233,
    135, 141, 231, 189, 174, 227, 128, 130, 232, 175, 166, 230, 131, 133, 239, 188, 154]"

definition T_user_not_found :: string where
  "T_user_not_found = utf8 [230, 137, 190, 228, 184, 141, 229, 136, 176, 230, 173, 164, 231,
    148, 168, 230, 136, 183, 227, 128, 130]"

definition T_argument_error :: string where
  "T_argument_error = utf8 [229, 143, 130, 230, 149, 176, 233, 148, 153, 232, 175, 175]"

definition T_badge_unknown :: string where
  "T_badge_unknown = utf8 [230, 156, 170, 230, 137, 190, 229, 136, 176, 230, 173, 164, 229,
    190, 189, 231, 171, 160]"

definition T_added :: string where
  "T_added = utf8 [229, 183, 178, 230, 136, 144, 229, 138, 159, 230, 143, 144, 228, 186, 164,
    227, 128, 130]"

definition T_blacklisted :: string where
  "T_blacklisted = utf8 [32, 229, 183, 178, 230, 136, 144, 229, 138, 159, 232, 162, 171, 229,
    136, 151, 229, 133, 165, 233, 187, 145, 229, 144, 141, 229, 141, 149]"

definition T_blacklisted_before :: string where
  "T_blacklisted_before = utf8 [32, 229, 183, 178, 229, 173, 152, 229, 156, 168, 228, 186,
    142, 233, 187, 145, 229, 144, 141, 229, 141, 149, 228, 184, 173]"

definition T_digits_please :: string where
  "T_digits_please = utf8 [232, 175, 183, 230, 143, 144, 228, 190, 155, 231, 186, 175, 230,
    149, 176, 229, 173, 151, 113, 113, 239, 188, 140, 228, 184, 141, 232, 166, 129, 230, 142,
    186, 230, 157, 130, 228, 184, 173, 230, 150, 135, 227, 128, 130]"

definition T_badge_format :: string where
  "T_badge_format = utf8 [229, 143, 130, 230, 149, 176, 228, 184, 141, 230, 173, 163, 231,
    161, 174, 239, 188, 140, 232, 175, 183, 230, 140, 137, 231, 133, 167, 228, 187, 165, 228,
    184, 139, 230, 160, 188, 229, 188, 143, 230, 143, 144, 228, 186, 164, 239, 188, 154, 10,
    98, 97, 100, 103, 101, 229, 155, 190, 229, 131, 143, 35, 232, 139, 177, 230, 150, 135,
    229, 144, 141, 231, 167, 176, 35, 228, 184, 173, 230, 150, 135, 229, 144, 141, 231, 167,
    176, 35, 232, 175, 166, 231, 187, 134, 228, 191, 161, 230, 129, 175]"

definition T_cache :: string where
  "T_cache = utf8 [46, 92, 100, 97, 116, 97, 92, 99, 97, 99, 104, 101, 92]"

definition T_work_badges :: string where
  "T_work_badges = utf8 [46, 92, 119, 111, 114, 107, 92, 98, 97, 100, 103, 101, 115, 92]"

definition T_data_badges :: string where
  "T_data_badges = utf8 [46, 92, 100, 97, 116, 97, 92, 105, 109, 97, 103, 101, 115, 92, 111,
    115, 117, 99, 97, 116, 92, 98, 97, 100, 103, 101, 115, 92]"

definition T_move_failed :: string where
  "T_move_failed = utf8 [231, 167, 187, 229, 138, 168, 230, 150, 135, 228, 187, 182, 229, 164,
    177, 232, 180, 165]"

definition T_added_nl :: string where
  "T_added_nl = utf8 [229, 183, 178, 230, 136, 144, 229, 138, 159, 230, 143, 144, 228, 186,
    164, 227, 128, 130, 10]"

definition T_add_badge_failed :: string where
  "T_add_badge_failed = utf8 [230, 183, 187, 229, 138, 160, 98, 97, 100, 103, 101, 229, 164,
    177, 232, 180, 165]"

definition T_attach_badge :: string where
  "T_attach_badge = utf8 [232, 175, 183, 233, 154, 143, 233, 153, 132, 98, 97, 100, 103, 101,
    229, 155, 190, 229, 131, 143]"

definition T_wide_semicolon :: string where
  "T_wide_semicolon = utf8 [239, 188, 155]"

definition T_sent_by_you :: string where
  "T_sent_by_you = utf8 [228, 189, 160, 229, 143, 145, 228, 186, 142, 32]"

definition T_deleted_details :: string where
  "T_deleted_details = utf8 [32, 231, 154, 132, 230, 182, 136, 230, 129, 175, 229, 183, 178,
    232, 162, 171, 231, 174, 161, 231, 144, 134, 229, 145, 152, 229, 136, 160, 233, 153, 164,
    227, 128, 130, 10, 232, 175, 166, 230, 131, 133, 239, 188, 154]"

definition T_deleted_plain :: string where
  "T_deleted_plain = utf8 [32, 231, 154, 132, 230, 182, 136, 230, 129, 175, 229, 183, 178,
    232, 162, 171, 231, 174, 161, 231, 144, 134, 229, 145, 152, 229, 136, 160, 233, 153, 164,
    227, 128, 130]"

definition T_no_bottle :: string where
  "T_no_bottle = utf8 [230, 178, 161, 230, 156, 137, 230, 137, 190, 229, 136, 176, 232, 191,
    153, 228, 184, 170, 230, 188, 130, 230, 181, 129, 231, 147, 182, 227, 128, 130]"

definition T_removed_id :: string where
  "T_removed_id = utf8 [229, 183, 178, 231, 167, 187, 233, 153, 164, 73, 68, 228, 184, 186,
    32]"

definition T_bottle_end :: string where
  "T_bottle_end = utf8 [32, 231, 154, 132, 230, 188, 130, 230, 181, 129, 231, 147, 182]"

definition T_bottle_and :: string where
  "T_bottle_and = utf8 [32, 231, 154, 132, 230, 188, 130, 230, 181, 129, 231, 147, 182, 239,
    188, 140, 229, 185, 182, 232, 191, 148, 229, 155, 158, 228, 187, 165, 228, 184, 139, 230,
    182, 136, 230, 129, 175, 239, 188, 154]"

definition T_give_argument :: string where
  "T_give_argument = utf8 [232, 175, 183, 230, 143, 144, 228, 190, 155, 229, 143, 130, 230,
    149, 176, 227, 128, 130]"

definition T_argument_error_dot :: string where
  "T_argument_error_dot = utf8 [229, 143, 130, 230, 149, 176, 233, 148, 153, 232, 175, 175,
    227, 128, 130]"

definition T_avatars :: string where
  "T_avatars = utf8 [46, 92, 119, 111, 114, 107, 92, 97, 118, 97, 116, 97, 114, 92]"

definition T_year :: string where
  "T_year = utf8 [229, 185, 180]"

definition T_month :: string where
  "T_month = utf8 [230, 156, 136]"

definition T_day :: string where
  "T_day = utf8 [230, 151, 165, 32]"

definition T_hour :: string where
  "T_hour = utf8 [231, 130, 185]"

definition T_minute :: string where
  "T_minute = utf8 [229, 136, 134]"

definition T_second :: string where
  "T_second = utf8 [231, 167, 146]"

definition T_thrown_20 :: string where
  "T_thrown_20 = utf8 [228, 189, 160, 229, 183, 178, 231, 187, 143, 230, 137, 148, 228, 186,
    134, 50, 48, 228, 184, 170, 231, 147, 182, 229, 173, 144, 229, 135, 186, 229, 142, 187,
    228, 186, 134, 46, 46, 46, 228, 188, 145, 230, 129, 175, 228, 184, 128, 228, 184, 139,
    229, 134, 141, 230, 137, 148, 229, 144, 167, 46, 46, 46]"

definition T_ignore_you :: string where
  "T_ignore_you = utf8 [228, 184, 141, 230, 131, 179, 231, 144, 134, 228, 189, 160, 46, 46,
    46]"

definition T_write_something :: string where
  "T_write_something = utf8 [228, 184, 141, 229, 166, 130, 229, 134, 153, 231, 130, 185, 228,
    187, 128, 228, 185, 136, 229, 134, 141, 230, 137, 148]"

definition T_too_long_bottle :: string where
  "T_too_long_bottle = utf8 [229, 164, 170, 233, 149, 191, 228, 186, 134, 239, 188, 129]"

definition T_drift_bottle :: string where
  "T_drift_bottle = utf8 [230, 188, 130, 230, 181, 129, 231, 147, 182]"

definition T_bottle :: string where
  "T_bottle = utf8 [231, 147, 182, 229, 173, 144]"

definition T_yours_cn :: string where
  "T_yours_cn = utf8 [228, 189, 160, 231, 154, 132]"

definition T_yours_jp :: string where
  "T_yours_jp = utf8 [229, 144, 155, 227, 129, 174]"

definition T_drifts :: string where
  "T_drifts = utf8 [230, 188, 130, 229, 190, 128, 232, 191, 156, 230, 150, 185]"

definition T_flows :: string where
  "T_flows = utf8 [230, 181, 129, 229, 144, 145, 232, 191, 156, 230, 150, 185]"

definition T_already :: string where
  "T_already = utf8 [229, 183, 178, 231, 187, 143]"

definition T_user_in_report :: string where
  "T_user_in_report = utf8 [231, 148, 168, 230, 136, 183, 32]"

definition T_image_uploaded :: string where
  "T_image_uploaded = utf8 [41, 32, 229, 156, 168, 230, 188, 130, 230, 181, 129, 231, 147,
    182, 229, 134, 133, 228, 184, 138, 228, 188, 160, 228, 186, 134, 229, 155, 190, 231, 137,
    135, 10, 230, 188, 130, 230, 181, 129, 231, 147, 182, 73, 68, 58, 32]"

definition T_bottle_uploaded :: string where
  "T_bottle_uploaded = utf8 [41, 32, 228, 184, 138, 228, 188, 160, 228, 186, 134, 230, 188,
    130, 230, 181, 129, 231, 147, 182, 10, 230, 188, 130, 230, 181, 129, 231, 147, 182, 73,
    68, 58, 32]"

definition T_content_follows :: string where
  "T_content_follows = utf8 [10, 230, 182, 136, 230, 129, 175, 229, 134, 133, 229, 174, 185,
    229, 166, 130, 228, 184, 139, 239, 188, 154, 10]"

definition T_content_cn :: string where
  "T_content_cn = utf8 [231, 147, 182, 229, 173, 144, 233, 135, 140, 231, 154, 132, 229, 134,
    133, 229, 174, 185, 230, 152, 175]"

definition T_content_jp :: string where
  "T_content_jp = utf8 [231, 147, 182, 227, 129, 174, 228, 184, 173, 232, 186, 171, 227, 129,
    175]"

definition T_this_is_from :: string where
  "T_this_is_from = utf8 [232, 191, 153, 230, 152, 175, 230, 157, 165, 232, 135, 170, 32]"

definition T_bottle_of :: string where
  "T_bottle_of = utf8 [41, 32, 231, 154, 132, 230, 188, 130, 230, 181, 129, 231, 147, 182]"

definition T_sent_at :: string where
  "T_sent_at = utf8 [32, 229, 143, 145, 228, 186, 142, 32]"

definition T_you_sent_at :: string where
  "T_you_sent_at = utf8 [228, 189, 160, 229, 143, 145, 228, 186, 142, 32]"

definition T_content_is :: string where
  "T_content_is = utf8 [10, 231, 154, 132, 229, 134, 133, 229, 174, 185, 228, 184, 186]"

definition T_picked_by :: string where
  "T_picked_by = utf8 [231, 154, 132, 230, 182, 136, 230, 129, 175, 229, 183, 178, 231, 187,
    143, 232, 162, 171, 32]"

definition T_picked_up :: string where
  "T_picked_up = utf8 [41, 32, 230, 141, 158, 232, 181, 183, 230, 157, 165, 228, 186, 134]"

definition T_picked_up_before :: string where
  "T_picked_up_before = utf8 [41, 32, 230, 141, 158, 232, 181, 183, 230, 157, 165, 228, 186,
    134, 46, 46, 46, 46, 10, 229, 156, 168, 230, 173, 164, 228, 185, 139, 229, 137, 141, 228,
    189, 160, 231, 154, 132, 231, 147, 182, 229, 173, 144, 232, 191, 152, 232, 162, 171, 233,
    152, 133, 232, 175, 187, 228, 186, 134, 32]"

definition T_times_read :: string where
  "T_times_read = utf8 [32, 230, 172, 161]"

definition T_no_bottles :: string where
  "T_no_bottles = utf8 [232, 191, 152, 230, 178, 161, 230, 156, 137, 228, 186, 186, 228, 184,
    162, 232, 191, 135, 230, 188, 130, 230, 181, 129, 231, 147, 182, 229, 145, 162]"

definition T_chance_cn :: string where
  "T_chance_cn = utf8 [228, 189, 160, 229, 189, 147, 229, 137, 141, 230, 178, 161, 230, 156,
    137, 230, 141, 161, 231, 147, 182, 229, 173, 144, 231, 154, 132, 230, 156, 186, 228, 188,
    154, 228, 186, 134, 239, 188, 140, 230, 137, 148, 60, 228, 184, 128, 228, 184, 170, 62,
    230, 188, 130, 230, 181, 129, 231, 147, 182, 229, 143, 175, 228, 187, 165, 232, 142, 183,
    229, 190, 151, 60, 228, 184, 164, 230, 172, 161, 62, 230, 137, 147, 230, 141, 158, 231,
    154, 132, 230, 156, 186, 228, 188, 154, 239, 188, 140, 230, 136, 150, 230, 175, 143, 230,
    151, 165, 60, 233, 166, 150, 230, 172, 161, 62, 228, 189, 191, 231, 148, 168, 230, 188,
    130, 230, 181, 129, 231, 147, 182, 228, 185, 159, 229, 143, 175, 232, 142, 183, 229, 190,
    151, 60, 49, 48, 230, 172, 161, 62, 229, 133, 141, 232, 180, 185, 230, 137, 147, 230, 141,
    158, 231, 154, 132, 230, 156, 186, 228, 188, 154, 126]"

definition T_chance_en :: string where
  "T_chance_en = utf8 [89, 111, 117, 32, 100, 111, 110, 39, 116, 32, 104, 97, 118, 101, 32,
    97, 32, 99, 104, 97, 110, 99, 101, 32, 116, 111, 32, 112, 105, 99, 107, 32, 117, 112, 32,
    97, 110, 121, 32, 100, 114, 105, 102, 116, 32, 98, 111, 116, 116, 108, 101, 32, 114, 105,
    103, 104, 116, 32, 110, 111, 119, 33, 32, 84, 104, 114, 111, 119, 32, 97, 32, 98, 111,
    116, 116, 108, 101, 32, 116, 111, 32, 103, 101, 116, 32, 50, 32, 112, 105, 99, 107, 115,
    32, 117, 112, 32, 99, 104, 97, 110, 99, 101, 115, 44, 32, 111, 114, 32, 121, 111, 117, 32,
    99, 97, 110, 32, 97, 108, 115, 111, 32, 103, 101, 116, 32, 49, 48, 32, 102, 114, 101, 101,
    32, 116, 105, 109, 101, 115, 32, 116, 111, 32, 112, 105, 99, 107, 32, 117, 112, 32, 116,
    104, 101, 32, 98, 111, 116, 116, 108, 101, 32, 98, 121, 32, 117, 115, 105, 110, 103, 32,
    116, 104, 101, 32, 100, 114, 105, 102, 116, 105, 110, 103, 32, 98, 111, 116, 116, 108,
    101, 32, 102, 111, 114, 32, 116, 104, 101, 32, 102, 105, 114, 115, 116, 32, 116, 105, 109,
    101, 32, 101, 118, 101, 114, 121, 32, 100, 97, 121, 33]"

definition T_chance_jp :: string where
  "T_chance_jp = utf8 [227, 129, 130, 227, 129, 170, 227, 129, 159, 227, 129, 175, 228, 187,
    138, 230, 188, 130, 230, 181, 129, 231, 147, 182, 227, 130, 146, 230, 139, 190, 227, 129,
    134, 230, 169, 159, 228, 188, 154, 227, 129, 140, 227, 129, 130, 227, 130, 138, 227, 129,
    190, 227, 129, 155, 227, 130, 147, 227, 129, 167, 227, 129, 151, 227, 129, 159, 227, 128,
    130, 227, 129, 190, 227, 129, 159, 230, 188, 130, 230, 181, 129, 231, 147, 182, 227, 130,
    146, 229, 190, 151, 227, 130, 139, 230, 150, 185, 230, 179, 149, 227, 129, 175, 227, 129,
    147, 227, 129, 161, 227, 130, 137, 239, 188, 154, 49, 227, 129, 164, 227, 129, 174, 230,
    188, 130, 230, 181, 129, 231, 147, 182, 227, 130, 146, 230, 141, 168, 227, 129, 166, 227,
    130, 139, 227, 129, 168, 50, 229, 155, 158, 227, 129, 174, 230, 139, 190, 227, 129, 134,
    230, 169, 159, 228, 188, 154, 227, 130, 146, 229, 190, 151, 227, 130, 139, 227, 129, 147,
    227, 129, 168, 227, 129, 140, 227, 129, 167, 227, 129, 141, 227, 129, 190, 227, 129, 153,
    227, 128, 130, 227, 129, 130, 227, 130, 139, 227, 129, 132, 227, 129, 175, 230, 175, 142,
    230, 151, 165, 227, 129, 174, 229, 136, 157, 227, 130, 129, 227, 129, 166, 230, 188, 130,
    230, 181, 129, 231, 147, 182, 227, 130, 146, 230, 139, 190, 227, 129, 134, 227, 129, 168,
    49, 48, 229, 155, 158, 231, 132, 161, 230, 150, 153, 227, 129, 167, 230, 169, 159, 228,
    188, 154, 227, 130, 146, 229, 190, 151, 227, 130, 139, 227, 129, 147, 227, 129, 168, 227,
    129, 140, 227, 129, 167, 227, 129, 141, 227, 129, 190, 227, 129, 153, 227, 128, 130]"

definition T_chance_ru :: string where
  "T_chance_ru = utf8 [208, 163, 32, 209, 130, 208, 181, 208, 177, 209, 143, 32, 209, 129,
    208, 181, 208, 185, 209, 135, 208, 176, 209, 129, 32, 208, 189, 208, 181, 209, 130, 32,
    208, 178, 208, 190, 208, 183, 208, 188, 208, 190, 208, 182, 208, 189, 208, 190, 209, 129,
    209, 130, 208, 184, 32, 208, 191, 208, 190, 208, 180, 208, 190, 208, 177, 209, 128, 208,
    176, 209, 130, 209, 140, 32, 208, 180, 209, 128, 208, 184, 209, 132, 209, 130, 32, 208,
    177, 209, 131, 209, 130, 209, 139, 208, 187, 208, 186, 209, 131, 33, 32, 208, 145, 209,
    128, 208, 190, 209, 129, 209, 140, 32, 208, 177, 209, 131, 209, 130, 209, 139, 208, 187,
    208, 186, 209, 131, 44, 32, 209, 135, 209, 130, 208, 190, 208, 177, 209, 139, 32, 208,
    191, 208, 190, 208, 187, 209, 131, 209, 135, 208, 184, 209, 130, 209, 140, 32, 50, 32,
    208, 178, 208, 190, 208, 183, 208, 188, 208, 190, 208, 182, 208, 189, 208, 190, 209, 129,
    209, 130, 208, 184, 32, 208, 191, 208, 190, 208, 180, 208, 190, 208, 177, 209, 128, 208,
    176, 209, 130, 209, 140, 44, 32, 208, 184, 208, 187, 208, 184, 32, 209, 130, 209, 139, 32,
    209, 130, 208, 176, 208, 186, 208, 182, 208, 181, 32, 208, 188, 208, 190, 208, 182, 208,
    181, 209, 136, 209, 140, 32, 208, 191, 208, 190, 208, 187, 209, 131, 209, 135, 208, 184,
    209, 130, 209, 140, 32, 49, 48, 32, 208, 177, 208, 181, 209, 129, 208, 191, 208, 187, 208,
    176, 209, 130, 208, 189, 209, 139, 209, 133, 32, 208, 191, 208, 190, 208, 180, 208, 177,
    208, 190, 209, 128, 208, 190, 208, 178, 32, 208, 177, 209, 131, 209, 130, 209, 139, 208,
    187, 208, 186, 208, 184, 32, 208, 184, 209, 129, 208, 191, 208, 190, 208, 187, 209, 140,
    208, 183, 209, 131, 209, 143, 32, 208, 180, 209, 128, 208, 184, 209, 132, 209, 130, 32,
    208, 177, 209, 131, 209, 130, 209, 139, 208, 187, 208, 186, 209, 131, 32, 209, 128, 208,
    176, 208, 183, 32, 208, 178, 32, 208, 186, 208, 176, 208, 182, 208, 180, 209, 139, 208,
    185, 32, 208, 180, 208, 181, 208, 189, 209, 140]"

definition T_chance_vn :: string where
  "T_chance_vn = utf8 [66, 225, 186, 161, 110, 32, 104, 225, 186, 191, 116, 32, 108, 198, 176,
    225, 187, 163, 116, 32, 118, 225, 187, 155, 116, 32, 99, 104, 97, 105, 44, 32, 78, 195,
    169, 109, 32, 109, 225, 187, 153, 116, 32, 99, 104, 97, 105, 32, 196, 145, 225, 187, 131,
    32, 110, 104, 225, 186, 173, 110, 32, 116, 104, 195, 170, 109, 32, 50, 32, 108, 198, 176,
    225, 187, 163, 116, 44, 32, 72, 111, 225, 186, 183, 99, 32, 110, 104, 225, 186, 173, 110,
    32, 49, 48, 32, 108, 198, 176, 225, 187, 163, 116, 32, 118, 225, 187, 155, 116, 32, 99,
    104, 97, 105, 32, 99, 104, 111, 32, 110, 103, 195, 160, 121, 32, 104, 195, 180, 109, 32,
    115, 97, 117, 46]"

definition T_can_pick :: string where
  "T_can_pick = utf8 [228, 189, 160, 229, 189, 147, 229, 137, 141, 232, 191, 152, 229, 143,
    175, 228, 187, 165, 230, 141, 161]"

definition T_bottles_ex :: string where
  "T_bottles_ex = utf8 [228, 184, 170, 231, 147, 182, 229, 173, 144, 239, 188, 129]"

definition T_no_bottles_at_sea :: string where
  "T_no_bottles_at_sea = utf8 [230, 181, 183, 228, 184, 138, 231, 155, 174, 229, 137, 141,
    232, 191, 152, 230, 178, 161, 230, 156, 137, 230, 188, 130, 230, 181, 129, 231, 147, 182,
    229, 145, 162, 46, 46, 46]"

definition T_at_sea_now :: string where
  "T_at_sea_now = utf8 [229, 189, 147, 229, 137, 141, 230, 181, 183, 228, 184, 138, 230, 156,
    137, 32]"

definition T_bottles_sailing :: string where
  "T_bottles_sailing = utf8 [32, 228, 184, 170, 230, 188, 130, 230, 181, 129, 231, 147, 182,
    230, 173, 163, 229, 156, 168, 232, 191, 156, 232, 136, 170, 46, 46, 46]"

definition T_cmd_remaining :: string where
  "T_cmd_remaining = utf8 [229, 137, 169, 228, 189, 153, 230, 137, 147, 230, 141, 158, 230,
    172, 161, 230, 149, 176]"

definition T_cmd_parameters :: string where
  "T_cmd_parameters = utf8 [230, 188, 130, 230, 181, 129, 231, 147, 182, 229, 143, 130, 230,
    149, 176]"

definition T_cmd_at_sea :: string where
  "T_cmd_at_sea = utf8 [230, 181, 183, 228, 184, 138, 230, 188, 130, 230, 181, 129, 231, 147,
    182, 230, 149, 176, 233, 135, 143]"

definition T_cmd_throw :: string where
  "T_cmd_throw = utf8 [230, 137, 148, 230, 188, 130, 230, 181, 129, 231, 147, 182]"

definition T_cmd_throw2 :: string where
  "T_cmd_throw2 = utf8 [228, 184, 162, 230, 188, 130, 230, 181, 129, 231, 147, 182]"

definition T_cmd_pick :: string where
  "T_cmd_pick = utf8 [230, 141, 161, 230, 188, 130, 230, 181, 129, 231, 147, 182]"

definition T_cmd_pick2 :: string where
  "T_cmd_pick2 = utf8 [230, 141, 158, 230, 188, 130, 230, 181, 129, 231, 147, 182]"

definition T_cmd_hm_help :: string where
  "T_cmd_hm_help = utf8 [231, 140, 156, 229, 141, 149, 232, 175, 141, 229, 184, 174, 229, 138,
    169]"

definition T_hm_help_image :: string where
  "T_hm_help_image = utf8 [91, 67, 81, 58, 105, 109, 97, 103, 101, 44, 102, 105, 108, 101, 61,
    111, 115, 117, 99, 97, 116, 92, 104, 101, 108, 112, 92, 104, 97, 110, 103, 109, 97, 110,
    104, 101, 108, 112, 46, 112, 110, 103, 93]"

definition T_cmd_hm_status :: string where
  "T_cmd_hm_status = utf8 [231, 140, 156, 229, 141, 149, 232, 175, 141, 231, 138, 182, 230,
    128, 129]"

definition T_cmd_hm_ranking :: string where
  "T_cmd_hm_ranking = utf8 [231, 140, 156, 229, 141, 149, 232, 175, 141, 230, 142, 146, 232,
    161, 140, 230, 166, 156]"

definition T_cmd_hm_plus :: string where
  "T_cmd_hm_plus = utf8 [231, 140, 156, 229, 141, 149, 232, 175, 141, 43]"

definition T_cmd_hm :: string where
  "T_cmd_hm = utf8 [231, 140, 156, 229, 141, 149, 232, 175, 141]"

definition T_cmd_give_up :: string where
  "T_cmd_give_up = utf8 [230, 148, 190, 229, 188, 131]"

definition T_cmd_hm_mine :: string where
  "T_cmd_hm_mine = utf8 [230, 136, 145, 231, 154, 132, 231, 140, 156, 229, 141, 149, 232, 175,
    141]"

definition T_no_permission :: string where
  "T_no_permission = utf8 [230, 157, 131, 233, 153, 144, 228, 184, 141, 232, 182, 179]"

definition T_db_error :: string where
  "T_db_error = utf8 [232, 174, 191, 233, 151, 174, 230, 149, 176, 230, 141, 174, 229, 186,
    147, 230, 151, 182, 229, 135, 186, 231, 142, 176, 228, 186, 134, 228, 184, 128, 228, 184,
    170, 233, 148, 153, 232, 175, 175, 239, 188, 140, 232, 175, 183, 231, 168, 141, 229, 144,
    142, 233, 135, 141, 232, 175, 149, 46, 46, 46]"

definition T_mysql_error :: string where
  "T_mysql_error = utf8 [93, 10, 77, 121, 115, 113, 108, 229, 135, 186, 231, 142, 176, 233,
    148, 153, 232, 175, 175, 10, 233, 148, 153, 232, 175, 175, 228, 187, 163, 231, 160, 129,
    239, 188, 154]"

definition T_details :: string where
  "T_details = utf8 [10, 232, 175, 166, 231, 187, 134, 228, 191, 161, 230, 129, 175, 239, 188,
    154]"

definition T_api_timeout :: string where
  "T_api_timeout = utf8 [232, 174, 191, 233, 151, 174, 97, 112, 105, 230, 151, 182, 232, 182,
    133, 230, 151, 182, 46, 46, 46, 232, 175, 183, 231, 168, 141, 229, 144, 142, 233, 135,
    141, 232, 175, 149, 46, 46, 46]"

definition T_addons_error :: string where
  "T_addons_error = utf8 [97, 100, 100, 111, 110, 115, 230, 168, 161, 229, 157, 151, 229, 135,
    186, 231, 142, 176, 228, 186, 134, 228, 184, 128, 228, 184, 170, 230, 156, 170, 231, 159,
    165, 233, 148, 153, 232, 175, 175, 239, 188, 140, 232, 175, 183, 231, 168, 141, 229, 144,
    142, 233, 135, 141, 232, 175, 149, 46, 46, 46]"

definition T_std_caught :: string where
  "T_std_caught = utf8 [93, 10, 229, 183, 178, 230, 141, 149, 232, 142, 183, 115, 116, 100,
    58, 58, 101, 120, 99, 101, 112, 116, 105, 111, 110, 10, 230, 147, 141, 228, 189, 156, 232,
    128, 133, 239, 188, 154]"

definition T_trigger :: string where
  "T_trigger = utf8 [10, 232, 167, 166, 229, 143, 145, 230, 140, 135, 228, 187, 164, 239, 188,
    154]"

definition T_some_error :: string where
  "T_some_error = utf8 [229, 135, 186, 231, 142, 176, 228, 186, 134, 228, 184, 128, 228, 184,
    170, 230, 156, 170, 231, 159, 165, 233, 148, 153, 232, 175, 175, 239, 188, 140, 232, 175,
    183, 231, 168, 141, 229, 144, 142, 233, 135, 141, 232, 175, 149, 46, 46, 46]"

definition T_admins_updated :: string where
  "T_admins_updated = utf8 [231, 174, 161, 231, 144, 134, 229, 145, 152, 229, 136, 151, 232,
    161, 168, 229, 183, 178, 230, 155, 180, 230, 150, 176, 227, 128, 130]"

definition T_update_failed :: string where
  "T_update_failed = utf8 [230, 155, 180, 230, 150, 176, 229, 164, 177, 232, 180, 165, 46]"

definition T_cmd_calls :: string where
  "T_cmd_calls = utf8 [231, 140, 171, 231, 140, 171, 232, 176, 131, 231, 148, 168, 230, 172,
    161, 230, 149, 176]"

definition T_cmd_info_cn :: string where
  "T_cmd_info_cn = utf8 [229, 155, 160, 228, 189, 155]"

definition T_wide_bang :: string where
  "T_wide_bang = utf8 [239, 188, 129]"

definition T_colon :: string where
  "T_colon = utf8 [239, 188, 154]"

definition T_images :: string where
  "T_images = utf8 [92, 100, 97, 116, 97, 92, 105, 109, 97, 103, 101, 115, 92, 111, 115, 117,
    99, 97, 116, 92]"

definition T_user_name :: string where
  "T_user_name = utf8 [231, 148, 168, 230, 136, 183, 229, 144, 141, 239, 188, 154]"

definition T_word_masked :: string where
  "T_word_masked = utf8 [42, 232, 191, 157, 231, 166, 129, 232, 175, 141, 229, 177, 143, 232,
    148, 189, 42]"

definition T_real_name :: string where
  "T_real_name = utf8 [10, 231, 156, 159, 229, 174, 158, 229, 167, 147, 229, 144, 141, 239,
    188, 154]"

definition T_region :: string where
  "T_region = utf8 [10, 229, 156, 176, 229, 140, 186, 239, 188, 154]"

definition T_last_seen :: string where
  "T_last_seen = utf8 [10, 230, 156, 128, 229, 144, 142, 231, 153, 187, 229, 189, 149, 228,
    186, 142, 239, 188, 154]"

definition T_community_banned :: string where
  "T_community_banned = utf8 [10, 231, 148, 168, 230, 136, 183, 229, 189, 147, 229, 137, 141,
    229, 183, 178, 232, 162, 171, 231, 164, 190, 229, 140, 186, 229, 176, 129, 231, 166, 129]"

definition T_trade_banned :: string where
  "T_trade_banned = utf8 [10, 231, 148, 168, 230, 136, 183, 229, 189, 147, 229, 137, 141, 229,
    183, 178, 232, 162, 171, 231, 166, 129, 230, 173, 162, 228, 186, 164, 230, 152, 147]"

definition T_vac_yes :: string where
  "T_vac_yes = utf8 [10, 86, 65, 67, 229, 176, 129, 231, 166, 129, 239, 188, 154, 230, 152,
    175]"

definition T_game_yes :: string where
  "T_game_yes = utf8 [10, 230, 184, 184, 230, 136, 143, 229, 176, 129, 231, 166, 129, 239,
    188, 154, 230, 152, 175]"

definition T_vac_count :: string where
  "T_vac_count = utf8 [10, 86, 65, 67, 229, 176, 129, 231, 166, 129, 230, 172, 161, 230, 149,
    176, 239, 188, 154]"

definition T_game_count :: string where
  "T_game_count = utf8 [10, 230, 184, 184, 230, 136, 143, 229, 176, 129, 231, 166, 129, 230,
    172, 161, 230, 149, 176, 239, 188, 154]"

definition T_last_ban :: string where
  "T_last_ban = utf8 [10, 228, 184, 138, 230, 172, 161, 229, 176, 129, 231, 166, 129, 228,
    186, 142, 239, 188, 154]"

definition T_days_ago :: string where
  "T_days_ago = utf8 [32, 229, 164, 169, 229, 137, 141]"

definition T_clean_record :: string where
  "T_clean_record = utf8 [10, 232, 175, 165, 231, 148, 168, 230, 136, 183, 230, 151, 160, 228,
    187, 187, 228, 189, 149, 228, 184, 141, 232, 137, 175, 232, 174, 176, 229, 189, 149, 227,
    128, 130]"

definition T_custom_link :: string where
  "T_custom_link = utf8 [10, 232, 135, 170, 229, 174, 154, 228, 185, 137, 233, 147, 190, 230,
    142, 165, 239, 188, 154]"

definition T_home_link :: string where
  "T_home_link = utf8 [10, 228, 184, 187, 233, 161, 181, 233, 147, 190, 230, 142, 165, 239,
    188, 154]"

definition T_new_vac :: string where
  "T_new_vac = utf8 [230, 159, 165, 232, 175, 162, 229, 136, 176, 228, 184, 128, 233, 161,
    185, 230, 150, 176, 231, 154, 132, 86, 65, 67, 229, 176, 129, 231, 166, 129, 32, 232, 175,
    166, 231, 187, 134, 228, 191, 161, 230, 129, 175, 229, 166, 130, 228, 184, 139, 239, 188,
    154]"

definition T_new_game :: string where
  "T_new_game = utf8 [230, 159, 165, 232, 175, 162, 229, 136, 176, 228, 184, 128, 233, 161,
    185, 230, 150, 176, 231, 154, 132, 230, 184, 184, 230, 136, 143, 229, 176, 129, 231, 166,
    129, 32, 232, 175, 166, 231, 187, 134, 228, 191, 161, 230, 129, 175, 229, 166, 130, 228,
    184, 139, 239, 188, 154]"

definition T_listened_at :: string where
  "T_listened_at = utf8 [10, 10, 10, 232, 175, 165, 231, 148, 168, 230, 136, 183, 228, 186,
    142, 32]"

definition T_listen_over :: string where
  "T_listen_over = utf8 [32, 232, 162, 171, 230, 156, 128, 229, 144, 142, 228, 184, 128, 230,
    172, 161, 229, 138, 160, 229, 133, 165, 228, 186, 134, 231, 155, 145, 229, 144, 172, 229,
    136, 151, 232, 161, 168, 239, 188, 140, 232, 135, 179, 228, 187, 138, 229, 183, 178, 232,
    182, 133, 232, 191, 135, 50, 228, 184, 170, 230, 156, 136, 230, 156, 170, 230, 159, 165,
    232, 175, 162, 229, 136, 176, 230, 156, 137, 230, 150, 176, 229, 162, 158, 231, 154, 132,
    228, 189, 156, 229, 188, 138, 229, 176, 129, 231, 166, 129, 239, 188, 140, 229, 141, 179,
    233, 187, 152, 232, 174, 164, 230, 151, 160, 228, 189, 156, 229, 188, 138, 232, 161, 140,
    228, 184, 186, 239, 188, 140, 229, 176, 134, 228, 187, 142, 231, 155, 145, 229, 144, 172,
    229, 136, 151, 232, 161, 168, 228, 184, 173, 231, 167, 187, 233, 153, 164, 239, 188, 140,
    229, 166, 130, 231, 161, 174, 229, 174, 154, 229, 133, 182, 230, 156, 137, 228, 189, 156,
    229, 188, 138, 232, 161, 140, 228, 184, 186, 239, 188, 140, 232, 175, 183, 233, 135, 141,
    230, 150, 176, 230, 183, 187, 229, 138, 160, 232, 135, 179, 231, 155, 145, 229, 144, 172,
    229, 136, 151, 232, 161, 168, 227, 128, 130]"

definition T_steam_hint :: string where
  "T_steam_hint = utf8 [232, 175, 183, 230, 143, 144, 228, 190, 155, 232, 166, 129, 230, 159,
    165, 232, 175, 162, 231, 154, 132, 228, 191, 161, 230, 129, 175, 239, 188, 140, 85, 82,
    76, 47, 83, 116, 101, 97, 109, 73, 100, 47, 86, 97, 110, 105, 116, 121, 85, 82, 76, 47,
    86, 97, 110, 116, 105, 121, 85, 82, 76, 78, 97, 109, 101, 229, 157, 135, 229, 143, 175]"

definition T_steam_unknown :: string where
  "T_steam_unknown = utf8 [230, 156, 170, 230, 137, 190, 229, 136, 176, 230, 173, 164, 231,
    148, 168, 230, 136, 183]"

definition T_bad_link :: string where
  "T_bad_link = utf8 [230, 143, 144, 228, 190, 155, 231, 154, 132, 233, 147, 190, 230, 142,
    165, 230, 156, 137, 232, 175, 175]"

definition T_listen_group :: string where
  "T_listen_group = utf8 [231, 148, 168, 230, 136, 183, 229, 183, 178, 230, 136, 144, 229,
    138, 159, 230, 183, 187, 229, 138, 160, 229, 136, 176, 231, 155, 145, 229, 144, 172, 229,
    136, 151, 232, 161, 168, 239, 188, 140, 229, 176, 134, 228, 188, 154, 229, 156, 168, 229,
    133, 182, 229, 143, 151, 229, 136, 176, 229, 176, 129, 231, 166, 129, 229, 144, 142, 230,
    142, 168, 233, 128, 129, 232, 135, 179, 230, 156, 172, 231, 190, 164]"

definition T_listen_private_too :: string where
  "T_listen_private_too = utf8 [232, 175, 165, 231, 148, 168, 230, 136, 183, 229, 183, 178,
    229, 173, 152, 229, 156, 168, 228, 186, 142, 231, 190, 164, 230, 142, 168, 233, 128, 129,
    229, 136, 151, 232, 161, 168, 228, 184, 173, 239, 188, 140, 229, 183, 178, 229, 176, 134,
    229, 133, 182, 229, 138, 160, 229, 133, 165, 230, 130, 168, 231, 154, 132, 231, 167, 129,
    232, 129, 138, 230, 142, 168, 233, 128, 129, 229, 136, 151, 232, 161, 168]"

definition T_listen_known :: string where
  "T_listen_known = utf8 [232, 175, 165, 231, 148, 168, 230, 136, 183, 229, 183, 178, 229,
    173, 152, 229, 156, 168, 228, 186, 142, 230, 130, 168, 231, 154, 132, 230, 142, 168, 233,
    128, 129, 229, 136, 151, 232, 161, 168, 228, 184, 173]"

definition T_listen_private :: string where
  "T_listen_private = utf8 [231, 148, 168, 230, 136, 183, 229, 183, 178, 230, 136, 144, 229,
    138, 159, 230, 183, 187, 229, 138, 160, 229, 136, 176, 231, 155, 145, 229, 144, 172, 229,
    136, 151, 232, 161, 168, 239, 188, 140, 229, 176, 134, 228, 188, 154, 229, 156, 168, 229,
    133, 182, 229, 143, 151, 229, 136, 176, 229, 176, 129, 231, 166, 129, 229, 144, 142, 233,
    128, 154, 232, 191, 135, 231, 167, 129, 232, 129, 138, 230, 142, 168, 233, 128, 129]"

definition T_queried_not_bound :: string where
  "T_queried_not_bound = utf8 [116, 97, 232, 191, 152, 230, 178, 161, 230, 156, 137, 231, 187,
    145, 229, 174, 154, 228, 187, 150, 231, 154, 132, 232, 180, 166, 230, 136, 183, 239, 188,
    140, 232, 175, 183, 232, 174, 169, 116, 97, 228, 189, 191, 231, 148, 168, 32, 33, 32, 115,
    101, 116, 105, 100, 32, 105, 100, 230, 157, 165, 231, 187, 145, 229, 174, 154, 229, 147,
    166, 226, 128, 148, 226, 128, 148]"

definition T_queried_banned :: string where
  "T_queried_banned = utf8 [232, 162, 171, 229, 138, 158, 228, 186, 134, 227, 128, 130]"

definition T_no_score_here :: string where
  "T_no_score_here = utf8 [228, 189, 160, 229, 156, 168, 232, 191, 153, 229, 188, 160, 232,
    176, 177, 233, 157, 162, 228, 184, 138, 232, 191, 152, 230, 178, 161, 230, 156, 137, 230,
    136, 144, 231, 187, 169, 229, 145, 162, 227, 128, 130]"

definition T_map_error :: string where
  "T_map_error = utf8 [229, 156, 168, 232, 142, 183, 229, 143, 150, 66, 101, 97, 116, 109, 97,
    112, 228, 191, 161, 230, 129, 175, 230, 151, 182, 229, 143, 145, 231, 148, 159, 228, 186,
    134, 228, 184, 128, 228, 186, 155, 233, 148, 153, 232, 175, 175, 239, 188, 140, 232, 175,
    183, 231, 168, 141, 229, 144, 142, 229, 134, 141, 232, 175, 149, 227, 128, 130]"

definition T_banner_help :: string where
  "T_banner_help = utf8 [232, 175, 183, 233, 153, 132, 228, 184, 138, 228, 189, 160, 230, 131,
    179, 230, 155, 191, 230, 141, 162, 231, 154, 132, 232, 131, 140, 230, 153, 175, 239, 188,
    129, 10, 232, 131, 140, 230, 153, 175, 231, 154, 132, 229, 176, 186, 229, 175, 184, 228,
    184, 186, 49, 50, 48, 48, 120, 51, 53, 48, 239, 188, 140, 230, 137, 128, 228, 187, 165,
    229, 187, 186, 232, 174, 174, 228, 184, 138, 228, 188, 160, 231, 154, 132, 229, 164, 167,
    229, 176, 143, 228, 185, 159, 228, 184, 186, 49, 50, 48, 48, 120, 51, 52, 48, 33, 10, 232,
    182, 133, 229, 135, 186, 230, 173, 164, 229, 164, 167, 229, 176, 143, 229, 143, 175, 232,
    131, 189, 228, 188, 154, 229, 155, 160, 228, 184, 186, 233, 157, 158, 229, 184, 184, 229,
    188, 177, 230, 153, 186, 231, 154, 132, 232, 135, 170, 229, 138, 168, 232, 163, 129, 229,
    137, 170, 231, 132, 182, 229, 144, 142, 233, 128, 160, 230, 136, 144, 228, 184, 128, 228,
    186, 155, 232, 167, 134, 232, 167, 137, 228, 189, 147, 233, 170, 140, 228, 184, 138, 231,
    154, 132, 233, 151, 174, 233, 162, 152, 46, 46, 46]"

definition T_panel_help :: string where
  "T_panel_help = utf8 [232, 175, 183, 233, 153, 132, 228, 184, 138, 228, 189, 160, 230, 131,
    179, 230, 155, 191, 230, 141, 162, 231, 154, 132, 233, 157, 162, 230, 157, 191, 229, 155,
    190, 229, 131, 143, 239, 188, 129, 233, 157, 162, 230, 157, 191, 229, 155, 190, 229, 131,
    143, 230, 168, 161, 230, 157, 191, 231, 154, 132, 228, 184, 139, 232, 189, 189, 229, 156,
    176, 229, 157, 128, 228, 184, 186, 239, 188, 154, 10, 104, 116, 116, 112, 115, 58, 47, 47,
    112, 97, 110, 46, 98, 97, 105, 100, 117, 46, 99, 111, 109, 47, 115, 47, 49, 70, 86, 107,
    89, 68, 51, 78, 114, 52, 105, 89, 90, 70, 114, 107, 117, 66, 98, 51, 109, 54, 103, 32,
    230, 143, 144, 229, 143, 150, 231, 160, 129, 115, 50, 100, 54, 10, 232, 175, 183, 229,
    138, 161, 229, 191, 133, 228, 189, 191, 231, 148, 168, 230, 173, 164, 230, 168, 161, 230,
    157, 191, 232, 191, 155, 232, 161, 140, 230, 155, 191, 230, 141, 162, 239, 188, 129, 228,
    184, 138, 228, 188, 160, 230, 151, 182, 232, 175, 183, 233, 154, 144, 232, 151, 143, 230,
    136, 150, 229, 136, 160, 233, 153, 164, 230, 168, 161, 230, 157, 191, 228, 184, 173, 232,
    135, 170, 229, 184, 166, 231, 154, 132, 116, 101, 115, 116, 95, 98, 103, 231, 187, 132,
    239, 188, 140, 229, 144, 166, 229, 136, 153, 228, 188, 154, 232, 166, 134, 231, 155, 150,
    230, 142, 137, 229, 183, 178, 228, 184, 138, 228, 188, 160, 231, 154, 132, 98, 97, 110,
    110, 101, 114, 239, 188, 140, 229, 189, 147, 231, 132, 182, 228, 185, 159, 229, 143, 175,
    228, 187, 165, 232, 135, 170, 229, 183, 177, 232, 174, 190, 229, 174, 154, 98, 103, 232,
    128, 140, 230, 151, 160, 232, 167, 134, 229, 183, 178, 228, 184, 138, 228, 188, 160, 231,
    154, 132, 98, 97, 110, 110, 101, 114, 32, 126, 229, 143, 166, 229, 164, 150, 239, 188,
    140, 232, 175, 183, 232, 190, 147, 229, 135, 186, 228, 184, 186, 80, 78, 71, 230, 160,
    188, 229, 188, 143, 239, 188, 129, 232, 175, 183, 232, 190, 147, 229, 135, 186, 228, 184,
    186, 80, 78, 71, 230, 160, 188, 229, 188, 143, 239, 188, 129, 232, 175, 183, 232, 190,
    147, 229, 135, 186, 228, 184, 186, 80, 78, 71, 230, 160, 188, 229, 188, 143, 239, 188,
    129, 10, 232, 190, 147, 229, 135, 186, 228, 184, 186, 74, 101, 112, 103, 230, 160, 188,
    229, 188, 143, 228, 188, 154, 231, 148, 177, 228, 186, 142, 230, 178, 161, 230, 156, 137,
    233, 128, 143, 230, 152, 142, 233, 128, 154, 233, 129, 147, 232, 128, 140, 229, 175, 188,
    232, 135, 180, 98, 97, 110, 110, 101, 114, 232, 162, 171, 232, 166, 134, 231, 155, 150,
    239, 188, 129, 32]"

definition T_picture_error :: string where
  "T_picture_error = utf8 [230, 142, 165, 230, 148, 182, 229, 155, 190, 231, 137, 135, 229,
    164, 177, 232, 180, 165, 239, 188, 140, 232, 175, 183, 231, 168, 141, 229, 144, 142, 229,
    134, 141, 232, 175, 149, 46, 46, 46, 10, 229, 166, 130, 229, 164, 154, 230, 172, 161, 228,
    184, 138, 228, 188, 160, 229, 164, 177, 232, 180, 165, 239, 188, 140, 232, 175, 183, 229,
    138, 160, 231, 190, 164, 50, 49, 55, 52, 53, 49, 50, 52, 49, 232, 129, 148, 231, 179, 187,
    231, 174, 161, 231, 144, 134, 229, 145, 152, 230, 137, 139, 229, 138, 168, 228, 191, 174,
    230, 148, 185, 46, 46]"

definition T_uploaded :: string where
  "T_uploaded = utf8 [229, 183, 178, 230, 136, 144, 229, 138, 159, 228, 184, 138, 228, 188,
    160, 239, 188, 140, 232, 175, 183, 232, 128, 144, 229, 191, 131, 231, 173, 137, 229, 190,
    133, 229, 174, 161, 230, 160, 184, 126]"

definition T_panel_wrong :: string where
  "T_panel_wrong = utf8 [232, 175, 183, 228, 184, 138, 228, 188, 160, 230, 173, 163, 231, 161,
    174, 231, 154, 132, 73, 110, 102, 111, 233, 157, 162, 230, 157, 191, 239, 188, 129, 10,
    228, 189, 160, 230, 152, 175, 229, 144, 166, 228, 189, 191, 231, 148, 168, 228, 186, 134,
    230, 137, 128, 230, 143, 144, 228, 190, 155, 231, 154, 132, 233, 157, 162, 230, 157, 191,
    230, 168, 161, 230, 157, 191, 239, 188, 140, 228, 184, 148, 231, 161, 174, 228, 191, 157,
    232, 190, 147, 229, 135, 186, 230, 160, 188, 229, 188, 143, 228, 184, 186, 112, 110, 103,
    63]"

definition T_no_bp :: string where
  "T_no_bp = utf8 [228, 189, 160, 232, 191, 152, 230, 178, 161, 230, 156, 137, 232, 191, 153,
    228, 185, 136, 229, 164, 154, 98, 112, 229, 145, 162, 239, 188, 129]"

definition T_no_bp_other :: string where
  "T_no_bp_other = utf8 [228, 187, 150, 232, 191, 152, 230, 178, 161, 230, 156, 137, 232, 191,
    153, 228, 185, 136, 229, 164, 154, 98, 112, 229, 145, 162, 239, 188, 129]"

definition T_info_alias :: string where
  "T_info_alias = utf8 [229, 155, 160, 228, 189, 155]"

definition T_no_data_of_day :: string where
  "T_no_data_of_day = utf8 [232, 175, 183, 230, 177, 130, 231, 154, 132, 230, 151, 165, 230,
    156, 159, 230, 178, 161, 230, 156, 137, 230, 149, 176, 230, 141, 174, 46, 46, 46]"

definition T_no_record_found :: string where
  "T_no_record_found = utf8 [230, 178, 161, 230, 156, 137, 230, 137, 190, 229, 136, 176, 232,
    174, 176, 229, 189, 149, 46, 46, 46]"

definition T_you_in_mode :: string where
  "T_you_in_mode = utf8 [228, 189, 160, 230, 156, 128, 232, 191, 145, 229, 156, 168, 230, 168,
    161, 229, 188, 143]"

definition T_they_in_mode :: string where
  "T_they_in_mode = utf8 [84, 65, 230, 156, 128, 232, 191, 145, 229, 156, 168, 230, 168, 161,
    229, 188, 143]"

definition T_no_plays :: string where
  "T_no_plays = utf8 [228, 184, 138, 230, 178, 161, 230, 156, 137, 230, 184, 184, 231, 142,
    169, 232, 174, 176, 229, 189, 149, 126]"

definition T_no_passes :: string where
  "T_no_passes = utf8 [228, 184, 138, 230, 178, 161, 230, 156, 137, 80, 97, 115, 115, 231,
    154, 132, 230, 184, 184, 231, 142, 169, 232, 174, 176, 229, 189, 149, 126]"

definition T_not_in_mode :: string where
  "T_not_in_mode = utf8 [230, 178, 161, 232, 191, 153, 228, 184, 170, 228, 186, 186, 230, 136,
    150, 232, 128, 133, 84, 65, 230, 160, 185, 230, 156, 172, 228, 184, 141, 231, 142, 169,
    232, 191, 153, 228, 184, 170, 230, 168, 161, 229, 188, 143, 239, 188, 129]"

definition T_bid_please :: string where
  "T_bid_please = utf8 [233, 131, 189, 232, 175, 180, 229, 149, 166, 230, 154, 130, 230, 151,
    182, 228, 184, 141, 230, 148, 175, 230, 140, 129, 230, 150, 135, 229, 173, 151, 230, 159,
    165, 232, 175, 162, 229, 149, 166, 239, 188, 140, 232, 175, 183, 232, 190, 147, 229, 133,
    165, 98, 105, 100, 230, 157, 165, 230, 159, 165, 232, 175, 162, 126]"

definition T_praying :: string where
  "T_praying = utf8 [229, 176, 145, 229, 165, 179, 231, 165, 136, 231, 165, 183, 228, 184,
    173, 46, 46, 46]"

definition T_pplus_failed :: string where
  "T_pplus_failed = utf8 [230, 155, 180, 230, 150, 176, 112, 112, 43, 229, 164, 177, 232, 180,
    165, 46, 46, 46]"

definition T_valid_bid :: string where
  "T_valid_bid = utf8 [232, 175, 183, 233, 148, 174, 229, 133, 165, 230, 173, 163, 231, 161,
    174, 231, 154, 132, 98, 105, 100, 33]"

definition T_only_standard :: string where
  "T_only_standard = utf8 [230, 154, 130, 228, 184, 141, 230, 148, 175, 230, 140, 129, 233,
    153, 164, 83, 116, 97, 110, 100, 97, 114, 100, 230, 168, 161, 229, 188, 143, 228, 187,
    165, 229, 164, 150, 231, 154, 132, 229, 133, 182, 229, 174, 131, 230, 168, 161, 229, 188,
    143, 227, 128, 130]"

definition T_score_first :: string where
  "T_score_first = utf8 [228, 189, 160, 232, 191, 152, 230, 178, 161, 230, 156, 137, 230, 159,
    165, 232, 175, 162, 232, 191, 135, 230, 136, 144, 231, 187, 169, 239, 188, 140, 232, 175,
    183, 229, 133, 136, 230, 159, 165, 232, 175, 162, 230, 136, 144, 231, 187, 169, 229, 144,
    142, 229, 156, 168, 230, 157, 165, 228, 189, 191, 231, 148, 168, 232, 191, 153, 230, 157,
    161, 230, 140, 135, 228, 187, 164]"

definition T_bad_mods :: string where
  "T_bad_mods = utf8 [229, 143, 130, 230, 149, 176, 228, 184, 141, 230, 173, 163, 231, 161,
    174]"

definition T_times_sign :: string where
  "T_times_sign = utf8 [195, 151]"

definition T_play_more :: string where
  "T_play_more = utf8 [229, 164, 154, 230, 137, 147, 228, 184, 128, 230, 137, 147, 232, 191,
    153, 228, 184, 170, 230, 168, 161, 229, 188, 143, 229, 134, 141, 230, 157, 165, 228, 189,
    191, 231, 148, 168, 230, 173, 164, 229, 145, 189, 228, 187, 164, 229, 150, 148, 126]"

definition T_your_bp :: string where
  "T_your_bp = utf8 [228, 189, 160, 231, 154, 132, 98, 112, 35]"

definition T_has_pp :: string where
  "T_has_pp = utf8 [230, 156, 137, 32]"

definition T_pp_comma :: string where
  "T_pp_comma = utf8 [32, 112, 112, 239, 188, 140, 10]"

definition T_pp_gap :: string where
  "T_pp_gap = utf8 [228, 189, 160, 98, 112, 49, 228, 184, 142, 98, 112, 49, 48, 48, 231, 155,
    184, 229, 183, 174, 228, 186, 134, 230, 156, 137, 32]"

definition T_pp_average :: string where
  "T_pp_average = utf8 [228, 189, 160, 231, 154, 132, 98, 112, 230, 166, 156, 228, 184, 138,
    230, 137, 128, 230, 156, 137, 230, 136, 144, 231, 187, 169, 231, 154, 132, 229, 185, 179,
    229, 157, 135, 229, 128, 188, 228, 184, 186, 32]"

definition T_pp_end :: string where
  "T_pp_end = utf8 [32, 112, 112, 227, 128, 130]"

definition T_give_opponent :: string where
  "T_give_opponent = utf8 [232, 175, 183, 230, 143, 144, 228, 190, 155, 232, 166, 129, 229,
    175, 185, 230, 175, 148, 231, 154, 132, 231, 142, 169, 229, 174, 182, 73, 68]"

definition T_occ :: string where
  "T_occ = utf8 [229, 156, 168, 231, 140, 171, 231, 140, 171, 230, 157, 175, 83, 49, 228, 184,
    173, 239, 188, 140]"

definition T_cost_is :: string where
  "T_cost_is = utf8 [32, 231, 154, 132, 99, 111, 115, 116, 228, 184, 186, 239, 188, 154]"

definition T_onc :: string where
  "T_onc = utf8 [229, 156, 168, 79, 78, 67, 228, 184, 173, 239, 188, 140]"

definition T_not_in_range :: string where
  "T_not_in_range = utf8 [232, 175, 165, 231, 142, 169, 229, 174, 182, 228, 184, 141, 229,
    156, 168, 229, 143, 130, 232, 181, 155, 232, 140, 131, 229, 155, 180, 229, 134, 133]"

definition T_ost :: string where
  "T_ost = utf8 [229, 156, 168, 79, 83, 84, 228, 184, 173, 239, 188, 140]"

definition T_elo_failed :: string where
  "T_elo_failed = utf8 [232, 142, 183, 229, 143, 150, 101, 108, 111, 229, 164, 177, 232, 180,
    165, 239, 188, 140, 232, 175, 183, 233, 135, 141, 232, 175, 149, 227, 128, 130, 227, 128,
    130]"

definition T_which_match :: string where
  "T_which_match = utf8 [232, 175, 183, 232, 190, 147, 229, 133, 165, 232, 166, 129, 230, 159,
    165, 232, 175, 162, 99, 111, 115, 116, 231, 154, 132, 230, 175, 148, 232, 181, 155, 229,
    144, 141]"

definition T_uid_is :: string where
  "T_uid_is = utf8 [32, 231, 154, 132, 111, 115, 117, 33, 117, 105, 100, 228, 184, 186, 32]"

definition T_no_scores_you :: string where
  "T_no_scores_you = utf8 [228, 189, 160, 229, 156, 168, 230, 173, 164, 230, 168, 161, 229,
    188, 143, 228, 184, 138, 232, 191, 152, 230, 178, 161, 230, 156, 137, 230, 136, 144, 231,
    187, 169, 229, 145, 162, 227, 128, 130]"

definition T_no_scores_they :: string where
  "T_no_scores_they = utf8 [116, 97, 229, 156, 168, 230, 173, 164, 230, 168, 161, 229, 188,
    143, 228, 184, 138, 232, 191, 152, 230, 178, 161, 230, 156, 137, 230, 136, 144, 231, 187,
    169, 229, 145, 162, 227, 128, 130]"

definition T_total_pp :: string where
  "T_total_pp = utf8 [41, 10, 230, 128, 187, 80, 80, 239, 188, 154]"

definition T_raw_pp :: string where
  "T_raw_pp = utf8 [10, 229, 142, 159, 229, 167, 139, 80, 80, 239, 188, 154]"

definition T_bonus_pp :: string where
  "T_bonus_pp = utf8 [10, 66, 111, 110, 117, 115, 32, 80, 80, 239, 188, 154]"

definition T_computed :: string where
  "T_computed = utf8 [10, 229, 133, 177, 232, 174, 161, 231, 174, 151, 229, 135, 186, 32]"

definition T_ranked_scores :: string where
  "T_ranked_scores = utf8 [32, 228, 184, 170, 232, 162, 171, 232, 174, 176, 229, 189, 149,
    231, 154, 132, 114, 97, 110, 107, 101, 100, 232, 176, 177, 233, 157, 162, 230, 136, 144,
    231, 187, 169, 227, 128, 130]"

definition T_new_banner :: string where
  "T_new_banner = utf8 [230, 156, 137, 228, 184, 128, 228, 184, 170, 230, 150, 176, 231, 154,
    132, 98, 97, 110, 110, 101, 114, 232, 162, 171, 228, 184, 138, 228, 188, 160, 239, 188,
    140, 230, 147, 141, 228, 189, 156, 232, 128, 133, 85, 73, 68, 239, 188, 154]"

definition T_operator_qq :: string where
  "T_operator_qq = utf8 [10, 230, 147, 141, 228, 189, 156, 232, 128, 133, 81, 81, 239, 188,
    154]"

definition T_check_banner :: string where
  "T_check_banner = utf8 [32, 44, 232, 175, 183, 229, 176, 189, 229, 191, 171, 229, 174, 161,
    230, 160, 184, 229, 147, 166, 227, 128, 130, 13, 10, 98, 97, 110, 110, 101, 114, 229, 134,
    133, 229, 174, 185, 239, 188, 154, 13, 10]"

definition T_new_panel :: string where
  "T_new_panel = utf8 [230, 156, 137, 228, 184, 128, 228, 184, 170, 230, 150, 176, 231, 154,
    132, 73, 110, 102, 111, 80, 97, 110, 101, 108, 232, 162, 171, 228, 184, 138, 228, 188,
    160, 239, 188, 140, 230, 147, 141, 228, 189, 156, 232, 128, 133, 85, 73, 68, 239, 188,
    154]"

definition T_check_panel :: string where
  "T_check_panel = utf8 [32, 44, 232, 175, 183, 229, 176, 189, 229, 191, 171, 229, 174, 161,
    230, 160, 184, 229, 147, 166, 227, 128, 130, 13, 10, 73, 110, 102, 111, 80, 97, 110, 101,
    108, 229, 134, 133, 229, 174, 185, 239, 188, 154, 13, 10]"

definition T_unknown_error_here :: string where
  "T_unknown_error_here = utf8 [229, 143, 145, 231, 148, 159, 228, 186, 134, 228, 184, 128,
    228, 184, 170, 230, 156, 170, 231, 159, 165, 233, 148, 153, 232, 175, 175]"

definition T_updating :: string where
  "T_updating = utf8 [230, 173, 163, 229, 156, 168, 229, 144, 175, 229, 138, 168, 230, 155,
    180, 230, 150, 176]"

definition T_administrator :: string where
  "T_administrator = utf8 [231, 174, 161, 231, 144, 134, 229, 145, 152, 32]"

definition T_by_hand :: string where
  "T_by_hand = utf8 [32, 230, 137, 139, 229, 138, 168, 229, 143, 145, 232, 181, 183, 228, 186,
    134, 230, 175, 143, 230, 151, 165, 230, 155, 180, 230, 150, 176, 32, 230, 173, 163, 229,
    156, 168, 229, 144, 175, 229, 138, 168, 230, 155, 180, 230, 150, 176]"

definition T_updated_all :: string where
  "T_updated_all = utf8 [229, 183, 178, 229, 174, 140, 230, 136, 144, 239, 188, 140, 228, 184,
    128, 229, 133, 177, 230, 155, 180, 230, 150, 176, 228, 186, 134, 32]"

definition T_users_in :: string where
  "T_users_in = utf8 [32, 228, 184, 170, 231, 148, 168, 230, 136, 183, 231, 154, 132, 230,
    149, 176, 230, 141, 174, 239, 188, 140, 229, 133, 177, 232, 128, 151, 230, 151, 182, 32]"

definition T_word_t0 :: string where
  "T_word_t0 = utf8 [230, 132, 155, 230, 182, 178]"

definition T_word_t1 :: string where
  "T_word_t1 = utf8 [230, 140, 137, 230, 145, 169, 230, 163, 146]"

definition T_word_t2 :: string where
  "T_word_t2 = utf8 [230, 139, 148, 229, 135, 186, 228, 190, 134]"

definition T_word_t3 :: string where
  "T_word_t3 = utf8 [231, 136, 134, 232, 141, 137]"

definition T_word_t4 :: string where
  "T_word_t4 = utf8 [229, 140, 133, 228, 186, 140, 229, 165, 182]"

definition T_word_t5 :: string where
  "T_word_t5 = utf8 [230, 154, 180, 229, 185, 185]"

definition T_word_t6 :: string where
  "T_word_t6 = utf8 [230, 154, 180, 229, 167, 166]"

definition T_word_s0 :: string where
  "T_word_s0 = utf8 [231, 136, 177, 230, 182, 178]"

definition T_word_s1 :: string where
  "T_word_s1 = utf8 [230, 140, 137, 230, 145, 169, 230, 163, 146]"

definition T_word_s2 :: string where
  "T_word_s2 = utf8 [230, 139, 148, 229, 135, 186, 230, 157, 165]"

definition T_word_s3 :: string where
  "T_word_s3 = utf8 [231, 136, 134, 232, 141, 137]"

definition T_word_s4 :: string where
  "T_word_s4 = utf8 [229, 140, 133, 228, 186, 140, 229, 165, 182]"

definition T_word_s5 :: string where
  "T_word_s5 = utf8 [230, 154, 180, 229, 185, 178]"

definition T_word_s6 :: string where
  "T_word_s6 = utf8 [230, 154, 180, 229, 165, 184]"

definition T_word_x0 :: string where
  "T_word_x0 = utf8 [239, 184, 191]"

definition T_word_x1 :: string where
  "T_word_x1 = utf8 [239, 188, 137, 195, 183, 239, 188, 136, 239, 188, 145, 239, 188, 141]"

definition T_word_x2 :: string where
  "T_word_x2 = utf8 [239, 188, 137, 227, 128, 129]"

definition T_word_x3 :: string where
  "T_word_x3 = utf8 [239, 188, 139, 206, 190]"

definition T_pic_up :: string where
  "T_pic_up = utf8 [226, 134, 145, 32]"

definition T_pic_down :: string where
  "T_pic_down = utf8 [226, 134, 147, 32]"

definition T_pic_unchanged :: string where
  "T_pic_unchanged = utf8 [226, 134, 145, 32, 45]"

definition T_pic_compared :: string where
  "T_pic_compared = utf8 [229, 175, 185, 230, 175, 148, 232, 135, 170]"

definition T_pic_days_ago :: string where
  "T_pic_days_ago = utf8 [229, 164, 169, 229, 137, 141]"

definition T_pic_no_such_day :: string where
  "T_pic_no_such_day = utf8 [232, 175, 183, 230, 177, 130, 231, 154, 132, 230, 151, 165, 230,
    156, 159, 230, 178, 161, 230, 156, 137, 230, 149, 176, 230, 141, 174, 46, 46, 229, 189,
    147, 229, 137, 141, 230, 149, 176, 230, 141, 174, 229, 175, 185, 230, 175, 148, 232, 135,
    170]"

end
