(* ===== verification/Store.thy ===== *)
theory Store
  imports Database OsuApi BotText
begin

text \<open>
  \<^verbatim>\<open>src/include/mysql.hpp\<close>, continued: the records of the players, the settings of the groups, the
  medals, the drifting bottles and the bans of players of CS:GO. The clock and the generator of
  random numbers are functions of what has been sent so far, so that two readings with a
  statement between them may differ; \<^verbatim>\<open>localtime\<close> with \<^verbatim>\<open>strftime\<close> is a function of the format and the
  time. \<open>db_fresh_csgo\<close> is an indeterminate local variable.
\<close>

record CSGOUserInfo =
  cs_SteamId :: int
  cs_Available :: bool
  cs_VACBanCount :: int
  cs_GameBanCount :: int
  cs_ReceiveUserId :: string
  cs_ReceiveGroupId :: string
  cs_ListenTime :: int

record dbenv =
  db_server :: server
  db_time :: "string list \<Rightarrow> int"
  db_rand :: "string list \<Rightarrow> int"
  db_strftime :: "string \<Rightarrow> int \<Rightarrow> string"
  db_libm :: libm
  db_api :: api
  db_fresh_csgo :: CSGOUserInfo

subsection \<open>Statements and their answers\<close>

text \<open>\<^verbatim>\<open>try { m } catch (osucat::database_exception) { h }\<close>\<close>

definition tryS :: "'a statement \<Rightarrow> 'a statement \<Rightarrow> 'a statement" where
  "tryS m h l = (case m l of (l, Inl DatabaseError) \<Rightarrow> h l | r \<Rightarrow> r)"

definition timeS :: "dbenv \<Rightarrow> int statement" where
  "timeS E l = (l, Inr (db_time E l))"

definition definedS :: "'a option \<Rightarrow> 'a statement" where
  "definedS v l = (l, case v of None \<Rightarrow> Inl Undefined | Some x \<Rightarrow> Inr x)"

definition retS :: "'a \<Rightarrow> 'a statement" where
  "retS x = pureS (Inr x)"

text \<open>A member of the first row, as a text and as a number.\<close>

definition text0 :: "string \<Rightarrow> json list \<Rightarrow> string statement" where
  "text0 k js = pureS (andThen (element0 (JArray js)) (\<lambda>r. text_at r k))"

definition num0 :: "(string \<Rightarrow> 'a thrown) \<Rightarrow> string \<Rightarrow> json list \<Rightarrow> 'a statement" where
  "num0 conv k js = pureS (andThen (element0 (JArray js)) (\<lambda>r. number_at conv r k))"

definition sprintfS :: "nat \<Rightarrow> string \<Rightarrow> string statement" where
  "sprintfS n s = pureS (if length s < n then Inr s else Inl Aborted)"

text \<open>\<^verbatim>\<open>EOF\<close>\<close>

definition EOF :: int where "EOF = - 1"

definition DAY :: int where "DAY = 86400"

definition in_quotes :: "string \<Rightarrow> string" where
  "in_quotes s = DQUOTE # s @ [DQUOTE]"

subsection \<open>Players\<close>

record pplus_info =
  pl_jump :: int
  pl_flow :: int
  pl_pre :: int
  pl_acc :: int
  pl_spd :: int
  pl_sta :: int

definition AddUserData :: "dbenv \<Rightarrow> user_info \<Rightarrow> string \<Rightarrow> unit statement" where
  "AddUserData E info timeStr = bindS (sprintfS 8192
     (''insert into osu_user_records values ('' @ print_int (ui_user_id info) @ '','' @ print_int (ui_n300 info) @ '','' @
      print_int (ui_n100 info) @ '','' @ print_int (ui_n50 info) @ '','' @ print_int (ui_playcount info) @ '','' @
      print_int (ui_ranked_score info) @ '','' @ print_int (ui_total_score info) @ '','' @
      print_fixed 2 (ui_level info) @ '','' @ print_fixed 2 (ui_pp info) @ '','' @ print_fixed 2 (ui_accuracy info) @ '','' @
      print_int (ui_count_ss info) @ '','' @ print_int (ui_count_ssh info) @ '','' @ print_int (ui_count_s info) @ '','' @
      print_int (ui_count_sh info) @ '','' @ print_int (ui_count_a info) @ '','' @ print_int (ui_playtime info) @ '','' @
      print_int (ui_country_rank info) @ '','' @ print_int (ui_global_rank info) @ '','' @ print_int (ui_mode info) @ '','' @
      in_quotes timeStr @ '')'')) (Insert (db_server E))"

definition osu_GetUserPreviousPP :: "dbenv \<Rightarrow> int \<Rightarrow> fp statement" where
  "osu_GetUserPreviousPP E uid = tryS
     (bindS (Select (db_server E) (''select pp from osu_pplus where uid='' @ print_int uid)) (num0 stof ''pp''))
     (retS (Num 0))"

definition osu_UpdatePPlus :: "dbenv \<Rightarrow> int \<Rightarrow> fp \<Rightarrow> pplus_info \<Rightarrow> unit statement" where
  "osu_UpdatePPlus E uid pp pl = bindS (osu_GetUserPreviousPP E uid) (\<lambda>previous.
     if feq previous (Num 0) then
       Insert (db_server E) (''insert into osu_pplus (uid, pp, jump, flow, pre, acc, spd, sta) values ('' @
         print_int uid @ '', '' @ print_double pp @ '', '' @ print_int (pl_jump pl) @ '', '' @
         print_int (pl_flow pl) @ '', '' @ print_int (pl_pre pl) @ '', '' @ print_int (pl_acc pl) @ '', '' @
         print_int (pl_spd pl) @ '', '' @ print_int (pl_sta pl) @ '')'')
     else
       Update (db_server E) (''update osu_pplus set pp='' @ print_double pp @ '',jump='' @ print_int (pl_jump pl) @
         '',flow='' @ print_int (pl_flow pl) @ '',pre='' @ print_int (pl_pre pl) @ '',acc='' @
         print_int (pl_acc pl) @ '',spd='' @ print_int (pl_spd pl) @ '',sta='' @ print_int (pl_sta pl) @
         '' where uid='' @ print_int uid))"

definition osu_GetUserDefaultGameMode :: "dbenv \<Rightarrow> int \<Rightarrow> int statement" where
  "osu_GetUserDefaultGameMode E uid = tryS
     (bindS (Select (db_server E) (''select mode from osu_user_list where uid='' @ print_int uid)) (num0 stoi ''mode''))
     (retS 0)"

text \<open>The record behind the pointer keeps what was assigned before a conversion threw.\<close>

definition fillS :: "(json \<Rightarrow> 's step list) \<Rightarrow> json list \<Rightarrow> nat \<Rightarrow> 's \<Rightarrow> ('s \<times> exn option) statement" where
  "fillS body js i s = retS (run (body (js ! i)) s)"

definition pplus_fields :: "json \<Rightarrow> pplus_info step list" where
  "pplus_fields d =
     [assign (number_at stoi d ''acc'') (\<lambda>x s. s\<lparr>pl_acc := x\<rparr>),
      assign (number_at stoi d ''flow'') (\<lambda>x s. s\<lparr>pl_flow := x\<rparr>),
      assign (number_at stoi d ''spd'') (\<lambda>x s. s\<lparr>pl_spd := x\<rparr>),
      assign (number_at stoi d ''sta'') (\<lambda>x s. s\<lparr>pl_sta := x\<rparr>),
      assign (number_at stoi d ''pre'') (\<lambda>x s. s\<lparr>pl_pre := x\<rparr>),
      assign (number_at stoi d ''jump'') (\<lambda>x s. s\<lparr>pl_jump := x\<rparr>)]"

definition osu_GetUserPreviousPPlus :: "dbenv \<Rightarrow> int \<Rightarrow> pplus_info \<Rightarrow> (pplus_info \<times> exn option) statement" where
  "osu_GetUserPreviousPPlus E uid pl = tryS
     (bindS (Select (db_server E) (''select * from osu_pplus where uid='' @ print_int uid)) (\<lambda>js.
      fillS pplus_fields js 0 pl))
     (retS (\<lparr>pl_jump = 0, pl_flow = 0, pl_pre = 0, pl_acc = 0, pl_spd = 0, pl_sta = 0\<rparr>, None))"

definition osu_getshownbadges :: "dbenv \<Rightarrow> int \<Rightarrow> int statement" where
  "osu_getshownbadges E uid = tryS
     (bindS (Select (db_server E) (''select shownbadgeID from osu_user_list where uid='' @ print_int uid)) (\<lambda>js.
      bindS (num0 stol ''shownbadgeID'' js) (\<lambda>value. retS (if value \<noteq> 25565 then value else EOF))))
     (retS EOF)"

text \<open>The columns of a record, in the order in which they are read.\<close>

definition record_fields :: "json \<Rightarrow> user_info step list" where
  "record_fields d =
     [assign (number_at stoll d ''uid'') (\<lambda>x s. s\<lparr>ui_user_id := x\<rparr>),
      assign (number_at stoll d ''n300'') (\<lambda>x s. s\<lparr>ui_n300 := x\<rparr>),
      assign (number_at stoll d ''n100'') (\<lambda>x s. s\<lparr>ui_n100 := x\<rparr>),
      assign (number_at stoll d ''n50'') (\<lambda>x s. s\<lparr>ui_n50 := x\<rparr>),
      assign (number_at stoll d ''PC'') (\<lambda>x s. s\<lparr>ui_playcount := x\<rparr>),
      assign (number_at stoll d ''TS'') (\<lambda>x s. s\<lparr>ui_total_score := x\<rparr>),
      assign (number_at stoll d ''RS'') (\<lambda>x s. s\<lparr>ui_ranked_score := x\<rparr>),
      assign (number_at stoll d ''CR'') (\<lambda>x s. s\<lparr>ui_country_rank := x\<rparr>),
      assign (number_at stoll d ''GR'') (\<lambda>x s. s\<lparr>ui_global_rank := x\<rparr>),
      assign (number_at stoll d ''PT'') (\<lambda>x s. s\<lparr>ui_playtime := x\<rparr>),
      assign (number_at stof d ''PP'') (\<lambda>x s. s\<lparr>ui_pp := x\<rparr>),
      assign (number_at stof d ''LV'') (\<lambda>x s. s\<lparr>ui_level := x\<rparr>),
      assign (number_at stod d ''ACC'') (\<lambda>x s. s\<lparr>ui_accuracy := x\<rparr>),
      assign (number_at stoi d ''XH'') (\<lambda>x s. s\<lparr>ui_count_ssh := x\<rparr>),
      assign (number_at stoi d ''X'') (\<lambda>x s. s\<lparr>ui_count_ss := x\<rparr>),
      assign (number_at stoi d ''S'') (\<lambda>x s. s\<lparr>ui_count_sh := x\<rparr>),
      assign (number_at stoi d ''SH'') (\<lambda>x s. s\<lparr>ui_count_s := x\<rparr>),
      assign (number_at stoi d ''A'') (\<lambda>x s. s\<lparr>ui_count_a := x\<rparr>)]"

definition at_four :: "dbenv \<Rightarrow> int \<Rightarrow> string" where
  "at_four E t = db_strftime E ''%Y-%m-%d 04:00:00'' t"

definition record_query :: "int \<Rightarrow> user_info \<Rightarrow> string \<Rightarrow> string" where
  "record_query user_id info rest = ''select * from osu_user_records where uid='' @ print_int user_id @
     '' and gamemode='' @ print_int (ui_mode info) @ rest"

definition on_day :: "string \<Rightarrow> string" where
  "on_day t = '' and lastupdate='' @ in_quotes t"

text \<open>The record of the day, into \<open>info\<close>.\<close>

definition exact_record :: "json list \<Rightarrow> user_info \<Rightarrow> (user_info \<times> int thrown) statement" where
  "exact_record js info = retS (case run (record_fields (hd js)) info of
     (s, Some e) \<Rightarrow> (s, Inl e) | (s, None) \<Rightarrow> (s, Inr 0))"

text \<open>The last record of a list, and the days that have passed since it.\<close>

definition near_record :: "dbenv \<Rightarrow> json list \<Rightarrow> user_info \<Rightarrow> (user_info \<times> int thrown) statement" where
  "near_record E js info l = (l, Inr
     (case andThen (text_at (last js) ''lastupdate'') (timestamp (db_api E) (16 * 3600)) of
        Inl e \<Rightarrow> (info, Inl e)
      | Inr t \<Rightarrow> (case run (record_fields (last js)) info of
          (s, Some e) \<Rightarrow> (s, Inl e)
        | (s, None) \<Rightarrow> (s, Inr (sint (word_of_int (cdiv (db_time E l - t) DAY) :: 32 word))))))"

definition osu_GetUserData :: "dbenv \<Rightarrow> int \<Rightarrow> int \<Rightarrow> user_info \<Rightarrow> (user_info \<times> int thrown) statement" where
  "osu_GetUserData E user_id days info =
     (let S = db_server E; query = record_query user_id info in
      bindS (timeS E) (\<lambda>t.
      if days = 0 then
        bindS (tryS (Select S (query (on_day (at_four E t)))) (Select S (query (on_day (at_four E (t - DAY))))))
          (\<lambda>js. exact_record js info)
      else
        bindS (definedS (ck (days * DAY))) (\<lambda>back.
        let day = at_four E (t - back) in
        tryS (bindS (Select S (query (on_day day))) (\<lambda>js. exact_record js info))
          (tryS (bindS (tryS (Select S (query ('' and lastupdate<'' @ in_quotes day))) (Select S (query [])))
                   (\<lambda>js. near_record E js info))
             (retS (info, Inr (- 1)))))))"

subsection \<open>The last calculated map and the mode of a player\<close>

definition osu_GetPPRecord :: "dbenv \<Rightarrow> int \<Rightarrow> int statement" where
  "osu_GetPPRecord E qq = tryS
     (bindS (Select (db_server E) (''select bid from osu_pprecord where qq='' @ print_int qq)) (num0 stoll ''bid''))
     (retS EOF)"

definition osu_UpdatePPRecord :: "dbenv \<Rightarrow> int \<Rightarrow> int \<Rightarrow> unit statement" where
  "osu_UpdatePPRecord E qq bid = bindS (osu_GetPPRecord E qq) (\<lambda>r.
     if r = EOF then Insert (db_server E) (''insert into osu_pprecord (qq, bid) values ('' @ print_int qq @
       '', '' @ print_int bid @ '')'')
     else Update (db_server E) (''update osu_pprecord set bid='' @ print_int bid @ '' where qq='' @ print_int qq))"

definition osu_SetUserMainMode :: "dbenv \<Rightarrow> int \<Rightarrow> int \<Rightarrow> int statement" where
  "osu_SetUserMainMode E qq mode = bindS (sprintfS 1024 (''update osu_user_list set mode='' @ print_int mode @
       '' where qq='' @ print_int qq)) (\<lambda>buffer.
     tryS (bindS (Update (db_server E) buffer) (\<lambda>_. retS 1)) (retS 0))"

subsection \<open>The settings of a group\<close>

definition setting_name :: "int \<Rightarrow> string" where
  "setting_name cmd = (if cmd = 1 then ''bp'' else if cmd = 2 then ''rctpp'' else if cmd = 3 then ''recent''
     else if cmd = 4 then ''entertainment'' else if cmd = 5 then ''repeater'' else [])"

definition setGroupSettings :: "dbenv \<Rightarrow> int \<Rightarrow> unit statement" where
  "setGroupSettings E group_id = tryS
     (Insert (db_server E) (''insert into group_settings (group_id) values ('' @ print_int group_id @ '')'')) (retS ())"

definition isGroupEnable :: "dbenv \<Rightarrow> int \<Rightarrow> int \<Rightarrow> int statement" where
  "isGroupEnable E group_id cmd = tryS
     (bindS (Select (db_server E) (''select '' @ setting_name cmd @ '' from group_settings where group_id='' @
        print_int group_id)) (\<lambda>js.
      if 1 \<le> cmd \<and> cmd \<le> 5 then num0 stoi (setting_name cmd) js else retS 1))
     (bindS (setGroupSettings E group_id) (\<lambda>_. retS 1))"

text \<open>The flag says whether the group is told that the change has failed.\<close>

definition changeGroupSettings :: "dbenv \<Rightarrow> int \<Rightarrow> int \<Rightarrow> bool \<Rightarrow> bool statement" where
  "changeGroupSettings E group_id cmd on_off = tryS
     (bindS (Update (db_server E) (''update group_settings set '' @ setting_name cmd @
        (if on_off then ''=1'' else ''=0'') @ '' where group_id='' @ print_int group_id)) (\<lambda>_. retS False))
     (retS True)"

definition osu_setshownBadges :: "dbenv \<Rightarrow> int \<Rightarrow> int \<Rightarrow> unit statement" where
  "osu_setshownBadges E uid badgeid = tryS
     (Update (db_server E) (''update osu_user_list set shownbadgeID='' @ print_int badgeid @
        '' where uid='' @ print_int uid)) (retS ())"

fun all_numbers :: "(string \<Rightarrow> int thrown) \<Rightarrow> string \<Rightarrow> json list \<Rightarrow> int list thrown" where
  "all_numbers conv k [] = Inr []"
| "all_numbers conv k (r # rs) = andThen (number_at conv r k) (\<lambda>n.
     andThen (all_numbers conv k rs) (\<lambda>ns. Inr (n # ns)))"

definition GetUserSet :: "dbenv \<Rightarrow> int list statement" where
  "GetUserSet E = bindS (Select (db_server E) ''SELECT uid FROM osu_user_list'') (\<lambda>js. pureS (all_numbers stoll ''uid'' js))"

subsection \<open>Medals\<close>

text \<open>\<^verbatim>\<open>badgeParser\<close> of \<^verbatim>\<open>src/badge.hpp\<close>: numbers between commas; the word after the last comma is
  converted as well, also when it is empty.\<close>

fun badge_loop :: "string \<Rightarrow> string \<Rightarrow> int list \<Rightarrow> int list thrown" where
  "badge_loop [] word rtn = Inr rtn"
| "badge_loop (c # cs) word rtn =
     andThen (if c = CHR '','' then andThen (stoi word) (\<lambda>n. Inr ([], rtn @ [n])) else Inr (word @ [c], rtn)) (\<lambda>(word, rtn).
     andThen (if cs = [] then andThen (stoi word) (\<lambda>n. Inr (rtn @ [n])) else Inr rtn) (\<lambda>rtn.
     badge_loop cs word rtn))"

definition badgeParser :: "string \<Rightarrow> int list thrown" where
  "badgeParser badgeStr = badge_loop badgeStr [] []"

record Badgeinfo =
  bd_id :: int
  bd_name :: string
  bd_name_chinese :: string
  bd_description :: string

definition BADGENOTFOUND :: int where "BADGENOTFOUND = 65536"

definition osu_getBadgeInfo :: "dbenv \<Rightarrow> int \<Rightarrow> Badgeinfo statement" where
  "osu_getBadgeInfo E ID = tryS
     (bindS (Select (db_server E) (''SELECT * from osu_badge_list where id='' @ print_int ID)) (\<lambda>j.
      bindS (num0 stoi ''id'' j) (\<lambda>n.
      bindS (text0 ''name'' j) (\<lambda>name.
      bindS (text0 ''name_chinese'' j) (\<lambda>name_chinese.
      bindS (text0 ''description'' j) (\<lambda>description.
      retS \<lparr>bd_id = n, bd_name = name, bd_name_chinese = name_chinese, bd_description = description\<rparr>))))))
     (retS \<lparr>bd_id = BADGENOTFOUND, bd_name = ''404'', bd_name_chinese = T_badge_not_found,
        bd_description = ''no badge found.''\<rparr>)"

definition getBadgeStr :: "dbenv \<Rightarrow> int \<Rightarrow> string statement" where
  "getBadgeStr E n = bindS (osu_getBadgeInfo E n) (\<lambda>b.
     sprintfS 2048 (''[ID:'' @ print_int (bd_id b) @ ''] '' @ bd_name_chinese b @ '' ('' @ bd_name b @ '')''))"

text \<open>The list stays empty when the database or the JSON library throws, not when a number cannot
  be converted.\<close>

definition osu_GetBadgeList :: "dbenv \<Rightarrow> int \<Rightarrow> int list statement" where
  "osu_GetBadgeList E uid l =
     (case bindS (Select (db_server E) (''SELECT badge from osu_badge where uid='' @ print_int uid)) (text0 ''badge'') l of
        (l, Inl e) \<Rightarrow> (l, if e \<in> {DatabaseError, TypeError, ParseError} then Inr [] else Inl e)
      | (l, Inr t) \<Rightarrow> (l, badgeParser t))"

definition osu_addbadge :: "dbenv \<Rightarrow> int \<Rightarrow> string \<Rightarrow> unit statement" where
  "osu_addbadge E uid str = bindS (osu_GetBadgeList E uid) (\<lambda>tmp.
     if tmp = [] then Insert (db_server E) (''insert into osu_badge (uid, badge) values ('' @ print_int uid @
       '', '' @ in_quotes str @ '')'')
     else Update (db_server E) (''update osu_badge set badge='' @ in_quotes str @ '' where uid='' @ print_int uid))"

definition osu_setNewBadge :: "dbenv \<Rightarrow> Badgeinfo \<Rightarrow> int statement" where
  "osu_setNewBadge E b = tryS
     (bindS (Insert (db_server E) (''INSERT INTO osu_badge_list (name,name_chinese,description) VALUES ('' @
        in_quotes (bd_name b) @ '','' @ in_quotes (bd_name_chinese b) @ '','' @ in_quotes (bd_description b) @ '')'')) (\<lambda>_.
      bindS (Select (db_server E) ''Select id from osu_badge_list'') (\<lambda>j. retS (int (length j) - 1))))
     (retS (- 1))"

text \<open>The tests of the source are assignments: \<^verbatim>\<open>if (f = 1)\<close> is always taken.\<close>

definition osu_updatebadgeinfo :: "dbenv \<Rightarrow> Badgeinfo \<Rightarrow> int \<Rightarrow> bool statement" where
  "osu_updatebadgeinfo E b f =
     (if f > 3 \<or> f < 1 then retS False
      else tryS (bindS (Update (db_server E) (''UPDATE osu_badge_list set name='' @ in_quotes (bd_name b) @
          '' where id='' @ print_int (bd_id b))) (\<lambda>_. retS True))
        (retS False))"

subsection \<open>Calls and the black list\<close>

definition Getcallcount :: "dbenv \<Rightarrow> int statement" where
  "Getcallcount E = tryS (bindS (Select (db_server E) ''select count from total_call_count'') (num0 stoi ''count'')) (retS EOF)"

definition add_blacklist :: "dbenv \<Rightarrow> int \<Rightarrow> bool statement" where
  "add_blacklist E qq = tryS
     (bindS (Insert (db_server E) (''INSERT INTO global_blacklist (qq,is_blocked) values('' @ print_int qq @ '',1)'')) (\<lambda>_.
      bindS (tryS
        (bindS (osu_getuserid (db_server E) qq) (\<lambda>uid.
         if uid \<noteq> 0 then
           bindS (Delete (db_server E) (''DELETE from osu_user_list where uid = '' @ print_int uid)) (\<lambda>_.
           Delete (db_server E) (''DELETE from osu_user_records where uid = '' @ print_int uid))
         else retS ())) (retS ())) (\<lambda>_.
      bindS (tryS (Update (db_server E) (''UPDATE bottlemsgrecord SET available=0,sendtime=0,sender=-1,nickname='' @
         in_quotes ''deleted'' @ '',message='' @ in_quotes T_deleted @ '' where sender='' @ print_int qq)) (retS ())) (\<lambda>_.
      retS True))))
     (retS False)"

definition is_Blocked :: "dbenv \<Rightarrow> int \<Rightarrow> int statement" where
  "is_Blocked E qq = tryS
     (bindS (Select (db_server E) (''select is_blocked from global_blacklist where qq='' @ print_int qq)) (num0 stoi ''is_blocked''))
     (retS 0)"

record AdminInfo =
  ad_user_id :: int
  ad_role :: int

text \<open>The list of the administrators is filled row by row; a row that throws leaves the rows before it.\<close>

fun admin_rows :: "json list \<Rightarrow> AdminInfo list \<Rightarrow> AdminInfo list \<times> unit thrown" where
  "admin_rows [] admins = (admins, Inr ())"
| "admin_rows (r # rs) admins = (case number_at stoll r ''qq'' of
     Inl e \<Rightarrow> (admins, Inl e)
   | Inr qq \<Rightarrow> (case number_at stoi r ''role'' of
       Inl e \<Rightarrow> (admins, Inl e)
     | Inr role \<Rightarrow> admin_rows rs (admins @ [\<lparr>ad_user_id = qq, ad_role = role\<rparr>])))"

definition reloadAdmin :: "dbenv \<Rightarrow> AdminInfo list \<Rightarrow> string list \<Rightarrow> string list \<times> AdminInfo list \<times> unit thrown" where
  "reloadAdmin E admins l = (case Select (db_server E) ''SELECT * FROM osu_user_list where role=1 or role=2'' l of
     (l, Inl e) \<Rightarrow> (l, admins, Inl e)
   | (l, Inr js) \<Rightarrow> (l, admin_rows js []))"

subsection \<open>Drifting bottles\<close>

definition unixTime2DateStr :: "dbenv \<Rightarrow> int \<Rightarrow> string" where
  "unixTime2DateStr E timetick = db_strftime E ''%Y-%m-%d'' (sint (word_of_int timetick :: 32 word))"

text \<open>The daily refill: half of what is left and five, printed as a \<^verbatim>\<open>double\<close>.\<close>

definition daily_refill :: "dbenv \<Rightarrow> int \<Rightarrow> int \<Rightarrow> unit statement" where
  "daily_refill E qq old = bindS (timeS E) (\<lambda>t.
     Update (db_server E) (''update bottlerecord set remaining='' @
       print_double (addd (ffloor (muld (i2d old) (dlit (5 / 10)))) (Num 5)) @ '',lastrewardtime='' @ print_int t @
       '' where qq='' @ print_int qq))"

definition getUserBottleRemaining :: "dbenv \<Rightarrow> int \<Rightarrow> int statement" where
  "getUserBottleRemaining E qq =
     (let query = ''SELECT * FROM bottlerecord WHERE qq='' @ print_int qq in
      tryS
        (bindS (Select (db_server E) query) (\<lambda>j.
         bindS (num0 stoll ''lastrewardtime'' j) (\<lambda>a.
         bindS (num0 stoi ''remaining'' j) (\<lambda>b.
         bindS (timeS E) (\<lambda>t.
         if db_strftime E ''%d'' a \<noteq> db_strftime E ''%d'' t then
           bindS (daily_refill E qq b) (\<lambda>_.
           bindS (Select (db_server E) query) (num0 stoi ''remaining''))
         else num0 stoi ''remaining'' j)))))
        (bindS (timeS E) (\<lambda>t.
         bindS (Insert (db_server E) (''INSERT INTO bottlerecord (qq,remaining,lastrewardtime) VALUES ('' @ print_int qq @
           '',5,'' @ print_int t @ '')'')) (\<lambda>_. retS 5))))"

definition setBottleRemaining :: "dbenv \<Rightarrow> int \<Rightarrow> int \<Rightarrow> int \<Rightarrow> unit statement" where
  "setBottleRemaining E isdaily qq dailyoldvalue =
     (let add = (\<lambda>d. bindS (getUserBottleRemaining E qq) (\<lambda>n. bindS (definedS (ck (n + d))) (\<lambda>n.
        Update (db_server E) (''update bottlerecord set remaining='' @ print_int n @ '' where qq='' @ print_int qq)))) in
      if isdaily = 1 then daily_refill E qq dailyoldvalue
      else if isdaily = 2 then add 2
      else if isdaily = 3 then add (- 1)
      else retS ())"

datatype bottle_event = WRITEIN | ADDCOUNTER | CHANGESTATUS | DELETEBOTTLE

definition writeBottle :: "dbenv \<Rightarrow> bottle_event \<Rightarrow> int \<Rightarrow> int \<Rightarrow> int \<Rightarrow> string \<Rightarrow> string \<Rightarrow> unit statement" where
  "writeBottle E d n sendtimetick senderuid nickname message = (case d of
     WRITEIN \<Rightarrow> bindS (sprintfS 10240 (''INSERT INTO bottlemsgrecord (sendtime,sender,message,nickname) values ('' @
         print_int sendtimetick @ '','' @ print_int senderuid @ '','' @ in_quotes message @ '','' @ in_quotes nickname @ '')''))
       (Insert (db_server E))
   | ADDCOUNTER \<Rightarrow>
       bindS (Select (db_server E) (''SELECT pickcount FROM bottlemsgrecord where id='' @ print_int n)) (\<lambda>j.
       bindS (num0 stoi ''pickcount'' j) (\<lambda>c.
       bindS (definedS (ck (c + 1))) (\<lambda>c.
       Update (db_server E) (''UPDATE bottlemsgrecord SET pickcount='' @ print_int c @ '' where id='' @ print_int n))))
   | CHANGESTATUS \<Rightarrow> Update (db_server E) (''UPDATE bottlemsgrecord SET available=0 where id='' @ print_int n)
   | DELETEBOTTLE \<Rightarrow> Update (db_server E) (''UPDATE bottlemsgrecord SET available=0,sendtime=0,sender=-1,nickname='' @
       in_quotes ''deleted'' @ '',message='' @ in_quotes T_deleted @ '' where id='' @ print_int n))"

definition available_bottles :: "dbenv \<Rightarrow> json list statement" where
  "available_bottles E = Select (db_server E) ''SELECT * FROM bottlemsgrecord where available = 1''"

definition getBottles :: "dbenv \<Rightarrow> json list statement" where
  "getBottles E = tryS (available_bottles E) (retS [])"

definition getNumberOfAvailableBottles :: "dbenv \<Rightarrow> int statement" where
  "getNumberOfAvailableBottles E = tryS (bindS (available_bottles E) (\<lambda>j. retS (int (length j)))) (retS (- 1))"

definition getBottleByID :: "dbenv \<Rightarrow> int \<Rightarrow> json list statement" where
  "getBottleByID E n = tryS (Select (db_server E) (''SELECT * FROM bottlemsgrecord where id = '' @ print_int n)) (retS [])"

text \<open>The size of the pool and the rate of throws follow the days; the last step brings the size
  into its bounds.\<close>

record pool =
  po_size :: fp
  po_rate :: fp

definition BOTLEEXPECTEDVALUE :: fp where "BOTLEEXPECTEDVALUE = Num 100"
definition BOTTLEMAXEXISTDAYS :: int where "BOTTLEMAXEXISTDAYS = 7"
definition MAXPOOLSIZE :: fp where "MAXPOOLSIZE = Num 200"
definition MINPOOLSIZE :: fp where "MINPOOLSIZE = Num 20"
definition INITIALTPRATE :: fp where "INITIALTPRATE = dlit (6 / 10)"

definition pool_start :: pool where
  "pool_start = \<lparr>po_size = BOTLEEXPECTEDVALUE, po_rate = INITIALTPRATE\<rparr>"

definition pool_step :: "fp \<Rightarrow> fp \<Rightarrow> pool \<Rightarrow> pool" where
  "pool_step kpick kthrow p =
     \<lparr>po_size = addd (muld (po_size p) (dlit (8 / 10))) (muld (muld (dlit (2 / 10)) kpick) (dlit (4 / 10))),
      po_rate = (if flt (dlit (5 / 10)) kpick
        then addd (muld (po_rate p) (dlit (8 / 10))) (divd (muld (dlit (2 / 10)) kthrow) kpick) else po_rate p)\<rparr>"

definition bounded_size :: "fp \<Rightarrow> fp" where
  "bounded_size poolSize =
     (let s = (if flt MAXPOOLSIZE poolSize then MAXPOOLSIZE else poolSize) in
      if flt s MINPOOLSIZE then MINPOOLSIZE else s)"

text \<open>\<^verbatim>\<open>min\<close> is a macro: its second argument, which counts the bottles, is evaluated again when it
  is the result.\<close>

definition throw_ratio :: "dbenv \<Rightarrow> pool \<Rightarrow> int \<Rightarrow> fp" where
  "throw_ratio E p n = muld (po_rate p)
     (m_pow (db_libm E) (divd (i2d n) (bounded_size (po_size p))) (dlit (7 / 10)))"

definition removal :: "dbenv \<Rightarrow> pool \<Rightarrow> fp statement" where
  "removal E p = bindS (getNumberOfAvailableBottles E) (\<lambda>n.
     if flt (Num 1) (throw_ratio E p n) then retS (Num 1)
     else bindS (getNumberOfAvailableBottles E) (\<lambda>n. retS (throw_ratio E p n)))"

record statistics =
  sc_pick :: fp
  sc_throw :: fp
  sc_pool :: pool
  sc_last3 :: string

fun statistics_loop :: "int \<Rightarrow> int \<Rightarrow> json list \<Rightarrow> statistics \<Rightarrow> statistics thrown" where
  "statistics_loop k len [] s = Inr s"
| "statistics_loop k len (r # rs) s =
     andThen (number_at stoi r ''pick'') (\<lambda>pick.
     andThen (number_at stoi r ''throw'') (\<lambda>throw.
     let kpick = i2d pick; kthrow = i2d throw in
     statistics_loop (k + 1) len rs
       \<lparr>sc_pick = addd (sc_pick s) kpick, sc_throw = addd (sc_throw s) kthrow,
        sc_pool = (if k < len - 1 then pool_step kpick kthrow (sc_pool s) else sc_pool s),
        sc_last3 = (if k \<ge> len - 3 then sc_last3 s @ [CHR 0x0A] @ print_int throw @ ''/'' @ print_int pick
          else sc_last3 s)\<rparr>))"

definition getBottleStatistics :: "dbenv \<Rightarrow> string statement" where
  "getBottleStatistics E =
     bindS (Select (db_server E) ''SELECT * FROM bottletprecord'') (\<lambda>j.
     bindS (pureS (statistics_loop 0 (int (length j)) j
       \<lparr>sc_pick = Num 0, sc_throw = Num 0, sc_pool = pool_start, sc_last3 = []\<rparr>)) (\<lambda>s.
     bindS (removal E (sc_pool s)) (\<lambda>removeProb.
     bindS (getNumberOfAvailableBottles E) (\<lambda>n.
     bindS (definedS (to_cint (sc_throw s))) (\<lambda>total_throw.
     bindS (definedS (to_cint (sc_pick s))) (\<lambda>total_pick.
     bindS (definedS (to_cint (bounded_size (po_size (sc_pool s))))) (\<lambda>poolSize.
     retS (T_stat_left @ print_int n @ T_stat_total @ print_int total_throw @ ''/'' @ print_int total_pick @
       T_stat_rate @ print_double (po_rate (sc_pool s)) @ T_stat_pool @ print_int poolSize @
       T_stat_removal @ print_double removeProb @ T_stat_days @ sc_last3 s))))))))"

fun pool_loop :: "json list \<Rightarrow> pool \<Rightarrow> pool thrown" where
  "pool_loop [] p = Inr p"
| "pool_loop (r # rs) p =
     andThen (number_at stoi r ''pick'') (\<lambda>pick.
     andThen (number_at stoi r ''throw'') (\<lambda>throw.
     pool_loop rs (pool_step (i2d pick) (i2d throw) p)))"

text \<open>The exponent is the quotient of two integers.\<close>

definition RemoveBottle :: "dbenv \<Rightarrow> int \<Rightarrow> int \<Rightarrow> bool statement" where
  "RemoveBottle E bottleExsitDays bottleid = tryS
     (bindS (timeS E) (\<lambda>t.
      bindS (Select (db_server E) (''SELECT * FROM bottletprecord where date='' @ in_quotes (unixTime2DateStr E (t - DAY)))) (\<lambda>j.
      bindS (pureS (pool_loop j pool_start)) (\<lambda>p.
      bindS (removal E p) (\<lambda>least.
      bindS (definedS (ck (bottleExsitDays - BOTTLEMAXEXISTDAYS))) (\<lambda>over.
      let removeProb = m_pow (db_libm E) least (i2d (cdiv 1 (max 1 over))) in
      (\<lambda>l. bindS (definedS (randomNum (db_rand E l) 1 10000)) (\<lambda>r.
         if flt (divd (i2d r) (Num 10000)) removeProb then
           bindS (writeBottle E CHANGESTATUS bottleid 0 0 [] []) (\<lambda>_. retS True)
         else retS False) l)))))))
     (bindS (timeS E) (\<lambda>t.
      bindS (tryS (Insert (db_server E) (''INSERT INTO bottletprecord (date,throw,pick) values ('' @
         in_quotes (unixTime2DateStr E (t - DAY)) @ '',100,200)'')) (retS ())) (\<lambda>_. retS False)))"

definition setNewPickThrowRecord :: "dbenv \<Rightarrow> unit statement" where
  "setNewPickThrowRecord E = bindS (timeS E) (\<lambda>t. Insert (db_server E)
     (''INSERT INTO bottletprecord (date) values ('' @ in_quotes (unixTime2DateStr E t) @ '')''))"

definition addPickThrowCount :: "dbenv \<Rightarrow> bool \<Rightarrow> unit statement" where
  "addPickThrowCount E pickthrow =
     bindS (timeS E) (\<lambda>t.
     bindS (tryS (bindS (Select (db_server E) (''SELECT * FROM bottletprecord where date='' @
         in_quotes (unixTime2DateStr E t))) (\<lambda>j. retS (Some j)))
       (bindS (setNewPickThrowRecord E) (\<lambda>_. retS None))) (\<lambda>r.
     case r of
       None \<Rightarrow> retS ()
     | Some j \<Rightarrow>
         let column = (if pickthrow then ''pick'' else ''throw'') in
         bindS (num0 stoi column j) (\<lambda>c.
         bindS (definedS (ck (c + 1))) (\<lambda>c.
         bindS (timeS E) (\<lambda>t.
         Update (db_server E) (''UPDATE bottletprecord set '' @ column @ ''='' @ print_int c @
           '' where date='' @ in_quotes (unixTime2DateStr E t)))))))"

definition getBottleID :: "dbenv \<Rightarrow> int \<Rightarrow> string \<Rightarrow> int \<Rightarrow> int statement" where
  "getBottleID E sender message t = tryS
     (bindS (Select (db_server E) (''SELECT id FROM bottlemsgrecord where sendtime='' @ print_int t @ '' AND sender='' @
        print_int sender @ '' AND message='' @ in_quotes message)) (num0 stoi ''id''))
     (retS 0)"

subsection \<open>Bans of players of CS:GO\<close>

fun csgo_rows :: "dbenv \<Rightarrow> json list \<Rightarrow> CSGOUserInfo list \<Rightarrow> CSGOUserInfo list \<times> exn option" where
  "csgo_rows E [] cui = (cui, None)"
| "csgo_rows E (r # rs) cui = (case run
     [assign (number_at stoll r ''SteamId'') (\<lambda>x s. s\<lparr>cs_SteamId := x\<rparr>),
      assign (number_at stoi r ''Available'') (\<lambda>x s. s\<lparr>cs_Available := (x = 1)\<rparr>),
      assign (number_at stoi r ''VACBanCount'') (\<lambda>x s. s\<lparr>cs_VACBanCount := x\<rparr>),
      assign (number_at stoi r ''GameBanCount'') (\<lambda>x s. s\<lparr>cs_GameBanCount := x\<rparr>),
      assign (text_at r ''ReceiveUserId'') (\<lambda>x s. s\<lparr>cs_ReceiveUserId := x\<rparr>),
      assign (text_at r ''ReceiveGroupId'') (\<lambda>x s. s\<lparr>cs_ReceiveGroupId := x\<rparr>),
      assign (number_at stoll r ''ListenTime'') (\<lambda>x s. s\<lparr>cs_ListenTime := x\<rparr>)] (db_fresh_csgo E) of
     (t, None) \<Rightarrow> csgo_rows E rs (cui @ [t])
   | (t, Some e) \<Rightarrow> (cui, Some e))"

definition steam_get_csgo_listen_list :: "dbenv \<Rightarrow> CSGOUserInfo list statement" where
  "steam_get_csgo_listen_list E = tryS
     (bindS (Select (db_server E) ''SELECT * from `steam_ban_listen` where Available=1'') (\<lambda>j.
      case csgo_rows E j [] of
        (cui, None) \<Rightarrow> retS cui
      | (cui, Some e) \<Rightarrow> if std_exception e then retS cui else pureS (Inl e)))
     (retS [(db_fresh_csgo E)\<lparr>cs_SteamId := - 1, cs_Available := False, cs_ReceiveUserId := ''null'',
        cs_ReceiveGroupId := ''null'', cs_ListenTime := 946656000\<rparr>])"

definition steam_change_ban_stats :: "dbenv \<Rightarrow> int \<Rightarrow> unit statement" where
  "steam_change_ban_stats E SteamId = Update (db_server E)
     (''UPDATE `steam_ban_listen` SET Available=0 WHERE SteamId='' @ print_int SteamId)"

definition receiver_column :: "int \<Rightarrow> string" where
  "receiver_column n = (if n = EOF then in_quotes ''null'' else in_quotes (print_int n)) @ '',''"

definition steam_add_ban_listening :: "dbenv \<Rightarrow> int \<Rightarrow> int \<Rightarrow> int \<Rightarrow> int \<Rightarrow> int \<Rightarrow> bool statement" where
  "steam_add_ban_listening E SteamId VacCount GameCount ReceiveUserId ReceiveGroupId =
     bindS (timeS E) (\<lambda>t.
     tryS (bindS (Insert (db_server E) (''INSERT INTO `steam_ban_listen` (SteamId,Available,VACBanCount,GameBanCount,ReceiveUserId,ReceiveGroupId,ListenTime) VALUES ('' @
         print_int SteamId @ '',1,'' @ print_int VacCount @ '','' @ print_int GameCount @ '','' @
         receiver_column ReceiveUserId @ receiver_column ReceiveGroupId @ print_int t @ '')'')) (\<lambda>_. retS True))
       (bindS (timeS E) (\<lambda>t.
        bindS (tryS (Update (db_server E) (''UPDATE `steam_ban_listen` SET VACBanCount='' @ print_int VacCount @
          '',GameBanCount='' @ print_int GameCount @ '',ListenTime='' @ print_int t @ '' WHERE SteamId='' @
          print_int SteamId)) (retS ())) (\<lambda>_. retS False))))"

text \<open>The receivers are texts of numbers between semicolons, or the text null.\<close>

definition has_receiver :: "string \<Rightarrow> int \<Rightarrow> bool" where
  "has_receiver tmp n \<longleftrightarrow> (if CHR '';'' \<in> set tmp then print_int n \<in> set (string_split tmp CHR '';'')
     else tmp = print_int n)"

definition more_receivers :: "string \<Rightarrow> int \<Rightarrow> string" where
  "more_receivers tmp n = (if tmp = ''null'' then print_int n else tmp @ '';'' @ print_int n)"

text \<open>The first group of a player lacks a blank before \<^verbatim>\<open>WHERE\<close>.\<close>

definition steam_change_ban_listening_receive_groupid :: "dbenv \<Rightarrow> int \<Rightarrow> int \<Rightarrow> int \<Rightarrow> bool statement" where
  "steam_change_ban_listening_receive_groupid E SteamId ReceiveGroupId ReceiveUserId =
     bindS (Select (db_server E) (''SELECT ReceiveGroupId FROM `steam_ban_listen` WHERE SteamId='' @ print_int SteamId)) (\<lambda>j.
     bindS (text0 ''ReceiveGroupId'' j) (\<lambda>tmp.
     if has_receiver tmp ReceiveGroupId then retS False
     else bindS (timeS E) (\<lambda>t.
       bindS (Update (db_server E) (''UPDATE `steam_ban_listen` SET Available=1,ReceiveGroupId='' @
         in_quotes (more_receivers tmp ReceiveGroupId) @ '',ListenTime='' @ print_int t @
         (if tmp = ''null'' then ''WHERE SteamId='' else '' WHERE SteamId='') @ print_int SteamId)) (\<lambda>_. retS True))))"

definition steam_change_ban_listening_receive_userid :: "dbenv \<Rightarrow> int \<Rightarrow> int \<Rightarrow> bool statement" where
  "steam_change_ban_listening_receive_userid E SteamId ReceiveUserId =
     bindS (Select (db_server E) (''SELECT ReceiveUserId FROM `steam_ban_listen` WHERE SteamId='' @ print_int SteamId)) (\<lambda>j.
     bindS (text0 ''ReceiveUserId'' j) (\<lambda>tmp.
     if has_receiver tmp ReceiveUserId then retS False
     else bindS (timeS E) (\<lambda>t.
       bindS (Update (db_server E) (''UPDATE `steam_ban_listen` SET Available=1,ReceiveUserId='' @
         in_quotes (more_receivers tmp ReceiveUserId) @ '',ListenTime='' @ print_int t @ '' WHERE SteamId='' @
         print_int SteamId)) (\<lambda>_. retS True))))"

subsection \<open>Events\<close>

definition event_mode :: "dbenv \<Rightarrow> int \<Rightarrow> int statement" where
  "event_mode E uid = bindS (Select (db_server E)
     (''select `event_mode` from `osu_eventsettings` where uid='' @ print_int uid)) (num0 stoi ''event_mode'')"

definition osu_get_event_status :: "dbenv \<Rightarrow> int \<Rightarrow> int statement" where
  "osu_get_event_status E uid = tryS (event_mode E uid) (retS 0)"

definition osu_set_event_status :: "dbenv \<Rightarrow> int \<Rightarrow> int \<Rightarrow> bool statement" where
  "osu_set_event_status E uid status = tryS
     (bindS (event_mode E uid) (\<lambda>_.
      bindS (Update (db_server E) (''update `osu_eventsettings` set `event_mode`='' @ print_int status @
        '' where uid='' @ print_int uid)) (\<lambda>_. retS True)))
     (bindS (Insert (db_server E) (''insert into `osu_eventsettings` (uid,event_mode) values ('' @ print_int uid @
        '','' @ print_int status @ '')'')) (\<lambda>_. retS True))"

end
