(* ===== verification/GameText.thy ===== *)
theory GameText
  imports Numbers
begin

text \<open>
  The texts of \<^verbatim>\<open>src/games/hangman.hpp\<close>, as the bytes of their UTF-8 encoding, and the emojis
  that \<^verbatim>\<open>cuteEmoji\<close> chooses from.
\<close>

definition T_not_a_letter :: string where
  "T_not_a_letter = utf8 [228, 189, 160, 232, 190, 147, 229, 133, 165, 231, 154, 132, 228, 184,
    141, 230, 152, 175, 229, 173, 151, 230, 175, 141]"

definition T_guessed_already :: string where
  "T_guessed_already = utf8 [228, 189, 160, 229, 183, 178, 231, 187, 143, 231, 140, 156, 232,
    191, 135, 232, 191, 153, 228, 184, 170, 229, 173, 151, 230, 175, 141, 228, 186, 134, 239,
    188, 129]"

definition T_used_letters :: string where
  "T_used_letters = utf8 [32, 229, 183, 178, 231, 148, 168, 58]"

definition T_answer_is :: string where
  "T_answer_is = utf8 [230, 173, 163, 231, 161, 174, 231, 173, 148, 230, 161, 136, 230, 152,
    175]"

definition T_lost :: string where
  "T_lost = utf8 [232, 190, 147, 230, 142, 137, 229, 149, 166, 126]"

definition T_still_scored :: string where
  "T_still_scored = utf8 [10, 228, 184, 141, 232, 191, 135, 228, 189, 160, 228, 187, 141, 231,
    132, 182, 232, 142, 183, 229, 190, 151, 228, 186, 134]"

definition T_points :: string where
  "T_points = utf8 [229, 136, 134]"

definition T_won :: string where
  "T_won = utf8 [228, 189, 160, 231, 140, 156, 229, 175, 185, 229, 149, 166, 126, 229, 165, 189,
    229, 142, 137, 229, 174, 179, 239, 188, 129, 231, 140, 171, 231, 140, 171, 231, 187, 153,
    228, 189, 160, 230, 137, 147]"

definition T_gave_up :: string where
  "T_gave_up = utf8 [10, 231, 148, 177, 228, 186, 142, 228, 189, 160, 230, 148, 190, 229, 188,
    131, 228, 186, 134, 239, 188, 140, 229, 136, 134, 230, 149, 176, 229, 143, 170, 230, 156,
    137]"

definition T_oh :: string where
  "T_oh = utf8 [229, 147, 166, 126]"

definition T_introduction :: string where
  "T_introduction = utf8 [231, 172, 172, 228, 184, 128, 230, 172, 161, 231, 142, 169, 231, 140,
    156, 229, 141, 149, 232, 175, 141, 229, 150, 181, 126, 230, 142, 165, 228, 184, 139, 230,
    157, 165, 231, 140, 171, 231, 140, 171, 229, 176, 134, 231, 187, 153, 229, 135, 186, 228,
    184, 128, 228, 184, 170, 230, 156, 170, 231, 159, 165, 229, 141, 149, 232, 175, 141, 239,
    188, 140, 228, 189, 160, 232, 166, 129, 231, 140, 156, 229, 133, 182, 228, 184, 173, 230,
    156, 137, 229, 147, 170, 228, 186, 155, 229, 173, 151, 230, 175, 141, 126, 230, 175, 148,
    229, 166, 130, 230, 131, 179, 231, 140, 156, 229, 173, 151, 230, 175, 141, 97, 231, 154,
    132, 232, 175, 157, 229, 176, 177, 231, 148, 168, 33, 97, 230, 157, 165, 229, 155, 158, 229,
    164, 141, 230, 136, 145, 126, 229, 143, 175, 228, 187, 165, 228, 189, 191, 231, 148, 168,
    33, 231, 140, 156, 229, 141, 149, 232, 175, 141, 229, 184, 174, 229, 138, 169, 32, 230, 159,
    165, 231, 156, 139, 229, 184, 174, 229, 138, 169]"

definition T_never_played :: string where
  "T_never_played = utf8 [228, 189, 160, 232, 191, 152, 230, 178, 161, 230, 156, 137, 231, 142,
    169, 232, 191, 135, 229, 150, 181, 126]"

definition T_user :: string where
  "T_user = utf8 [231, 148, 168, 230, 136, 183]"

definition T_word_data :: string where
  "T_word_data = utf8 [41, 231, 154, 132, 231, 140, 156, 229, 141, 149, 232, 175, 141, 230, 149,
    176, 230, 141, 174, 239, 188, 154]"

definition T_data_rank :: string where
  "T_data_rank = utf8 [10, 230, 142, 146, 229, 144, 141, 58]"

definition T_data_plays :: string where
  "T_data_plays = utf8 [10, 230, 184, 184, 231, 142, 169, 230, 172, 161, 230, 149, 176, 58]"

definition T_data_hits :: string where
  "T_data_hits = utf8 [10, 229, 145, 189, 228, 184, 173, 231, 142, 135, 58]"

definition T_data_passes :: string where
  "T_data_passes = utf8 [10, 233, 128, 154, 232, 191, 135, 231, 142, 135, 58]"

definition T_not_over :: string where
  "T_not_over = utf8 [228, 189, 160, 231, 154, 132, 228, 184, 138, 228, 184, 128, 229, 177, 128,
    230, 184, 184, 230, 136, 143, 232, 191, 152, 230, 178, 161, 230, 156, 137, 231, 187, 147,
    230, 157, 159, 229, 145, 162, 126]"

definition T_rooms_full :: string where
  "T_rooms_full = utf8 [230, 136, 191, 233, 151, 180, 229, 183, 178, 231, 187, 143, 230, 187,
    161, 230, 131, 185]"

definition T_come_later :: string where
  "T_come_later = utf8 [10, 231, 173, 137, 228, 188, 154, 229, 134, 141, 230, 157, 165, 231,
    142, 169, 229, 144, 167]"

definition T_not_started :: string where
  "T_not_started = utf8 [228, 189, 160, 232, 191, 152, 230, 178, 161, 230, 156, 137, 229, 188,
    128, 229, 167, 139, 228, 184, 128, 229, 177, 128, 230, 184, 184, 230, 136, 143, 229, 145,
    162]"

definition T_typed_air :: string where
  "T_typed_air = utf8 [228, 189, 160, 232, 190, 147, 229, 133, 165, 231, 154, 132, 230, 152,
    175, 231, 169, 186, 230, 176, 148, 229, 149, 166, 239, 188, 129]"

definition T_not_playing :: string where
  "T_not_playing = utf8 [228, 189, 160, 232, 191, 152, 230, 178, 161, 230, 156, 137, 229, 156,
    168, 230, 184, 184, 230, 136, 143, 228, 184, 173, 229, 145, 162]"

definition T_room_list :: string where
  "T_room_list = utf8 [230, 136, 191, 233, 151, 180, 229, 136, 151, 232, 161, 168, 239, 188,
    154, 10]"

definition T_recalculated :: string where
  "T_recalculated = utf8 [230, 136, 144, 229, 138, 159, 239, 188, 140, 233, 135, 141, 230, 150,
    176, 232, 174, 161, 231, 174, 151, 228, 186, 134]"

definition T_scores :: string where
  "T_scores = utf8 [230, 157, 161, 230, 136, 144, 231, 187, 169]"

definition happy_emojis :: "string list" where
  "happy_emojis =
    [''owo'',
     ''>w<'',
     utf8 [40, 42, 94, 226, 150, 189, 94, 42, 41],
     utf8 [229, 150, 181, 126],
     ''OwO'',
     ''owO'',
     ''Owo'',
     utf8 [229, 150, 181, 126, 111, 119, 111],
     utf8 [229, 148, 137, 229, 152, 191, 126, 62, 119, 60]]"

definition sad_emojis :: "string list" where
  "sad_emojis =
    [''qwq'',
     utf8 [229, 152, 164, 229, 152, 164, 229, 152, 164],
     ''555'',
     utf8 [229, 147, 173, 229, 147, 173],
     ''QwQ'',
     ''TAT'',
     ''T_T'',
     utf8 [111, 40, 226, 149, 165, 239, 185, 143, 226, 149, 165, 41, 111]]"

end
