(* ===== verification/Hangman.thy ===== *)
theory Hangman
  imports GameText Database CMath State
begin

text \<open>
  \<^verbatim>\<open>src/games/hangman.hpp\<close>, first part: the class \<^verbatim>\<open>Hangman\<close>, one room of the game. An
  operation is a function on the world, which holds the rooms, the statements sent to the
  database and a tick: each reading of the clock and of the random numbers uses one tick, and the
  environment says what is read at it. The two tables of the file (10000 words and their
  frequencies) are data and fields of the environment.

  What the program prints for an object passed where \<^verbatim>\<open>printf\<close> expects something else is not
  defined by the language: \<open>g_vararg\<close> is the text for a \<^verbatim>\<open>std::string\<close> passed to \<^verbatim>\<open>%s\<close>,
  \<open>g_misprint\<close> the one for an \<^verbatim>\<open>int\<close> passed to \<^verbatim>\<open>%f\<close>.
\<close>

definition HANGMAN_MOD_E :: int where "HANGMAN_MOD_E = 1"
definition HANGMAN_MOD_H :: int where "HANGMAN_MOD_H = 2"
definition HANGMAN_MOD_D :: int where "HANGMAN_MOD_D = 4"
definition HANGMAN_MOD_I :: int where "HANGMAN_MOD_I = 16"
definition HANGMAN_EXPIRATION_TIME :: int where "HANGMAN_EXPIRATION_TIME = 3600"
definition HANGMAN_WORD_LIST :: int where "HANGMAN_WORD_LIST = 5000"
definition HANGMAN_INITIAL_HP :: int where "HANGMAN_INITIAL_HP = 7"

record word_entry =
  w_str :: string
  w_freq :: int
  w_index :: int

record hangman =
  hg_HP :: int
  hg_start_time :: int
  hg_mods :: int
  hg_player_id :: int
  hg_player_nickname :: string
  hg_guess_history :: string
  hg_word :: word_entry

record world =
  wd_rooms :: "hangman list"
  wd_log :: "string list"
  wd_tick :: nat

record genv =
  g_libm :: libm
  g_exp :: "fp \<Rightarrow> fp"
  g_words :: "string list"
  g_freqs :: "int list"
  g_rand :: "nat \<Rightarrow> int"
  g_time :: "nat \<Rightarrow> int"
  g_server :: server
  g_vararg :: "string \<Rightarrow> string"
  g_misprint :: string

subsection \<open>Programs on the world\<close>

type_synonym 'a game = "world \<Rightarrow> world \<times> 'a thrown"

definition ret :: "'a \<Rightarrow> 'a game" where
  "ret x w = (w, Inr x)"

definition bindG :: "'a game \<Rightarrow> ('a \<Rightarrow> 'b game) \<Rightarrow> 'b game" where
  "bindG m f w = (case m w of (w, Inl e) \<Rightarrow> (w, Inl e) | (w, Inr x) \<Rightarrow> f x w)"

definition lift :: "'a thrown \<Rightarrow> 'a game" where
  "lift v w = (w, v)"

definition defined :: "'a option \<Rightarrow> 'a game" where
  "defined v w = (w, case v of None \<Rightarrow> Inl Undefined | Some x \<Rightarrow> Inr x)"

definition send :: "'a statement \<Rightarrow> 'a game" where
  "send m w = (case m (wd_log w) of (l, r) \<Rightarrow> (w\<lparr>wd_log := l\<rparr>, r))"

definition now :: "genv \<Rightarrow> int game" where
  "now E w = (w\<lparr>wd_tick := Suc (wd_tick w)\<rparr>, Inr (g_time E (wd_tick w)))"

definition random :: "genv \<Rightarrow> int \<Rightarrow> int \<Rightarrow> int game" where
  "random E lo hi w = (w\<lparr>wd_tick := Suc (wd_tick w)\<rparr>,
     case randomNum (g_rand E (wd_tick w)) lo hi of None \<Rightarrow> Inl Undefined | Some n \<Rightarrow> Inr n)"

definition room :: "nat \<Rightarrow> hangman game" where
  "room i w = (w, Inr (wd_rooms w ! i))"

definition set_room :: "nat \<Rightarrow> hangman \<Rightarrow> unit game" where
  "set_room i h w = (w\<lparr>wd_rooms := (wd_rooms w)[i := h]\<rparr>, Inr ())"

definition cuteEmoji :: "genv \<Rightarrow> bool \<Rightarrow> string game" where
  "cuteEmoji E happy = (if happy
     then bindG (random E 0 (9 - 1)) (\<lambda>k. defined (rdi happy_emojis k))
     else bindG (random E 0 (8 - 1)) (\<lambda>k. defined (rdi sad_emojis k)))"

subsection \<open>Scoring\<close>

definition letter_freqs :: "fp list" where
  "letter_freqs = map dlit
    [806995892709077 / 10 ^ 16, 12276878973113 / 10 ^ 15, 398002275400605 / 10 ^ 16,
     318491807915052 / 10 ^ 16, 846011942639336 / 10 ^ 16, 157221183079761 / 10 ^ 16,
     305829267822364 / 10 ^ 16, 238788509869711 / 10 ^ 16, 694961337472763 / 10 ^ 16,
     252608033321121 / 10 ^ 17, 980222012251168 / 10 ^ 17, 580677092372266 / 10 ^ 16,
     338289078719862 / 10 ^ 16, 761616434305842 / 10 ^ 16, 684805594657308 / 10 ^ 16,
     348187714122267 / 10 ^ 16, 268677246636714 / 10 ^ 17, 825957564421476 / 10 ^ 16,
     670343302673274 / 10 ^ 16, 779935337485618 / 10 ^ 16, 425191384330589 / 10 ^ 16,
     134274346465094 / 10 ^ 16, 117498087763615 / 10 ^ 16, 399802027291952 / 10 ^ 17,
     223812003059578 / 10 ^ 16, 302101210333147 / 10 ^ 17]"

fun freq_sum :: "string \<Rightarrow> fp \<Rightarrow> fp option" where
  "freq_sum [] p = Some p"
| "freq_sum (c # s) p = do { f \<leftarrow> rdi letter_freqs (code c - code CHR ''a''); freq_sum s (addd p f) }"

text \<open>The inclusion-exclusion sum over all subsets of \<open>list\<close>; \<open>S\<close> is the subset chosen so far.\<close>

fun subStringSum :: "libm \<Rightarrow> string \<Rightarrow> string \<Rightarrow> int \<Rightarrow> fp option" where
  "subStringSum M [] S n = do {
     p \<leftarrow> freq_sum S (Num 0);
     let t = m_pow M (subd (Num 1) p) (i2d n);
     Some (if length S mod 2 \<noteq> 0 then fneg t else t) }"
| "subStringSum M (h # t) S n = do {
     a \<leftarrow> subStringSum M t (h # S) n;
     b \<leftarrow> subStringSum M t S n;
     Some (addd a b) }"

text \<open>The loop over the word: the distinct letters, those that were guessed, both also without
  the letter at position 1, and whether a letter is missing.\<close>

record letters =
  lt_list :: string
  lt_list_E :: string
  lt_history :: string
  lt_historyE :: string
  lt_uncompleted :: bool

fun letters_loop :: "string \<Rightarrow> nat \<Rightarrow> string \<Rightarrow> letters \<Rightarrow> letters" where
  "letters_loop history i [] l = l"
| "letters_loop history i (c # cs) l =
     (let l = (if c \<notin> set (lt_list l)
            then l\<lparr>lt_list := lt_list l @ [c],
                   lt_list_E := (if i \<noteq> 1 then lt_list_E l @ [c] else lt_list_E l)\<rparr> else l);
          l = (if c \<notin> set (lt_history l) \<and> c \<in> set history
            then l\<lparr>lt_history := lt_history l @ [c],
                   lt_historyE := (if i \<noteq> 1 then lt_historyE l @ [c] else lt_historyE l)\<rparr> else l);
          l = (if c \<notin> set history then l\<lparr>lt_uncompleted := True\<rparr> else l) in
      letters_loop history (Suc i) cs l)"

definition scoring :: "genv \<Rightarrow> word_entry \<Rightarrow> string \<Rightarrow> int \<Rightarrow> fp option" where
  "scoring E w guess_history mods =
     (let M = g_libm E;
          l = letters_loop guess_history 0 (w_str w)
            \<lparr>lt_list = [], lt_list_E = [], lt_history = [], lt_historyE = [], lt_uncompleted = False\<rparr>;
          d = int (length (lt_list l));
          miss_count = int (length guess_history) - d in do {
        s \<leftarrow> (if has mods HANGMAN_MOD_E then
            if lt_uncompleted l then subStringSum M (lt_historyE l) [] (d - 1 + HANGMAN_INITIAL_HP + 1)
            else subStringSum M (lt_list_E l) [] (d - 1 + miss_count)
          else if lt_uncompleted l then subStringSum M (lt_history l) [] (d + HANGMAN_INITIAL_HP)
          else subStringSum M (lt_list l) [] (d + miss_count));
        let pp = divd (muld (Num (- 57)) (m_log M s)) (i2d d);
        let extra = Num 0;
        let (pp, extra) = (if has mods HANGMAN_MOD_H
            then (muld pp (dlit (112 / 100)), addd extra (Num 4)) else (pp, extra));
        let (pp, extra) = (if has mods HANGMAN_MOD_D
            then (muld pp (dlit (118 / 100)), addd extra (Num 6)) else (pp, extra));
        let extra = (if has mods HANGMAN_MOD_I then addd extra (Num 5) else extra);
        let diff = muld (Num (- 7)) (m_log M (subd (Num 1)
            (g_exp E (divd (muld (dlit (- (70001 / 10))) (i2d (w_freq w))) (Num 1000000000)))));
        let pp = (if \<not> lt_uncompleted l then addd pp diff else pp);
        Some (if \<not> lt_uncompleted l then addd pp extra else pp) })"

subsection \<open>The words\<close>

text \<open>
  A word that starts with a minus has been removed and is skipped; the search runs through the
  table from \<open>i\<close> on and must end inside it.
\<close>

definition entry :: "genv \<Rightarrow> int \<Rightarrow> word_entry option" where
  "entry E i = do {
     s \<leftarrow> rdi (g_words E) i;
     f \<leftarrow> rdi (g_freqs E) i;
     Some \<lparr>w_str = s, w_freq = f, w_index = i\<rparr> }"

fun skip_removed :: "genv \<Rightarrow> nat \<Rightarrow> int \<Rightarrow> word_entry option" where
  "skip_removed E 0 i = None"
| "skip_removed E (Suc k) i = do {
     w \<leftarrow> entry E i;
     if w_str w \<noteq> [] \<and> hd (w_str w) = CHR ''-'' then skip_removed E k (i + 1) else Some w }"

definition random_word :: "genv \<Rightarrow> int \<Rightarrow> word_entry game" where
  "random_word E parameter =
     (let parameter = (if parameter > int (length (g_words E)) then int (length (g_words E)) else parameter) in
      bindG (random E 0 (parameter - 1)) (\<lambda>i.
      defined (skip_removed E (Suc (length (g_words E))) i)))"

definition word_at :: "genv \<Rightarrow> int \<Rightarrow> word_entry option" where
  "word_at E i = do {
     w \<leftarrow> entry E i;
     Some (if w_str w \<noteq> [] \<and> hd (w_str w) = CHR ''-'' then w\<lparr>w_str := tl (w_str w)\<rparr> else w) }"

subsection \<open>The room\<close>

text \<open>Operations on a room take the room and return it; \<open>newWord\<close> keeps the player and the
  start time.\<close>

definition newWord :: "genv \<Rightarrow> hangman \<Rightarrow> hangman game" where
  "newWord E h = bindG (random_word E HANGMAN_WORD_LIST) (\<lambda>w.
     ret (h\<lparr>hg_mods := 0, hg_word := w, hg_guess_history := [], hg_HP := 7\<rparr>))"

definition new_room :: "genv \<Rightarrow> hangman game" where
  "new_room E = newWord E
     \<lparr>hg_HP = 0, hg_start_time = 0, hg_mods = 0, hg_player_id = 0, hg_player_nickname = [],
      hg_guess_history = [], hg_word = \<lparr>w_str = [], w_freq = 0, w_index = 0\<rparr>\<rparr>"

definition sprintf_buf :: "nat \<Rightarrow> string \<Rightarrow> string thrown" where
  "sprintf_buf n s = (if length s < n then Inr s else Inl Aborted)"

definition quoted :: "string \<Rightarrow> string" where
  "quoted s = DQUOTE # s @ [DQUOTE]"

definition writeHistory :: "genv \<Rightarrow> hangman \<Rightarrow> fp \<Rightarrow> string game" where
  "writeHistory E h score = bindG (now E) (\<lambda>t.
     bindG (lift (sprintf_buf 1024
       (''INSERT INTO game_hangman_history (time,player_id,word_id,word_str,guess_history,mods,score) values ('' @
        print_int t @ '','' @ print_int (hg_player_id h) @ '','' @ print_int (w_index (hg_word h)) @ '','' @
        quoted (g_vararg E (w_str (hg_word h))) @ '','' @ quoted (g_vararg E (hg_guess_history h)) @ '','' @
        print_int (hg_mods h) @ '','' @ print_double score @ '')''))) (\<lambda>sql.
     bindG (send (Connect (g_server E))) (\<lambda>_.
     bindG (send (Insert (g_server E) sql)) (\<lambda>_.
     ret []))))"

definition leaveRoom :: "genv \<Rightarrow> hangman \<Rightarrow> fp \<Rightarrow> (hangman \<times> string) game" where
  "leaveRoom E h score = bindG (writeHistory E h score) (\<lambda>out.
     ret (h\<lparr>hg_player_id := 0, hg_player_nickname := []\<rparr>, out))"

definition getAnswer :: "hangman \<Rightarrow> string" where
  "getAnswer h = T_answer_is @ w_str (hg_word h)"

fun isGameEnded :: "hangman \<Rightarrow> bool" where
  "isGameEnded h = (hg_HP h \<le> 0 \<or> (\<forall>c \<in> set (w_str (hg_word h)). c \<in> set (hg_guess_history h)))"

definition mods_display :: "int \<Rightarrow> string" where
  "mods_display mods =
     (let t = (if has mods HANGMAN_MOD_E then ''E'' else []) @ (if has mods HANGMAN_MOD_H then ''H'' else []) @
              (if has mods HANGMAN_MOD_D then ''D'' else []) @ (if has mods HANGMAN_MOD_I then ''I'' else []) in
      if t \<noteq> [] then ''+'' @ t @ '' '' else t)"

text \<open>The display of the word from position \<open>i\<close> on. With the mod H the loop stops when no guessed
  letter follows, and the width of a gap is random.\<close>

fun status_loop :: "genv \<Rightarrow> int \<Rightarrow> string \<Rightarrow> nat \<Rightarrow> string \<Rightarrow> string \<Rightarrow> string game" where
  "status_loop E mods history i [] output = ret output"
| "status_loop E mods history i (c # cs) output =
     (if has mods HANGMAN_MOD_I \<and> i = 0 then status_loop E mods history (Suc i) cs output
      else if c \<in> set history then
        status_loop E mods history (Suc i) cs (output @ [c] @ (if has mods HANGMAN_MOD_D then [] else '' ''))
      else if has mods HANGMAN_MOD_D then status_loop E mods history (Suc i) cs output
      else if has mods HANGMAN_MOD_H then
        if \<forall>d \<in> set cs. d \<notin> set history then ret output
        else bindG (random E 0 99) (\<lambda>r.
          status_loop E mods history (Suc i) cs (output @ (if r \<le> 49 then ''  '' else ''   '')))
      else status_loop E mods history (Suc i) cs (output @ ''_ ''))"

definition getStatus :: "genv \<Rightarrow> hangman \<Rightarrow> string game" where
  "getStatus E h = bindG (status_loop E (hg_mods h) (hg_guess_history h) 0 (w_str (hg_word h)) []) (\<lambda>output.
     ret (output @ [CHR 0x0A] @ mods_display (hg_mods h) @ ''HP:'' @ print_int (hg_HP h) @
       (if hg_guess_history h \<noteq> [] then T_used_letters @ hg_guess_history h else [])))"

text \<open>\<^verbatim>\<open>char\<close> is signed, so a byte of 128 or more is below \<^verbatim>\<open>'a'\<close>.\<close>

definition lower_case :: "char \<Rightarrow> char" where
  "lower_case c = (if 65 \<le> code c \<and> code c \<le> 90 then char_of (code c + 32) else c)"

definition is_letter :: "char \<Rightarrow> bool" where
  "is_letter c \<longleftrightarrow> 97 \<le> code c \<and> code c \<le> 122"

definition guess :: "genv \<Rightarrow> char \<Rightarrow> hangman \<Rightarrow> (hangman \<times> string) game" where
  "guess E c h =
     (let input = lower_case c in
      if \<not> is_letter input then bindG (cuteEmoji E False) (\<lambda>e. ret (h, T_not_a_letter @ e))
      else if input \<in> set (hg_guess_history h) then
        bindG (cuteEmoji E True) (\<lambda>e. ret (h, T_guessed_already @ e))
      else
        let h = h\<lparr>hg_guess_history := hg_guess_history h @ [input]\<rparr>;
            h = (if input \<in> set (w_str (hg_word h)) then h else h\<lparr>hg_HP := hg_HP h - 1\<rparr>) in
        bindG (getStatus E h) (\<lambda>s. ret (h, s)))"

definition room_score :: "genv \<Rightarrow> hangman \<Rightarrow> fp game" where
  "room_score E h = defined (scoring E (hg_word h) (hg_guess_history h) (hg_mods h))"

definition endGame :: "genv \<Rightarrow> hangman \<Rightarrow> (hangman \<times> string) game" where
  "endGame E h = bindG (room_score E h) (\<lambda>score.
     if hg_HP h \<le> 0 then bindG (cuteEmoji E False) (\<lambda>e.
       bindG (leaveRoom E h score) (\<lambda>(h', out).
       ret (h', T_lost @ e @ T_still_scored @ print_double score @ T_points @ [CHR 0x0A] @ getAnswer h @ out)))
     else bindG (cuteEmoji E True) (\<lambda>e.
       bindG (leaveRoom E h score) (\<lambda>(h', out).
       ret (h', T_won @ print_double score @ T_points @ e @ out))))"

definition giveUp :: "genv \<Rightarrow> hangman \<Rightarrow> (hangman \<times> string) game" where
  "giveUp E h = bindG (room_score E h) (\<lambda>score.
     bindG (leaveRoom E h score) (\<lambda>(h', out).
     ret (h', getAnswer h @ T_gave_up @ print_double score @ T_oh @ out)))"

end
