(* ===== verification/Lobby.thy ===== *)
theory Lobby
  imports Hangman
begin

text \<open>
  \<^verbatim>\<open>src/games/hangman.hpp\<close>, second part: the class \<^verbatim>\<open>HangmanGame\<close>, the commands of the
  players on the 20 rooms of the lobby and the ranking in the database. A command changes the
  rooms in the world; when it throws, what it has done to them stays.
\<close>

definition lobby_size :: nat where "lobby_size = 20"

record target =
  tar_user_id :: int
  tar_nickname :: string

definition LF :: string where "LF = [CHR 0x0A]"

subsection \<open>The ranking\<close>

text \<open>A member of a row that holds a number.\<close>

definition num :: "(string \<Rightarrow> 'a thrown) \<Rightarrow> json \<Rightarrow> string \<Rightarrow> 'a game" where
  "num conv r k = lift (number_at conv r k)"

definition txt_at :: "json \<Rightarrow> string \<Rightarrow> string game" where
  "txt_at r k = lift (text_at r k)"

text \<open>The counters of the loop over the history of a player.\<close>

record tally =
  ty_max_qq :: fp
  ty_qq :: fp
  ty_playcount :: int
  ty_total_guesses :: int
  ty_total_hits :: int
  ty_total_passes :: int

definition LAMBDA :: fp where "LAMBDA = dlit (98 / 100)"

definition tally_row :: "json \<Rightarrow> tally \<Rightarrow> tally game" where
  "tally_row r t =
     bindG (num stod r ''score'') (\<lambda>score.
     bindG (num stoi r ''mods'') (\<lambda>mods.
     let qq = addd (muld (ty_qq t) LAMBDA) score in
     bindG (txt_at r ''word_str'') (\<lambda>word_str.
     bindG (txt_at r ''guess_history'') (\<lambda>guess_history.
     let passed = (\<forall>c \<in> set word_str. c \<in> set guess_history) in
     bindG (if has mods HANGMAN_MOD_E
            then lift (if guess_history = [] then Inl OutOfRange else Inr (tl guess_history))
            else ret guess_history) (\<lambda>guess_history.
     ret \<lparr>ty_max_qq = (if flt (ty_max_qq t) qq then qq else ty_max_qq t), ty_qq = qq,
       ty_playcount = ty_playcount t + 1,
       ty_total_guesses = ty_total_guesses t + int (length guess_history),
       ty_total_hits = ty_total_hits t + int (length (filter (\<lambda>c. c \<in> set word_str) guess_history)),
       ty_total_passes = (if passed then ty_total_passes t + 1 else ty_total_passes t)\<rparr>)))))"

fun tally_rows :: "json list \<Rightarrow> tally \<Rightarrow> tally game" where
  "tally_rows [] t = ret t"
| "tally_rows (r # rs) t = bindG (tally_row r t) (tally_rows rs)"

text \<open>The search of the player in the sorted ranking; \<open>i\<close> is the position.\<close>

fun new_rank :: "genv \<Rightarrow> target \<Rightarrow> nat \<Rightarrow> json list \<Rightarrow> string game" where
  "new_rank E tar i [] = ret []"
| "new_rank E tar i (r # rs) =
     bindG (txt_at r ''player_id'') (\<lambda>player_id.
     if player_id = print_int (tar_user_id tar) then
       bindG (num stoi r ''qqrank'') (\<lambda>prev_rank.
       let curr_rank = int i + 1 in
       if curr_rank \<noteq> prev_rank then
         bindG (send (Update (g_server E) (''UPDATE game_hangman_ranking SET qqrank = '' @
           print_int curr_rank @ '' where player_id = '' @ print_int (tar_user_id tar)))) (\<lambda>_.
         if curr_rank < prev_rank
         then bindG (defined (ck (prev_rank - curr_rank))) (\<lambda>d. ret ('' (+'' @ print_int d @ '')''))
         else ret [])
       else ret [])
     else new_rank E tar (Suc i) rs)"

definition updatePlayer :: "genv \<Rightarrow> target \<Rightarrow> string game" where
  "updatePlayer E tar =
     bindG (send (Connect (g_server E))) (\<lambda>_.
     bindG (send (Select (g_server E)
       (''SELECT score, guess_history, word_str, mods FROM game_hangman_history where player_id = '' @
        print_int (tar_user_id tar)))) (\<lambda>j.
     bindG (tally_rows j \<lparr>ty_max_qq = Num 0, ty_qq = Num 0, ty_playcount = 0, ty_total_guesses = 0,
       ty_total_hits = 0, ty_total_passes = 0\<rparr>) (\<lambda>t.
     let acc = (if ty_total_guesses t > 0
           then divd (i2d (ty_total_hits t)) (i2d (ty_total_guesses t)) else Num 0);
         passrate = (if ty_playcount t > 0
           then divd (i2d (ty_total_passes t)) (i2d (ty_playcount t)) else Num 0);
         max_qq = muld (ty_max_qq t) (muld (subd (Num 1) LAMBDA) (Num 100)) in
     bindG (send (Update (g_server E) (''UPDATE game_hangman_ranking SET qqpoint = '' @ print_double max_qq @
       '', acc = '' @ print_double acc @ '', passrate = '' @ print_double passrate @ '', playcount = '' @
       print_int (ty_playcount t) @ '' where player_id = '' @ print_int (tar_user_id tar)))) (\<lambda>_.
     bindG (send (Select (g_server E)
       ''Select qqpoint, player_id, qqrank from game_hangman_ranking ORDER BY qqpoint DESC'')) (\<lambda>jranking.
     new_rank E tar 0 jranking)))))"

fun ranking_loop :: "genv \<Rightarrow> target \<Rightarrow> json list \<Rightarrow> bool game" where
  "ranking_loop E tar [] = ret False"
| "ranking_loop E tar (r # rs) =
     bindG (txt_at r ''player_id'') (\<lambda>player_id.
     if player_id = print_int (tar_user_id tar) then
       bindG (txt_at r ''nickname'') (\<lambda>nickname.
       if nickname \<noteq> tar_nickname tar then
         bindG (send (Update (g_server E) (''UPDATE game_hangman_ranking SET nickname = '' @
           quoted (tar_nickname tar) @ '' where player_id = '' @ print_int (tar_user_id tar)))) (\<lambda>_. ret True)
       else ret True)
     else ranking_loop E tar rs)"

definition playerRankingExists :: "genv \<Rightarrow> target \<Rightarrow> bool game" where
  "playerRankingExists E tar =
     bindG (send (Connect (g_server E))) (\<lambda>_.
     bindG (send (Select (g_server E) ''SELECT player_id, nickname from game_hangman_ranking'')) (\<lambda>j.
     bindG (ranking_loop E tar j) (\<lambda>found.
     if found then ret True
     else
       bindG (lift (sprintf_buf 200
         (''INSERT INTO game_hangman_ranking (player_id, nickname, qqpoint, qqrank) values ('' @
          print_int (tar_user_id tar) @ '', '' @ quoted (takeWhile (\<lambda>c. c \<noteq> NUL) (tar_nickname tar)) @
          '', '' @ g_misprint E @ '', 0)''))) (\<lambda>sql.
       bindG (send (Insert (g_server E) sql)) (\<lambda>_. ret False)))))"

text \<open>The percentages are printed from the text of the row.\<close>

definition percent :: "json \<Rightarrow> string \<Rightarrow> string game" where
  "percent r k = bindG (num stod r k) (\<lambda>x. ret (print_double (muld (Num 100) x)))"

definition showPlayerData :: "genv \<Rightarrow> target \<Rightarrow> string game" where
  "showPlayerData E tar =
     bindG (playerRankingExists E tar) (\<lambda>ex.
     if \<not> ex then ret T_never_played
     else
       bindG (updatePlayer E tar) (\<lambda>rank_change.
       bindG (send (Connect (g_server E))) (\<lambda>_.
       bindG (send (Select (g_server E) (''SELECT * from game_hangman_ranking where player_id = '' @
         print_int (tar_user_id tar)))) (\<lambda>j.
       let r = hd j in
       bindG (txt_at r ''nickname'') (\<lambda>nickname.
       bindG (txt_at r ''player_id'') (\<lambda>player_id.
       bindG (txt_at r ''qqpoint'') (\<lambda>qqpoint.
       bindG (num stoi r ''qqrank'') (\<lambda>qqrank.
       bindG (num stoi r ''playcount'') (\<lambda>playcount.
       bindG (percent r ''acc'') (\<lambda>acc.
       bindG (percent r ''passrate'') (\<lambda>passrate.
       ret (T_user @ nickname @ '' ('' @ player_id @ T_word_data @ LF @ ''pp:'' @ qqpoint @
         T_data_rank @ print_int qqrank @ rank_change @ T_data_plays @ print_int playcount @
         T_data_hits @ acc @ ''%'' @ T_data_passes @ passrate @ ''%''))))))))))))"

subsection \<open>The commands of a game\<close>

fun find_player :: "int \<Rightarrow> nat \<Rightarrow> hangman list \<Rightarrow> int" where
  "find_player who i [] = - 1"
| "find_player who i (h # hs) = (if hg_player_id h = who then int i else find_player who (Suc i) hs)"

definition findPlayer :: "int \<Rightarrow> int game" where
  "findPlayer who w = (w, Inr (find_player who 0 (wd_rooms w)))"

definition introduceHangman :: "genv \<Rightarrow> string game" where
  "introduceHangman E = bindG (cuteEmoji E True) (\<lambda>e. ret (T_introduction @ e @ LF))"

text \<open>The mods from the first four characters of the command.\<close>

definition mod_of_char :: "int \<Rightarrow> char \<Rightarrow> int" where
  "mod_of_char mods c =
     (let mods = (if c = CHR ''E'' \<or> c = CHR ''e'' then mods OR HANGMAN_MOD_E else mods);
          mods = (if c = CHR ''H'' \<or> c = CHR ''h'' then mods OR HANGMAN_MOD_H else mods);
          mods = (if c = CHR ''D'' \<or> c = CHR ''d'' then mods OR (HANGMAN_MOD_D + HANGMAN_MOD_H) else mods) in
      if c = CHR ''I'' \<or> c = CHR ''i'' then mods OR HANGMAN_MOD_I else mods)"

definition parse_mods :: "string \<Rightarrow> int" where
  "parse_mods cmd = foldl mod_of_char 0 (take 4 cmd)"

text \<open>The test of a room reads the clock only when the room has a player. The hint of the mod E is
  the second letter of the word; \<^verbatim>\<open>str[1]\<close> of a word with one letter is its terminating null.\<close>

definition expired :: "genv \<Rightarrow> hangman \<Rightarrow> bool game" where
  "expired E h = bindG (now E) (\<lambda>t. ret (hg_start_time h - t > HANGMAN_EXPIRATION_TIME))"

definition second_letter :: "string \<Rightarrow> char option" where
  "second_letter s = rd (s @ [NUL]) 1"

definition enter_room :: "genv \<Rightarrow> target \<Rightarrow> int \<Rightarrow> nat \<Rightarrow> string game" where
  "enter_room E tar mods i =
     bindG (room i) (\<lambda>h.
     bindG (expired E h) (\<lambda>e.
     bindG (if e then bindG (leaveRoom E h (Num 0)) (\<lambda>(h, out). bindG (set_room i h) (\<lambda>_. ret h)) else ret h) (\<lambda>h.
     bindG (now E) (\<lambda>t.
     let h = h\<lparr>hg_start_time := t, hg_player_id := tar_user_id tar\<rparr> in
     bindG (set_room i h) (\<lambda>_.
     bindG (newWord E h) (\<lambda>h.
     let h = h\<lparr>hg_mods := mods\<rparr> in
     bindG (if has mods HANGMAN_MOD_E then
         bindG (defined (second_letter (w_str (hg_word h)))) (\<lambda>c.
         bindG (guess E c h) (\<lambda>(h, out). ret (h\<lparr>hg_HP := 8\<rparr>)))
       else ret h) (\<lambda>h.
     bindG (set_room i h) (\<lambda>_.
     getStatus E h))))))))"

fun seek_room :: "genv \<Rightarrow> target \<Rightarrow> int \<Rightarrow> nat \<Rightarrow> nat \<Rightarrow> string option game" where
  "seek_room E tar mods i 0 = ret None"
| "seek_room E tar mods i (Suc k) =
     bindG (room i) (\<lambda>h.
     bindG (if hg_player_id h = 0 then ret True else expired E h) (\<lambda>free.
     if free then bindG (enter_room E tar mods i) (\<lambda>out. ret (Some out))
     else seek_room E tar mods (Suc i) k))"

definition startHangman :: "genv \<Rightarrow> target \<Rightarrow> string \<Rightarrow> string game" where
  "startHangman E tar cmd =
     bindG (findPlayer (tar_user_id tar)) (\<lambda>p.
     if p \<noteq> - 1 then ret (T_not_over @ print_int p)
     else
       bindG (playerRankingExists E tar) (\<lambda>ex.
       bindG (if \<not> ex then introduceHangman E else ret []) (\<lambda>out.
       bindG (seek_room E tar (parse_mods cmd) 0 lobby_size) (\<lambda>r.
       case r of
         Some status \<Rightarrow> ret (out @ status)
       | None \<Rightarrow> bindG (cuteEmoji E False) (\<lambda>e1. bindG (cuteEmoji E True) (\<lambda>e2.
           ret (T_rooms_full @ e1 @ T_come_later @ e2)))))))"

definition inputHangman :: "genv \<Rightarrow> target \<Rightarrow> string \<Rightarrow> string game" where
  "inputHangman E tar input =
     bindG (findPlayer (tar_user_id tar)) (\<lambda>p.
     if p = - 1 then bindG (cuteEmoji E True) (\<lambda>e. ret (T_not_started @ e))
     else if input = [] then ret T_typed_air
     else
       let position = nat p in
       bindG (room position) (\<lambda>h.
       bindG (guess E (hd input) h) (\<lambda>(h, out).
       bindG (set_room position h) (\<lambda>_.
       if isGameEnded h then
         bindG (endGame E h) (\<lambda>(h, out2).
         bindG (set_room position h) (\<lambda>_.
         bindG (updatePlayer E tar) (\<lambda>out3.
         ret (out @ LF @ out2 @ out3))))
       else ret out))))"

definition giveupHangman :: "genv \<Rightarrow> target \<Rightarrow> string game" where
  "giveupHangman E tar =
     bindG (findPlayer (tar_user_id tar)) (\<lambda>p.
     if p = - 1 then bindG (cuteEmoji E True) (\<lambda>e. ret (T_not_playing @ e))
     else
       let position = nat p in
       bindG (room position) (\<lambda>h.
       bindG (giveUp E h) (\<lambda>(h, out).
       bindG (set_room position h) (\<lambda>_.
       bindG (updatePlayer E tar) (\<lambda>out2.
       ret (out @ out2))))))"

fun room_lines :: "genv \<Rightarrow> nat \<Rightarrow> hangman list \<Rightarrow> string \<Rightarrow> string game" where
  "room_lines E i [] out = ret out"
| "room_lines E i (h # hs) out =
     (if hg_player_id h \<noteq> 0 then
        bindG (getStatus E h) (\<lambda>s.
        room_lines E (Suc i) hs (out @ print_int (int i) @ '':'' @ print_int (hg_player_id h) @ LF @ s @ LF))
      else room_lines E (Suc i) hs out)"

definition gameStatus :: "genv \<Rightarrow> string game" where
  "gameStatus E w = room_lines E 0 (wd_rooms w) T_room_list w"

subsection \<open>The table of the players\<close>

fun ranking_lines :: "nat \<Rightarrow> nat \<Rightarrow> json list \<Rightarrow> string \<Rightarrow> string game" where
  "ranking_lines i stop [] out = ret out"
| "ranking_lines i stop (r # rs) out =
     bindG (num stoi r ''qqpoint'') (\<lambda>qq.
     bindG (txt_at r ''nickname'') (\<lambda>nick.
     ranking_lines (Suc i) stop rs
       (out @ print_int (int i + 1) @ '': '' @ print_int qq @ ''pp '' @ nick @
        (if Suc i < stop then LF else []))))"

definition hangmanRanking :: "genv \<Rightarrow> int \<Rightarrow> string game" where
  "hangmanRanking E page =
     bindG (send (Connect (g_server E))) (\<lambda>_.
     bindG (send (Select (g_server E)
       ''SELECT nickname, qqpoint from game_hangman_ranking ORDER BY qqpoint DESC'')) (\<lambda>j.
     bindG (defined (ck ((max page 1 - 1) * 10))) (\<lambda>a.
     bindG (defined (ck (max page 1 * 10))) (\<lambda>b.
     let first = min (length j) (nat a); stop = min (length j) (nat b) in
     ranking_lines first stop (take (stop - first) (drop first j)) []))))"

fun rescore :: "genv \<Rightarrow> json list \<Rightarrow> unit game" where
  "rescore E [] = ret ()"
| "rescore E (r # rs) =
     bindG (num stoi r ''id'') (\<lambda>n.
     bindG (num stoi r ''word_id'') (\<lambda>word_id.
     bindG (txt_at r ''guess_history'') (\<lambda>guess_history.
     bindG (num stoi r ''mods'') (\<lambda>mods.
     bindG (defined (word_at E word_id)) (\<lambda>w.
     bindG (defined (scoring E w guess_history (sint (word_of_int mods :: 8 word)))) (\<lambda>score.
     bindG (send (Update (g_server E) (''UPDATE game_hangman_history SET score = '' @ print_double score @
       '' where id = '' @ print_int n))) (\<lambda>_.
     rescore E rs)))))))"

definition recalculateAllScores :: "genv \<Rightarrow> string game" where
  "recalculateAllScores E =
     bindG (send (Connect (g_server E))) (\<lambda>_.
     bindG (send (Select (g_server E) ''Select id,word_id,guess_history,mods from game_hangman_history'')) (\<lambda>j.
     bindG (rescore E j) (\<lambda>_.
     ret (T_recalculated @ print_int (int (length j)) @ T_scores))))"

end
