(* ===== verification/WordFilter.thy ===== *)
theory WordFilter
  imports BotText
begin

text \<open>
  \<^verbatim>\<open>forbiddenWordsLibrary\<close> of \<^verbatim>\<open>sdk/utils.hpp\<close>: the search for forbidden words. Its loops run up to the size
  of the first text of a table (\<^verbatim>\<open>table->size()\<close>), not up to that of the table, and begin with the second
  entry. The tables are given up to the last entry that is read; those of the file have some 2500.
\<close>

definition traditionalChineseLibrary :: "string list" where
  "traditionalChineseLibrary = [T_word_t0, T_word_t1, T_word_t2, T_word_t3, T_word_t4, T_word_t5, T_word_t6]"

definition simplifiedChineseLibrary :: "string list" where
  "simplifiedChineseLibrary = [T_word_s0, T_word_s1, T_word_s2, T_word_s3, T_word_s4, T_word_s5, T_word_s6]"

definition specialCharactersLibrary :: "string list" where
  "specialCharactersLibrary = [T_word_x0, T_word_x1, T_word_x2, T_word_x3]"

definition library_hit :: "string list \<Rightarrow> string \<Rightarrow> bool" where
  "library_hit library str \<longleftrightarrow>
     list_ex (\<lambda>i. str_find str (library ! i) 0 \<noteq> None) [1..<length (library ! 0) + 1]"

definition forbiddenWordsLibrary :: "string \<Rightarrow> bool" where
  "forbiddenWordsLibrary str \<longleftrightarrow> library_hit traditionalChineseLibrary str \<or>
     library_hit simplifiedChineseLibrary str \<or> library_hit specialCharactersLibrary str"

lemma library_hit_tail:
  assumes "length library = length (library ! 0) + 1"
  shows "library_hit library str \<longleftrightarrow> (\<exists>w \<in> set (tl library). str_find str w 0 \<noteq> None)"
proof -
  have "set [1..<length (library ! 0) + 1] = Suc ` {..<length (tl library)}"
    unfolding lessThan_atLeast0 image_Suc_atLeastLessThan using assms by (simp del: upt_Suc)
  then have "library_hit library str \<longleftrightarrow> (\<exists>i < length (tl library). str_find str (tl library ! i) 0 \<noteq> None)"
    by (auto simp: library_hit_def list_ex_iff nth_tl)
  then show ?thesis by (metis in_set_conv_nth)
qed

lemmas words = T_word_t0_def T_word_t1_def T_word_t2_def T_word_t3_def T_word_t4_def T_word_t5_def T_word_t6_def
  T_word_s0_def T_word_s1_def T_word_s2_def T_word_s3_def T_word_s4_def T_word_s5_def T_word_s6_def
  T_word_x0_def T_word_x1_def T_word_x2_def T_word_x3_def


end
