(* ===== verification/Chat.thy ===== *)
theory Chat
  imports Store Lobby WordFilter
begin

text \<open>
  The chat interface: \<^verbatim>\<open>sdk/cqhttp_api.hpp\<close> (messages, requests, the parser of what the chat server
  sends), \<^verbatim>\<open>Processer\<close> of \<^verbatim>\<open>sdk/client.hpp\<close> and the events of \<^verbatim>\<open>src/main.hpp\<close>; and the world of the bot:
  the rooms and the database log of the game, what was sent to the chat server (the last first),
  the administrators and the files. What is printed on the console is left out. The JSON
  library's \<^verbatim>\<open>dump\<close>, which throws for a text that is not UTF-8, is a field of the environment.
\<close>

subsection \<open>Data\<close>

datatype target_type = PRIVATE | GROUP

record message =
  ms_type :: target_type
  ms_time :: int
  ms_group_id :: int
  ms_user_id :: int
  ms_message_id :: int
  ms_nickname :: string
  ms_message :: string

datatype request_event = ACCEPT | REJECT
datatype request_type = FRIEND | GROUP_REQUEST
datatype sub_type = ADD | INVITE

record request_info =
  rq_subtype :: sub_type
  rq_type :: request_type
  rq_time :: int
  rq_group_id :: int
  rq_user_id :: int
  rq_flag :: string
  rq_message :: string

datatype role = OWNER | ADMIN | MEMBER

record group_sender =
  sd_age :: int
  sd_role :: role
  sd_card :: "string option"
  sd_level :: string
  sd_nickname :: string
  sd_title :: "string option"
  sd_sex :: string

record picture_info =
  pc_size :: int
  pc_filename :: string
  pc_url :: string
  pc_format :: string

text \<open>The environment: the network (\<open>be_http\<close>, \<open>be_get\<close> and \<open>be_download\<close> are \<^verbatim>\<open>HttpPost\<close>, \<^verbatim>\<open>HttpGet\<close> and
  \<^verbatim>\<open>DownloadFile\<close>), the JSON library, the values of \<^verbatim>\<open>rand()\<close> for the name of a file and the configuration.
  The last three fields are the indeterminate local variables.\<close>

record botenv =
  be_db :: dbenv
  be_game :: genv
  be_owner :: int
  be_group :: int
  be_test :: bool
  be_dump :: "json \<Rightarrow> string thrown"
  be_parse :: "string \<Rightarrow> json thrown"
  be_http :: "string list \<Rightarrow> string \<Rightarrow> string thrown"
  be_get :: "string list \<Rightarrow> string \<Rightarrow> string thrown"
  be_download :: "string list \<Rightarrow> string \<Rightarrow> string thrown"
  be_chars :: "string list \<Rightarrow> nat \<Rightarrow> nat"
  be_root :: string
  be_steam_key :: string
  be_extract :: "string \<Rightarrow> string option"
  be_writable :: "string \<Rightarrow> bool"
  be_code :: int
  be_what :: string
  be_fresh_message :: message
  be_fresh_sender :: group_sender
  be_fresh_request :: request_info

record bot =
  bt_world :: world
  bt_sent :: "json list"
  bt_admins :: "AdminInfo list"
  bt_files :: "string \<rightharpoonup> string"

subsection \<open>Programs of the bot\<close>

type_synonym 'a bot_prog = "bot \<Rightarrow> bot \<times> 'a thrown"

definition retB :: "'a \<Rightarrow> 'a bot_prog" where
  "retB x b = (b, Inr x)"

definition bindB :: "'a bot_prog \<Rightarrow> ('a \<Rightarrow> 'b bot_prog) \<Rightarrow> 'b bot_prog" where
  "bindB m f b = (case m b of (b, Inl e) \<Rightarrow> (b, Inl e) | (b, Inr x) \<Rightarrow> f x b)"

definition thenB :: "unit bot_prog \<Rightarrow> 'a bot_prog \<Rightarrow> 'a bot_prog" where
  "thenB m n = bindB m (\<lambda>_. n)"

definition liftB :: "'a thrown \<Rightarrow> 'a bot_prog" where
  "liftB v b = (b, v)"

definition definedB :: "'a option \<Rightarrow> 'a bot_prog" where
  "definedB v b = (b, case v of None \<Rightarrow> Inl Undefined | Some x \<Rightarrow> Inr x)"

definition gameB :: "'a game \<Rightarrow> 'a bot_prog" where
  "gameB m b = (case m (bt_world b) of (w, r) \<Rightarrow> (b\<lparr>bt_world := w\<rparr>, r))"

definition dbB :: "'a statement \<Rightarrow> 'a bot_prog" where
  "dbB m = gameB (send m)"

text \<open>A handler runs for the exceptions of its class only.\<close>

definition catchB :: "(exn \<Rightarrow> bool) \<Rightarrow> 'a bot_prog \<Rightarrow> 'a bot_prog \<Rightarrow> 'a bot_prog" where
  "catchB p m h b = (case m b of (b, Inl e) \<Rightarrow> if p e then h b else (b, Inl e) | (b, Inr x) \<Rightarrow> (b, Inr x))"

definition timeB :: "botenv \<Rightarrow> int bot_prog" where
  "timeB E = dbB (timeS (be_db E))"

definition randB :: "botenv \<Rightarrow> int \<Rightarrow> int \<Rightarrow> int bot_prog" where
  "randB E lo hi = gameB (random (be_game E) lo hi)"

subsection \<open>Sending\<close>

definition send_json :: "botenv \<Rightarrow> json \<Rightarrow> unit bot_prog" where
  "send_json E j b = (if be_test E then (b, Inr ())
     else case be_dump E j of
       Inl e \<Rightarrow> (b, Inl e)
     | Inr t \<Rightarrow> (b\<lparr>bt_sent := j # bt_sent b\<rparr>, Inr ()))"

definition message_json :: "string \<Rightarrow> string \<Rightarrow> int \<Rightarrow> string \<Rightarrow> json" where
  "message_json action key n msg = JObject [(''action'', JString action),
     (''params'', JObject [(key, JNumber (print_int n)),
       (''message'', JString (if msg = [] then ''null'' else msg))])]"

definition send_private_message :: "botenv \<Rightarrow> int \<Rightarrow> string \<Rightarrow> unit bot_prog" where
  "send_private_message E user_id msg = send_json E (message_json ''send_private_msg'' ''user_id'' user_id msg)"

definition send_group_message :: "botenv \<Rightarrow> int \<Rightarrow> string \<Rightarrow> unit bot_prog" where
  "send_group_message E group_id msg = send_json E (message_json ''send_group_msg'' ''group_id'' group_id msg)"

definition send_message :: "botenv \<Rightarrow> message \<Rightarrow> string \<Rightarrow> unit bot_prog" where
  "send_message E tar msg = (case ms_type tar of
     GROUP \<Rightarrow> send_group_message E (ms_group_id tar) msg
   | PRIVATE \<Rightarrow> send_private_message E (ms_user_id tar) msg)"

definition friend_request :: "botenv \<Rightarrow> request_info \<Rightarrow> request_event \<Rightarrow> unit bot_prog" where
  "friend_request E req event = send_json E (JObject [(''action'', JString ''set_friend_add_request''),
     (''params'', JObject [(''approve'', JBool (event = ACCEPT)), (''flag'', JString (rq_flag req))])])"

text \<open>Rejecting a group approves it, too.\<close>

definition group_request :: "botenv \<Rightarrow> request_info \<Rightarrow> request_event \<Rightarrow> unit bot_prog" where
  "group_request E req event = send_json E (JObject [(''action'', JString ''set_group_add_request''),
     (''params'', JObject [(''approve'', JBool True), (''flag'', JString (rq_flag req)),
       (''sub_type'', JString (if rq_subtype req = INVITE then ''invite'' else ''add''))])])"

subsection \<open>Files\<close>

definition fileExist :: "string \<Rightarrow> bool bot_prog" where
  "fileExist path b = (b, Inr (bt_files b path \<noteq> None))"

text \<open>Nothing throws in \<^verbatim>\<open>copyFile\<close>: it returns true also when a file cannot be opened, and a missing
  source makes an empty copy.\<close>

definition copyFile :: "botenv \<Rightarrow> string \<Rightarrow> string \<Rightarrow> bool bot_prog" where
  "copyFile E source dest b =
     (if be_writable E dest
      then b\<lparr>bt_files := (bt_files b)(dest \<mapsto> (case bt_files b source of None \<Rightarrow> [] | Some c \<Rightarrow> c))\<rparr> else b, Inr True)"

definition DeleteFileA :: "string \<Rightarrow> unit bot_prog" where
  "DeleteFileA path b = (b\<lparr>bt_files := (bt_files b)(path := None)\<rparr>, Inr ())"

subsection \<open>Pictures\<close>

fun get_int :: "nat \<Rightarrow> json \<Rightarrow> int thrown" where
  "get_int w (JNumber s) = (case stoll s of Inl e \<Rightarrow> Inl Undefined | Inr n \<Rightarrow>
     Inr ((n + 2 ^ (w - 1)) mod 2 ^ w - 2 ^ (w - 1)))"
| "get_int w (JBool b) = Inr (if b then 1 else 0)"
| "get_int w _ = Inl TypeError"

definition no_picture :: picture_info where
  "no_picture = \<lparr>pc_size = 0, pc_filename = [], pc_url = [], pc_format = []\<rparr>"

text \<open>After a network exception the record is the empty one as well, for nothing was read before. The
  text that is printed takes the C++ string of the format as a pointer; that is not modelled.\<close>

definition picture_fields :: "json \<Rightarrow> picture_info thrown" where
  "picture_fields d =
     andThen (andThen (member d ''size'') (get_int 32)) (\<lambda>size.
     andThen (text_at d ''filename'') (\<lambda>filename.
     andThen (text_at d ''url'') (\<lambda>url.
     if length filename < 4 then Inl OutOfRange
     else Inr \<lparr>pc_size = size, pc_filename = filename, pc_url = url, pc_format = drop (length filename - 4) filename\<rparr>)))"

definition getImage :: "botenv \<Rightarrow> string \<Rightarrow> picture_info bot_prog" where
  "getImage E file_name = catchB (\<lambda>e. e = NetworkError \<or> std_exception e)
     (bindB (\<lambda>b. (b, be_http E (wd_log (bt_world b)) file_name)) (\<lambda>response.
      liftB (andThen (andThen (be_parse E response) (\<lambda>j. member j ''data'')) picture_fields)))
     (retB no_picture)"

subsection \<open>What the chat server sends\<close>

text \<open>Every case of the switch in \<^verbatim>\<open>LogRecorder\<close> falls through to the default, which returns.\<close>

definition LogRecorder :: "int \<Rightarrow> string \<Rightarrow> unit bot_prog" where
  "LogRecorder t m = retB ()"

datatype parsed = INVALID | MESSAGE message group_sender | REQUEST request_info

text \<open>A member that is an integer, and one that is a text; the sum of the exceptions ends the filling.\<close>

definition int_at :: "nat \<Rightarrow> json \<Rightarrow> string \<Rightarrow> int thrown" where
  "int_at w d k = andThen (member d k) (get_int w)"

text \<open>The members of a message. A type of message that is neither private nor from a group leaves the
  type indeterminate; the role of the sender is never read.\<close>

definition message_group :: "json \<Rightarrow> json \<Rightarrow> message \<times> group_sender \<Rightarrow> (message \<times> group_sender) thrown" where
  "message_group j jm p = (case p of (tar, sdr) \<Rightarrow>
     andThen (text_at j ''message_type'') (\<lambda>t.
     if t = ''private'' then Inr (tar\<lparr>ms_type := PRIVATE\<rparr>, sdr)
     else if t = ''group'' then
       andThen (int_at 64 j ''group_id'') (\<lambda>group_id.
       andThen (text_at jm ''card'') (\<lambda>card.
       andThen (text_at jm ''title'') (\<lambda>title.
       Inr (tar\<lparr>ms_type := GROUP, ms_group_id := group_id\<rparr>, sdr\<lparr>sd_card := Some card, sd_title := Some title\<rparr>))))
     else Inr (tar, sdr)))"

definition parse_message :: "botenv \<Rightarrow> json \<Rightarrow> parsed thrown" where
  "parse_message E j =
     andThen (member j ''sender'') (\<lambda>jm.
     andThen (message_group j jm (be_fresh_message E, be_fresh_sender E)) (\<lambda>(tar, sdr).
     andThen (int_at 32 jm ''age'') (\<lambda>age.
     andThen (text_at jm ''nickname'') (\<lambda>nickname.
     andThen (int_at 64 j ''user_id'') (\<lambda>user_id.
     andThen (int_at 64 j ''time'') (\<lambda>t.
     andThen (text_at j ''message'') (\<lambda>m.
     Inr (MESSAGE
       (tar\<lparr>ms_nickname := nickname, ms_user_id := user_id, ms_time := t, ms_message := m\<rparr>)
       (sdr\<lparr>sd_age := age, sd_nickname := nickname\<rparr>)))))))))"

text \<open>The subtype of a request from a group is read from the type of the request.\<close>

definition parse_request :: "botenv \<Rightarrow> json \<Rightarrow> parsed thrown" where
  "parse_request E j =
     andThen (text_at j ''comment'') (\<lambda>comment.
     andThen (int_at 64 j ''user_id'') (\<lambda>user_id.
     andThen (text_at j ''flag'') (\<lambda>flag.
     andThen (int_at 64 j ''time'') (\<lambda>t.
     let r = (be_fresh_request E)\<lparr>rq_message := comment, rq_user_id := user_id, rq_flag := flag, rq_time := t\<rparr> in
     andThen (text_at j ''request_type'') (\<lambda>request_type.
     Inr (REQUEST
       (if request_type = ''friend'' then r\<lparr>rq_type := FRIEND\<rparr>
        else if request_type = ''group'' then
          r\<lparr>rq_type := GROUP_REQUEST, rq_subtype := (if request_type = ''invite'' then INVITE else ADD)\<rparr>
        else r)))))))"

definition or_invalid :: "parsed thrown \<Rightarrow> parsed thrown" where
  "or_invalid v = (case v of Inl e \<Rightarrow> if std_exception e then Inr INVALID else Inl e | Inr p \<Rightarrow> Inr p)"

text \<open>The first parsing of the text is outside the handlers.\<close>

definition Parser :: "botenv \<Rightarrow> string \<Rightarrow> parsed thrown" where
  "Parser E rawstr =
     (if str_find rawstr ''user_id'' 0 = None then Inr INVALID
      else andThen (be_parse E rawstr) (\<lambda>j.
        case text_at j ''post_type'' of
          Inl e \<Rightarrow> or_invalid (Inl e)
        | Inr t \<Rightarrow>
            if t = ''message'' then or_invalid (parse_message E j)
            else if t = ''request'' then or_invalid (parse_request E j)
            else Inr INVALID))"

text \<open>The case of a friend falls through to the case of a group.\<close>

definition on_request :: "botenv \<Rightarrow> request_info \<Rightarrow> unit bot_prog" where
  "on_request E req =
     (let group = (if rq_subtype req = INVITE then friend_request E req ACCEPT else retB ()) in
      case rq_type req of
        FRIEND \<Rightarrow> thenB (friend_request E req ACCEPT) group
      | GROUP_REQUEST \<Rightarrow> group)"

definition Processer :: "botenv \<Rightarrow> (message \<Rightarrow> group_sender \<Rightarrow> unit bot_prog) \<Rightarrow> string \<Rightarrow> unit bot_prog" where
  "Processer E on_message rawstr = bindB (liftB (Parser E rawstr)) (\<lambda>p. case p of
     MESSAGE tar sdr \<Rightarrow> on_message tar sdr
   | REQUEST req \<Rightarrow> on_request E req
   | INVALID \<Rightarrow> retB ())"

subsection \<open>Commands\<close>

text \<open>\<^verbatim>\<open>_stricmp(m.substr(0, n).c_str(), s) == 0\<close>, and \<^verbatim>\<open>substr\<close> with one argument.\<close>

definition command_is :: "nat \<Rightarrow> string \<Rightarrow> string \<Rightarrow> bool" where
  "command_is n s m \<longleftrightarrow> map lower_char (takeWhile (\<lambda>c. c \<noteq> NUL) (take n m)) = map lower_char s"

definition substr :: "string \<Rightarrow> nat \<Rightarrow> string thrown" where
  "substr s n = (if n \<le> length s then Inr (drop n s) else Inl OutOfRange)"

text \<open>\<^verbatim>\<open>sin >> d\<close> for a \<^verbatim>\<open>double\<close> leaves the rest of the text or fails; then \<^verbatim>\<open>sin >> c\<close> must fail.\<close>

definition isNum :: "botenv \<Rightarrow> string \<Rightarrow> bool" where
  "isNum E str = (case be_extract E str of None \<Rightarrow> False | Some rest \<Rightarrow> dropWhile isspace rest = [])"

definition trimB :: "string \<Rightarrow> string bot_prog" where
  "trimB s = definedB (string_trim s)"

text \<open>The replacement with a text that is not empty always ends.\<close>

definition replaceB :: "string \<Rightarrow> string \<Rightarrow> string \<Rightarrow> string bot_prog" where
  "replaceB s old new = definedB (string_replace s old new)"

end
