(* ===== verification/Commands.thy ===== *)
theory Commands
  imports Chat
begin

text \<open>
  The class \<^verbatim>\<open>Main\<close> of \<^verbatim>\<open>src/osucat.hpp\<close>: the commands that bind accounts, set options and answer
  with texts. The commands that draw pictures or calculate scores follow in the theories from \<open>Players\<close> on.
  A program that has printed through \<open>send_message\<close> has sent an action to the chat server.
\<close>

definition dbC :: "botenv \<Rightarrow> (server \<Rightarrow> 'a statement) \<Rightarrow> 'a bot_prog" where
  "dbC E m = dbB (m (db_server (be_db E)))"

definition dbE :: "botenv \<Rightarrow> (dbenv \<Rightarrow> 'a statement) \<Rightarrow> 'a bot_prog" where
  "dbE E m = dbB (m (be_db E))"

text \<open>\<^verbatim>\<open>Database db; db.Connect(); db.addcallcount();\<close>\<close>

definition connect_and_count :: "botenv \<Rightarrow> unit bot_prog" where
  "connect_and_count E = thenB (dbC E Connect) (dbC E addcallcount)"

definition argument :: "nat \<Rightarrow> message \<Rightarrow> string bot_prog" where
  "argument n tar = liftB (substr (ms_message tar) n)"

definition getcallcount :: "botenv \<Rightarrow> message \<Rightarrow> unit bot_prog" where
  "getcallcount E tar = thenB (dbC E Connect) (bindB (dbE E Getcallcount) (\<lambda>n.
     send_message E tar (T_calls_since_date @ print_int n @ T_times)))"

definition outputcallcount :: "botenv \<Rightarrow> message \<Rightarrow> unit bot_prog" where
  "outputcallcount E tar = thenB (dbC E Connect) (bindB (dbE E Getcallcount) (\<lambda>n.
     send_message E tar (T_calls_since @ print_int n @ T_times)))"

definition help_command :: "botenv \<Rightarrow> message \<Rightarrow> unit bot_prog" where
  "help_command E tar =
     bindB (argument 4 tar) (\<lambda>cmd.
     bindB (trimB cmd) (\<lambda>cmd.
     bindB (replaceB cmd '' '' []) (\<lambda>cmd.
     send_message E tar
       (if command_is 4 ''bind'' cmd then T_help_bind
        else if command_is 4 ''info'' cmd then T_help_info
        else if command_is 5 ''score'' cmd then T_help_score
        else if command_is 6 ''custom'' cmd then T_help_custom
        else if command_is 5 ''other'' cmd then T_help_other
        else T_help))))"

definition about :: "botenv \<Rightarrow> message \<Rightarrow> unit bot_prog" where
  "about E tar = send_message E tar T_about_image"

definition contact :: "botenv \<Rightarrow> message \<Rightarrow> unit bot_prog" where
  "contact E tar =
     bindB (argument 7 tar) (\<lambda>cmd.
     bindB (trimB cmd) (\<lambda>cmd.
     thenB (send_message E tar (''[CQ:at,qq='' @ print_int (ms_user_id tar) @ T_passed_on))
       (send_private_message E (be_owner E) (T_from_user @ print_int (ms_user_id tar) @ T_message_of @ cmd))))"

definition ping_answers :: "string list" where
  "ping_answers = [''pong'', ''paw'', ''meow'', ''nyan'', ''owo'', ''qwq'', T_meow]"

definition ping :: "botenv \<Rightarrow> message \<Rightarrow> unit bot_prog" where
  "ping E tar = bindB (randB E 0 (int (length ping_answers) - 1)) (\<lambda>k.
     bindB (definedB (rdi ping_answers k)) (send_message E tar))"

subsection \<open>Binding an account\<close>

definition no_user :: user_info where
  "no_user = \<lparr>ui_user_id = 0, ui_username = [], ui_registed_timestamp = 0, ui_n300 = 0, ui_n100 = 0, ui_n50 = 0,
     ui_playcount = 0, ui_total_score = 0, ui_ranked_score = 0, ui_pp = Num 0, ui_country_rank = 0, ui_global_rank = 0,
     ui_count_ssh = 0, ui_count_ss = 0, ui_count_sh = 0, ui_count_s = 0, ui_count_a = 0, ui_playtime = 0,
     ui_level = Num 0, ui_accuracy = Num 0, ui_country = [], ui_mode = 0, ui_updatepplus = False, ui_days_before = 0\<rparr>"

definition asked :: "'s \<times> int thrown \<Rightarrow> ('s \<times> int) bot_prog" where
  "asked r = (case r of (s, Inl e) \<Rightarrow> liftB (Inl e) | (s, Inr n) \<Rightarrow> retB (s, n))"

definition user_by_id :: "botenv \<Rightarrow> int \<Rightarrow> int \<Rightarrow> user_info \<Rightarrow> (user_info \<times> int) bot_prog" where
  "user_by_id E uid mode u = asked (GetUser_by_id (db_api (be_db E)) uid mode u)"

definition user_by_name :: "botenv \<Rightarrow> string \<Rightarrow> int \<Rightarrow> user_info \<Rightarrow> (user_info \<times> int) bot_prog" where
  "user_by_name E name mode u = asked (GetUser_by_name (db_api (be_db E)) name mode u)"

text \<open>The records of the other modes, each stored when the player has one.\<close>

fun add_modes :: "botenv \<Rightarrow> string \<Rightarrow> string \<Rightarrow> int list \<Rightarrow> user_info \<Rightarrow> unit bot_prog" where
  "add_modes E cmd timeStr [] u = retB ()"
| "add_modes E cmd timeStr (mode # modes) u =
     bindB (user_by_name E cmd mode u) (\<lambda>(u, found).
     thenB (if found \<noteq> 0 then dbE E (\<lambda>d. AddUserData d u timeStr) else retB ())
       (add_modes E cmd timeStr modes u))"

text \<open>The name is passed to \<^verbatim>\<open>%s\<close> as a C++ string; \<open>info\<close> is the command that shows the player.\<close>

definition setid :: "botenv \<Rightarrow> (message \<Rightarrow> unit bot_prog) \<Rightarrow> message \<Rightarrow> unit bot_prog" where
  "setid E info tar =
     bindB (argument 5 tar) (\<lambda>cmd.
     bindB (definedB (cqunescape cmd)) (\<lambda>cmd.
     bindB (trimB cmd) (\<lambda>cmd.
     if length cmd > 20 then send_message E tar T_too_long
     else thenB (connect_and_count E)
       (bindB (dbC E (\<lambda>S. osu_getuserid S (ms_user_id tar))) (\<lambda>userid.
        if userid \<noteq> 0 then
          bindB (user_by_id E userid 0 no_user) (\<lambda>(u, found).
          send_message E tar (if found \<noteq> 0 then T_bound_to @ ui_username u @ T_bound_before else T_banned_account))
        else
          bindB (user_by_name E cmd 0 no_user) (\<lambda>(u, found).
          if found = 0 then send_message E tar T_no_such_user
          else
            bindB (dbC E (\<lambda>S. osu_getqq S (ui_user_id u))) (\<lambda>qq.
            if qq \<noteq> 0 then send_message E tar (T_account_of_qq @ print_int qq @ T_bound_by_other)
            else
              bindB (liftB (sprintf_buf 512 (T_user_sp @ g_vararg (be_game E) (ui_username u) @ T_bound_now))) (\<lambda>m.
              thenB (send_message E tar m)
              (thenB (send_group_message E (be_group E) (T_one_bound @ print_int (ms_user_id tar) @
                 [CHR 0x0A] @ ''osu!username: '' @ ui_username u @ [CHR 0x0A] @ ''osu!uid: '' @ print_int (ui_user_id u)))
              (bindB (timeB E) (\<lambda>t.
               let timeStr = at_four (be_db E) t in
               thenB (dbC E (\<lambda>S. UserSet S (ui_user_id u) (ms_user_id tar)))
               (thenB (dbE E (\<lambda>d. AddUserData d u timeStr))
               (thenB (add_modes E cmd timeStr [1, 2, 3] u)
               (info tar))))))))))))))"

definition unsetid :: "botenv \<Rightarrow> message \<Rightarrow> unit bot_prog" where
  "unsetid E tar =
     bindB (argument 5 tar) (\<lambda>cmd.
     bindB (trimB cmd) (\<lambda>cmd.
     thenB (connect_and_count E)
       (bindB (dbC E (\<lambda>S. osu_getuserid S (ms_user_id tar))) (\<lambda>uid.
        let stop = thenB (dbC E (\<lambda>S. osu_changeunsetstatus S uid False)) (send_message E tar T_unset_stopped) in
        if uid = 0 then send_message E tar T_you_not_bound
        else if cmd = [] then
          bindB (dbC E (\<lambda>S. osu_getunsetstatus S uid)) (\<lambda>status.
          if status = 0 then
            thenB (dbC E (\<lambda>S. osu_changeunsetstatus S uid True)) (send_message E tar T_sure_unset)
          else stop)
        else if cmd = ''yes'' then
          thenB (send_message E tar T_executing)
          (thenB (dbC E (\<lambda>S. osu_deleteuser S uid))
          (thenB (DeleteFileA (''/work/v1_cover/'' @ print_int uid @ ''jpg''))
          (thenB (send_message E tar T_unset_done)
          (bindB (user_by_id E uid 0 no_user) (\<lambda>(u, _).
           send_group_message E (be_group E) (T_one_unbound @ print_int (ms_user_id tar) @ [CHR 0x0A] @
             ''osu!uid: '' @ print_int uid @ [CHR 0x0A] @ '' osu!username: '' @ ui_username u))))))
        else stop))))"

subsection \<open>Options of a player\<close>

definition with_account :: "botenv \<Rightarrow> message \<Rightarrow> (int \<Rightarrow> unit bot_prog) \<Rightarrow> unit bot_prog" where
  "with_account E tar f = thenB (connect_and_count E)
     (bindB (dbC E (\<lambda>S. osu_getuserid S (ms_user_id tar))) (\<lambda>uid.
      if uid = 0 then send_message E tar T_not_bound else f uid))"

definition setmode :: "botenv \<Rightarrow> message \<Rightarrow> unit bot_prog" where
  "setmode E tar =
     bindB (argument 7 tar) (\<lambda>cmd.
     bindB (replaceB cmd '' '' []) (\<lambda>cmd.
     if \<not> isNum E cmd then send_message E tar T_mode_hint
     else thenB (connect_and_count E)
       (bindB (liftB (stoi cmd)) (\<lambda>n.
        bindB (dbE E (\<lambda>d. osu_SetUserMainMode d (ms_user_id tar) n)) (\<lambda>done.
        send_message E tar
          (if done = 0 then T_mode_failed
           else if n = 0 then T_mode_std else if n = 1 then T_mode_taiko
           else if n = 2 then T_mode_ctb else if n = 3 then T_mode_mania
           else T_unknown_error))))))"

fun badge_lines :: "botenv \<Rightarrow> int list \<Rightarrow> string \<Rightarrow> string bot_prog" where
  "badge_lines E [] m = retB m"
| "badge_lines E (t # ts) m = bindB (dbE E (\<lambda>d. getBadgeStr d t)) (\<lambda>s.
     badge_lines E ts (m @ s @ (if ts = [] then [] else [CHR 0x0A])))"

definition badgelist :: "botenv \<Rightarrow> message \<Rightarrow> unit bot_prog" where
  "badgelist E tar = with_account E tar (\<lambda>uid.
     bindB (dbE E (\<lambda>d. osu_GetBadgeList d uid)) (\<lambda>t.
     if t = [] then send_message E tar T_no_badges_yet
     else bindB (badge_lines E t (T_you_have @ print_int (int (length t)) @ T_badges_nl)) (send_message E tar)))"

definition setbadge :: "botenv \<Rightarrow> message \<Rightarrow> unit bot_prog" where
  "setbadge E tar =
     bindB (argument 8 tar) (\<lambda>cmd.
     with_account E tar (\<lambda>uid.
     bindB (trimB cmd) (\<lambda>cmd.
     if \<not> isNum E cmd then send_message E tar T_give_id
     else
       let badgeID = (case stoi cmd of Inl e \<Rightarrow> 65536 | Inr n \<Rightarrow> n) in
       if badgeID > 65535 then send_message E tar T_wrong_id
       else bindB (dbE E (\<lambda>d. osu_GetBadgeList d uid)) (\<lambda>t.
         if t = [] then send_message E tar T_no_badge_at_all
         else if badgeID \<in> set t then
           thenB (dbE E (\<lambda>d. osu_setshownBadges d uid badgeID))
           (bindB (dbE E (\<lambda>d. osu_getBadgeInfo d badgeID)) (\<lambda>b.
            send_message E tar (T_shown_badge @ bd_name b)))
         else send_message E tar T_badge_not_yours))))"

definition resetbanner_v1 :: "botenv \<Rightarrow> message \<Rightarrow> unit bot_prog" where
  "resetbanner_v1 E tar = thenB (connect_and_count E)
     (bindB (dbC E (\<lambda>S. osu_getuserid S (ms_user_id tar))) (\<lambda>uid.
      thenB (DeleteFileA (''./work/v1_cover/'' @ print_int uid @ ''.jpg'')) (send_message E tar T_banner_reset)))"

definition resetinfopanel_v1 :: "botenv \<Rightarrow> message \<Rightarrow> unit bot_prog" where
  "resetinfopanel_v1 E tar = thenB (connect_and_count E)
     (bindB (dbC E (\<lambda>S. osu_getuserid S (ms_user_id tar))) (\<lambda>uid.
      thenB (DeleteFileA (''./work/v1_infopanel/'' @ print_int uid @ ''.png'')) (send_message E tar T_panel_reset)))"

text \<open>The five settings of a group by their names; the group is told when a change fails.\<close>

definition setting_number :: "string \<Rightarrow> int option" where
  "setting_number name = (if name = setting_name 1 then Some 1 else if name = setting_name 2 then Some 2
     else if name = setting_name 3 then Some 3 else if name = setting_name 4 then Some 4
     else if name = setting_name 5 then Some 5 else None)"

definition change_setting :: "botenv \<Rightarrow> int \<Rightarrow> int \<Rightarrow> bool \<Rightarrow> unit bot_prog" where
  "change_setting E g cmd on_off = bindB (dbE E (\<lambda>d. changeGroupSettings d g cmd on_off)) (\<lambda>failed.
     if failed then send_group_message E g T_change_failed else retB ())"

definition switchfunction :: "botenv \<Rightarrow> message \<Rightarrow> group_sender \<Rightarrow> unit bot_prog" where
  "switchfunction E tar sdr =
     bindB (argument 6 tar) (\<lambda>cmd.
     if ms_type tar \<noteq> GROUP then send_message E tar T_in_group_only
     else if sd_role sdr = MEMBER then send_message E tar T_admin_only
     else
       bindB (definedB (cqunescape cmd)) (\<lambda>cmd.
       bindB (trimB cmd) (\<lambda>cmd.
       bindB (replaceB cmd T_wide_colon '':'') (\<lambda>cmd.
       thenB (connect_and_count E)
         (case string_split cmd CHR '':'' of
            [name, value] \<Rightarrow>
              (case setting_number name of
                 Some k \<Rightarrow>
                   if value = ''on'' \<or> value = ''off'' then
                     bindB (dbE E (\<lambda>d. isGroupEnable d (ms_group_id tar) k)) (\<lambda>r.
                     if r = (if value = ''on'' then 1 else 0)
                     then send_message E tar (if value = ''on'' then T_already_on else T_already_off)
                     else thenB (change_setting E (ms_group_id tar) k (value = ''on'')) (send_message E tar T_submitted))
                   else send_message E tar T_wrong_setting
               | None \<Rightarrow> send_message E tar T_wrong_setting)
          | _ \<Rightarrow> send_message E tar T_wrong_setting)))))"

definition badge_text :: "Badgeinfo \<Rightarrow> string" where
  "badge_text b = T_badge_image @ print_int (bd_id b) @ ''.png]'' @ [CHR 0x0A] @ ''ID: '' @
     print_int (bd_id b) @ T_name @ bd_name_chinese b @ ''('' @ bd_name b @ T_description @ bd_description b"

definition getbadgeinfo :: "botenv \<Rightarrow> message \<Rightarrow> unit bot_prog" where
  "getbadgeinfo E tar =
     bindB (argument 12 tar) (\<lambda>cmd.
     bindB (trimB cmd) (\<lambda>cmd.
     case stoi cmd of
       Inl e \<Rightarrow> send_message E tar T_no_badge_info
     | Inr badge \<Rightarrow> thenB (dbC E Connect)
         (bindB (dbE E (\<lambda>d. osu_getBadgeInfo d badge)) (\<lambda>b.
          send_message E tar (if bd_id b \<noteq> BADGENOTFOUND then badge_text b else T_no_badge_info)))))"

definition setevent :: "botenv \<Rightarrow> message \<Rightarrow> unit bot_prog" where
  "setevent E tar = thenB (connect_and_count E)
     (bindB (dbC E (\<lambda>S. osu_getuserid S (ms_user_id tar))) (\<lambda>uid.
      if uid = 0 then send_message E tar T_event_not_bound
      else
        bindB (argument 8 tar) (\<lambda>cmd.
        bindB (definedB (cqunescape cmd)) (\<lambda>cmd.
        bindB (trimB cmd) (\<lambda>cmd.
        if cmd = ''on'' then bindB (dbE E (\<lambda>d. osu_set_event_status d uid 1)) (\<lambda>_. send_message E tar T_event_on)
        else if cmd = ''off'' then bindB (dbE E (\<lambda>d. osu_set_event_status d uid 0)) (\<lambda>_. send_message E tar T_event_off)
        else send_message E tar T_bad_argument)))))"

end
