(* ===== verification/Admin.thy ===== *)
theory Admin
  imports Commands
begin

text \<open>
  The class \<^verbatim>\<open>Admin\<close> of \<^verbatim>\<open>src/osucat.hpp\<close>: the commands of the administrators on uploaded pictures,
  players, medals, bottles and the black list. A path is a text; the files are a map.
\<close>

text \<open>A message to the group of the administrators, unless the command came from there.\<close>

definition also_group :: "botenv \<Rightarrow> message \<Rightarrow> string \<Rightarrow> unit bot_prog" where
  "also_group E tar m = (if ms_group_id tar \<noteq> be_group E then send_group_message E (be_group E) m else retB ())"

text \<open>The owner of an account is told, then the chat of the command, then the group.\<close>

definition tell :: "botenv \<Rightarrow> message \<Rightarrow> string \<Rightarrow> string \<Rightarrow> string \<Rightarrow> unit bot_prog" where
  "tell E tar UserID user_text m = thenB (dbC E Connect)
     (bindB (liftB (stoll UserID)) (\<lambda>uid.
      bindB (dbC E (\<lambda>S. osu_getqq S uid)) (\<lambda>qq.
      thenB (send_private_message E qq user_text)
      (thenB (send_message E tar (T_id_colon @ UserID @ m)) (also_group E tar (T_id_colon @ UserID @ m))))))"

definition adopt :: "botenv \<Rightarrow> message \<Rightarrow> nat \<Rightarrow> string \<Rightarrow> string \<Rightarrow> string \<Rightarrow> string \<Rightarrow> unit bot_prog" where
  "adopt E tar n verify dest user_text m =
     bindB (argument n tar) (\<lambda>UserID.
     bindB (trimB UserID) (\<lambda>UserID.
     let picPath = verify @ UserID @ ''.png'' in
     bindB (fileExist picPath) (\<lambda>ex.
     if ex then
       bindB (copyFile E picPath (dest @ UserID @ ''.png'')) (\<lambda>ok.
       if ok then thenB (DeleteFileA picPath) (tell E tar UserID user_text m)
       else send_message E tar T_move_error)
     else send_message E tar T_not_in_list)))"

definition adoptbanner_v1 :: "botenv \<Rightarrow> message \<Rightarrow> unit bot_prog" where
  "adoptbanner_v1 E tar = adopt E tar 11 T_banner_verify ''./work/v1_cover/'' T_banner_passed T_banner_told"

definition adoptinfopanel_v1 :: "botenv \<Rightarrow> message \<Rightarrow> unit bot_prog" where
  "adoptinfopanel_v1 E tar = adopt E tar 14 T_panel_verify ''./work/v1_infopanel/'' T_panel_passed T_panel_told"

text \<open>The account and the reason behind a hash sign.\<close>

definition with_reason :: "string \<Rightarrow> (string \<Rightarrow> string \<Rightarrow> unit bot_prog) \<Rightarrow> unit bot_prog" where
  "with_reason cmd f = bindB (trimB cmd) (\<lambda>tmp.
     if CHR ''#'' \<in> set cmd then
       let content = tl (dropWhile (\<lambda>c. c \<noteq> CHR ''#'') tmp) in
       f (takeWhile (\<lambda>c. c \<noteq> CHR ''#'') tmp) (if content = [] then T_no_details else content)
     else f tmp T_no_details)"

definition reject :: "botenv \<Rightarrow> message \<Rightarrow> nat \<Rightarrow> string \<Rightarrow> string \<Rightarrow> string \<Rightarrow> string \<Rightarrow> unit bot_prog" where
  "reject E tar n verify suffix user_text m =
     bindB (argument n tar) (\<lambda>cmd.
     with_reason cmd (\<lambda>UserID Content.
     let picPath = verify @ UserID @ suffix in
     bindB (fileExist picPath) (\<lambda>ex.
     if ex then thenB (DeleteFileA picPath) (tell E tar UserID (user_text @ Content) (m @ Content))
     else send_message E tar T_not_in_list)))"

text \<open>The uploaded banners end in \<^verbatim>\<open>.png\<close>, but those to reject in \<^verbatim>\<open>.jpg\<close>.\<close>

definition rejectbanner_v1 :: "botenv \<Rightarrow> message \<Rightarrow> unit bot_prog" where
  "rejectbanner_v1 E tar = reject E tar 12 T_banner_verify ''.jpg'' T_banner_rejected T_banner_reject_told"

definition rejectinfopanel_v1 :: "botenv \<Rightarrow> message \<Rightarrow> unit bot_prog" where
  "rejectinfopanel_v1 E tar = reject E tar 15 T_panel_verify ''.png'' T_panel_rejected T_panel_reject_told"

definition resetuser :: "botenv \<Rightarrow> message \<Rightarrow> unit bot_prog" where
  "resetuser E tar =
     bindB (argument 9 tar) (\<lambda>cmd.
     with_reason cmd (\<lambda>UserID Content.
     thenB (connect_and_count E)
       (bindB (liftB (stoll UserID)) (\<lambda>uid.
        bindB (dbC E (\<lambda>S. osu_getqq S uid)) (\<lambda>qq.
        if qq \<noteq> 0 then
          thenB (DeleteFileA (''./work/v1_cover/'' @ UserID @ ''.jpg''))
          (thenB (DeleteFileA (''./work/v1_infopanel/'' @ UserID @ ''.png''))
          (thenB (send_private_message E qq (T_data_reset @ Content))
          (thenB (send_message E tar (T_id_colon @ UserID @ T_reset_told @ Content))
          (also_group E tar (T_id_colon @ UserID @ T_reset_told @ Content)))))
        else send_message E tar T_user_not_found)))))"

text \<open>The list of medals is written back with the new one at its end.\<close>

definition badge_list_text :: "int list \<Rightarrow> int \<Rightarrow> string" where
  "badge_list_text tmp badgeid = concat (map (\<lambda>n. print_int n @ '','') tmp) @ print_int badgeid"

definition addbadge :: "botenv \<Rightarrow> message \<Rightarrow> unit bot_prog" where
  "addbadge E tar =
     bindB (argument 8 tar) (\<lambda>args.
     bindB (trimB args) (\<lambda>args.
     let left = takeWhile (\<lambda>c. c \<noteq> CHR '','') args;
         right = (if CHR '','' \<in> set args then tl (dropWhile (\<lambda>c. c \<noteq> CHR '','') args) else args) in
     case stoll left of
       Inl e \<Rightarrow> send_message E tar T_argument_error
     | Inr uid \<Rightarrow>
         (case stoi right of
            Inl e \<Rightarrow> send_message E tar T_argument_error
          | Inr badgeid \<Rightarrow>
              if badgeid = BADGENOTFOUND then send_message E tar T_badge_unknown
              else thenB (connect_and_count E)
                (bindB (dbE E (\<lambda>d. osu_GetBadgeList d uid)) (\<lambda>tmp.
                 thenB (dbE E (\<lambda>d. osu_addbadge d uid (badge_list_text tmp badgeid)))
                   (send_message E tar T_added))))))"

definition blockuser :: "botenv \<Rightarrow> message \<Rightarrow> unit bot_prog" where
  "blockuser E tar =
     bindB (argument 5 tar) (\<lambda>cmd.
     bindB (trimB cmd) (\<lambda>cmd.
     catchB std_exception
       (thenB (dbC E Connect)
         (bindB (liftB (stoll cmd)) (\<lambda>qq.
          bindB (dbE E (\<lambda>d. add_blacklist d qq)) (\<lambda>ok.
          if ok then thenB (send_message E tar (T_user_sp @ cmd @ T_blacklisted)) (also_group E tar (T_user_sp @ cmd @ T_blacklisted))
          else send_message E tar (T_user_sp @ cmd @ T_blacklisted_before)))))
       (send_message E tar T_digits_please)))"

text \<open>\<open>junk\<close> is the number of the record that is printed: it is never set.\<close>

definition setnewbadge :: "botenv \<Rightarrow> int \<Rightarrow> message \<Rightarrow> unit bot_prog" where
  "setnewbadge E junk tar =
     bindB (argument 11 tar) (\<lambda>cmd.
     if str_find cmd ''CQ:image,file='' 0 \<noteq> None then
       (case string_split cmd CHR ''#'' of
          [_, name, name_chinese, description] \<Rightarrow>
            let bi = \<lparr>bd_id = junk, bd_name = name, bd_name_chinese = name_chinese, bd_description = description\<rparr> in
            thenB (dbC E Connect)
            (bindB (dbE E (\<lambda>d. osu_setNewBadge d bi)) (\<lambda>n.
             if n \<noteq> - 1 then
               let picPath = GetMiddleText cmd ''[CQ:image,file='' '',url'' in
               bindB (liftB (substr picPath ((pos_of (str_find picPath '','' 0) + 6) mod 2 ^ 64))) (\<lambda>picPath.
               bindB (getImage E picPath) (\<lambda>p.
               let picPath = T_cache @ picPath @ ''.'' @ pc_format p;
                   work = T_work_badges @ print_int n @ ''.png''; public = T_data_badges @ print_int n @ ''.png'';
                   m = T_added_nl @ badge_text bi in
               bindB (copyFile E picPath work) (\<lambda>ok.
               if \<not> ok then thenB (DeleteFileA work) (send_message E tar T_move_failed)
               else bindB (copyFile E picPath public) (\<lambda>ok.
                 if \<not> ok then thenB (DeleteFileA public) (send_message E tar T_move_failed)
                 else thenB (send_message E tar m) (also_group E tar m)))))
             else send_message E tar T_add_badge_failed))
        | _ \<Rightarrow> send_message E tar T_badge_format)
     else send_message E tar T_attach_badge)"

subsection \<open>Bottles\<close>

text \<open>The number of a bottle and the reason behind a hash sign; without one, a number that cannot be
  converted is reported.\<close>

definition unixTime2Str :: "botenv \<Rightarrow> int \<Rightarrow> string" where
  "unixTime2Str E t = db_strftime (be_db E) ''%Y-%m-%d %H:%M:%S'' t"

definition tell_sender :: "botenv \<Rightarrow> json list \<Rightarrow> string \<Rightarrow> unit bot_prog" where
  "tell_sender E j returnmsg =
     bindB (dbB (text0 ''nickname'' j)) (\<lambda>_.
     bindB (dbB (num0 stoll ''sender'' j)) (\<lambda>sender.
     bindB (dbB (num0 stoll ''sendtime'' j)) (\<lambda>sendtime.
     send_private_message E sender (T_sent_by_you @ unixTime2Str E (sint (word_of_int sendtime :: 32 word)) @
       (if returnmsg \<noteq> ''null'' then T_deleted_details @ returnmsg else T_deleted_plain)))))"

definition after_hash :: "string \<Rightarrow> string" where
  "after_hash s = tl (dropWhile (\<lambda>c. c \<noteq> CHR ''#'') s)"

definition before_hash :: "string \<Rightarrow> string" where
  "before_hash s = takeWhile (\<lambda>c. c \<noteq> CHR ''#'') s"

definition rm_target :: "botenv \<Rightarrow> message \<Rightarrow> string \<Rightarrow> int \<Rightarrow> string \<Rightarrow> (int \<times> string) bot_prog" where
  "rm_target E tar s i returnmsg =
     (if CHR ''#'' \<in> set s then bindB (liftB (stoi (before_hash s))) (\<lambda>n. retB (n, after_hash s))
      else case stoi s of
        Inr n \<Rightarrow> retB (n, returnmsg)
      | Inl e \<Rightarrow> thenB (send_message E tar T_argument_error) (retB (i, returnmsg)))"

text \<open>Several bottles: the loop goes on after an error with the indeterminate number \<open>junk\<close>, and the
  reason of a bottle is also that of the next ones without a reason.\<close>

fun remove_each :: "botenv \<Rightarrow> int \<Rightarrow> message \<Rightarrow> string list \<Rightarrow> string \<Rightarrow> unit bot_prog" where
  "remove_each E junk tar [] returnmsg = retB ()"
| "remove_each E junk tar (s # ss) returnmsg =
     bindB (rm_target E tar s junk returnmsg) (\<lambda>(i, returnmsg).
     bindB (dbE E (\<lambda>d. getBottleByID d i)) (\<lambda>j.
     thenB (if length j = 1 then tell_sender E j returnmsg else send_message E tar T_no_bottle)
     (thenB (if returnmsg = ''null'' then send_message E tar (T_removed_id @ print_int i @ T_bottle_end)
        else send_message E tar (T_removed_id @ print_int i @ T_bottle_and @ returnmsg))
     (thenB (also_group E tar (T_removed_id @ print_int i @ T_bottle_end))
     (thenB (dbE E (\<lambda>d. writeBottle d DELETEBOTTLE i 0 0 [] []))
     (remove_each E junk tar ss returnmsg))))))"

definition remove_one :: "botenv \<Rightarrow> message \<Rightarrow> int \<Rightarrow> string \<Rightarrow> unit bot_prog" where
  "remove_one E tar i returnmsg = thenB (dbC E Connect)
     (bindB (dbE E (\<lambda>d. getBottleByID d i)) (\<lambda>j.
      if length j = 1 then
        let tmp = T_removed_id @ print_int i @ (if returnmsg = ''null'' then T_bottle_end else T_bottle_and @ returnmsg) in
        thenB (tell_sender E j returnmsg)
        (thenB (send_message E tar tmp)
        (thenB (also_group E tar tmp)
        (dbE E (\<lambda>d. writeBottle d DELETEBOTTLE i 0 0 [] []))))
      else send_message E tar T_no_bottle))"

definition removebottle :: "botenv \<Rightarrow> int \<Rightarrow> message \<Rightarrow> unit bot_prog" where
  "removebottle E junk tar =
     bindB (argument 8 tar) (\<lambda>cmd.
     bindB (trimB cmd) (\<lambda>cmd.
     bindB (replaceB cmd T_wide_semicolon '';'') (\<lambda>cmd.
     if CHR '';'' \<in> set cmd then
       thenB (dbC E Connect) (remove_each E junk tar (string_split cmd CHR '';'') ''null'')
     else if CHR ''#'' \<in> set cmd then
       bindB (liftB (stoi (before_hash cmd))) (\<lambda>i. remove_one E tar i (after_hash cmd))
     else (case stoi cmd of
         Inl e \<Rightarrow> send_message E tar T_argument_error
       | Inr i \<Rightarrow> remove_one E tar i ''null''))))"

text \<open>\<^verbatim>\<open>system("del .\\work\\avatar\\*.png")\<close>\<close>

definition delete_avatars :: "unit bot_prog" where
  "delete_avatars b = (b\<lparr>bt_files := (\<lambda>p. if starts T_avatars p \<and> starts (rev ''.png'') (rev p) then None else bt_files b p)\<rparr>, Inr ())"

text \<open>The argument is not cut off the message, which still begins with the name of the command.\<close>

definition cleartemp :: "botenv \<Rightarrow> message \<Rightarrow> unit bot_prog" where
  "cleartemp E tar =
     bindB (trimB (ms_message tar)) (\<lambda>cmd.
     if length cmd < 3 then send_message E tar T_give_argument
     else if command_is 3 ''all'' cmd then thenB delete_avatars (send_message E tar T_added)
     else if command_is 6 ''avatar'' cmd then thenB delete_avatars (send_message E tar T_added)
     else send_message E tar T_argument_error_dot)"

end
