(* ===== verification/Addons.thy ===== *)
theory Addons
  imports Admin
begin

text \<open>
  \<^verbatim>\<open>src/addons.hpp\<close>: drifting bottles and the commands of the hangman game. The random numbers are
  those of the game's world. The commands that the parser has commented out are left out.
\<close>

definition dots :: "botenv \<Rightarrow> string bot_prog" where
  "dots E = bindB (randB E 3 8) (\<lambda>n. retB (concat (replicate (nat n) ''.'')))"

definition either_of :: "botenv \<Rightarrow> string \<Rightarrow> string \<Rightarrow> string bot_prog" where
  "either_of E s t = bindB (randB E 1 100) (\<lambda>n. retB (if n > 50 then s else t))"

definition unixTime2StrChinese :: "botenv \<Rightarrow> int \<Rightarrow> string" where
  "unixTime2StrChinese E t =
     (let f = (\<lambda>fmt. db_strftime (be_db E) fmt t) in
      f ''%Y'' @ T_year @ f ''%m'' @ T_month @ f ''%d'' @ T_day @ f ''%H'' @ T_hour @ f ''%M'' @ T_minute @ f ''%S'' @ T_second)"

text \<open>\<^verbatim>\<open>time(NULL)\<close> passed as an \<^verbatim>\<open>int\<close>.\<close>

definition now_text :: "botenv \<Rightarrow> string bot_prog" where
  "now_text E = bindB (timeB E) (\<lambda>t. retB (unixTime2Str E (sint (word_of_int t :: 32 word))))"

subsection \<open>Drifting bottles\<close>

fun thrown_by :: "int \<Rightarrow> json list \<Rightarrow> int \<Rightarrow> int thrown" where
  "thrown_by who [] n = Inr n"
| "thrown_by who (r # rs) n = andThen (number_at stoll r ''sender'') (\<lambda>s.
     thrown_by who rs (if s = who then n + 1 else n))"

definition throw_bottle :: "botenv \<Rightarrow> message \<Rightarrow> group_sender \<Rightarrow> unit bot_prog" where
  "throw_bottle E tar sdr =
     bindB (argument 12 tar) (\<lambda>cmd.
     thenB (dbC E Connect)
     (bindB (dbE E getBottles) (\<lambda>j.
      bindB (liftB (thrown_by (ms_user_id tar) j 0)) (\<lambda>throwcount.
      if throwcount > 20 then send_message E tar T_thrown_20
      else
        bindB (definedB (cqunescape cmd)) (\<lambda>cmd.
        bindB (trimB cmd) (\<lambda>cmd.
        if forbiddenWordsLibrary cmd then send_message E tar T_ignore_you
        else if cmd = [] then bindB (dots E) (\<lambda>d. send_message E tar (T_write_something @ d @ ''?''))
        else if length cmd > 5000 then send_message E tar T_too_long_bottle
        else
          bindB (timeB E) (\<lambda>timetmp.
          thenB (dbE E (\<lambda>d. setBottleRemaining d 2 (ms_user_id tar) 0))
          (bindB (definedB (ocescape cmd)) (\<lambda>escaped.
          thenB (dbE E (\<lambda>d. writeBottle d WRITEIN 0 timetmp (ms_user_id tar) (sd_nickname sdr) escaped))
          (thenB (dbE E (\<lambda>d. addPickThrowCount d False))
          (bindB (either_of E T_drift_bottle T_bottle) (\<lambda>s_bottle.
          bindB (either_of E T_yours_cn T_yours_jp) (\<lambda>s_yours.
          bindB (either_of E T_drifts T_flows) (\<lambda>s_sendout.
          bindB (dots E) (\<lambda>d.
          thenB (send_message E tar (s_yours @ s_bottle @ T_already @ s_sendout @ d))
          (bindB (now_text E) (\<lambda>t.
           bindB (dbE E (\<lambda>d. getBottleID d (ms_user_id tar) escaped timetmp)) (\<lambda>n.
           bindB (liftB (sprintf_buf 6000 (''['' @ t @ '']'' @ [CHR 0x0A] @ T_user_in_report @ sd_nickname sdr @ ''('' @
             print_int (ms_user_id tar) @ (if str_find cmd ''[CQ:image'' 0 \<noteq> None then T_image_uploaded else T_bottle_uploaded) @
             print_int n @ T_content_follows @ ms_message tar))) (\<lambda>reportMsg.
           send_group_message E (be_group E) reportMsg)))))))))))))))))))"

text \<open>The choice of a bottle of somebody else, with as many tries as there are bottles.\<close>

fun choose_bottle :: "botenv \<Rightarrow> int \<Rightarrow> json list \<Rightarrow> nat \<Rightarrow> int \<Rightarrow> int bot_prog" where
  "choose_bottle E who j 0 tempi = retB tempi"
| "choose_bottle E who j (Suc k) tempi =
     bindB (liftB (number_at stoll (j ! nat tempi) ''sender'')) (\<lambda>s.
     if s \<noteq> who then retB tempi
     else bindB (randB E 0 (int (length j) - 1)) (choose_bottle E who j k))"

record driftingBottle =
  df_id :: int
  df_pickcount :: int
  df_msg :: string
  df_sender :: int
  df_nickname :: string
  df_sendTime :: int

definition read_bottle :: "json \<Rightarrow> driftingBottle bot_prog" where
  "read_bottle r =
     bindB (bindB (liftB (text_at r ''message'')) (\<lambda>m. definedB (ocunescape m))) (\<lambda>m.
     bindB (liftB (text_at r ''nickname'')) (\<lambda>nickname.
     bindB (liftB (number_at stoll r ''sender'')) (\<lambda>sender.
     bindB (liftB (number_at stoi r ''sendtime'')) (\<lambda>sendtime.
     bindB (liftB (number_at stoi r ''id'')) (\<lambda>n.
     bindB (liftB (number_at stoi r ''pickcount'')) (\<lambda>pickcount.
     retB \<lparr>df_id = n, df_pickcount = pickcount, df_msg = m, df_sender = sender, df_nickname = nickname,
       df_sendTime = sendtime\<rparr>))))))"

definition insufficient :: "botenv \<Rightarrow> string bot_prog" where
  "insufficient E = (let l = [T_chance_cn, T_chance_en, T_chance_jp, T_chance_ru, T_chance_vn] in
     bindB (randB E 0 (int (length l) - 1)) (\<lambda>k. definedB (rdi l k)))"

definition picked_report :: "botenv \<Rightarrow> message \<Rightarrow> group_sender \<Rightarrow> driftingBottle \<Rightarrow> string bot_prog" where
  "picked_report E tar sdr b =
     bindB (dots E) (\<lambda>d1.
     bindB (dots E) (\<lambda>d2.
     liftB (sprintf_buf 6000 (T_you_sent_at @ unixTime2StrChinese E (df_sendTime b) @ T_content_is @ d1 @ df_msg b @
       T_picked_by @ sd_nickname sdr @ ''('' @ print_int (ms_user_id tar) @
       (if df_pickcount b = 0 then T_picked_up @ d2 @ [CHR 0x0A]
        else T_picked_up_before @ print_int (df_pickcount b) @ T_times_read @ d2)))))"

definition found_text :: "botenv \<Rightarrow> string \<Rightarrow> driftingBottle \<Rightarrow> string bot_prog" where
  "found_text E s_contentis b =
     bindB (dots E) (\<lambda>d1.
     bindB (dots E) (\<lambda>d2.
     liftB (sprintf_buf 6000 (T_this_is_from @ df_nickname b @ ''('' @ print_int (df_sender b) @ T_bottle_of @ d1 @
       [CHR 0x0A] @ ''ID:'' @ print_int (df_id b) @ T_sent_at @ unixTime2StrChinese E (df_sendTime b) @ [CHR 0x0A] @
       s_contentis @ d2 @ [CHR 0x0A] @ df_msg b))))"

definition throw_back :: "botenv \<Rightarrow> message \<Rightarrow> group_sender \<Rightarrow> json \<Rightarrow> driftingBottle \<Rightarrow> unit bot_prog" where
  "throw_back E tar sdr r b =
     bindB (timeB E) (\<lambda>t.
     bindB (liftB (number_at stoll r ''sendtime'')) (\<lambda>sent.
     bindB (definedB (ck (cdiv (t - sent) DAY))) (\<lambda>days.
     bindB (dbE E (\<lambda>d. RemoveBottle d days (df_id b))) (\<lambda>gone.
     if gone then bindB (picked_report E tar sdr b) (send_private_message E (df_sender b))
     else retB ()))))"

definition pick_bottle :: "botenv \<Rightarrow> message \<Rightarrow> group_sender \<Rightarrow> unit bot_prog" where
  "pick_bottle E tar sdr =
     bindB (argument 12 tar) (\<lambda>_.
     thenB (dbC E Connect)
     (bindB (dbE E getBottles) (\<lambda>j.
      bindB (dbE E (\<lambda>d. getUserBottleRemaining d (ms_user_id tar))) (\<lambda>a.
      if a \<le> 0 then bindB (insufficient E) (send_message E tar)
      else if j = [] then bindB (dots E) (\<lambda>d. send_message E tar (T_no_bottles @ d))
      else
        bindB (either_of E T_content_cn T_content_jp) (\<lambda>s_contentis.
        thenB (dbE E (\<lambda>d. setBottleRemaining d 3 (ms_user_id tar) 0))
        (bindB (randB E 0 (int (length j) - 1)) (\<lambda>k.
         bindB (choose_bottle E (ms_user_id tar) j (length j) k) (\<lambda>tempi.
         bindB (read_bottle (j ! nat tempi)) (\<lambda>b.
         thenB (dbE E (\<lambda>d. addPickThrowCount d True))
         (thenB (dbE E (\<lambda>d. writeBottle d ADDCOUNTER (df_id b) 0 0 [] []))
         (bindB (found_text E s_contentis b) (\<lambda>tempm.
          thenB (send_message E tar tempm)
          (throw_back E tar sdr (j ! nat tempi) b)))))))))))))"

definition remainingPickupcount :: "botenv \<Rightarrow> message \<Rightarrow> unit bot_prog" where
  "remainingPickupcount E tar = thenB (dbC E Connect)
     (bindB (dbE E (\<lambda>d. getUserBottleRemaining d (ms_user_id tar))) (\<lambda>t.
      if t > 0 then send_message E tar (T_can_pick @ print_int t @ T_bottles_ex)
      else bindB (insufficient E) (send_message E tar)))"

definition bottleStatistics :: "botenv \<Rightarrow> message \<Rightarrow> unit bot_prog" where
  "bottleStatistics E tar = thenB (dbC E Connect) (bindB (dbE E getBottleStatistics) (send_message E tar))"

definition availableBottleCount :: "botenv \<Rightarrow> message \<Rightarrow> unit bot_prog" where
  "availableBottleCount E tar = thenB (dbC E Connect) (bindB (dbE E getNumberOfAvailableBottles) (\<lambda>n.
     send_message E tar (if n = 0 then T_no_bottles_at_sea else T_at_sea_now @ print_int n @ T_bottles_sailing)))"

subsection \<open>The parser\<close>

definition player :: "message \<Rightarrow> target" where
  "player tar = \<lparr>tar_user_id = ms_user_id tar, tar_nickname = ms_nickname tar\<rparr>"

definition answer_game :: "botenv \<Rightarrow> message \<Rightarrow> (genv \<Rightarrow> string game) \<Rightarrow> unit bot_prog" where
  "answer_game E tar g = bindB (gameB (g (be_game E))) (send_message E tar)"

definition addons_command :: "botenv \<Rightarrow> message \<Rightarrow> group_sender \<Rightarrow> unit bot_prog" where
  "addons_command E tar sdr =
     (let m = ms_message tar in
      if command_is 18 T_cmd_remaining m then remainingPickupcount E tar
      else if command_is 15 T_cmd_parameters m then bottleStatistics E tar
      else if command_is 21 T_cmd_at_sea m then availableBottleCount E tar
      else if command_is 12 T_cmd_throw m \<or> command_is 12 T_cmd_throw2 m then throw_bottle E tar sdr
      else if command_is 12 T_cmd_pick m \<or> command_is 12 T_cmd_pick2 m then pick_bottle E tar sdr
      else if command_is 15 T_cmd_hm_help m then send_message E tar T_hm_help_image
      else if command_is 15 T_cmd_hm_status m then answer_game E tar gameStatus
      else if command_is 18 T_cmd_hm_ranking m then
        bindB (liftB (substr m 18)) (\<lambda>page_str.
        bindB (if isNum E page_str then liftB (stoi page_str) else retB 1) (\<lambda>page.
        answer_game E tar (\<lambda>G. hangmanRanking G page)))
      else if command_is 10 T_cmd_hm_plus m then
        bindB (liftB (substr m 10)) (\<lambda>cmd. answer_game E tar (\<lambda>G. startHangman G (player tar) cmd))
      else if command_is 9 T_cmd_hm m then answer_game E tar (\<lambda>G. startHangman G (player tar) [])
      else if command_is 6 T_cmd_give_up m then answer_game E tar (\<lambda>G. giveupHangman G (player tar))
      else
        bindB (if length m = 1 then gameB (findPlayer (ms_user_id tar)) else retB (- 1)) (\<lambda>p.
        if p \<noteq> - 1 then answer_game E tar (\<lambda>G. inputHangman G (player tar) m)
        else if command_is 15 T_cmd_hm_mine m then answer_game E tar (\<lambda>G. showPlayerData G (player tar))
        else if command_is 35 ''warning:recalculateallhangmanscores'' m then
          (\<lambda>b. (if ms_user_id tar \<in> ad_user_id ` set (bt_admins b) then answer_game E tar recalculateAllScores
            else send_message E tar T_no_permission) b)
        else retB ()))"

text \<open>The handlers of the exceptions. The report of an exception is printed into 1024 bytes.\<close>

definition db_report :: "botenv \<Rightarrow> message \<Rightarrow> unit bot_prog" where
  "db_report E tar = thenB (send_message E tar T_db_error)
     (bindB (now_text E) (\<lambda>t.
      bindB (liftB (sprintf_buf 1024 (''['' @ t @ T_mysql_error @ print_int (be_code E) @ T_details @ be_what E @ [CHR 0x0A])))
        (send_private_message E (be_owner E))))"

definition std_report :: "botenv \<Rightarrow> message \<Rightarrow> string \<Rightarrow> unit bot_prog" where
  "std_report E tar m = thenB (send_message E tar m)
     (bindB (now_text E) (\<lambda>t.
      bindB (liftB (sprintf_buf 1024 (''['' @ t @ T_std_caught @ print_int (ms_user_id tar) @ T_trigger @ ms_message tar @
        T_details @ be_what E @ [CHR 0x0A])))
        (send_private_message E (be_owner E))))"

definition handled :: "botenv \<Rightarrow> message \<Rightarrow> string \<Rightarrow> unit bot_prog \<Rightarrow> unit bot_prog" where
  "handled E tar m p b = (case p b of
     (b, Inl DatabaseError) \<Rightarrow> db_report E tar b
   | (b, Inl NetworkError) \<Rightarrow> send_message E tar T_api_timeout b
   | (b, Inl e) \<Rightarrow> if std_exception e then std_report E tar m b else (b, Inl e)
   | (b, Inr x) \<Rightarrow> (b, Inr x))"

definition addons_parser :: "botenv \<Rightarrow> message \<Rightarrow> group_sender \<Rightarrow> unit bot_prog" where
  "addons_parser E tar sdr = handled E tar T_addons_error (addons_command E tar sdr)"

end
