(* ===== verification/Steamcat.thy ===== *)
theory Steamcat
  imports Addons Country
begin

text \<open>
  \<^verbatim>\<open>src/steamcat.hpp\<close>: the bans of Steam players, looked up on request, and the list of the players that
  groups and users listen to. The downloaded pictures stay: the thread that deletes one after two
  minutes is left out. A round of the thread that checks the list runs the checks one after the other.
\<close>

subsection \<open>Data\<close>

record steam_user =
  su_steamid :: int
  su_communityvisibilitystate :: int
  su_profilestate :: int
  su_personaname :: string
  su_commentpermission :: int
  su_profileurl :: string
  su_avatar :: string
  su_avatarmedium :: string
  su_avatarfull :: string
  su_avatarhash :: string
  su_lastlogoff :: int
  su_personastate :: int
  su_realname :: string
  su_primaryclanid :: string
  su_timecreated :: int
  su_personastateflags :: int
  su_loccountrycode :: string

record UserBanStats =
  sb_SteamId :: int
  sb_CommunityBanned :: bool
  sb_VACBanned :: bool
  sb_NumberOfVACBans :: int
  sb_NumberOfGameBans :: int
  sb_DaysSinceLastBan :: int
  sb_EconomyBan :: string

definition no_bans :: UserBanStats where
  "no_bans = \<lparr>sb_SteamId = 0, sb_CommunityBanned = False, sb_VACBanned = False, sb_NumberOfVACBans = 0,
     sb_NumberOfGameBans = 0, sb_DaysSinceLastBan = 0, sb_EconomyBan = []\<rparr>"

definition blank_steam_user :: steam_user where
  "blank_steam_user = \<lparr>su_steamid = 0, su_communityvisibilitystate = 0, su_profilestate = 0, su_personaname = [],
     su_commentpermission = 0, su_profileurl = [], su_avatar = [], su_avatarmedium = [], su_avatarfull = [],
     su_avatarhash = [], su_lastlogoff = 0, su_personastate = 0, su_realname = [], su_primaryclanid = [],
     su_timecreated = 0, su_personastateflags = 0, su_loccountrycode = []\<rparr>"

subsection \<open>Requests\<close>

definition steam_get :: "botenv \<Rightarrow> string \<Rightarrow> json bot_prog" where
  "steam_get E url = bindB (\<lambda>b. (b, be_get E (wd_log (bt_world b)) url)) (\<lambda>source. liftB (be_parse E source))"

definition text_or_null :: "json \<Rightarrow> string \<Rightarrow> (string \<Rightarrow> steam_user \<Rightarrow> steam_user) \<Rightarrow> steam_user step" where
  "text_or_null j k upd = assign_or (text_at j k) ''null'' upd"

definition int_or_0 :: "nat \<Rightarrow> json \<Rightarrow> string \<Rightarrow> (int \<Rightarrow> steam_user \<Rightarrow> steam_user) \<Rightarrow> steam_user step" where
  "int_or_0 w j k upd = assign_or (int_at w j k) 0 upd"

definition status_fields :: "json \<Rightarrow> steam_user step list" where
  "status_fields j =
     [assign (number_at stoll j ''steamid'') (\<lambda>x s. s\<lparr>su_steamid := x\<rparr>),
      int_or_0 32 j ''communityvisibilitystate'' (\<lambda>x s. s\<lparr>su_communityvisibilitystate := x\<rparr>),
      int_or_0 32 j ''profilestate'' (\<lambda>x s. s\<lparr>su_profilestate := x\<rparr>),
      text_or_null j ''personaname'' (\<lambda>x s. s\<lparr>su_personaname := x\<rparr>),
      int_or_0 32 j ''commentpermission'' (\<lambda>x s. s\<lparr>su_commentpermission := x\<rparr>),
      text_or_null j ''profileurl'' (\<lambda>x s. s\<lparr>su_profileurl := x\<rparr>),
      text_or_null j ''avatar'' (\<lambda>x s. s\<lparr>su_avatar := x\<rparr>),
      text_or_null j ''avatarmedium'' (\<lambda>x s. s\<lparr>su_avatarmedium := x\<rparr>),
      text_or_null j ''avatarfull'' (\<lambda>x s. s\<lparr>su_avatarfull := x\<rparr>),
      text_or_null j ''avatarhash'' (\<lambda>x s. s\<lparr>su_avatarhash := x\<rparr>),
      int_or_0 64 j ''lastlogoff'' (\<lambda>x s. s\<lparr>su_lastlogoff := x\<rparr>),
      int_or_0 32 j ''personastate'' (\<lambda>x s. s\<lparr>su_personastate := x\<rparr>),
      text_or_null j ''realname'' (\<lambda>x s. s\<lparr>su_realname := x\<rparr>),
      text_or_null j ''primaryclanid'' (\<lambda>x s. s\<lparr>su_primaryclanid := x\<rparr>),
      int_or_0 64 j ''timecreated'' (\<lambda>x s. s\<lparr>su_timecreated := x\<rparr>),
      int_or_0 32 j ''personastateflags'' (\<lambda>x s. s\<lparr>su_personastateflags := x\<rparr>),
      text_or_null j ''loccountrycode'' (\<lambda>x s. s\<lparr>su_loccountrycode := x\<rparr>)]"

definition first_player :: "json \<Rightarrow> json thrown" where
  "first_player j = andThen (member j ''players'') element0"

definition get_user_status :: "botenv \<Rightarrow> int \<Rightarrow> steam_user bot_prog" where
  "get_user_status E SteamId =
     bindB (liftB (sprintf_buf 1024 (''http://api.steampowered.com/ISteamUser/GetPlayerSummaries/v0002/?key='' @
       be_steam_key E @ ''&steamids='' @ print_int SteamId))) (\<lambda>url.
     bindB (steam_get E url) (\<lambda>j.
     bindB (liftB (andThen (member j ''response'') first_player)) (\<lambda>j.
     case run (status_fields j) blank_steam_user of
       (us, None) \<Rightarrow> retB us
     | (us, Some e) \<Rightarrow> liftB (Inl e))))"

definition get_bool :: "json \<Rightarrow> bool thrown" where
  "get_bool j = (case j of JBool v \<Rightarrow> Inr v | _ \<Rightarrow> Inl TypeError)"

definition bool_at :: "json \<Rightarrow> string \<Rightarrow> bool thrown" where
  "bool_at d k = andThen (member d k) get_bool"

definition ban_fields :: "json \<Rightarrow> UserBanStats step list" where
  "ban_fields j =
     [assign (number_at stoll j ''SteamId'') (\<lambda>x s. s\<lparr>sb_SteamId := x\<rparr>),
      assign (bool_at j ''CommunityBanned'') (\<lambda>x s. s\<lparr>sb_CommunityBanned := x\<rparr>),
      assign (bool_at j ''VACBanned'') (\<lambda>x s. s\<lparr>sb_VACBanned := x\<rparr>),
      assign (int_at 32 j ''NumberOfGameBans'') (\<lambda>x s. s\<lparr>sb_NumberOfGameBans := x\<rparr>),
      assign (int_at 32 j ''NumberOfVACBans'') (\<lambda>x s. s\<lparr>sb_NumberOfVACBans := x\<rparr>),
      assign (int_at 32 j ''DaysSinceLastBan'') (\<lambda>x s. s\<lparr>sb_DaysSinceLastBan := x\<rparr>),
      assign (text_at j ''EconomyBan'') (\<lambda>x s. s\<lparr>sb_EconomyBan := x\<rparr>)]"

text \<open>What was read before an exception stays in the record behind the pointer.\<close>

definition ban_check :: "botenv \<Rightarrow> int \<Rightarrow> UserBanStats \<Rightarrow> (UserBanStats \<times> bool) bot_prog" where
  "ban_check E SteamId rtn = catchB (\<lambda>e. e = NetworkError \<or> std_exception e)
     (bindB (steam_get E (''http://api.steampowered.com/ISteamUser/GetPlayerBans/v1/?key='' @ be_steam_key E @
        ''&steamids='' @ print_int SteamId)) (\<lambda>j.
      bindB (liftB (first_player j)) (\<lambda>j.
      case run (ban_fields j) rtn of
        (s, None) \<Rightarrow> retB (s, True)
      | (s, Some e) \<Rightarrow> if std_exception e then retB (s, False) else liftB (Inl e))))
     (retB (rtn, False))"

subsection \<open>The texts\<close>

text \<open>The file is created before the request.\<close>

definition DownloadFile :: "botenv \<Rightarrow> string \<Rightarrow> string \<Rightarrow> unit bot_prog" where
  "DownloadFile E url path b =
     (case be_download E (wd_log (bt_world b)) url of
        Inl e \<Rightarrow> (b\<lparr>bt_files := (bt_files b)(path \<mapsto> [])\<rparr>, Inl e)
      | Inr c \<Rightarrow> (b\<lparr>bt_files := (bt_files b)(path \<mapsto> c)\<rparr>, Inr ()))"

definition download_avatar :: "botenv \<Rightarrow> steam_user \<Rightarrow> unit bot_prog" where
  "download_avatar E us b =
     (let path = be_root E @ T_images @ rand_str (be_chars E (wd_log (bt_world b))) @ ''.png'' in
      if su_avatarfull us \<noteq> ''null'' then DownloadFile E (su_avatarfull us) path b else retB () b)"

definition masked :: "string \<Rightarrow> string" where
  "masked s = (if forbiddenWordsLibrary s then T_word_masked else s)"

definition player_lines :: "botenv \<Rightarrow> steam_user \<Rightarrow> UserBanStats \<Rightarrow> string" where
  "player_lines E us ubs =
     T_user_name @ masked (su_personaname us) @
     (if su_realname us \<noteq> ''null'' then T_real_name @ masked (su_realname us) else []) @
     (if su_loccountrycode us \<noteq> ''null'' then T_region @ getCountryNameByCode (su_loccountrycode us) else []) @
     (if su_lastlogoff us \<noteq> 0 then T_last_seen @ unixTime2Str E (sint (word_of_int (su_lastlogoff us) :: 32 word)) else []) @
     [CHR 0x0A] @ ''SteamID'' @ T_colon @ print_int (su_steamid us) @
     (if sb_CommunityBanned ubs then T_community_banned else []) @
     (if sb_EconomyBan ubs \<noteq> ''none'' then T_trade_banned else []) @
     (if sb_VACBanned ubs then T_vac_yes else []) @
     (if sb_NumberOfGameBans ubs > 0 then T_game_yes else []) @
     (if sb_VACBanned ubs then T_vac_count @ print_int (sb_NumberOfVACBans ubs) else []) @
     (if sb_NumberOfGameBans ubs > 0 then T_game_count @ print_int (sb_NumberOfGameBans ubs) else []) @
     (if sb_VACBanned ubs \<or> sb_NumberOfGameBans ubs > 0
      then T_last_ban @ print_int (sb_DaysSinceLastBan ubs) @ T_days_ago else []) @
     (if \<not> sb_CommunityBanned ubs \<and> sb_EconomyBan ubs = ''none'' \<and> sb_NumberOfGameBans ubs = 0 \<and> \<not> sb_VACBanned ubs
      then T_clean_record else []) @
     (if str_find (su_profileurl us) ''/profiles/'' 0 = None then T_custom_link else T_home_link) @ su_profileurl us"

text \<open>A text with the number at its end that keeps two of them apart.\<close>

definition with_number :: "botenv \<Rightarrow> steam_user \<Rightarrow> string \<Rightarrow> string bot_prog" where
  "with_number E us s = thenB (download_avatar E us)
     (bindB (randB E 10000 100000) (\<lambda>n. retB (s @ [CHR 0x0A] @ ''['' @ print_int n @ '']'')))"

definition checkrtnmsg :: "botenv \<Rightarrow> steam_user \<Rightarrow> UserBanStats \<Rightarrow> string bot_prog" where
  "checkrtnmsg E us ubs = with_number E us (player_lines E us ubs)"

definition banrtnmsg :: "botenv \<Rightarrow> steam_user \<Rightarrow> UserBanStats \<Rightarrow> bool \<Rightarrow> string bot_prog" where
  "banrtnmsg E us ubs VACorGameBan =
     with_number E us ((if VACorGameBan then T_new_vac else T_new_game) @ [CHR 0x0A] @ player_lines E us ubs)"

definition bancheckExpireMsg :: "botenv \<Rightarrow> steam_user \<Rightarrow> UserBanStats \<Rightarrow> int \<Rightarrow> string bot_prog" where
  "bancheckExpireMsg E us ubs ListenTime = with_number E us
     (player_lines E us ubs @ T_listened_at @ unixTime2Str E (sint (word_of_int ListenTime :: 32 word)) @ T_listen_over)"

subsection \<open>The commands\<close>

text \<open>The name behind \<^verbatim>\<open>/id/\<close> or \<^verbatim>\<open>/profiles/\<close>, without slashes.\<close>

definition behind :: "string \<Rightarrow> string \<Rightarrow> string bot_prog" where
  "behind tmp key = bindB (liftB (substr tmp ((pos_of (str_find tmp key 0) + length key) mod 2 ^ 64))) (\<lambda>t. replaceB t ''/'' [])"

definition resolve :: "botenv \<Rightarrow> string \<Rightarrow> json bot_prog" where
  "resolve E name = bindB (steam_get E (''http://api.steampowered.com/ISteamUser/ResolveVanityURL/v0001/?key='' @
     be_steam_key E @ ''&vanityurl='' @ name)) (\<lambda>j. liftB (member j ''response''))"

text \<open>The answer about a name. False: the bans could not be read, and nothing was answered.\<close>

definition check_name :: "botenv \<Rightarrow> message \<Rightarrow> string \<Rightarrow> bool bot_prog" where
  "check_name E tar name =
     bindB (resolve E name) (\<lambda>j.
     bindB (liftB (int_at 32 j ''success'')) (\<lambda>success.
     if success = 1 then
       bindB (liftB (number_at stoll j ''steamid'')) (\<lambda>n.
       bindB (ban_check E n no_bans) (\<lambda>(ubs, ok).
       if ok then bindB (get_user_status E n) (\<lambda>us. bindB (checkrtnmsg E us ubs) (\<lambda>m. thenB (send_message E tar m) (retB True)))
       else retB False))
     else thenB (send_message E tar T_steam_unknown) (retB True)))"

definition check_number :: "botenv \<Rightarrow> message \<Rightarrow> string \<Rightarrow> (unit bot_prog \<Rightarrow> unit bot_prog) \<Rightarrow> unit bot_prog" where
  "check_number E tar t guarded =
     bindB (liftB (stoll t)) (\<lambda>n.
     bindB (ban_check E n no_bans) (\<lambda>(ubs, ok).
     if ok then guarded (bindB (get_user_status E n) (\<lambda>us. bindB (checkrtnmsg E us ubs) (send_message E tar)))
     else send_message E tar T_steam_unknown))"

definition is_vanity :: "string \<Rightarrow> bool" where
  "is_vanity tmp \<longleftrightarrow> str_find tmp ''steamcommunity.com/id/'' 0 \<noteq> None"

definition is_profile :: "string \<Rightarrow> bool" where
  "is_profile tmp \<longleftrightarrow> str_find tmp ''steamcommunity.com/profiles/'' 0 \<noteq> None"

definition steam_check :: "botenv \<Rightarrow> message \<Rightarrow> unit bot_prog" where
  "steam_check E tar =
     bindB (argument 7 tar) (\<lambda>tmp.
     bindB (trimB tmp) (\<lambda>tmp.
     if tmp = [] then send_message E tar T_steam_hint
     else
       bindB (if is_vanity tmp then bindB (behind tmp ''/id/'') (check_name E tar) else retB False) (\<lambda>done.
       if done then retB ()
       else if is_profile tmp then
         bindB (behind tmp ''/profiles/'') (\<lambda>t.
         check_number E tar t (\<lambda>p. catchB std_exception p (send_message E tar T_bad_link)))
       else if isNum E tmp \<and> length tmp > 13 then check_number E tar tmp (\<lambda>p. p)
       else bindB (check_name E tar tmp) (\<lambda>_. retB ()))))"

text \<open>The player that is to be listened to: the number and what is known of the bans, or None when an
  answer was given. The bans behind a name need not have been read; those behind a link are looked up by
  the number cut to 32 bits.\<close>

definition listen_name :: "botenv \<Rightarrow> message \<Rightarrow> string \<Rightarrow> (int \<times> UserBanStats) option bot_prog" where
  "listen_name E tar name =
     bindB (resolve E name) (\<lambda>j.
     bindB (liftB (int_at 32 j ''success'')) (\<lambda>success.
     if success = 1 then
       bindB (liftB (number_at stoll j ''steamid'')) (\<lambda>n.
       bindB (ban_check E n no_bans) (\<lambda>(ubs, ok). retB (Some (n, ubs))))
     else thenB (send_message E tar T_steam_unknown) (retB None)))"

definition listen_number :: "botenv \<Rightarrow> message \<Rightarrow> int \<Rightarrow> int \<Rightarrow> (int \<times> UserBanStats) option bot_prog" where
  "listen_number E tar looked_up n =
     bindB (ban_check E looked_up no_bans) (\<lambda>(ubs, ok).
     if ok then retB (Some (n, ubs)) else thenB (send_message E tar T_steam_unknown) (retB None))"

definition listen_target :: "botenv \<Rightarrow> message \<Rightarrow> string \<Rightarrow> (int \<times> UserBanStats) option bot_prog" where
  "listen_target E tar tmp =
     (if is_vanity tmp then bindB (behind tmp ''/id/'') (listen_name E tar)
      else if is_profile tmp then
        bindB (behind tmp ''/profiles/'') (\<lambda>t.
        case stoll t of
          Inl e \<Rightarrow> thenB (send_message E tar T_bad_link) (retB None)
        | Inr n \<Rightarrow> listen_number E tar (sint (word_of_int n :: 32 word)) n)
      else if isNum E tmp \<and> length tmp > 5 then bindB (liftB (stoll tmp)) (\<lambda>n. listen_number E tar n n)
      else listen_name E tar tmp)"

definition listen_user :: "botenv \<Rightarrow> message \<Rightarrow> int \<Rightarrow> unit bot_prog" where
  "listen_user E tar steamid =
     bindB (dbE E (\<lambda>d. steam_change_ban_listening_receive_userid d steamid (ms_user_id tar))) (\<lambda>ok.
     send_message E tar (if ok then T_listen_private_too else T_listen_known))"

definition steam_listen :: "botenv \<Rightarrow> message \<Rightarrow> unit bot_prog" where
  "steam_listen E tar =
     bindB (argument 8 tar) (\<lambda>tmp.
     bindB (trimB tmp) (\<lambda>tmp.
     if tmp = [] then send_message E tar T_steam_hint
     else
       bindB (listen_target E tar tmp) (\<lambda>r.
       case r of
         None \<Rightarrow> retB ()
       | Some (steamid, ubs) \<Rightarrow>
           thenB (dbC E Connect)
           (case ms_type tar of
              GROUP \<Rightarrow>
                bindB (dbE E (\<lambda>d. steam_add_ban_listening d steamid (sb_NumberOfVACBans ubs) (sb_NumberOfGameBans ubs)
                  (ms_user_id tar) (ms_group_id tar))) (\<lambda>added.
                if added then send_message E tar T_listen_group
                else
                  bindB (dbE E (\<lambda>d. steam_change_ban_listening_receive_groupid d steamid (ms_group_id tar) (ms_user_id tar))) (\<lambda>ok.
                  if ok then send_message E tar T_listen_group else listen_user E tar steamid))
            | PRIVATE \<Rightarrow>
                bindB (dbE E (\<lambda>d. steam_add_ban_listening d steamid (sb_NumberOfVACBans ubs) (sb_NumberOfGameBans ubs)
                  (ms_user_id tar) EOF)) (\<lambda>added.
                if added then send_message E tar T_listen_private else listen_user E tar steamid)))))"

definition steam_parse :: "botenv \<Rightarrow> message \<Rightarrow> group_sender \<Rightarrow> unit bot_prog" where
  "steam_parse E tar sdr =
     (if command_is 7 ''s check'' (ms_message tar) then steam_check E tar
      else if command_is 8 ''s listen'' (ms_message tar) then steam_listen E tar
      else retB ())"

subsection \<open>The checks of the list\<close>

text \<open>The receivers: one number (or none, the text null) if \<open>single\<close>, else the parts between the
  semicolons. Each gets a text of its own.\<close>

fun deliver_each :: "(int \<Rightarrow> string \<Rightarrow> unit bot_prog) \<Rightarrow> string bot_prog \<Rightarrow> string list \<Rightarrow> unit bot_prog" where
  "deliver_each out msg [] = retB ()"
| "deliver_each out msg (s # ss) =
     bindB (liftB (stoll s)) (\<lambda>n. bindB msg (\<lambda>m. thenB (out n m) (deliver_each out msg ss)))"

definition deliver :: "bool \<Rightarrow> string \<Rightarrow> (int \<Rightarrow> string \<Rightarrow> unit bot_prog) \<Rightarrow> string bot_prog \<Rightarrow> unit bot_prog" where
  "deliver single receivers out msg =
     (if single then deliver_each out msg (if receivers = ''null'' then [] else [receivers])
      else deliver_each out msg (string_split receivers CHR '';''))"

text \<open>A notification of all receivers, after which the player is no longer listened to. For a new game
  ban the test for a semicolon is the wrong way round.\<close>

definition notify :: "botenv \<Rightarrow> (string \<Rightarrow> bool) \<Rightarrow> CSGOUserInfo \<Rightarrow> UserBanStats \<Rightarrow> string bot_prog \<Rightarrow> unit bot_prog" where
  "notify E single cui ubs msg =
     thenB (deliver (single (cs_ReceiveGroupId cui)) (cs_ReceiveGroupId cui) (send_group_message E) msg)
     (thenB (deliver (single (cs_ReceiveUserId cui)) (cs_ReceiveUserId cui) (send_private_message E) msg)
     (thenB (dbC E Connect) (dbE E (\<lambda>d. steam_change_ban_stats d (sb_SteamId ubs)))))"

definition whenB :: "bool \<Rightarrow> unit bot_prog \<Rightarrow> unit bot_prog" where
  "whenB c p = (if c then p else retB ())"

definition checkthread :: "botenv \<Rightarrow> CSGOUserInfo \<Rightarrow> unit bot_prog" where
  "checkthread E cui =
     bindB (get_user_status E (cs_SteamId cui)) (\<lambda>us.
     bindB (ban_check E (cs_SteamId cui) no_bans) (\<lambda>(ubs, ok).
     whenB ok
       (thenB (whenB (sb_NumberOfVACBans ubs \<noteq> cs_VACBanCount cui)
           (notify E (\<lambda>s. CHR '';'' \<notin> set s) cui ubs (banrtnmsg E us ubs True)))
       (thenB (whenB (sb_NumberOfGameBans ubs \<noteq> cs_GameBanCount cui)
           (notify E (\<lambda>s. CHR '';'' \<in> set s) cui ubs (banrtnmsg E us ubs False)))
       (bindB (timeB E) (\<lambda>now.
        whenB (now > cs_ListenTime cui + 86400 * 60)
          (notify E (\<lambda>s. CHR '';'' \<notin> set s) cui ubs (bancheckExpireMsg E us ubs (cs_ListenTime cui)))))))))"

fun check_all :: "botenv \<Rightarrow> CSGOUserInfo list \<Rightarrow> unit bot_prog" where
  "check_all E [] = retB ()"
| "check_all E (cui # cs) = thenB (checkthread E cui) (check_all E cs)"

text \<open>One round of the endless loop. The first element of an empty list is read, too.\<close>

definition autocheck_round :: "botenv \<Rightarrow> unit bot_prog" where
  "autocheck_round E =
     thenB (dbC E Connect)
     (bindB (dbE E steam_get_csgo_listen_list) (\<lambda>cui.
      bindB (definedB (rdi cui 0)) (\<lambda>c. whenB (cs_SteamId c \<noteq> - 1) (check_all E cui))))"

end
