(* ===== verification/Dispatch.thy ===== *)
theory Dispatch
  imports Steamcat
begin

text \<open>
  \<^verbatim>\<open>CmdParser\<close> of \<^verbatim>\<open>src/osucat.hpp\<close>. The chain of comparisons that ends in a call is the table of the
  commands, in the order of the chain; \<open>route\<close> finds the command of a message. The commands that
  draw pictures or calculate scores are the argument \<open>H\<close>, which the theory \<open>Program\<close> supplies; \<open>junk\<close> is what the local variables hold
  that two commands of the administrators read before they are set.
\<close>

datatype handler = CallCount | Recent | Rctpp | PassRecent | Help | About | Contact | Ping | SetId | UnsetId | Info
  | BpMe | SetEvent | BpHeadTail | Bp | Score | UpdatePanel | SetMode | PpVs | Pp | PpWith | BadgeList
  | SetBanner | SetInfoPanel | ResetBanner | ResetInfoPanel | RoleCost | BonusPp | SetBadge | SearchUid
  | Switch | GetBadgeInfo
  | AdoptBanner | AdoptInfoPanel | ClearTemp | RejectBanner | RejectInfoPanel | ResetUser | AddBadge
  | DailyUpdate | Block | RmBottle | SetNewBadge

type_synonym handlers = "handler \<Rightarrow> message \<Rightarrow> group_sender \<Rightarrow> unit bot_prog"

subsection \<open>The tables\<close>

type_synonym command_table = "(nat \<times> string \<times> handler) list"

definition main_table :: command_table where
  "main_table = [
     (18, T_cmd_calls, CallCount), (6, ''recent'', Recent), (5, ''rctpp'', Rctpp), (2, ''pr'', PassRecent),
     (4, ''help'', Help), (5, ''about'', About), (7, ''contact'', Contact), (4, ''ping'', Ping),
     (5, ''setid'', SetId), (5, ''unset'', UnsetId), (6, T_cmd_info_cn, Info), (4, ''info'', Info),
     (4, ''bpme'', BpMe), (8, ''setevent'', SetEvent), (4, ''bpht'', BpHeadTail), (2, ''bp'', Bp),
     (5, ''score'', Score), (6, ''update'', UpdatePanel), (7, ''setmode'', SetMode), (4, ''ppvs'', PpVs),
     (2, ''pp'', Pp), (4, ''with'', PpWith), (9, ''badgelist'', BadgeList), (9, ''setbanner'', SetBanner),
     (12, ''setinfopanel'', SetInfoPanel), (11, ''resetbanner'', ResetBanner),
     (14, ''resetinfopanel'', ResetInfoPanel), (8, ''rolecost'', RoleCost), (7, ''bonuspp'', BonusPp),
     (9, ''badgelist'', BadgeList), (8, ''setbadge'', SetBadge), (9, ''searchuid'', SearchUid),
     (6, ''switch'', Switch), (12, ''getbadgeinfo'', GetBadgeInfo)]"

definition admin_table :: command_table where
  "admin_table = [
     (11, ''adoptbanner'', AdoptBanner), (14, ''adoptinfopanel'', AdoptInfoPanel), (9, ''cleartemp'', ClearTemp),
     (12, ''rejectbanner'', RejectBanner), (15, ''rejectinfopanel'', RejectInfoPanel),
     (9, ''resetuser'', ResetUser), (8, ''addbadge'', AddBadge), (11, ''dailyupdate'', DailyUpdate),
     (5, ''block'', Block), (8, ''rmbottle'', RmBottle), (11, ''setnewbadge'', SetNewBadge)]"

text \<open>The commands for which an administrator needs the role 1.\<close>

definition needs_role_1 :: "handler \<Rightarrow> bool" where
  "needs_role_1 h \<longleftrightarrow> h \<in> {ClearTemp, ResetUser, AddBadge, DailyUpdate, SetNewBadge}"

text \<open>The setting of the group that switches a command off.\<close>

fun switched_by :: "handler \<Rightarrow> int option" where
  "switched_by Recent = Some 3"
| "switched_by Rctpp = Some 2"
| "switched_by PassRecent = Some 3"
| "switched_by Bp = Some 1"
| "switched_by _ = None"

fun lookup_command :: "command_table \<Rightarrow> string \<Rightarrow> handler option" where
  "lookup_command [] m = None"
| "lookup_command ((n, s, h) # rest) m = (if command_is n s m then Some h else lookup_command rest m)"

text \<open>Where a message without its prefix goes.\<close>

datatype destination = Command handler | Denied | Entertainment

fun admin_route :: "AdminInfo list \<Rightarrow> int \<Rightarrow> string \<Rightarrow> destination option" where
  "admin_route [] who m = None"
| "admin_route (a # admins) who m =
     (if who = ad_user_id a then
        (case lookup_command admin_table m of
           None \<Rightarrow> admin_route admins who m
         | Some h \<Rightarrow> Some (if needs_role_1 h \<and> ad_role a \<noteq> 1 then Denied else Command h))
      else admin_route admins who m)"

definition route :: "AdminInfo list \<Rightarrow> int \<Rightarrow> string \<Rightarrow> destination" where
  "route admins who m =
     (case lookup_command main_table m of
        Some h \<Rightarrow> Command h
      | None \<Rightarrow>
          (case admin_route admins who m of
             Some d \<Rightarrow> d
           | None \<Rightarrow> if command_is 3 ''rct'' m \<or> command_is 2 ''re'' m then Command Recent else Entertainment))"

subsection \<open>Running a command\<close>

text \<open>A group in which the setting \<open>n\<close> is off runs nothing.\<close>

definition if_enabled :: "botenv \<Rightarrow> message \<Rightarrow> int \<Rightarrow> unit bot_prog \<Rightarrow> unit bot_prog" where
  "if_enabled E tar n p = (case ms_type tar of
     PRIVATE \<Rightarrow> p
   | GROUP \<Rightarrow> bindB (dbE E (\<lambda>d. isGroupEnable d (ms_group_id tar) n)) (\<lambda>on. if on = 0 then retB () else p))"

fun run_handler :: "botenv \<Rightarrow> int \<Rightarrow> handlers \<Rightarrow> handler \<Rightarrow> message \<Rightarrow> group_sender \<Rightarrow> unit bot_prog" where
  "run_handler E junk H CallCount tar sdr = outputcallcount E tar"
| "run_handler E junk H Help tar sdr = help_command E tar"
| "run_handler E junk H About tar sdr = about E tar"
| "run_handler E junk H Contact tar sdr = contact E tar"
| "run_handler E junk H Ping tar sdr = ping E tar"
| "run_handler E junk H SetId tar sdr = setid E (\<lambda>tar. H Info tar sdr) tar"
| "run_handler E junk H UnsetId tar sdr = unsetid E tar"
| "run_handler E junk H BpMe tar sdr = retB ()"
| "run_handler E junk H SetEvent tar sdr = setevent E tar"
| "run_handler E junk H SetMode tar sdr = setmode E tar"
| "run_handler E junk H BadgeList tar sdr = badgelist E tar"
| "run_handler E junk H ResetBanner tar sdr = resetbanner_v1 E tar"
| "run_handler E junk H ResetInfoPanel tar sdr = resetinfopanel_v1 E tar"
| "run_handler E junk H SetBadge tar sdr = setbadge E tar"
| "run_handler E junk H Switch tar sdr = switchfunction E tar sdr"
| "run_handler E junk H GetBadgeInfo tar sdr = getbadgeinfo E tar"
| "run_handler E junk H AdoptBanner tar sdr = adoptbanner_v1 E tar"
| "run_handler E junk H AdoptInfoPanel tar sdr = adoptinfopanel_v1 E tar"
| "run_handler E junk H ClearTemp tar sdr = cleartemp E tar"
| "run_handler E junk H RejectBanner tar sdr = rejectbanner_v1 E tar"
| "run_handler E junk H RejectInfoPanel tar sdr = rejectinfopanel_v1 E tar"
| "run_handler E junk H ResetUser tar sdr = resetuser E tar"
| "run_handler E junk H AddBadge tar sdr = addbadge E tar"
| "run_handler E junk H Block tar sdr = blockuser E tar"
| "run_handler E junk H RmBottle tar sdr = removebottle E junk tar"
| "run_handler E junk H SetNewBadge tar sdr = setnewbadge E junk tar"
| "run_handler E junk H h tar sdr = H h tar sdr"

definition run_destination :: "botenv \<Rightarrow> int \<Rightarrow> handlers \<Rightarrow> destination \<Rightarrow> message \<Rightarrow> group_sender \<Rightarrow> unit bot_prog" where
  "run_destination E junk H d tar sdr = (case d of
     Command h \<Rightarrow>
       (case switched_by h of
          None \<Rightarrow> run_handler E junk H h tar sdr
        | Some n \<Rightarrow> if_enabled E tar n (run_handler E junk H h tar sdr))
   | Denied \<Rightarrow> send_message E tar T_no_permission
   | Entertainment \<Rightarrow> thenB (steam_parse E tar sdr) (if_enabled E tar 4 (addons_parser E tar sdr)))"

definition reload_admins :: "botenv \<Rightarrow> unit bot_prog" where
  "reload_admins E b = (case reloadAdmin (be_db E) (bt_admins b) (wd_log (bt_world b)) of
     (l, admins, r) \<Rightarrow> (b\<lparr>bt_world := (bt_world b)\<lparr>wd_log := l\<rparr>, bt_admins := admins\<rparr>, r))"

subsection \<open>The parser\<close>

text \<open>The command of the owner that reloads the list of administrators; any other command passes.
  The flag says whether the parser goes on.\<close>

definition reloadadmin_command :: "botenv \<Rightarrow> message \<Rightarrow> bool bot_prog" where
  "reloadadmin_command E tar =
     (if \<not> command_is 11 ''reloadadmin'' (ms_message tar) then retB True
      else if ms_user_id tar \<noteq> be_owner E then retB False
      else thenB (catchB (\<lambda>e. e = DatabaseError)
          (thenB (reload_admins E) (send_message E tar T_admins_updated))
          (send_message E tar T_update_failed)) (retB True))"

definition parser_body :: "botenv \<Rightarrow> int \<Rightarrow> handlers \<Rightarrow> message \<Rightarrow> group_sender \<Rightarrow> unit bot_prog" where
  "parser_body E junk H tar sdr =
     thenB (dbC E Connect)
     (bindB (dbE E (\<lambda>d. is_Blocked d (ms_user_id tar))) (\<lambda>blocked.
      if blocked = 1 then retB ()
      else bindB (reloadadmin_command E tar) (\<lambda>go_on.
        if go_on then
          (\<lambda>b. run_destination E junk H (route (bt_admins b) (ms_user_id tar) (ms_message tar)) tar sdr b)
        else retB ())))"

text \<open>The ASCII exclamation mark or the wide one, of which the first byte is negative as a \<^verbatim>\<open>char\<close>.\<close>

definition has_prefix :: "string \<Rightarrow> bool" where
  "has_prefix m \<longleftrightarrow> starts ''!'' m \<or> starts T_wide_bang m"

definition without_prefix :: "string \<Rightarrow> string" where
  "without_prefix m = (if starts ''!'' m then drop 1 m else drop 3 m)"

definition dispatch :: "botenv \<Rightarrow> int \<Rightarrow> handlers \<Rightarrow> message \<Rightarrow> group_sender \<Rightarrow> unit bot_prog" where
  "dispatch E junk H tar sdr =
     (if has_prefix (ms_message tar) then
        let tar = tar\<lparr>ms_message := without_prefix (ms_message tar)\<rparr> in
        handled E tar T_some_error (parser_body E junk H tar sdr)
      else retB ())"

text \<open>One text of the chat server, from its bytes to the reply.\<close>

definition on_text :: "botenv \<Rightarrow> int \<Rightarrow> handlers \<Rightarrow> string \<Rightarrow> unit bot_prog" where
  "on_text E junk H = Processer E (dispatch E junk H)"

end
