(* ===== verification/LobbyProps.thy ===== *)
theory LobbyProps
  imports Lobby
begin

text \<open>
  Properties of the game. The rooms are the state; a specification of a program says what holds of
  the rooms afterwards when it returns and, with the invariant alone, when it throws. The first
  part is the calculus, the second the invariant of the lobby, the third the properties.
\<close>

named_theorems frames \<open>programs that leave the rooms alone\<close>

subsection \<open>Programs that do not touch the rooms\<close>

definition frame :: "'a game \<Rightarrow> bool" where
  "frame m \<longleftrightarrow> (\<forall>w. wd_rooms (fst (m w)) = wd_rooms w)"

lemma frame_ret [frames]: "frame (ret x)"
  and frame_lift [frames]: "frame (lift v)"
  and frame_defined [frames]: "frame (defined u)"
  and frame_now [frames]: "frame (now E)"
  and frame_random [frames]: "frame (random E lo hi)"
  and frame_room [frames]: "frame (room i)"
  and frame_find [frames]: "frame (findPlayer who)"
  by (simp_all add: frame_def ret_def lift_def defined_def now_def random_def room_def findPlayer_def)

lemma frame_send [frames]: "frame (send m)"
  by (simp add: frame_def send_def split: prod.split)

lemma frame_bind [frames]: "frame m \<Longrightarrow> (\<And>x. frame (f x)) \<Longrightarrow> frame (bindG m f)"
  by (simp add: frame_def bindG_def split: prod.split sum.split) (metis fst_conv)

lemma frame_if [frames]: "(b \<Longrightarrow> frame m) \<Longrightarrow> (\<not> b \<Longrightarrow> frame n) \<Longrightarrow> frame (if b then m else n)"
  by simp

lemma frame_let [frames]: "(\<And>x. frame (f x)) \<Longrightarrow> frame (Let v f)"
  by simp

lemma frame_prod [frames]: "(\<And>x y. frame (f x y)) \<Longrightarrow> frame (case p of (x, y) \<Rightarrow> f x y)"
  by (simp split: prod.split)

lemma frame_num [frames]: "frame (num conv r k)" and frame_txt [frames]: "frame (txt_at r k)"
  by (simp_all add: num_def txt_at_def frames)

lemma frame_emoji [frames]: "frame (cuteEmoji E b)"
  unfolding cuteEmoji_def by (intro frames)

lemma frame_word [frames]: "frame (random_word E n)"
  unfolding random_word_def by (intro frames)

lemma frame_newWord [frames]: "frame (newWord E h)"
  unfolding newWord_def by (intro frames)

lemma frame_leaveRoom [frames]: "frame (leaveRoom E h s)"
  unfolding leaveRoom_def writeHistory_def by (intro frames)

lemma frame_status_loop [frames]: "frame (status_loop E mods history i cs out)"
proof (induction cs arbitrary: i out)
  case (Cons c cs)
  show ?case unfolding status_loop.simps by (intro frames Cons)
qed (simp add: frames)

lemma frame_getStatus [frames]: "frame (getStatus E h)"
  unfolding getStatus_def by (intro frames)

lemma frame_guess [frames]: "frame (guess E c h)"
  unfolding guess_def by (intro frames)

lemma frame_endGame [frames]: "frame (endGame E h)"
  unfolding endGame_def room_score_def by (intro frames)

lemma frame_giveUp [frames]: "frame (giveUp E h)"
  unfolding giveUp_def room_score_def by (intro frames)

lemma frame_tally [frames]: "frame (tally_rows js t)"
proof (induction js arbitrary: t)
  case (Cons r js)
  show ?case unfolding tally_rows.simps tally_row_def by (intro frames Cons)
qed (simp add: frames)

lemma frame_new_rank [frames]: "frame (new_rank E tar i js)"
proof (induction js arbitrary: i)
  case (Cons r js)
  show ?case unfolding new_rank.simps by (intro frames Cons)
qed (simp add: frames)

lemma frame_updatePlayer [frames]: "frame (updatePlayer E tar)"
  unfolding updatePlayer_def by (intro frames)

lemma frame_ranking_loop [frames]: "frame (ranking_loop E tar js)"
proof (induction js)
  case (Cons r js)
  show ?case unfolding ranking_loop.simps by (intro frames Cons)
qed (simp add: frames)

lemma frame_exists [frames]: "frame (playerRankingExists E tar)"
  unfolding playerRankingExists_def by (intro frames)

lemma frame_show [frames]: "frame (showPlayerData E tar)"
  unfolding showPlayerData_def percent_def by (intro frames)

lemma frame_intro [frames]: "frame (introduceHangman E)"
  unfolding introduceHangman_def by (intro frames)

lemma frame_expired [frames]: "frame (expired E h)"
  unfolding expired_def by (intro frames)

lemma frame_room_lines [frames]: "frame (room_lines E i hs out)"
proof (induction hs arbitrary: i out)
  case (Cons h hs)
  show ?case unfolding room_lines.simps by (intro frames Cons)
qed (simp add: frames)

lemma frame_gameStatus [frames]: "frame (gameStatus E)"
  using frame_room_lines by (simp add: frame_def gameStatus_def)

lemma frame_ranking_lines [frames]: "frame (ranking_lines i stop js out)"
proof (induction js arbitrary: i out)
  case (Cons r js)
  show ?case unfolding ranking_lines.simps by (intro frames Cons)
qed (simp add: frames)

lemma frame_hangmanRanking [frames]: "frame (hangmanRanking E page)"
  unfolding hangmanRanking_def by (intro frames)

lemma frame_rescore [frames]: "frame (rescore E js)"
proof (induction js)
  case (Cons r js)
  show ?case unfolding rescore.simps by (intro frames Cons)
qed (simp add: frames)

lemma frame_recalculate [frames]: "frame (recalculateAllScores E)"
  unfolding recalculateAllScores_def by (intro frames)

subsection \<open>Results\<close>

definition yields :: "'a game \<Rightarrow> ('a \<Rightarrow> bool) \<Rightarrow> bool" where
  "yields m P \<longleftrightarrow> (\<forall>w w' x. m w = (w', Inr x) \<longrightarrow> P x)"

lemma yields_ret: "P x \<Longrightarrow> yields (ret x) P"
  by (simp add: yields_def ret_def)

lemma yields_defined: "(\<And>x. v = Some x \<Longrightarrow> P x) \<Longrightarrow> yields (defined v) P"
  by (auto simp: yields_def defined_def split: option.splits)

lemma yields_bind: "yields m Q \<Longrightarrow> (\<And>x. Q x \<Longrightarrow> yields (f x) P) \<Longrightarrow> yields (bindG m f) P"
  by (fastforce simp: yields_def bindG_def split: prod.splits sum.splits)

lemma yields_any: "(\<And>x. yields (f x) P) \<Longrightarrow> yields (bindG m f) P"
  by (rule yields_bind[where Q = "\<lambda>_. True"]) (simp_all add: yields_def)

subsection \<open>Specifications\<close>

text \<open>The invariant of a room: the guesses are different small letters, and the points are the
  initial ones less one for each guess that is not in the word.\<close>

definition base_HP :: "hangman \<Rightarrow> int" where
  "base_HP h = (if has (hg_mods h) HANGMAN_MOD_E then 8 else 7)"

definition wrong_guesses :: "hangman \<Rightarrow> string" where
  "wrong_guesses h = filter (\<lambda>c. c \<notin> set (w_str (hg_word h))) (hg_guess_history h)"

definition room_inv :: "hangman \<Rightarrow> bool" where
  "room_inv h \<longleftrightarrow> distinct (hg_guess_history h) \<and> (\<forall>c \<in> set (hg_guess_history h). is_letter c) \<and>
     hg_HP h = base_HP h - int (length (wrong_guesses h))"

definition players :: "hangman list \<Rightarrow> int list" where
  "players rs = filter (\<lambda>p. p \<noteq> 0) (map hg_player_id rs)"

definition lobby_inv :: "hangman list \<Rightarrow> bool" where
  "lobby_inv rs \<longleftrightarrow> length rs = lobby_size \<and> (\<forall>h \<in> set rs. room_inv h) \<and> distinct (players rs)"

text \<open>The rooms other than those in \<open>X\<close> have no game that is over; with \<open>b\<close> false nothing is said.\<close>

definition live :: "bool \<Rightarrow> nat set \<Rightarrow> hangman list \<Rightarrow> bool" where
  "live b X rs \<longleftrightarrow> b \<longrightarrow> (\<forall>i < length rs. i \<notin> X \<longrightarrow> hg_player_id (rs ! i) \<noteq> 0 \<longrightarrow> \<not> isGameEnded (rs ! i))"

text \<open>A program that starts in \<open>P\<close> keeps the invariant however it ends, and ends in \<open>Q\<close> when it
  returns.\<close>

definition spec :: "(hangman list \<Rightarrow> bool) \<Rightarrow> 'a game \<Rightarrow> ('a \<Rightarrow> hangman list \<Rightarrow> bool) \<Rightarrow> bool" where
  "spec P m Q \<longleftrightarrow> (\<forall>w. P (wd_rooms w) \<longrightarrow> lobby_inv (wd_rooms (fst (m w))) \<and>
     (\<forall>x. snd (m w) = Inr x \<longrightarrow> Q x (wd_rooms (fst (m w)))))"

lemma spec_bind: "spec P m Q \<Longrightarrow> (\<And>x. spec (Q x) (f x) R) \<Longrightarrow> spec P (bindG m f) R"
  by (fastforce simp: spec_def bindG_def split: prod.split sum.split)

lemma spec_frame:
  "frame m \<Longrightarrow> yields m Y \<Longrightarrow> (\<And>rs. P rs \<Longrightarrow> lobby_inv rs) \<Longrightarrow> spec P m (\<lambda>x rs. P rs \<and> Y x)"
  unfolding spec_def frame_def yields_def by (metis prod.collapse)

lemma spec_plain: "frame m \<Longrightarrow> (\<And>rs. P rs \<Longrightarrow> lobby_inv rs) \<Longrightarrow> spec P m (\<lambda>x. P)"
  using spec_frame[of m "\<lambda>_. True" P] by (simp add: yields_def)

lemma spec_weaken: "spec P m Q \<Longrightarrow> (\<And>rs. P' rs \<Longrightarrow> P rs) \<Longrightarrow> (\<And>x rs. Q x rs \<Longrightarrow> Q' x rs) \<Longrightarrow> spec P' m Q'"
  by (simp add: spec_def)

lemma spec_room: "(\<And>rs. P rs \<Longrightarrow> lobby_inv rs) \<Longrightarrow> spec P (room i) (\<lambda>h rs. P rs \<and> h = rs ! i)"
  by (simp add: spec_def room_def)

lemma spec_set_room:
  "(\<And>rs. P rs \<Longrightarrow> lobby_inv (rs[i := h]) \<and> Q (rs[i := h])) \<Longrightarrow> spec P (set_room i h) (\<lambda>_. Q)"
  by (simp add: spec_def set_room_def)

lemma spec_ret: "(\<And>rs. P rs \<Longrightarrow> lobby_inv rs \<and> Q x rs) \<Longrightarrow> spec P (ret x) Q"
  by (simp add: spec_def ret_def)

lemma spec_if: "(b \<Longrightarrow> spec P m Q) \<Longrightarrow> (\<not> b \<Longrightarrow> spec P n Q) \<Longrightarrow> spec P (if b then m else n) Q"
  by simp

subsection \<open>Changing one room\<close>

lemma lobby_nth: "lobby_inv rs \<Longrightarrow> i < lobby_size \<Longrightarrow> room_inv (rs ! i)"
  by (simp add: lobby_inv_def)

lemma players_split: "i < length rs \<Longrightarrow>
   players rs = players (take i rs) @ (if hg_player_id (rs ! i) = 0 then [] else [hg_player_id (rs ! i)]) @
     players (drop (Suc i) rs)"
  by (subst id_take_nth_drop[of i rs]) (auto simp: players_def)

lemma players_update: "i < length rs \<Longrightarrow>
   players (rs[i := h]) = players (take i rs) @ (if hg_player_id h = 0 then [] else [hg_player_id h]) @
     players (drop (Suc i) rs)"
  by (subst upd_conv_take_nth_drop) (auto simp: players_def)

text \<open>A room may get a new content that keeps its invariant, and a new player who is not in the lobby.\<close>

lemma lobby_update:
  assumes "lobby_inv rs" "i < lobby_size" "room_inv h"
    and "hg_player_id h \<in> {0, hg_player_id (rs ! i)} \<or> hg_player_id h \<notin> set (players rs)"
  shows "lobby_inv (rs[i := h])"
proof -
  have i: "i < length rs" using assms by (simp add: lobby_inv_def)
  have "set (rs[i := h]) \<subseteq> insert h (set rs)" by (rule set_update_subset_insert)
  moreover have "distinct (players (rs[i := h]))"
    using assms i players_split[OF i] by (auto simp: lobby_inv_def players_update)
  ultimately show ?thesis using assms by (auto simp: lobby_inv_def)
qed

lemma players_after:
  assumes "i < length rs"
  shows "set (players (rs[i := h])) \<subseteq> insert (hg_player_id h) (set (players rs))"
  using assms players_split[OF assms] by (auto simp: players_update)

lemma find_player_spec:
  "find_player who k rs = - 1 \<and> who \<notin> hg_player_id ` set rs \<or>
   (\<exists>i < length rs. find_player who k rs = int (k + i) \<and> hg_player_id (rs ! i) = who)"
proof (induction rs arbitrary: k)
  case (Cons h rs)
  show ?case
  proof (cases "hg_player_id h = who")
    case False
    with Cons[of "Suc k"] show ?thesis by (auto intro: exI[of _ "Suc _"])
  qed auto
qed simp

subsection \<open>What the operations on a room return\<close>

text \<open>The tables of the file: as many frequencies as words, which are made of small letters, at
  least two different ones.\<close>

definition tables_ok :: "genv \<Rightarrow> bool" where
  "tables_ok E \<longleftrightarrow> length (g_freqs E) = length (g_words E) \<and>
     (\<forall>s \<in> set (g_words E). (\<forall>c \<in> set s. is_letter c) \<and> 2 \<le> length (remdups s))"

definition after_guess :: "char \<Rightarrow> hangman \<Rightarrow> hangman" where
  "after_guess c h =
     (let input = lower_case c; h' = h\<lparr>hg_guess_history := hg_guess_history h @ [input]\<rparr> in
      if \<not> is_letter input \<or> input \<in> set (hg_guess_history h) then h
      else if input \<in> set (w_str (hg_word h)) then h' else h'\<lparr>hg_HP := hg_HP h - 1\<rparr>)"

lemma guess_result: "yields (guess E c h) (\<lambda>(h', s). h' = after_guess c h)"
  unfolding guess_def Let_def
  by (auto simp: after_guess_def Let_def intro!: yields_any yields_ret)

lemma after_guess_kept:
  "hg_player_id (after_guess c h) = hg_player_id h" "hg_word (after_guess c h) = hg_word h"
  "hg_mods (after_guess c h) = hg_mods h" "hg_start_time (after_guess c h) = hg_start_time h"
  by (simp_all add: after_guess_def Let_def)

lemma after_guess_inv: "room_inv h \<Longrightarrow> room_inv (after_guess c h)"
  by (auto simp: room_inv_def after_guess_def Let_def base_HP_def wrong_guesses_def)

lemma leaveRoom_result:
  "yields (leaveRoom E h s) (\<lambda>(h', out). h' = h\<lparr>hg_player_id := 0, hg_player_nickname := []\<rparr>)"
  unfolding leaveRoom_def by (intro yields_any yields_ret) simp

lemma endGame_result:
  "yields (endGame E h) (\<lambda>(h', out). h' = h\<lparr>hg_player_id := 0, hg_player_nickname := []\<rparr>)"
  unfolding endGame_def
proof (rule yields_any, goal_cases)
  case (1 score)
  show ?case
    by (cases "hg_HP h \<le> 0", simp_all only: if_True if_False simp_thms;
        rule yields_any, rule yields_bind[OF leaveRoom_result]) (auto intro: yields_ret)
qed

lemma giveUp_result:
  "yields (giveUp E h) (\<lambda>(h', out). h' = h\<lparr>hg_player_id := 0, hg_player_nickname := []\<rparr>)"
  unfolding giveUp_def
  by (rule yields_any, rule yields_bind[OF leaveRoom_result]) (auto intro: yields_ret)

lemma entry_word: "entry E i = Some w \<Longrightarrow> w_str w \<in> set (g_words E)"
  by (auto simp: entry_def elim!: bind_SomeE)

lemma skip_removed_word: "skip_removed E k i = Some w \<Longrightarrow> w_str w \<in> set (g_words E)"
  by (induction E k i rule: skip_removed.induct) (auto elim!: bind_SomeE split: if_split_asm dest: entry_word)

lemma newWord_result:
  "yields (newWord E h) (\<lambda>h'. \<exists>w. w_str w \<in> set (g_words E) \<and>
     h' = h\<lparr>hg_mods := 0, hg_word := w, hg_guess_history := [], hg_HP := 7\<rparr>)"
proof -
  have "yields (random_word E HANGMAN_WORD_LIST) (\<lambda>w. w_str w \<in> set (g_words E))"
    unfolding random_word_def Let_def
    by (rule yields_any, rule yields_defined) (rule skip_removed_word)
  then show ?thesis unfolding newWord_def
    by (rule yields_bind) (auto intro: yields_ret)
qed

lemma leave_inv: "room_inv (h\<lparr>hg_player_id := 0, hg_player_nickname := []\<rparr>) = room_inv h"
  by (simp add: room_inv_def base_HP_def wrong_guesses_def)

lemma lower_case_letter: "is_letter c \<Longrightarrow> lower_case c = c"
  by (auto simp: is_letter_def lower_case_def)

text \<open>A new game: with the mod E the second letter is a hint that costs nothing.\<close>

definition new_game :: "word_entry \<Rightarrow> int \<Rightarrow> hangman \<Rightarrow> hangman" where
  "new_game w mods h =
     (let h = h\<lparr>hg_word := w, hg_guess_history := [], hg_HP := 7, hg_mods := mods\<rparr> in
      if has mods HANGMAN_MOD_E then (after_guess (w_str w ! 1) h)\<lparr>hg_HP := 8\<rparr> else h)"

lemma new_game_ok:
  assumes "tables_ok E" "w_str w \<in> set (g_words E)"
  shows "room_inv (new_game w mods h)" "\<not> isGameEnded (new_game w mods h)"
    "hg_player_id (new_game w mods h) = hg_player_id h"
proof -
  have letters: "\<forall>c \<in> set (w_str w). is_letter c" and two: "2 \<le> length (remdups (w_str w))"
    using assms by (auto simp: tables_ok_def)
  have len: "1 < length (w_str w)" using two length_remdups_leq[of "w_str w"] by linarith
  then have c: "w_str w ! 1 \<in> set (w_str w)" by simp
  with letters have l: "is_letter (w_str w ! 1)" "lower_case (w_str w ! 1) = w_str w ! 1"
    by (auto simp: lower_case_letter)
  have more: "\<exists>d \<in> set (w_str w). d \<noteq> x" for x
  proof (rule ccontr)
    assume "\<not> ?thesis"
    then have "set (w_str w) \<subseteq> {x}" by auto
    then have "card (set (w_str w)) \<le> 1" using card_mono[of "{x}" "set (w_str w)"] by simp
    with two show False by (simp add: length_remdups_card_conv)
  qed
  show "room_inv (new_game w mods h)"
    using c l by (auto simp: new_game_def room_inv_def after_guess_def Let_def base_HP_def wrong_guesses_def)
  show "hg_player_id (new_game w mods h) = hg_player_id h"
    by (simp add: new_game_def Let_def after_guess_kept)
  show "\<not> isGameEnded (new_game w mods h)"
    using c l more[of "w_str w ! 1"] len by (auto simp: new_game_def after_guess_def Let_def)
qed

subsection \<open>The commands keep the invariant\<close>

lemma spec_frame_bind:
  "frame m \<Longrightarrow> yields m Y \<Longrightarrow> (\<And>rs. P rs \<Longrightarrow> lobby_inv rs) \<Longrightarrow> (\<And>x. Y x \<Longrightarrow> spec P (f x) R) \<Longrightarrow>
   spec P (bindG m f) R"
  by (rule spec_bind[OF spec_frame]) (auto simp: spec_def)

lemma spec_plain_bind:
  "frame m \<Longrightarrow> (\<And>rs. P rs \<Longrightarrow> lobby_inv rs) \<Longrightarrow> (\<And>x. spec P (f x) R) \<Longrightarrow> spec P (bindG m f) R"
  by (rule spec_bind[OF spec_plain])

lemma yields_True: "yields m (\<lambda>_. True)"
  by (simp add: yields_def)

text \<open>A lobby whose games are all running (if \<open>b\<close>), and one without the player.\<close>

definition quiet :: "bool \<Rightarrow> hangman list \<Rightarrow> bool" where
  "quiet b rs \<longleftrightarrow> lobby_inv rs \<and> live b {} rs"

definition without :: "bool \<Rightarrow> int \<Rightarrow> hangman list \<Rightarrow> bool" where
  "without b who rs \<longleftrightarrow> quiet b rs \<and> who \<notin> set (players rs)"

lemma quietD: "quiet b rs \<Longrightarrow> lobby_inv rs" "quiet b rs \<Longrightarrow> live b {} rs"
  by (simp_all add: quiet_def)

lemma withoutD: "without b who rs \<Longrightarrow> quiet b rs" "without b who rs \<Longrightarrow> lobby_inv rs"
  by (simp_all add: without_def quiet_def)

lemma without_length: "without b who rs \<Longrightarrow> length rs = lobby_size"
  by (simp add: without_def quiet_def lobby_inv_def)

lemma live_update:
  "live b X rs \<Longrightarrow> hg_player_id h = 0 \<or> \<not> isGameEnded h \<or> i \<in> Y \<Longrightarrow> X \<subseteq> insert i Y \<Longrightarrow> live b Y (rs[i := h])"
  unfolding live_def
proof (intro allI impI)
  fix k
  assume "b \<longrightarrow> (\<forall>i<length rs. i \<notin> X \<longrightarrow> hg_player_id (rs ! i) \<noteq> 0 \<longrightarrow> \<not> isGameEnded (rs ! i))" "b"
    and "hg_player_id h = 0 \<or> \<not> isGameEnded h \<or> i \<in> Y" "X \<subseteq> insert i Y" "k < length (rs[i := h])" "k \<notin> Y"
    "hg_player_id (rs[i := h] ! k) \<noteq> 0"
  then show "\<not> isGameEnded (rs[i := h] ! k)"
    by (cases "i = k") (auto simp del: isGameEnded.simps)
qed

definition left :: "hangman \<Rightarrow> hangman" where
  "left h = h\<lparr>hg_player_id := 0, hg_player_nickname := []\<rparr>"

lemma left_simps: "hg_player_id (left h) = 0" "room_inv (left h) = room_inv h"
  by (simp_all add: left_def leave_inv)

lemma leave_without:
  assumes "without b who rs" "i < lobby_size"
  shows "without b who (rs[i := left (rs ! i)])" 
proof -
  have inv: "lobby_inv rs" and len: "i < length rs" using assms by (auto simp: withoutD lobby_inv_def without_def quiet_def)
  have "lobby_inv (rs[i := left (rs ! i)])"
    using assms inv by (intro lobby_update) (auto simp: left_simps lobby_nth)
  moreover have "live b {} (rs[i := left (rs ! i)])"
    using assms by (intro live_update[where X = "{}"]) (auto simp: left_simps without_def quiet_def)
  moreover have "who \<notin> set (players (rs[i := left (rs ! i)]))"
    using assms players_split[OF len] by (auto simp: players_update[OF len] left_simps without_def)
  ultimately show ?thesis by (simp add: without_def quiet_def)
qed

lemma hint_result:
  assumes "h = g\<lparr>hg_mods := 0, hg_word := w, hg_guess_history := [], hg_HP := 7\<rparr>"
  shows "yields (if has mods HANGMAN_MOD_E then
         bindG (defined (second_letter (w_str (hg_word (h\<lparr>hg_mods := mods\<rparr>))))) (\<lambda>c.
         bindG (guess E c (h\<lparr>hg_mods := mods\<rparr>)) (\<lambda>(h, out). ret (h\<lparr>hg_HP := 8\<rparr>)))
       else ret (h\<lparr>hg_mods := mods\<rparr>))
    (\<lambda>h'. 1 < length (w_str w) \<longrightarrow> h' = new_game w mods g)"
proof (cases "has mods HANGMAN_MOD_E")
  case True
  have "yields (defined (second_letter (w_str w))) (\<lambda>c. 1 < length (w_str w) \<longrightarrow> c = w_str w ! 1)"
    by (rule yields_defined) (auto simp: second_letter_def rd_def nth_append split: if_splits)
  then show ?thesis using True assms
    by (auto simp: new_game_def Let_def intro!: yields_bind[where P = "\<lambda>h'. _ h' \<longrightarrow> _ h'"] yields_bind[OF guess_result] yields_ret
        elim!: yields_bind)
qed (auto simp: assms new_game_def intro!: yields_ret)

definition with_player :: "bool \<Rightarrow> genv \<Rightarrow> int \<Rightarrow> nat \<Rightarrow> hangman \<Rightarrow> hangman list \<Rightarrow> bool" where
  "with_player b E who i h rs \<longleftrightarrow> lobby_inv rs \<and> live b {i} rs \<and> rs ! i = h \<and> hg_player_id h = who"

lemma with_playerD: "with_player b E who i h rs \<Longrightarrow> lobby_inv rs"
  by (simp add: with_player_def)

lemma sit_down:
  assumes "without b who rs" "i < lobby_size" "h = (rs ! i)\<lparr>hg_start_time := t, hg_player_id := who\<rparr>"
  shows "with_player b E who i h (rs[i := h])"
proof -
  have inv: "lobby_inv rs" using assms by (simp add: withoutD)
  then have len: "i < length rs" and h: "room_inv h"
    using assms lobby_nth[OF inv] by (auto simp: lobby_inv_def room_inv_def base_HP_def wrong_guesses_def)
  have "lobby_inv (rs[i := h])"
    using assms inv h by (intro lobby_update) (auto simp: without_def)
  moreover have "live b {i} (rs[i := h])"
    using assms by (intro live_update[where X = "{}"]) (auto simp: without_def quiet_def)
  ultimately show ?thesis using len assms(3) by (simp add: with_player_def)
qed

lemma put_new_game:
  assumes "with_player b E who i h rs" "i < lobby_size" "tables_ok E" "w_str w \<in> set (g_words E)"
  shows "quiet b (rs[i := new_game w mods h])"
proof -
  note game = new_game_ok[OF assms(3,4), of mods h]
  have "lobby_inv (rs[i := new_game w mods h])"
    using assms game by (intro lobby_update) (auto simp: with_player_def)
  moreover have "live b {} (rs[i := new_game w mods h])"
    using assms game by (intro live_update[where X = "{i}"]) (auto simp: with_player_def simp del: isGameEnded.simps)
  ultimately show ?thesis by (simp add: quiet_def)
qed

lemma word_long: "tables_ok E \<Longrightarrow> s \<in> set (g_words E) \<Longrightarrow> 1 < length s"
proof -
  assume "tables_ok E" "s \<in> set (g_words E)"
  then have "2 \<le> length (remdups s)" by (auto simp: tables_ok_def)
  with length_remdups_leq[of s] show "1 < length s" by linarith
qed

lemma enter_room_spec:
  assumes "tables_ok E" "i < lobby_size"
  shows "spec (without b (tar_user_id tar)) (enter_room E tar mods i) (\<lambda>_. quiet b)"
proof -
  let ?who = "tar_user_id tar"
  have W: "spec (without b ?who) (room i) (\<lambda>h rs. without b ?who rs \<and> h = rs ! i)"
    by (rule spec_room) (simp add: withoutD)
  have leave: "spec (\<lambda>rs. without b ?who rs \<and> h = rs ! i)
      (if e then bindG (leaveRoom E h (Num 0)) (\<lambda>(h, out). bindG (set_room i h) (\<lambda>_. ret h)) else ret h)
      (\<lambda>h rs. without b ?who rs \<and> h = rs ! i)" for h e
  proof (rule spec_if)
    have "spec (\<lambda>rs. without b ?who rs \<and> h = rs ! i) (bindG (set_room i (left h)) (\<lambda>_. ret (left h)))
       (\<lambda>h rs. without b ?who rs \<and> h = rs ! i)"
    proof (rule spec_bind)
      show "spec (\<lambda>rs. without b ?who rs \<and> h = rs ! i) (set_room i (left h))
          (\<lambda>_ rs. without b ?who rs \<and> left h = rs ! i)"
        using assms by (intro spec_set_room) (auto dest: leave_without intro: withoutD(2) simp: without_length)
    qed (rule spec_ret, auto dest: withoutD(2))
    then show "spec (\<lambda>rs. without b ?who rs \<and> h = rs ! i)
        (bindG (leaveRoom E h (Num 0)) (\<lambda>(h, out). bindG (set_room i h) (\<lambda>_. ret h)))
        (\<lambda>h rs. without b ?who rs \<and> h = rs ! i)"
      by (intro spec_frame_bind[OF frame_leaveRoom leaveRoom_result])
        (auto simp: withoutD left_def)
  qed (rule spec_ret, auto dest: withoutD(2))
  have play: "spec (with_player b E ?who i h) (bindG (newWord E h) (\<lambda>h.
     let h = h\<lparr>hg_mods := mods\<rparr> in
     bindG (if has mods HANGMAN_MOD_E then
         bindG (defined (second_letter (w_str (hg_word h)))) (\<lambda>c.
         bindG (guess E c h) (\<lambda>(h, out). ret (h\<lparr>hg_HP := 8\<rparr>)))
       else ret h) (\<lambda>h.
     bindG (set_room i h) (\<lambda>_.
     getStatus E h)))) (\<lambda>_. quiet b)" for h
  proof (rule spec_frame_bind[OF frame_newWord newWord_result with_playerD], assumption)
    fix h'
    assume "\<exists>w. w_str w \<in> set (g_words E) \<and> h' = h\<lparr>hg_mods := 0, hg_word := w, hg_guess_history := [], hg_HP := 7\<rparr>"
    then obtain w where w: "w_str w \<in> set (g_words E)"
      and h': "h' = h\<lparr>hg_mods := 0, hg_word := w, hg_guess_history := [], hg_HP := 7\<rparr>" by blast
    have fr: "frame (if has mods HANGMAN_MOD_E then
         bindG (defined (second_letter (w_str (hg_word (h'\<lparr>hg_mods := mods\<rparr>))))) (\<lambda>c.
         bindG (guess E c (h'\<lparr>hg_mods := mods\<rparr>)) (\<lambda>(h, out). ret (h\<lparr>hg_HP := 8\<rparr>)))
       else ret (h'\<lparr>hg_mods := mods\<rparr>))"
      by (intro frames)
    have set: "spec (with_player b E ?who i h) (set_room i (new_game w mods h)) (\<lambda>_. quiet b)"
      using assms w by (intro spec_set_room conjI) (auto intro: put_new_game quietD(1))
    show "spec (with_player b E ?who i h) (let h = h'\<lparr>hg_mods := mods\<rparr> in
     bindG (if has mods HANGMAN_MOD_E then
         bindG (defined (second_letter (w_str (hg_word h)))) (\<lambda>c.
         bindG (guess E c h) (\<lambda>(h, out). ret (h\<lparr>hg_HP := 8\<rparr>)))
       else ret h) (\<lambda>h.
     bindG (set_room i h) (\<lambda>_. getStatus E h))) (\<lambda>_. quiet b)"
      unfolding Let_def
      by (rule spec_frame_bind[OF fr hint_result[OF h'] with_playerD], assumption)
        (use word_long[OF assms(1) w] in \<open>auto intro!: spec_bind[OF set] spec_plain frames quietD\<close>)
  qed
  show ?thesis unfolding enter_room_def Let_def
    by (rule spec_bind[OF W], rule spec_plain_bind[OF frame_expired], simp add: withoutD,
        rule spec_bind[OF leave], rule spec_plain_bind[OF frame_now], simp add: withoutD,
        rule spec_bind[OF spec_set_room play[unfolded Let_def]])
      (use assms in \<open>auto intro: sit_down with_playerD\<close>)
qed

lemma seek_room_spec:
  "tables_ok E \<Longrightarrow> i + k \<le> lobby_size \<Longrightarrow>
   spec (without b (tar_user_id tar)) (seek_room E tar mods i k) (\<lambda>_. quiet b)"
proof (induction k arbitrary: i)
  case 0
  then show ?case by (auto intro!: spec_ret dest: withoutD)
next
  case (Suc k)
  have step: "spec (without b (tar_user_id tar)) (bindG (enter_room E tar mods i) (\<lambda>out. ret (Some out))) (\<lambda>_. quiet b)"
    using Suc.prems by (intro spec_bind[OF enter_room_spec]) (auto intro: spec_ret dest: quietD)
  have fr: "frame (if hg_player_id h = 0 then ret True else expired E h)" for h by (intro frames)
  show ?case unfolding seek_room.simps
    by (rule spec_plain_bind[OF frame_room], simp add: withoutD,
        rule spec_plain_bind[OF fr], simp add: withoutD, rule spec_if, rule step, rule Suc.IH)
      (use Suc.prems in auto)
qed

lemma quiet_plain: "frame m \<Longrightarrow> spec (quiet b) m (\<lambda>_. quiet b)"
  by (rule spec_plain) (auto dest: quietD)

lemma spec_find_bind:
  assumes "spec (without b who) (f (- 1)) R"
    and "\<And>p. nat p < lobby_size \<Longrightarrow> p \<noteq> - 1 \<Longrightarrow> spec (quiet b) (f p) R"
  shows "spec (quiet b) (bindG (findPlayer who) f) R"
proof (unfold spec_def, intro allI impI)
  fix w :: world
  assume q: "quiet b (wd_rooms w)"
  define p where "p = find_player who 0 (wd_rooms w)"
  have run: "bindG (findPlayer who) f w = f p w" by (simp add: bindG_def findPlayer_def p_def)
  consider "p = - 1" "without b who (wd_rooms w)"
    | "p \<noteq> - 1" "nat p < lobby_size" "hg_player_id (wd_rooms w ! nat p) = who"
    using find_player_spec[of who 0 "wd_rooms w"] q
    by (fastforce simp: p_def without_def players_def quiet_def lobby_inv_def)
  then show "lobby_inv (wd_rooms (fst (bindG (findPlayer who) f w))) \<and>
      (\<forall>x. snd (bindG (findPlayer who) f w) = Inr x \<longrightarrow> R x (wd_rooms (fst (bindG (findPlayer who) f w))))"
    using assms q unfolding run spec_def by cases auto
qed

lemma startHangman_spec:
  assumes "tables_ok E"
  shows "spec (quiet b) (startHangman E tar cmd) (\<lambda>_. quiet b)"
  unfolding startHangman_def
proof (rule spec_find_bind)
  have fr: "frame (if \<not> ex then introduceHangman E else ret [])" for ex by (intro frames)
  have full: "spec (quiet b) (case r of Some status \<Rightarrow> ret (out @ status)
       | None \<Rightarrow> bindG (cuteEmoji E False) (\<lambda>e1. bindG (cuteEmoji E True) (\<lambda>e2.
           ret (T_rooms_full @ e1 @ T_come_later @ e2)))) (\<lambda>_. quiet b)" for r out
    by (rule quiet_plain) (cases r; auto intro!: frames)
  show "spec (without b (tar_user_id tar)) (if (- 1 :: int) \<noteq> - 1 then ret (T_not_over @ print_int (- 1)) else
       bindG (playerRankingExists E tar) (\<lambda>ex.
       bindG (if \<not> ex then introduceHangman E else ret []) (\<lambda>out.
       bindG (seek_room E tar (parse_mods cmd) 0 lobby_size) (\<lambda>r.
       case r of
         Some status \<Rightarrow> ret (out @ status)
       | None \<Rightarrow> bindG (cuteEmoji E False) (\<lambda>e1. bindG (cuteEmoji E True) (\<lambda>e2.
           ret (T_rooms_full @ e1 @ T_come_later @ e2))))))) (\<lambda>_. quiet b)"
    using assms by (intro spec_if spec_plain_bind[OF frame_exists] spec_plain_bind[OF fr] spec_bind[OF seek_room_spec] full)
      (auto dest: withoutD)
qed (auto intro!: spec_ret dest: quietD)

lemma spec_plain_quiet:
  "frame m \<Longrightarrow> (\<And>rs. P rs \<Longrightarrow> quiet b rs) \<Longrightarrow> spec P m (\<lambda>_. quiet b)"
  by (rule spec_weaken[OF quiet_plain]) auto

lemma put_guess:
  assumes "quiet b rs" "p < lobby_size"
  shows "lobby_inv (rs[p := after_guess c (rs ! p)])"
    "live b (if isGameEnded (after_guess c (rs ! p)) then {p} else {}) (rs[p := after_guess c (rs ! p)])"
proof -
  show "lobby_inv (rs[p := after_guess c (rs ! p)])"
    using assms by (intro lobby_update) (auto simp: after_guess_kept quiet_def intro: after_guess_inv lobby_nth)
  show "live b (if isGameEnded (after_guess c (rs ! p)) then {p} else {}) (rs[p := after_guess c (rs ! p)])"
    using assms by (intro live_update[where X = "{}"]) (auto simp: quiet_def simp del: isGameEnded.simps)
qed

lemma live_mono: "live b {} rs \<Longrightarrow> live b X rs"
  by (simp add: live_def)

lemma put_left:
  assumes "lobby_inv rs" "live b {p} rs" "p < lobby_size"
  shows "quiet b (rs[p := left (rs ! p)])"
proof -
  have "lobby_inv (rs[p := left (rs ! p)])"
    using assms by (intro lobby_update) (auto simp: left_simps intro: lobby_nth)
  moreover have "live b {} (rs[p := left (rs ! p)])"
    using assms by (intro live_update[where X = "{p}"]) (auto simp: left_simps)
  ultimately show ?thesis by (simp add: quiet_def)
qed

lemma giveupHangman_spec: "spec (quiet b) (giveupHangman E tar) (\<lambda>_. quiet b)"
  unfolding giveupHangman_def
proof (rule spec_find_bind)
  fix p :: int
  assume p: "nat p < lobby_size" "p \<noteq> - 1"
  have put: "spec (\<lambda>rs. quiet b rs \<and> h = rs ! nat p) (set_room (nat p) (left h)) (\<lambda>_. quiet b)" for h
    using p by (intro spec_set_room conjI) (auto intro!: put_left quietD(1) intro: live_mono dest: quietD)
  have rest: "spec (\<lambda>rs. quiet b rs \<and> h = rs ! nat p) (bindG (giveUp E h) (\<lambda>(h, out).
       bindG (set_room (nat p) h) (\<lambda>_. bindG (updatePlayer E tar) (\<lambda>out2. ret (out @ out2))))) (\<lambda>_. quiet b)" for h
    by (rule spec_frame_bind[OF frame_giveUp giveUp_result])
      (auto simp: left_def[symmetric] intro!: spec_bind[OF put] quiet_plain frames dest: quietD)
  show "spec (quiet b) (if p = - 1 then bindG (cuteEmoji E True) (\<lambda>e. ret (T_not_playing @ e))
     else let position = nat p in bindG (room position) (\<lambda>h. bindG (giveUp E h) (\<lambda>(h, out).
       bindG (set_room position h) (\<lambda>_. bindG (updatePlayer E tar) (\<lambda>out2. ret (out @ out2)))))) (\<lambda>_. quiet b)"
    using p unfolding Let_def by (auto intro!: spec_bind[OF spec_room rest] dest: quietD)
qed (auto intro!: spec_plain_quiet frames dest: withoutD)

lemma inputHangman_spec: "spec (quiet b) (inputHangman E tar input) (\<lambda>_. quiet b)"
  unfolding inputHangman_def
proof (rule spec_find_bind)
  fix p :: int
  assume p: "nat p < lobby_size" "p \<noteq> - 1"
  let ?over = "\<lambda>h rs. lobby_inv rs \<and> live b (if isGameEnded h then {nat p} else {}) rs \<and> h = rs ! nat p"
  have put: "spec (\<lambda>rs. quiet b rs \<and> h = rs ! nat p) (set_room (nat p) (after_guess c h)) (\<lambda>_. ?over (after_guess c h))" for h c
    using p put_guess by (intro spec_set_room conjI) (auto dest: quietD simp: quiet_def lobby_inv_def)
  have put2: "spec (\<lambda>rs. lobby_inv rs \<and> live b {nat p} rs \<and> h = rs ! nat p) (set_room (nat p) (left h)) (\<lambda>_. quiet b)" for h
    using p by (intro spec_set_room conjI) (auto intro!: put_left quietD(1))
  have over: "spec (?over h) (if isGameEnded h then
         bindG (endGame E h) (\<lambda>(h, out2). bindG (set_room (nat p) h) (\<lambda>_. bindG (updatePlayer E tar) (\<lambda>out3.
         ret (out @ LF @ out2 @ out3)))) else ret out) (\<lambda>_. quiet b)" for h out
  proof (rule spec_if)
    assume e: "isGameEnded h"
    show "spec (?over h) (bindG (endGame E h) (\<lambda>(h, out2). bindG (set_room (nat p) h) (\<lambda>_.
         bindG (updatePlayer E tar) (\<lambda>out3. ret (out @ LF @ out2 @ out3))))) (\<lambda>_. quiet b)"
      by (rule spec_frame_bind[OF frame_endGame endGame_result], simp)
        (use e in \<open>auto simp: left_def[symmetric] simp del: isGameEnded.simps
           intro!: spec_bind[OF put2] quiet_plain frames\<close>)
  qed (auto intro!: spec_ret simp: quiet_def)
  have rest: "spec (\<lambda>rs. quiet b rs \<and> h = rs ! nat p) (bindG (guess E (hd input) h) (\<lambda>(h, out).
       bindG (set_room (nat p) h) (\<lambda>_. if isGameEnded h then
         bindG (endGame E h) (\<lambda>(h, out2). bindG (set_room (nat p) h) (\<lambda>_. bindG (updatePlayer E tar) (\<lambda>out3.
         ret (out @ LF @ out2 @ out3)))) else ret out))) (\<lambda>_. quiet b)" for h
    by (rule spec_frame_bind[OF frame_guess guess_result])
      (auto simp del: isGameEnded.simps intro!: spec_bind[OF put over] dest: quietD)
  show "spec (quiet b) (if p = - 1 then bindG (cuteEmoji E True) (\<lambda>e. ret (T_not_started @ e))
     else if input = [] then ret T_typed_air
     else let position = nat p in bindG (room position) (\<lambda>h. bindG (guess E (hd input) h) (\<lambda>(h, out).
       bindG (set_room position h) (\<lambda>_. if isGameEnded h then
         bindG (endGame E h) (\<lambda>(h, out2). bindG (set_room position h) (\<lambda>_. bindG (updatePlayer E tar) (\<lambda>out3.
         ret (out @ LF @ out2 @ out3)))) else ret out)))) (\<lambda>_. quiet b)"
    using p unfolding Let_def
    by (auto simp del: isGameEnded.simps intro!: spec_bind[OF spec_room rest] spec_ret dest: quietD)
qed (auto intro!: spec_plain_quiet frames dest: withoutD)

subsection \<open>The lobby as a state machine\<close>

datatype command = CStart target string | CInput target string | CGiveUp target | CStatus
  | CRanking int | CShow target | CRescore

fun perform :: "genv \<Rightarrow> command \<Rightarrow> string game" where
  "perform E (CStart tar cmd) = startHangman E tar cmd"
| "perform E (CInput tar input) = inputHangman E tar input"
| "perform E (CGiveUp tar) = giveupHangman E tar"
| "perform E CStatus = gameStatus E"
| "perform E (CRanking page) = hangmanRanking E page"
| "perform E (CShow tar) = showPlayerData E tar"
| "perform E CRescore = bindG (recalculateAllScores E) (\<lambda>_. ret [])"

fun new_rooms :: "genv \<Rightarrow> nat \<Rightarrow> hangman list game" where
  "new_rooms E 0 = ret []"
| "new_rooms E (Suc k) = bindG (new_room E) (\<lambda>h. bindG (new_rooms E k) (\<lambda>hs. ret (h # hs)))"

text \<open>The worlds that commands can lead to. With \<open>b\<close> no command before has thrown.\<close>

inductive reachable :: "genv \<Rightarrow> bool \<Rightarrow> world \<Rightarrow> bool" for E where
  start: "new_rooms E lobby_size w = (w', Inr rs) \<Longrightarrow> reachable E b (w'\<lparr>wd_rooms := rs\<rparr>)"
| returned: "reachable E b w \<Longrightarrow> perform E c w = (w', Inr out) \<Longrightarrow> reachable E b w'"
| threw: "reachable E b w \<Longrightarrow> perform E c w = (w', Inl e) \<Longrightarrow> reachable E False w'"

lemma perform_spec:
  assumes "tables_ok E"
  shows "spec (quiet b) (perform E c) (\<lambda>_. quiet b)"
  using assms
  by (cases c) (simp_all add: startHangman_spec inputHangman_spec giveupHangman_spec quiet_plain frames)

lemma new_room_result:
  "yields (new_room E) (\<lambda>h. hg_player_id h = 0 \<and> room_inv h)"
  unfolding new_room_def using newWord_result
  by (auto simp: yields_def room_inv_def base_HP_def wrong_guesses_def has_def) fastforce+

lemma new_rooms_result:
  "yields (new_rooms E k) (\<lambda>hs. length hs = k \<and> (\<forall>h \<in> set hs. hg_player_id h = 0 \<and> room_inv h))"
proof (induction k)
  case (Suc k)
  show ?case unfolding new_rooms.simps
    by (rule yields_bind[OF new_room_result], rule yields_bind[OF Suc]) (auto intro!: yields_ret)
qed (simp add: yields_ret)

lemma reachable_quiet:
  assumes "reachable E b w" "tables_ok E"
  shows "quiet b (wd_rooms w)"
  using assms
proof induction
  case (start w w' rs b)
  then have "length rs = lobby_size" "\<forall>h \<in> set rs. hg_player_id h = 0 \<and> room_inv h"
    using new_rooms_result[of E lobby_size] by (auto simp: yields_def)
  then show ?case by (auto simp: quiet_def lobby_inv_def live_def players_def)
next
  case (returned b w c w' out)
  then show ?case using perform_spec[of E b c] by (auto simp: spec_def dest!: spec[of _ w])
next
  case (threw b w c w' e)
  then show ?case using perform_spec[of E b c]
    by (auto simp: spec_def quiet_def live_def dest!: spec[of _ w])
qed

end
