(* ===== verification/BotRel.thy ===== *)
theory BotRel
  imports Dispatch LobbyProps
begin

text \<open>
  A contract for the programs of the bot. A relation between the states before and after a program that
  is kept by every primitive operation is kept by every command, by the parser and by a whole text. The
  locales state the laws, the interpretations at the end of the theory and in the theories of the
  properties supply the relations: the invariant of the lobby, the list of administrators, what was sent.
\<close>

definition moves :: "(bot \<Rightarrow> bot \<Rightarrow> bool) \<Rightarrow> 'a bot_prog \<Rightarrow> bool" where
  "moves R p \<longleftrightarrow> (\<forall>b. R b (fst (p b)))"

lemma movesD: "moves R p \<Longrightarrow> R b (fst (p b))"
  by (simp add: moves_def)

text \<open>\<open>E\<close> is the environment of the sending; the relation may depend on it.\<close>

locale bot_relation =
  fixes R :: "bot \<Rightarrow> bot \<Rightarrow> bool" and E :: botenv
  assumes refl: "R b b"
    and trans: "R a b \<Longrightarrow> R b c \<Longrightarrow> R a c"
    and log: "R b (b\<lparr>bt_world := (bt_world b)\<lparr>wd_log := l\<rparr>\<rparr>)"
    and tick: "R b (b\<lparr>bt_world := (bt_world b)\<lparr>wd_tick := n\<rparr>\<rparr>)"
    and files: "R b (b\<lparr>bt_files := f\<rparr>)"
    and sends: "R b (fst (send_json E j b))"
begin

lemma m_stay: "(\<And>b. fst (p b) = b) \<Longrightarrow> moves R p"
  by (simp add: moves_def refl)

lemma m_ret: "moves R (retB x)" by (simp add: m_stay retB_def)
lemma m_lift: "moves R (liftB v)" by (simp add: m_stay liftB_def)
lemma m_defined: "moves R (definedB u)" by (simp add: m_stay definedB_def)
lemma m_exist: "moves R (fileExist path)" by (simp add: m_stay fileExist_def)
lemma m_trim: "moves R (trimB s)" by (simp add: trimB_def m_defined)
lemma m_replace: "moves R (replaceB s x y)" by (simp add: replaceB_def m_defined)
lemma m_argument: "moves R (argument k tar)" by (simp add: argument_def m_lift)
lemma m_asked: "moves R (asked r)" by (simp add: asked_def m_lift m_ret split: prod.split sum.split)
lemma m_by_id: "moves R (user_by_id E uid mode u)" by (simp add: user_by_id_def m_asked)
lemma m_by_name: "moves R (user_by_name E name mode u)" by (simp add: user_by_name_def m_asked)

lemma m_bind: "moves R m \<Longrightarrow> (\<And>x. moves R (f x)) \<Longrightarrow> moves R (bindB m f)"
  unfolding moves_def bindB_def by (auto split: prod.split sum.split) (metis fst_conv trans)+

lemma m_then: "moves R m \<Longrightarrow> moves R k \<Longrightarrow> moves R (thenB m k)"
  by (simp add: thenB_def m_bind)

lemma m_if: "(c \<Longrightarrow> moves R m) \<Longrightarrow> (\<not> c \<Longrightarrow> moves R k) \<Longrightarrow> moves R (if c then m else k)"
  by simp

lemma m_let: "(\<And>x. moves R (f x)) \<Longrightarrow> moves R (Let v f)"
  by simp

lemma m_prod: "(\<And>x y. moves R (f x y)) \<Longrightarrow> moves R (case p of (x, y) \<Rightarrow> f x y)"
  by (simp split: prod.split)

lemma m_sum: "(\<And>x. moves R (f x)) \<Longrightarrow> (\<And>y. moves R (g y)) \<Longrightarrow> moves R (case s of Inl x \<Rightarrow> f x | Inr y \<Rightarrow> g y)"
  by (simp split: sum.split)

lemma m_option: "moves R f \<Longrightarrow> (\<And>y. moves R (g y)) \<Longrightarrow> moves R (case s of None \<Rightarrow> f | Some y \<Rightarrow> g y)"
  by (simp split: option.split)

lemma m_list: "moves R f \<Longrightarrow> (\<And>y ys. moves R (g y ys)) \<Longrightarrow> moves R (case s of [] \<Rightarrow> f | y # ys \<Rightarrow> g y ys)"
  by (simp split: list.split)

lemma m_type: "moves R f \<Longrightarrow> moves R g \<Longrightarrow> moves R (case s of PRIVATE \<Rightarrow> f | GROUP \<Rightarrow> g)"
  by (simp split: target_type.split)

lemma m_catch: "moves R m \<Longrightarrow> moves R h \<Longrightarrow> moves R (catchB p m h)"
  unfolding moves_def catchB_def by (auto split: prod.split sum.split) (metis fst_conv trans)+

lemma m_db: "moves R (dbB m)"
  using log by (auto simp: moves_def dbB_def gameB_def send_def split: prod.split)

lemma m_dbC: "moves R (dbC E m)" and m_dbE: "moves R (dbE E k)" and m_time: "moves R (timeB E)"
  by (simp_all add: dbC_def dbE_def timeB_def m_db)

lemma m_rand: "moves R (randB E lo hi)"
  using tick by (auto simp: moves_def randB_def gameB_def random_def)

lemma m_send: "moves R (send_json E j)" by (simp add: moves_def sends)
lemma m_private: "moves R (send_private_message E u m)" by (simp add: send_private_message_def m_send)
lemma m_group: "moves R (send_group_message E u m)" by (simp add: send_group_message_def m_send)
lemma m_message: "moves R (send_message E tar m)"
  unfolding send_message_def by (intro m_type m_private m_group)

lemma m_copy: "moves R (copyFile E s d)" and m_delete: "moves R (DeleteFileA path)" and m_avatars: "moves R delete_avatars"
  by (simp_all add: moves_def copyFile_def DeleteFileA_def delete_avatars_def files refl)

lemma m_count: "moves R (connect_and_count E)"
  unfolding connect_and_count_def by (intro m_then m_dbC)

lemmas basic = m_ret m_lift m_defined m_exist m_trim m_replace m_argument m_by_id m_by_name m_bind m_then m_if
  m_let m_prod m_sum m_option m_list m_type m_dbC m_dbE m_time m_rand m_private m_group m_message m_copy
  m_delete m_avatars m_count

subsection \<open>The commands of \<^verbatim>\<open>Main\<close>\<close>

lemma m_outputcallcount: "moves R (outputcallcount E tar)" unfolding outputcallcount_def by (intro basic)
lemma m_help: "moves R (help_command E tar)" unfolding help_command_def by (intro basic)
lemma m_about: "moves R (about E tar)" unfolding about_def by (intro basic)
lemma m_contact: "moves R (contact E tar)" unfolding contact_def by (intro basic)
lemma m_ping: "moves R (ping E tar)" unfolding ping_def by (intro basic)

lemma m_add_modes: "moves R (add_modes E cmd t modes u)"
proof (induction modes arbitrary: u)
  case (Cons m modes)
  show ?case unfolding add_modes.simps by (intro basic Cons)
qed (simp add: m_ret)

lemma m_setid: "(\<And>t. moves R (info t)) \<Longrightarrow> moves R (setid E info tar)"
  unfolding setid_def by (intro basic m_add_modes)

lemma m_unsetid: "moves R (unsetid E tar)" unfolding unsetid_def Let_def by (intro basic)

lemma m_account: "(\<And>uid. moves R (f uid)) \<Longrightarrow> moves R (with_account E tar f)"
  unfolding with_account_def by (intro basic)

lemma m_setmode: "moves R (setmode E tar)" unfolding setmode_def by (intro basic)

lemma m_badge_lines: "moves R (badge_lines E ts m)"
proof (induction ts arbitrary: m)
  case (Cons t ts)
  show ?case unfolding badge_lines.simps by (intro basic Cons)
qed (simp add: m_ret)

lemma m_badgelist: "moves R (badgelist E tar)"
  unfolding badgelist_def by (intro m_account basic m_badge_lines)

lemma m_setbadge: "moves R (setbadge E tar)" unfolding setbadge_def by (intro m_account basic)
lemma m_resetbanner: "moves R (resetbanner_v1 E tar)" unfolding resetbanner_v1_def by (intro basic)
lemma m_resetinfopanel: "moves R (resetinfopanel_v1 E tar)" unfolding resetinfopanel_v1_def by (intro basic)

lemma m_change: "moves R (change_setting E g k on)" unfolding change_setting_def by (intro basic)

lemma m_switch: "moves R (switchfunction E tar sdr)"
  unfolding switchfunction_def by (intro basic m_change)

lemma m_getbadgeinfo: "moves R (getbadgeinfo E tar)" unfolding getbadgeinfo_def by (intro basic)
lemma m_setevent: "moves R (setevent E tar)" unfolding setevent_def by (intro basic)

subsection \<open>The commands of the administrators\<close>

lemma m_also: "moves R (also_group E tar m)" unfolding also_group_def by (intro basic)
lemma m_tell: "moves R (tell E tar UserID s m)" unfolding tell_def by (intro basic m_also)
lemma m_adopt: "moves R (adopt E tar n v d s m)" unfolding adopt_def by (intro basic m_tell)

lemma m_reason: "(\<And>u c. moves R (f u c)) \<Longrightarrow> moves R (with_reason cmd f)"
  unfolding with_reason_def by (intro basic)

lemma m_reject: "moves R (reject E tar n v s t m)" unfolding reject_def by (intro m_reason basic m_tell)
lemma m_resetuser: "moves R (resetuser E tar)" unfolding resetuser_def by (intro m_reason basic m_also)
lemma m_addbadge: "moves R (addbadge E tar)" unfolding addbadge_def by (intro basic)
lemma m_blockuser: "moves R (blockuser E tar)" unfolding blockuser_def by (intro m_catch basic m_also)

lemma m_image: "moves R (getImage E name)"
  unfolding getImage_def by (intro m_catch basic m_stay) simp

lemma m_setnewbadge: "moves R (setnewbadge E junk tar)"
  unfolding setnewbadge_def by (intro basic m_image m_also)

lemma m_tell_sender: "moves R (tell_sender E j s)" unfolding tell_sender_def by (intro basic m_db)
lemma m_rm_target: "moves R (rm_target E tar s i r)" unfolding rm_target_def by (intro basic)

lemma m_remove_each: "moves R (remove_each E junk tar ss r)"
proof (induction ss arbitrary: r)
  case (Cons s ss)
  show ?case unfolding remove_each.simps by (intro basic m_rm_target m_tell_sender m_also Cons)
qed (simp add: m_ret)

lemma m_remove_one: "moves R (remove_one E tar i r)"
  unfolding remove_one_def by (intro basic m_tell_sender m_also)

lemma m_removebottle: "moves R (removebottle E junk tar)"
  unfolding removebottle_def by (intro basic m_remove_each m_remove_one)

lemma m_cleartemp: "moves R (cleartemp E tar)" unfolding cleartemp_def by (intro basic)

lemmas commands = m_outputcallcount m_help m_about m_contact m_ping m_unsetid m_setmode m_badgelist m_setbadge
  m_resetbanner m_resetinfopanel m_switch m_getbadgeinfo m_setevent m_resetuser m_addbadge m_blockuser
  m_setnewbadge m_removebottle m_cleartemp

end

text \<open>The same with a game: the commands of the game are steps of the relation, too.\<close>

locale bot_game = bot_relation +
  assumes game: "R b (b\<lparr>bt_world := fst (perform (be_game E) c (bt_world b))\<rparr>)"
begin

lemma m_game: "moves R (gameB (perform (be_game E) c))"
proof (unfold moves_def, intro allI)
  fix b
  show "R b (fst (gameB (perform (be_game E) c) b))"
    using game[of b c] by (simp add: gameB_def split_beta)
qed

lemma m_perform:
  "moves R (gameB (startHangman (be_game E) t cmd))" "moves R (gameB (inputHangman (be_game E) t cmd))"
  "moves R (gameB (giveupHangman (be_game E) t))" "moves R (gameB (gameStatus (be_game E)))"
  "moves R (gameB (hangmanRanking (be_game E) p))" "moves R (gameB (showPlayerData (be_game E) t))"
  using m_game[of "CStart t cmd"] m_game[of "CInput t cmd"] m_game[of "CGiveUp t"] m_game[of CStatus]
    m_game[of "CRanking p"] m_game[of "CShow t"] by simp_all

lemma m_rescore: "moves R (gameB (recalculateAllScores (be_game E)))"
proof -
  have "fst (bindG m (\<lambda>_. ret s) w) = fst (m w)" for m :: "string game" and s :: string and w
    by (auto simp: bindG_def ret_def split: prod.split sum.split)
  then show ?thesis using m_game[of CRescore] by (simp add: moves_def gameB_def split_beta)
qed

lemma m_find: "moves R (gameB (findPlayer who))"
  by (simp add: m_stay gameB_def findPlayer_def split: prod.split)

lemma m_answer: "moves R (gameB (g (be_game E))) \<Longrightarrow> moves R (answer_game E tar g)"
  unfolding answer_game_def by (intro basic)

subsection \<open>Drifting bottles and the addons\<close>

lemma m_dots: "moves R (dots E)" unfolding dots_def by (intro basic)
lemma m_either: "moves R (either_of E s t)" unfolding either_of_def by (intro basic)
lemma m_now_text: "moves R (now_text E)" unfolding now_text_def by (intro basic)
lemma m_insufficient: "moves R (insufficient E)" unfolding insufficient_def Let_def by (intro basic)

lemma m_throw: "moves R (throw_bottle E tar sdr)"
  unfolding throw_bottle_def by (intro basic m_dots m_either m_now_text)

lemma m_choose: "moves R (choose_bottle E who j k i)"
  by (induction k arbitrary: i) (simp_all add: m_ret m_bind m_lift m_rand)

lemma m_read: "moves R (read_bottle r)" unfolding read_bottle_def by (intro basic)
lemma m_picked: "moves R (picked_report E tar sdr b)" unfolding picked_report_def by (intro basic m_dots)
lemma m_found: "moves R (found_text E s b)" unfolding found_text_def by (intro basic m_dots)
lemma m_throw_back: "moves R (throw_back E tar sdr r b)" unfolding throw_back_def by (intro basic m_picked)

lemma m_pick: "moves R (pick_bottle E tar sdr)"
  unfolding pick_bottle_def by (intro basic m_insufficient m_dots m_either m_choose m_read m_found m_throw_back)

lemma m_remaining: "moves R (remainingPickupcount E tar)"
  unfolding remainingPickupcount_def by (intro basic m_insufficient)

lemma m_statistics: "moves R (bottleStatistics E tar)" unfolding bottleStatistics_def by (intro basic)
lemma m_available: "moves R (availableBottleCount E tar)" unfolding availableBottleCount_def by (intro basic)

lemma m_if_state: "moves R m \<Longrightarrow> moves R k \<Longrightarrow> moves R (\<lambda>b. (if P b then m else k) b)"
  by (simp add: moves_def)

lemma m_addons_command: "moves R (addons_command E tar sdr)"
  unfolding addons_command_def Let_def
  by (intro m_answer m_perform m_rescore m_find m_if_state basic m_throw m_pick m_remaining m_statistics m_available)

lemma m_db_report: "moves R (db_report E tar)" unfolding db_report_def by (intro basic m_now_text)
lemma m_std_report: "moves R (std_report E tar m)" unfolding std_report_def by (intro basic m_now_text)

lemma m_handled:
  assumes "moves R p"
  shows "moves R (handled E tar m p)"
proof (unfold moves_def, intro allI)
  fix b
  obtain b1 r where run: "p b = (b1, r)" by fastforce
  have "R b b1" using movesD[OF assms, of b] run by simp
  moreover have "R b1 (fst (db_report E tar b1))" "R b1 (fst (std_report E tar m b1))" "R b1 (fst (send_message E tar t b1))" for t
    by (rule movesD, rule m_db_report m_std_report m_message)+
  ultimately show "R b (fst (handled E tar m p b))"
    unfolding handled_def run by (auto split: sum.split exn.split intro: trans)
qed

lemma m_addons: "moves R (addons_parser E tar sdr)"
  unfolding addons_parser_def by (intro m_handled m_addons_command)

subsection \<open>Bans\<close>

lemma m_steam_get: "moves R (steam_get E url)"
  unfolding steam_get_def by (intro basic m_stay) simp

lemma m_status: "moves R (get_user_status E n)"
  unfolding get_user_status_def by (intro basic m_steam_get)

lemma m_bans: "moves R (ban_check E n s)"
  unfolding ban_check_def by (intro m_catch basic m_steam_get)

lemma m_avatar: "moves R (download_avatar E us)"
  by (auto simp: moves_def download_avatar_def Let_def DownloadFile_def files retB_def refl split: sum.split)

lemma m_numbered: "moves R (with_number E us s)"
  unfolding with_number_def by (intro basic m_avatar)

lemma m_texts:
  "moves R (checkrtnmsg E us ubs)" "moves R (banrtnmsg E us ubs v)" "moves R (bancheckExpireMsg E us ubs t)"
  by (simp_all add: checkrtnmsg_def banrtnmsg_def bancheckExpireMsg_def m_numbered)

lemma m_behind: "moves R (behind s k)" unfolding behind_def by (intro basic)
lemma m_resolve: "moves R (resolve E s)" unfolding resolve_def by (intro basic m_steam_get)
lemma m_check_name: "moves R (check_name E tar s)"
  unfolding check_name_def by (intro basic m_resolve m_bans m_status m_texts)

lemma m_check_number:
  assumes "\<And>p. moves R p \<Longrightarrow> moves R (g p)"
  shows "moves R (check_number E tar s g)"
  unfolding check_number_def by (intro assms basic m_bans m_status m_texts)

lemma m_check: "moves R (steam_check E tar)"
  unfolding steam_check_def by (intro m_check_number m_catch basic m_behind m_check_name)

lemma m_listen_target: "moves R (listen_target E tar s)"
  unfolding listen_target_def listen_name_def listen_number_def
  by (intro basic m_behind m_resolve m_bans)

lemma m_listen: "moves R (steam_listen E tar)"
  unfolding steam_listen_def listen_user_def by (intro basic m_listen_target)

lemma m_steam: "moves R (steam_parse E tar sdr)"
  unfolding steam_parse_def by (intro basic m_check m_listen)

lemma m_deliver_each: "(\<And>n m. moves R (out n m)) \<Longrightarrow> moves R msg \<Longrightarrow> moves R (deliver_each out msg ss)"
  by (induction ss) (simp_all add: basic)

lemma m_notify: "moves R msg \<Longrightarrow> moves R (notify E single cui ubs msg)"
  unfolding notify_def deliver_def by (intro basic m_deliver_each)

lemma m_checkthread: "moves R (checkthread E cui)"
  unfolding checkthread_def whenB_def by (intro basic m_status m_bans m_notify m_texts)

lemma m_check_all: "moves R (check_all E cs)"
  by (induction cs) (simp_all add: basic m_checkthread)

lemma m_round: "moves R (autocheck_round E)"
  unfolding autocheck_round_def whenB_def by (intro basic m_check_all)

subsection \<open>The dispatcher\<close>

lemma m_enabled: "moves R p \<Longrightarrow> moves R (if_enabled E tar n p)"
  unfolding if_enabled_def by (intro basic)

lemma m_handler: "(\<And>h t s. moves R (H h t s)) \<Longrightarrow> moves R (run_handler E junk H h tar sdr)"
  by (cases h) (simp_all add: commands m_setid m_ret adoptbanner_v1_def adoptinfopanel_v1_def m_adopt
      rejectbanner_v1_def rejectinfopanel_v1_def m_reject)

lemma m_destination: "(\<And>h t s. moves R (H h t s)) \<Longrightarrow> moves R (run_destination E junk H d tar sdr)"
  unfolding run_destination_def
  by (cases d) (auto intro!: basic m_enabled m_handler m_steam m_addons split: option.split)

lemma m_destination_state:
  "(\<And>d. moves R (run_destination E junk H d tar sdr)) \<Longrightarrow> moves R (\<lambda>b. run_destination E junk H (D b) tar sdr b)"
  by (simp add: moves_def)

lemma m_dispatch:
  assumes "\<And>h t s. moves R (H h t s)"
    and "moves R (reloadadmin_command E (tar\<lparr>ms_message := without_prefix (ms_message tar)\<rparr>))"
  shows "moves R (dispatch E junk H tar sdr)"
proof -
  have "moves R (\<lambda>b. run_destination E junk H (D b) t s b)" for D t s
    by (rule m_destination_state, rule m_destination, rule assms)
  then show ?thesis unfolding dispatch_def Let_def parser_body_def
    by (intro m_if m_handled m_then m_bind m_dbC m_dbE m_ret assms)
qed

lemma m_request: "moves R (on_request E req)"
  unfolding on_request_def friend_request_def Let_def by (auto intro!: basic m_send split: request_type.split)

lemma m_process:
  assumes "\<And>tar sdr. moves R (f tar sdr)"
  shows "moves R (Processer E f raw)"
  unfolding Processer_def by (auto intro!: basic m_request assms split: parsed.split)

end

end
