(* ===== verification/Players.thy ===== *)
theory Players
  imports Steamcat
begin

text \<open>
  How the commands of the class \<^verbatim>\<open>Main\<close> in \<^verbatim>\<open>src/osucat.hpp\<close> find the player and the mode that a message
  asks for. The argument is empty (the sender), \<open>:mode\<close> (the sender in that mode), a name or the mention
  of a chat user, or one of them with \<open>:mode\<close> behind it. A program that has answered gives None. A player
  is known by the number \<open>uid\<close>, None when the variable was never set, or by a name that is not empty.
\<close>

definition bindO :: "'a option bot_prog \<Rightarrow> ('a \<Rightarrow> 'b option bot_prog) \<Rightarrow> 'b option bot_prog" where
  "bindO m f = bindB m (\<lambda>r. case r of None \<Rightarrow> retB None | Some x \<Rightarrow> f x)"

definition answered :: "botenv \<Rightarrow> message \<Rightarrow> string \<Rightarrow> 'a option bot_prog" where
  "answered E tar t = thenB (send_message E tar t) (retB None)"

definition retO :: "'a \<Rightarrow> 'a option bot_prog" where
  "retO x = retB (Some x)"

definition justB :: "'a bot_prog \<Rightarrow> 'a option bot_prog" where
  "justB m = bindB m retO"

text \<open>The end of a command: what is done unless there was an answer.\<close>

definition finallyB :: "'a option bot_prog \<Rightarrow> ('a \<Rightarrow> unit bot_prog) \<Rightarrow> unit bot_prog" where
  "finallyB m f = bindB m (\<lambda>r. case r of None \<Rightarrow> retB () | Some x \<Rightarrow> f x)"

subsection \<open>The argument\<close>

definition clean :: "string \<Rightarrow> string bot_prog" where
  "clean cmd =
     bindB (definedB (cqunescape cmd)) (\<lambda>cmd.
     bindB (trimB cmd) (\<lambda>cmd.
     bindB (replaceB cmd T_wide_colon '':'') (\<lambda>cmd.
     replaceB cmd ''[CQ:'' [])))"

definition before_char :: "char \<Rightarrow> string \<Rightarrow> string" where
  "before_char c s = takeWhile (\<lambda>d. d \<noteq> c) s"

definition after_char :: "char \<Rightarrow> string \<Rightarrow> string" where
  "after_char c s = drop 1 (dropWhile (\<lambda>d. d \<noteq> c) s)"

definition last_char :: "string \<Rightarrow> string" where
  "last_char s = drop (length s - 1) s"

text \<open>The name that nobody has.\<close>

definition NOBODY :: string where
  "NOBODY = ''%^%^%^!*(^&''"

definition is_mention :: "string \<Rightarrow> bool" where
  "is_mention cmd \<longleftrightarrow> str_find cmd ''at,qq='' 0 \<noteq> None"

definition is_mode :: "int \<Rightarrow> bool" where
  "is_mode n \<longleftrightarrow> n < 4 \<and> n > - 1"

definition default_mode :: "botenv \<Rightarrow> int \<Rightarrow> int bot_prog" where
  "default_mode E userid = dbE E (\<lambda>d. osu_GetUserDefaultGameMode d userid)"

definition own_account :: "botenv \<Rightarrow> message \<Rightarrow> int option bot_prog" where
  "own_account E tar = bindB (dbC E (\<lambda>S. osu_getuserid S (ms_user_id tar))) (\<lambda>userid.
     if userid = 0 then answered E tar T_not_bound else retO userid)"

definition mentioned :: "botenv \<Rightarrow> message \<Rightarrow> string \<Rightarrow> int option bot_prog" where
  "mentioned E tar cmd = bindB (liftB (stoll (GetMiddleText cmd ''='' '']''))) (\<lambda>qq.
     bindB (dbC E (\<lambda>S. osu_getuserid S qq)) (\<lambda>userid.
     if userid = 0 then answered E tar T_queried_not_bound else retO userid))"

text \<open>The number behind the colon; \<open>numeric\<close> says whether the command asks \<^verbatim>\<open>isNum\<close> first.\<close>

definition mode_number :: "botenv \<Rightarrow> message \<Rightarrow> bool \<Rightarrow> string \<Rightarrow> int option bot_prog" where
  "mode_number E tar numeric t =
     (if numeric \<and> \<not> isNum E t then answered E tar T_mode_hint else bindB (liftB (stoi t)) retO)"

text \<open>The mode of the sender: all of it inside the handler, or only the number.\<close>

definition own_mode :: "botenv \<Rightarrow> message \<Rightarrow> bool \<Rightarrow> string \<Rightarrow> int \<Rightarrow> int option bot_prog" where
  "own_mode E tar numeric cmd userid = catchB std_exception
     (bindO (mode_number E tar numeric (last_char cmd)) (\<lambda>n.
      if is_mode n then retO n else justB (default_mode E userid)))
     (justB (default_mode E userid))"

definition own_mode_rctpp :: "botenv \<Rightarrow> message \<Rightarrow> string \<Rightarrow> int \<Rightarrow> int option bot_prog" where
  "own_mode_rctpp E tar cmd userid =
     bindO (catchB std_exception (mode_number E tar True (last_char cmd)) (retO 0)) (\<lambda>n.
     if is_mode n then retO n else justB (default_mode E userid))"

definition other_mode :: "botenv \<Rightarrow> message \<Rightarrow> bool \<Rightarrow> string \<Rightarrow> int option bot_prog" where
  "other_mode E tar numeric t = bindO (catchB std_exception (mode_number E tar numeric t) (retO 0)) (\<lambda>n.
     retO (if is_mode n then n else 0))"

subsection \<open>The player\<close>

type_synonym asked_player = "int option \<times> string \<times> int \<times> user_info"

text \<open>Neither sender nor colon: the first question finds the number, to which the mode belongs.\<close>

definition named_player :: "botenv \<Rightarrow> message \<Rightarrow> string \<Rightarrow> bool \<Rightarrow> string \<Rightarrow> user_info \<Rightarrow> asked_player option bot_prog" where
  "named_player E tar banned trims cmd u =
     bindO (if is_mention cmd then bindO (mentioned E tar cmd) (\<lambda>uid. retO (Some uid, [])) else retO (None, cmd)) (\<lambda>(uid, name).
     bindO (if name = [] then
         bindB (definedB uid) (\<lambda>n.
         bindB (user_by_id E n 0 u) (\<lambda>(u, found). if found = 0 then answered E tar banned else retO u))
       else
         bindB (if trims then trimB cmd else retB cmd) (\<lambda>cmd.
         bindB (user_by_name E cmd 0 u) (\<lambda>(u, found). if found = 0 then answered E tar T_no_such_user else retO u))) (\<lambda>u.
     bindB (default_mode E (ui_user_id u)) (\<lambda>mode. retO (uid, name, mode, u))))"

text \<open>The name before a colon is not empty, for the text does not begin with one.\<close>

definition player_of :: "botenv \<Rightarrow> message \<Rightarrow> string \<Rightarrow> bool \<Rightarrow> bool \<Rightarrow> (int \<Rightarrow> int option bot_prog) \<Rightarrow> string \<Rightarrow> user_info \<Rightarrow>
    asked_player option bot_prog" where
  "player_of E tar banned trims numeric own cmd u =
     (if cmd = [] then
        bindO (own_account E tar) (\<lambda>userid. bindB (default_mode E userid) (\<lambda>mode. retO (Some userid, [], mode, u)))
      else if hd cmd = CHR '':'' then
        bindO (own_account E tar) (\<lambda>userid. bindO (own userid) (\<lambda>mode. retO (Some userid, [], mode, u)))
      else if CHR '':'' \<in> set cmd then
        bindO (if is_mention cmd then bindO (mentioned E tar cmd) (\<lambda>uid. retO (Some uid, []))
          else retO (None, before_char CHR '':'' cmd)) (\<lambda>(uid, name).
        bindO (other_mode E tar numeric (after_char CHR '':'' cmd)) (\<lambda>mode. retO (uid, name, mode, u)))
      else named_player E tar banned trims cmd u)"

text \<open>The question for the player in the mode, by number or by name; the result says by which.\<close>

definition ask_player :: "botenv \<Rightarrow> message \<Rightarrow> string \<Rightarrow> string \<Rightarrow> asked_player \<Rightarrow> ((int + string) \<times> int \<times> user_info) option bot_prog" where
  "ask_player E tar unknown_id unknown_name p = (case p of (uid, name, mode, u) \<Rightarrow>
     if name = [] then
       bindB (definedB uid) (\<lambda>uid.
       bindB (user_by_id E uid mode u) (\<lambda>(u, found).
       if found = 0 then answered E tar unknown_id else retO (Inl uid, mode, u)))
     else if length name > 40 then answered E tar T_too_long
     else
       bindB (trimB name) (\<lambda>name.
       bindB (user_by_name E name mode u) (\<lambda>(u, found).
       if found = 0 then answered E tar unknown_name else retO (Inr name, mode, u))))"

end
