(* ===== verification/Magick.thy ===== *)
theory Magick
  imports Numbers
begin

text \<open>
  What \<^verbatim>\<open>src/image.hpp\<close> uses of Magick++. An image is the term of the operations that made it; a list of
  drawables is a list of their constructors. What the library makes of them is the record \<open>magick\<close>, an
  argument of all functions that draw: whether an image can be made at all (if not, the operation throws a
  \<^verbatim>\<open>Magick::Exception\<close> and leaves its object as it was), its size, the width of a text in the font that
  is set on an image, the hue of a colour, and the contents of the file that is written. The last four
  fields are of the C++ library: the cosine, \<^verbatim>\<open>gmtime_s\<close> with \<^verbatim>\<open>strftime\<close>, the engine for the number
  behind the URL of an avatar, and the padding behind the time of a score; \<open>mg_right_first\<close> says in which
  order the compiler evaluates the arguments of a constructor.
\<close>

datatype compose = OverCompositeOp | InCompositeOp

datatype gravity = UndefinedGravity | CenterGravity | EastGravity | NorthWestGravity

datatype alignment = LeftAlign | CenterAlign | RightAlign

text \<open>A colour by its name, or a named one with another hue (\<^verbatim>\<open>ColorHSL\<close>).\<close>

datatype colour = Colour string | ColorHSL string fp

datatype drawable =
    DrawableFillColor colour
  | DrawableStrokeColor string
  | DrawableStrokeWidth int
  | DrawablePolygon "(fp \<times> fp) list"
  | DrawableCircle "fp \<times> fp" "fp \<times> fp"
  | DrawableRectangle int int int int
  | DrawableRoundRectangle int int int int int int
  | DrawableGravity gravity
  | DrawableFont string
  | DrawablePointSize int
  | DrawableTextAlignment alignment
  | DrawableText fp fp string

datatype setting =
    Density int int
  | Quality int
  | ImageFont string
  | ImageFillColor string
  | FontPointsize fp
  | StrokeWidth int
  | StrokeColor string

datatype image =
    Blank int int string
  | Opened string
  | Drawn image "drawable list"
  | Composited image image int int compose
  | Resized image int int
  | Cropped image int int int int
  | GaussianBlurred image int int
  | With image setting

record magick =
  mg_works :: "image \<Rightarrow> bool"
  mg_size :: "image \<Rightarrow> 64 word \<times> 64 word"
  mg_width :: "image \<Rightarrow> string \<Rightarrow> fp"
  mg_hue :: "string \<Rightarrow> fp"
  mg_encode :: "string \<Rightarrow> image \<Rightarrow> string"
  mg_cos :: "fp \<Rightarrow> fp"
  mg_gmtime :: "string \<Rightarrow> int \<Rightarrow> string"
  mg_engine :: "string list \<Rightarrow> int"
  mg_padding :: "32 word"
  mg_right_first :: bool

text \<open>Literals of the code: a text at a point with whole coordinates, a named fill colour.\<close>

definition text_on :: "int \<Rightarrow> int \<Rightarrow> string \<Rightarrow> drawable" where
  "text_on x y t = DrawableText (Num (of_int x)) (Num (of_int y)) t"

definition fill_colour :: "string \<Rightarrow> drawable" where
  "fill_colour c = DrawableFillColor (Colour c)"

end
