(* ===== verification/Scoring.thy ===== *)
theory Scoring
  imports Players Wrapper ModText Magick
begin

text \<open>
  What the commands on plays in \<^verbatim>\<open>src/osucat.hpp\<close> share: the data of a picture (\<^verbatim>\<open>ScorePanelData\<close> and
  \<^verbatim>\<open>UserPanelData\<close> of \<^verbatim>\<open>src/image.hpp\<close>), the calculation of points with the class \<^verbatim>\<open>oppai\<close>, the accuracy in the
  other modes, and how the map of a play is read from the network.
\<close>

subsection \<open>Data\<close>

text \<open>The result of a calculation as a value of the program. \<open>pp_total\<close> is the optional member
  \<^verbatim>\<open>total_pp\<close> of the data.\<close>

record pp_info =
  pp_code :: int
  pp_message :: string
  pp_data :: oppai_data
  pp_total :: "fp option"
  pp_maxlength :: int

record score_panel =
  pn_user :: user_info
  pn_pp :: pp_info
  pn_score :: score_info
  pn_acc :: "int list"
  pn_fc :: int
  pn_beatmap :: beatmap_info
  pn_custom :: string
  pn_mode :: int

record user_panel =
  up_user :: user_info
  up_pplus :: pplus_info
  up_custom :: string
  up_badgeid :: int

text \<open>\<open>sc_panel\<close> is a panel that was not initialised; its texts are empty and it has no points. \<open>sc_banner\<close>
  and \<open>sc_is_panel\<close> are what ImageMagick makes of an uploaded picture, \<open>sc_long\<close> a text that is not UTF-8.\<close>

record score_env =
  sc_bot :: botenv
  sc_env :: env
  sc_heap :: heap
  sc_https :: "string list \<Rightarrow> string \<Rightarrow> string thrown"
  sc_log1p :: "fp \<Rightarrow> fp"
  sc_panel :: score_panel
  sc_magick :: magick
  sc_banner :: "string \<Rightarrow> string thrown"
  sc_is_panel :: "string \<Rightarrow> bool thrown"
  sc_long :: string
  sc_elapsed :: "string list \<Rightarrow> int"

definition no_oppai :: oppai_data where
  "no_oppai = \<lparr>rd_artist = [], rd_artistUnicode = [], rd_title = [], rd_titleUnicode = [], rd_creator = [],
     rd_map_version = [], rd_cs = Num 0, rd_od = Num 0, rd_ar = Num 0, rd_hp = Num 0, rd_total_star = Num 0,
     rd_aim_star = Num 0, rd_speed_star = Num 0, rd_aim_pp = Num 0, rd_speed_pp = Num 0, rd_acc_pp = Num 0,
     rd_total_pp = Num 0, rd_mode = 0, rd_mods_num = 0, rd_mods_str = [], rd_accuracy = Num 0, rd_length = 0,
     rd_combo = 0, rd_maxcombo = 0, rd_bpm = Num 0, rd_sr = 0, rd_n300 = 0, rd_n100 = 0, rd_n50 = 0,
     rd_nmiss = 0\<rparr>"

definition no_score :: score_info where
  "no_score = \<lparr>si_beatmap_id = 0, si_score = 0, si_user_id = 0, si_n300 = 0, si_n100 = 0, si_n50 = 0,
     si_nmiss = 0, si_nkatu = 0, si_ngeki = 0, si_combo = 0, si_mods = 0, si_achieved_timestamp = 0,
     si_pp = Num 0, si_hasReplay = False, si_rank = [], si_username = []\<rparr>"

definition no_beatmap :: beatmap_info where
  "no_beatmap = \<lparr>bi_beatmap_id = 0, bi_beatmapset_id = 0, bi_artist = [], bi_title = [], bi_submit_timestamp = 0,
     bi_lastupdate_timestamp = 0, bi_approved_timestamp = 0, bi_creator = [], bi_creator_id = 0, bi_bpm = Num 0,
     bi_stars = Num 0, bi_aim_stars = Num 0, bi_speed_stars = Num 0, bi_cs = Num 0, bi_ar = Num 0, bi_od = Num 0,
     bi_hp = Num 0, bi_tags = [], bi_source = [], bi_version = [], bi_filemd5 = [], bi_game_length = 0,
     bi_total_length = 0, bi_approved = 0, bi_rating = Num 0, bi_favourite_count = 0, bi_playcount = 0,
     bi_passcount = 0, bi_count_circle = 0, bi_count_slider = 0, bi_count_spinner = 0, bi_maxcombo = 0,
     bi_hasStoryboard = False, bi_hasVideo = False, bi_canDownload = False, bi_mode = 0\<rparr>"

text \<open>\<^verbatim>\<open>ScorePanelData sp_data = { 0 };\<close> and \<^verbatim>\<open>UserPanelData upd = { 0 };\<close>\<close>

definition no_panel :: score_panel where
  "no_panel = \<lparr>pn_user = no_user, pn_pp = \<lparr>pp_code = 0, pp_message = [], pp_data = no_oppai, pp_total = None,
     pp_maxlength = 0\<rparr>, pn_score = no_score, pn_acc = [0, 0, 0, 0, 0], pn_fc = 0, pn_beatmap = no_beatmap,
     pn_custom = [], pn_mode = 0\<rparr>"

definition no_user_panel :: user_panel where
  "no_user_panel = \<lparr>up_user = no_user, up_pplus = \<lparr>pl_jump = 0, pl_flow = 0, pl_pre = 0, pl_acc = 0, pl_spd = 0,
     pl_sta = 0\<rparr>, up_custom = [], up_badgeid = - 1\<rparr>"

subsection \<open>Points\<close>

definition definedT :: "'a option \<Rightarrow> 'a thrown" where
  "definedT v = (case v of None \<Rightarrow> Inl Undefined | Some x \<Rightarrow> Inr x)"

text \<open>\<^verbatim>\<open>value()\<close> of an optional.\<close>

definition opt_value :: "'a option \<Rightarrow> 'a thrown" where
  "opt_value v = (case v of None \<Rightarrow> Inl BadOptionalAccess | Some x \<Rightarrow> Inr x)"

definition to_intT :: "fp \<Rightarrow> int thrown" where
  "to_intT x = definedT (to_cint x)"

text \<open>\<^verbatim>\<open>pp.calc()\<close>. The numbers of a result with an error are those of memory that was never set.\<close>

definition calculate :: "score_env \<Rightarrow> oppai \<Rightarrow> (oppai \<times> pp_info) thrown" where
  "calculate N w = andThen (definedT (oppai_calc (sc_env N) w [])) (\<lambda>(w, r).
     let fresh = pn_pp (sc_panel N); fresh = fresh\<lparr>pp_code := res_code r, pp_message := res_message r\<rparr> in
     Inr (w, case res_data r of
       None \<Rightarrow> fresh\<lparr>pp_total := None\<rparr>
     | Some d \<Rightarrow> fresh\<lparr>pp_data := d, pp_total := Some (rd_total_pp d)\<rparr>))"

definition load_map :: "score_env \<Rightarrow> string \<Rightarrow> oppai thrown" where
  "load_map N beatmap = andThen (definedT (oppai_new (sc_env N) (sc_heap N))) (\<lambda>w. Inr (read_data w beatmap))"

definition int32 :: "int \<Rightarrow> int" where
  "int32 n = sint (word_of_int n :: 32 word)"

text \<open>The play without its misses.\<close>

definition if_fc :: "score_env \<Rightarrow> score_info \<Rightarrow> oppai \<Rightarrow> (oppai \<times> pp_info) thrown" where
  "if_fc N s w =
     andThen (definedT (set_mods_num (sc_env N) w (int32 (si_mods s)))) (\<lambda>w.
     andThen (definedT (set_accuracy_percent (sc_env N) w (Num (- 1)))) (\<lambda>w.
     calculate N (set_n50 (set_n100 (set_n300 w (si_n300 s)) (si_n100 s)) (si_n50 s))))"

text \<open>\<open>until\<close> sets the last object of the play; the best plays leave it at the end of the map.\<close>

definition as_played :: "score_env \<Rightarrow> bool \<Rightarrow> score_info \<Rightarrow> oppai \<Rightarrow> (oppai \<times> pp_info) thrown" where
  "as_played N until s w =
     andThen (if until then definedT (do {
         n \<leftarrow> ck (si_n300 s + si_n100 s);
         n \<leftarrow> ck (n + si_n50 s);
         n \<leftarrow> ck (n + si_nmiss s);
         set_end (sc_env N) w n }) else Inr w) (\<lambda>w.
     andThen (definedT (set_nmiss (sc_env N) w (si_nmiss s))) (\<lambda>w.
     andThen (definedT (set_combo (sc_env N) w (si_combo s))) (\<lambda>w.
     calculate N w)))"

fun each_accuracy :: "score_env \<Rightarrow> int list \<Rightarrow> oppai \<Rightarrow> (oppai \<times> int list) thrown" where
  "each_accuracy N [] w = Inr (w, [])"
| "each_accuracy N (a # as) w =
     andThen (definedT (set_accuracy_percent (sc_env N) w (i2f a))) (\<lambda>w.
     andThen (calculate N w) (\<lambda>(w, r).
     andThen (andThen (opt_value (pp_total r)) to_intT) (\<lambda>n.
     andThen (each_accuracy N as w) (\<lambda>(w, ns). Inr (w, n # ns)))))"

definition ACCURACIES :: "int list" where
  "ACCURACIES = [95, 97, 98, 99, 100]"

definition confirmed :: "score_env \<Rightarrow> oppai \<Rightarrow> int list thrown" where
  "confirmed N w =
     andThen (definedT (set_end (sc_env N) w (- 1))) (\<lambda>w.
     andThen (definedT (set_nmiss (sc_env N) (set_n50 (set_n100 (set_n300 w (- 1)) (- 1)) (- 1)) (- 1))) (\<lambda>w.
     andThen (definedT (set_combo (sc_env N) w (- 1))) (\<lambda>w.
     andThen (each_accuracy N ACCURACIES w) (\<lambda>(w, ns). Inr ns))))"

definition with_stars :: "pp_info \<Rightarrow> pp_info \<Rightarrow> pp_info" where
  "with_stars t r = r\<lparr>pp_data := (pp_data r)\<lparr>rd_total_star := rd_total_star (pp_data t)\<rparr>\<rparr>"

definition with_maxima :: "pp_info \<Rightarrow> pp_info \<Rightarrow> pp_info" where
  "with_maxima t r = (if pp_code r = 0
     then r\<lparr>pp_data := (pp_data r)\<lparr>rd_maxcombo := rd_maxcombo (pp_data t)\<rparr>, pp_maxlength := rd_length (pp_data t)\<rparr>
     else r)"

text \<open>The mode osu!standard, for recent plays and scores.\<close>

definition standard_panel :: "score_env \<Rightarrow> string \<Rightarrow> score_panel \<Rightarrow> score_panel thrown" where
  "standard_panel N beatmap p =
     andThen (load_map N beatmap) (\<lambda>w.
     andThen (if_fc N (pn_score p) w) (\<lambda>(w, t).
     andThen (andThen (opt_value (pp_total t)) to_intT) (\<lambda>fc.
     andThen (as_played N True (pn_score p) w) (\<lambda>(w, r).
     andThen (confirmed N w) (\<lambda>ns.
     Inr (p\<lparr>pn_fc := fc, pn_pp := with_maxima t (with_stars t r), pn_acc := ns\<rparr>))))))"

subsection \<open>Accuracy in the other modes\<close>

fun sum_ck :: "int \<Rightarrow> int list \<Rightarrow> int option" where
  "sum_ck a [] = Some a"
| "sum_ck a (n # ns) = do { b \<leftarrow> ck (a + n); sum_ck b ns }"

definition sum_doubles :: "fp list \<Rightarrow> fp" where
  "sum_doubles xs = foldl addd (hd xs) (tl xs)"

definition percentage :: "fp \<Rightarrow> fp \<Rightarrow> fp" where
  "percentage n1 n2 = muld (divd n1 n2) (Num 100)"

definition mania_accuracy :: "score_info \<Rightarrow> fp option" where
  "mania_accuracy s = do {
     top \<leftarrow> ck (si_n300 s + si_ngeki s);
     n1 \<leftarrow> to_cint (sum_doubles [muld (i2d (si_n50 s)) (Num 50), muld (i2d (si_n100 s)) (Num 100),
       muld (i2d (si_nkatu s)) (Num 200), muld (i2d top) (Num 300)]);
     n \<leftarrow> sum_ck (si_nmiss s) [si_n50 s, si_nkatu s, si_n100 s, si_n300 s, si_ngeki s];
     n2 \<leftarrow> ck (300 * n);
     Some (percentage (i2d n1) (i2d n2)) }"

definition taiko_accuracy :: "score_info \<Rightarrow> fp" where
  "taiko_accuracy s = percentage
     (sum_doubles [muld (addd (i2d (si_n100 s)) (i2d (si_nkatu s))) (dlit (1 / 2)), i2d (si_n300 s), i2d (si_ngeki s)])
     (sum_doubles [i2d (si_nmiss s), i2d (si_n100 s), i2d (si_nkatu s), i2d (si_n300 s), i2d (si_ngeki s)])"

definition ctb_accuracy :: "score_info \<Rightarrow> fp option" where
  "ctb_accuracy s = do {
     n1 \<leftarrow> sum_ck (si_n50 s) [si_n100 s, si_n300 s];
     n2 \<leftarrow> sum_ck (si_nkatu s) [si_nmiss s, si_n50 s, si_n100 s, si_n300 s];
     Some (percentage (i2d n1) (i2d n2)) }"

definition std_accuracy :: "score_info \<Rightarrow> fp option" where
  "std_accuracy s = do {
     a \<leftarrow> ck (si_n50 s * 50);
     b \<leftarrow> ck (si_n100 s * 100);
     c \<leftarrow> ck (si_n300 s * 300);
     n1 \<leftarrow> sum_ck a [b, c];
     n \<leftarrow> sum_ck (si_nmiss s) [si_n50 s, si_n100 s, si_n300 s];
     n2 \<leftarrow> ck (300 * n);
     Some (percentage (i2d n1) (i2d n2)) }"

text \<open>What is known of the map.\<close>

definition from_beatmap :: "beatmap_info \<Rightarrow> score_info \<Rightarrow> oppai_data \<Rightarrow> oppai_data" where
  "from_beatmap m s d = d\<lparr>rd_title := bi_title m, rd_artist := bi_artist m, rd_creator := bi_creator m,
     rd_total_star := bi_stars m, rd_bpm := bi_bpm m, rd_ar := bi_ar m, rd_od := bi_od m, rd_cs := bi_cs m,
     rd_hp := bi_hp m, rd_combo := si_combo s\<rparr>"

text \<open>An accuracy is only set in the modes 1 to 3.\<close>

definition mode_accuracy :: "score_panel \<Rightarrow> oppai_data \<Rightarrow> oppai_data thrown" where
  "mode_accuracy p d =
     (let s = pn_score p in
      if pn_mode p = 3 then andThen (definedT (mania_accuracy s)) (\<lambda>a. Inr (d\<lparr>rd_accuracy := a\<rparr>))
      else if pn_mode p = 1 then Inr (d\<lparr>rd_accuracy := taiko_accuracy s\<rparr>)
      else if pn_mode p = 2 then
        andThen (definedT (ctb_accuracy s)) (\<lambda>a. Inr (d\<lparr>rd_maxcombo := bi_maxcombo (pn_beatmap p), rd_accuracy := a\<rparr>))
      else Inr d)"

definition other_panel :: "score_panel \<Rightarrow> score_panel thrown" where
  "other_panel p = andThen (mode_accuracy p (pp_data (pn_pp p))) (\<lambda>d.
     Inr (p\<lparr>pn_pp := (pn_pp p)\<lparr>pp_data := from_beatmap (pn_beatmap p) (pn_score p) d\<rparr>\<rparr>))"

definition fill_panel :: "score_env \<Rightarrow> string \<Rightarrow> score_panel \<Rightarrow> score_panel thrown" where
  "fill_panel N beatmap p = (if pn_mode p = 0 then standard_panel N beatmap p else other_panel p)"

subsection \<open>Lengths\<close>

text \<open>Minutes and seconds of a number of milliseconds.\<close>

definition pad2 :: "int \<Rightarrow> string" where
  "pad2 n = (let s = print_int n in if length s < 2 then ''0'' @ s else s)"

definition clock_text :: "int \<Rightarrow> string" where
  "clock_text ms = print_int (cdiv (cdiv ms 1000) 60) @ '':'' @ pad2 (cmod (cdiv ms 1000) 60)"

subsection \<open>The network\<close>

definition OSU_FILE_URL :: string where
  "OSU_FILE_URL = ''https://osu.ppy.sh/osu/''"

definition https :: "score_env \<Rightarrow> string \<Rightarrow> string bot_prog" where
  "https N url b = (b, sc_https N (wd_log (bt_world b)) url)"

text \<open>The map of a play: what the web interface knows of it, and its file.\<close>

definition with_map :: "score_env \<Rightarrow> message \<Rightarrow> score_panel \<Rightarrow> (score_panel \<times> string) option bot_prog" where
  "with_map N tar p =
     (let E = sc_bot N; bid = si_beatmap_id (pn_score p) in
      bindB (asked (GetBeatmap (db_api (be_db E)) bid (pn_beatmap p))) (\<lambda>(m, _).
      bindB (https N (OSU_FILE_URL @ print_int bid)) (\<lambda>beatmap.
      if beatmap = [] then answered E tar T_map_error else retO (p\<lparr>pn_beatmap := m\<rparr>, beatmap))))"

end
