(* ===== verification/Pictures.thy ===== *)
theory Pictures
  imports Scoring
begin

text \<open>
  The operations on images that \<^verbatim>\<open>src/image.hpp\<close> is written with, as programs of the bot: a function on
  images is an edit. Files are those of the bot's world; a picture that ImageMagick cannot make throws. Then
  the parts that the pictures share: the frame of an avatar, the hexagram, the file that is written.
\<close>

subsection \<open>Edits\<close>

type_synonym edit = "image \<Rightarrow> image bot_prog"

definition made :: "score_env \<Rightarrow> edit" where
  "made N i = (if mg_works (sc_magick N) i then retB i else liftB (Inl MagickError))"

definition blank :: "score_env \<Rightarrow> int \<Rightarrow> int \<Rightarrow> string \<Rightarrow> image bot_prog" where
  "blank N w h c = made N (Blank w h c)"

definition open_image :: "score_env \<Rightarrow> string \<Rightarrow> image bot_prog" where
  "open_image N path b = (case bt_files b path of None \<Rightarrow> (b, Inl MagickError) | Some c \<Rightarrow> made N (Opened c) b)"

definition draw :: "score_env \<Rightarrow> drawable list \<Rightarrow> edit" where
  "draw N dl i = made N (Drawn i dl)"

definition composite :: "score_env \<Rightarrow> image \<Rightarrow> int \<Rightarrow> int \<Rightarrow> compose \<Rightarrow> edit" where
  "composite N j x y op i = made N (Composited i j x y op)"

definition resize :: "score_env \<Rightarrow> int \<Rightarrow> int \<Rightarrow> edit" where
  "resize N w h i = made N (Resized i w h)"

definition crop :: "score_env \<Rightarrow> int \<Rightarrow> int \<Rightarrow> int \<Rightarrow> int \<Rightarrow> edit" where
  "crop N w h x y i = made N (Cropped i w h x y)"

definition set_to :: "setting \<Rightarrow> edit" where
  "set_to s i = retB (With i s)"

definition write_image :: "score_env \<Rightarrow> string \<Rightarrow> image \<Rightarrow> unit bot_prog" where
  "write_image N path i b =
     (if be_writable (sc_bot N) path
      then (b\<lparr>bt_files := (bt_files b)(path \<mapsto> mg_encode (sc_magick N) path i)\<rparr>, Inr ())
      else (b, Inl MagickError))"

primrec edits :: "edit list \<Rightarrow> edit" where
  "edits [] i = retB i"
| "edits (f # fs) i = bindB (f i) (edits fs)"

text \<open>The statements of a \<^verbatim>\<open>try\<close> block on the image \<open>i\<close>, with a handler for \<^verbatim>\<open>Magick::Exception\<close> behind it: the
  image that was reached, and whether the end was.\<close>

primrec attempt :: "edit list \<Rightarrow> image \<Rightarrow> (image \<times> bool) bot_prog" where
  "attempt [] i = retB (i, True)"
| "attempt (f # fs) i =
     bindB (catchB (\<lambda>e. e = MagickError) (bindB (f i) (\<lambda>j. retB (Some j))) (retB None)) (\<lambda>r. case r of
       None \<Rightarrow> retB (i, False)
     | Some j \<Rightarrow> attempt fs j)"

definition on_magick_error :: "'a bot_prog \<Rightarrow> 'a bot_prog \<Rightarrow> 'a bot_prog" where
  "on_magick_error h m = catchB (\<lambda>e. e = MagickError) m h"

text \<open>The picture in a file, put onto an image, and the same after it was resized.\<close>

definition paste :: "score_env \<Rightarrow> string \<Rightarrow> int \<Rightarrow> int \<Rightarrow> edit" where
  "paste N path x y i = bindB (open_image N path) (\<lambda>j. composite N j x y OverCompositeOp i)"

definition paste_resized :: "score_env \<Rightarrow> string \<Rightarrow> int \<Rightarrow> int \<Rightarrow> int \<Rightarrow> int \<Rightarrow> edit" where
  "paste_resized N path w h x y i =
     bindB (bindB (open_image N path) (resize N w h)) (\<lambda>j. composite N j x y OverCompositeOp i)"

text \<open>A white rectangle with round corners; pictures are composed into it.\<close>

definition rounded_frame :: "score_env \<Rightarrow> int \<Rightarrow> int \<Rightarrow> drawable \<Rightarrow> image bot_prog" where
  "rounded_frame N w h rectangle = bindB (blank N w h ''none'') (draw N [fill_colour ''#ffffff'', rectangle])"

subsection \<open>Avatars and files\<close>

definition avatar_path :: "int \<Rightarrow> string" where
  "avatar_path uid = ''./work/avatar/'' @ print_int uid @ ''.png''"

definition avatar_url :: "score_env \<Rightarrow> int \<Rightarrow> string bot_prog" where
  "avatar_url N uid b = (b, Inr (''https://a.ppy.sh/'' @ print_int uid @ ''?'' @
     print_int (mg_engine (sc_magick N) (wd_log (bt_world b)))))"

text \<open>An avatar that is not there is downloaded and converted; this is outside the \<^verbatim>\<open>try\<close> block.\<close>

definition fetch_avatar :: "score_env \<Rightarrow> int \<Rightarrow> unit bot_prog" where
  "fetch_avatar N uid =
     bindB (fileExist (avatar_path uid)) (\<lambda>there.
     if there then retB ()
     else
       bindB (avatar_url N uid) (\<lambda>url.
       thenB (DownloadFile (sc_bot N) (url @ ''.jpg'') (avatar_path uid))
       (bindB (open_image N (avatar_path uid)) (write_image N (avatar_path uid)))))"

text \<open>The name of a new file begins with 20 random characters.\<close>

definition save_as :: "score_env \<Rightarrow> string \<Rightarrow> string \<Rightarrow> image \<Rightarrow> string bot_prog" where
  "save_as N folder ending i b =
     (let file = rand_str (be_chars (sc_bot N) (wd_log (bt_world b))) @ ending in
      thenB (write_image N (be_root (sc_bot N) @ folder @ file) i) (retB file) b)"

subsection \<open>The hexagram\<close>

record hexagram_info =
  hi_size :: int
  hi_node_count :: int
  hi_nodeMaxValue :: int
  hi_line :: string
  hi_fill :: string
  hi_sideLength :: int
  hi_strokeWidth :: int
  hi_nodesize :: fp
  hi_mode :: int

text \<open>From polar to rectangular coordinates, with the angle in degrees.\<close>

definition r82xy :: "score_env \<Rightarrow> fp \<Rightarrow> fp \<Rightarrow> fp \<times> fp" where
  "r82xy N r a =
     (let t = divd (muld a M_PI) (Num 180) in
      (muld r (m_sin (e_libm (sc_env N)) t), muld r (mg_cos (sc_magick N) t)))"

text \<open>The distance of a node from the centre; no mode but 1 to 3 bounds it.\<close>

definition node_radius :: "score_env \<Rightarrow> hexagram_info \<Rightarrow> int \<Rightarrow> fp \<Rightarrow> fp \<Rightarrow> fp" where
  "node_radius N hi p multi ex =
     (let M = e_libm (sc_env N);
          weight = divd (muld multi (m_pow M (i2d p) ex)) (i2d (hi_nodeMaxValue hi));
          r = divd (muld (m_pow M weight (dlit (8 / 10))) (i2d (hi_size hi))) (Num 2) in
      if hi_mode hi = 1 then (if flt (Num 100) r then Num 100 else r)
      else if hi_mode hi = 2 then (if flt (Num 395) r then Num 395 else r)
      else if hi_mode hi = 3 then (if flt (Num 495) r then Num 495 else r)
      else r)"

definition node_angle :: "hexagram_info \<Rightarrow> nat \<Rightarrow> fp" where
  "node_angle hi i = addd (muld (divd (Num 360) (i2d (hi_node_count hi))) (i2d (int i))) (Num 90)"

definition node :: "score_env \<Rightarrow> hexagram_info \<Rightarrow> nat \<Rightarrow> int \<Rightarrow> fp \<Rightarrow> fp \<Rightarrow> fp \<times> fp" where
  "node N hi i p multi ex =
     (case r82xy N (node_radius N hi p multi ex) (node_angle hi i) of (x, y) \<Rightarrow>
      let c = i2d (cdiv (hi_size hi) 2) in (addd x c, addd y c))"

fun nodes :: "score_env \<Rightarrow> hexagram_info \<Rightarrow> nat \<Rightarrow> int list \<Rightarrow> fp list \<Rightarrow> fp list \<Rightarrow> (fp \<times> fp) list" where
  "nodes N hi i (p # ps) (m # ms) (e # es) = node N hi i p m e # nodes N hi (Suc i) ps ms es"
| "nodes N hi i _ _ _ = []"

definition node_circle :: "hexagram_info \<Rightarrow> fp \<times> fp \<Rightarrow> drawable" where
  "node_circle hi c = DrawableCircle c (addd (fst c) (hi_nodesize hi), snd c)"

definition draw_v1 :: "score_env \<Rightarrow> int list \<Rightarrow> fp list \<Rightarrow> fp list \<Rightarrow> int \<Rightarrow> int \<Rightarrow> hexagram_info \<Rightarrow> edit" where
  "draw_v1 N ppd multi ex x_offset y_offset hi i =
     (if length ppd \<noteq> length multi \<or> length ppd \<noteq> length ex \<or> int (length ppd) \<noteq> hi_node_count hi then retB i
      else
        let points = nodes N hi 0 ppd multi ex in
        bindB (bindB (blank N (hi_size hi) (hi_size hi) ''none'') (edits
          [draw N [fill_colour (hi_fill hi), DrawableStrokeColor (hi_line hi), DrawableStrokeWidth (hi_strokeWidth hi), DrawablePolygon points],
           draw N (fill_colour (hi_line hi) # map (node_circle hi) points)])) (\<lambda>im.
        composite N im x_offset y_offset OverCompositeOp i))"

text \<open>The weights of the six numbers of pp+: accuracy, flow, jump, precision, speed, stamina.\<close>

definition MULTI :: "fp list" where
  "MULTI = [dlit (141 / 10), dlit (697 / 10), dlit (192 / 100), dlit (198 / 10), dlit (588 / 1000), dlit (306 / 100)]"

definition EXPONENTS :: "fp list" where
  "EXPONENTS = [dlit (769 / 1000), dlit (596 / 1000), dlit (953 / 1000), dlit (8 / 10), dlit (1175 / 1000), dlit (993 / 1000)]"

definition six_numbers :: "pplus_info \<Rightarrow> int list" where
  "six_numbers p = [pl_acc p, pl_flow p, pl_jump p, pl_pre p, pl_spd p, pl_sta p]"

end
