(* ===== verification/ScorePic.thy ===== *)
theory ScorePic
  imports Pictures
begin

text \<open>
  The picture of a play, \<^verbatim>\<open>scorePic\<close> of \<^verbatim>\<open>src/image.hpp\<close>, and how the commands send it.
\<close>

subsection \<open>The file of the map\<close>

text \<open>A stream in text mode on Windows, and its lines.\<close>

fun text_mode :: "string \<Rightarrow> string" where
  "text_mode [] = []"
| "text_mode (c # s) =
     (if c = CHR 0x1A then []
      else if c = CHR 0x0D \<and> starts [CHR 0x0A] s then text_mode s
      else c # text_mode s)"

function getlines :: "string \<Rightarrow> string list" where
  "getlines s = (if s = [] then [] else
     takeWhile (\<lambda>c. c \<noteq> CHR 0x0A) s # getlines (tl (dropWhile (\<lambda>c. c \<noteq> CHR 0x0A) s)))"
  by pat_completeness auto
termination
proof (relation "measure length")
  fix s :: string
  assume "s \<noteq> []"
  then have "length (tl (dropWhile (\<lambda>c. c \<noteq> CHR 0x0A) s)) < length s"
    using length_dropWhile_le[of "\<lambda>c. c \<noteq> CHR 0x0A" s] by (cases s) auto
  then show "(tl (dropWhile (\<lambda>c. c \<noteq> CHR 0x0A) s), s) \<in> measure length" by simp
qed simp

declare getlines.simps [simp del]

text \<open>What stands between the first and the last quotation mark; without any, the whole line, and behind the
  only one, the rest of it.\<close>

definition between_quotes :: "string \<Rightarrow> string" where
  "between_quotes s =
     (let f = length (takeWhile (\<lambda>c. c \<noteq> DQUOTE) s);
          l = length s - 1 - length (takeWhile (\<lambda>c. c \<noteq> DQUOTE) (rev s)) in
      if DQUOTE \<notin> set s then s
      else if f = l then drop (f + 1) s
      else take (l - f - 1) (drop (f + 1) s))"

definition names_picture :: "string \<Rightarrow> bool" where
  "names_picture s = list_ex (\<lambda>ending. str_find s ending 0 \<noteq> None) [''.jpg'', ''.jpeg'', ''.png'', ''.bmp'']"

fun background_name :: "string list \<Rightarrow> string" where
  "background_name [] = []"
| "background_name (s # rest) = (if names_picture s then between_quotes s else background_name rest)"

text \<open>\<^verbatim>\<open>substr\<close> throws when there is no point.\<close>

definition from_last_dot :: "string \<Rightarrow> string thrown" where
  "from_last_dot s = (if CHR ''.'' \<in> set s then Inr (CHR ''.'' # rev (takeWhile (\<lambda>c. c \<noteq> CHR ''.'') (rev s)))
     else Inl OutOfRange)"

definition file_text :: "string \<Rightarrow> string bot_prog" where
  "file_text path b = (b, Inr (case bt_files b path of None \<Rightarrow> [] | Some c \<Rightarrow> text_mode c))"

subsection \<open>The background\<close>

text \<open>The size of an image is unsigned, a conversion to it from \<^verbatim>\<open>double\<close> truncates, and so does one to the
  signed offset.\<close>

definition to_wide :: "int \<Rightarrow> int \<Rightarrow> fp \<Rightarrow> int thrown" where
  "to_wide lo hi x =
     (if finite_fp x \<and> lo \<le> trunc_rat (fval x) \<and> trunc_rat (fval x) < hi then Inr (trunc_rat (fval x)) else Inl Undefined)"

definition to_size :: "fp \<Rightarrow> int thrown" where "to_size = to_wide 0 (2 ^ 64)"
definition to_offset :: "fp \<Rightarrow> int thrown" where "to_offset = to_wide (- (2 ^ 63)) (2 ^ 63)"

definition size_of :: "score_env \<Rightarrow> image \<Rightarrow> 64 word \<times> 64 word" where
  "size_of N i = mg_size (sc_magick N) i"

definition wider_than :: "score_env \<Rightarrow> image \<Rightarrow> rat \<Rightarrow> rat \<Rightarrow> bool" where
  "wider_than N i w h = (case size_of N i of (x, y) \<Rightarrow>
     flt (divd (dlit w) (dlit h)) (divd (i2d (uint x)) (i2d (uint y))))"

definition divided :: "64 word \<Rightarrow> 64 word \<Rightarrow> 64 word thrown" where
  "divided a b = (if b = 0 then Inl Undefined else Inr (a div b))"

text \<open>The small picture is cut with whole numbers, in which 296 over a greater height is 0.\<close>

definition cut_small :: "score_env \<Rightarrow> edit" where
  "cut_small N i =
     (case size_of N i of (x, y) \<Rightarrow>
      if wider_than N i 433 296 then
        bindB (liftB (divided 296 y)) (\<lambda>q.
        bindB (resize N (uint (q * x)) 296 i) (\<lambda>i.
        crop N 433 296 (sint ((fst (size_of N i) - 433) div 2)) 0 i))
      else
        bindB (liftB (divided 433 x)) (\<lambda>q.
        bindB (resize N 433 (uint (q * y)) i) (\<lambda>i.
        crop N 433 296 0 (sint ((snd (size_of N i) - 296) div 2)) i)))"

definition cut_large :: "score_env \<Rightarrow> edit" where
  "cut_large N i =
     (case size_of N i of (x, y) \<Rightarrow>
      if wider_than N i 1952 1088 then
        bindB (liftB (to_size (muld (divd (Num 1088) (i2d (uint y))) (i2d (uint x))))) (\<lambda>w.
        bindB (resize N w 1088 i) (\<lambda>i.
        bindB (liftB (to_offset (divd (subd (i2d (uint (fst (size_of N i)))) (Num 1952)) (Num 2)))) (\<lambda>k.
        crop N 1952 1088 k 0 i)))
      else
        bindB (liftB (to_size (muld (divd (Num 1952) (i2d (uint x))) (i2d (uint y))))) (\<lambda>h.
        bindB (resize N 1952 h i) (\<lambda>i.
        bindB (liftB (to_offset (divd (subd (i2d (uint (snd (size_of N i)))) (Num 1088)) (Num 2)))) (\<lambda>k.
        crop N 1952 1088 0 k i))))"

definition DEFAULT_SCORE :: string where
  "DEFAULT_SCORE = ''./work/default-score-v2.png''"

text \<open>The block draws on the picture of the play only at its end.\<close>

definition background_layers :: "score_env \<Rightarrow> string \<Rightarrow> (image \<times> image) bot_prog" where
  "background_layers N name =
     bindB (open_image N name) (\<lambda>bg.
     bindB (open_image N name) (\<lambda>smallbg.
     bindB (rounded_frame N 433 296 (DrawableRoundRectangle 0 0 433 296 20 20)) (\<lambda>roundrect.
     bindB (cut_small N smallbg) (\<lambda>smallbg.
     bindB (composite N smallbg 0 0 InCompositeOp roundrect) (\<lambda>roundrect.
     bindB (edits [cut_large N, \<lambda>i. made N (GaussianBlurred i 5 15),
       draw N [fill_colour ''rgba(0,0,0,0.31)'', DrawableRectangle 0 0 2000 1100]] bg) (\<lambda>bg.
     retB (bg, roundrect)))))))"

definition draw_background :: "score_env \<Rightarrow> string \<Rightarrow> edit" where
  "draw_background N name score =
     bindB (catchB (\<lambda>e. e = MagickError) (bindB (background_layers N name) (\<lambda>l. retB (Some l))) (retB None)) (\<lambda>layers.
     bindB (case layers of
         None \<Rightarrow> retB (score, False)
       | Some (bg, roundrect) \<Rightarrow> attempt [composite N bg 0 0 OverCompositeOp, paste N DEFAULT_SCORE 0 0,
           composite N roundrect 27 34 OverCompositeOp] score) (\<lambda>(score, done).
     if done then retB score
     else bindB (paste N DEFAULT_SCORE 0 0 score) (\<lambda>score. thenB (DeleteFileA name) (retB score))))"

text \<open>The buffer \<^verbatim>\<open>ctemp\<close>, which later holds the address of the background, comes with the picture.\<close>

definition beatmap_folder :: "int \<Rightarrow> string" where
  "beatmap_folder sid =
     (let sub = print_int sid in
      ''https://txy1.sayobot.cn/beatmaps/'' @ print_int (cdiv sid 10000) @ ''/'' @
      (if cdiv sid 10000 \<noteq> 0 then drop (length sub - 4) sub else sub) @ ''/files/'')"

definition score_background :: "score_env \<Rightarrow> score_panel \<Rightarrow> string \<Rightarrow> image \<Rightarrow> (image \<times> string) bot_prog" where
  "score_background N p ctemp score =
     (let E = sc_bot N; base = ''./work/background/'' @ print_int (bi_beatmap_id (pn_beatmap p)) in
      thenB (DownloadFile E (OSU_FILE_URL @ print_int (si_beatmap_id (pn_score p))) (base @ ''.osu''))
      (bindB (file_text (base @ ''.osu'')) (\<lambda>text.
       let name = background_name (getlines text) in
       if name \<noteq> [] then
         bindB (liftB (sprintf_buf 512 (ctemp @ name))) (\<lambda>ctemp.
         bindB (liftB (from_last_dot name)) (\<lambda>ending.
         let name = base @ ending in
         bindB (fileExist name) (\<lambda>there.
         thenB (if there then retB () else DownloadFile E ctemp name)
         (bindB (draw_background N name score) (\<lambda>score. retB (score, ctemp))))))
       else bindB (paste N DEFAULT_SCORE 0 0 score) (\<lambda>score. retB (score, ctemp)))))"

subsection \<open>Texts\<close>

definition width :: "score_env \<Rightarrow> image \<Rightarrow> string \<Rightarrow> fp" where
  "width N i t = mg_width (sc_magick N) i t"

text \<open>A text is cut behind the character with which it becomes too wide.\<close>

fun shortened :: "(string \<Rightarrow> bool) \<Rightarrow> string \<Rightarrow> string \<Rightarrow> string" where
  "shortened wide temp [] = temp"
| "shortened wide temp (c # s) =
     (let temp = temp @ [c] in if wide temp then temp @ ''...'' else shortened wide temp s)"

definition fitted :: "score_env \<Rightarrow> image \<Rightarrow> int \<Rightarrow> string \<Rightarrow> string" where
  "fitted N i limit s = shortened (\<lambda>t. flt (Num (of_int limit)) (width N i t)) [] s"

text \<open>A text behind one that begins at \<open>x\<close>.\<close>

definition text_behind :: "score_env \<Rightarrow> image \<Rightarrow> int \<Rightarrow> int \<Rightarrow> string \<Rightarrow> string \<Rightarrow> drawable list" where
  "text_behind N i x y t u =
     [fill_colour ''#fc65a9'', text_on x y t, fill_colour ''#cf93ae'',
      DrawableText (addd (Num (of_int x)) (width N i t)) (Num (of_int y)) u]"

definition draw_titles :: "score_env \<Rightarrow> score_panel \<Rightarrow> edit" where
  "draw_titles N p i =
     (let d = pp_data (pn_pp p); s = pn_score p in
      bindB (liftB (definedT (IntegerSplit (si_score s) CHR '',''))) (\<lambda>points.
      let i = With (With (With i (ImageFont ''./work/fonts/Torus Regular.otf'')) (ImageFillColor ''#ffffff'')) (FontPointsize (Num 40)) in
      bindB (draw N [DrawableTextAlignment CenterAlign, text_on 975 743 points] i) (\<lambda>i.
      let i = With i (FontPointsize (dlit (6066 / 100))); title = fitted N i 725 (rd_title d) in
      bindB (draw N [fill_colour ''#000000'', text_on 499 105 title, fill_colour ''#ffffff'', text_on 499 100 title] i) (\<lambda>i.
      let i = With i (FontPointsize (Num 40)); artist = fitted N i 205 (rd_artist d); creator = fitted N i 145 (rd_creator d);
          bid = print_int (si_beatmap_id s) in
      draw N [fill_colour ''#000000'', text_on 519 168 artist, fill_colour ''#ffffff'', text_on 519 165 artist,
        fill_colour ''#000000'', text_on 795 168 creator, text_on 1008 168 bid,
        fill_colour ''#ffffff'', text_on 795 165 creator, text_on 1008 165 bid] i))))"

definition draw_points :: "score_env \<Rightarrow> score_panel \<Rightarrow> edit" where
  "draw_points N p i =
     (let i = With i (FontPointsize (Num 61)); x = subd (Num 1899) (width N i ''pp'') in
      bindB (liftB (case pp_total (pn_pp p) of
          None \<Rightarrow> Inr ''-''
        | Some t \<Rightarrow> andThen (to_intT t) (\<lambda>n. Inr (print_int n)))) (\<lambda>t.
      draw N [DrawableTextAlignment RightAlign, fill_colour ''#cf93ae'', text_on 1899 493 ''pp'', fill_colour ''#fc65a9'',
        DrawableText x (Num 493) t] i))"

definition hits_at :: "int \<Rightarrow> int \<Rightarrow> score_panel \<Rightarrow> drawable list" where
  "hits_at y1 y2 p =
     (let s = pn_score p; also = (\<lambda>n. if pn_mode p = 0 then [] else ''/'' @ print_int n) in
      [text_on 793 y1 (print_int (si_n300 s) @ also (si_ngeki s)), text_on 793 y2 (print_int (si_n100 s) @ also (si_nkatu s)),
       text_on 1154 y1 (print_int (si_n50 s)), text_on 1154 y2 (print_int (si_nmiss s))])"

definition draw_hits :: "score_env \<Rightarrow> score_panel \<Rightarrow> edit" where
  "draw_hits N p i = draw N ([DrawableTextAlignment CenterAlign, fill_colour ''#000000''] @ hits_at 850 978 p @
     [fill_colour ''#ffffff''] @ hits_at 847 975 p) (With i (FontPointsize (dlit (5309 / 100))))"

text \<open>The buffer for these texts has 20 bytes.\<close>

definition length_text :: "score_panel \<Rightarrow> string thrown" where
  "length_text p = (if pn_mode p = 0
     then sprintf_buf 20 (clock_text (rd_length (pp_data (pn_pp p))) @ '' / '' @ clock_text (pp_maxlength (pn_pp p)))
     else Inr '' - '')"

definition draw_settings :: "score_env \<Rightarrow> score_panel \<Rightarrow> edit" where
  "draw_settings N p i =
     (let d = pp_data (pn_pp p); num = (\<lambda>k x. liftB (sprintf_buf 20 (print_fixed k x))) in
      bindB (num 2 (rd_bpm d)) (\<lambda>bpm. bindB (num 1 (rd_ar d)) (\<lambda>ar. bindB (num 1 (rd_cs d)) (\<lambda>cs.
      bindB (liftB (length_text p)) (\<lambda>len. bindB (num 1 (rd_od d)) (\<lambda>od. bindB (num 1 (rd_hp d)) (\<lambda>hp.
      let row = (\<lambda>dy. [text_on 1457 (124 + dy) bpm, text_on 1457 (212 + dy) ar, text_on 1457 (307 + dy) cs,
          text_on 1741 (124 + dy) len, text_on 1741 (212 + dy) od, text_on 1741 (307 + dy) hp]) in
      draw N ([fill_colour ''#000000''] @ row 0 @ [fill_colour ''#f1ce59''] @ row (- 3)) (With i (FontPointsize (dlit (2425 / 100)))))))))))"

definition draw_stars :: "score_env \<Rightarrow> score_panel \<Rightarrow> edit" where
  "draw_stars N p i =
     (let i = With i (FontPointsize (dlit (2637 / 100))) in
      bindB (liftB (sprintf_buf 20 (''Stars: '' @ print_fixed 2 (rd_total_star (pp_data (pn_pp p)))))) (\<lambda>stars.
      let version = fitted N i 140 (bi_version (pn_beatmap p)) in
      draw N [fill_colour ''#000000'', text_on 584 314 version, text_on 584 286 stars, fill_colour ''#f1ce59'', text_on 584 283 stars,
        fill_colour ''#ffffff'', text_on 584 311 version] i))"

subsection \<open>The avatar and the time\<close>

text \<open>An avatar that is not there is downloaded to its place from the address that \<open>ctemp\<close> still holds, and then
  again from the right one.\<close>

definition fetch_score_avatar :: "score_env \<Rightarrow> int \<Rightarrow> string \<Rightarrow> unit bot_prog" where
  "fetch_score_avatar N uid ctemp =
     (let E = sc_bot N; name = avatar_path uid in
      bindB (fileExist name) (\<lambda>there.
      if there then retB ()
      else
        thenB (DownloadFile E ctemp name)
        (bindB (avatar_url N uid) (\<lambda>url.
         thenB (DownloadFile E url name)
         (bindB (bindB (open_image N name) (resize N 190 190)) (write_image N name))))))"

text \<open>A round picture with a white border.\<close>

definition round_avatar :: "score_env \<Rightarrow> image \<Rightarrow> image bot_prog" where
  "round_avatar N avatar =
     (let circle = [DrawableCircle (Num 40, Num 40) (dlit (5 / 2), Num 40)] in
      bindB (blank N 80 80 ''none'') (edits [set_to (ImageFillColor ''#ffffff''), draw N circle,
        composite N avatar 3 3 InCompositeOp, set_to (ImageFillColor ''none''), set_to (StrokeWidth 1),
        set_to (StrokeColor ''#ffffff''), draw N circle]))"

definition draw_avatar_file :: "score_env \<Rightarrow> string \<Rightarrow> edit" where
  "draw_avatar_file N path score =
     bindB (bindB (open_image N path) (resize N 75 75)) (\<lambda>avatar.
     bindB (round_avatar N avatar) (\<lambda>imtemp. composite N imtemp 40 425 OverCompositeOp score))"

text \<open>The file that is deleted is that of the user of the panel, not of the player of the score.\<close>

definition draw_score_avatar :: "score_env \<Rightarrow> score_panel \<Rightarrow> string \<Rightarrow> edit" where
  "draw_score_avatar N p ctemp score =
     (let uid = si_user_id (pn_score p) in
      thenB (fetch_score_avatar N uid ctemp)
      (on_magick_error
        (thenB (DeleteFileA (avatar_path (ui_user_id (pn_user p))))
          (draw_avatar_file N ''./work/default_avatar.png'' score))
        (draw_avatar_file N (avatar_path uid) score)))"

text \<open>The time is a \<^verbatim>\<open>long\<close> of 32 bits that is read through a pointer to 64 bits.\<close>

definition read_time :: "score_env \<Rightarrow> score_info \<Rightarrow> int" where
  "read_time N s = sint (word_cat (mg_padding (sc_magick N)) (word_of_int (si_achieved_timestamp s) :: 32 word) :: 64 word)"

definition draw_time :: "score_env \<Rightarrow> score_panel \<Rightarrow> edit" where
  "draw_time N p i =
     (let t = mg_gmtime (sc_magick N) ''%Y/%m/%d %H:%M'' (read_time N (pn_score p)) in
      draw N [fill_colour ''#000000'', text_on 145 499 t, fill_colour ''#ffffff'', text_on 145 496 t]
        (With i (FontPointsize (dlit (2761 / 100)))))"

subsection \<open>The icons\<close>

definition ring_files :: "int \<Rightarrow> string list" where
  "ring_files mode =
     (let of_mode = (\<lambda>name. map (\<lambda>level. name @ ''-'' @ level @ ''.png'')
        [''easy'', ''normal'', ''hard'', ''insane'', ''expert'', ''expertplus'']) in
      if mode = 0 then of_mode ''std'' else if mode = 1 then of_mode ''taiko'' else if mode = 2 then of_mode ''ctb''
      else if mode = 3 then of_mode ''mania'' else [])"

definition ring_level :: "fp \<Rightarrow> nat" where
  "ring_level star = (if flt star (Num 2) then 0 else if flt star (dlit (27 / 10)) then 1 else if flt star (Num 4) then 2
     else if flt star (dlit (53 / 10)) then 3 else if flt star (dlit (65 / 10)) then 4 else 5)"

text \<open>The vector is empty for a mode that is none of the four; it is read all the same.\<close>

definition draw_ring :: "score_env \<Rightarrow> score_panel \<Rightarrow> edit" where
  "draw_ring N p i =
     bindB (definedB (rd (ring_files (pn_mode p)) (ring_level (rd_total_star (pp_data (pn_pp p)))))) (\<lambda>file.
     paste_resized N (''./work/icons/'' @ file) 65 65 507 257 i)"

text \<open>The condition that compares the buffer with a literal compares two pointers: it is false.\<close>

definition accuracy_hue :: "score_env \<Rightarrow> fp \<Rightarrow> fp" where
  "accuracy_hue N accuracy =
     muld (mg_hue (sc_magick N) ''#87ff6a'')
       (if flt accuracy (Num 60) then Num 0 else divd (subd accuracy (Num 60)) (Num 40))"

definition combo_hue :: "score_env \<Rightarrow> int \<Rightarrow> int \<Rightarrow> fp" where
  "combo_hue N combo maxcombo =
     (let h = mg_hue (sc_magick N) ''#87ff6a'' in
      if combo = maxcombo then h else divd (muld h (i2d combo)) (i2d maxcombo))"

definition status_icon :: "int \<Rightarrow> string option" where
  "status_icon approved = (if approved = 1 then Some ''ranked'' else if approved = 2 then Some ''approved''
     else if approved = 4 then Some ''loved'' else None)"

definition draw_status :: "score_env \<Rightarrow> score_panel \<Rightarrow> edit" where
  "draw_status N p i = (case status_icon (bi_approved (pn_beatmap p)) of
     None \<Rightarrow> retB i
   | Some t \<Rightarrow> paste N (''./work/icons/'' @ t @ ''.png'') 415 16 i)"

definition draw_rank :: "score_env \<Rightarrow> score_panel \<Rightarrow> edit" where
  "draw_rank N p i = bindB (liftB (sprintf_buf 512 (''./work/ranking/ranking-'' @ si_rank (pn_score p) @ ''.png''))) (\<lambda>path.
     paste N path 913 874 i)"

text \<open>The name of every mod has two characters.\<close>

definition mod_piece :: "string \<Rightarrow> nat \<Rightarrow> string" where
  "mod_piece names i = (if i = 1 then take 2 names else take 2 (drop (if i = 2 then 2 else (i - 1) * 2) names))"

definition mod_left :: "nat \<Rightarrow> int" where
  "mod_left i = (if i = 1 then 440 else if i = 2 then 440 + 160 else 440 + (int i - 1) * 160)"

definition mod_icons :: "string \<Rightarrow> (string \<times> int) list" where
  "mod_icons names = map (\<lambda>i. (mod_piece names i, mod_left i)) [1..<length names div 2 + 1]"

definition draw_mods :: "score_env \<Rightarrow> score_panel \<Rightarrow> edit" where
  "draw_mods N p i =
     (if si_mods (pn_score p) = 0 then retB i
      else
        bindB (liftB (modParser (si_mods (pn_score p)))) (\<lambda>names.
        edits (map (\<lambda>(m, x). paste_resized N (''./work/mods/'' @ m @ ''.png'') 200 61 x 440) (mod_icons names)) i))"

subsection \<open>Points, accuracy and combo\<close>

text \<open>In the other modes there is a dash for every number.\<close>

definition draw_accuracies :: "score_env \<Rightarrow> score_panel \<Rightarrow> edit" where
  "draw_accuracies N p i =
     (let number = (\<lambda>n. if pn_mode p = 0 then print_int n else ''-'');
          part = (\<lambda>x. if pn_mode p = 0 then andThen (to_intT x) (\<lambda>n. Inr (print_int n)) else Inr ''-'');
          d = pp_data (pn_pp p); i = With i (FontPointsize (dlit (335 / 10))) in
      bindB (draw N (concat (map (\<lambda>k. text_behind N i (50 + 139 * int k) 633 (number (pn_acc p ! k)) ''pp'') [0..<5])) i) (\<lambda>i.
      let i = With i (FontPointsize (dlit (245 / 10))) in
      bindB (draw N (text_behind N i 99 557 (number (pn_fc p)) ''pp'') i) (\<lambda>i.
      let i = With i (FontPointsize (dlit (335 / 10))) in
      bindB (liftB (part (rd_aim_pp d))) (\<lambda>aim.
      bindB (liftB (part (rd_speed_pp d))) (\<lambda>speed.
      bindB (liftB (part (rd_acc_pp d))) (\<lambda>acc.
      draw N (text_behind N i 1532 633 aim ''pp'' @ text_behind N i 1672 633 speed ''pp'' @ text_behind N i 1812 633 acc ''pp'') i))))))"

definition combo_drawables :: "score_env \<Rightarrow> image \<Rightarrow> score_panel \<Rightarrow> drawable list" where
  "combo_drawables N i p =
     (let d = pp_data (pn_pp p); combo = print_int (rd_combo d) @ ''x''; maxcombo = print_int (rd_maxcombo d) @ ''x'';
          half = divd (width N i ''/'') (Num 2); left = subd (Num 1598) half; right = addd (Num 1598) half in
      if pn_mode p = 0 \<or> pn_mode p = 2 then
        [fill_colour ''#000000'', text_on 1598 961 ''/'', fill_colour ''#ffffff'', text_on 1598 958 ''/'',
         DrawableTextAlignment RightAlign, fill_colour ''#000000'', DrawableText left (Num 961) combo,
         DrawableFillColor (ColorHSL ''#87ff6a'' (combo_hue N (rd_combo d) (rd_maxcombo d))), DrawableText left (Num 958) combo,
         DrawableTextAlignment LeftAlign, fill_colour ''#000000'', DrawableText right (Num 961) maxcombo,
         fill_colour ''#87ff6a'', DrawableText right (Num 958) maxcombo]
      else
        [DrawableTextAlignment CenterAlign, fill_colour ''#000000'', text_on 1598 961 combo, fill_colour ''#87ff6a'', text_on 1598 958 combo])"

definition draw_accuracy :: "score_env \<Rightarrow> score_panel \<Rightarrow> edit" where
  "draw_accuracy N p i =
     (let a = rd_accuracy (pp_data (pn_pp p)); i = With i (FontPointsize (dlit (5356 / 100))) in
      bindB (liftB (sprintf_buf 512 (print_fixed 2 a @ ''%''))) (\<lambda>t.
      draw N ([DrawableTextAlignment CenterAlign, fill_colour ''#000000'', text_on 360 961 t,
        DrawableFillColor (ColorHSL ''#87ff6a'' (accuracy_hue N a)), text_on 360 958 t] @ combo_drawables N i p) i))"

text \<open>The name of the player comes from the web interface; it stays empty when there is no answer.\<close>

definition draw_username :: "score_env \<Rightarrow> score_panel \<Rightarrow> edit" where
  "draw_username N p i =
     (let i = With (With i (ImageFont ''./work/fonts/Torus SemiBold.otf'')) (FontPointsize (Num 36)) in
      bindB (user_by_id (sc_bot N) (si_user_id (pn_score p)) 0 no_user) (\<lambda>(u, _).
      draw N [fill_colour ''#000000'', text_on 145 461 (ui_username u), fill_colour ''#ffffff'', text_on 145 458 (ui_username u)] i))"

subsection \<open>\<open>scorePic\<close>\<close>

text \<open>The class that is thrown when the list of the files is too short is named by its base
  class, \<^verbatim>\<open>NetWork_Exception::exception\<close>: it is an \<^verbatim>\<open>osucat::exception\<close>.\<close>

definition scorePic :: "score_env \<Rightarrow> score_panel \<Rightarrow> string bot_prog" where
  "scorePic N p =
     bindB (bindB (blank N 1948 1088 ''none'') (set_to (Density 300 300))) (\<lambda>score.
     bindB (liftB (sprintf_buf 512 (beatmap_folder (bi_beatmapset_id (pn_beatmap p))))) (\<lambda>ctemp.
     bindB (https N ctemp) (\<lambda>temp.
     if length temp > 5 then
       bindB (score_background N p ctemp score) (\<lambda>(score, ctemp).
       bindB (edits [draw_titles N p, draw_points N p, draw_hits N p, draw_settings N p, draw_stars N p,
           draw_score_avatar N p ctemp, draw_time N p, draw_ring N p, draw_accuracies N p, draw_accuracy N p,
           draw_username N p, draw_status N p, draw_rank N p, draw_mods N p, set_to (Quality 100)] score)
         (save_as N T_images (print_int (si_user_id (pn_score p)) @ ''.jpg'')))
     else liftB (Inl OsucatError))))"

subsection \<open>Sending\<close>

text \<open>The picture is drawn, sent, and deleted by a thread after a while.\<close>

definition picture_code :: "string \<Rightarrow> string" where
  "picture_code file = ''[CQ:image,file='' @ file @ '']''"

definition OSUCAT_DIR :: string where
  "OSUCAT_DIR = ''osucat'' @ [CHR 0x5C]"

definition send_score :: "score_env \<Rightarrow> message \<Rightarrow> int \<Rightarrow> score_panel \<Rightarrow> unit bot_prog" where
  "send_score N tar bid p =
     bindB (scorePic N p) (\<lambda>file.
     thenB (send_message (sc_bot N) tar (picture_code (OSUCAT_DIR @ file)))
       (dbE (sc_bot N) (\<lambda>d. osu_UpdatePPRecord d (ms_user_id tar) bid)))"

end
