(* ===== verification/Plays.thy ===== *)
theory Plays
  imports ScorePic
begin

text \<open>
  The commands of the class \<^verbatim>\<open>Main\<close> in \<^verbatim>\<open>src/osucat.hpp\<close> on single plays: \<^verbatim>\<open>recent\<close>, \<^verbatim>\<open>pass_recent\<close>, \<^verbatim>\<open>bp\<close>,
  \<^verbatim>\<open>score\<close> and \<^verbatim>\<open>rctpp\<close>, and the points of a map: \<^verbatim>\<open>pp\<close> and \<^verbatim>\<open>ppwith\<close>.
\<close>

subsection \<open>The last play\<close>

text \<open>Without a play there is an answer for each mode, but none for other numbers that the database may
  hold; then the command goes on.\<close>

definition no_play :: "botenv \<Rightarrow> message \<Rightarrow> string \<Rightarrow> string \<Rightarrow> int \<Rightarrow> unit option bot_prog" where
  "no_play E tar who what mode =
     (if mode = 0 then answered E tar (who @ ''Standard'' @ what)
      else if mode = 1 then answered E tar (who @ ''Taiko'' @ what)
      else if mode = 2 then answered E tar (who @ ''Catch the Beat'' @ what)
      else if mode = 3 then answered E tar (who @ ''Mania'' @ what)
      else retO ())"

definition who_is :: "int + string \<Rightarrow> string" where
  "who_is key = (case key of Inl uid \<Rightarrow> T_you_in_mode | Inr name \<Rightarrow> T_they_in_mode)"

definition last_play :: "score_env \<Rightarrow> message \<Rightarrow> (int + string) \<Rightarrow> int \<Rightarrow> score_info option bot_prog" where
  "last_play N tar key mode =
     (let A = db_api (be_db (sc_bot N)) in
      bindB (case key of
          Inl uid \<Rightarrow> asked (GetUserRecent_by_id A uid mode no_score)
        | Inr name \<Rightarrow> asked (GetUserRecent_by_name A name mode no_score)) (\<lambda>(s, found).
      if found = 0 then bindO (no_play (sc_bot N) tar (who_is key) T_no_plays mode) (\<lambda>_. retO s) else retO s))"

definition last_passes :: "score_env \<Rightarrow> message \<Rightarrow> (int + string) \<Rightarrow> int \<Rightarrow> score_info list option bot_prog" where
  "last_passes N tar key mode =
     (let A = db_api (be_db (sc_bot N)) in
      bindB (case key of
          Inl uid \<Rightarrow> asked (GetUserPassRecent_by_id A uid 100 mode [])
        | Inr name \<Rightarrow> asked (GetUserPassRecent_by_name A name 100 mode [])) (\<lambda>(ss, found).
      if found = 0 then bindO (no_play (sc_bot N) tar (who_is key) T_no_passes mode) (\<lambda>_. retO ss) else retO ss))"

text \<open>The map, the points, the picture.\<close>

definition show_panel :: "score_env \<Rightarrow> message \<Rightarrow> score_panel \<Rightarrow> unit bot_prog" where
  "show_panel N tar p = finallyB (with_map N tar p) (\<lambda>(p, beatmap).
     bindB (liftB (fill_panel N beatmap p)) (\<lambda>p. send_score N tar (si_beatmap_id (pn_score p)) p))"

definition recent_player :: "score_env \<Rightarrow> message \<Rightarrow> string \<Rightarrow> ((int + string) \<times> int \<times> user_info) option bot_prog" where
  "recent_player N tar cmd =
     (let E = sc_bot N in
      bindO (player_of E tar T_banned_account True True (own_mode E tar True cmd) cmd no_user)
        (ask_player E tar T_no_record_found T_not_in_mode))"

text \<open>The three names of the command; a message with another one ends it.\<close>

definition recent_argument :: "string \<Rightarrow> string option" where
  "recent_argument m =
     (if command_is 6 ''recent'' m then Some (drop 6 m)
      else if command_is 3 ''rct'' m then Some (drop 3 m)
      else if command_is 2 ''re'' m then Some (drop 2 m)
      else None)"

definition recent :: "score_env \<Rightarrow> message \<Rightarrow> unit bot_prog" where
  "recent N tar = (case recent_argument (ms_message tar) of
     None \<Rightarrow> retB ()
   | Some cmd \<Rightarrow>
       thenB (connect_and_count (sc_bot N))
       (bindB (clean cmd) (\<lambda>cmd.
        finallyB (bindO (recent_player N tar cmd) (\<lambda>(key, mode, u).
          bindO (last_play N tar key mode) (\<lambda>s.
          retO (no_panel\<lparr>pn_user := u, pn_score := s, pn_mode := mode\<rparr>)))) (show_panel N tar))))"

text \<open>This panel is not initialised. The first play is read without a test when the mode is no mode.\<close>

definition pass_recent :: "score_env \<Rightarrow> message \<Rightarrow> unit bot_prog" where
  "pass_recent N tar =
     bindB (argument 2 tar) (\<lambda>cmd.
     thenB (connect_and_count (sc_bot N))
     (bindB (clean cmd) (\<lambda>cmd.
      finallyB (bindO (recent_player N tar cmd) (\<lambda>(key, mode, u).
        bindO (last_passes N tar key mode) (\<lambda>ss.
        bindB (definedB (rdi ss 0)) (\<lambda>s.
        retO ((sc_panel N)\<lparr>pn_user := u, pn_score := s, pn_mode := mode\<rparr>))))) (show_panel N tar))))"

subsection \<open>A best play\<close>

definition bounded_bp :: "int \<Rightarrow> int" where
  "bounded_bp n = (if n > 100 then 100 else if n < 1 then 1 else n)"

text \<open>\<^verbatim>\<open>name#number\<close>, with or without a mode. With one, the name may be empty and the number of the player
  unset; the number ends where the text has as many characters as there are before the colon.\<close>

definition bp_name :: "botenv \<Rightarrow> message \<Rightarrow> bool \<Rightarrow> string \<Rightarrow> (int option \<times> string) option bot_prog" where
  "bp_name E tar numeric cmd = catchB std_exception
     (if is_mention cmd then bindO (mentioned E tar cmd) (\<lambda>uid. retO (Some uid, []))
      else let name = before_char CHR ''#'' cmd in retO (None, if numeric \<and> name = [] then NOBODY else name))
     (retO (None, NOBODY))"

definition bp_number :: "string \<Rightarrow> int" where
  "bp_number t = (case stoll t of Inl e \<Rightarrow> 1 | Inr n \<Rightarrow> bounded_bp n)"

definition bp_mode :: "botenv \<Rightarrow> message \<Rightarrow> bool \<Rightarrow> string \<Rightarrow> int option bot_prog" where
  "bp_mode E tar numeric t = catchB std_exception
     (bindO (mode_number E tar numeric t) (\<lambda>n. retO (if is_mode n then n else 0))) (retO 0)"

type_synonym bp_question = "int option \<times> string \<times> int \<times> int"

definition bp_request :: "botenv \<Rightarrow> message \<Rightarrow> string \<Rightarrow> bp_question option bot_prog" where
  "bp_request E tar cmd =
     (if CHR ''#'' \<in> set cmd then
        if CHR '':'' \<in> set cmd then
          bindO (bp_name E tar False cmd) (\<lambda>(uid, name).
          let bpnum = bp_number (take (length (before_char CHR '':'' cmd)) (after_char CHR ''#'' cmd)) in
          bindO (bp_mode E tar True (after_char CHR '':'' cmd)) (\<lambda>mode. retO (uid, name, mode, bpnum)))
        else
          bindO (bp_name E tar True cmd) (\<lambda>(uid, name). retO (uid, name, 0, bp_number (after_char CHR ''#'' cmd)))
      else
        bindO (own_account E tar) (\<lambda>userid.
        if CHR '':'' \<in> set cmd then
          if hd cmd = CHR '':'' then
            bindO (bp_mode E tar True (last_char cmd)) (\<lambda>mode. retO (Some userid, [], mode, 1))
          else
            bindO (bp_mode E tar False (after_char CHR '':'' cmd)) (\<lambda>mode.
            bindB (if isNum E (before_char CHR '':'' cmd)
              then bindB (liftB (stoll (before_char CHR '':'' cmd))) (\<lambda>n. retB (bounded_bp n)) else retB 1) (\<lambda>bpnum.
            retO (Some userid, [], mode, bpnum)))
        else
          bindB (default_mode E userid) (\<lambda>mode.
          bindB (if cmd \<noteq> [] \<and> isNum E cmd
            then bindB (liftB (stoll cmd)) (\<lambda>n. retB (bounded_bp n)) else retB 1) (\<lambda>bpnum.
          retO (Some userid, [], mode, bpnum)))))"

text \<open>The plays up to the one asked for; there must be as many as its number.\<close>

definition best_plays :: "score_env \<Rightarrow> message \<Rightarrow> (int + string) \<Rightarrow> int \<Rightarrow> int \<Rightarrow> score_info list option bot_prog" where
  "best_plays N tar key mode bpnum =
     (let E = sc_bot N; A = db_api (be_db E); count = int32 bpnum in
      bindB (case key of
          Inl uid \<Rightarrow> asked (GetUserBest_by_id A uid count mode [])
        | Inr name \<Rightarrow> asked (GetUserBest_by_name A name count mode [])) (\<lambda>(ss, found).
      if found = 0 then answered E tar (case key of Inl uid \<Rightarrow> T_no_bp | Inr name \<Rightarrow> T_no_bp_other)
      else if bpnum \<noteq> int (length ss) then answered E tar T_no_bp
      else retO ss))"

definition best_panel :: "score_env \<Rightarrow> string \<Rightarrow> score_panel \<Rightarrow> score_panel thrown" where
  "best_panel N beatmap p =
     (let s = pn_score p in
      andThen (load_map N beatmap) (\<lambda>w.
      andThen (if_fc N s w) (\<lambda>(w, t).
      case pp_total t of
        Some x \<Rightarrow>
          andThen (to_intT x) (\<lambda>fc.
          andThen (as_played N False s w) (\<lambda>(w, r).
          andThen (confirmed N w) (\<lambda>ns.
          Inr (p\<lparr>pn_fc := fc, pn_pp := with_maxima t (with_stars t (r\<lparr>pp_total := Some (si_pp s)\<rparr>)), pn_acc := ns\<rparr>))))
      | None \<Rightarrow>
          andThen (definedT (std_accuracy s)) (\<lambda>a.
          Inr (p\<lparr>pn_fc := 0, pn_acc := [0, 0, 0, 0, 0], pn_pp := (pn_pp p)\<lparr>pp_total := Some (si_pp s),
            pp_data := (from_beatmap (pn_beatmap p) s (pp_data (pn_pp p)))
              \<lparr>rd_maxcombo := bi_maxcombo (pn_beatmap p), rd_accuracy := a\<rparr>\<rparr>\<rparr>)))))"

text \<open>The score is copied without the flag for a replay.\<close>

definition bp_command :: "score_env \<Rightarrow> message \<Rightarrow> unit bot_prog" where
  "bp_command N tar =
     (let E = sc_bot N in
      bindB (argument 2 tar) (\<lambda>cmd.
      thenB (connect_and_count E)
      (bindB (clean cmd) (\<lambda>cmd.
       finallyB (bindO (bp_request E tar cmd) (\<lambda>(uid, name, mode, bpnum).
         bindO (ask_player E tar T_queried_banned T_no_such_user (uid, name, mode, no_user)) (\<lambda>(key, mode, u).
         bindO (best_plays N tar key mode bpnum) (\<lambda>ss.
         bindB (definedB (rdi ss (bpnum - 1))) (\<lambda>s.
         retO (no_panel\<lparr>pn_user := u, pn_mode := mode,
           pn_score := s\<lparr>si_hasReplay := False, si_username := ui_username u\<rparr>\<rparr>)))))) (\<lambda>p.
       finallyB (with_map N tar p) (\<lambda>(p, beatmap).
       bindB (liftB (if pn_mode p = 0 then best_panel N beatmap p
         else andThen (other_panel p) (\<lambda>p. Inr (p\<lparr>pn_pp := (pn_pp p)\<lparr>pp_total := Some (si_pp (pn_score p))\<rparr>\<rparr>)))) (\<lambda>p.
       send_score N tar (si_beatmap_id (pn_score p)) p)))))))"

subsection \<open>The score on a map\<close>

definition score_command :: "score_env \<Rightarrow> message \<Rightarrow> unit bot_prog" where
  "score_command N tar =
     (let E = sc_bot N in
      bindB (argument 5 tar) (\<lambda>cmd.
      bindB (replaceB cmd '' '' []) (\<lambda>cmd.
      if \<not> isNum E cmd then send_message E tar T_bid_please
      else
        bindB (liftB (stoll cmd)) (\<lambda>bid.
        thenB (connect_and_count E)
        (finallyB (bindO (own_account E tar) (\<lambda>uid.
           bindB (default_mode E uid) (\<lambda>mode.
           bindB (user_by_id E uid mode no_user) (\<lambda>(u, found).
           if found = 0 then answered E tar T_queried_banned
           else
             bindB (asked (GetUserScore (db_api (be_db E)) (ui_user_id u) mode bid no_score)) (\<lambda>(s, found).
             if found = 0 then answered E tar T_no_score_here
             else retO (no_panel\<lparr>pn_user := u, pn_mode := mode, pn_score := s\<lparr>si_username := ui_username u\<rparr>\<rparr>)))))) (\<lambda>p.
         finallyB (with_map N tar p) (\<lambda>(p, beatmap).
         bindB (liftB (fill_panel N beatmap p)) (\<lambda>p.
         send_score N tar (bi_beatmap_id (pn_beatmap p)) p))))))))"

subsection \<open>The last play as a text\<close>

definition print_whole :: "fp \<Rightarrow> string" where
  "print_whole x = before_char CHR ''.'' (print_fixed 0 x)"

definition NEWLINE :: string where
  "NEWLINE = [CHR 0x0A]"

definition mode_name :: "int \<Rightarrow> string" where
  "mode_name m = (if m = 0 then ''Standard'' else if m = 1 then ''Taiko'' else if m = 2 then ''CtB''
     else if m = 3 then ''Mania'' else ''Unknown'')"

definition mods_text :: "score_info \<Rightarrow> string thrown" where
  "mods_text s = (if si_mods s = 0 then Inr ''No Mod'' else modParser (si_mods s))"

definition stats_text :: "oppai_data \<Rightarrow> string" where
  "stats_text d = ''ar'' @ print_fixed 1 (rd_ar d) @ '' | od'' @ print_fixed 1 (rd_od d) @ '' | cs'' @
     print_fixed 1 (rd_cs d) @ '' | hp'' @ print_fixed 1 (rd_hp d) @ '' | bpm'' @ print_fixed 2 (rd_bpm d)"

text \<open>The first lines, up to the times; the mode osu!standard has the length of what was played.\<close>

definition play_head :: "score_panel \<Rightarrow> string \<Rightarrow> string \<Rightarrow> string" where
  "play_head p artist title = (let d = pp_data (pn_pp p); std = (pn_mode p = 0) in
     ui_username (pn_user p) @ [CHR 0x27] @ ''s previous play - '' @ mode_name (pn_mode p) @ NEWLINE @
     artist @ '' - '' @ title @ ''['' @ rd_map_version d @ '']'' @ NEWLINE @
     ''mapped by '' @ rd_creator d @ NEWLINE @ ''['' @ stats_text d @ '']'' @ NEWLINE @
     ''Stars:'' @ print_fixed 2 (rd_total_star d) @ ''* | objects:'' @ print_int (rd_n300 d) @ '' | '' @
     clock_text (if std then rd_length d else 0) @ '' / '' @
     clock_text (if std then pp_maxlength (pn_pp p) else 0) @ NEWLINE)"

definition hits_text :: "score_info \<Rightarrow> string" where
  "hits_text s = ''300'' @ T_times_sign @ print_int (si_n300 s) @ '' | 100'' @ T_times_sign @ print_int (si_n100 s) @
     '' | 50'' @ T_times_sign @ print_int (si_n50 s) @ '' | miss'' @ T_times_sign @ print_int (si_nmiss s) @ NEWLINE"

definition combo_text :: "bool \<Rightarrow> score_panel \<Rightarrow> string \<Rightarrow> string" where
  "combo_text maximum p mods = ''combo '' @ print_int (si_combo (pn_score p)) @ ''x'' @
     (if maximum then ''/'' @ print_int (bi_maxcombo (pn_beatmap p)) @ ''x'' else []) @
     '' | acc '' @ print_fixed 2 (rd_accuracy (pp_data (pn_pp p))) @ ''% | '' @ mods @ '' | '' @ si_rank (pn_score p) @ NEWLINE"

definition map_url :: "int \<Rightarrow> string" where
  "map_url bid = ''https://osu.ppy.sh/b/'' @ print_int bid"

definition rctpp_text :: "score_panel \<Rightarrow> string thrown" where
  "rctpp_text p = (let d = pp_data (pn_pp p); url = map_url (bi_beatmap_id (pn_beatmap p)) in
     andThen (mods_text (pn_score p)) (\<lambda>mods.
     if pn_mode p = 0 then
       Inr (play_head p (rd_artistUnicode d) (rd_titleUnicode d) @ hits_text (pn_score p) @ combo_text True p mods @
         print_whole (case pp_total (pn_pp p) of None \<Rightarrow> Num 0 | Some x \<Rightarrow> x) @ ''pp | if fc '' @
         print_int (pn_fc p) @ ''pp'' @ NEWLINE @ NEWLINE @
         ''100% : '' @ print_int (pn_acc p ! 4) @ ''pp'' @ NEWLINE @ ''99% : '' @ print_int (pn_acc p ! 3) @ ''pp'' @ NEWLINE @
         ''98% : '' @ print_int (pn_acc p ! 2) @ ''pp'' @ NEWLINE @ ''95% : '' @ print_int (pn_acc p ! 0) @ ''pp'' @ NEWLINE @ url)
     else
       Inr (play_head p
           (if length (rd_artistUnicode d) > 3 then rd_artistUnicode d else rd_artist d)
           (if length (rd_titleUnicode d) > 3 then rd_titleUnicode d else rd_title d) @
         combo_text (pn_mode p = 2) p mods @ NEWLINE @ url)))"

text \<open>The map's texts are known in the other modes, too.\<close>

definition with_unicode :: "score_panel \<Rightarrow> score_panel" where
  "with_unicode p = (if pn_mode p = 0 then p else p\<lparr>pn_pp := (pn_pp p)\<lparr>pp_data := (pp_data (pn_pp p))
     \<lparr>rd_titleUnicode := bi_title (pn_beatmap p), rd_artistUnicode := bi_artist (pn_beatmap p)\<rparr>\<rparr>\<rparr>)"

definition rctpp :: "score_env \<Rightarrow> message \<Rightarrow> unit bot_prog" where
  "rctpp N tar =
     (let E = sc_bot N in
      thenB (connect_and_count E)
      (bindB (argument 5 tar) (\<lambda>cmd.
       bindB (clean cmd) (\<lambda>cmd.
       finallyB (bindO (player_of E tar T_queried_banned True True (own_mode_rctpp E tar cmd) cmd no_user) (\<lambda>pl.
         bindO (ask_player E tar T_no_record_found T_not_in_mode pl) (\<lambda>(key, mode, u).
         bindO (last_play N tar key mode) (\<lambda>s.
         retO (no_panel\<lparr>pn_user := u, pn_score := s, pn_mode := mode\<rparr>))))) (\<lambda>p.
       finallyB (with_map N tar p) (\<lambda>(p, beatmap).
       bindB (liftB (fill_panel N beatmap p)) (\<lambda>p.
       bindB (liftB (andThen (rctpp_text (with_unicode p)) (sprintf_buf 5120))) (\<lambda>m.
       thenB (send_message E tar m)
         (dbE E (\<lambda>d. osu_UpdatePPRecord d (ms_user_id tar) (bi_beatmap_id (pn_beatmap p))))))))))))"

subsection \<open>The points of a map\<close>

text \<open>The points as \<^verbatim>\<open>float\<close>; \<^verbatim>\<open>ppwith\<close> reads them without a test.\<close>

fun float_points :: "score_env \<Rightarrow> bool \<Rightarrow> int list \<Rightarrow> oppai \<Rightarrow> fp list thrown" where
  "float_points N tested [] w = Inr []"
| "float_points N tested (a # as) w =
     andThen (definedT (set_accuracy_percent (sc_env N) w (i2f a))) (\<lambda>w.
     andThen (calculate N w) (\<lambda>(w, r).
     andThen (if tested then Inr (case pp_total r of None \<Rightarrow> Num 0 | Some x \<Rightarrow> x) else opt_value (pp_total r)) (\<lambda>x.
     andThen (float_points N tested as w) (\<lambda>xs. Inr (to_float x # xs)))))"

text \<open>The length of the artist is not looked at, but that of the title.\<close>

definition map_title :: "score_env \<Rightarrow> oppai_data \<Rightarrow> string" where
  "map_title N d =
     (let short = (\<lambda>s. if length s < 255 then s else sc_long N);
          title = (if length (rd_titleUnicode d) > 2 \<and> length (rd_titleUnicode d) < 128 then rd_titleUnicode d
            else short (rd_title d));
          artist = (if length (rd_artistUnicode d) > 2 \<and> length (rd_titleUnicode d) < 128 then rd_artistUnicode d
            else short (rd_artist d)) in
      artist @ '' - '' @ title @ ''['' @ short (rd_map_version d) @ '']'' @ NEWLINE @ ''mapped by '' @ rd_creator d @ NEWLINE)"

definition points_text :: "fp list \<Rightarrow> string" where
  "points_text out =
     ''100% : '' @ print_fixed 2 (out ! 4) @ ''pp'' @ NEWLINE @ ''99% : '' @ print_fixed 2 (out ! 3) @ ''pp'' @ NEWLINE @
     ''98% : '' @ print_fixed 2 (out ! 2) @ ''pp'' @ NEWLINE @ ''97% : '' @ print_fixed 2 (out ! 1) @ ''pp'' @ NEWLINE @
     ''95% : '' @ print_fixed 2 (out ! 0) @ ''pp'' @ NEWLINE @ NEWLINE"

definition pp_command :: "score_env \<Rightarrow> message \<Rightarrow> unit bot_prog" where
  "pp_command N tar =
     (let E = sc_bot N in
      bindB (argument 2 tar) (\<lambda>cmd.
      bindB (replaceB cmd '' '' []) (\<lambda>cmd.
      if \<not> isNum E cmd then send_message E tar T_valid_bid
      else
        bindB (https N (OSU_FILE_URL @ cmd)) (\<lambda>beatmap.
        if beatmap = [] then send_message E tar T_map_error
        else
          thenB (connect_and_count E)
          (bindB (liftB (stoll cmd)) (\<lambda>bid.
           thenB (dbE E (\<lambda>d. osu_UpdatePPRecord d (ms_user_id tar) bid))
           (bindB (liftB (andThen (load_map N beatmap) (calculate N))) (\<lambda>(w, t).
            if pp_code t = - 4 then send_message E tar T_only_standard
            else
              bindB (liftB (float_points N True ACCURACIES w)) (\<lambda>out.
              let d = pp_data t in
              bindB (liftB (sprintf_buf 5120 (map_title N d @ stats_text d @ NEWLINE @
                ''Stars:'' @ print_fixed 2 (rd_total_star d) @ ''* | No Mod | objects:'' @ print_int (rd_n300 d) @
                NEWLINE @ NEWLINE @ points_text out @ ''https://osu.ppy.sh/b/'' @ cmd))) (\<lambda>m.
              send_message E tar m))))))))))"

definition ppwith :: "score_env \<Rightarrow> message \<Rightarrow> unit bot_prog" where
  "ppwith N tar =
     (let E = sc_bot N in
      bindB (argument 4 tar) (\<lambda>cmd.
      if length cmd > 15 \<or> str_find cmd ''[CQ:'' 0 \<noteq> None then send_message E tar T_too_long
      else
        thenB (connect_and_count E)
        (bindB (dbE E (\<lambda>d. osu_GetPPRecord d (ms_user_id tar))) (\<lambda>bid.
         if bid = EOF then send_message E tar T_score_first
         else
           bindB (definedB (Mod_of_str cmd)) (\<lambda>mods.
           if \<not> isVaild mods then send_message E tar T_bad_mods
           else
             bindB (https N (OSU_FILE_URL @ print_int bid)) (\<lambda>beatmap.
             if beatmap = [] then send_message E tar T_map_error
             else
               bindB (liftB (andThen (load_map N beatmap) (\<lambda>w.
                 andThen (definedT (set_mods_num (sc_env N) w (GetModNumber mods))) (calculate N)))) (\<lambda>(w, t).
               bindB (liftB (float_points N False ACCURACIES w)) (\<lambda>out.
               let d = pp_data t; names = GetModString mods [] in
               bindB (liftB (sprintf_buf 5120 (map_title N d @ ''['' @ stats_text d @ '']'' @ NEWLINE @
                 (if names = [] then ''No Mod'' else names) @ '' | Stars:'' @ print_fixed 2 (rd_total_star d) @
                 ''* | objects:'' @ print_int (rd_n300 d) @ NEWLINE @ NEWLINE @ points_text out @ map_url bid))) (\<lambda>m.
               send_message E tar m)))))))))"

end
