(* ===== verification/WebApis.thy ===== *)
theory WebApis
  imports Scoring
begin

text \<open>
  The web interfaces of \<^verbatim>\<open>src/include/winhttp.hpp\<close> that pictures and commands on players ask: the numbers of
  pp+, the ratings of osu!wiki, and the address of a player's banner.
\<close>

subsection \<open>Numbers\<close>

text \<open>A number of a JSON text as a \<^verbatim>\<open>double\<close>.\<close>

fun get_double :: "json \<Rightarrow> fp thrown" where
  "get_double (JNumber s) = (case stod s of Inl e \<Rightarrow> Inl Undefined | Inr x \<Rightarrow> Inr x)"
| "get_double (JBool b) = Inr (if b then Num 1 else Num 0)"
| "get_double _ = Inl TypeError"

definition long_at :: "json \<Rightarrow> string \<Rightarrow> int thrown" where
  "long_at d k = andThen (andThen (member d k) get_double) to_intT"

fun all_longs :: "json \<Rightarrow> string list \<Rightarrow> int list thrown" where
  "all_longs d [] = Inr []"
| "all_longs d (k # ks) = andThen (long_at d k) (\<lambda>n. andThen (all_longs d ks) (\<lambda>ns. Inr (n # ns)))"

definition getUserPlusData :: "score_env \<Rightarrow> int \<Rightarrow> int list bot_prog" where
  "getUserPlusData N uid =
     bindB (https N (''https://syrin.me/pp+/api/user/'' @ print_int uid)) (\<lambda>response.
     if response = [] then retB []
     else liftB (andThen (andThen (be_parse (sc_bot N) response) (\<lambda>j. member j ''user_data'')) (\<lambda>d.
       all_longs d [''AccuracyTotal'', ''FlowAimTotal'', ''JumpAimTotal'', ''PrecisionTotal'', ''SpeedTotal'', ''StaminaTotal''])))"

definition WIKI_API :: string where
  "WIKI_API = ''http://api.osuwiki.cn:5005/api''"

definition wiki_get :: "score_env \<Rightarrow> string \<Rightarrow> string bot_prog" where
  "wiki_get N url b = (b, be_get (sc_bot N) (wd_log (bt_world b)) (WIKI_API @ url))"

text \<open>The number stays unset when nothing was sent back. It is set before its first value is read, which
  may throw; the result says whether the two differ.\<close>

definition getUserElo :: "score_env \<Rightarrow> int \<Rightarrow> (int option \<times> bool thrown) bot_prog" where
  "getUserElo N uid =
     bindB (wiki_get N (''/users/elo/'' @ print_int uid)) (\<lambda>response.
     if response = [] then retB (None, Inr True)
     else
       bindB (liftB (be_parse (sc_bot N) response)) (\<lambda>d.
       bindB (liftB (int_at 32 d ''elo'')) (\<lambda>elo.
       retB (Some elo, andThen (int_at 32 d ''init_elo'') (\<lambda>init. Inr (elo \<noteq> init))))))"

definition getUserEloRecentPlay :: "score_env \<Rightarrow> int \<Rightarrow> int bot_prog" where
  "getUserEloRecentPlay N uid =
     bindB (wiki_get N (''/users/recentPlay/'' @ print_int uid)) (\<lambda>response.
     if response = [] then definedB None
     else
       bindB (liftB (be_parse (sc_bot N) response)) (\<lambda>d.
       catchB (\<lambda>e. e = TypeError) (liftB (int_at 32 d ''match_id'')) (retB 0)))"

definition getMatchInfo :: "score_env \<Rightarrow> int \<Rightarrow> json bot_prog" where
  "getMatchInfo N match_id =
     bindB (wiki_get N (''/matches/'' @ print_int match_id)) (\<lambda>response.
     if response = [] then definedB None else liftB (be_parse (sc_bot N) response))"

subsection \<open>Banners\<close>

text \<open>The page of a player holds a JSON text, from 50 characters behind the beginning of a tag to the last
  brace. A tag that is missing is at the greatest number, and 50 characters behind that is 49.\<close>

definition banner_json :: "string \<Rightarrow> string thrown" where
  "banner_json source =
     (let p = (case str_find source (''<script id='' @ [DQUOTE] @ ''json-user'' @ [DQUOTE] @ '' type='' @ [DQUOTE] @
          ''application/json'' @ [DQUOTE] @ ''>'') 0 of None \<Rightarrow> 49 | Some k \<Rightarrow> k + 50) in
      if length source < p then Inl OutOfRange
      else Inr (rev (dropWhile (\<lambda>c. c \<noteq> CHR 0x7D) (rev (drop p source)))))"

definition any_banner :: "botenv \<Rightarrow> string bot_prog" where
  "any_banner E = bindB (randB E 1 8) (\<lambda>n.
     retB (''https://osu.ppy.sh/images/headers/profile-covers/c'' @ print_int n @ ''.jpg''))"

definition GetBannerLink :: "score_env \<Rightarrow> int \<Rightarrow> string bot_prog" where
  "GetBannerLink N uid = catchB (\<lambda>e. e = NetworkError \<or> std_exception e)
     (bindB (https N (''https://osu.ppy.sh/users/'' @ print_int uid)) (\<lambda>source.
      liftB (andThen (banner_json source) (\<lambda>temp.
        andThen (be_parse (sc_bot N) temp) (\<lambda>j. text_at j ''cover_url'')))))
     (any_banner (sc_bot N))"

end
