(* ===== verification/Portraits.thy ===== *)
theory Portraits
  imports Pictures WebApis
begin

text \<open>
  The pictures of players in \<^verbatim>\<open>src/image.hpp\<close>: \<open>infoPic_v1\<close>, \<open>infoPic_v2\<close> (which nothing calls), \<open>ppvsimg\<close> and
  \<open>bpht_img\<close>. Texts that are drawn are functions of the data; \<^verbatim>\<open>sprintf_s\<close> into a buffer of 512 or more
  bytes is left out where the text is a number.
\<close>

subsection \<open>Texts\<close>

definition split_number :: "int \<Rightarrow> string thrown" where
  "split_number n = definedT (IntegerSplit n CHR '','')"

text \<open>What \<open>previous - now\<close> gives: an \<^verbatim>\<open>int64_t\<close>.\<close>

definition country_rank_text :: "user_info \<Rightarrow> user_info \<Rightarrow> string thrown" where
  "country_rank_text prev u =
     (let p = ui_country_rank prev; c = ui_country_rank u in
      if p \<noteq> c then
        andThen (definedT (ck64 (p - c))) (\<lambda>d.
        andThen (split_number c) (\<lambda>rank.
        Inr (if d > 0 then ''#'' @ rank @ ''(+'' @ print_int d @ '')'' else ''#'' @ rank @ ''('' @ print_int d @ '')'')))
      else andThen (split_number c) (\<lambda>rank. Inr (''#'' @ rank)))"

definition global_change_text :: "user_info \<Rightarrow> user_info \<Rightarrow> string thrown" where
  "global_change_text prev u =
     (let p = ui_global_rank prev; c = ui_global_rank u in
      if p \<noteq> c then
        andThen (definedT (ck64 (p - c))) (\<lambda>d.
        andThen (split_number d) (\<lambda>t.
        if d > 0 then Inr (T_pic_up @ t)
        else andThen (definedT (string_replace t ''-'' [])) (\<lambda>t.
          Inr (T_pic_down @ (if t \<noteq> [] \<and> hd t = CHR '','' then tl t else t)))))
      else Inr T_pic_unchanged)"

text \<open>The points are of the type \<^verbatim>\<open>float\<close>.\<close>

definition pp_change_text :: "user_info \<Rightarrow> user_info \<Rightarrow> string" where
  "pp_change_text prev u =
     (let d = subf (ui_pp prev) (ui_pp u) in
      if \<not> feq (ui_pp prev) (ui_pp u) then
        if flt (Num 0) d then T_pic_down @ print_fixed 2 d
        else T_pic_up @ print_fixed 2 (subf d (mulf d (Num 2)))
      else T_pic_unchanged)"

text \<open>A number printed with two decimals and read again.\<close>

definition reread :: "fp \<Rightarrow> fp thrown" where
  "reread x = andThen (sprintf_buf 64 (print_fixed 2 x)) stod"

definition accuracy_text :: "user_info \<Rightarrow> user_info \<Rightarrow> string thrown" where
  "accuracy_text prev u =
     andThen (reread (ui_accuracy prev)) (\<lambda>p.
     andThen (reread (ui_accuracy u)) (\<lambda>c.
     let now = print_fixed 2 (ui_accuracy u) @ ''%'' in
     Inr (if \<not> feq p c then
         if flt (Num 0) (subd p c) then now @ ''(-'' @ print_fixed 2 (subd p c) @ ''%)''
         else now @ ''(+'' @ print_fixed 2 (fabs (subd p c)) @ ''%)''
       else now)))"

text \<open>A number, and by how much it has grown.\<close>

definition growth_text :: "int \<Rightarrow> int \<Rightarrow> string thrown" where
  "growth_text p c =
     andThen (split_number c) (\<lambda>now.
     if p \<noteq> c then
       andThen (definedT (ck64 (c - p))) (\<lambda>d.
       andThen (split_number d) (\<lambda>t. Inr (now @ ''(+'' @ t @ '')'')))
     else Inr now)"

definition total_hits :: "user_info \<Rightarrow> int thrown" where
  "total_hits u =
     andThen (definedT (ck64 (ui_n100 u + ui_n300 u))) (\<lambda>s. definedT (ck64 (s + ui_n50 u)))"

text \<open>The part of a level behind the point, in percent; the conversion to \<^verbatim>\<open>int\<close> truncates. The bar is as
  long as what \<^verbatim>\<open>stoi\<close> reads from the text.\<close>

definition level_percent :: "fp \<Rightarrow> int thrown" where
  "level_percent level =
     andThen (to_intT level) (\<lambda>whole.
     andThen (stof (print_fixed 2 (subf level (i2f whole)))) (\<lambda>x. to_intT (mulf x (Num 100))))"

definition percent_text :: "int \<Rightarrow> string" where
  "percent_text p = print_int p @ ''%''"

subsection \<open>\<open>infoPic_v1\<close>\<close>

text \<open>A cover that is not there is downloaded, cut and stored.\<close>

definition v1_cover :: "int \<Rightarrow> string" where
  "v1_cover uid = ''./work/v1_cover/'' @ print_int uid"

definition fetch_cover :: "score_env \<Rightarrow> int \<Rightarrow> unit bot_prog" where
  "fetch_cover N uid =
     (let E = sc_bot N; path = v1_cover uid @ ''.png''; temp = v1_cover uid @ ''_temp.jpg'' in
      bindB (fileExist path) (\<lambda>there.
      if there then retB ()
      else
        bindB (GetBannerLink N uid) (\<lambda>link.
        bindB (if link = [] then any_banner E else retB link) (\<lambda>link.
        thenB (DownloadFile E link temp)
        (bindB (open_image N temp) (\<lambda>cover.
         bindB (edits [resize N 100000 350, crop N 1200 350 0 0] cover) (\<lambda>cover.
         bindB (rounded_frame N 1200 350 (DrawableRoundRectangle 0 0 1200 350 20 20)) (\<lambda>f.
         bindB (composite N cover 0 0 InCompositeOp f) (\<lambda>f.
         thenB (write_image N path f) (DeleteFileA temp))))))))))"

text \<open>The picture of the player if there is one, the default otherwise.\<close>

definition paste_own :: "score_env \<Rightarrow> string \<Rightarrow> string \<Rightarrow> edit" where
  "paste_own N path standard i =
     bindB (fileExist path) (\<lambda>there. paste N (if there then path else standard) 0 0 i)"

definition v1_avatar :: "score_env \<Rightarrow> int \<Rightarrow> bool \<Rightarrow> edit" where
  "v1_avatar N uid eventmode info =
     (let path = avatar_path uid; f190 = rounded_frame N 190 190 (DrawableRoundRectangle 0 0 190 190 40 40) in
      thenB (fetch_avatar N uid)
      (on_magick_error
        (thenB (DeleteFileA path)
         (bindB (bindB (open_image N ''./work/default_avatar.png'') (resize N 190 190)) (\<lambda>avatardef.
          bindB f190 (\<lambda>avttemp.
          bindB (composite N avatardef 0 0 InCompositeOp avttemp) (\<lambda>avttemp.
          composite N avttemp 39 55 OverCompositeOp info)))))
        (bindB f190 (\<lambda>avttemp.
         bindB (bindB (open_image N path) (resize N 190 190)) (\<lambda>ava.
         bindB (if eventmode then paste_resized N ''./work/avatar_event_layer.png'' 190 190 0 0 ava else retB ava) (\<lambda>ava.
         bindB (composite N ava 0 0 InCompositeOp avttemp) (\<lambda>avttemp.
         composite N avttemp 39 55 OverCompositeOp info)))))))"

text \<open>Names and ranks.\<close>

definition v1_ranks :: "user_info \<Rightarrow> user_info \<Rightarrow> bool \<Rightarrow> drawable list thrown" where
  "v1_ranks prev u isBonded =
     andThen (country_rank_text prev u) (\<lambda>country.
     andThen (split_number (ui_global_rank u)) (\<lambda>global.
     andThen (if isBonded then andThen (global_change_text prev u) (\<lambda>t. Inr [DrawablePointSize 14, text_on 40 425 t]) else Inr []) (\<lambda>change.
     Inr ([DrawableGravity UndefinedGravity, DrawableFont ''./work/fonts/Exo2-SemiBold.otf'', fill_colour ''#ffffff'',
         DrawablePointSize 60, text_on 268 120 (ui_username u), DrawablePointSize 20, text_on 335 248 country,
         DrawableFont ''./work/fonts/Exo2-Regular.otf'', DrawablePointSize 40, text_on 40 405 global,
         DrawableFont ''./work/fonts/Alibaba-PuHuiTi-Regular.ttf''] @ change @
       [DrawableFont ''./work/fonts/Exo2-Regular.otf'', DrawablePointSize 40, text_on 246 405 (print_fixed 2 (ui_pp u)),
         DrawableFont ''./work/fonts/Alibaba-PuHuiTi-Regular.ttf''] @
       (if isBonded then [DrawablePointSize 14, text_on 246 425 (pp_change_text prev u)] else [])))))"

text \<open>Counts, level, scores, accuracy and time.\<close>

definition v1_counts :: "user_info \<Rightarrow> user_info \<Rightarrow> drawable list thrown" where
  "v1_counts prev u =
     andThen (to_intT (ui_level u)) (\<lambda>level.
     andThen (split_number (ui_ranked_score u)) (\<lambda>ranked.
     andThen (accuracy_text prev u) (\<lambda>accuracy.
     andThen (growth_text (ui_playcount prev) (ui_playcount u)) (\<lambda>playcount.
     andThen (split_number (ui_total_score u)) (\<lambda>total.
     andThen (total_hits prev) (\<lambda>hits0.
     andThen (total_hits u) (\<lambda>hits1.
     andThen (growth_text hits0 hits1) (\<lambda>hits.
     Inr [DrawableFont ''./work/fonts/Exo2-Regular.otf'', DrawablePointSize 30, DrawableGravity CenterGravity,
       text_on (- 520) 95 (print_int (ui_count_ssh u)), text_on (- 409) 95 (print_int (ui_count_ss u)),
       text_on (- 299) 95 (print_int (ui_count_sh u)), text_on (- 188) 95 (print_int (ui_count_s u)),
       text_on (- 78) 95 (print_int (ui_count_a u)),
       DrawableFont ''./work/fonts/Exo2-SemiBold.otf'', DrawablePointSize 34, text_on 516 (- 64) (print_int level),
       DrawablePointSize 36, DrawableGravity EastGravity, DrawableFont ''./work/fonts/Exo2-Medium.otf'',
       text_on 20 177 ranked, text_on 20 217 accuracy, text_on 20 257 playcount, text_on 20 297 total,
       text_on 20 337 hits, text_on 20 377 (Duration2String (word_of_int (ui_playtime u))),
       DrawableFont ''./work/fonts/Exo2-SemiBold.otf'', DrawablePointSize 20]))))))))"

definition level_bar :: "score_env \<Rightarrow> int \<Rightarrow> image bot_prog" where
  "level_bar N p =
     bindB (liftB (stoi (percent_text p))) (\<lambda>n.
     bindB (liftB (definedT (ck (4 * n + 4)))) (\<lambda>w.
     bindB (blank N w 12 ''none'') (draw N [fill_colour ''#FF66AB'', DrawableRoundRectangle 0 0 (4 * n) 7 3 3])))"

text \<open>The argument \<^verbatim>\<open>pptemp++\<close> of a constructor stands beside one that reads \<^verbatim>\<open>pptemp\<close>; which of them is evaluated
  first is not specified.\<close>

definition plus_text :: "bool \<Rightarrow> int list \<Rightarrow> int \<times> int \<times> int \<Rightarrow> nat \<Rightarrow> int \<Rightarrow> drawable" where
  "plus_text right_first xs ys k p =
     (case ys of (y1, y2, y3) \<Rightarrow>
      let pptemp = (if right_first then k else k + 1) in
      text_on (xs ! k) (if pptemp mod 3 \<noteq> 0 then (if pptemp < 3 then y1 else y2) else y3)
        (''('' @ print_int p @ '')''))"

definition plus_texts :: "score_env \<Rightarrow> int list \<Rightarrow> int \<times> int \<times> int \<Rightarrow> int list \<Rightarrow> drawable list" where
  "plus_texts N xs ys ps =
     [DrawableGravity NorthWestGravity, DrawablePointSize 18, fill_colour ''#FFCC33'', DrawableFont ''./work/fonts/Exo2-Regular.otf''] @
     map (\<lambda>k. plus_text (mg_right_first (sc_magick N)) xs ys k (ps ! k)) [0..<length ps]"

definition v1_hexagram :: hexagram_info where
  "v1_hexagram = \<lparr>hi_size = 200, hi_node_count = 6, hi_nodeMaxValue = 10000, hi_line = ''#fd943e'',
     hi_fill = ''rgba(253, 148, 62, 0.5)'', hi_sideLength = 200, hi_strokeWidth = 2, hi_nodesize = dlit (5 / 2), hi_mode = 1\<rparr>"

text \<open>Only in the mode 0 are there numbers of pp+.\<close>

definition v1_plus :: "score_env \<Rightarrow> user_panel \<Rightarrow> edit" where
  "v1_plus N d i =
     (let pp_plus = six_numbers (up_pplus d) in
      if ui_mode (up_user d) = 0 then
        edits [draw_v1 N pp_plus MULTI EXPONENTS 132 626 v1_hexagram, paste N ''./work/pp+-v1.png'' 0 0,
          draw N (plus_texts N [372, 330, 122, 52, 128, 317] (620, 809, 714) pp_plus)] i
      else paste N ''./work/nopp+info-v1.png'' 0 0 i)"

definition v1_footer :: "user_info \<Rightarrow> bool \<Rightarrow> string \<Rightarrow> drawable list" where
  "v1_footer prev exact t =
     [DrawableFont ''./work/fonts/Exo2-Regular.otf'', DrawableGravity UndefinedGravity, DrawablePointSize 20,
       fill_colour ''#ffffff'', text_on 10 21 (''update:   '' @ t)] @
     (if ui_days_before prev > 0 then
        [DrawableFont ''./work/fonts/Alibaba-PuHuiTi-Regular.ttf'',
          text_on 300 21 ((if exact then T_pic_compared else T_pic_no_such_day) @ print_int (ui_days_before prev) @ T_pic_days_ago)]
      else [])"

definition v1_badge :: "score_env \<Rightarrow> int \<Rightarrow> edit" where
  "v1_badge N badgeid i =
     (if badgeid = - 1 then retB i
      else edits [paste_resized N (''./work/badges/'' @ print_int badgeid @ ''.png'') 86 40 272 152,
        draw N [DrawableGravity UndefinedGravity]] i)"

definition infoPic_v1 :: "score_env \<Rightarrow> user_panel \<Rightarrow> user_info \<Rightarrow> bool \<Rightarrow> bool \<Rightarrow> bool \<Rightarrow> string bot_prog" where
  "infoPic_v1 N d prev isBonded exact eventmode =
     (let E = sc_bot N; u = up_user d; uid = ui_user_id u in
      bindB (bindB (blank N 1200 857 ''none'') (set_to (Density 300 300))) (\<lambda>info.
      thenB (fetch_cover N uid)
      (bindB (edits [paste N (v1_cover uid @ ''.png'') 0 0,
           paste_own N (''./work/v1_infopanel/'' @ print_int uid @ ''.png'') ''./work/default-info-v1.png'',
           v1_avatar N uid eventmode,
           paste_resized N (''./work/Flags/'' @ ui_country u @ ''.png'') 57 10000 272 212,
           paste_resized N (''./work/mode_icon/'' @ print_int (ui_mode u) @ ''.png'') 64 64 1125 10] info) (\<lambda>info.
       bindB (liftB (v1_ranks prev u isBonded)) (\<lambda>ranks.
       bindB (liftB (v1_counts prev u)) (\<lambda>counts.
       bindB (liftB (level_percent (ui_level u))) (\<lambda>percent.
       bindB (draw N (ranks @ counts @ [text_on 136 (- 40) (percent_text percent)]) info) (\<lambda>info.
       bindB (level_bar N percent) (\<lambda>bar.
       bindB (edits [composite N bar 662 370 OverCompositeOp, v1_plus N d] info) (\<lambda>info.
       bindB (timeB E) (\<lambda>now.
       bindB (edits [draw N (v1_footer prev exact (db_strftime (be_db E) ''%Y-%m-%d %H:%M:%S'' now)),
           v1_badge N (up_badgeid d)] info)
         (save_as N T_images (print_int uid @ ''.png'')))))))))))))"

subsection \<open>\<open>infoPic_v2\<close>\<close>

definition v2_avatar :: "score_env \<Rightarrow> int \<Rightarrow> edit" where
  "v2_avatar N uid info =
     (let path = avatar_path uid in
      thenB (fetch_avatar N uid)
      (on_magick_error
        (thenB (DeleteFileA path)
         (bindB (bindB (open_image N ''./work/avatar/default.png'') (resize N 415 415)) (\<lambda>avatardef.
          bindB (rounded_frame N 410 410 (DrawableRoundRectangle 0 0 430 430 60 60)) (\<lambda>avttemp.
          bindB (composite N avatardef 0 0 InCompositeOp avttemp) (\<lambda>avttemp.
          composite N avttemp 89 106 OverCompositeOp info)))))
        (bindB (rounded_frame N 410 410 (DrawableRoundRectangle 0 0 410 410 60 60)) (\<lambda>avttemp.
         bindB (bindB (open_image N path) (resize N 410 410)) (\<lambda>ava.
         bindB (composite N ava 0 0 InCompositeOp avttemp) (\<lambda>avttemp.
         composite N avttemp 89 106 OverCompositeOp info))))))"

definition v2_level :: "score_env \<Rightarrow> fp \<Rightarrow> edit" where
  "v2_level N level info =
     bindB (liftB (to_intT level)) (\<lambda>whole.
     bindB (draw N [DrawableGravity CenterGravity, DrawableFont ''./work/fonts/Torus Regular.otf'', DrawablePointSize 42,
       fill_colour ''#ffffff'', text_on (- 604) (- 652) (print_int whole)] info) (\<lambda>info.
     bindB (liftB (level_percent level)) (\<lambda>p.
     bindB (draw N [DrawableGravity UndefinedGravity, DrawableFont ''./work/fonts/Torus Regular.otf'', DrawablePointSize 20,
       fill_colour ''#ffffff'', text_on 1170 289 (percent_text p)] info) (\<lambda>info.
     bindB (liftB (stoi (percent_text p))) (\<lambda>n.
     bindB (liftB (definedT (ck (6 * n + 6)))) (\<lambda>w.
     bindB (blank N w 14 ''none'') (\<lambda>levelRoundrect.
     bindB (blank N 606 14 ''none'') (\<lambda>levelBackGround.
     bindB (draw N [fill_colour ''#FF92AC'', DrawableRoundRectangle 0 0 (6 * n) 12 6 6] levelRoundrect) (\<lambda>levelRoundrect.
     bindB (draw N [fill_colour ''rgba(0, 0, 0, 0.32)'', DrawableRoundRectangle 0 0 600 12 6 6] levelBackGround) (\<lambda>levelBackGround.
     edits [composite N levelBackGround 560 277 OverCompositeOp, composite N levelRoundrect 560 277 OverCompositeOp] info))))))))))"

definition v2_hexagram :: hexagram_info where
  "v2_hexagram = \<lparr>hi_size = 1000, hi_node_count = 6, hi_nodeMaxValue = 10000, hi_line = ''rgba(205, 157, 173, 0.95)'',
     hi_fill = ''rgba(255, 123, 172, 0.36)'', hi_sideLength = 200, hi_strokeWidth = 8, hi_nodesize = Num 12, hi_mode = 3\<rparr>"

definition v2_plus :: "score_env \<Rightarrow> user_panel \<Rightarrow> edit" where
  "v2_plus N d info =
     (let pp_plus = six_numbers (up_pplus d) in
      bindB (bindB (blank N 1100 1100 ''none'') (edits [draw_v1 N pp_plus MULTI EXPONENTS 50 50 v2_hexagram, resize N 664 592])) (\<lambda>hexagram.
      edits [composite N hexagram 236 1000 OverCompositeOp,
        draw N (plus_texts N [812, 678, 220, 85, 220, 676] (1050, 1541, 1295) pp_plus)] info))"

definition infoPic_v2 :: "score_env \<Rightarrow> user_panel \<Rightarrow> user_info \<Rightarrow> bool \<Rightarrow> bool \<Rightarrow> string bot_prog" where
  "infoPic_v2 N d prev isBonded exact =
     (let u = up_user d; uid = ui_user_id u;
          white = [DrawableFont ''./work/fonts/Torus Regular.otf'', fill_colour ''#ffffff'', DrawablePointSize 60] in
      bindB (bindB (blank N 2400 1714 ''none'') (edits [set_to (Density 300 300),
         paste_own N (''./work/v2_background/'' @ print_int uid @ ''.png'') ''./work/v2_background/default_backgrounds/default.png'',
         paste_own N (''./work/v2_infopanel/'' @ print_int uid @ ''.png'') ''./work/default-info-v2.png'',
         v2_avatar N uid, v2_level N (ui_level u),
         draw N (DrawableGravity UndefinedGravity # white @ [text_on 666 208 (ui_username u)]),
         draw N (DrawableGravity CenterGravity # white @ [text_on (- 1016) (- 70) (print_int (ui_count_ssh u)),
           text_on (- 765) (- 70) (print_int (ui_count_ss u)), text_on (- 515) (- 70) (print_int (ui_count_sh u)),
           text_on (- 246) (- 70) (print_int (ui_count_s u)), text_on 10 (- 70) (print_int (ui_count_a u))]),
         v2_plus N d, set_to (Quality 100)]))
        (save_as N T_images (print_int uid @ ''-v2.jpg'')))"

subsection \<open>\<open>ppvsimg\<close> and \<open>bpht_img\<close>\<close>

text \<open>The numbers of a player, from the network if they are to be renewed. They are read by their index, also
  when there are none. After an exception zeros are appended to what is there.\<close>

definition plus_of :: "score_env \<Rightarrow> user_panel \<Rightarrow> int list bot_prog" where
  "plus_of N d =
     (let E = sc_bot N; u = up_user d; zeros = [0, 0, 0, 0, 0, 0] in
      if ui_updatepplus u then
        bindB (catchB std_exception (bindB (getUserPlusData N (ui_user_id u)) (\<lambda>pp. retB (Some pp))) (retB None)) (\<lambda>r.
        case r of
          None \<Rightarrow> retB zeros
        | Some pp \<Rightarrow> catchB std_exception
            (thenB (dbC E Connect)
            (bindB (definedB (case pp of
                [acc, flow, jump, pre, spd, sta] \<Rightarrow>
                  Some \<lparr>pl_jump = jump, pl_flow = flow, pl_pre = pre, pl_acc = acc, pl_spd = spd, pl_sta = sta\<rparr>
              | _ \<Rightarrow> None)) (\<lambda>pl.
             thenB (dbE E (\<lambda>d. osu_UpdatePPlus d (ui_user_id u) (ui_pp u) pl)) (retB pp))))
            (retB (pp @ zeros)))
      else retB (six_numbers (up_pplus d)))"

definition vs_hexagram :: "string \<Rightarrow> string \<Rightarrow> hexagram_info" where
  "vs_hexagram line area = \<lparr>hi_size = 1134, hi_node_count = 6, hi_nodeMaxValue = 12000, hi_line = line, hi_fill = area,
     hi_sideLength = 791, hi_strokeWidth = 6, hi_nodesize = Num 10, hi_mode = 2\<rparr>"

text \<open>The rows of the table in the order of the picture: jump, flow, precision, speed, stamina, accuracy.\<close>

definition ROWS :: "(nat \<times> int) list" where
  "ROWS = [(2, 1052), (1, 1136), (3, 1220), (4, 1304), (5, 1389), (0, 1471)]"

definition vs_column :: "int \<Rightarrow> int list \<Rightarrow> fp \<Rightarrow> drawable list" where
  "vs_column x pp_plus pp =
     [DrawableGravity UndefinedGravity, DrawablePointSize 32, fill_colour ''#999999'', DrawableFont ''./work/fonts/AvenirLTStd-Medium.otf''] @
     map (\<lambda>(i, y). text_on x y (print_int (pp_plus ! i))) ROWS @ [text_on x 966 (print_fixed 2 pp)]"

text \<open>A \<^verbatim>\<open>long\<close> has 32 bits.\<close>

fun differences :: "int list \<Rightarrow> int list \<Rightarrow> (nat \<times> int) list \<Rightarrow> drawable list thrown" where
  "differences ps qs [] = Inr []"
| "differences ps qs ((i, y) # rows) =
     andThen (definedT (ck (qs ! i - ps ! i))) (\<lambda>d.
     andThen (differences ps qs rows) (\<lambda>ds. Inr (text_on 960 y (print_int d) # ds)))"

definition vs_differences :: "int list \<Rightarrow> int list \<Rightarrow> fp \<Rightarrow> drawable list thrown" where
  "vs_differences ps qs pp = andThen (differences ps qs ROWS) (\<lambda>ds.
     Inr ([DrawableGravity UndefinedGravity, DrawablePointSize 32, fill_colour ''#ffcd22'', DrawableFont ''./work/fonts/AvenirLTStd-Medium.otf'',
       text_on 960 966 (print_fixed 2 pp)] @ ds))"

text \<open>The hexagram of the player with fewer points is drawn last.\<close>

definition vs_hexagrams :: "score_env \<Rightarrow> bool \<Rightarrow> int list \<Rightarrow> int list \<Rightarrow> edit" where
  "vs_hexagrams N first_is_less ps qs i =
     (let h1 = draw_v1 N ps MULTI EXPONENTS 0 (- 120) (vs_hexagram ''#FF7BAC'' ''rgba(255, 123, 172, 0.4)'');
          h2 = draw_v1 N qs MULTI EXPONENTS 0 (- 120) (vs_hexagram ''#29ABE2'' ''rgba(41, 171, 226, 0.4)'') in
      edits (if first_is_less then [h1, h2] else [h2, h1]) i)"

definition ppvsimg :: "score_env \<Rightarrow> user_panel \<Rightarrow> user_panel \<Rightarrow> string bot_prog" where
  "ppvsimg N u1d u2d =
     (let u1 = up_user u1d; u2 = up_user u2d in
      bindB (open_image N (''.'' @ [CHR 0x5C] @ ''work'' @ [CHR 0x5C] @ ''ppvs.png'')) (\<lambda>ppvspanel.
      bindB (plus_of N u2d) (\<lambda>pp_plus.
      bindB (plus_of N u1d) (\<lambda>pp_plus2.
      bindB (edits [vs_hexagrams N (flt (ui_pp u1) (ui_pp u2)) pp_plus pp_plus2,
          draw N (vs_column 664 pp_plus (ui_pp u2)), draw N (vs_column 424 pp_plus2 (ui_pp u1))] ppvspanel) (\<lambda>ppvspanel.
      bindB (liftB (vs_differences pp_plus pp_plus2 (subf (ui_pp u1) (ui_pp u2)))) (\<lambda>ds.
      bindB (edits [draw N ds,
          draw N [DrawableGravity UndefinedGravity, DrawablePointSize 36, fill_colour ''#999999'',
            DrawableFont ''./work/fonts/AvenirLTStd-Medium.otf'', text_on 264 874 (ui_username u1), text_on 808 874 (ui_username u2)],
          paste N ''./work/ppvs_title.png'' 0 0, set_to (Quality 100)] ppvspanel)
        (save_as N T_images (print_int (ui_user_id u1) @ ''.jpg''))))))))"

definition IMAGES_DIR :: string where
  "IMAGES_DIR = [CHR 0x5C] @ ''data'' @ [CHR 0x5C] @ ''images'' @ [CHR 0x5C]"

definition bpht_img :: "score_env \<Rightarrow> string \<Rightarrow> string bot_prog" where
  "bpht_img N m =
     bindB (bindB (blank N 430 220 ''#ffffff'') (edits [set_to (Density 300 300),
        draw N [DrawableGravity UndefinedGravity, DrawableFont ''./work/fonts/Alibaba-PuHuiTi-Medium.ttf'', DrawablePointSize 20,
          fill_colour ''#000000'', text_on 20 20 m], set_to (Quality 100)]))
       (save_as N IMAGES_DIR ''.png'')"

end
