(* ===== verification/Figures.thy ===== *)
theory Figures
  imports Plays Portraits
begin

text \<open>
  The commands of the class \<^verbatim>\<open>Main\<close> in \<^verbatim>\<open>src/osucat.hpp\<close> on players: \<^verbatim>\<open>info\<close>, \<^verbatim>\<open>update\<close>, \<^verbatim>\<open>bphead_tail\<close>,
  \<^verbatim>\<open>ppvs\<close> and \<^verbatim>\<open>searchuid\<close>.
\<close>

subsection \<open>Info\<close>

text \<open>The Chinese name of the command is looked for in the argument, which is still empty.\<close>

definition info_argument :: "string \<Rightarrow> string option" where
  "info_argument m =
     (let cmd = [] in
      if command_is 4 ''info'' m then Some (drop 4 m)
      else if command_is 6 T_info_alias cmd then Some (drop 6 m)
      else None)"

definition bounded_days :: "int \<Rightarrow> int" where
  "bounded_days n = (if n > 3651 \<or> n < 0 then 3650 else n)"

text \<open>\<open>:mode#days\<close> of the sender.\<close>

definition own_mode_days :: "botenv \<Rightarrow> string \<Rightarrow> int \<Rightarrow> (int \<times> int) bot_prog" where
  "own_mode_days E cmd userid = catchB std_exception
     (bindB (liftB (stoi (take 1 (after_char CHR '':'' cmd)))) (\<lambda>temp.
      bindB (liftB (stoi (after_char CHR ''#'' cmd))) (\<lambda>days.
      bindB (if is_mode temp then retB temp else default_mode E userid) (\<lambda>mode. retB (mode, bounded_days days)))))
     (bindB (default_mode E userid) (\<lambda>mode. retB (mode, 0)))"

definition mode_days :: "string \<Rightarrow> int \<times> int" where
  "mode_days cmd =
     (let r = (if CHR ''#'' \<in> set cmd
         then andThen (stoi (take 1 (after_char CHR '':'' cmd))) (\<lambda>temp.
           andThen (stoi (after_char CHR ''#'' cmd)) (\<lambda>days. Inr (temp, bounded_days days)))
         else andThen (stoi (after_char CHR '':'' cmd)) (\<lambda>temp. Inr (temp, 0)));
          (temp, days) = (case r of Inl e \<Rightarrow> (0, 0) | Inr p \<Rightarrow> p) in
      if is_mode temp then (temp, days) else (0, 0))"

definition days_behind :: "string \<Rightarrow> int" where
  "days_behind cmd = (if CHR ''#'' \<in> set cmd
     then (case stoi (after_char CHR ''#'' cmd) of Inl e \<Rightarrow> 0 | Inr n \<Rightarrow> bounded_days n) else 0)"

text \<open>The days come with the player. Behind \<open>#\<close> alone they are not bounded.\<close>

definition info_player :: "botenv \<Rightarrow> message \<Rightarrow> string \<Rightarrow> (asked_player \<times> int) option bot_prog" where
  "info_player E tar cmd =
     (let target = (\<lambda>name. if is_mention cmd then bindO (mentioned E tar cmd) (\<lambda>uid. retO (Some uid, []))
        else retO (None, name)) in
      if cmd = [] then
        bindO (own_account E tar) (\<lambda>uid. bindB (default_mode E uid) (\<lambda>mode. retO ((Some uid, [], mode, no_user), 0)))
      else if hd cmd = CHR ''#'' then
        bindO (own_account E tar) (\<lambda>uid. bindB (default_mode E uid) (\<lambda>mode.
        retO ((Some uid, [], mode, no_user), case stoi (after_char CHR ''#'' cmd) of Inl e \<Rightarrow> 0 | Inr n \<Rightarrow> n)))
      else if hd cmd = CHR '':'' then
        bindO (own_account E tar) (\<lambda>uid.
        if CHR ''#'' \<notin> set cmd then
          bindO (own_mode E tar False cmd uid) (\<lambda>mode. retO ((Some uid, [], mode, no_user), 0))
        else bindB (own_mode_days E cmd uid) (\<lambda>(mode, days). retO ((Some uid, [], mode, no_user), days)))
      else if CHR '':'' \<in> set cmd then
        bindO (target (before_char CHR '':'' cmd)) (\<lambda>(uid, name).
        case mode_days cmd of (mode, days) \<Rightarrow> retO ((uid, name, mode, no_user), days))
      else
        bindO (target (before_char CHR ''#'' cmd)) (\<lambda>(uid, name).
        let days = days_behind cmd in
        if name = [] then
          bindB (definedB uid) (\<lambda>n.
          bindB (user_by_id E n 0 no_user) (\<lambda>(u, found).
          if found = 0 then answered E tar T_queried_banned
          else bindB (default_mode E (ui_user_id u)) (\<lambda>mode. retO ((uid, name, mode, u), days))))
        else if length name > 40 then answered E tar T_too_long
        else
          bindB (trimB name) (\<lambda>name.
          bindB (user_by_name E name 0 no_user) (\<lambda>(u, found).
          if found = 0 then answered E tar T_no_such_user
          else bindB (default_mode E (ui_user_id u)) (\<lambda>mode. retO ((uid, name, mode, u), days))))))"

definition previous_pplus :: "botenv \<Rightarrow> int \<Rightarrow> pplus_info \<Rightarrow> pplus_info bot_prog" where
  "previous_pplus E uid pl = bindB (dbE E (\<lambda>d. osu_GetUserPreviousPPlus d uid pl)) (\<lambda>(pl, e).
     case e of None \<Rightarrow> retB pl | Some e \<Rightarrow> liftB (Inl e))"

definition user_data :: "botenv \<Rightarrow> int \<Rightarrow> int \<Rightarrow> user_info \<Rightarrow> (user_info \<times> int) bot_prog" where
  "user_data E uid days u = bindB (dbE E (\<lambda>d. osu_GetUserData d uid days u)) asked"

text \<open>The picture of a player, compared with an earlier day if the player is bound.\<close>

definition info_picture :: "score_env \<Rightarrow> message \<Rightarrow> user_panel \<Rightarrow> int \<Rightarrow> int \<Rightarrow> string option bot_prog" where
  "info_picture N tar upd mode days =
     (let E = sc_bot N; u = up_user upd; uid = ui_user_id u; prev = no_user\<lparr>ui_mode := mode\<rparr> in
      bindB (dbE E (\<lambda>d. osu_get_event_status d uid)) (\<lambda>event.
      bindB (dbE E (\<lambda>d. osu_getshownbadges d uid)) (\<lambda>badge.
      let upd = upd\<lparr>up_badgeid := badge\<rparr>;
          draw = infoPic_v1 N upd in
      bindB (dbC E (\<lambda>S. osu_getqq S uid)) (\<lambda>qq.
      if qq = 0 then justB (draw u False True False)
      else if days > 0 then
        bindB (user_data E uid days prev) (\<lambda>(prev, n).
        if n = - 1 then answered E tar T_no_data_of_day
        else if n = 0 then justB (draw (prev\<lparr>ui_days_before := days\<rparr>) True True (event \<noteq> 0))
        else justB (draw (prev\<lparr>ui_days_before := n\<rparr>) True False (event \<noteq> 0)))
      else justB (catchB (\<lambda>e. e = DatabaseError)
        (bindB (user_data E uid 0 prev) (\<lambda>(prev, n). draw prev True True (event \<noteq> 0)))
        (draw u True True (event \<noteq> 0)))))))"

definition show_info :: "score_env \<Rightarrow> message \<Rightarrow> unit bot_prog" where
  "show_info N tar = (case info_argument (ms_message tar) of
     None \<Rightarrow> retB ()
   | Some cmd \<Rightarrow>
       let E = sc_bot N in
       bindB (clean cmd) (\<lambda>cmd.
       thenB (connect_and_count E)
       (finallyB (bindO (info_player E tar cmd) (\<lambda>(pl, days).
          bindO (ask_player E tar T_queried_banned T_no_such_user pl) (\<lambda>(key, mode, u).
          bindB (previous_pplus E (ui_user_id u) (up_pplus no_user_panel)) (\<lambda>pl.
          info_picture N tar (no_user_panel\<lparr>up_user := u\<lparr>ui_mode := mode\<rparr>, up_pplus := pl\<rparr>) mode days))))
          (\<lambda>file. send_message E tar (picture_code (OSUCAT_DIR @ file))))))"

text \<open>The six numbers are read by their index, also when there are none. The second handler is for a
  class that is never thrown: an exception of the network ends the command.\<close>

definition store_pplus :: "score_env \<Rightarrow> user_info \<Rightarrow> unit bot_prog" where
  "store_pplus N u = catchB std_exception
     (bindB (getUserPlusData N (ui_user_id u)) (\<lambda>pp.
      bindB (definedB (case pp of
          [acc, flow, jump, pre, spd, sta] \<Rightarrow>
            Some \<lparr>pl_jump = jump, pl_flow = flow, pl_pre = pre, pl_acc = acc, pl_spd = spd, pl_sta = sta\<rparr>
        | _ \<Rightarrow> None)) (\<lambda>pl.
      dbE (sc_bot N) (\<lambda>d. osu_UpdatePPlus d (ui_user_id u) (ui_pp u) pl))))
     (retB ())"

definition refresh :: "score_env \<Rightarrow> message \<Rightarrow> user_info \<Rightarrow> unit bot_prog" where
  "refresh N tar u =
     thenB (send_message (sc_bot N) tar T_praying)
     (thenB (DeleteFileA (''./work/avatar/'' @ print_int (ui_user_id u) @ ''.png''))
     (thenB (store_pplus N u)
     (show_info N (tar\<lparr>ms_message := ''info '' @ ui_username u\<rparr>))))"

definition update_command :: "score_env \<Rightarrow> message \<Rightarrow> unit bot_prog" where
  "update_command N tar =
     (let E = sc_bot N in
      thenB (connect_and_count E)
      (bindB (argument 6 tar) (\<lambda>cmd.
       bindB (definedB (cqunescape cmd)) (\<lambda>cmd.
       bindB (trimB cmd) (\<lambda>cmd.
       finallyB (if cmd \<noteq> [] then
           bindB (user_by_name E cmd 0 no_user) (\<lambda>(u, found). if found = 0 then answered E tar T_no_such_user else retO u)
         else
           bindO (own_account E tar) (\<lambda>uid.
           bindB (default_mode E uid) (\<lambda>mode.
           bindB (user_by_id E uid mode no_user) (\<lambda>(u, found).
           if found mod 256 = 0 then answered E tar T_queried_banned else retO u)))) (refresh N tar))))))"

subsection \<open>Best plays as a table\<close>

definition bpht_mode :: "int \<Rightarrow> string" where
  "bpht_mode m = (if m = 0 then ''Standard'' else if m = 1 then ''Taiko'' else if m = 2 then ''Ctb''
     else if m = 3 then ''Mania'' else ''Unknown'')"

definition pp_line :: "int \<Rightarrow> fp \<Rightarrow> string" where
  "pp_line k x = T_your_bp @ print_int k @ T_has_pp @ print_fixed 2 x @ T_pp_comma"

definition bpht_text :: "string \<Rightarrow> int \<Rightarrow> fp list \<Rightarrow> string" where
  "bpht_text name mode pps =
     name @ '' ['' @ bpht_mode mode @ '']'' @ NEWLINE @ pp_line 1 (pps ! 0) @ pp_line 2 (pps ! 1) @ ''...'' @ NEWLINE @
     pp_line 99 (pps ! 98) @ pp_line 100 (pps ! 99) @
     T_pp_gap @ print_fixed 2 (subd (pps ! 0) (pps ! 99)) @ T_pp_comma @
     T_pp_average @ print_fixed 2 (divd (foldl addd (Num 0) (take 100 pps)) (Num 100)) @ T_pp_end"

text \<open>A player who was named with a mode is not asked for: the name in the picture stays empty.\<close>

definition bpht_plays :: "score_env \<Rightarrow> message \<Rightarrow> asked_player \<Rightarrow> (user_info \<times> int \<times> score_info list) option bot_prog" where
  "bpht_plays N tar pl = (case pl of (uid, name, mode, u) \<Rightarrow>
     let E = sc_bot N; A = db_api (be_db E) in
     bindO (if name = [] then
         bindB (definedB uid) (\<lambda>uid.
         bindB (user_by_id E uid mode u) (\<lambda>(u, found).
         if found = 0 then answered E tar T_queried_banned
         else bindB (asked (GetUserBest_by_id A uid 100 mode [])) (\<lambda>(ss, n). retO (u, ss, n))))
       else if length name > 40 then answered E tar T_too_long
       else bindB (asked (GetUserBest_by_name A name 100 mode [])) (\<lambda>(ss, n). retO (u, ss, n))) (\<lambda>(u, ss, n).
     if n = 0 \<or> length ss < 100 then answered E tar T_play_more else retO (u, mode, ss)))"

definition bphead_tail :: "score_env \<Rightarrow> message \<Rightarrow> unit bot_prog" where
  "bphead_tail N tar =
     (let E = sc_bot N in
      bindB (argument 4 tar) (\<lambda>cmd.
      bindB (trimB cmd) (\<lambda>cmd.
      bindB (definedB (cqunescape cmd)) (\<lambda>cmd.
      bindB (replaceB cmd T_wide_colon '':'') (\<lambda>cmd.
      bindB (replaceB cmd ''[CQ:'' []) (\<lambda>cmd.
      thenB (connect_and_count E)
      (finallyB (bindO (player_of E tar T_queried_banned False False (own_mode E tar False cmd) cmd no_user)
         (bpht_plays N tar)) (\<lambda>(u, mode, ss).
       bindB (liftB (sprintf_buf 1024 (bpht_text (ui_username u) mode (map si_pp ss)))) (\<lambda>m.
       bindB (bpht_img N m) (\<lambda>file. send_message E tar (picture_code file)))))))))))"

subsection \<open>Two players\<close>

definition ppvs :: "score_env \<Rightarrow> message \<Rightarrow> unit bot_prog" where
  "ppvs N tar =
     (let E = sc_bot N in
      bindB (argument 4 tar) (\<lambda>cmd.
      bindB (trimB cmd) (\<lambda>cmd.
      bindB (definedB (cqunescape cmd)) (\<lambda>cmd.
      if cmd = [] then send_message E tar T_give_opponent
      else if length cmd > 40 then send_message E tar T_too_long
      else
        thenB (connect_and_count E)
        (finallyB (bindO (own_account E tar) (\<lambda>uid.
           bindB (user_by_id E uid 0 no_user) (\<lambda>(u1, found).
           if found = 0 then answered E tar T_queried_banned
           else
             bindB (user_by_name E cmd 0 no_user) (\<lambda>(u2, found).
             if found = 0 then answered E tar T_no_such_user else retO (u1, u2))))) (\<lambda>(u1, u2).
         bindB (dbE E (\<lambda>d. osu_GetUserPreviousPP d (ui_user_id u1))) (\<lambda>_.
         bindB (dbE E (\<lambda>d. osu_GetUserPreviousPP d (ui_user_id u2))) (\<lambda>_.
         bindB (previous_pplus E (ui_user_id u1) (up_pplus no_user_panel)) (\<lambda>p1.
         bindB (previous_pplus E (ui_user_id u2) (up_pplus no_user_panel)) (\<lambda>p2.
         let panel = (\<lambda>u p. no_user_panel\<lparr>up_user := u\<lparr>ui_updatepplus := False\<rparr>, up_pplus := p\<rparr>) in
         bindB (ppvsimg N (panel u1 p1) (panel u2 p2)) (\<lambda>file.
         send_message E tar (picture_code (OSUCAT_DIR @ file)))))))))))))"

subsection \<open>The number of a player\<close>

text \<open>A name of one character counts as none.\<close>

definition named_or_own :: "botenv \<Rightarrow> message \<Rightarrow> int option bot_prog \<Rightarrow> string \<Rightarrow> (int option \<times> string) option bot_prog" where
  "named_or_own E tar own cmd =
     (if length cmd > 1 then
        if is_mention cmd then bindO (mentioned E tar cmd) (\<lambda>uid. retO (Some uid, [])) else retO (None, cmd)
      else bindO own (\<lambda>uid. retO (Some uid, [])))"

definition player_found :: "botenv \<Rightarrow> message \<Rightarrow> (int option \<times> string) \<Rightarrow> user_info option bot_prog" where
  "player_found E tar target = (case target of (uid, name) \<Rightarrow>
     if name = [] then
       bindB (definedB uid) (\<lambda>uid.
       bindB (user_by_id E uid 0 no_user) (\<lambda>(u, found). if found = 0 then answered E tar T_queried_banned else retO u))
     else if length name > 40 then answered E tar T_too_long
     else bindB (user_by_name E name 0 no_user) (\<lambda>(u, found). if found = 0 then answered E tar T_no_such_user else retO u))"

definition searchuid :: "score_env \<Rightarrow> message \<Rightarrow> unit bot_prog" where
  "searchuid N tar =
     (let E = sc_bot N in
      bindB (argument 9 tar) (\<lambda>cmd.
      bindB (clean cmd) (\<lambda>cmd.
      thenB (connect_and_count E)
      (finallyB (bindO (named_or_own E tar
           (bindB (dbC E (\<lambda>S. osu_getuserid S (ms_user_id tar))) (\<lambda>uid.
            if uid = 0 then thenB (send_message E tar T_queried_not_bound) (answered E tar T_not_bound) else retO uid)) cmd)
         (player_found E tar)) (\<lambda>u.
       send_message E tar (ui_username u @ T_uid_is @ print_int (ui_user_id u)))))))"

end
