(* ===== verification/Costs.thy ===== *)
theory Costs
  imports Figures Admin
begin

text \<open>
  Two calculations of the class \<^verbatim>\<open>Main\<close> in \<^verbatim>\<open>src/osucat.hpp\<close>: \<^verbatim>\<open>roleCost\<close>, the cost of a player in three
  tournaments, and \<^verbatim>\<open>bonuspp\<close>, which estimates the points outside the hundred best plays by a line
  through their logarithms. Then the pictures that players upload, and the daily update of the class
  \<^verbatim>\<open>System\<close>.
\<close>

subsection \<open>Costs\<close>

definition macro_min :: "fp \<Rightarrow> fp \<Rightarrow> fp" where
  "macro_min a b = (if flt a b then a else b)"

definition occ_cost :: "libm \<Rightarrow> fp \<Rightarrow> pplus_info \<Rightarrow> fp" where
  "occ_cost M p pl =
     (let power = (\<lambda>n x. m_pow M (i2d n) (dlit x));
          z = sum_doubles [muld (dlit (192 / 100)) (power (pl_jump pl) (953 / 1000)),
            muld (dlit (697 / 10)) (power (pl_flow pl) (596 / 1000)),
            muld (dlit (588 / 1000)) (power (pl_spd pl) (1175 / 1000)),
            muld (dlit (306 / 100)) (power (pl_sta pl) (993 / 1000))];
          a = muld (power (pl_acc pl) (12768 / 10000)) (m_pow M p (dlit (88213 / 100000))) in
      addd (macro_min (muld (muld (dlit (930973 / 100000000)) (m_pow M (divd p (Num 1000)) (dlit (264192 / 100000))))
          (m_pow M (divd z (Num 4000)) (dlit (148422 / 100000)))) (Num 7))
        (macro_min (divd a (Num 7554280)) (Num 3)))"

definition onc_cost :: "libm \<Rightarrow> fp \<Rightarrow> fp option" where
  "onc_cost M pp = round_to M (subd (m_pow M (dlit (100053 / 100000)) pp) (dlit (288 / 100))) (Num 2)"

definition rank_elo :: "libm \<Rightarrow> int \<Rightarrow> fp option" where
  "rank_elo M rank = do {
     r \<leftarrow> ck (rank + 500);
     Some (subd (Num 1500) (muld (Num 600) (divd (m_log M (divd (i2d r) (Num 8500))) (m_log M (Num 4))))) }"

definition ost_elo :: "libm \<Rightarrow> int \<Rightarrow> int \<Rightarrow> int option" where
  "ost_elo M rank elo = do {
     re \<leftarrow> rank_elo M rank;
     if elo = 0 then to_cint re
     else if flt re (i2d elo) then Some elo
     else to_cint (addd (muld (dlit (8 / 10)) re) (muld (dlit (2 / 10)) (i2d elo))) }"

definition ost_cost :: "libm \<Rightarrow> int \<Rightarrow> int \<Rightarrow> fp option" where
  "ost_cost M rank elo = do {
     elo \<leftarrow> ost_elo M rank elo;
     if elo > 850 then do {
       d \<leftarrow> ck (elo - 700);
       n \<leftarrow> ck (27 * d);
       round_to M (divd (i2d n) (Num 3200)) (Num 2) }
     else do {
       d \<leftarrow> ck (elo - 400);
       let cost = muld (Num 3) (m_pow M (divd (i2d d) (Num 600)) (Num 3));
       round_to M (if fle cost (Num 0) then Num 0 else cost) (Num 2) } }"

text \<open>\<^verbatim>\<open>preProcess\<close>: its \<^verbatim>\<open>return\<close> ends only itself, so that the cost is computed also after an answer, from
  a player of zeros.\<close>

definition cost_player :: "score_env \<Rightarrow> message \<Rightarrow> string \<Rightarrow> user_panel bot_prog" where
  "cost_player N tar cmd =
     (let E = sc_bot N in
      bindB (replaceB cmd T_wide_colon '':'') (\<lambda>cmd.
      bindB (replaceB cmd ''[CQ:'' []) (\<lambda>cmd.
      bindB (bindO (named_or_own E tar (own_account E tar) cmd) (player_found E tar)) (\<lambda>r.
      case r of
        None \<Rightarrow> retB no_user_panel
      | Some u \<Rightarrow>
          bindB (previous_pplus E (ui_user_id u) (up_pplus no_user_panel)) (\<lambda>pl.
          retB (no_user_panel\<lparr>up_user := u, up_pplus := pl\<rparr>))))))"

definition send_cost :: "score_env \<Rightarrow> message \<Rightarrow> string \<Rightarrow> user_panel \<Rightarrow> fp \<Rightarrow> unit bot_prog" where
  "send_cost N tar what p c =
     bindB (liftB (sprintf_buf 512 (what @ ui_username (up_user p) @ T_cost_is @ print_fixed 2 c)))
       (send_message (sc_bot N) tar)"

definition occ_command :: "score_env \<Rightarrow> message \<Rightarrow> user_panel \<Rightarrow> unit bot_prog" where
  "occ_command N tar p = send_cost N tar T_occ p (occ_cost (e_libm (sc_env N)) (ui_pp (up_user p)) (up_pplus p))"

definition onc_command :: "score_env \<Rightarrow> message \<Rightarrow> user_panel \<Rightarrow> unit bot_prog" where
  "onc_command N tar p =
     (let pp = ui_pp (up_user p) in
      if fle pp (Num 4000) \<and> fle (Num 2000) pp
      then bindB (definedB (onc_cost (e_libm (sc_env N)) pp)) (send_cost N tar T_onc p)
      else send_message (sc_bot N) tar T_not_in_range)"

text \<open>A rating of which the last match lies more than a year back counts as none. Exceptions leave it as it
  is, those of the network pass.\<close>

definition match_time :: "score_env \<Rightarrow> json \<Rightarrow> int thrown" where
  "match_time N j =
     (let A = db_api (be_db (sc_bot N)) in
      andThen (member j ''result'') (\<lambda>result.
      case elements result of
        [] \<Rightarrow> Inl Undefined
      | el # _ \<Rightarrow> andThen (text_at el ''start_time'') (\<lambda>t.
          andThen (definedT (fakestrptime A t)) (\<lambda>m. Inr (fst (api_mktime A m))))))"

definition last_match_over :: "score_env \<Rightarrow> int \<Rightarrow> bool bot_prog" where
  "last_match_over N uid =
     bindB (getUserEloRecentPlay N uid) (\<lambda>match_id.
     bindB (getMatchInfo N match_id) (\<lambda>j.
     bindB (liftB (match_time N j)) (\<lambda>t.
     bindB (timeB (sc_bot N)) (\<lambda>now. retB (now - t > 31622400)))))"

definition current_elo :: "score_env \<Rightarrow> int \<Rightarrow> int option bot_prog" where
  "current_elo N uid =
     bindB (catchB std_exception (getUserElo N uid) (retB (None, Inl TypeError))) (\<lambda>(elo, changed).
     catchB std_exception
       (bindB (liftB changed) (\<lambda>changed.
        if \<not> changed then retB (Some 0)
        else bindB (last_match_over N uid) (\<lambda>over. retB (if over then Some 0 else elo))))
       (retB elo))"

definition ost_command :: "score_env \<Rightarrow> message \<Rightarrow> user_panel \<Rightarrow> unit bot_prog" where
  "ost_command N tar p =
     bindB (current_elo N (ui_user_id (up_user p))) (\<lambda>elo.
     bindB (definedB elo) (\<lambda>elo.
     bindB (definedB (ost_cost (e_libm (sc_env N)) (int32 (ui_global_rank (up_user p))) elo)) (send_cost N tar T_ost p)))"

definition roleCost :: "score_env \<Rightarrow> message \<Rightarrow> unit bot_prog" where
  "roleCost N tar =
     (let E = sc_bot N;
          cost = (\<lambda>cmd f. bindB (definedB (cqunescape (drop 3 cmd))) (\<lambda>cmd. bindB (cost_player N tar cmd) (f N tar))) in
      bindB (argument 8 tar) (\<lambda>cmd.
      bindB (definedB (cqunescape cmd)) (\<lambda>cmd.
      bindB (trimB cmd) (\<lambda>cmd.
      bindB (replaceB cmd '' '' []) (\<lambda>cmd.
      thenB (connect_and_count E)
        (if command_is 3 ''occ'' cmd then cost cmd occ_command
         else if command_is 3 ''onc'' cmd then cost cmd onc_command
         else if command_is 3 ''ost'' cmd then cost cmd ost_command
         else send_message E tar T_which_match))))))"

subsection \<open>Bonus points\<close>

fun weighted_from :: "libm \<Rightarrow> int \<Rightarrow> fp list \<Rightarrow> fp list" where
  "weighted_from M i [] = []"
| "weighted_from M i (x # xs) = muld x (m_pow M (dlit (95 / 100)) (i2d i)) # weighted_from M (i + 1) xs"

definition sum_from_0 :: "fp list \<Rightarrow> fp" where
  "sum_from_0 xs = foldl addd (Num 0) xs"

text \<open>The numbers 1, 2, ... of the values and their weights.\<close>

definition numbered :: "(fp \<Rightarrow> fp) \<Rightarrow> fp list \<Rightarrow> (fp \<times> fp \<times> fp) list" where
  "numbered log1p ys = map (\<lambda>(n, y). (i2d (int n), y, log1p (addd (i2d (int n)) (Num 1)))) (enumerate 1 ys)"

definition regression :: "libm \<Rightarrow> (fp \<Rightarrow> fp) \<Rightarrow> fp list \<Rightarrow> fp \<times> fp" where
  "regression M log1p ys =
     (let ps = numbered log1p ys;
          sumX = sum_from_0 (map (\<lambda>(n, y, w). w) ps);
          avgX = divd (sum_from_0 (map (\<lambda>(n, y, w). muld n w) ps)) sumX;
          avgY = divd (sum_from_0 (map (\<lambda>(n, y, w). muld y w) ps)) sumX;
          sumOxy = sum_from_0 (map (\<lambda>(n, y, w). muld (muld (subd n avgX) (subd y avgY)) w) ps);
          sumOx2 = sum_from_0 (map (\<lambda>(n, y, w). muld (m_pow M (subd n avgX) (Num 2)) w) ps);
          slope = divd (divd sumOxy sumX) (divd sumOx2 sumX) in
      (subd avgY (muld slope avgX), slope))"

text \<open>The loop from 100 to the number of plays, which ends before it at a value that is not positive.\<close>

fun tail_points :: "libm \<Rightarrow> fp \<times> fp \<Rightarrow> nat \<Rightarrow> int \<Rightarrow> fp \<Rightarrow> fp" where
  "tail_points M b 0 n pp = pp"
| "tail_points M b (Suc k) n pp =
     (let val = m_pow M (Num 100) (addd (fst b) (muld (snd b) (i2d n))) in
      if fle val (Num 0) then pp else tail_points M b k (n + 1) (addd pp val))"

definition round_half_away :: "fp \<Rightarrow> fp" where
  "round_half_away x = (if finite_fp x
     then Num (of_int (if fsign x then - \<lfloor>1 / 2 - fval x\<rfloor> else \<lfloor>fval x + 1 / 2\<rfloor>)) else x)"

definition all_points :: "libm \<Rightarrow> (fp \<Rightarrow> fp) \<Rightarrow> fp list \<Rightarrow> int \<Rightarrow> fp" where
  "all_points M log1p bps playcount =
     (let ws = weighted_from M 0 bps;
          ys = map (\<lambda>w. divd (m_log10 M w) (m_log10 M (Num 100))) ws in
      addd (sum_from_0 ws) (tail_points M (regression M log1p ys) (nat (playcount - 99)) 100 (Num 0)))"

text \<open>The number of scores is rounded before the test for NaN.\<close>

definition bonus_points :: "libm \<Rightarrow> (fp \<Rightarrow> fp) \<Rightarrow> fp list \<Rightarrow> user_info \<Rightarrow> (fp \<times> fp \<times> int) option" where
  "bonus_points M log1p bps u =
     (let scorepp = all_points M log1p bps (ui_playcount u);
          bonus = subd (ui_pp u) scorepp in do {
        total \<leftarrow> sum_ck (ui_count_a u) [ui_count_s u, ui_count_sh u, ui_count_ss u, ui_count_ssh u];
        scores \<leftarrow> (if total \<ge> 25397 \<or> fle (dlit (4166667 / 10000)) bonus then Some (max total 25397)
          else to_cint (round_half_away (divd
            (m_log10 M (addd (fneg (divd bonus (dlit (4166667 / 10000)))) (Num 1))) (m_log10 M (dlit (9994 / 10000))))));
        Some (if scorepp = NaN \<or> bonus = NaN then (Num 0, Num 0, 0) else (scorepp, bonus, scores)) })"

definition bonus_mode :: "int \<Rightarrow> string" where
  "bonus_mode m = (if m = 0 then ''osu!Standard'' else if m = 1 then ''osu!Taiko'' else if m = 2 then ''osu!Catch the Beat''
     else if m = 3 then ''osu!Mania'' else ''error'')"

definition bonus_text :: "user_info \<Rightarrow> int \<Rightarrow> fp \<times> fp \<times> int \<Rightarrow> string" where
  "bonus_text u mode r = (case r of (scorepp, bonus, scores) \<Rightarrow>
     ui_username u @ ''  ('' @ bonus_mode mode @ T_total_pp @ print_fixed 2 (ui_pp u) @ T_raw_pp @ print_fixed 2 scorepp @
     T_bonus_pp @ print_fixed 2 bonus @ T_computed @ print_int scores @ T_ranked_scores)"

definition bonuspp :: "score_env \<Rightarrow> message \<Rightarrow> unit bot_prog" where
  "bonuspp N tar =
     (let E = sc_bot N; A = db_api (be_db E) in
      thenB (connect_and_count E)
      (bindB (argument 7 tar) (\<lambda>cmd.
       bindB (clean cmd) (\<lambda>cmd.
       finallyB (bindO (player_of E tar T_queried_banned True False (own_mode E tar False cmd) cmd no_user) (\<lambda>pl.
         bindO (ask_player E tar T_queried_banned T_no_such_user pl) (\<lambda>(key, mode, u).
         bindB (case key of
             Inl uid \<Rightarrow> asked (GetUserBest_by_id A uid 100 mode [])
           | Inr name \<Rightarrow> asked (GetUserBest_by_name A name 100 mode [])) (\<lambda>(bp, found).
         if found = 0 then answered E tar (case key of Inl uid \<Rightarrow> T_no_scores_you | Inr name \<Rightarrow> T_no_scores_they)
         else retO (u, mode, map si_pp bp))))) (\<lambda>(u, mode, bps).
       bindB (definedB (bonus_points (e_libm (sc_env N)) (sc_log1p N) bps u)) (\<lambda>r.
       bindB (liftB (sprintf_buf 1024 (bonus_text u mode r))) (send_message E tar)))))))"

subsection \<open>Pictures of the players\<close>

definition BANNER_PICTURE :: string where
  "BANNER_PICTURE = ''[CQ:image,file=''"

text \<open>The uploaded picture: its path, once the file is there.\<close>

definition uploaded :: "score_env \<Rightarrow> message \<Rightarrow> nat \<Rightarrow> string \<Rightarrow> (int \<times> int \<times> string) option bot_prog" where
  "uploaded N tar n help_text =
     (let E = sc_bot N in
      bindB (argument n tar) (\<lambda>cmd.
      if str_find cmd BANNER_PICTURE 0 = None then answered E tar help_text
      else
        thenB (connect_and_count E)
        (bindO (own_account E tar) (\<lambda>uid.
         bindB (dbC E (\<lambda>S. osu_getqq S uid)) (\<lambda>qq.
         let name = GetMiddleText cmd BANNER_PICTURE '',url'' in
         bindB (getImage E name) (\<lambda>info.
         let path = T_cache @ name @ ''.'' @ pc_format info in
         bindB (fileExist path) (\<lambda>ok.
         if \<not> ok then answered E tar T_picture_error else retO (uid, qq, path))))))))"

definition to_check :: "score_env \<Rightarrow> message \<Rightarrow> string \<Rightarrow> string \<Rightarrow> int \<Rightarrow> int \<Rightarrow> string \<Rightarrow> unit bot_prog" where
  "to_check N tar what check uid qq file =
     (let E = sc_bot N in
      thenB (send_message E tar T_uploaded)
        (send_group_message E (be_group E) (what @ print_int uid @ T_operator_qq @ print_int qq @ check @ picture_code file)))"

text \<open>ImageMagick reads the file, fits it, and writes the result, or throws.\<close>

definition draw_banner :: "score_env \<Rightarrow> string \<Rightarrow> string \<Rightarrow> unit bot_prog" where
  "draw_banner N path dest b = (case sc_banner N (case bt_files b path of None \<Rightarrow> [] | Some c \<Rightarrow> c) of
     Inl e \<Rightarrow> (b, Inl e)
   | Inr c \<Rightarrow> (b\<lparr>bt_files := (bt_files b)(dest \<mapsto> c)\<rparr>, Inr ()))"

definition setbanner_v1 :: "score_env \<Rightarrow> message \<Rightarrow> unit bot_prog" where
  "setbanner_v1 N tar = finallyB (uploaded N tar 9 T_banner_help) (\<lambda>(uid, qq, path).
     let filepath = T_banner_verify @ print_int uid @ ''.png'' in
     thenB (draw_banner N path filepath)
       (to_check N tar T_new_banner T_check_banner uid qq (drop 14 filepath)))"

definition is_panel :: "score_env \<Rightarrow> string \<Rightarrow> bool bot_prog" where
  "is_panel N path b = (b, sc_is_panel N (case bt_files b path of None \<Rightarrow> [] | Some c \<Rightarrow> c))"

definition setinfopanel_v1 :: "score_env \<Rightarrow> message \<Rightarrow> unit bot_prog" where
  "setinfopanel_v1 N tar =
     (let E = sc_bot N in
      finallyB (uploaded N tar 12 T_panel_help) (\<lambda>(uid, qq, path).
      bindB (is_panel N path) (\<lambda>ok.
      if \<not> ok then send_message E tar T_panel_wrong
      else
        bindB (copyFile E path (T_panel_verify @ print_int uid @ ''.png'')) (\<lambda>ok.
        if \<not> ok then send_message E tar T_unknown_error_here
        else to_check N tar T_new_panel T_check_panel uid qq (drop 14 (T_panel_verify @ print_int uid @ ''.png''))))))"

subsection \<open>The daily update\<close>

text \<open>What the thread for a player does: each mode is tried three times when the network fails. True: an
  exception of the standard library came, and the whole is begun again.\<close>

definition store_mode :: "botenv \<Rightarrow> int \<Rightarrow> string \<Rightarrow> int \<Rightarrow> user_info \<Rightarrow> user_info bot_prog" where
  "store_mode E uid timeStr mode u =
     bindB (user_by_id E uid mode u) (\<lambda>(u, found).
     thenB (if found \<noteq> 0 then catchB (\<lambda>e. e = DatabaseError) (dbE E (\<lambda>d. AddUserData d u timeStr)) (retB ())
       else retB ()) (retB u))"

fun up_to :: "nat \<Rightarrow> (user_info \<Rightarrow> user_info bot_prog) \<Rightarrow> user_info \<Rightarrow> user_info bot_prog" where
  "up_to 0 f u = retB u"
| "up_to (Suc n) f u = catchB (\<lambda>e. e = NetworkError) (f u) (up_to n f u)"

definition dailyUpdatePoster :: "botenv \<Rightarrow> int \<Rightarrow> string \<Rightarrow> bool bot_prog" where
  "dailyUpdatePoster E uid timeStr =
     (let once = (\<lambda>mode. up_to 3 (store_mode E uid timeStr mode)) in
      thenB (dbC E Connect)
      (catchB std_exception
        (bindB (once 0 no_user) (\<lambda>u. bindB (once 1 u) (\<lambda>u. bindB (once 2 u) (\<lambda>u. bindB (once 3 u) (\<lambda>u. retB False)))))
        (retB True)))"

text \<open>What both updates tell at the end.\<close>

definition updated_text :: "score_env \<Rightarrow> int list \<Rightarrow> string bot_prog" where
  "updated_text N users b = (b, Inr (T_updated_all @ print_int (int (length users)) @ T_users_in @
     Duration2StrWithoutDAY (word_of_int (sc_elapsed N (wd_log (bt_world b))))))"

text \<open>The command starts a thread for each player and tells how long that took.\<close>

definition UpdateManually :: "score_env \<Rightarrow> message \<Rightarrow> unit bot_prog" where
  "UpdateManually N tar =
     (let E = sc_bot N;
          group = (\<lambda>m. if ms_type tar = GROUP \<and> ms_group_id tar \<noteq> be_group E
            then send_group_message E (be_group E) m else retB ()) in
      thenB (send_message E tar T_updating)
      (thenB (group (T_administrator @ print_int (ms_user_id tar) @ T_by_hand))
      (thenB (dbC E Connect)
      (bindB (dbE E GetUserSet) (\<lambda>users.
       bindB (updated_text N users) (\<lambda>m. thenB (send_message E tar m) (group m)))))))"

text \<open>One turn of the endless loop of \<^verbatim>\<open>_DailyUpdate\<close>, without its waiting. The hour is looked for by its two
  digits. The command of the system deletes the avatars; the threads of the players are events of their own.
  No handler catches an exception of the database here.\<close>

definition daily_round :: "score_env \<Rightarrow> unit bot_prog" where
  "daily_round N =
     (let E = sc_bot N in
      bindB (timeB E) (\<lambda>now.
      if str_find (db_strftime (be_db E) ''%H'' now) ''04'' 0 = None then retB ()
      else
        thenB (send_group_message E (be_group E) T_updating)
        (thenB delete_avatars
        (thenB (dbC E Connect)
        (bindB (dbE E GetUserSet) (\<lambda>users.
         bindB (updated_text N users) (send_group_message E (be_group E))))))))"

end
