(* ===== verification/Program.thy ===== *)
theory Program
  imports Dispatch Costs
begin

text \<open>
  The whole bot: the dispatcher with the commands that calculate and draw, and what happens to it: a text of
  the chat server, a round of the checks of bans, a turn of the daily update, and the work of its thread for
  one player.
\<close>

fun commands :: "score_env \<Rightarrow> handlers" where
  "commands N Recent tar sdr = recent N tar"
| "commands N Rctpp tar sdr = rctpp N tar"
| "commands N PassRecent tar sdr = pass_recent N tar"
| "commands N Info tar sdr = show_info N tar"
| "commands N BpHeadTail tar sdr = bphead_tail N tar"
| "commands N Bp tar sdr = bp_command N tar"
| "commands N Score tar sdr = score_command N tar"
| "commands N UpdatePanel tar sdr = update_command N tar"
| "commands N PpVs tar sdr = ppvs N tar"
| "commands N Pp tar sdr = pp_command N tar"
| "commands N PpWith tar sdr = ppwith N tar"
| "commands N SetBanner tar sdr = setbanner_v1 N tar"
| "commands N SetInfoPanel tar sdr = setinfopanel_v1 N tar"
| "commands N RoleCost tar sdr = roleCost N tar"
| "commands N BonusPp tar sdr = bonuspp N tar"
| "commands N SearchUid tar sdr = searchuid N tar"
| "commands N DailyUpdate tar sdr = UpdateManually N tar"
| "commands N h tar sdr = retB ()"

definition on_message :: "score_env \<Rightarrow> int \<Rightarrow> message \<Rightarrow> group_sender \<Rightarrow> unit bot_prog" where
  "on_message N junk = dispatch (sc_bot N) junk (commands N)"

datatype bot_event = Text string | BanRound | DailyRound | DailyPost int string

definition on_event :: "score_env \<Rightarrow> int \<Rightarrow> bot_event \<Rightarrow> unit bot_prog" where
  "on_event N junk ev = (case ev of
     Text raw \<Rightarrow> on_text (sc_bot N) junk (commands N) raw
   | BanRound \<Rightarrow> autocheck_round (sc_bot N)
   | DailyRound \<Rightarrow> daily_round N
   | DailyPost uid time \<Rightarrow> bindB (dailyUpdatePoster (sc_bot N) uid time) (\<lambda>_. retB ()))"

end
