(* ===== verification/ScoreRel.thy ===== *)
theory ScoreRel
  imports BotRel Program
begin

text \<open>
  The commands that calculate and draw keep every relation that the primitive operations keep, and so does
  the whole program: the contract \<open>bot_game\<close> in the environment of the program.
\<close>

locale program_relation = bot_game R "sc_bot N" for R :: "bot \<Rightarrow> bot \<Rightarrow> bool" and N :: score_env
begin

lemma m_retO: "moves R (retO x)" by (simp add: retO_def m_ret)
lemma m_answerO: "moves R (answered (sc_bot N) tar t)" unfolding answered_def by (intro basic)
lemma m_bindO: "moves R m \<Longrightarrow> (\<And>x. moves R (f x)) \<Longrightarrow> moves R (bindO m f)"
  unfolding bindO_def by (intro basic)
lemma m_just: "moves R m \<Longrightarrow> moves R (justB m)" unfolding justB_def by (intro m_bind m_retO)
lemma m_finally: "moves R m \<Longrightarrow> (\<And>x. moves R (f x)) \<Longrightarrow> moves R (finallyB m f)"
  unfolding finallyB_def by (intro basic)

lemmas stepsO = m_retO m_answerO m_bindO m_just m_finally m_asked m_catch basic

subsection \<open>Players\<close>

lemma m_clean: "moves R (clean s)" unfolding clean_def by (intro basic)
lemma m_default: "moves R (default_mode (sc_bot N) n)" unfolding default_mode_def by (intro basic)
lemma m_own: "moves R (own_account (sc_bot N) tar)" unfolding own_account_def by (intro stepsO)
lemma m_mentioned: "moves R (mentioned (sc_bot N) tar s)" unfolding mentioned_def by (intro stepsO)
lemma m_number: "moves R (mode_number (sc_bot N) tar c t)" unfolding mode_number_def by (intro stepsO)

lemma m_own_mode: "moves R (own_mode (sc_bot N) tar c s n)" "moves R (own_mode_rctpp (sc_bot N) tar s n)"
    "moves R (other_mode (sc_bot N) tar c s)"
  unfolding own_mode_def own_mode_rctpp_def other_mode_def by (intro stepsO m_number m_default)+

lemma m_named: "moves R (named_player (sc_bot N) tar t c s u)"
  unfolding named_player_def by (intro stepsO m_mentioned m_default)

lemma m_player: "(\<And>n. moves R (own n)) \<Longrightarrow> moves R (player_of (sc_bot N) tar t c d own s u)"
  unfolding player_of_def by (intro stepsO m_own m_default m_mentioned m_own_mode m_named)

lemma m_ask: "moves R (ask_player (sc_bot N) tar s t p)"
  unfolding ask_player_def by (intro stepsO)

lemmas stepsP = m_clean m_default m_own m_mentioned m_own_mode m_player m_ask stepsO

subsection \<open>Pictures\<close>

lemma m_https: "moves R (https N url)" by (simp add: m_stay https_def)

lemma m_made: "moves R (made N i)" and m_blank: "moves R (blank N w h c)"
  unfolding blank_def made_def by (intro basic)+

lemma m_open: "moves R (open_image N path)"
  using m_made[of "Opened _"] by (auto simp: moves_def open_image_def refl split: option.split)

lemma m_edit: "moves R (draw N dl i)" "moves R (composite N j x y op i)" "moves R (resize N w h i)"
    "moves R (crop N w h x y i)" "moves R (set_to s i)"
  unfolding draw_def composite_def resize_def crop_def set_to_def by (intro m_made m_ret)+

lemma m_write: "moves R (write_image N path i)"
  by (simp add: moves_def write_image_def files refl)

lemma m_edits: "list_all (\<lambda>f. \<forall>j. moves R (f j)) fs \<Longrightarrow> moves R (edits fs i)"
  by (induction fs arbitrary: i) (auto intro: m_ret m_bind)

lemma m_attempt: "list_all (\<lambda>f. \<forall>j. moves R (f j)) fs \<Longrightarrow> moves R (attempt fs i)"
  by (induction fs arbitrary: i) (auto intro!: m_ret m_bind m_catch split: option.split)

lemma m_all: "list_all P []" "P f \<Longrightarrow> list_all P fs \<Longrightarrow> list_all P (f # fs)"
  by simp_all

lemma m_paste: "moves R (paste N path x y i)" "moves R (paste_resized N path w h x y i)" "moves R (rounded_frame N w h d)"
  unfolding paste_def paste_resized_def rounded_frame_def by (intro m_bind m_open m_edit m_blank)+

lemma m_download: "moves R (DownloadFile E url path)"
  by (simp add: moves_def DownloadFile_def files refl split: sum.split)

lemma m_engine: "moves R (avatar_url N uid)" and m_file_text: "moves R (file_text path)"
  by (simp_all add: m_stay avatar_url_def file_text_def)

lemma m_save: "moves R (save_as N d e i)"
proof -
  have "R b (fst (thenB (write_image N p i) (retB x) b))" for p b and x :: string by (intro movesD m_then m_write m_ret)
  then show ?thesis unfolding moves_def save_as_def Let_def by blast
qed

lemma m_handle: "moves R h \<Longrightarrow> moves R m \<Longrightarrow> moves R (on_magick_error h m)"
  unfolding on_magick_error_def by (rule m_catch)

lemma m_fetch: "moves R (fetch_avatar N uid)"
  unfolding fetch_avatar_def by (intro m_engine m_download m_open m_write basic)

lemma m_hexagram: "moves R (draw_v1 N ps ms es x y hi i)"
  unfolding draw_v1_def by (intro m_edits m_all allI m_blank m_edit basic)

lemmas stepsD = m_made m_blank m_open m_edit m_write m_edits m_attempt m_all allI m_paste m_download m_engine
  m_file_text m_save m_handle m_fetch m_hexagram stepsO

subsection \<open>The picture of a play\<close>

lemma m_layers: "moves R (background_layers N name)"
  unfolding background_layers_def cut_small_def cut_large_def by (intro stepsD)

lemma m_background: "moves R (score_background N p t i)"
  unfolding score_background_def draw_background_def Let_def by (intro m_layers stepsD)

lemma m_score_texts: "moves R (draw_titles N p i)" "moves R (draw_points N p i)" "moves R (draw_hits N p i)"
    "moves R (draw_settings N p i)" "moves R (draw_stars N p i)" "moves R (draw_time N p i)"
    "moves R (draw_accuracies N p i)" "moves R (draw_accuracy N p i)" "moves R (draw_username N p i)"
  unfolding draw_titles_def draw_points_def draw_hits_def draw_settings_def draw_stars_def draw_time_def
    draw_accuracies_def draw_accuracy_def draw_username_def Let_def by (intro stepsD)+

lemma m_score_avatar: "moves R (draw_score_avatar N p t i)"
  unfolding draw_score_avatar_def fetch_score_avatar_def draw_avatar_file_def round_avatar_def Let_def by (intro stepsD)

lemma m_icons: "list_all (\<lambda>f. \<forall>j. moves R (f j)) (map (\<lambda>(m, x). paste_resized N (d @ m @ e) w h x y) ms)"
  by (induction ms) (auto intro: m_paste)

lemma m_score_icons: "moves R (draw_ring N p i)" "moves R (draw_status N p i)" "moves R (draw_rank N p i)"
    "moves R (draw_mods N p i)"
  unfolding draw_ring_def draw_status_def draw_rank_def draw_mods_def by (intro m_icons stepsD)+

lemma m_scorePic: "moves R (scorePic N p)"
  unfolding scorePic_def by (intro m_background m_score_texts m_score_avatar m_score_icons m_https stepsD)

subsection \<open>The pictures of players\<close>

lemma m_plus: "moves R (getUserPlusData N n)"
  unfolding getUserPlusData_def by (intro stepsO m_https)

lemma m_banner_link: "moves R (any_banner (sc_bot N))" "moves R (GetBannerLink N n)"
  unfolding GetBannerLink_def any_banner_def by (intro stepsO m_https)+

lemma m_cover: "moves R (fetch_cover N n)"
  unfolding fetch_cover_def Let_def by (intro m_banner_link stepsD)

lemma m_v1_parts: "moves R (paste_own N p s i)" "moves R (v1_avatar N n e i)" "moves R (level_bar N k)"
    "moves R (v1_plus N d i)"
    "moves R (v1_badge N k i)"
  unfolding paste_own_def v1_avatar_def level_bar_def v1_plus_def v1_badge_def Let_def by (intro stepsD)+

lemma m_info_v1: "moves R (infoPic_v1 N d prev bonded exact event)"
  unfolding infoPic_v1_def Let_def by (intro m_cover m_v1_parts stepsD)

lemma m_plus_of: "moves R (plus_of N d)"
  unfolding plus_of_def Let_def by (intro m_plus stepsO)

lemma m_small_pics: "moves R (bpht_img N m)" "moves R (ppvsimg N u v)"
proof -
  have "moves R (vs_hexagrams N c ps qs i)" for c ps qs i
    by (cases c) (auto simp: vs_hexagrams_def Let_def intro!: m_bind m_hexagram m_ret)
  then show "moves R (bpht_img N m)" "moves R (ppvsimg N u v)"
    unfolding bpht_img_def ppvsimg_def Let_def by (intro m_plus_of stepsD | assumption)+
qed

subsection \<open>Plays\<close>


lemma m_with_map: "moves R (with_map N tar p)"
  unfolding with_map_def Let_def by (intro stepsO m_https)

lemma m_send_score: "moves R (send_score N tar bid p)"
  unfolding send_score_def by (intro stepsO m_scorePic)

lemma m_no_play: "moves R (no_play (sc_bot N) tar s t m)" unfolding no_play_def by (intro stepsO)

lemma m_last: "moves R (last_play N tar key mode)" "moves R (last_passes N tar key mode)"
  unfolding last_play_def last_passes_def Let_def by (intro stepsO m_no_play)+

lemma m_show_panel: "moves R (show_panel N tar p)"
  unfolding show_panel_def by (intro m_with_map m_send_score stepsO)

lemma m_recent_player: "moves R (recent_player N tar s)"
  unfolding recent_player_def Let_def by (intro stepsP)

lemma m_recent: "moves R (recent N tar)" "moves R (pass_recent N tar)"
  unfolding recent_def pass_recent_def by (intro stepsP m_recent_player m_last m_show_panel)+

lemma m_bp_request: "moves R (bp_request (sc_bot N) tar s)"
  unfolding bp_request_def bp_name_def bp_mode_def Let_def by (intro stepsP m_number)

lemma m_best_plays: "moves R (best_plays N tar key mode n)"
  unfolding best_plays_def Let_def by (intro stepsO)

lemma m_bp: "moves R (bp_command N tar)"
  unfolding bp_command_def Let_def by (intro stepsP m_bp_request m_best_plays m_with_map m_send_score)

lemma m_score: "moves R (score_command N tar)"
  unfolding score_command_def Let_def by (intro stepsP m_with_map m_send_score)

lemma m_rctpp: "moves R (rctpp N tar)"
  unfolding rctpp_def Let_def by (intro stepsP m_last m_with_map)

lemma m_pp: "moves R (pp_command N tar)" "moves R (ppwith N tar)"
  unfolding pp_command_def ppwith_def Let_def by (intro stepsO m_https)+

subsection \<open>Figures\<close>

lemma m_own_days: "moves R (own_mode_days (sc_bot N) s n)"
  unfolding own_mode_days_def by (intro stepsP)

lemma m_info_player: "moves R (info_player (sc_bot N) tar s)"
  unfolding info_player_def Let_def by (intro stepsP m_own_days)

lemma m_previous: "moves R (previous_pplus (sc_bot N) n pl)" unfolding previous_pplus_def by (intro stepsO)
lemma m_data: "moves R (user_data (sc_bot N) n d u)" unfolding user_data_def by (intro stepsO)

lemma m_info_picture: "moves R (info_picture N tar upd mode days)"
  unfolding info_picture_def Let_def by (intro stepsO m_data m_info_v1)

lemma m_info: "moves R (show_info N tar)"
  unfolding show_info_def Let_def by (intro stepsP m_info_player m_previous m_info_picture)

lemma m_store_pplus: "moves R (store_pplus N u)"
  unfolding store_pplus_def by (intro stepsO m_plus)

lemma m_update: "moves R (update_command N tar)"
  unfolding update_command_def refresh_def Let_def by (intro stepsP m_store_pplus m_info)

lemma m_bpht: "moves R (bphead_tail N tar)"
  unfolding bphead_tail_def bpht_plays_def Let_def by (intro stepsP m_small_pics)

lemma m_ppvs: "moves R (ppvs N tar)"
  unfolding ppvs_def Let_def by (intro stepsP m_previous m_small_pics)

lemma m_target: "moves R own \<Longrightarrow> moves R (named_or_own (sc_bot N) tar own s)" "moves R (player_found (sc_bot N) tar p)"
  unfolding named_or_own_def player_found_def by (intro stepsP, assumption?)+

lemma m_searchuid: "moves R (searchuid N tar)"
  unfolding searchuid_def Let_def by (intro m_target stepsP)

subsection \<open>Costs, pictures and the daily update\<close>

lemma m_cost_player: "moves R (cost_player N tar s)"
  unfolding cost_player_def Let_def by (intro m_target stepsP m_previous)

lemma m_wiki: "moves R (wiki_get N url)" by (simp add: m_stay wiki_get_def)

lemma m_elo: "moves R (current_elo N n)"
  unfolding current_elo_def last_match_over_def getUserElo_def getUserEloRecentPlay_def getMatchInfo_def
  by (intro stepsO m_wiki)

lemma m_costs: "moves R (occ_command N tar p)" "moves R (onc_command N tar p)" "moves R (ost_command N tar p)"
  unfolding occ_command_def onc_command_def ost_command_def send_cost_def Let_def by (intro stepsO m_elo)+

lemma m_rolecost: "moves R (roleCost N tar)"
  unfolding roleCost_def Let_def by (intro m_cost_player m_costs stepsO)

lemma m_bonuspp: "moves R (bonuspp N tar)"
  unfolding bonuspp_def Let_def by (intro stepsP)

lemma m_uploaded: "moves R (uploaded N tar n t)"
  unfolding uploaded_def Let_def by (intro stepsP m_image)

lemma m_to_check: "moves R (to_check N tar s t u q f)" unfolding to_check_def Let_def by (intro basic)

lemma m_draw_banner: "moves R (draw_banner N s d)"
  by (auto simp: moves_def draw_banner_def files refl split: sum.split)

lemma m_is_panel: "moves R (is_panel N path)" by (simp add: m_stay is_panel_def)

lemma m_setbanner: "moves R (setbanner_v1 N tar)" "moves R (setinfopanel_v1 N tar)"
  unfolding setbanner_v1_def setinfopanel_v1_def Let_def
  by (intro m_uploaded m_draw_banner m_is_panel m_to_check stepsO)+

lemma m_store_mode: "moves R (store_mode (sc_bot N) n t mode u)"
  unfolding store_mode_def by (intro stepsO)

lemma m_up_to: "(\<And>u. moves R (f u)) \<Longrightarrow> moves R (up_to n f u)"
  by (induction n) (simp_all add: m_ret m_catch)

lemma m_poster: "moves R (dailyUpdatePoster (sc_bot N) n t)"
  unfolding dailyUpdatePoster_def Let_def by (intro m_up_to m_store_mode stepsO)

lemma m_updated: "moves R (updated_text N users)" by (simp add: m_stay updated_text_def)

lemma m_manually: "moves R (UpdateManually N tar)"
  unfolding UpdateManually_def Let_def by (intro m_updated basic)

lemma m_daily: "moves R (daily_round N)"
  unfolding daily_round_def Let_def
  by (intro m_updated m_avatars basic)

subsection \<open>The program\<close>

lemma m_commands: "moves R (commands N h tar sdr)"
  by (cases h) (simp_all add: m_ret m_recent m_bp m_score m_rctpp m_pp m_info m_update m_bpht m_ppvs m_searchuid
      m_rolecost m_bonuspp m_setbanner m_manually)

lemma m_on_message:
  "moves R (reloadadmin_command (sc_bot N) (tar\<lparr>ms_message := without_prefix (ms_message tar)\<rparr>)) \<Longrightarrow>
   moves R (on_message N junk tar sdr)"
  unfolding on_message_def by (intro m_dispatch m_commands)

lemma m_event:
  assumes "\<And>tar. moves R (reloadadmin_command (sc_bot N) tar)"
  shows "moves R (on_event N junk ev)"
  unfolding on_event_def on_text_def
  by (cases ev) (auto intro!: m_process m_dispatch m_commands m_round m_daily m_bind m_poster m_ret assms)

end

end
