(* ===== verification/GameProps.thy ===== *)
theory GameProps
  imports LobbyProps
begin

text \<open>
  The properties of the game: what holds of the rooms whatever the players, the clock, the
  generator and the database do; what a guess does; and that rooms never expire.
\<close>

subsection \<open>A run of a command without an exception\<close>

lemma bindG_returnsE:
  assumes "bindG m f w = (w', Inr y)"
  obtains w1 x where "m w = (w1, Inr x)" "f x w1 = (w', Inr y)"
  using assms by (auto simp: bindG_def split: prod.splits sum.splits)

lemma frame_rooms: "frame m \<Longrightarrow> m w = (w', r) \<Longrightarrow> wd_rooms w' = wd_rooms w"
  unfolding frame_def by (metis fst_conv)

lemma yields_result: "yields m P \<Longrightarrow> m w = (w', Inr x) \<Longrightarrow> P x"
  by (simp add: yields_def)

lemma set_room_run: "set_room i h w = (w', r) \<Longrightarrow> wd_rooms w' = (wd_rooms w)[i := h]"
  by (auto simp: set_room_def)

text \<open>An instance: one word, no randomness, a clock that stands still and a database without rows
  in the ranking but for one player.\<close>

definition constant_libm :: libm where
  "constant_libm = \<lparr>m_pow = (\<lambda>_ _. Num 1), m_log = (\<lambda>_. Num 0), m_log10 = (\<lambda>_. Num 0),
     m_sin = (\<lambda>_. Num 0), m_atan2 = (\<lambda>_ _. Num 0)\<rparr>"

definition genv1 :: genv where
  "genv1 = \<lparr>g_libm = constant_libm, g_exp = (\<lambda>x. x), g_words = [''ab''], g_freqs = [1], g_rand = (\<lambda>_. 0),
     g_time = (\<lambda>_. 7), g_server = \<lparr>sv_connect = (\<lambda>_. True), sv_query = (\<lambda>_ sql.
       if kind_of sql = ''select'' then Rows [[(''player_id'', Some ''1''), (''nickname'', Some ''x'')]] else NoResult)\<rparr>,
     g_vararg = (\<lambda>s. s), g_misprint = []\<rparr>"

definition world1 :: world where
  "world1 = (case new_rooms genv1 lobby_size \<lparr>wd_rooms = [], wd_log = [], wd_tick = 0\<rparr> of
     (w, Inr rs) \<Rightarrow> w\<lparr>wd_rooms := rs\<rparr> | (w, Inl e) \<Rightarrow> w)"

definition tar1 :: target where
  "tar1 = \<lparr>tar_user_id = 1, tar_nickname = ''x''\<rparr>"

text \<open>What the two parts of the command to start a game leave.\<close>

definition world_asked :: world where
  "world_asked = fst (playerRankingExists genv1 tar1 world1)"

definition world2 :: world where
  "world2 = fst (seek_room genv1 tar1 (parse_mods ''E'') 0 lobby_size world_asked)"

lemma world1_start: "\<exists>w rs. new_rooms genv1 lobby_size \<lparr>wd_rooms = [], wd_log = [], wd_tick = 0\<rparr> = (w, Inr rs) \<and>
    world1 = w\<lparr>wd_rooms := rs\<rparr>"
proof -
  have "\<not> isl (snd (new_rooms genv1 lobby_size \<lparr>wd_rooms = [], wd_log = [], wd_tick = 0\<rparr>))" by code_simp
  then show ?thesis by (auto simp: world1_def split: prod.split sum.split)
qed

lemma world2_returns: "\<exists>out. perform genv1 (CStart tar1 ''E'') world1 = (world2, Inr out)"
proof -
  have find: "findPlayer (tar_user_id tar1) world1 = (world1, Inr (- 1))" by code_simp
  have asked: "playerRankingExists genv1 tar1 world1 = (world_asked, Inr True)"
  proof -
    have "snd (playerRankingExists genv1 tar1 world1) = Inr True" by code_simp
    then show ?thesis unfolding world_asked_def by (metis prod.collapse)
  qed
  have "case snd (seek_room genv1 tar1 (parse_mods ''E'') 0 lobby_size world_asked) of Inr (Some _) \<Rightarrow> True | _ \<Rightarrow> False"
    by code_simp
  then obtain out where "seek_room genv1 tar1 (parse_mods ''E'') 0 lobby_size world_asked = (world2, Inr (Some out))"
    unfolding world2_def by (auto split: sum.splits option.splits) (metis prod.collapse)
  with find asked show ?thesis by (simp add: startHangman_def bindG_def ret_def)
qed

lemma world2_reachable: "reachable genv1 True world2"
  using world1_start world2_returns by (metis reachable.start reachable.returned)

lemma genv1_tables: "tables_ok genv1"
  by (auto simp: tables_ok_def genv1_def is_letter_def)

subsection \<open>The lobby at any time\<close>

lemma one_seat:
  assumes "distinct (players rs)" "i < j" "j < length rs" "hg_player_id (rs ! i) \<noteq> 0"
  shows "hg_player_id (rs ! i) \<noteq> hg_player_id (rs ! j)"
proof
  assume eq: "hg_player_id (rs ! i) = hg_player_id (rs ! j)"
  have "rs ! j = drop (Suc i) rs ! (j - Suc i)" using assms by simp
  then have "rs ! j \<in> set (drop (Suc i) rs)" using assms by (metis Suc_leI diff_less_mono length_drop nth_mem)
  then have "hg_player_id (rs ! i) \<in> set (players (drop (Suc i) rs))"
    using eq assms by (auto simp: players_def)
  then show False using assms players_split[of i rs] by simp
qed

lemma lobby_inv_meaning:
  assumes "lobby_inv rs"
  shows "length rs = 20 \<and>
    (\<forall>i < 20. \<forall>j < 20. hg_player_id (rs ! i) = hg_player_id (rs ! j) \<longrightarrow> hg_player_id (rs ! i) \<noteq> 0 \<longrightarrow> i = j) \<and>
    (\<forall>h \<in> set rs. distinct (hg_guess_history h) \<and> (\<forall>c \<in> set (hg_guess_history h). 97 \<le> code c \<and> code c \<le> 122) \<and>
       hg_HP h = (if has (hg_mods h) HANGMAN_MOD_E then 8 else 7) -
         int (length (filter (\<lambda>c. c \<notin> set (w_str (hg_word h))) (hg_guess_history h))))"
proof -
  have "i = j" if "hg_player_id (rs ! i) = hg_player_id (rs ! j)" "hg_player_id (rs ! i) \<noteq> 0" "i < 20" "j < 20" for i j
    using one_seat[of rs i j] one_seat[of rs j i] that assms
    by (cases i j rule: linorder_cases) (auto simp: lobby_inv_def lobby_size_def)
  then show ?thesis
    using assms by (auto simp: lobby_inv_def lobby_size_def room_inv_def base_HP_def wrong_guesses_def is_letter_def)
qed

text \<open>C6 As long as no command throws, no player sits in a room whose game is over: the room has points
  left, at most 8, at most 7 of the guesses were wrong and a letter of the word is still hidden.\<close>

theorem lobby_live:
  assumes "reachable E True w" "tables_ok E" "h \<in> set (wd_rooms w)" "hg_player_id h \<noteq> 0"
  shows "1 \<le> hg_HP h \<and> hg_HP h \<le> 8 \<and>
    length (filter (\<lambda>c. c \<notin> set (w_str (hg_word h))) (hg_guess_history h)) \<le> 7 \<and>
    (\<exists>c \<in> set (w_str (hg_word h)). c \<notin> set (hg_guess_history h))"
proof -
  have q: "lobby_inv (wd_rooms w)" "live True {} (wd_rooms w)"
    using reachable_quiet[OF assms(1,2)] by (simp_all add: quiet_def)
  then have "room_inv h" "\<not> isGameEnded h"
    using assms(3,4) by (auto simp: lobby_inv_def live_def in_set_conv_nth)
  then show ?thesis by (auto simp: room_inv_def base_HP_def wrong_guesses_def isGameEnded.simps split: if_splits)
qed

theorem lobby_live_witness:
  "1 \<le> hg_HP (hd (wd_rooms world2)) \<and> hg_player_id (hd (wd_rooms world2)) = 1"
proof -
  have "hd (wd_rooms world2) \<in> set (wd_rooms world2)" and p: "hg_player_id (hd (wd_rooms world2)) = 1"
    by code_simp+
  then show ?thesis
    using lobby_live[OF world2_reachable genv1_tables, of "hd (wd_rooms world2)"] by simp
qed

subsection \<open>Rooms do not expire\<close>

definition taken :: "genv \<Rightarrow> hangman \<Rightarrow> bool" where
  "taken E h \<longleftrightarrow> hg_player_id h \<noteq> 0 \<and> (\<forall>n. hg_start_time h \<le> g_time E n)"

lemma seek_full:
  "i + k \<le> length (wd_rooms w) \<Longrightarrow> \<forall>h \<in> set (wd_rooms w). taken E h \<Longrightarrow>
   \<exists>w'. seek_room E tar mods i k w = (w', Inr None) \<and> wd_rooms w' = wd_rooms w"
proof (induction k arbitrary: i w)
  case (Suc k)
  define w1 where "w1 = w\<lparr>wd_tick := Suc (wd_tick w)\<rparr>"
  have "taken E (wd_rooms w ! i)" using Suc.prems by simp
  then have run: "seek_room E tar mods i (Suc k) w = seek_room E tar mods (Suc i) k w1"
    by (auto simp: bindG_def room_def taken_def expired_def now_def ret_def w1_def HANGMAN_EXPIRATION_TIME_def
        dest: spec[of _ "wd_tick w"] split: prod.split)
  show ?case using Suc.IH[of "Suc i" w1] Suc.prems unfolding run by (simp add: w1_def)
qed (simp add: ret_def)

definition keeps :: "world \<Rightarrow> 'a game \<Rightarrow> bool" where
  "keeps w m \<longleftrightarrow> (\<forall>v. wd_rooms v = wd_rooms w \<longrightarrow> wd_rooms (fst (m v)) = wd_rooms w)"

lemma keeps_bind: "frame m \<Longrightarrow> (\<And>x. keeps w (f x)) \<Longrightarrow> keeps w (bindG m f)"
  unfolding keeps_def frame_def bindG_def by (auto split: prod.split sum.split) (metis fst_conv)+

text \<open>C35 The test whether a room has expired subtracts the clock from the start time. When every
  room is taken by another player and the clock has not gone back behind the start of a game, the command
  to start a game leaves all rooms as they are, however old their games are.\<close>

theorem rooms_never_expire:
  assumes "\<forall>h \<in> set (wd_rooms w). hg_player_id h \<noteq> 0 \<and> (\<forall>n. hg_start_time h \<le> g_time E n)"
    and "length (wd_rooms w) = 20"
  shows "wd_rooms (fst (startHangman E tar cmd w)) = wd_rooms w"
proof -
  let ?tail = "\<lambda>out r. case r of Some status \<Rightarrow> ret (out @ status)
       | None \<Rightarrow> bindG (cuteEmoji E False) (\<lambda>e1. bindG (cuteEmoji E True) (\<lambda>e2.
           ret (T_rooms_full @ e1 @ T_come_later @ e2)))"
  have tail: "frame (?tail out r)" for out r by (cases r) (auto intro!: frames)
  have taken: "\<forall>h \<in> set (wd_rooms w). taken E h" using assms by (simp add: taken_def)
  have seek: "keeps w (bindG (seek_room E tar (parse_mods cmd) 0 lobby_size) (?tail out))" for out
  proof (unfold keeps_def, intro allI impI)
    fix v :: world
    assume v: "wd_rooms v = wd_rooms w"
    then obtain v' where "seek_room E tar (parse_mods cmd) 0 lobby_size v = (v', Inr None)" "wd_rooms v' = wd_rooms w"
      using seek_full[of 0 lobby_size v E tar "parse_mods cmd"] taken assms(2) by (auto simp: lobby_size_def)
    then show "wd_rooms (fst (bindG (seek_room E tar (parse_mods cmd) 0 lobby_size) (?tail out) v)) = wd_rooms w"
      using tail[of out None] by (simp add: bindG_def frame_def)
  qed
  have fr: "frame (if \<not> ex then introduceHangman E else ret [])" for ex by (intro frames)
  have start: "keeps w (if p \<noteq> - 1 then ret (T_not_over @ print_int p) else
       bindG (playerRankingExists E tar) (\<lambda>ex.
       bindG (if \<not> ex then introduceHangman E else ret []) (\<lambda>out.
       bindG (seek_room E tar (parse_mods cmd) 0 lobby_size) (?tail out))))" for p
    by (simp add: keeps_bind[OF frame_exists] keeps_bind[OF fr] seek) (simp add: keeps_def ret_def)
  have "keeps w (startHangman E tar cmd)"
    unfolding startHangman_def by (rule keeps_bind[OF frame_find start])
  then show ?thesis by (simp add: keeps_def)
qed

text \<open>An instance: 20 rooms whose games began when the clock stood at 0.\<close>

definition full_house :: world where
  "full_house = world2\<lparr>wd_rooms := map (\<lambda>i. (hd (wd_rooms world2))\<lparr>hg_player_id := 100 + int i, hg_start_time := 0\<rparr>) [0..<20]\<rparr>"

theorem rooms_never_expire_witness:
  "map hg_player_id (wd_rooms (fst (startHangman genv1 tar1 [] full_house))) = map (\<lambda>i. 100 + int i) [0..<20]"
proof -
  have "wd_rooms (fst (startHangman genv1 tar1 [] full_house)) = wd_rooms full_house"
    by (rule rooms_never_expire) (auto simp: full_house_def genv1_def)
  then show ?thesis by (simp add: full_house_def)
qed

subsection \<open>A guess\<close>

text \<open>What an answered guess does to the rooms.\<close>

lemma input_step:
  assumes run: "inputHangman E tar (c # s) w = (w', Inr out)"
    and seat: "find_player (tar_user_id tar) 0 (wd_rooms w) = int i"
  shows "wd_rooms w' = (wd_rooms w)[i :=
     (let h = wd_rooms w ! i; a = lower_case c;
          h' = (if \<not> is_letter a \<or> a \<in> set (hg_guess_history h) then h
            else h\<lparr>hg_guess_history := hg_guess_history h @ [a],
                   hg_HP := (if a \<in> set (w_str (hg_word h)) then hg_HP h else hg_HP h - 1)\<rparr>) in
      if hg_HP h' \<le> 0 \<or> set (w_str (hg_word h')) \<subseteq> set (hg_guess_history h')
      then h'\<lparr>hg_player_id := 0, hg_player_nickname := []\<rparr> else h')]"
proof -
  let ?h = "wd_rooms w ! i"
  define g where "g = after_guess c ?h"
  from run seat obtain w1 out1 where g: "guess E c ?h w = (w1, Inr (g, out1))"
    and rest: "bindG (set_room i g) (\<lambda>_. if isGameEnded g then
         bindG (endGame E g) (\<lambda>(h, out2). bindG (set_room i h) (\<lambda>_. bindG (updatePlayer E tar) (\<lambda>out3.
         ret (out1 @ LF @ out2 @ out3)))) else ret out1) w1 = (w', Inr out)"
    using yields_result[OF guess_result, of E c ?h w]
    by (auto simp: inputHangman_def bindG_def findPlayer_def room_def g_def[symmetric] Let_def simp del: isGameEnded.simps
        split: prod.splits sum.splits)
  have w1: "wd_rooms w1 = wd_rooms w" using frame_rooms[OF frame_guess g] .
  have "wd_rooms w' = (wd_rooms w)[i := (if isGameEnded g then left g else g)]"
  proof (cases "isGameEnded g")
    case True
    from rest True obtain w2 w3 w4 h out2 out3 where g': "set_room i g w1 = (w2, Inr ())"
      and e: "endGame E g w2 = (w3, Inr (h, out2))" and l: "set_room i h w3 = (w4, Inr ())"
      and u: "updatePlayer E tar w4 = (w', Inr out3)"
      by (auto elim!: bindG_returnsE simp: ret_def simp del: isGameEnded.simps)
    have "h = left g" using yields_result[OF endGame_result e] by (simp add: left_def)
    then show ?thesis
      using True w1 set_room_run[OF g'] frame_rooms[OF frame_endGame e] set_room_run[OF l]
        frame_rooms[OF frame_updatePlayer u] by simp
  next
    case False
    then show ?thesis using rest w1
      by (auto elim!: bindG_returnsE simp: ret_def dest!: set_room_run simp del: isGameEnded.simps)
  qed
  then show ?thesis
    by (auto simp: g_def after_guess_def Let_def left_def isGameEnded.simps subset_iff)
qed

text \<open>C7 When a guess is answered, exactly the player's room has changed. A character that is no letter, or
  one that was guessed before, leaves it; another one is recorded in lower case and costs a point if it is not
  in the word; and when the points are used up or the word is complete, the player has left the room.\<close>

theorem input_plays:
  assumes run: "inputHangman E tar (c # s) w = (w', Inr out)"
    and seat: "find_player (tar_user_id tar) 0 (wd_rooms w) = int i"
  shows "wd_rooms w' = (wd_rooms w)[i :=
     (let h = wd_rooms w ! i; a = lower_case c;
          h' = (if \<not> is_letter a \<or> a \<in> set (hg_guess_history h) then h
            else h\<lparr>hg_guess_history := hg_guess_history h @ [a],
                   hg_HP := (if a \<in> set (w_str (hg_word h)) then hg_HP h else hg_HP h - 1)\<rparr>) in
      if hg_HP h' \<le> 0 \<or> set (w_str (hg_word h')) \<subseteq> set (hg_guess_history h')
      then h'\<lparr>hg_player_id := 0, hg_player_nickname := []\<rparr> else h')]"
  using assms by (rule input_step)

theorem input_plays_witness:
  "\<exists>w' out. inputHangman genv1 tar1 ''Z'' world2 = (w', Inr out) \<and> hg_HP (wd_rooms w' ! 0) = 7 \<and>
     hg_guess_history (wd_rooms w' ! 0) = ''bz''"
proof -
  have "\<not> isl (snd (inputHangman genv1 tar1 ''Z'' world2))" by code_simp
  then obtain w' out where run: "inputHangman genv1 tar1 ''Z'' world2 = (w', Inr out)"
    by (metis isl_def prod.collapse sum.collapse(2))
  have seat: "find_player (tar_user_id tar1) 0 (wd_rooms world2) = int 0" by code_simp
  have room: "wd_rooms world2 ! 0 = \<lparr>hg_HP = 8, hg_start_time = 7, hg_mods = 1, hg_player_id = 1,
    hg_player_nickname = [], hg_guess_history = ''b'', hg_word = \<lparr>w_str = ''ab'', w_freq = 1, w_index = 0\<rparr>\<rparr>"
    and len: "length (wd_rooms world2) = 20"
    by code_simp+
  have z: "lower_case CHR ''Z'' = CHR ''z''" by code_simp
  show ?thesis
    using run input_plays[OF run seat] by (auto simp: room len z is_letter_def Let_def)
qed

subsection \<open>The end of a game\<close>

text \<open>The guesses in a room, one after the other, until its game is over.\<close>

fun guess_all :: "genv \<Rightarrow> string \<Rightarrow> hangman \<Rightarrow> hangman game" where
  "guess_all E [] h = ret h"
| "guess_all E (c # cs) h =
     (if isGameEnded h then ret h else bindG (guess E c h) (\<lambda>(h, out). guess_all E cs h))"

lemma guess_all_ends:
  assumes "guess_all E cs h w = (w', Inr h')" "0 \<le> hg_HP h" "\<forall>c \<in> set (w_str (hg_word h)). is_letter c"
    and "set (w_str (hg_word h)) \<subseteq> set cs \<union> set (hg_guess_history h)"
  shows "isGameEnded h' \<and> 0 \<le> hg_HP h'"
  using assms
proof (induction cs arbitrary: h w)
  case Nil
  then show ?case by (auto simp: ret_def isGameEnded.simps)
next
  case (Cons c cs)
  show ?case
  proof (cases "isGameEnded h")
    case True
    then show ?thesis using Cons.prems(1,2) by (simp add: ret_def del: isGameEnded.simps)
  next
    case False
    then obtain w1 out where g: "guess E c h w = (w1, Inr (after_guess c h, out))"
      and rest: "guess_all E cs (after_guess c h) w1 = (w', Inr h')"
      using Cons.prems(1) yields_result[OF guess_result, of E c h w]
      by (auto elim!: bindG_returnsE simp del: isGameEnded.simps)
    have "0 \<le> hg_HP (after_guess c h)"
      using False by (auto simp: after_guess_def Let_def isGameEnded.simps)
    moreover have "set (w_str (hg_word (after_guess c h))) \<subseteq> set cs \<union> set (hg_guess_history (after_guess c h))"
    proof
      fix a
      assume "a \<in> set (w_str (hg_word (after_guess c h)))"
      then have a: "a \<in> set (w_str (hg_word h))" by (simp add: after_guess_kept)
      then have "lower_case a = a" "is_letter a" using Cons.prems(3) lower_case_letter by auto
      then show "a \<in> set cs \<union> set (hg_guess_history (after_guess c h))"
        using a Cons.prems(4) by (auto simp: after_guess_def Let_def)
    qed
    ultimately show ?thesis
      using Cons.IH[OF rest] Cons.prems(3) by (simp add: after_guess_kept del: isGameEnded.simps)
  qed
qed



end
