(* ===== verification/BotEnv.thy ===== *)
theory BotEnv
  imports Program GameProps
begin

text \<open>
  A concrete environment for the instances of the properties of the bot: the answers of the database and of
  the JSON parser are arguments, there is no other network, the clock stands still and every number of the
  generator is 0; the indeterminate variables are 0 and empty.
\<close>

definition blank_map :: beatmap_info where
  "blank_map = \<lparr>bi_beatmap_id = 0, bi_beatmapset_id = 0, bi_artist = [], bi_title = [], bi_submit_timestamp = 0,
     bi_lastupdate_timestamp = 0, bi_approved_timestamp = 0, bi_creator = [], bi_creator_id = 0, bi_bpm
     = Num 0, bi_stars = Num 0, bi_aim_stars = Num 0, bi_speed_stars = Num 0, bi_cs = Num 0, bi_ar = Num
     0, bi_od = Num 0, bi_hp = Num 0, bi_tags = [], bi_source = [], bi_version = [], bi_filemd5 = [],
     bi_game_length = 0, bi_total_length = 0, bi_approved = 0, bi_rating = Num 0, bi_favourite_count =
     0, bi_playcount = 0, bi_passcount = 0, bi_count_circle = 0, bi_count_slider = 0, bi_count_spinner =
     0, bi_maxcombo = 0, bi_hasStoryboard = False, bi_hasVideo = False, bi_canDownload = False, bi_mode
     = 0\<rparr>"

definition blank_score :: score_info where
  "blank_score = \<lparr>si_beatmap_id = 0, si_score = 0, si_user_id = 0, si_n300 = 0, si_n100 = 0, si_n50 = 0, si_nmiss
     = 0, si_nkatu = 0, si_ngeki = 0, si_combo = 0, si_mods = 0, si_achieved_timestamp = 0, si_pp = Num
     0, si_hasReplay = False, si_rank = [], si_username = []\<rparr>"

definition api1 :: api where
  "api1 = \<lparr>api_get = (\<lambda>_. Inl NetworkError), api_parse = (\<lambda>_. Inl ParseError), api_mktime = (\<lambda>t. (0, t)),
     api_key = [], api_fresh_beatmap = blank_map, api_fresh_score = blank_score\<rparr>"

definition blank_csgo :: CSGOUserInfo where
  "blank_csgo = \<lparr>cs_SteamId = 0, cs_Available = False, cs_VACBanCount = 0, cs_GameBanCount = 0,
     cs_ReceiveUserId = [], cs_ReceiveGroupId = [], cs_ListenTime = 0\<rparr>"

definition dbenv1 :: "server \<Rightarrow> dbenv" where
  "dbenv1 S = \<lparr>db_server = S, db_time = (\<lambda>_. 7), db_rand = (\<lambda>_. 0), db_strftime = (\<lambda>f _. f),
     db_libm = constant_libm, db_api = api1, db_fresh_csgo = blank_csgo\<rparr>"

definition blank_message :: message where
  "blank_message = \<lparr>ms_type = PRIVATE, ms_time = 0, ms_group_id = 0, ms_user_id = 0, ms_message_id = 0,
     ms_nickname = [], ms_message = []\<rparr>"

definition blank_sender :: group_sender where
  "blank_sender = \<lparr>sd_age = 0, sd_role = MEMBER, sd_card = None, sd_level = [], sd_nickname = [],
     sd_title = None, sd_sex = []\<rparr>"

definition blank_request :: request_info where
  "blank_request = \<lparr>rq_subtype = ADD, rq_type = FRIEND, rq_time = 0, rq_group_id = 0, rq_user_id = 0,
     rq_flag = [], rq_message = []\<rparr>"

text \<open>The owner has the number 1, the group of the administrators the number 2.\<close>

definition env1 :: "server \<Rightarrow> (string \<Rightarrow> json thrown) \<Rightarrow> botenv" where
  "env1 S parse = \<lparr>be_db = dbenv1 S, be_game = genv1, be_owner = 1, be_group = 2, be_test = False,
     be_dump = (\<lambda>_. Inr []), be_parse = parse, be_http = (\<lambda>_ _. Inl NetworkError),
     be_get = (\<lambda>_ url. Inr url), be_download = (\<lambda>_ _. Inl NetworkError), be_chars = (\<lambda>_ _. 0),
     be_root = [], be_steam_key = [], be_extract = (\<lambda>_. None), be_writable = (\<lambda>_. True),
     be_code = 0, be_what = [], be_fresh_message = blank_message,
     be_fresh_sender = blank_sender, be_fresh_request = blank_request\<rparr>"

definition bot1 :: bot where
  "bot1 = \<lparr>bt_world = world1, bt_sent = [], bt_admins = [], bt_files = (\<lambda>_. None)\<rparr>"

text \<open>Servers: one that answers every question with the row \<open>r\<close>, and one that cannot be reached.\<close>

definition answering :: "(string \<times> string option) list \<Rightarrow> server" where
  "answering r = \<lparr>sv_connect = (\<lambda>_. True), sv_query = (\<lambda>_ sql. if kind_of sql = ''select'' then Rows [r] else NoResult)\<rparr>"

definition unreachable :: server where
  "unreachable = \<lparr>sv_connect = (\<lambda>_. False), sv_query = (\<lambda>_ _. Failed)\<rparr>"

text \<open>Every image can be made; it has one pixel, and so has every character. The file of a picture is empty.\<close>

definition magick1 :: magick where
  "magick1 = \<lparr>mg_works = (\<lambda>_. True), mg_size = (\<lambda>_. (1, 1)), mg_width = (\<lambda>_ s. Num (of_nat (length s))), mg_hue = (\<lambda>_. Num 0),
     mg_encode = (\<lambda>_ _. []), mg_cos = (\<lambda>_. Num 0), mg_gmtime = (\<lambda>f _. f), mg_engine = (\<lambda>_. 100000), mg_padding = 0,
     mg_right_first = True\<rparr>"

text \<open>No network for the scores, either.\<close>

definition senv1 :: "server \<Rightarrow> (string \<Rightarrow> json thrown) \<Rightarrow> score_env" where
  "senv1 S parse = \<lparr>sc_bot = env1 S parse, sc_env = \<lparr>e_libm = constant_libm, e_files = (\<lambda>_. None), e_stdin = []\<rparr>,
     sc_heap = \<lparr>h_next = 0, h_ok = (\<lambda>_. True), h_size = (\<lambda>_. None), h_cell = (\<lambda>_. None)\<rparr>,
     sc_https = (\<lambda>_ _. Inl NetworkError), sc_log1p = (\<lambda>_. Num 1), sc_panel = no_panel,
     sc_magick = magick1, sc_banner = (\<lambda>c. Inr c), sc_is_panel = (\<lambda>_. Inr True), sc_long = [],
     sc_elapsed = (\<lambda>_. 0)\<rparr>"

definition private_text :: "string \<Rightarrow> message" where
  "private_text m = blank_message\<lparr>ms_user_id := 5, ms_message := m\<rparr>"

lemma env_db: "be_db (env1 S P) = dbenv1 S"
  by (simp add: env1_def)

lemma senv_bot: "sc_bot (senv1 S P) = env1 S P"
  by (simp add: senv1_def)

lemmas env_simps = env1_def dbenv1_def answering_def unreachable_def private_text_def blank_message_def senv_bot

end
