(* ===== verification/BotProps.thy ===== *)
theory BotProps
  imports ScoreRel BotEnv
begin

text \<open>
  What holds of the whole bot: of the rooms of the game, the list of administrators and the messages
  whatever is received; which exceptions can leave a command; and single commands.
\<close>

subsection \<open>Relations that every program keeps\<close>

definition keeps_lobby :: "botenv \<Rightarrow> bot \<Rightarrow> bot \<Rightarrow> bool" where
  "keeps_lobby E b b' \<longleftrightarrow> tables_ok (be_game E) \<longrightarrow> lobby_inv (wd_rooms (bt_world b)) \<longrightarrow> lobby_inv (wd_rooms (bt_world b'))"

definition same_admins :: "bot \<Rightarrow> bot \<Rightarrow> bool" where
  "same_admins b b' \<longleftrightarrow> bt_admins b' = bt_admins b"

definition silent :: "botenv \<Rightarrow> bot \<Rightarrow> bot \<Rightarrow> bool" where
  "silent E b b' \<longleftrightarrow> be_test E \<longrightarrow> bt_sent b' = bt_sent b"

lemma send_json_kept:
  "bt_world (fst (send_json E j b)) = bt_world b" "bt_admins (fst (send_json E j b)) = bt_admins b"
  by (simp_all add: send_json_def split: sum.split)

lemma quiet_False: "quiet False rs \<longleftrightarrow> lobby_inv rs"
  by (simp add: quiet_def live_def)

lemma perform_keeps: "tables_ok G \<Longrightarrow> lobby_inv (wd_rooms w) \<Longrightarrow> lobby_inv (wd_rooms (fst (perform G c w)))"
  using perform_spec[of G False c] by (simp add: spec_def quiet_False)

interpretation lobby: program_relation "keeps_lobby (sc_bot N)" N for N
  by unfold_locales (auto simp: keeps_lobby_def send_json_kept perform_keeps)

interpretation admins: program_relation same_admins N for N
  by unfold_locales (auto simp: same_admins_def send_json_kept)

interpretation silence: program_relation "silent (sc_bot N)" N for N
  by unfold_locales (auto simp: silent_def send_json_def split: sum.split)

subsection \<open>The lobby\<close>

lemma lobby_reload: "moves (keeps_lobby (sc_bot (N :: score_env))) (reloadadmin_command (sc_bot N) tar)"
  unfolding reloadadmin_command_def
proof (intro lobby.m_if lobby.m_then lobby.m_catch lobby.m_message lobby.m_ret)
  show "moves (keeps_lobby (sc_bot N)) (reload_admins (sc_bot N))"
    by (auto simp: moves_def reload_admins_def keeps_lobby_def split: prod.split)
qed

text \<open>The states of the bot: after the construction of the rooms, and after any event.\<close>

inductive bot_reachable :: "score_env \<Rightarrow> int \<Rightarrow> bot \<Rightarrow> bool" for N junk where
  initial: "new_rooms (be_game (sc_bot N)) lobby_size w = (w', Inr rs) \<Longrightarrow> bt_world b = w'\<lparr>wd_rooms := rs\<rparr> \<Longrightarrow>
    bot_reachable N junk b"
| event: "bot_reachable N junk b \<Longrightarrow> bot_reachable N junk (fst (on_event N junk ev b))"

lemma lobby_event: "moves (keeps_lobby (sc_bot N)) (on_event N junk ev)"
  by (rule lobby.m_event, rule lobby_reload)

lemma bot_reachable_lobby:
  assumes "bot_reachable N junk b" "tables_ok (be_game (sc_bot N))"
  shows "lobby_inv (wd_rooms (bt_world b))"
  using assms
proof induction
  case (initial w w' rs b)
  then show ?case using reachable_quiet[OF reachable.start[OF initial(1), of False]] by (simp add: quiet_False)
next
  case (event b ev)
  then show ?case using movesD[OF lobby_event] by (fastforce simp: keeps_lobby_def)
qed



subsection \<open>Who changes what\<close>

text \<open>C11 Nobody but the owner of the bot changes the list of administrators, whatever the message.\<close>

theorem admins_by_owner:
  assumes "ms_user_id tar \<noteq> be_owner (sc_bot N)"
  shows "bt_admins (fst (on_message N junk tar sdr b)) = bt_admins b"
proof -
  have "moves same_admins (reloadadmin_command (sc_bot N) (tar\<lparr>ms_message := m\<rparr>))" for m
    using assms unfolding reloadadmin_command_def by (auto intro!: admins.m_if admins.m_ret)
  then have "moves same_admins (on_message N junk tar sdr)" by (rule admins.m_on_message)
  then show ?thesis by (simp add: moves_def same_admins_def)
qed

theorem admins_by_owner_witness:
  "bt_admins (fst (on_message (senv1 (answering []) (\<lambda>_. Inl ParseError)) 0 (private_text ''!reloadadmin'') blank_sender bot1)) = []"
  using admins_by_owner[of "private_text ''!reloadadmin''" "senv1 (answering []) (\<lambda>_. Inl ParseError)"]
  by (simp add: env_simps bot1_def)

text \<open>C31 In the test mode nothing is sent to the chat server, whatever happens.\<close>

theorem test_mode_silent:
  assumes "be_test (sc_bot N)"
  shows "bt_sent (fst (on_event N junk ev b)) = bt_sent b"
proof -
  have "moves (silent (sc_bot N)) (reload_admins (sc_bot N))"
    by (auto simp: moves_def reload_admins_def silent_def split: prod.split)
  then have "moves (silent (sc_bot N)) (reloadadmin_command (sc_bot N) t)" for t
    unfolding reloadadmin_command_def by (intro silence.m_if silence.m_then silence.m_catch silence.m_message silence.m_ret)
  then have "moves (silent (sc_bot N)) (on_event N junk ev)" by (rule silence.m_event)
  then show ?thesis using assms by (simp add: moves_def silent_def)
qed

definition test_senv :: score_env where
  "test_senv = (senv1 unreachable (\<lambda>_. Inl ParseError))\<lparr>sc_bot := (env1 unreachable (\<lambda>_. Inl ParseError))\<lparr>be_test := True\<rparr>\<rparr>"

theorem test_mode_silent_witness:
  "bt_sent (fst (on_event test_senv 0 BanRound bot1)) = []"
  using test_mode_silent[of test_senv] by (simp add: test_senv_def bot1_def)

text \<open>C33 A blocked user gets no answer: the only trace of the message is the question to the database.\<close>

theorem blocked_ignored:
  assumes "sv_connect (db_server (be_db (sc_bot N))) (wd_log (bt_world b))"
    and "is_Blocked (be_db (sc_bot N)) (ms_user_id tar) (wd_log (bt_world b)) = (l, Inr 1)"
  shows "on_message N junk tar sdr b =
    (if has_prefix (ms_message tar) then b\<lparr>bt_world := (bt_world b)\<lparr>wd_log := l\<rparr>\<rparr> else b, Inr ())"
  using assms by (simp add: on_message_def dispatch_def Let_def handled_def parser_body_def thenB_def bindB_def dbC_def dbE_def
      dbB_def gameB_def send_def Connect_def retB_def)

theorem blocked_ignored_witness:
  "bt_sent (fst (on_message (senv1 (answering [(''is_blocked'', Some ''1'')]) (\<lambda>_. Inl ParseError)) 0
     (private_text ''!ping'') blank_sender bot1)) = []"
proof -
  let ?N = "senv1 (answering [(''is_blocked'', Some ''1'')]) (\<lambda>_. Inl ParseError)"
  have "snd (is_Blocked (dbenv1 (answering [(''is_blocked'', Some ''1'')])) 5 l) = Inr 1" for l
    by code_simp
  then obtain l where "is_Blocked (be_db (sc_bot ?N)) 5 (wd_log (bt_world bot1)) = (l, Inr 1)"
    by (metis env_db senv_bot prod.collapse)
  moreover have "sv_connect (db_server (be_db (sc_bot ?N))) k" "ms_user_id (private_text m) = 5" for k m
    by (simp_all add: env_simps)
  ultimately show ?thesis using blocked_ignored[of ?N bot1 "private_text ''!ping''" l] by (simp add: bot1_def)
qed

end
