(* ===== verification/RouteProps.thy ===== *)
theory RouteProps
  imports Dispatch
begin

text \<open>
  Where the messages go: no command of the tables is hidden behind an earlier one, and who may run the
  commands of the administrators.
\<close>

subsection \<open>Comparing names\<close>

text \<open>Two texts that differ at a position both have.\<close>

fun clash :: "string \<Rightarrow> string \<Rightarrow> bool" where
  "clash (a # s) (b # t) \<longleftrightarrow> lower_char a \<noteq> lower_char b \<or> clash s t"
| "clash _ _ \<longleftrightarrow> False"

lemma clash_differs: "clash s t \<Longrightarrow> \<not> command_is n t (s @ rest)"
proof (induction s t arbitrary: n rule: clash.induct)
  case (1 a s b t)
  show ?case
  proof (cases n)
    case (Suc k)
    then show ?thesis using 1 by (auto simp: command_is_def)
  qed (simp add: command_is_def)
qed auto

text \<open>A name is followed by nothing or by a blank.\<close>

definition ends_name :: "string \<Rightarrow> bool" where
  "ends_name rest \<longleftrightarrow> rest = [] \<or> hd rest = CHR '' ''"

lemma clash_end: "clash (s @ '' '') t \<Longrightarrow> \<not> command_is n t s"
proof (induction s arbitrary: t n)
  case Nil
  then show ?case by (cases t) (auto simp: command_is_def)
next
  case (Cons a s)
  then obtain b u where t: "t = b # u" by (cases t) auto
  show ?case
  proof (cases n)
    case (Suc k)
    then show ?thesis using Cons t by (auto simp: command_is_def)
  qed (simp add: command_is_def t)
qed

lemma clash_name:
  assumes "clash (s @ '' '') t" "ends_name rest"
  shows "\<not> command_is n t (s @ rest)"
proof (cases rest)
  case Nil
  then show ?thesis using clash_end[OF assms(1)] by simp
next
  case (Cons c r)
  then have "rest = '' '' @ r" using assms by (simp add: ends_name_def)
  then show ?thesis using clash_differs[OF assms(1), of n r] by simp
qed

lemma takeWhile_all: "x \<notin> set s \<Longrightarrow> takeWhile (\<lambda>c. c \<noteq> x) s = s"
  by (induction s) auto

lemma own_name: "NUL \<notin> set s \<Longrightarrow> command_is (length s) s (s @ rest)"
  by (simp add: command_is_def takeWhile_all)

text \<open>The first row with the name, if all rows before it clash with the name.\<close>

fun first_row :: "command_table \<Rightarrow> string \<Rightarrow> nat \<Rightarrow> nat option" where
  "first_row [] s k = None"
| "first_row ((n, t, h) # rows) s k =
     (if t = s \<and> n = length s \<and> NUL \<notin> set s then Some k
      else if clash (s @ '' '') t then first_row rows s (Suc k) else None)"

lemma first_row_lookup:
  "first_row T s k = Some i \<Longrightarrow> ends_name rest \<Longrightarrow> k \<le> i \<and> lookup_command T (s @ rest) = Some (snd (snd (T ! (i - k))))"
proof (induction T s k rule: first_row.induct)
  case (2 n t h rows s k)
  show ?case
  proof (cases "t = s \<and> n = length s \<and> NUL \<notin> set s")
    case True
    then show ?thesis using 2 own_name[of s rest] by auto
  next
    case False
    then have c: "clash (s @ '' '') t" and i: "first_row rows s (Suc k) = Some i"
      using 2(2) by (auto split: if_split_asm)
    then show ?thesis using 2(1)[OF False c i 2(3)] clash_name[OF c 2(3), of n] by (auto simp: nth_Cons')
  qed
qed simp

fun no_match :: "command_table \<Rightarrow> string \<Rightarrow> bool" where
  "no_match [] s \<longleftrightarrow> True"
| "no_match ((n, t, h) # rows) s \<longleftrightarrow> clash (s @ '' '') t \<and> no_match rows s"

lemma no_match_lookup: "no_match T s \<Longrightarrow> ends_name rest \<Longrightarrow> lookup_command T (s @ rest) = None"
  by (induction T s rule: no_match.induct) (auto simp: clash_name)

text \<open>Every row is the first with its name; the second row for the list of medals has a twin.\<close>

lemma main_rows: "map (\<lambda>(n, s, h). first_row main_table s 0) main_table = map Some ([0..<29] @ 22 # [30..<34])"
  by code_simp

lemma admin_rows: "map (\<lambda>(n, s, h). first_row admin_table s 0) admin_table = map Some [0..<11]"
  by code_simp

lemma admin_not_main: "list_all (\<lambda>(n, s, h). no_match main_table s) admin_table"
  by code_simp

lemma table_lengths: "length main_table = 34" "length admin_table = 11"
  by (simp_all add: main_table_def admin_table_def)

lemma main_indices: "list_all (\<lambda>i. i = 29 \<or> ([0..<29] @ 22 # [30..<34]) ! i = i) [0..<34]"
  by code_simp

lemma main_matches:
  assumes "(n, s, h) \<in> set main_table" "ends_name rest"
  shows "lookup_command main_table (s @ rest) = Some h"
proof -
  obtain i where i: "i < 34" "main_table ! i = (n, s, h)"
    using assms(1) table_lengths by (metis in_set_conv_nth)
  then have "first_row main_table s 0 = Some (([0..<29] @ 22 # [30..<34]) ! i)"
    using arg_cong[OF main_rows, of "\<lambda>xs. xs ! i"] by (simp add: table_lengths nth_map del: map_append list.map)
  then have "lookup_command main_table (s @ rest) = Some (snd (snd (main_table ! (([0..<29] @ 22 # [30..<34]) ! i))))"
    using first_row_lookup assms(2) by fastforce
  moreover have "snd (snd (main_table ! (([0..<29] @ 22 # [30..<34]) ! i))) = snd (snd (main_table ! i))"
  proof (cases "i = 29")
    case True
    then show ?thesis by (simp add: main_table_def nth_append)
  next
    case False
    then have "([0..<29] @ 22 # [30..<34]) ! i = i" using main_indices i(1) by (auto simp: list_all_iff)
    then show ?thesis by simp
  qed
  ultimately show ?thesis using i by simp
qed

lemma admin_matches:
  assumes "(n, s, h) \<in> set admin_table" "ends_name rest"
  shows "lookup_command admin_table (s @ rest) = Some h" "lookup_command main_table (s @ rest) = None"
proof -
  obtain i where i: "i < 11" "admin_table ! i = (n, s, h)"
    using assms(1) table_lengths by (metis in_set_conv_nth)
  then have "first_row admin_table s 0 = Some i"
    using arg_cong[OF admin_rows, of "\<lambda>xs. xs ! i"] by (simp add: table_lengths)
  then show "lookup_command admin_table (s @ rest) = Some h"
    using first_row_lookup[of admin_table s 0 i rest] assms(2) i by simp
  show "lookup_command main_table (s @ rest) = None"
    using admin_not_main assms by (auto simp: list_all_iff intro: no_match_lookup)
qed

lemma NUL_not_re: "NUL \<notin> set ''re''"
  by (simp add: NUL_def)

lemma recent_clash:
  "list_all (\<lambda>(n, s, h). clash (s @ '' '') ''rct'') admin_table"
  "map (\<lambda>(n, s, h). clash (s @ '' '') ''re'') admin_table = [True, True, True, False, False, False, True, True, True, True, True]"
  "map (\<lambda>(n, s, h). take 2 s = ''re'') admin_table = [False, False, False, True, True, True, False, False, False, False, False]"
  by code_simp+

lemma shows_recent:
  assumes "(n, s, h) \<in> set admin_table" "ends_name rest"
  shows "\<not> command_is 3 ''rct'' (s @ rest)"
    and "command_is 2 ''re'' (s @ rest) \<longleftrightarrow> h \<in> {RejectBanner, RejectInfoPanel, ResetUser}"
proof -
  show "\<not> command_is 3 ''rct'' (s @ rest)"
    using recent_clash(1) assms clash_name[of s "''rct''" rest 3] by (auto simp: list_all_iff)
  obtain i where i: "i < 11" "admin_table ! i = (n, s, h)"
    using assms(1) table_lengths by (metis in_set_conv_nth)
  have row: "h = snd (snd (admin_table ! i))" using i by simp
  have h: "h \<in> {RejectBanner, RejectInfoPanel, ResetUser} \<longleftrightarrow> i \<in> {3, 4, 5}"
    using i(1) unfolding row by (auto simp: less_Suc_eq numeral_eq_Suc admin_table_def)
  have "clash (s @ '' '') ''re'' = [True, True, True, False, False, False, True, True, True, True, True] ! i"
    using arg_cong[OF recent_clash(2), of "\<lambda>xs. xs ! i"] i by (simp add: table_lengths)
  then have cl: "h \<notin> {RejectBanner, RejectInfoPanel, ResetUser} \<longleftrightarrow> clash (s @ '' '') ''re''"
    unfolding h using i(1) by (auto simp: less_Suc_eq numeral_eq_Suc)
  have "(take 2 s = ''re'') = [False, False, False, True, True, True, False, False, False, False, False] ! i"
    using arg_cong[OF recent_clash(3), of "\<lambda>xs. xs ! i"] i by (simp add: table_lengths)
  then have re: "h \<in> {RejectBanner, RejectInfoPanel, ResetUser} \<longleftrightarrow> take 2 s = ''re''"
    unfolding h using i(1) by (auto simp: less_Suc_eq numeral_eq_Suc)
  show "command_is 2 ''re'' (s @ rest) \<longleftrightarrow> h \<in> {RejectBanner, RejectInfoPanel, ResetUser}"
  proof (cases "take 2 s = ''re''")
    case True
    then have "s = ''re'' @ drop 2 s" by (metis append_take_drop_id)
    then have "command_is (length ''re'') ''re'' (s @ rest)"
      using own_name[of "''re''" "drop 2 s @ rest"] by (metis append_assoc NUL_not_re)
    then show ?thesis using True re by (simp add: numeral_2_eq_2)
  next
    case False
    then show ?thesis using clash_name[of s "''re''" rest 2] cl re assms(2) by auto
  qed
qed

subsection \<open>The routes\<close>

text \<open>Every command of the table is reached under its name, alone or with an argument behind a
  blank, whoever sends it: no name is hidden by the shorter names before it.\<close>

theorem commands_reached:
  assumes "(n, s, h) \<in> set main_table" "rest = [] \<or> hd rest = CHR '' ''"
  shows "route admins who (s @ rest) = Command h"
  using main_matches[OF assms(1)] assms(2) by (simp add: route_def ends_name_def)

theorem commands_reached_witness:
  "route [] 5 ''bpht 3'' = Command BpHeadTail \<and> (4, ''bpht'', BpHeadTail) \<in> set main_table"
proof -
  have row: "(4, ''bpht'', BpHeadTail) \<in> set main_table" by (simp add: main_table_def)
  then show ?thesis using commands_reached[OF row, of "'' 3''" "[]" 5] by simp
qed

lemma admin_route_find:
  "lookup_command admin_table m = Some h \<Longrightarrow> admin_route admins who m =
     map_option (\<lambda>a. if needs_role_1 h \<and> ad_role a \<noteq> 1 then Denied else Command h)
       (find (\<lambda>a. ad_user_id a = who) admins)"
  by (induction admins who m rule: admin_route.induct) auto

lemma admin_route_none: "lookup_command admin_table m = None \<Longrightarrow> admin_route admins who m = None"
  by (induction admins who m rule: admin_route.induct) auto

text \<open>C10 A command of the administrators is run for the first entry of the list with the sender's
  number, and refused if it needs the role 1 and that entry has another. For everybody else the three
  commands that begin with \<^verbatim>\<open>re\<close> show the sender's recent play, and the others go to the entertainment
  module.\<close>

theorem admin_commands:
  assumes "(n, s, h) \<in> set admin_table" "rest = [] \<or> hd rest = CHR '' ''"
  shows "route admins who (s @ rest) = (case find (\<lambda>a. ad_user_id a = who) admins of
     Some a \<Rightarrow> if h \<in> {ClearTemp, ResetUser, AddBadge, DailyUpdate, SetNewBadge} \<and> ad_role a \<noteq> 1 then Denied else Command h
   | None \<Rightarrow> if h \<in> {RejectBanner, RejectInfoPanel, ResetUser} then Command Recent else Entertainment)"
proof -
  have e: "ends_name rest" using assms(2) by (simp add: ends_name_def)
  show ?thesis
    using shows_recent[OF assms(1) e] admin_matches[OF assms(1) e]
    by (simp add: route_def admin_route_find needs_role_1_def split: option.split)
qed

theorem admin_commands_witness:
  "route [\<lparr>ad_user_id = 5, ad_role = 2\<rparr>] 5 ''resetuser 9'' = Denied \<and> route [] 5 ''resetuser 9'' = Command Recent"
proof -
  have row: "(9, ''resetuser'', ResetUser) \<in> set admin_table" by (simp add: admin_table_def)
  show ?thesis
    using admin_commands[OF row, of "'' 9''" "[\<lparr>ad_user_id = 5, ad_role = 2\<rparr>]" 5]
      admin_commands[OF row, of "'' 9''" "[]" 5] by simp
qed

lemma admin_route_guard:
  "admin_route admins who m = Some (Command h) \<Longrightarrow>
   \<exists>a \<in> set admins. ad_user_id a = who \<and> (needs_role_1 h \<longrightarrow> ad_role a = 1)"
  by (induction admins who m rule: admin_route.induct) (auto split: if_split_asm option.splits)

lemma lookup_in: "lookup_command T m = Some h \<Longrightarrow> h \<in> (snd \<circ> snd) ` set T"
  by (induction T m rule: lookup_command.induct) (auto split: if_split_asm)

lemma tables_disjoint:
  "h \<in> (snd \<circ> snd) ` set admin_table \<Longrightarrow> h \<notin> (snd \<circ> snd) ` set main_table \<and> h \<noteq> Recent"
  by (auto simp: admin_table_def main_table_def)



end
