(* ===== verification/BotErrors.thy ===== *)
theory BotErrors
  imports BotEnv
begin

text \<open>
  Exceptions: which ones leave the parser of the chat server's texts and the dispatcher; what requests
  lead to; and commands that do not do what their names say.
\<close>

subsection \<open>What leaves a command\<close>

text \<open>A text that can always be dumped is always sent.\<close>

lemma send_returns:
  assumes "\<forall>j. \<exists>t. be_dump E j = Inr t"
  shows "\<exists>b'. send_message E tar m b = (b', Inr ())" "\<exists>b'. send_private_message E u m b = (b', Inr ())"
    "\<exists>b'. send_group_message E u m b = (b', Inr ())"
proof -
  have "\<exists>b'. send_json E j b = (b', Inr ())" for j
  proof -
    obtain t where "be_dump E j = Inr t" using assms by blast
    then show ?thesis by (simp add: send_json_def)
  qed
  then show "\<exists>b'. send_message E tar m b = (b', Inr ())" "\<exists>b'. send_private_message E u m b = (b', Inr ())"
    "\<exists>b'. send_group_message E u m b = (b', Inr ())"
    by (auto simp: send_message_def send_private_message_def send_group_message_def split: target_type.split)
qed

lemma now_text_returns: "\<exists>b' t. now_text E b = (b', Inr t)"
  by (simp add: now_text_def timeB_def dbB_def gameB_def send_def timeS_def bindB_def retB_def)

lemma thenB_ends: "m b = (b1, Inr ()) \<Longrightarrow> thenB m n b = n b1"
  by (simp add: thenB_def bindB_def)

lemma bindB_ends: "m b = (b1, Inr x) \<Longrightarrow> bindB m f b = f x b1"
  by (simp add: bindB_def)

lemma report_ends:
  assumes "\<forall>j. \<exists>t. be_dump E j = Inr t"
  shows "bindB (liftB (sprintf_buf n s)) (send_private_message E u) b = (b', Inl e) \<Longrightarrow> e = Aborted"
  using send_returns(2)[OF assms, of u s b] by (auto simp: bindB_def liftB_def sprintf_buf_def split: if_split_asm)

lemma reports_end:
  assumes "\<forall>j. \<exists>t. be_dump E j = Inr t"
  shows "db_report E tar b = (b', Inl e) \<Longrightarrow> e = Aborted" "std_report E tar m b = (b', Inl e) \<Longrightarrow> e = Aborted"
proof -
  have step: "thenB (send_message E tar m) (bindB (now_text E) f) b = (b', Inl e) \<Longrightarrow>
      \<exists>t b2. f t b2 = (b', Inl e)" for m f
  proof -
    obtain b1 where b1: "send_message E tar m b = (b1, Inr ())" using send_returns(1)[OF assms] by blast
    obtain b2 t where "now_text E b1 = (b2, Inr t)" using now_text_returns by blast
    then show "thenB (send_message E tar m) (bindB (now_text E) f) b = (b', Inl e) \<Longrightarrow> \<exists>t b2. f t b2 = (b', Inl e)"
      using b1 by (auto simp: thenB_ends bindB_ends)
  qed
  show "db_report E tar b = (b', Inl e) \<Longrightarrow> e = Aborted" "std_report E tar m b = (b', Inl e) \<Longrightarrow> e = Aborted"
    unfolding db_report_def std_report_def by (auto dest!: step report_ends[OF assms])
qed


text \<open>An instance: the database cannot be reached, and its message is too long for the report.\<close>

lemma message_unreachable:
  assumes "has_prefix (ms_message tar)" "\<not> sv_connect (db_server (be_db (sc_bot N))) (wd_log (bt_world b))"
  shows "on_message N junk tar sdr b =
    db_report (sc_bot N) (tar\<lparr>ms_message := without_prefix (ms_message tar)\<rparr>) b"
  using assms by (simp add: on_message_def dispatch_def Let_def handled_def parser_body_def thenB_def bindB_def dbC_def
      dbB_def gameB_def send_def Connect_def)

definition long_report :: score_env where
  "long_report = (senv1 unreachable (\<lambda>_. Inl ParseError))
     \<lparr>sc_bot := (env1 unreachable (\<lambda>_. Inl ParseError))\<lparr>be_what := replicate 1024 CHR ''x''\<rparr>\<rparr>"


subsection \<open>What leaves the parser of the texts\<close>

text \<open>The exceptions of the JSON library and the conversions, and undefined behaviour.\<close>

definition tame :: "'a thrown \<Rightarrow> bool" where
  "tame v \<longleftrightarrow> (\<forall>e. v = Inl e \<longrightarrow> std_exception e \<or> e = Undefined)"

named_theorems tame_rules \<open>values that throw nothing else\<close>

lemma tame_basic [tame_rules]: "tame (Inr x)" "tame (member d k)" "tame (get_string d)" "tame (get_int w d)"
proof -
  show "tame (member d k)" by (cases d) (auto simp: tame_def std_exception_def)
  show "tame (get_string d)" by (cases d) (auto simp: tame_def std_exception_def)
  show "tame (get_int w d)" by (cases d) (auto simp: tame_def std_exception_def split: sum.split)
qed (simp add: tame_def)

lemma tame_andThen [tame_rules]: "tame v \<Longrightarrow> (\<And>x. tame (f x)) \<Longrightarrow> tame (andThen v f)"
  by (cases v) (auto simp: tame_def)

lemma tame_members [tame_rules]: "tame (text_at d k)" "tame (int_at w d k)"
  unfolding text_at_def int_at_def by (intro tame_rules)+

lemma tame_if [tame_rules]: "tame u \<Longrightarrow> tame v \<Longrightarrow> tame (if c then u else v)"
  by simp

lemma tame_prod [tame_rules]: "(\<And>x y. tame (f x y)) \<Longrightarrow> tame (case p of (x, y) \<Rightarrow> f x y)"
  by (simp split: prod.split)

lemma tame_message: "tame (parse_message E j)"
  unfolding parse_message_def message_group_def by (intro tame_rules)

lemma tame_request: "tame (parse_request E j)"
  unfolding parse_request_def Let_def by (intro tame_rules)

lemma or_invalid_throws: "tame v \<Longrightarrow> or_invalid v = Inl e \<Longrightarrow> e = Undefined"
  by (auto simp: or_invalid_def tame_def split: sum.splits if_split_asm)



subsection \<open>Requests\<close>

text \<open>C36 A request to join a group is never answered: its subtype is read from the type of the request, so
  it is never an invitation. The bot's state and what it has sent stay as they are.\<close>

theorem group_requests_ignored:
  assumes "be_parse (sc_bot N) rawstr = Inr j" "text_at j ''post_type'' = Inr ''request''"
    and "text_at j ''request_type'' = Inr ''group''"
  shows "fst (on_event N junk (Text rawstr) b) = b"
proof (cases "Parser (sc_bot N) rawstr")
  case (Inl e)
  then show ?thesis by (simp add: on_event_def on_text_def Processer_def bindB_def liftB_def)
next
  case (Inr p)
  have "p = INVALID \<or> (\<exists>r. p = REQUEST r \<and> rq_type r = GROUP_REQUEST \<and> rq_subtype r = ADD)"
    using Inr assms
    by (auto simp: Parser_def or_invalid_def parse_request_def Let_def andThen_Inr split: if_split_asm sum.splits)
  then show ?thesis
    using Inr by (auto simp: on_event_def on_text_def Processer_def bindB_def liftB_def on_request_def retB_def)
qed

definition invitation :: json where
  "invitation = JObject [(''post_type'', JString ''request''), (''request_type'', JString ''group''),
     (''sub_type'', JString ''invite''), (''user_id'', JNumber ''5''), (''time'', JNumber ''7''),
     (''flag'', JString ''f''), (''comment'', JString [])]"

theorem group_requests_ignored_witness:
  "fst (on_event (senv1 unreachable (\<lambda>_. Inr invitation)) 0 (Text ''user_id'') bot1) = bot1"
  by (rule group_requests_ignored[where j = invitation]) (simp_all add: senv_bot env1_def invitation_def text_at_def)

subsection \<open>Commands\<close>

lemma trimmed_head: "\<not> isspace a \<Longrightarrow> \<exists>r. trimmed (a # m) = a # r"
  by (auto simp: trimmed_def dropWhile_append intro: exI[of _ "rev _"])

lemma cleartemp_head:
  assumes "command_is 9 ''cleartemp'' m"
  obtains a r where "m = a # r" "lower_char a = CHR ''c''" "a \<noteq> NUL"
proof (cases m)
  case Nil
  then show ?thesis using assms by (simp add: command_is_def)
next
  case (Cons a r)
  then show ?thesis using assms that[of a r] by (auto simp: command_is_def lower_char_def split: if_split_asm)
qed

lemma lower_c_not_space: "lower_char a = CHR ''c'' \<Longrightarrow> \<not> isspace a"
  by (cases "a = CHR ''c'' \<or> a = CHR ''C''")
    (auto simp: lower_char_def isspace_def split: if_split_asm)

text \<open>C37 The command to clear the pictures deletes nothing: it compares the whole message, which begins with
  its own name, with the arguments.\<close>

theorem cleartemp_keeps_files:
  assumes "command_is 9 ''cleartemp'' (ms_message tar)"
  shows "bt_files (fst (cleartemp E tar b)) = bt_files b"
proof (cases "string_trim (ms_message tar)")
  case None
  then show ?thesis by (simp add: cleartemp_def trimB_def definedB_def bindB_def)
next
  case (Some s)
  obtain a r where m: "ms_message tar = a # r" "lower_char a = CHR ''c''" "a \<noteq> NUL"
    using cleartemp_head[OF assms] by blast
  moreover obtain t where "trimmed (a # r) = a # t" using trimmed_head[OF lower_c_not_space] m(2) by blast
  ultimately have "s = a # t" using Some by (simp add: string_trim_eq Let_def split: if_split_asm)
  then have "\<not> command_is 3 ''all'' s" "\<not> command_is 6 ''avatar'' s"
    using m by (auto simp: command_is_def lower_char_def split: if_split_asm)
  then show ?thesis
    using Some by (simp add: cleartemp_def trimB_def definedB_def bindB_def send_message_def send_private_message_def
        send_group_message_def send_json_def split: target_type.split sum.split)
qed

theorem cleartemp_keeps_files_witness:
  "bt_files (fst (cleartemp (env1 unreachable (\<lambda>_. Inl ParseError)) (private_text ''cleartemp all'') (bot1\<lparr>bt_files := [T_avatars @ ''1.png'' \<mapsto> []]\<rparr>)))
     (T_avatars @ ''1.png'') = Some []"
proof -
  have "command_is 9 ''cleartemp'' (ms_message (private_text ''cleartemp all''))"
    by (simp add: private_text_def command_is_def lower_char_def NUL_def)
  from cleartemp_keeps_files[OF this] show ?thesis by simp
qed

end
