(* ===== verification/StoreProps.thy ===== *)
theory StoreProps
  imports BotEnv
begin

text \<open>
  What is written to the database can be read again: the lists of medals and of receivers. And what the
  bot does when something is missing: a record, the group of a listener, the account of a player.
\<close>

subsection \<open>Printed numbers\<close>

declare print_nat.simps [simp del]

lemma andThen_assoc: "andThen (andThen m f) g = andThen m (\<lambda>x. andThen (f x) g)"
  by (cases m) auto

lemma print_int_chars: "\<forall>c \<in> set (print_int n). is_digit c \<or> c = CHR ''-''"
  using print_nat_digits by (auto simp: print_int_def)

lemma print_int_nonempty: "print_int n \<noteq> []"
  by (simp add: print_int_def print_nat_nonempty)

lemma print_int_value:
  "take_sign (print_int n) = (n < 0, print_nat (nat \<bar>n\<bar>))" "dropWhile isspace (print_int n) = print_int n"
proof -
  obtain c s where c: "print_nat (nat \<bar>n\<bar>) = c # s" "is_digit c"
    using print_nat_nonempty print_nat_digits by (cases "print_nat (nat \<bar>n\<bar>)") (fastforce, metis list.set_intros(1))
  have m: "\<not> isspace CHR ''-''" by (simp add: isspace_def)
  show "take_sign (print_int n) = (n < 0, print_nat (nat \<bar>n\<bar>))"
    using c by (auto simp: print_int_def is_digit_def)
  show "dropWhile isspace (print_int n) = print_int n"
    using c m digit_not_space by (auto simp: print_int_def)
qed

lemma sto_print_rest:
  assumes "- (2 ^ (w - 1)) \<le> n" "n < 2 ^ (w - 1)" "rest = [] \<or> \<not> is_digit (hd rest)"
  shows "sto_int w (print_int n @ rest) = Inr n"
proof -
  obtain c s where c: "print_nat (nat \<bar>n\<bar>) = c # s" "is_digit c"
    using print_nat_nonempty print_nat_digits by (cases "print_nat (nat \<bar>n\<bar>)") (fastforce, metis list.set_intros(1))
  have "take_sign (print_int n @ rest) = (n < 0, print_nat (nat \<bar>n\<bar>) @ rest)"
    using c digit_not_space[OF c(2)] by (auto simp: print_int_def)
  moreover have "dropWhile isspace (print_int n @ rest) = print_int n @ rest"
    using c digit_not_space[OF c(2)] by (auto simp: print_int_def isspace_def)
  moreover have "takeWhile is_digit (print_nat k @ rest) = print_nat k" for k
    using takeWhile_digits[OF print_nat_digits assms(3)] .
  ultimately show ?thesis
    using assms(1,2) print_nat_nonempty by (simp add: sto_int_def print_nat_val Let_def)
qed

lemma sto_print: "- (2 ^ (w - 1)) \<le> n \<Longrightarrow> n < 2 ^ (w - 1) \<Longrightarrow> sto_int w (print_int n) = Inr n"
  using sto_print_rest[of w n "[]"] by simp

lemma print_int_inj: "print_int m = print_int n \<longleftrightarrow> m = n"
proof
  assume eq: "print_int m = print_int n"
  have "(m < 0, print_nat (nat \<bar>m\<bar>)) = (n < 0, print_nat (nat \<bar>n\<bar>))"
    using print_int_value(1)[of m] print_int_value(1)[of n] unfolding eq by (rule trans[OF sym])
  then have "m < 0 \<longleftrightarrow> n < 0" "int (nat \<bar>m\<bar>) = int (nat \<bar>n\<bar>)"
    using print_nat_val by (simp, metis prod.inject)
  then show "m = n" by linarith
qed simp

subsection \<open>Lists of medals\<close>

lemma badge_loop_comma:
  "CHR '','' \<notin> set w \<Longrightarrow> s \<noteq> [] \<Longrightarrow>
   badge_loop (w @ CHR '','' # s) word rtn = andThen (stoi (word @ w)) (\<lambda>n. badge_loop s [] (rtn @ [n]))"
  by (induction w arbitrary: word) (auto simp: andThen_assoc)

lemma badge_loop_last:
  "CHR '','' \<notin> set w \<Longrightarrow> w \<noteq> [] \<Longrightarrow> badge_loop w word rtn = andThen (stoi (word @ w)) (\<lambda>n. Inr (rtn @ [n]))"
  by (induction w arbitrary: word) (auto simp: andThen_assoc)

lemma no_comma: "CHR '','' \<notin> set (print_int n)"
  using print_int_chars[of n] by (auto simp: is_digit_def)

lemma badge_text_loop:
  "\<forall>n \<in> set (tmp @ [k]). - (2 ^ 31) \<le> n \<and> n < 2 ^ 31 \<Longrightarrow>
   badge_loop (badge_list_text tmp k) [] rtn = Inr (rtn @ tmp @ [k])"
proof (induction tmp arbitrary: rtn)
  case Nil
  then show ?case
    using badge_loop_last[OF no_comma print_int_nonempty] sto_print[of 32 k]
    by (simp add: badge_list_text_def stoi_def)
next
  case (Cons n tmp)
  have "badge_list_text (n # tmp) k = print_int n @ CHR '','' # badge_list_text tmp k" "badge_list_text tmp k \<noteq> []"
    by (simp_all add: badge_list_text_def print_int_nonempty)
  then show ?case
    using badge_loop_comma[OF no_comma] Cons sto_print[of 32 n] by (simp add: stoi_def)
qed

text \<open>C32 The list of medals that the command to give one writes is read back as the old list with the new
  medal at its end.\<close>

theorem badges_round_trip:
  assumes "\<forall>n \<in> set (tmp @ [badgeid]). - (2 ^ 31) \<le> n \<and> n < 2 ^ 31"
  shows "badgeParser (badge_list_text tmp badgeid) = Inr (tmp @ [badgeid])"
  using badge_text_loop[OF assms, of "[]"] by (simp add: badgeParser_def)

theorem badges_round_trip_witness: "badgeParser ''7,-1,30'' = Inr [7, - 1, 30]"
proof -
  have "badge_list_text [7, - 1] 30 = ''7,-1,30''" by code_simp
  then show ?thesis using badges_round_trip[of "[7, - 1]" 30] by simp
qed

subsection \<open>Lists of receivers\<close>

lemma split_append: "split_on [c] (s @ c # t) = split_on [c] s @ split_on [c] t"
  by (induction s) (auto simp: hd_append tl_append split: list.split)

lemma split_free: "c \<notin> set s \<Longrightarrow> split_on [c] s = [s]"
  by (induction s) auto

lemma no_semicolon: "CHR '';'' \<notin> set (print_int n)"
  using print_int_chars[of n] by (auto simp: is_digit_def)

text \<open>Adding a receiver to a list adds exactly that one: afterwards the receivers are those of before and
  the new one, whatever the text of the list was.\<close>

theorem receivers_insert:
  "{m. has_receiver (more_receivers tmp n) m} = insert n {m. has_receiver tmp m}"
proof (cases "tmp = ''null''")
  case True
  have "print_int m \<noteq> ''null''" "''null'' \<noteq> print_int m" for m
  proof -
    have "CHR ''n'' \<notin> set (print_int m)" using print_int_chars[of m] by (auto simp: is_digit_def)
    then show "print_int m \<noteq> ''null''" "''null'' \<noteq> print_int m" by (metis list.set_intros(1))+
  qed
  then show ?thesis
    unfolding True using no_semicolon[of n] by (auto simp: more_receivers_def has_receiver_def print_int_inj)
next
  case False
  have "string_split (tmp @ CHR '';'' # print_int n) CHR '';'' = split_on '';'' tmp @ [print_int n]"
    by (simp add: string_split_eq split_append split_free no_semicolon)
  moreover have "has_receiver tmp m \<longleftrightarrow> print_int m \<in> set (split_on '';'' tmp)" for m
    by (auto simp: has_receiver_def string_split_eq split_free)
  ultimately show ?thesis
    using False by (auto simp: more_receivers_def has_receiver_def print_int_inj)
qed

subsection \<open>Missing records\<close>

lemma select_nothing:
  "\<forall>l sql. sv_query S l sql \<in> {Failed, NoResult, Rows []} \<Longrightarrow> \<exists>l'. Select S sql l = (l', Inl DatabaseError)"
  by (auto simp: Select_def split: answer.split dest!: spec[of _ l] spec[of _ sql])

lemma bindS_throws: "m l = (l1, Inl e) \<Longrightarrow> bindS m f l = (l1, Inl e)"
  by simp

lemma tryS_falls: "m l = (l1, Inl DatabaseError) \<Longrightarrow> tryS m (retS x) l = (l1, Inr x)"
  by (simp add: tryS_def retS_def pureS_def)

text \<open>Without any record of the player the comparison with an earlier day reports that there is none,
  but the request for today's record throws, contrary to its comment.\<close>

theorem missing_record:
  assumes "\<forall>l sql. sv_query (db_server E) l sql \<in> {Failed, NoResult, Rows []}"
  shows "snd (osu_GetUserData E user_id days info l) =
    (if days = 0 then Inl DatabaseError
     else if - (2 ^ 31) \<le> days * 86400 \<and> days * 86400 < 2 ^ 31 then Inr (info, Inr (- 1)) else Inl Undefined)"
proof -
  have sel: "\<exists>l'. Select (db_server E) sql l = (l', Inl DatabaseError)" for sql l
    using select_nothing[OF assms] .
  have falls: "\<exists>l1. tryS (Select (db_server E) sql) h l = h l1" for h :: "json list statement" and sql l
    using sel[of sql l] by (auto simp: tryS_def)
  have falls': "\<exists>l1. tryS (bindS (Select (db_server E) sql) f) h l = h l1" for f and h :: "(user_info \<times> int thrown) statement" and sql l
    using sel[of sql l] by (auto simp: tryS_def)
  have twice: "\<exists>l1. tryS (Select (db_server E) s) (Select (db_server E) t) l = (l1, Inl DatabaseError)" for s t l
    using falls[where h = "Select (db_server E) t"] sel by metis
  show ?thesis
  proof (cases "days = 0")
    case True
    obtain l1 where "tryS (Select (db_server E) (record_query user_id info (on_day (at_four E (db_time E l)))))
        (Select (db_server E) (record_query user_id info (on_day (at_four E (db_time E l - DAY))))) l = (l1, Inl DatabaseError)"
      using twice by blast
    then show ?thesis using True by (simp add: osu_GetUserData_def Let_def timeS_def)
  next
    case False
    define day where "day = at_four E (db_time E l - days * DAY)"
    obtain l1 where a: "tryS (bindS (Select (db_server E) (record_query user_id info (on_day day))) (\<lambda>js. exact_record js info))
       (tryS (bindS (tryS (Select (db_server E) (record_query user_id info ('' and lastupdate<'' @ in_quotes day)))
           (Select (db_server E) (record_query user_id info []))) (\<lambda>js. near_record E js info)) (retS (info, Inr (- 1)))) l =
       tryS (bindS (tryS (Select (db_server E) (record_query user_id info ('' and lastupdate<'' @ in_quotes day)))
           (Select (db_server E) (record_query user_id info []))) (\<lambda>js. near_record E js info)) (retS (info, Inr (- 1))) l1"
      using falls' by blast
    obtain l2 where b: "tryS (Select (db_server E) (record_query user_id info ('' and lastupdate<'' @ in_quotes day)))
        (Select (db_server E) (record_query user_id info [])) l1 = (l2, Inl DatabaseError)"
      using twice by blast
    have "snd (tryS (bindS (Select (db_server E) (record_query user_id info (on_day day))) (\<lambda>js. exact_record js info))
       (tryS (bindS (tryS (Select (db_server E) (record_query user_id info ('' and lastupdate<'' @ in_quotes day)))
           (Select (db_server E) (record_query user_id info []))) (\<lambda>js. near_record E js info)) (retS (info, Inr (- 1)))) l) =
       Inr (info, Inr (- 1))"
      unfolding a by (subst tryS_falls, rule bindS_throws, rule b) simp
    then show ?thesis using False
      by (auto simp: osu_GetUserData_def Let_def timeS_def definedS_def ck_def in_int_iff DAY_def day_def)
  qed
qed

theorem missing_record_witness:
  "snd (osu_GetUserData (dbenv1 unreachable) 5 0 no_user []) = Inl DatabaseError \<and>
   snd (osu_GetUserData (dbenv1 unreachable) 5 1 no_user []) = Inr (no_user, Inr (- 1))"
  using missing_record[of "dbenv1 unreachable"] by (simp add: dbenv1_def unreachable_def)

end
