(* ===== verification/SteamProps.thy ===== *)
theory SteamProps
  imports StoreProps
begin

text \<open>
  Who is told of a ban. The texts of receivers are those that the database class builds by adding one
  receiver after the other.
\<close>

definition receivers :: "int list \<Rightarrow> string" where
  "receivers ns = foldl more_receivers ''null'' ns"

definition in_64 :: "int \<Rightarrow> bool" where
  "in_64 n \<longleftrightarrow> - (2 ^ 63) \<le> n \<and> n < 2 ^ 63"

lemma null_free: "CHR '';'' \<notin> set ''null''"
  by simp

lemma receivers_split:
  "ns \<noteq> [] \<Longrightarrow> split_on '';'' (receivers ns) = map print_int ns \<and> receivers ns \<noteq> ''null''"
proof (induction ns rule: rev_induct)
  case (snoc n ns)
  have number: "split_on '';'' (print_int n) = [print_int n]" by (simp add: split_free no_semicolon)
  have "CHR ''n'' \<notin> set (print_int n)" using print_int_chars[of n] by (auto simp: is_digit_def)
  then have num: "print_int n \<noteq> ''null''" by (metis list.set_intros(1))
  show ?case
  proof (cases "ns = []")
    case True
    then show ?thesis using number num by (simp add: receivers_def more_receivers_def)
  next
    case False
    then have "receivers (ns @ [n]) = receivers ns @ CHR '';'' # print_int n"
      using snoc by (simp add: receivers_def more_receivers_def)
    moreover have "receivers ns @ CHR '';'' # print_int n \<noteq> ''null''"
    proof
      assume eq: "receivers ns @ CHR '';'' # print_int n = ''null''"
      have "CHR '';'' \<in> set (receivers ns @ CHR '';'' # print_int n)" by simp
      then show False unfolding eq by simp
    qed
    ultimately show ?thesis using snoc False number by (simp add: split_append)
  qed
qed simp

lemma receivers_semicolon: "CHR '';'' \<in> set (receivers ns) \<longleftrightarrow> 2 \<le> length ns"
proof (cases "ns = []")
  case True
  then show ?thesis by (simp add: receivers_def)
next
  case False
  then have "length (split_on '';'' (receivers ns)) = length ns" using receivers_split by simp
  then have "Suc (length (filter (\<lambda>c. c = CHR '';'') (receivers ns))) = length ns" by (simp add: length_split_on)
  moreover have "CHR '';'' \<in> set (receivers ns) \<longleftrightarrow> filter (\<lambda>c. c = CHR '';'') (receivers ns) \<noteq> []"
    by (induction "receivers ns") (auto simp: filter_empty_conv)
  ultimately show ?thesis by (cases "filter (\<lambda>c. c = CHR '';'') (receivers ns)") auto
qed

text \<open>What is done for a list of receivers: a text for each, in their order.\<close>

definition tell_all :: "(int \<Rightarrow> string \<Rightarrow> unit bot_prog) \<Rightarrow> string bot_prog \<Rightarrow> int list \<Rightarrow> unit bot_prog" where
  "tell_all out msg ns = foldr (\<lambda>n p. bindB msg (\<lambda>m. thenB (out n m) p)) ns (retB ())"

lemma bindB_lift: "bindB (liftB (Inr x)) f = f x"
  by (simp add: bindB_def liftB_def fun_eq_iff)

lemma bindB_throw: "bindB (liftB (Inl e)) f = liftB (Inl e)"
  by (simp add: bindB_def liftB_def fun_eq_iff)

lemma stoll_print: "in_64 n \<Longrightarrow> stoll (print_int n) = Inr n"
  using sto_print[of 64 n] by (simp add: stoll_def in_64_def)

lemma deliver_all: "\<forall>n \<in> set ns. in_64 n \<Longrightarrow> deliver_each out msg (map print_int ns) = tell_all out msg ns"
  by (induction ns) (simp_all add: tell_all_def stoll_print bindB_lift)

lemma stoll_null: "stoll ''null'' = Inl InvalidArgument"
  by (simp add: stoll_def sto_int_def isspace_def is_digit_def)

lemma first_number:
  assumes "2 \<le> length (n # ns)" "in_64 n"
  shows "stoll (receivers (n # ns)) = Inr n"
proof -
  let ?t = "receivers (n # ns)"
  have "hd (split_on '';'' ?t) = print_int n" using receivers_split[of "n # ns"] by simp
  moreover have "hd (split_on '';'' s) = takeWhile (\<lambda>c. c \<noteq> CHR '';'') s" for s
    by (induction s) auto
  ultimately have "takeWhile (\<lambda>c. c \<noteq> CHR '';'') ?t = print_int n" by simp
  moreover have "dropWhile (\<lambda>c. c \<noteq> CHR '';'') ?t \<noteq> []"
    using receivers_semicolon[of "n # ns"] assms(1) by (simp add: dropWhile_eq_Nil_conv)
  moreover from this have "hd (dropWhile (\<lambda>c. c \<noteq> CHR '';'') ?t) = CHR '';''"
    using hd_dropWhile by blast
  ultimately obtain r where t: "?t = print_int n @ CHR '';'' # r"
    by (metis list.collapse takeWhile_dropWhile_id)
  show ?thesis unfolding t stoll_def using assms(2)
    by (intro sto_print_rest) (simp_all add: in_64_def is_digit_def)
qed

lemma two_or_less:
  obtains (none) "ns = []" | (one) n where "ns = [n]" | (more) n k ks where "ns = n # k # ks"
  by (cases ns; cases "tl ns") auto



end
