(* ===== verification/Startup.thy ===== *)
theory Startup
  imports Program
begin

text \<open>
  The start of the bot: \<^verbatim>\<open>_FolderCheck\<close>, \<^verbatim>\<open>_ConfigCheck\<close> and \<^verbatim>\<open>_AdminCheck\<close> of the class \<^verbatim>\<open>System\<close> in
  \<^verbatim>\<open>src/osucat.hpp\<close>, in the order of \<^verbatim>\<open>on_startup\<close> in \<^verbatim>\<open>src/main.hpp\<close>. What is printed on the console is left
  out. The configuration ends up in fixed buffers of \<^verbatim>\<open>main.h\<close>.
\<close>

subsection \<open>Folders\<close>

text \<open>A folder is the list of the names on its path from the working directory. \<open>ok\<close> says whether the
  system lets it be made; without its parent it does not. The result is not looked at.\<close>

definition FOLDERS :: "string list list" where
  "FOLDERS = [[''log''], [''data''], [''data'', ''cache''], [''data'', ''images''], [''data'', ''images'', ''osucat''],
     [''data'', ''images'', ''osucat'', ''help''], [''data'', ''images'', ''osucat'', ''custom''],
     [''data'', ''images'', ''osucat'', ''custom'', ''banner_verify''],
     [''data'', ''images'', ''osucat'', ''custom'', ''infopanel_verify''],
     [''work''], [''work'', ''avatar''], [''work'', ''background''], [''work'', ''badges''], [''work'', ''flags''],
     [''work'', ''fonts''], [''work'', ''icons''], [''work'', ''mode_icon''], [''work'', ''mods''],
     [''work'', ''ranking''], [''work'', ''v1_cover''], [''work'', ''v1_infopanel''], [''work'', ''v2_background''],
     [''work'', ''v2_infopanel'']]"

definition CreateDirectoryA :: "(string list \<Rightarrow> bool) \<Rightarrow> string list \<Rightarrow> string list set \<Rightarrow> string list set" where
  "CreateDirectoryA ok p D = (if ok p \<and> butlast p \<in> D then insert p D else D)"

definition check_folder :: "(string list \<Rightarrow> bool) \<Rightarrow> string list \<Rightarrow> string list set \<Rightarrow> string list set" where
  "check_folder ok p D = (if p \<notin> D then CreateDirectoryA ok p D else D)"

definition FolderCheck :: "(string list \<Rightarrow> bool) \<Rightarrow> string list set \<Rightarrow> string list set" where
  "FolderCheck ok D = fold (check_folder ok) FOLDERS D"

subsection \<open>The configuration\<close>

record config =
  cf_owner :: int
  cf_group :: int
  cf_osu_key :: string
  cf_steam_key :: string
  cf_host :: string
  cf_port :: int
  cf_sql_user :: string
  cf_sql_host :: string
  cf_sql_password :: string
  cf_sql_database :: string
  cf_sql_port :: int
  cf_prefix :: string

text \<open>The program ends with a code, or with an exception that nothing catches.\<close>

datatype stop = Exit int | Throws exn

type_synonym 'a started = "stop + 'a"

fun startThen :: "'a started \<Rightarrow> ('a \<Rightarrow> 'b started) \<Rightarrow> 'b started" where
  "startThen (Inl e) f = Inl e"
| "startThen (Inr x) f = f x"

definition throwing :: "'a thrown \<Rightarrow> 'a started" where
  "throwing v = (case v of Inl e \<Rightarrow> Inl (Throws e) | Inr x \<Rightarrow> Inr x)"

definition required :: "json \<Rightarrow> int \<Rightarrow> string \<Rightarrow> string started" where
  "required j exit_code k = startThen (throwing (text_at j k)) (\<lambda>t. if t = [] then Inl (Exit exit_code) else Inr t)"

text \<open>\<^verbatim>\<open>sprintf_s(buffer, "%s", text.c_str())\<close>.\<close>

definition into_buffer :: "nat \<Rightarrow> string \<Rightarrow> string started" where
  "into_buffer n t = throwing (sprintf_buf n (takeWhile (\<lambda>c. c \<noteq> NUL) t))"

definition buffered :: "json \<Rightarrow> int \<Rightarrow> string \<Rightarrow> nat \<Rightarrow> string started" where
  "buffered j exit_code k n = startThen (required j exit_code k) (into_buffer n)"

definition numeral_at :: "json \<Rightarrow> int \<Rightarrow> string \<Rightarrow> int started" where
  "numeral_at j exit_code k = startThen (required j exit_code k) (\<lambda>t. throwing (stoll t))"

definition port_at :: "json \<Rightarrow> string \<Rightarrow> int started" where
  "port_at j k = startThen (throwing (member j k)) (\<lambda>v.
     if v = JNull then Inl (Exit (- 1002)) else throwing (get_int 32 v))"

text \<open>A prefix that is given is passed to \<^verbatim>\<open>%s\<close> as a C++ string; \<open>vararg\<close> is what comes of that.\<close>

definition prefix_at :: "(string \<Rightarrow> string) \<Rightarrow> json \<Rightarrow> string started" where
  "prefix_at vararg j = startThen (throwing (member j ''oc_output_prefix'')) (\<lambda>v.
     if v = JNull then Inr ''[osucat]''
     else startThen (throwing (get_string v)) (\<lambda>t. throwing (sprintf_buf 512 (vararg t))))"

definition read_config :: "(string \<Rightarrow> string) \<Rightarrow> bool \<Rightarrow> json \<Rightarrow> config started" where
  "read_config vararg cqhttp j =
     startThen (numeral_at j (- 1001) ''owner_userid'') (\<lambda>owner.
     startThen (numeral_at j (- 1001) ''management_groupid'') (\<lambda>group_id.
     startThen (buffered j (- 1001) ''osu_web_apikey'' 128) (\<lambda>osu_key.
     startThen (buffered j (- 1001) ''steam_web_apikey'' 128) (\<lambda>steam_key.
     if \<not> cqhttp then Inl (Exit (- 1003))
     else
       startThen (buffered j (- 1002) ''oc_server_host'' 32) (\<lambda>host.
       startThen (port_at j ''oc_server_port'') (\<lambda>port.
       startThen (buffered j (- 1002) ''sql_user'' 8) (\<lambda>user.
       startThen (buffered j (- 1002) ''sql_host'' 32) (\<lambda>sql_host.
       startThen (buffered j (- 1002) ''sql_password'' 32) (\<lambda>password.
       startThen (buffered j (- 1002) ''sql_database'' 16) (\<lambda>database.
       startThen (port_at j ''sql_port'') (\<lambda>sql_port.
       startThen (prefix_at vararg j) (\<lambda>pre.
       Inr \<lparr>cf_owner = owner, cf_group = group_id, cf_osu_key = osu_key, cf_steam_key = steam_key, cf_host = host,
         cf_port = port, cf_sql_user = user, cf_sql_host = sql_host, cf_sql_password = password,
         cf_sql_database = database, cf_sql_port = sql_port, cf_prefix = pre\<rparr>))))))))))))"

definition CONFIG_FILE :: string where
  "CONFIG_FILE = CHR ''.'' # CHR 0x5C # ''osucat_config.json''"

definition CQHTTP_FILE :: string where
  "CQHTTP_FILE = CHR ''.'' # CHR 0x5C # ''go-cqhttp.exe''"

definition config_template :: json where
  "config_template = JObject [(''osu_web_apikey'', JString []), (''steam_web_apikey'', JString []),
     (''debugmode'', JBool False), (''oc_output_prefix'', JString ''[osucat]''),
     (''oc_server_host'', JString ''127.0.0.1''), (''oc_server_port'', JNumber ''6700''),
     (''sql_host'', JString ''127.0.0.1''), (''sql_user'', JString []), (''sql_password'', JString []),
     (''sql_database'', JString []), (''sql_port'', JNumber ''3306''), (''owner_userid'', JString []),
     (''management_groupid'', JString [])]"

text \<open>A file that is no JSON, and one that is not there: then it is written and the program ends.\<close>

definition ConfigCheck :: "botenv \<Rightarrow> bot \<Rightarrow> bot \<times> config started" where
  "ConfigCheck E b = (case bt_files b CONFIG_FILE of
     Some text \<Rightarrow> (case be_parse E text of
         Inl e \<Rightarrow> (b, Inl (if std_exception e then Exit (- 1) else Throws e))
       | Inr j \<Rightarrow> (b, read_config (g_vararg (be_game E)) (bt_files b CQHTTP_FILE \<noteq> None) j))
   | None \<Rightarrow>
       if \<not> be_writable E CONFIG_FILE then (b, Inl (Exit (- 1001)))
       else (case be_dump E config_template of
         Inl e \<Rightarrow> (b\<lparr>bt_files := (bt_files b)(CONFIG_FILE \<mapsto> [])\<rparr>, Inl (Throws e))
       | Inr t \<Rightarrow> (b\<lparr>bt_files := (bt_files b)(CONFIG_FILE \<mapsto> t @ NEWLINE)\<rparr>, Inl (Exit 0))))"

subsection \<open>The administrators\<close>

definition AdminCheck :: "botenv \<Rightarrow> unit bot_prog" where
  "AdminCheck E = catchB (\<lambda>e. e = DatabaseError) (thenB (dbC E Connect) (reload_admins E)) (retB ())"

text \<open>What the configuration means for the rest: the owner, the group and the keys.\<close>

definition configured :: "config \<Rightarrow> botenv \<Rightarrow> botenv" where
  "configured cf E = E\<lparr>be_owner := cf_owner cf, be_group := cf_group cf, be_steam_key := cf_steam_key cf,
     be_db := (be_db E)\<lparr>db_api := (db_api (be_db E))\<lparr>api_key := cf_osu_key cf\<rparr>\<rparr>\<rparr>"

text \<open>The start up to the threads, which are the events of the theory \<open>Program\<close>.\<close>

definition on_startup :: "(string list \<Rightarrow> bool) \<Rightarrow> botenv \<Rightarrow> string list set \<times> bot \<Rightarrow> (string list set \<times> bot) \<times> config started" where
  "on_startup ok E = (\<lambda>(D, b). let D = FolderCheck ok D in
     case ConfigCheck E b of
       (b, Inl e) \<Rightarrow> ((D, b), Inl e)
     | (b, Inr cf) \<Rightarrow> (case AdminCheck (configured cf E) b of
           (b, Inl e) \<Rightarrow> ((D, b), Inl (Throws e))
         | (b, Inr _) \<Rightarrow> ((D, b), Inr cf)))"

end
