(* ===== verification/PlayProps.thy ===== *)
theory PlayProps
  imports BotErrors Startup RouteProps
begin

text \<open>
  The commands on players and plays, the daily update and the start: the accuracy of a play is a
  percentage; which best play is shown; commands that answer nothing or too much; and what a
  configuration that was accepted looks like.
\<close>

subsection \<open>Accuracy\<close>

text \<open>Integers of 53 bits are doubles. \<open>below n x\<close>: the double lies between 0 and the integer.\<close>

abbreviation exact :: "int \<Rightarrow> bool" where
  "exact n \<equiv> 0 \<le> n \<and> n \<le> 9007199254740992"

abbreviation below :: "int \<Rightarrow> fp \<Rightarrow> bool" where
  "below n x \<equiv> btw 0 (of_int n) x"

lemma repn_int:
  assumes "exact n"
  shows "repn Double (of_int n)" "finite_fp (i2d n)" "fval (i2d n) = of_int n"
proof -
  have n: "\<bar>n\<bar> \<le> 2 ^ nat (prec Double)" using assms by simp
  then show "finite_fp (i2d n)" "fval (i2d n) = of_int n" by (rule of_cint_exact)+
  have "(of_int n :: rat) \<le> of_int 9007199254740992" using assms by (simp only: of_int_le_iff)
  then have "\<bar>of_int n :: rat\<bar> \<le> 2 powi prec Double" using assms by (simp add: power_int_def)
  then have "\<bar>of_int n :: rat\<bar> < 2 powi etop Double" using powi2_etop[of Double] by (rule order_le_less_trans)
  then show "repn Double (of_int n)" using rnd_of_int[OF n] by (simp add: repn_def)
qed

lemma below_i2d: "exact n \<Longrightarrow> below n (i2d n)"
  using repn_int[of n] by (simp add: btw_def)

lemma below_add: "below a x \<Longrightarrow> below b y \<Longrightarrow> exact (a + b) \<Longrightarrow> below (a + b) (addd x y)"
  using repn_int[of "a + b"] repn_int[of 0] by (intro btw_add[of 0 "of_int a" x 0 "of_int b" y]) simp_all

lemma below_mul: "below a x \<Longrightarrow> 0 \<le> c \<Longrightarrow> exact (a * c) \<Longrightarrow> below (a * c) (muld x (Num (of_int c)))"
  using repn_int[of "a * c"] repn_int[of 0] by (intro btw_scale(1)[of 0 "of_int a" x _ "of_int c"]) simp_all

lemma below_less: "below a x \<Longrightarrow> a \<le> b \<Longrightarrow> below b x"
  by (erule btw_weaken) simp_all

text \<open>The double is that integer.\<close>

abbreviation whole :: "int \<Rightarrow> fp \<Rightarrow> bool" where
  "whole n x \<equiv> finite_fp x \<and> fval x = of_int n"

lemma whole_i2d: "exact n \<Longrightarrow> whole n (i2d n)"
  using repn_int[of n] by simp

lemma whole_add:
  assumes "whole a x" "whole b y" "exact (a + b)"
  shows "whole (a + b) (addd x y)"
proof -
  have "addd x y = fround Double (fsign x \<and> fsign y) (of_int (a + b))"
    using assms by (simp add: fadd_finite)
  then show ?thesis using repn_int(1)[OF assms(3)] fround_exact by (simp add: repn_def)
qed

lemma below_half:
  assumes "below a x" "exact a"
  shows "below a (muld x (dlit (1 / 2)))"
proof (rule btw_mul_unit[OF assms(1)])
  show "finite_fp (dlit (1 / 2))" "0 \<le> fval (dlit (1 / 2))" "fval (dlit (1 / 2)) \<le> 1"
    by (simp_all add: fp_eval)
qed (use assms(2) repn_int[OF assms(2)] repn_int[of 0] in simp_all)

text \<open>A quotient of at most 1 as a percentage.\<close>

lemma percentage_range:
  assumes "below a x" "a \<le> b" "0 < b" "finite_fp y" "fval y = of_int b"
  shows "btw 0 100 (percentage x y)"
proof -
  have "0 \<le> (of_int a :: rat)" using assms(1) by (simp add: btw_def)
  moreover have "(of_int a :: rat) / of_int b \<le> 1" using assms(2,3) by (simp add: divide_le_eq)
  ultimately have "btw 0 1 (divd x y)"
    using assms repn_int[of 0] repn_int[of 1] by (intro btw_div[of 0 "of_int a" x _ "of_int b"]) simp_all
  then show ?thesis
    unfolding percentage_def using repn_int[of 0] repn_int[of 100] by (intro btw_scale(1)[of 0 1 _ _ 100]) simp_all
qed

lemma below_cint:
  assumes "below a x" "a \<le> 2147483647"
  obtains n where "to_cint x = Some n" "0 \<le> n" "n \<le> a"
proof -
  have f: "finite_fp x" "0 \<le> fval x" "fval x \<le> of_int a" using assms(1) by (auto simp: btw_def)
  then have n: "0 \<le> \<lfloor>fval x\<rfloor>" "\<lfloor>fval x\<rfloor> \<le> a" by (simp_all add: floor_le_iff)
  then have "to_cint x = Some \<lfloor>fval x\<rfloor>"
    using f assms(2) by (simp add: to_cint_def trunc_rat_def ck_def in_int_iff)
  with n show thesis by (rule that[rotated 1])
qed

lemma mania_accuracy_range:
  assumes "0 \<le> si_n300 s" "0 \<le> si_n100 s" "0 \<le> si_n50 s" "0 \<le> si_nmiss s" "0 \<le> si_nkatu s" "0 \<le> si_ngeki s"
    and "0 < si_nmiss s + si_n100 s + si_nkatu s + si_n300 s"
    and "300 * (si_nmiss s + si_n50 s + si_nkatu s + si_n100 s + si_n300 s + si_ngeki s) \<le> 2147483647"
  shows "\<exists>a. mania_accuracy s = Some a \<and> btw 0 100 a"
proof -
  let ?top = "si_n300 s + si_ngeki s"
  let ?sum = "si_n50 s * 50 + si_n100 s * 100 + si_nkatu s * 200 + ?top * 300"
  have "below ?sum (sum_doubles [muld (i2d (si_n50 s)) (Num (of_int 50)), muld (i2d (si_n100 s)) (Num (of_int 100)),
       muld (i2d (si_nkatu s)) (Num (of_int 200)), muld (i2d ?top) (Num (of_int 300))])"
    unfolding sum_doubles_def list.sel foldl.simps
    using assms by (intro below_add below_mul below_i2d) simp_all
  then obtain n where n: "to_cint (sum_doubles [muld (i2d (si_n50 s)) (Num 50), muld (i2d (si_n100 s)) (Num 100),
       muld (i2d (si_nkatu s)) (Num 200), muld (i2d ?top) (Num 300)]) = Some n" "0 \<le> n" "n \<le> ?sum"
    using assms by (elim below_cint) simp_all
  let ?all = "si_nmiss s + si_n50 s + si_nkatu s + si_n100 s + si_n300 s + si_ngeki s"
  have "btw 0 100 (percentage (i2d n) (i2d (300 * ?all)))"
    using assms n repn_int[of "300 * ?all"] by (intro percentage_range[of n _ "300 * ?all"] below_i2d) simp_all
  moreover have "mania_accuracy s = Some (percentage (i2d n) (i2d (300 * ?all)))"
    using assms n(1) by (simp add: mania_accuracy_def ck_def in_int_iff)
  ultimately show ?thesis by blast
qed

lemma taiko_accuracy_range:
  assumes "0 \<le> si_n300 s" "0 \<le> si_n100 s" "0 \<le> si_nmiss s" "0 \<le> si_nkatu s" "0 \<le> si_ngeki s"
    and "0 < si_nmiss s + si_n100 s + si_nkatu s + si_n300 s"
    and "si_nmiss s + si_nkatu s + si_n100 s + si_n300 s + si_ngeki s \<le> 2147483647"
  shows "btw 0 100 (taiko_accuracy s)"
proof -
  let ?all = "si_nmiss s + si_n100 s + si_nkatu s + si_n300 s + si_ngeki s"
  have "below (si_n100 s + si_nkatu s + si_n300 s + si_ngeki s) (sum_doubles
      [muld (addd (i2d (si_n100 s)) (i2d (si_nkatu s))) (dlit (1 / 2)), i2d (si_n300 s), i2d (si_ngeki s)])"
    unfolding sum_doubles_def list.sel foldl.simps
    using assms by (intro below_add below_half below_i2d) simp_all
  moreover have "whole ?all
      (sum_doubles [i2d (si_nmiss s), i2d (si_n100 s), i2d (si_nkatu s), i2d (si_n300 s), i2d (si_ngeki s)])"
    unfolding sum_doubles_def list.sel foldl.simps
    using assms by (intro whole_add whole_i2d) simp_all
  ultimately show ?thesis
    unfolding taiko_accuracy_def using assms
    by (intro percentage_range[of "si_n100 s + si_nkatu s + si_n300 s + si_ngeki s" _ ?all]) simp_all
qed

lemma ctb_accuracy_range:
  assumes "0 \<le> si_n300 s" "0 \<le> si_n100 s" "0 \<le> si_n50 s" "0 \<le> si_nmiss s" "0 \<le> si_nkatu s"
    and "0 < si_nmiss s + si_n100 s + si_nkatu s + si_n300 s"
    and "si_nmiss s + si_n50 s + si_nkatu s + si_n100 s + si_n300 s \<le> 2147483647"
  shows "\<exists>a. ctb_accuracy s = Some a \<and> btw 0 100 a"
proof -
  let ?hit = "si_n50 s + si_n100 s + si_n300 s" and ?all = "si_nkatu s + si_nmiss s + si_n50 s + si_n100 s + si_n300 s"
  have "btw 0 100 (percentage (i2d ?hit) (i2d ?all))"
    using assms repn_int[of ?all] by (intro percentage_range[of ?hit _ ?all] below_i2d) simp_all
  moreover have "ctb_accuracy s = Some (percentage (i2d ?hit) (i2d ?all))"
    using assms by (simp add: ctb_accuracy_def ck_def in_int_iff)
  ultimately show ?thesis by blast
qed


definition a_play :: score_panel where
  "a_play = no_panel\<lparr>pn_mode := 3, pn_score := no_score\<lparr>si_n300 := 7, si_nmiss := 1\<rparr>\<rparr>"


subsection \<open>The best play that is asked for\<close>

text \<open>What holds of every value a program ends with, unless it has answered.\<close>

definition yields :: "('a \<Rightarrow> bool) \<Rightarrow> 'a option bot_prog \<Rightarrow> bool" where
  "yields P m \<longleftrightarrow> (\<forall>b b' x. m b = (b', Inr (Some x)) \<longrightarrow> P x)"

named_theorems yields_rules \<open>programs that end with values of a kind\<close>

lemma yields_retO: "P x \<Longrightarrow> yields P (retO x)"
  by (simp add: yields_def retO_def retB_def)

lemma yields_answered [yields_rules]: "yields P (answered E tar t)"
  by (auto simp: yields_def answered_def thenB_def bindB_def retB_def split: prod.splits sum.splits)

lemma yields_bindB: "(\<And>x. yields P (f x)) \<Longrightarrow> yields P (bindB m f)"
  by (fastforce simp: yields_def bindB_def split: prod.splits sum.splits)

lemma yields_bindO: "(\<And>x. yields P (f x)) \<Longrightarrow> yields P (bindO m f)"
  unfolding bindO_def by (rule yields_bindB) (auto simp: yields_def retB_def split: option.split)

lemma yields_if [yields_rules]: "(c \<Longrightarrow> yields P m) \<Longrightarrow> (\<not> c \<Longrightarrow> yields P k) \<Longrightarrow> yields P (if c then m else k)"
  by simp

lemma yields_let [yields_rules]: "(\<And>x. x = v \<Longrightarrow> yields P (f x)) \<Longrightarrow> yields P (Let v f)"
  by simp

lemma yields_prod [yields_rules]: "(\<And>x y. yields P (f x y)) \<Longrightarrow> yields P (case p of (x, y) \<Rightarrow> f x y)"
  by (simp split: prod.split)

lemma bounded_bp_range: "1 \<le> bounded_bp n \<and> bounded_bp n \<le> 100"
  by (simp add: bounded_bp_def)

lemma bp_number_range: "1 \<le> bp_number t \<and> bp_number t \<le> 100"
  using bounded_bp_range by (simp add: bp_number_def split: sum.split)

text \<open>The number is bounded wherever it is read.\<close>

lemma yields_bounded [yields_rules]:
  assumes "\<And>n. 1 \<le> n \<Longrightarrow> n \<le> 100 \<Longrightarrow> yields P (f n)"
  shows "yields P (bindB (if c then bindB m (\<lambda>n. retB (bounded_bp n)) else retB 1) f)"
  using assms bounded_bp_range by (fastforce simp: yields_def bindB_def retB_def split: prod.splits sum.splits if_splits)

lemma bp_request_range: "yields (\<lambda>(uid, name, mode, n). 1 \<le> n \<and> n \<le> 100) (bp_request E tar cmd)"
  unfolding bp_request_def own_account_def
  by (intro yields_rules | rule yields_bindO yields_bindB yields_retO | simp add: bp_number_range)+

text \<open>C13 The number of the best play that is asked for is between 1 and 100, whatever the message says, and
  when the answer of the web interface is accepted the play of that number is there: it is the last one.\<close>

theorem bp_reads_the_last:
  assumes "bp_request (sc_bot N) tar cmd b = (b1, Inr (Some (uid, name, mode, n)))"
    and "best_plays N tar key mode n b2 = (b3, Inr (Some ss))"
  shows "1 \<le> n \<and> n \<le> 100 \<and> length ss = nat n \<and> rdi ss (n - 1) = Some (last ss)"
proof -
  have n: "1 \<le> n" "n \<le> 100" using bp_request_range[of "sc_bot N" tar cmd] assms(1) by (fastforce simp: yields_def)+
  have "yields (\<lambda>ss. n = int (length ss)) (best_plays N tar key mode n)"
    unfolding best_plays_def Let_def
    by (intro yields_rules | rule yields_bindB yields_retO | simp)+
  then have "n = int (length ss)" using assms(2) by (auto simp: yields_def)
  with n show ?thesis by (cases ss) (auto simp: last_conv_nth nat_diff_distrib)
qed


definition play_json :: json where
  "play_json = JObject [(''beatmap_id'', JString ''1''), (''score'', JString ''2''), (''maxcombo'', JString ''3''),
     (''count50'', JString ''0''), (''count100'', JString ''0''), (''count300'', JString ''4''),
     (''countkatu'', JString ''0''), (''countgeki'', JString ''0''), (''countmiss'', JString ''0''),
     (''enabled_mods'', JString ''0''), (''user_id'', JString ''7''), (''rank'', JString ''S''),
     (''pp'', JString ''nan''), (''date'', JString ''2020-01-02 03:04:05'')]"

definition plays_api :: api where
  "plays_api = api1\<lparr>api_get := (\<lambda>_. Inr (replicate 51 CHR ''x'')), api_parse := (\<lambda>_. Inr (JArray [play_json]))\<rparr>"

definition plays_env :: score_env where
  "plays_env = (senv1 unreachable (\<lambda>_. Inl ParseError))\<lparr>sc_bot := (env1 unreachable (\<lambda>_. Inl ParseError))
     \<lparr>be_db := (dbenv1 unreachable)\<lparr>db_api := plays_api\<rparr>\<rparr>\<rparr>"

theorem bp_reads_the_last_witness:
  "\<exists>b ss. best_plays plays_env (private_text ''bp x#1'') (Inr ''x'') 0 1 bot1 = (b, Inr (Some ss)) \<and> rdi ss 0 = Some (last ss)"
proof -
  have "is_mention ''x#1'' = False" "before_char CHR ''#'' ''x#1'' = ''x''" "bp_number (after_char CHR ''#'' ''x#1'') = 1"
    by code_simp+
  then have r: "bp_request (sc_bot plays_env) t ''x#1'' bot1 = (bot1, Inr (Some (None, ''x'', 0, 1)))" for t
    by (simp add: bp_request_def bp_name_def bindO_def bindB_def catchB_def retO_def retB_def)
  have "case GetUserBest_by_name plays_api ''x'' 1 0 [] of (ss, r) \<Rightarrow> length ss = 1 \<and> r = Inr 1"
    by code_simp
  then obtain s where "GetUserBest_by_name plays_api ''x'' 1 0 [] = ([s], Inr 1)"
    by (fastforce split: prod.splits simp: length_Suc_conv)
  then have "best_plays plays_env (private_text ''bp x#1'') (Inr ''x'') 0 1 bot1 = (bot1, Inr (Some [s]))"
    by (simp add: best_plays_def Let_def plays_env_def int32_def asked_def bindB_def retO_def retB_def)
  with bp_reads_the_last[OF r this] show ?thesis by auto
qed

lemma dbC_ends:
  assumes "snd (m (db_server (be_db E)) (wd_log (bt_world b))) = Inr x"
  shows "\<exists>b'. dbC E m b = (b', Inr x)"
  using assms by (cases "m (db_server (be_db E)) (wd_log (bt_world b))") (simp add: dbC_def dbB_def gameB_def send_def)

lemma connect_and_count_ends:
  assumes "\<And>l. sv_connect (db_server (be_db E)) l" "\<And>l. snd (addcallcount (db_server (be_db E)) l) = Inr ()"
  shows "\<exists>b'. connect_and_count E b = (b', Inr ())"
proof -
  obtain b1 where "dbC E Connect b = (b1, Inr ())"
    using dbC_ends[of Connect E b "()"] assms(1) by (auto simp: Connect_def)
  moreover obtain b2 where "dbC E addcallcount b1 = (b2, Inr ())"
    using dbC_ends[of addcallcount E b1 "()"] assms(2) by blast
  ultimately show ?thesis by (simp add: connect_and_count_def thenB_ends)
qed

lemma bindB_fails: "m b = (b1, Inl e) \<Longrightarrow> bindB m f b = (b1, Inl e)"
  by (simp add: bindB_def)


text \<open>A server that counts the calls and knows no account.\<close>

definition counting :: server where
  "counting = answering [(''count'', Some ''1''), (''uid'', Some ''0'')]"

lemma counting_counts: "snd (addcallcount counting l) = Inr ()" "snd (osu_getuserid counting 5 l) = Inr 0"
  by (code_simp, code_simp)

lemma counting_connects:
  assumes "db_server (be_db E) = counting"
  obtains b' where "connect_and_count E b = (b', Inr ())"
  using connect_and_count_ends[of E b] assms counting_counts by (auto simp: counting_def answering_def)

definition lax_env :: score_env where
  "lax_env = (senv1 counting (\<lambda>_. Inl ParseError))\<lparr>sc_bot := (env1 counting (\<lambda>_. Inl ParseError))\<lparr>be_extract := (\<lambda>_. Some [])\<rparr>\<rparr>"


subsection \<open>Commands that answer nothing, or too much\<close>

text \<open>C29 The Chinese name of the command \<^verbatim>\<open>info\<close> reaches the command, but is never answered: it is looked for
  in a text that is still empty. In the same way nothing is shown after \<^verbatim>\<open>setid\<close>, which ends with a call of
  the command on its own message.\<close>

theorem info_by_other_names_is_silent:
  "route admins who T_cmd_info_cn = Command Info \<and>
   commands N Info (tar\<lparr>ms_message := T_cmd_info_cn @ rest\<rparr>) sdr b = (b, Inr ()) \<and>
   commands N Info (tar\<lparr>ms_message := ''setid'' @ rest\<rparr>) sdr b = (b, Inr ())"
proof -
  have "(6, T_cmd_info_cn, Info) \<in> set main_table" by (simp add: main_table_def)
  from main_matches[OF this, of "[]"] have "route admins who T_cmd_info_cn = Command Info"
    by (simp add: route_def ends_name_def)
  moreover have "\<not> command_is 6 T_info_alias []" by code_simp
  moreover have "clash T_cmd_info_cn ''info''" "clash ''setid'' ''info''" by code_simp+
  ultimately show ?thesis
    using clash_differs[of T_cmd_info_cn "''info''" 4 rest] clash_differs[of "''setid''" "''info''" 4 rest]
    by (simp add: show_info_def info_argument_def retB_def del: append.simps)
qed


definition unbound_env :: score_env where
  "unbound_env = senv1 counting (\<lambda>_. Inl ParseError)"


subsection \<open>The daily update\<close>

definition spares :: "exn \<Rightarrow> 'a bot_prog \<Rightarrow> bool" where
  "spares e m \<longleftrightarrow> (\<forall>b. snd (m b) \<noteq> Inl e)"

lemma spares_bindB: "spares e m \<Longrightarrow> (\<And>x. spares e (f x)) \<Longrightarrow> spares e (bindB m f)"
  by (auto simp: spares_def bindB_def split: prod.split sum.split) (metis snd_conv)

lemma up_to_spares: "spares NetworkError (up_to n f u)"
proof (induction n arbitrary: u)
  case (Suc n)
  show ?case
    unfolding spares_def
  proof
    fix b
    show "snd (up_to (Suc n) f u b) \<noteq> Inl NetworkError"
      using Suc by (cases "f u b"; cases "snd (f u b)") (auto simp: catchB_def spares_def)
  qed
qed (simp add: spares_def retB_def)

text \<open>C15 The update of a player asks up to three times for each mode. An exception of the network never leaves
  it, and neither does one of the standard library, which makes it begin again (True); what is left is the
  database that cannot be reached at the start, an exception of the base class (which a request could throw),
  undefined behaviour and an overfull buffer.\<close>

theorem update_contains_errors:
  assumes "dailyUpdatePoster E uid time b = (b', r)"
  shows "r = Inr True \<or> r = Inr False \<or> r = Inl DatabaseError \<or> r = Inl OsucatError \<or> r = Inl Undefined \<or> r = Inl Aborted"
proof -
  let ?once = "\<lambda>mode. up_to 3 (store_mode E uid time mode)"
  let ?all = "bindB (?once 0 no_user) (\<lambda>u. bindB (?once 1 u) (\<lambda>u. bindB (?once 2 u) (\<lambda>u. bindB (?once 3 u) (\<lambda>u. retB False))))"
  have "spares NetworkError ?all"
    by (intro spares_bindB up_to_spares) (simp add: spares_def retB_def)
  then have n: "snd (catchB std_exception ?all (retB True) b1) \<noteq> Inl NetworkError" for b1
    by (cases "?all b1") (auto simp: spares_def catchB_def retB_def split: sum.split dest: spec[of _ b1])
  have s: "snd (catchB std_exception ?all (retB True) b1) = Inl e \<Longrightarrow> \<not> std_exception e" for b1 e
    by (cases "?all b1") (auto simp: catchB_def retB_def split: sum.splits if_splits)
  obtain b1 v where c: "dbC E Connect b = (b1, v)" by fastforce
  then have "v = Inr () \<or> v = Inl DatabaseError"
    by (auto simp: dbC_def dbB_def gameB_def send_def Connect_def split: if_splits)
  then show ?thesis
  proof
    assume "v = Inr ()"
    then have r: "(b', r) = catchB std_exception ?all (retB True) b1"
      using assms c by (simp add: dailyUpdatePoster_def Let_def thenB_ends)
    show ?thesis
    proof (cases r)
      case (Inl e)
      then show ?thesis using n[of b1] s[of b1 e] r by (cases e) (auto simp: std_exception_def dest: arg_cong[of _ _ snd])
    qed auto
  qed (use assms c in \<open>simp add: dailyUpdatePoster_def Let_def thenB_def bindB_def\<close>)
qed

theorem update_contains_errors_witness:
  "\<exists>r. snd (dailyUpdatePoster (env1 unreachable (\<lambda>_. Inl ParseError)) 5 [] bot1) = r \<and> r = Inl DatabaseError"
proof -
  let ?E = "env1 unreachable (\<lambda>_. Inl ParseError)"
  have "\<exists>b. dailyUpdatePoster ?E 5 [] bot1 = (b, Inl DatabaseError)"
    by (simp add: dailyUpdatePoster_def Let_def thenB_def bindB_def dbC_def dbB_def gameB_def send_def Connect_def
        env_db dbenv1_def unreachable_def)
  then show ?thesis using update_contains_errors[of ?E 5 "[]" bot1] by fastforce
qed

subsection \<open>The start\<close>

text \<open>Each folder comes after the one it lies in.\<close>

fun parents_first :: "string list list \<Rightarrow> string list list \<Rightarrow> bool" where
  "parents_first seen [] \<longleftrightarrow> True"
| "parents_first seen (p # ps) \<longleftrightarrow> butlast p \<in> set seen \<and> parents_first (p # seen) ps"

lemma folders_in_order: "parents_first seen ps \<Longrightarrow> set seen \<subseteq> D \<Longrightarrow> fold (check_folder (\<lambda>_. True)) ps D = D \<union> set ps"
proof (induction seen ps arbitrary: D rule: parents_first.induct)
  case (2 seen p ps)
  then have "check_folder (\<lambda>_. True) p D = insert p D"
    by (auto simp: check_folder_def CreateDirectoryA_def)
  with 2 show ?case by auto
qed simp

text \<open>Wherever the program is started, with whatever folders already there, all its folders exist when
  the check has ended, if the system lets it make them: none is tried before the one it lies in.\<close>

theorem all_folders_made:
  assumes "[] \<in> D"
  shows "FolderCheck (\<lambda>_. True) D = D \<union> set FOLDERS"
proof -
  have "parents_first [[]] FOLDERS" by code_simp
  then show ?thesis using assms folders_in_order[of "[[]]" FOLDERS D] by (simp add: FolderCheck_def)
qed

theorem all_folders_made_witness: "FolderCheck (\<lambda>_. True) {[], [''work'']} = {[], [''work'']} \<union> set FOLDERS"
  by (rule all_folders_made) simp

lemma startThen_Inr: "startThen m f = Inr y \<longleftrightarrow> (\<exists>x. m = Inr x \<and> f x = Inr y)"
  by (cases m) auto

lemma throwing_Inr [simp]: "throwing v = Inr x \<longleftrightarrow> v = Inr x"
  by (cases v) (auto simp: throwing_def)

lemma buffered_fits: "buffered j c k n = Inr t \<Longrightarrow> length t < n"
  by (auto simp: buffered_def into_buffer_def sprintf_buf_def startThen_Inr split: if_splits)

lemma sto_int_fits: "sto_int w t = Inr v \<Longrightarrow> - (2 ^ (w - 1)) \<le> v \<and> v < 2 ^ (w - 1)"
  unfolding sto_int_def Let_def by (auto split: prod.splits if_split_asm)

lemma numeral_fits: "numeral_at j c k = Inr v \<Longrightarrow> - (2 ^ 63) \<le> v \<and> v < 2 ^ 63"
  using sto_int_fits[of 64 _ v] by (auto simp: numeral_at_def stoll_def startThen_Inr)

lemma get_int_fits: "get_int 32 v = Inr n \<Longrightarrow> - (2 ^ 31) \<le> n \<and> n < 2 ^ 31"
  by (cases v) (auto split: sum.splits if_splits)

lemma port_fits: "port_at j k = Inr v \<Longrightarrow> - (2 ^ 31) \<le> v \<and> v < 2 ^ 31"
  by (auto simp: port_at_def startThen_Inr dest!: get_int_fits split: if_splits)

lemma prefix_fits: "prefix_at f j = Inr t \<Longrightarrow> length t < 512"
  by (auto simp: prefix_at_def sprintf_buf_def startThen_Inr split: if_splits)

lemma accepted_reads:
  assumes "read_config v c j = Inr cf"
  shows "numeral_at j (- 1001) ''owner_userid'' = Inr (cf_owner cf)"
    and "numeral_at j (- 1001) ''management_groupid'' = Inr (cf_group cf)"
    and "buffered j (- 1001) ''osu_web_apikey'' 128 = Inr (cf_osu_key cf)"
    and "buffered j (- 1001) ''steam_web_apikey'' 128 = Inr (cf_steam_key cf)"
    and "buffered j (- 1002) ''oc_server_host'' 32 = Inr (cf_host cf)"
    and "port_at j ''oc_server_port'' = Inr (cf_port cf)"
    and "buffered j (- 1002) ''sql_user'' 8 = Inr (cf_sql_user cf)"
    and "buffered j (- 1002) ''sql_host'' 32 = Inr (cf_sql_host cf)"
    and "buffered j (- 1002) ''sql_password'' 32 = Inr (cf_sql_password cf)"
    and "buffered j (- 1002) ''sql_database'' 16 = Inr (cf_sql_database cf)"
    and "port_at j ''sql_port'' = Inr (cf_sql_port cf)"
    and "prefix_at v j = Inr (cf_prefix cf)"
  using assms unfolding read_config_def by (auto simp: startThen_Inr split: if_splits)


definition config_json :: json where
  "config_json = JObject [(''owner_userid'', JString ''1''), (''management_groupid'', JString ''2''),
     (''osu_web_apikey'', JString ''k''), (''steam_web_apikey'', JString ''s''), (''oc_server_host'', JString ''h''),
     (''oc_server_port'', JNumber ''6700''), (''sql_user'', JString ''root''), (''sql_host'', JString ''h''),
     (''sql_password'', JString ''p''), (''sql_database'', JString ''osucat''), (''sql_port'', JNumber ''3306'')]"


end
