(* ===== verification/PictureProps.thy ===== *)
theory PictureProps
  imports Portraits ScorePic ModText BotErrors StoreProps
begin

text \<open>
  The pictures of \<^verbatim>\<open>src/image.hpp\<close>: the texts and places of what is drawn, and what happens when ImageMagick
  or the network fails.
\<close>

subsection \<open>The level\<close>

text \<open>What a number with two decimals becomes.\<close>

definition percent_of :: "rat \<Rightarrow> int thrown" where
  "percent_of v = andThen (sto_rounded Single False v) (\<lambda>x. to_intT (mulf x (Num 100)))"

definition percent_shown :: "nat \<Rightarrow> int" where
  "percent_shown n = (if n = 53 then 52 else if n = 59 then 58 else int n)"

lemmas percent_eval = percent_of_def percent_shown_def sto_rounded_def to_intT_def definedT_def to_cint_def trunc_rat_def fp_eval

lemma percents:
  "percent_of (of_nat 0 / 100) = Inr (percent_shown 0)" "percent_of (of_nat 1 / 100) = Inr (percent_shown 1)"
  "list_all (\<lambda>n. percent_of (of_nat n / 100) = Inr (percent_shown n)) [2..<50]"
  "list_all (\<lambda>n. percent_of (of_nat n / 100) = Inr (percent_shown n)) [50..<101]"
  by (simp_all add: percent_eval Let_def)

lemma percent_all:
  assumes "n \<le> 100"
  shows "percent_of (of_nat n / 100) = Inr (percent_shown n)"
proof -
  have "n = 0 \<or> n = 1 \<or> n \<in> set [2..<50] \<or> n \<in> set [50..<101]" using assms by (simp only: set_upt) auto
  then show ?thesis using percents unfolding list_all_iff by blast
qed

lemma stof_hundredths:
  assumes "is_digit c" "is_digit d" "is_digit e"
  shows "stof [c, CHR ''.'', d, e] = sto_rounded Single False (of_int (dig c * 100 + dig d * 10 + dig e) / 100)"
proof -
  have "word_prefix ''infinity'' [c, CHR ''.'', d, e] < 3" "word_prefix ''nan'' [c, CHR ''.'', d, e] \<noteq> 3"
    "word_prefix ''0x'' [c, CHR ''.'', d, e] \<noteq> 2"
    using assms by (auto simp: lower_def is_digit_def)
  then show ?thesis
    using assms digit_not_space[OF assms(1)]
    by (simp add: stof_def sto_float_def significand_of_def lax_exponent_def exponent_of_def Let_def is_digit_def algebra_simps
        add_divide_distrib)
qed

lemma rounded_hundredths:
  assumes "n \<le> 100"
  shows "stof (print_nat (n div 100) @ ''.'' @ pad_digits 2 (n mod 100)) = sto_rounded Single False (of_nat n / 100)"
proof -
  have p: "print_nat k = [char_of (48 + k)]" if "k < 10" for k
    using that by (simp add: print_nat.simps[of k])
  have "pad_digits 2 k = [char_of (48 + k div 10), char_of (48 + k mod 10)]" if "k < 100" for k
  proof (cases "k < 10")
    case True
    then have "k div 10 = 0" "k mod 10 = k" by simp_all
    moreover have "char_of (48 + 0 :: nat) = CHR ''0''" by code_simp
    ultimately show ?thesis using True by (simp only: pad_digits_def p Let_def) simp
  next
    case False
    then have "print_nat k = [char_of (48 + k div 10), char_of (48 + k mod 10)]"
      using that p[of "k div 10"] by (simp add: print_nat.simps[of k])
    then show ?thesis by (simp add: pad_digits_def)
  qed
  then have s: "print_nat (n div 100) @ ''.'' @ pad_digits 2 (n mod 100) =
      [char_of (48 + n div 100), CHR ''.'', char_of (48 + n mod 100 div 10), char_of (48 + n mod 100 mod 10)]"
    using assms p[of "n div 100"] by simp
  have "n div 100 * 100 + (n mod 100 div 10) * 10 + n mod 100 mod 10 = n" by simp
  then have "int (n div 100 * 100 + (n mod 100 div 10) * 10 + n mod 100 mod 10) = int n" by (rule arg_cong)
  then have "int (n div 100) * 100 + int (n mod 100 div 10) * 10 + int (n mod 100 mod 10) = int n"
    by (simp only: of_nat_add of_nat_mult of_nat_numeral)
  moreover have "n div 100 < 10" "n mod 100 div 10 < 10" "n mod 100 mod 10 < 10" using assms by auto
  ultimately show ?thesis
    unfolding s by (subst stof_hundredths) (simp_all only: digit_char of_int_of_nat_eq)
qed

lemma printed_hundredths:
  assumes "0 \<le> x" "x \<le> 1"
  shows "\<exists>n \<le> 100. int n = rne (x * 100) \<and> stof (print_fixed 2 (Num x)) = sto_rounded Single False (of_nat n / 100)"
proof -
  define n where "n = nat (rne (x * 100))"
  have "0 \<le> rne (x * 100)" "rne (x * 100) \<le> 100"
    using assms rne_ge_int[of 0 "x * 100"] rne_le_int[of "x * 100" 100] by auto
  then have "n \<le> 100" "int n = rne (x * 100)" by (auto simp: n_def)
  moreover have "print_fixed 2 (Num x) = print_nat (n div 100) @ ''.'' @ pad_digits 2 (n mod 100)"
    using assms by (simp add: print_fixed_def n_def Let_def)
  ultimately show ?thesis using rounded_hundredths[of n] by auto
qed

text \<open>C17 The percentage of a level, for every level below 2 to the 24: the two decimals of its fraction, but 52 for
  0.53 and 58 for 0.59. The product with 100 is less than the whole number in these cases, and it is truncated.\<close>

theorem level_shown:
  assumes "0 \<le> r" "r < 2 ^ 24"
  shows "\<exists>x n. subf (Num r) (i2f \<lfloor>r\<rfloor>) = Num x \<and> n = rne (x * 100) \<and> 0 \<le> n \<and> n \<le> 100 \<and>
    level_percent (Num r) = Inr (if n = 53 then 52 else if n = 59 then 58 else n)"
proof -
  define w where "w = \<lfloor>r\<rfloor>"
  have w: "0 \<le> w" "w < 2 ^ 24" "0 \<le> r - of_int w" "r - of_int w \<le> 1"
    using assms by (auto simp: w_def floor_less_iff) linarith
  have t: "to_intT (Num r) = Inr w"
    using assms(1) w(1,2) by (simp add: to_intT_def definedT_def to_cint_def trunc_rat_def w_def ck_def in_int_iff)
  define x where "x = rnd Single (r - of_int w)"
  have one: "rnd Single 1 = 1" using rnd_of_int[of 1 Single] by simp
  then have x: "0 \<le> x" "x \<le> 1"
    unfolding x_def using w(3,4) rd.nonneg rd.le_repr by auto
  have "(1::rat) < 2 powi 128" by simp
  then have d: "subf (Num r) (i2f w) = Num x"
    using of_cint_exact_Single[of w] w x assms(1) by (simp add: fsub_finite fround_def pack_def flip: x_def)
  obtain n where n: "n \<le> 100" "int n = rne (x * 100)" "stof (print_fixed 2 (Num x)) = sto_rounded Single False (of_nat n / 100)"
    using printed_hundredths[OF x] by auto
  have "level_percent (Num r) = percent_of (of_nat n / 100)"
    by (simp add: level_percent_def t d n(3) percent_of_def)
  also have "\<dots> = Inr (percent_shown n)" using n(1) by (rule percent_all)
  finally show ?thesis
    using n(1) d unfolding w_def[symmetric] by (auto simp: percent_shown_def simp flip: n(2))
qed

theorem level_shown_witness:
  "\<exists>x n. subf (Num (107 / 2)) (i2f 53) = Num x \<and> n = rne (x * 100) \<and> 0 \<le> n \<and> n \<le> 100 \<and>
    level_percent (Num (107 / 2)) = Inr (if n = 53 then 52 else if n = 59 then 58 else n)"
proof -
  have "\<lfloor>107 / 2 :: rat\<rfloor> = 53" by (simp add: floor_eq_iff)
  moreover have "0 \<le> (107 / 2 :: rat)" "(107 / 2 :: rat) < 2 ^ 24" by simp_all
  ultimately show ?thesis using level_shown[of "107 / 2"] by (simp only: simp_thms)
qed

subsection \<open>Ranks\<close>

lemma split_has_no_minus: "CHR ''-'' \<notin> set (split_digits CHR '','' n [] 0)"
proof
  assume m: "CHR ''-'' \<in> set (split_digits CHR '','' n [] 0)"
  obtain y hs where g: "split_digits CHR '','' n [] 0 = grouped y hs" "plain y" "\<forall>g \<in> set hs. plain g" "y @ concat hs = nat_digits n"
    using split_digits_grouped[of "[]" "[]" "[]" 0 n] by (auto simp: grouped_def plain_def)
  have "CHR ''-'' \<in> set (filter (\<lambda>c. c \<noteq> CHR '','') (grouped y hs))" using m g(1) by simp
  then have "CHR ''-'' \<in> set (nat_digits n)" using concat_grouped[OF g(2,3)] g(4) by simp
  then show False
    using print_nat_digits[of "nat n"] by (auto simp: nat_digits_def is_digit_def split: if_split_asm)
qed

lemma without_minus: "CHR ''-'' \<notin> set s \<Longrightarrow> string_replace (CHR ''-'' # s) ''-'' [] = Some s"
  by (simp add: string_replace_eq replace_ref_char) (induction s, auto)

text \<open>C25 The picture of a player shows by how many places the rank in the world has changed: the absolute value in
  groups of three digits, with an arrow upwards exactly when the number has become less.\<close>

theorem rank_change_shown:
  assumes "in_int64 (ui_global_rank prev - ui_global_rank u)" "in_int64 (ui_global_rank u - ui_global_rank prev)"
    and "ui_global_rank prev \<noteq> ui_global_rank u"
  shows "\<exists>t. IntegerSplit \<bar>ui_global_rank prev - ui_global_rank u\<bar> CHR '','' = Some t \<and>
    global_change_text prev u = Inr ((if ui_global_rank u < ui_global_rank prev then T_pic_up else T_pic_down) @ t)"
proof -
  define d where "d = ui_global_rank prev - ui_global_rank u"
  have d: "in_int64 d" "in_int64 (- d)" "d \<noteq> 0" using assms by (auto simp: d_def)
  let ?ret = "split_digits CHR '','' \<bar>d\<bar> [] 0"
  let ?t = "if ?ret \<noteq> [] \<and> hd ?ret = CHR '','' then tl ?ret else ?ret"
  have abs: "IntegerSplit \<bar>d\<bar> CHR '','' = Some ?t"
    using d(3) by (simp add: IntegerSplit_def Let_def)
  have g: "global_change_text prev u = andThen (split_number d) (\<lambda>t. if d > 0 then Inr (T_pic_up @ t)
      else andThen (definedT (string_replace t ''-'' [])) (\<lambda>t. Inr (T_pic_down @ (if t \<noteq> [] \<and> hd t = CHR '','' then tl t else t))))"
    using d assms(3) by (simp add: global_change_text_def Let_def ck64_def definedT_def flip: d_def)
  show ?thesis
  proof (cases "0 < d")
    case True
    then show ?thesis using abs g by (auto simp: split_number_def definedT_def d_def)
  next
    case False
    then have "IntegerSplit d CHR '','' = Some (CHR ''-'' # ?ret)"
      using d by (simp add: IntegerSplit_def Let_def ck64_def)
    then have "split_number d = Inr (CHR ''-'' # ?ret)" by (simp add: split_number_def definedT_def)
    then have "global_change_text prev u = Inr (T_pic_down @ ?t)"
      using False g without_minus[OF split_has_no_minus] by (simp add: definedT_def)
    then show ?thesis using abs False by (auto simp: d_def)
  qed
qed

theorem rank_change_shown_witness:
  "\<exists>t. IntegerSplit \<bar>1000 - 1123\<bar> CHR '','' = Some t \<and>
    global_change_text (no_user\<lparr>ui_global_rank := 1000\<rparr>) (no_user\<lparr>ui_global_rank := 1123\<rparr>) = Inr (T_pic_down @ t)"
  using rank_change_shown[of "no_user\<lparr>ui_global_rank := 1000\<rparr>" "no_user\<lparr>ui_global_rank := 1123\<rparr>"]
  by (simp add: in_int64_def)

subsection \<open>Numbers of pp+\<close>

definition rows_of :: "drawable list \<Rightarrow> fp list" where
  "rows_of ds = concat (map (\<lambda>d. case d of DrawableText x y t \<Rightarrow> [y] | _ \<Rightarrow> []) ds)"


subsection \<open>Mods\<close>

lemma mod_icons_eq:
  "mod_icons names = map (\<lambda>k. (take 2 (drop (2 * k) names), 440 + 160 * int k)) [0..<length names div 2]"
proof -
  have "mod_icons names = map ((\<lambda>i. (mod_piece names i, mod_left i)) \<circ> Suc) [0..<length names div 2]"
    by (simp add: mod_icons_def map_Suc_upt flip: map_map del: upt_Suc)
  also have "\<dots> = map (\<lambda>k. (take 2 (drop (2 * k) names), 440 + 160 * int k)) [0..<length names div 2]"
    by (rule map_cong) (auto simp: mod_piece_def mod_left_def mult.commute)
  finally show ?thesis .
qed

lemma pieces_of_pairs:
  "\<forall>n \<in> set ns. length n = 2 \<Longrightarrow> map (\<lambda>k. take 2 (drop (2 * k) (concat ns))) [0..<length ns] = ns"
proof (induction ns)
  case (Cons n ns)
  have "map (\<lambda>k. take 2 (drop (2 * k) (concat (n # ns)))) [0..<length (n # ns)] =
      take 2 (concat (n # ns)) # map ((\<lambda>k. take 2 (drop (2 * k) (concat (n # ns)))) \<circ> Suc) [0..<length ns]"
    by (simp add: upt_conv_Cons flip: map_Suc_upt del: upt_Suc)
  also have "\<dots> = n # map (\<lambda>k. take 2 (drop (2 * k) (concat ns))) [0..<length ns]"
  proof -
    obtain a c where "n = [a, c]" using Cons.prems by (auto simp: numeral_2_eq_2 length_Suc_conv)
    then show ?thesis by simp
  qed
  finally show ?case using Cons by simp
qed simp

lemma length_pairs: "\<forall>n \<in> set ns. length n = 2 \<Longrightarrow> length (concat ns) = 2 * length ns"
  by (induction ns) auto

lemma displayed_pairs: "\<forall>n \<in> set (map (display m) (names_of all_names m)). length n = 2"
proof -
  have "\<forall>n \<in> snd ` set all_names. length n = 2" by (simp add: all_names_def first_names_def middle_names_def last_names_def)
  then show ?thesis by (auto simp: names_of_def display_def)
qed

text \<open>C18 On the picture of a play there is one icon for each of its mods, in the order and under the names of
  \<^verbatim>\<open>modParser\<close>, each 160 pixels to the right of the one before.\<close>

theorem mods_drawn:
  assumes "m \<noteq> 0" "m AND 512 \<noteq> 0 \<longrightarrow> m AND 64 \<noteq> 0" "m AND 16384 \<noteq> 0 \<longrightarrow> m AND 32 \<noteq> 0"
  shows "\<exists>names. modParser m = Inr names \<and> map fst (mod_icons names) = map (display m) (names_of all_names m) \<and>
    map snd (mod_icons names) = map (\<lambda>k. 440 + 160 * int k) [0..<length (names_of all_names m)]"
proof -
  let ?ns = "map (display m) (names_of all_names m)"
  have "modParser m = Inr (concat ?ns)" using assms by (auto simp: modParser_names)
  moreover have "map fst (mod_icons (concat ?ns)) = ?ns"
    using pieces_of_pairs[OF displayed_pairs[of m]] length_pairs[OF displayed_pairs[of m]] by (simp add: mod_icons_eq comp_def)
  moreover have "map snd (mod_icons (concat ?ns)) = map (\<lambda>k. 440 + 160 * int k) [0..<length (names_of all_names m)]"
    using length_pairs[OF displayed_pairs[of m]] by (simp add: mod_icons_eq comp_def)
  ultimately show ?thesis by blast
qed

theorem mods_drawn_witness:
  "\<exists>names. modParser 72 = Inr names \<and> map fst (mod_icons names) = map (display 72) (names_of all_names 72) \<and>
    map snd (mod_icons names) = map (\<lambda>k. 440 + 160 * int k) [0..<length (names_of all_names 72)]"
  by (rule mods_drawn) simp_all

subsection \<open>Lengths of texts\<close>

lemma print_nat_length: "n < 10 ^ k \<Longrightarrow> 0 < k \<Longrightarrow> length (print_nat n) \<le> k"
proof (induction k arbitrary: n)
  case (Suc k)
  show ?case
  proof (cases "n < 10")
    case True
    then show ?thesis by (simp add: print_nat.simps[of n])
  next
    case False
    then have "n div 10 < 10 ^ k" "0 < k" using Suc.prems by (auto simp: less_mult_imp_div_less mult.commute intro: gr0I)
    then show ?thesis using Suc.IH[of "n div 10"] False by (simp add: print_nat.simps[of n])
  qed
qed simp

lemma print_int_length: "0 \<le> n \<Longrightarrow> n < 10 ^ k \<Longrightarrow> 0 < k \<Longrightarrow> length (print_int n) \<le> k"
  using print_nat_length[of "nat n" k] by (simp add: print_int_def nat_less_iff)

lemma clock_length:
  assumes "0 \<le> ms" "ms < 2 ^ 31"
  shows "length (clock_text ms) \<le> 8"
proof -
  have c: "cdiv ms 1000 = ms div 1000" using assms(1) by (simp add: cdiv_def sgn_if)
  have p: "0 \<le> ms div 1000" using assms(1) by simp
  then have d: "cdiv (ms div 1000) 60 = ms div 1000 div 60" "cmod (ms div 1000) 60 = ms div 1000 mod 60"
    by (simp_all add: cdiv_def sgn_if cmod_nonneg_eq)
  have "ms div 1000 div 60 < 10 ^ 5" using assms(2) by simp
  then have "length (print_int (ms div 1000 div 60)) \<le> 5"
    using p by (intro print_int_length) simp_all
  moreover have "length (print_int (ms div 1000 mod 60)) \<le> 2"
    by (intro print_int_length) (simp_all add: order.strict_trans[OF pos_mod_bound])
  ultimately show ?thesis by (simp add: clock_text_def pad2_def c d Let_def)
qed

text \<open>C26 The two lengths of a map, in minutes and seconds, fit the buffer of 20 bytes for every number of
  milliseconds that an \<^verbatim>\<open>int\<close> holds, if it is not negative: the longest text has 19 characters.\<close>

theorem lengths_fit:
  assumes "0 \<le> rd_length (pp_data (pn_pp p))" "rd_length (pp_data (pn_pp p)) < 2 ^ 31"
    and "0 \<le> pp_maxlength (pn_pp p)" "pp_maxlength (pn_pp p) < 2 ^ 31"
  shows "\<exists>t. length_text p = Inr t \<and> length t \<le> 19"
  using clock_length[OF assms(1,2)] clock_length[OF assms(3,4)] by (simp add: length_text_def sprintf_buf_def)

theorem lengths_fit_witness:
  "\<exists>t. length_text (no_panel\<lparr>pn_pp := (pn_pp no_panel)\<lparr>pp_data := no_oppai\<lparr>rd_length := 2147483647\<rparr>, pp_maxlength := 2147483647\<rparr>\<rparr>) = Inr t \<and>
    length t \<le> 19"
  by (rule lengths_fit) (simp_all add: no_panel_def no_oppai_def)

subsection \<open>Failures\<close>

definition quiet :: "'a bot_prog \<Rightarrow> bool" where
  "quiet m \<longleftrightarrow> (\<forall>b. fst (m b) = b)"

named_theorems quiet_rules \<open>programs that change nothing\<close>

lemma quiet_bind [quiet_rules]: "quiet m \<Longrightarrow> (\<And>x. quiet (f x)) \<Longrightarrow> quiet (bindB m f)"
  by (auto simp: quiet_def bindB_def split: prod.split sum.split) (metis fst_conv)+

lemma quiet_made [quiet_rules]: "quiet (made N i)" "quiet (retB x)"
  by (simp_all add: quiet_def made_def retB_def liftB_def)

lemma quiet_open [quiet_rules]: "quiet (open_image N path)"
  using quiet_made(1) by (auto simp: quiet_def open_image_def split: option.split)

lemma quiet_edit [quiet_rules]: "quiet (blank N w h c)" "quiet (draw N dl i)" "quiet (composite N j x y op i)"
    "quiet (resize N w h i)" "quiet (set_to s i)"
  by (simp_all add: blank_def draw_def composite_def resize_def set_to_def quiet_made)

lemma quiet_edits [quiet_rules]: "list_all (\<lambda>f. \<forall>j. quiet (f j)) fs \<Longrightarrow> quiet (edits fs i)"
  by (induction fs arbitrary: i) (auto intro: quiet_rules)

lemma quiet_rounded_frame [quiet_rules]: "quiet (rounded_frame N w h d)"
  unfolding rounded_frame_def by (intro quiet_rules)

lemma quiet_avatar: "quiet (draw_avatar_file N path i)"
  unfolding draw_avatar_file_def round_avatar_def Let_def
  by (intro quiet_rules) (simp_all add: quiet_rules)

text \<open>A program that changes nothing and fails in ImageMagick leaves everything to the handler.\<close>

lemma handler_runs:
  assumes "m b = (b, Inl MagickError)"
  shows "on_magick_error h m b = h b"
  using assms by (simp add: on_magick_error_def catchB_def)

lemma delete_then_quiet: "quiet m \<Longrightarrow> fst (thenB (DeleteFileA path) m b) = b\<lparr>bt_files := (bt_files b)(path := None)\<rparr>"
  by (simp add: quiet_def thenB_def bindB_def DeleteFileA_def)

lemma broken_open:
  assumes "bt_files b path = Some c" "\<not> mg_works (sc_magick N) (Opened c)"
  shows "open_image N path b = (b, Inl MagickError)"
  using assms by (simp add: open_image_def made_def liftB_def)

lemma rounded_frame_result: "rounded_frame N w h d b = (b, Inl MagickError) \<or> (\<exists>f. rounded_frame N w h d b = (b, Inr f))"
  by (simp add: rounded_frame_def blank_def draw_def made_def bindB_def retB_def liftB_def)

text \<open>C24 When the file of an avatar is there and ImageMagick cannot read it, the picture of the player deletes this file,
  to download it again the next time. The picture of a play deletes that of the user whom the panel is
  about: if this is not the player of the score, the broken file stays.\<close>

theorem broken_avatar_stays:
  assumes "bt_files b (avatar_path uid) = Some c" "\<not> mg_works (sc_magick N) (Opened c)"
    and "si_user_id (pn_score p) = uid"
  shows "fst (v1_avatar N uid event i b) = b\<lparr>bt_files := (bt_files b)(avatar_path uid := None)\<rparr> \<and>
    fst (draw_score_avatar N p ctemp i b) = b\<lparr>bt_files := (bt_files b)(avatar_path (ui_user_id (pn_user p)) := None)\<rparr>"
proof
  have o: "open_image N (avatar_path uid) b = (b, Inl MagickError)" using assms(1,2) by (rule broken_open)
  have fetch: "thenB (fetch_avatar N uid) m b = m b" "thenB (fetch_score_avatar N uid ctemp) m b = m b" for m :: "image bot_prog"
    using assms(1) by (simp_all add: fetch_avatar_def fetch_score_avatar_def Let_def thenB_def bindB_def fileExist_def retB_def)
  have d: "draw_avatar_file N (avatar_path uid) i b = (b, Inl MagickError)"
    by (simp add: draw_avatar_file_def bindB_def o)
  show "fst (draw_score_avatar N p ctemp i b) = b\<lparr>bt_files := (bt_files b)(avatar_path (ui_user_id (pn_user p)) := None)\<rparr>"
    by (simp add: draw_score_avatar_def Let_def assms(3) fetch handler_runs[of "draw_avatar_file N (avatar_path uid) i" b, OF d] delete_then_quiet quiet_avatar)
  have v: "bindB (rounded_frame N 190 190 r) (\<lambda>f. bindB (bindB (open_image N (avatar_path uid)) g) (k f)) b = (b, Inl MagickError)" for r g and
      k :: "image \<Rightarrow> image \<Rightarrow> image bot_prog"
    using rounded_frame_result[of N 190 190 r b] by (auto simp: bindB_def o)
  show "fst (v1_avatar N uid event i b) = b\<lparr>bt_files := (bt_files b)(avatar_path uid := None)\<rparr>"
    unfolding v1_avatar_def Let_def fetch
    by (subst handler_runs, rule v, rule delete_then_quiet) (intro quiet_rules)
qed

definition broken_world :: bot where
  "broken_world = bot1\<lparr>bt_files := [avatar_path 7 \<mapsto> []]\<rparr>"

definition broken_env :: score_env where
  "broken_env = (senv1 unreachable (\<lambda>_. Inl ParseError))\<lparr>sc_magick := magick1\<lparr>mg_works := (\<lambda>i. i \<noteq> Opened [])\<rparr>\<rparr>"

theorem broken_avatar_stays_witness:
  "fst (v1_avatar broken_env 7 False (Blank 1 1 ''none'') broken_world) =
     broken_world\<lparr>bt_files := (bt_files broken_world)(avatar_path 7 := None)\<rparr> \<and>
   fst (draw_score_avatar broken_env (no_panel\<lparr>pn_score := no_score\<lparr>si_user_id := 7\<rparr>\<rparr>) [] (Blank 1 1 ''none'') broken_world) =
     broken_world\<lparr>bt_files := (bt_files broken_world)(avatar_path (ui_user_id (pn_user (no_panel\<lparr>pn_score := no_score\<lparr>si_user_id := 7\<rparr>\<rparr>))) := None)\<rparr>"
  by (rule broken_avatar_stays) (simp_all add: broken_world_def broken_env_def)

lemma folder_fits:
  assumes "in_int64 sid"
  shows "length (beatmap_folder sid) < 512"
proof -
  have p: "length (print_int n) \<le> 20" if "\<bar>n\<bar> \<le> 2 ^ 63" for n
  proof -
    have "nat \<bar>n\<bar> < 10 ^ 19" using that by (simp add: nat_less_iff)
    then show ?thesis using print_nat_length[of "nat \<bar>n\<bar>" 19] by (cases "n < 0") (simp_all add: print_int_def)
  qed
  have "\<bar>sid\<bar> \<le> 2 ^ 63" using assms by (auto simp: in_int64_def)
  moreover have "\<bar>cdiv sid 10000\<bar> \<le> \<bar>sid\<bar>"
  proof -
    have "0 \<le> \<bar>sid\<bar> div 10000" "\<bar>sid\<bar> div 10000 \<le> \<bar>sid\<bar>"
      using zdiv_mono2[of "\<bar>sid\<bar>" 1 10000] by simp_all
    then show ?thesis by (cases sid "0 :: int" rule: linorder_cases) (simp_all add: cdiv_def abs_mult)
  qed
  ultimately have "length (print_int sid) \<le> 20" "length (print_int (cdiv sid 10000)) \<le> 20"
    using p by simp_all
  moreover have "length (print_int 0) \<le> 20" by (simp add: p)
  ultimately show ?thesis by (auto simp: beatmap_folder_def Let_def)
qed

text \<open>C16 When the list of the files of a map has at most five bytes, the exception that the picture of a play throws
  passes all handlers of the dispatcher: it is of the base class, which none of them names. Nothing is
  answered, and the program ends.\<close>

theorem picture_error_escapes:
  assumes "mg_works (sc_magick N) (Blank 1948 1088 ''none'')" "in_int64 (bi_beatmapset_id (pn_beatmap p))"
    and "sc_https N (wd_log (bt_world b)) (beatmap_folder (bi_beatmapset_id (pn_beatmap p))) = Inr t" "length t \<le> 5"
  shows "handled E tar m (send_score N tar' bid p) b = (b, Inl OsucatError)"
proof -
  have "scorePic N p b = (b, Inl OsucatError)"
    using assms folder_fits[OF assms(2)]
    by (simp add: scorePic_def blank_def made_def set_to_def https_def bindB_def retB_def liftB_def sprintf_buf_def)
  then show ?thesis
    by (simp add: send_score_def bindB_def handled_def std_exception_def)
qed

theorem picture_error_escapes_witness:
  "handled (env1 unreachable (\<lambda>_. Inl ParseError)) (private_text ''recent'') T_some_error
     (send_score ((senv1 unreachable (\<lambda>_. Inl ParseError))\<lparr>sc_https := (\<lambda>_ _. Inr ''[]'')\<rparr>) (private_text ''recent'') 3 no_panel) bot1 =
   (bot1, Inl OsucatError)"
  by (rule picture_error_escapes[where t = "''[]''"]) (simp_all add: senv1_def magick1_def no_panel_def no_beatmap_def in_int64_def)

end
