(* ===== verification/Spec2Isabelle.thy ===== *)
theory Spec2Isabelle
  imports Acc ApiProps DiffProps Country OsuApiProps WrapperProps BotProps RouteProps BotErrors StoreProps SteamProps PlayProps PictureProps
begin

text \<open>
  A verification library for osucat, a chat bot for the game osu! (directory \<^verbatim>\<open>src/osucat\<close> of the
  repository; paths below are relative to it).

  \<^bold>\<open>The program.\<close> The bot receives chat messages, asks the web interface of osu! and a MySQL
  database for players, scores and maps, computes difficulty and performance points with the
  vendored but modified calculator \<^verbatim>\<open>src/include/oppai-cpp/oppai/oppai.c\<close>, and answers with texts
  and pictures. It also watches Steam players for bans. The parts modelled here are the calculator, its
  C++ wrapper, the sets of mods, the client of the web interface, the database class, the string, number
  and table helpers, the hangman game with its lobby, the chat interface, the dispatcher of messages, the
  commands on accounts, on players and on their plays with the pictures that they draw, the administrators'
  commands, the small games, the Steam part, the daily update and the start of the program.

  A text of the chat server goes through \<open>on_text\<close>: \<open>Parser\<close> makes a message or request of it, \<open>dispatch\<close>
  treats the prefix and the exceptions, \<open>route\<close> finds the command, \<open>run_handler\<close> runs it, with \<open>commands\<close> for
  those on players and plays; \<open>on_event\<close> also has the turns of the two endless threads. A command is a
  program (\<open>bot_prog\<close>) on the state \<open>bot\<close>: the world of the game with the log of the database and the ticks of
  the clock, the texts sent, the list of administrators and the files.

  \<^bold>\<open>Theories of the calculator\<close> (\<^verbatim>\<open>oppai.c\<close>).
  \<^item> \<open>Prelude\<close>: C integers with overflow as undefined behaviour (\<open>ck\<close>), checked reads, shared lemmas.
    \<open>CFloat\<close>: IEEE 754 values and operations by exact rationals, the locale \<open>rounding\<close> of the laws
    of a rounding function, interpreted on that of the model. \<open>CMath\<close>: bit patterns, vectors,
    the macros; \<open>sin\<close>, \<open>pow\<close>, \<open>log10\<close>, \<open>log\<close> and \<open>atan2\<close> are fields of the parameter \<open>libm\<close>.
  \<^item> \<open>Slices\<close> (\<^verbatim>\<open>slice_*\<close>, \<^verbatim>\<open>p_consume_til\<close>), \<open>Arena\<close> (growable arrays and the arena \<^verbatim>\<open>m_*\<close>; the locale
    \<open>bump_allocator\<close> and its interpretation), \<open>State\<close> (constants and structs), \<open>Mods\<close> (\<^verbatim>\<open>mods_apply\<close>).
  \<^item> \<open>Scan\<close> (the conversions of \<^verbatim>\<open>sscanf\<close>), \<open>Parser\<close> (every \<^verbatim>\<open>p_*\<close> line handler), \<open>ParseMap\<close>
    (\<^verbatim>\<open>p_end\<close>, \<^verbatim>\<open>p_reset\<close>, \<^verbatim>\<open>p_map\<close>, \<^verbatim>\<open>p_map_mem\<close>), \<open>Lines\<close> (the contract \<open>line_handler\<close> of the
    handlers, interpreted on each of them, and the runs over whole files), \<open>ParserProps\<close>.
  \<^item> \<open>DiffStd\<close>, \<open>DiffTaiko\<close>, \<open>Acc\<close>, \<open>PP\<close>: difficulty, accuracy and performance points;
    \<open>DiffProps\<close> their properties.
  \<^item> \<open>Iface\<close> (the \<^verbatim>\<open>ezpp_*\<close> functions), \<open>Handle\<close> (a new handle meets the parser's invariant),
    \<open>Api\<close> (the calls as an inductive step relation with its invariants), \<open>ApiProps\<close>.

  \<^bold>\<open>Theories of the bot\<close> (C++).
  \<^item> \<open>Country\<close>, \<open>Strings\<close>, \<open>Numbers\<close>: helpers of \<^verbatim>\<open>sdk/utils.hpp\<close>. \<open>ModSet\<close>: the class \<^verbatim>\<open>Mod\<close> of
    \<^verbatim>\<open>src/include/oppai-cpp/oppai/mods.hpp\<close>. \<open>ModText\<close>: \<^verbatim>\<open>modParser\<close> of \<^verbatim>\<open>src/include/osu_api.hpp\<close>.
  \<^item> \<open>Json\<close>: exceptions as values of a sum type, JSON values and the conversions \<^verbatim>\<open>stoi\<close> to
    \<^verbatim>\<open>stod\<close> as the C++ standard has them, and \<open>assign\<close> and \<open>assign_or\<close>, the two ways in which the
    bot fills a member of a record, the second with a handler of \<^verbatim>\<open>std::exception\<close>.
  \<^item> \<open>OsuApi\<close>, \<open>OsuApiProps\<close>: the requests of \<^verbatim>\<open>src/include/osu_api.hpp\<close>. A function fills the record
    behind its pointer member by member and returns it also when it throws.
  \<^item> \<open>Wrapper\<close>, \<open>WrapperProps\<close>: the class \<^verbatim>\<open>oppai\<close> of \<^verbatim>\<open>src/include/oppai-cpp/oppai.hpp\<close> on top of \<open>Iface\<close>.
  \<^item> \<open>Database\<close>, \<open>Store\<close>: the class \<^verbatim>\<open>Database\<close> of \<^verbatim>\<open>src/include/mysql.hpp\<close>; the state of a connection is the
    list of the statements sent. \<open>StoreProps\<close>: lists of medals and receivers, missing records.
  \<^item> \<open>GameText\<close>, \<open>Hangman\<close>, \<open>Lobby\<close>: \<^verbatim>\<open>src/games/hangman.hpp\<close>, the class \<^verbatim>\<open>Hangman\<close> (a room) and the
    class \<^verbatim>\<open>HangmanGame\<close> (the commands on 20 rooms and the ranking), as programs on a world of rooms,
    database log and ticks of the clock. \<open>LobbyProps\<close>: frame rules, results and a small Hoare
    calculus that speaks of exceptions, and the commands as an inductive relation of reachable
    worlds. \<open>GameProps\<close>: its properties.
  \<^item> \<open>BotText\<close>: the texts of the answers, in the bytes of the source. \<open>WordFilter\<close>: the forbidden words. \<open>Chat\<close>: \<^verbatim>\<open>src/message.h\<close>, the messages
    and requests of \<^verbatim>\<open>sdk/cqhttp_api.hpp\<close> and \<^verbatim>\<open>sdk/client.hpp\<close>, the handlers of \<^verbatim>\<open>src/main.hpp\<close>.
    \<open>Commands\<close>, \<open>Admin\<close>: classes \<^verbatim>\<open>Main\<close> (accounts and options) and \<^verbatim>\<open>Admin\<close> of \<^verbatim>\<open>src/osucat.hpp\<close>. \<open>Addons\<close>:
    \<^verbatim>\<open>src/addons.hpp\<close>. \<open>Steamcat\<close>: \<^verbatim>\<open>src/steamcat.hpp\<close>. \<open>Dispatch\<close>: the class \<^verbatim>\<open>CmdParser\<close> of \<^verbatim>\<open>src/osucat.hpp\<close>
    as tables of names, which \<open>lookup_command\<close> searches in the order of the source.
  \<^item> \<open>Players\<close>: how commands find the player and the mode they are asked for. \<open>Scoring\<close>: the data of a picture,
    the points of a play through \<open>Wrapper\<close>, the accuracy in the other modes. \<open>WebApis\<close>: the clients of
    \<^verbatim>\<open>src/include/winhttp.hpp\<close>. \<open>Plays\<close>, \<open>Figures\<close>, \<open>Costs\<close>: the commands of the class \<^verbatim>\<open>Main\<close> on plays and
    players, and the daily update of the class \<^verbatim>\<open>System\<close>. \<open>Program\<close>: the whole bot and its
    events. \<open>Startup\<close>: folders, configuration and administrators at the start.
  \<^item> \<open>Magick\<close>: what \<^verbatim>\<open>src/image.hpp\<close> uses of Magick++; an image is the term of the operations that made it.
    \<open>Pictures\<close>: these operations as programs on the files of the bot, avatars and the hexagram. \<open>ScorePic\<close>: \<^verbatim>\<open>scorePic\<close>.
    \<open>Portraits\<close>: the pictures of players. \<open>PictureProps\<close>: what is shown, and what happens when a picture fails.
  \<^item> \<open>RouteProps\<close>: which command a message reaches. \<open>BotRel\<close>: the locale \<open>bot_relation\<close> of a relation that
    the parts of the state may move along, \<open>bot_game\<close> of one that the game respects; in them every
    command is shown once to move along the relation. \<open>ScoreRel\<close> extends the contract (\<open>program_relation\<close>) to the
    whole program and its events. \<open>BotProps\<close> interprets it on three relations (the rooms
    stay well-formed, the administrators stay the same, nothing is sent) and defines the reachable states
    of the bot. \<open>BotEnv\<close>: environments for examples. \<open>BotErrors\<close>: exceptions and dropped messages.
    \<open>SteamProps\<close>: who is told of a ban. \<open>PlayProps\<close>: plays, players, the daily update and the start.

  \<^bold>\<open>What the lemmas show.\<close> The calculator: reading any file of bounded size meets no undefined
  behaviour and keeps the memory invariant; the byte-wise reading loop refines splitting into lines;
  the handle's flags and settings follow the history of calls; the allocator returns disjoint
  memory; counts, accuracy, sorting and ranges are right. The bot: escaping, splitting, replacing and
  the texts of mods do what they should, with the inputs for which they do not; the requests give
  defaults, or throw; in the lobby no player has two rooms and the points always fit the guesses,
  whatever exceptions the commands throw, and without exceptions no finished game stays in a room;
  the invariant of the rooms holds over every sequence of texts from the chat server. Commands are reached
  under their names, those of the administrators only by them; only the owner changes their list;
  exceptions are answered, with the exceptions that are not. An accuracy is a percentage, the best play asked
  for is there, a configuration that is accepted fits its buffers, and the daily update contains its errors.
  Pictures show the ranks and mods that the data have, and levels but for two fractions; an exception of the
  picture of a play passes all handlers.

  \<^bold>\<open>Undefined behaviour and errors.\<close> In the theories of the calculator \<^const>\<open>None\<close> is undefined
  behaviour and negative results are the error codes of the source. In those of the bot a
  result is \<open>Inl\<close> of an exception or \<open>Inr\<close> of a value; the exceptions \<open>Undefined\<close> and \<open>Aborted\<close> stand
  for undefined behaviour and for the termination of the program by the runtime library.

  \<^bold>\<open>Bounds.\<close> The safety of the parser is shown for files of at most a million lines with runs of at
  most nine digits, which is what the checks of the source rely on (longer runs make \<^verbatim>\<open>sscanf\<close>
  undefined). The search for a word of \<open>skip_removed\<close> has the length of the table and one as
  fuel: each step looks at the next entry, so more steps would leave the table, which is undefined
  in the source as well.

  \<^bold>\<open>Parameters.\<close> The functions of \<^verbatim>\<open>math.h\<close> that IEEE 754 leaves open, the files, the success of
  allocations, \<^verbatim>\<open>rand()\<close>, \<^verbatim>\<open>time()\<close>, \<^verbatim>\<open>mktime()\<close>, the answers of the web interfaces and of the MySQL
  server, the JSON parser and printer, the values a C++ program leaves indeterminate, and the tables of words of the hangman game (\<^verbatim>\<open>src/games/hangman.hpp\<close>, lines 102 to 1102) with their
  frequencies: of these \<open>tables_ok\<close> says what holds of the tables in the file. Further parameters
  are which images ImageMagick can make, how large they and their texts are and what their files contain
  (record \<open>magick\<close>), what it makes of an uploaded picture, and the contents of a panel that was not initialised.

  \<^bold>\<open>Not modelled.\<close> The vendored libraries (\<^verbatim>\<open>extern\<close>, \<^verbatim>\<open>include/json\<close>, \<^verbatim>\<open>include/easywsclient\<close>) are not
  the program's own code. The requests in \<^verbatim>\<open>src/include/winhttp.hpp\<close>
  are calls of the Windows API: pure input and output. Of \<^verbatim>\<open>sdk/utils.hpp\<close> the console functions and
  the forbidden words that are never compared with are left out. Of \<^verbatim>\<open>src/osucat.hpp\<close> \<^verbatim>\<open>updatebadgeinfo\<close>, which nothing calls, and what is printed
  on the console are left out; the two endless loops are single turns. The threads that delete a downloaded
  picture after a while are left out: pictures stay. Threads that the program detaches are run at once.
\<close>

end
